(* ===== verification/Prelude.thy ===== *)
theory Prelude
  imports Main "HOL-Library.List_Lexorder" "HOL-Library.Char_ord"
begin

text \<open>
  Shared vocabulary of the development: Python exceptions as values, the \<open>dict.fromkeys\<close>
  de-duplication idiom, Python truthiness of optional values, and the generic list and
  result lemmas the component theories rely on.

  A Python \<open>str\<close> is modelled by the byte sequence of its UTF-8 encoding (\<^typ>\<open>string\<close>):
  equality and the code-point order of Python strings coincide with equality and the
  bytewise lexicographic order of their encodings.
\<close>

section \<open>Named theorem collections\<close>

named_theorems err_simps \<open>unfolding rules for operations that return an error value\<close>
named_theorems store_simps \<open>lookup rules for the persistent tables\<close>

section \<open>Exceptions as values\<close>

text \<open>The exception classes the modelled code raises, with the message it passes.\<close>

datatype py_error =
    ValueError string
  | TypeError string
  | LookupError string
  | RuntimeError string
  | OSError string
  | SqliteError string
  | AssertionError string
  | CancelledError

type_synonym 'a res = "py_error + 'a"

definition bindR :: "'a res \<Rightarrow> ('a \<Rightarrow> 'b res) \<Rightarrow> 'b res" where
  "bindR m f = (case m of Inl e \<Rightarrow> Inl e | Inr x \<Rightarrow> f x)"

lemma bindR_simps [simp]:
  "bindR (Inl e) f = Inl e"
  "bindR (Inr x) f = f x"
  by (simp_all add: bindR_def)

lemma bindR_eq_Inr [simp]: "bindR m f = Inr y \<longleftrightarrow> (\<exists>x. m = Inr x \<and> f x = Inr y)"
  by (cases m) simp_all

lemma bindR_assoc: "bindR (bindR m f) g = bindR m (\<lambda>x. bindR (f x) g)"
  by (cases m) simp_all

text \<open>\<open>raise\<close> guarded by a condition, as in \<open>if cond: raise E\<close>.\<close>

definition raise_if :: "bool \<Rightarrow> py_error \<Rightarrow> unit res" where
  "raise_if c e = (if c then Inl e else Inr ())"

lemma raise_if_simps [simp]:
  "raise_if True e = Inl e"
  "raise_if False e = Inr ()"
  "(raise_if c e = Inr u) = (\<not> c)"
  "(raise_if c e = Inl e') = (c \<and> e' = e)"
  by (auto simp: raise_if_def)

text \<open>A comprehension that raises as soon as one element does.\<close>

fun mapR :: "('a \<Rightarrow> 'b res) \<Rightarrow> 'a list \<Rightarrow> 'b list res" where
  "mapR f [] = Inr []"
| "mapR f (x # xs) = bindR (f x) (\<lambda>y. bindR (mapR f xs) (\<lambda>ys. Inr (y # ys)))"

lemma mapR_cong [fundef_cong]:
  "xs = ys \<Longrightarrow> (\<And>x. x \<in> set ys \<Longrightarrow> f x = g x) \<Longrightarrow> mapR f xs = mapR g ys"
  by (induction xs arbitrary: ys) (auto simp: bindR_def split: sum.splits)

lemma mapR_Inr_length: "mapR f xs = Inr ys \<Longrightarrow> length ys = length xs"
  by (induction xs arbitrary: ys) auto

lemma mapR_Inr_iff: "mapR f xs = Inr ys \<longleftrightarrow> list_all2 (\<lambda>x y. f x = Inr y) xs ys"
  by (induction xs arbitrary: ys) (auto simp: list_all2_Cons1)

lemma mapR_pure [simp]: "mapR (\<lambda>x. Inr (f x)) xs = Inr (map f xs)"
  by (induction xs) simp_all

lemma mapR_all_Inr: "(\<And>x. x \<in> set xs \<Longrightarrow> f x = Inr (g x)) \<Longrightarrow> mapR f xs = Inr (map g xs)"
  by (induction xs) simp_all

section \<open>Ordered de-duplication\<close>

text \<open>
  \<open>tuple(dict.fromkeys(xs))\<close>: the distinct elements of \<open>xs\<close> in the order of their first
  occurrence.
\<close>

fun fromkeys :: "'a list \<Rightarrow> 'a list" where
  "fromkeys [] = []"
| "fromkeys (x # xs) = x # filter (\<lambda>y. y \<noteq> x) (fromkeys xs)"

lemma set_fromkeys [simp]: "set (fromkeys xs) = set xs"
  by (induction xs) auto

lemma distinct_fromkeys [simp]: "distinct (fromkeys xs)"
  by (induction xs) auto

lemma fromkeys_distinct [simp]: "distinct xs \<Longrightarrow> fromkeys xs = xs"
proof (induction xs)
  case (Cons x xs)
  then have "filter (\<lambda>y. y \<noteq> x) xs = xs"
    by (auto simp: filter_id_conv)
  with Cons show ?case by simp
qed simp

lemma fromkeys_idem [simp]: "fromkeys (fromkeys xs) = fromkeys xs"
  by simp

lemma fromkeys_Nil_iff [simp]: "fromkeys xs = [] \<longleftrightarrow> xs = []"
  by (cases xs) simp_all

lemma hd_fromkeys: "xs \<noteq> [] \<Longrightarrow> hd (fromkeys xs) = hd xs"
  by (cases xs) simp_all

lemma fromkeys_append:
  "fromkeys (xs @ ys) = fromkeys xs @ filter (\<lambda>y. y \<notin> set xs) (fromkeys ys)"
  by (induction xs) (auto intro: filter_cong)

lemma fromkeys_append_id: "set ys \<subseteq> set xs \<Longrightarrow> distinct xs \<Longrightarrow> fromkeys (xs @ ys) = xs"
  by (auto simp: fromkeys_append filter_empty_conv)

section \<open>Python truthiness\<close>

text \<open>\<open>a or b\<close> on optional objects that are always true when present.\<close>

definition opt_or :: "'a option \<Rightarrow> 'a option \<Rightarrow> 'a option" where
  "opt_or a b = (case a of None \<Rightarrow> b | Some x \<Rightarrow> Some x)"

lemma opt_or_simps [simp]: "opt_or None b = b" "opt_or (Some x) b = Some x"
  by (simp_all add: opt_or_def)

text \<open>\<open>a or b\<close> on optional strings: the empty string is false too.\<close>

definition str_or :: "string option \<Rightarrow> string option \<Rightarrow> string option" where
  "str_or a b = (case a of None \<Rightarrow> b | Some s \<Rightarrow> if s = [] then b else Some s)"

definition str_default :: "string option \<Rightarrow> string \<Rightarrow> string" where
  "str_default a d = (case a of None \<Rightarrow> d | Some s \<Rightarrow> if s = [] then d else s)"

text \<open>
  \<open>s[:n]\<close> counts code points: a byte of the form \<open>10xxxxxx\<close> continues the code point
  before it.
\<close>

definition utf8_continuation :: "char \<Rightarrow> bool" where
  "utf8_continuation c \<longleftrightarrow> 128 \<le> (of_char c :: nat) \<and> (of_char c :: nat) < 192"

fun str_take :: "nat \<Rightarrow> string \<Rightarrow> string" where
  "str_take n [] = []"
| "str_take n (c # cs) =
     (if utf8_continuation c then c # str_take n cs
      else case n of 0 \<Rightarrow> [] | Suc m \<Rightarrow> c # str_take m cs)"

lemma str_take_prefix: "\<exists>ys. xs = str_take n xs @ ys"
  by (induction n xs rule: str_take.induct) (auto split: nat.splits)

text \<open>\<open>len(s)\<close> counts code points too.\<close>

definition str_len :: "string \<Rightarrow> nat" where
  "str_len s = length (filter (\<lambda>c. \<not> utf8_continuation c) s)"

text \<open>A text literal outside ASCII, given by its Unicode code points.\<close>

definition utf8_char :: "nat \<Rightarrow> string" where
  "utf8_char n =
     (if n < 0x80 then [char_of n]
      else if n < 0x800 then map char_of [0xC0 + n div 64, 0x80 + n mod 64]
      else if n < 0x10000
      then map char_of [0xE0 + n div 4096, 0x80 + n div 64 mod 64, 0x80 + n mod 64]
      else map char_of [0xF0 + n div 262144, 0x80 + n div 4096 mod 64,
                        0x80 + n div 64 mod 64, 0x80 + n mod 64])"

definition utf8 :: "nat list \<Rightarrow> string" where
  "utf8 ns = concat (map utf8_char ns)"

section \<open>Lists\<close>

lemma sum_list_filter_le:
  fixes f :: "'a \<Rightarrow> nat"
  shows "sum_list (map f (filter P xs)) \<le> sum_list (map f xs)"
  by (induction xs) auto

lemma find_SomeD: "find P xs = Some x \<Longrightarrow> x \<in> set xs \<and> P x"
  by (auto simp: find_Some_iff)

section \<open>Loops that may raise\<close>

text \<open>A \<open>for\<close> loop that threads a state and stops at the first exception.\<close>

fun foldR :: "('s \<Rightarrow> 'e \<Rightarrow> 's res) \<Rightarrow> 's \<Rightarrow> 'e list \<Rightarrow> 's res" where
  "foldR f s [] = Inr s"
| "foldR f s (x # xs) = bindR (f s x) (\<lambda>s'. foldR f s' xs)"

lemma foldR_append: "foldR f s (xs @ ys) = bindR (foldR f s xs) (\<lambda>s'. foldR f s' ys)"
  by (induction xs arbitrary: s) (simp_all add: bindR_assoc)

lemma foldR_invariant:
  assumes "\<And>s x s'. x \<in> set xs \<Longrightarrow> P s \<Longrightarrow> f s x = Inr s' \<Longrightarrow> P s'"
  shows "foldR f s xs = Inr t \<Longrightarrow> P s \<Longrightarrow> P t"
  using assms by (induction xs arbitrary: s) auto

section \<open>Effectful code\<close>

text \<open>
  Code that runs against a mutable world: it ends with a value or an exception, and in both cases
  with the world as it is then.  \<open>tryE m h\<close> is \<open>try: m except ...: ...\<close>, where \<open>h\<close> gives the
  handler of the exceptions that the clause names.
\<close>

type_synonym ('s, 'a) eff = "'s \<Rightarrow> 'a res \<times> 's"

definition retE :: "'a \<Rightarrow> ('s, 'a) eff" where
  "retE x = (\<lambda>s. (Inr x, s))"

definition raiseE :: "py_error \<Rightarrow> ('s, 'a) eff" where
  "raiseE e = (\<lambda>s. (Inl e, s))"

definition bindE :: "('s, 'a) eff \<Rightarrow> ('a \<Rightarrow> ('s, 'b) eff) \<Rightarrow> ('s, 'b) eff" where
  "bindE m f = (\<lambda>s. case m s of (Inl e, t) \<Rightarrow> (Inl e, t) | (Inr x, t) \<Rightarrow> f x t)"

definition tryE :: "('s, 'a) eff \<Rightarrow> (py_error \<Rightarrow> ('s, 'a) eff option) \<Rightarrow> ('s, 'a) eff" where
  "tryE m h = (\<lambda>s. case m s of
     (Inl e, t) \<Rightarrow> (case h e of None \<Rightarrow> (Inl e, t) | Some k \<Rightarrow> k t)
   | (Inr x, t) \<Rightarrow> (Inr x, t))"

lemma eff_simps [simp]:
  "retE x s = (Inr x, s)"
  "raiseE e s = (Inl e, s)"
  by (simp_all add: retE_def raiseE_def)

lemma bindE_ret [simp]: "bindE (retE x) f = f x"
  by (rule ext) (simp add: bindE_def)

lemma bindE_run: "m s = (Inr x, t) \<Longrightarrow> bindE m f s = f x t"
  by (simp add: bindE_def)

lemma bindE_fail: "m s = (Inl e, t) \<Longrightarrow> bindE m f s = (Inl e, t)"
  by (simp add: bindE_def)

text \<open>
  Triples: from a world in \<open>P\<close>, the world afterwards is related to it by \<open>R\<close>, also when an
  exception is raised, and a value is returned only with \<open>Q\<close>.
\<close>

definition spec :: "('s \<Rightarrow> bool) \<Rightarrow> ('s \<Rightarrow> 's \<Rightarrow> bool) \<Rightarrow> ('s, 'a) eff \<Rightarrow> ('a \<Rightarrow> 's \<Rightarrow> bool) \<Rightarrow> bool" where
  "spec P R m Q \<longleftrightarrow>
     (\<forall>s r t. P s \<longrightarrow> m s = (r, t) \<longrightarrow> R s t \<and> (\<forall>x. r = Inr x \<longrightarrow> Q x t))"

lemma specI:
  "(\<And>s r t. P s \<Longrightarrow> m s = (r, t) \<Longrightarrow> R s t \<and> (\<forall>x. r = Inr x \<longrightarrow> Q x t)) \<Longrightarrow> spec P R m Q"
  by (auto simp: spec_def)

lemma specD:
  assumes "spec P R m Q" "P s" "m s = (r, t)"
  shows "R s t" and "r = Inr x \<Longrightarrow> Q x t"
  using assms by (auto simp: spec_def)

lemma spec_ret: "reflp R \<Longrightarrow> (\<And>s. P s \<Longrightarrow> Q x s) \<Longrightarrow> spec P R (retE x) Q"
  by (auto simp: spec_def dest: reflpD)

lemma spec_raise: "reflp R \<Longrightarrow> spec P R (raiseE e) Q"
  by (auto simp: spec_def dest: reflpD)

lemma spec_weaken:
  "spec P R m Q \<Longrightarrow> (\<And>s. P' s \<Longrightarrow> P s) \<Longrightarrow> (\<And>x s. Q x s \<Longrightarrow> Q' x s) \<Longrightarrow> spec P' R m Q'"
  unfolding spec_def by metis

lemma spec_bind:
  assumes "transp R" "spec P R m Q" "\<And>x. spec (Q x) R (f x) Q'"
  shows "spec P R (bindE m f) Q'"
proof (rule specI)
  fix s r t assume p: "P s" and h: "bindE m f s = (r, t)"
  obtain q u where m: "m s = (q, u)" by (cases "m s")
  have su: "R s u" by (rule specD(1) [OF assms(2) p m])
  show "R s t \<and> (\<forall>x. r = Inr x \<longrightarrow> Q' x t)"
  proof (cases q)
    case (Inl e)
    then show ?thesis using h m su by (auto simp: bindE_def)
  next
    case (Inr x)
    then have q: "Q x u" using specD(2) [OF assms(2) p m] by blast
    have f: "f x u = (r, t)" using h m Inr by (simp add: bindE_def)
    show ?thesis
      using specD(1) [OF assms(3) q f] specD(2) [OF assms(3) q f] su assms(1)
      by (blast dest: transpD)
  qed
qed

lemma spec_try:
  assumes "transp R" "spec P R m Q" "\<And>e k. h e = Some k \<Longrightarrow> spec P' R k Q"
    "\<And>s t. P s \<Longrightarrow> R s t \<Longrightarrow> P' t"
  shows "spec P R (tryE m h) Q"
proof (rule specI)
  fix s r t assume p: "P s" and hh: "tryE m h s = (r, t)"
  obtain q u where m: "m s = (q, u)" by (cases "m s")
  have su: "R s u" by (rule specD(1) [OF assms(2) p m])
  show "R s t \<and> (\<forall>x. r = Inr x \<longrightarrow> Q x t)"
  proof (cases q)
    case (Inr x)
    then show ?thesis using hh m su specD(2) [OF assms(2) p m] by (auto simp: tryE_def)
  next
    case (Inl e)
    show ?thesis
    proof (cases "h e")
      case None
      then show ?thesis using hh m su Inl by (auto simp: tryE_def)
    next
      case (Some k)
      then have k: "k u = (r, t)" using hh m Inl by (simp add: tryE_def)
      note s = specD [OF assms(3) [OF Some] assms(4) [OF p su] k]
      show ?thesis using s su assms(1) by (blast dest: transpD)
    qed
  qed
qed

section \<open>Interfaces\<close>

text \<open>
  An append-only log: what a client may rely on when it appends rows to a table it never
  updates or deletes from.
\<close>

locale append_log =
  fixes append :: "'r list \<Rightarrow> 'r \<Rightarrow> 'r list res"
    and ok :: "'r list \<Rightarrow> bool"
  assumes append_prefix: "append t r = Inr t' \<Longrightarrow> \<exists>new. t' = t @ new"
    and append_mem: "append t r = Inr t' \<Longrightarrow> r \<in> set t'"
    and append_ok: "append t r = Inr t' \<Longrightarrow> ok t \<Longrightarrow> ok t'"
    and append_again: "ok t \<Longrightarrow> r \<in> set t \<Longrightarrow> append t r = Inr t"
begin

lemma appends_prefix: "foldR append t rs = Inr t' \<Longrightarrow> \<exists>new. t' = t @ new"
proof (induction rs arbitrary: t)
  case (Cons r rs)
  then obtain u where "append t r = Inr u" "foldR append u rs = Inr t'" by auto
  with Cons.IH append_prefix [of t r u] show ?case by fastforce
qed simp

lemma appends_ok: "foldR append t rs = Inr t' \<Longrightarrow> ok t \<Longrightarrow> ok t'"
  by (erule foldR_invariant [rotated]) (auto intro: append_ok)

lemma appends_mem: "foldR append t rs = Inr t' \<Longrightarrow> r \<in> set rs \<Longrightarrow> r \<in> set t'"
proof (induction rs arbitrary: t)
  case (Cons q rs)
  then obtain u where u: "append t q = Inr u" "foldR append u rs = Inr t'" by auto
  with Cons show ?case
    using append_mem [OF u(1)] appends_prefix [OF u(2)] by auto
qed simp

lemma appends_keep: "foldR append t rs = Inr t' \<Longrightarrow> set t \<subseteq> set t'"
  by (auto dest: appends_prefix)

text \<open>Replaying rows that are already in the table changes nothing.\<close>

lemma appends_replay: "ok t \<Longrightarrow> set rs \<subseteq> set t \<Longrightarrow> foldR append t rs = Inr t"
  by (induction rs) (simp_all add: append_again)

end

text \<open>
  A component whose state changes only by steps that keep an invariant: the invariant holds in
  every state the component can reach.
\<close>

inductive reaches :: "('s \<Rightarrow> 's \<Rightarrow> bool) \<Rightarrow> 's \<Rightarrow> 's \<Rightarrow> bool" for step where
  start: "reaches step s s"
| step: "reaches step s t \<Longrightarrow> step t u \<Longrightarrow> reaches step s u"

lemma reaches_trans: "reaches step s t \<Longrightarrow> reaches step t u \<Longrightarrow> reaches step s u"
  by (rotate_tac, induction rule: reaches.induct) (auto intro: reaches.intros)

locale invariant_system =
  fixes step :: "'s \<Rightarrow> 's \<Rightarrow> bool"
    and inv :: "'s \<Rightarrow> bool"
  assumes inv_step: "inv s \<Longrightarrow> step s t \<Longrightarrow> inv t"
begin

lemma reaches_inv: "reaches step s t \<Longrightarrow> inv s \<Longrightarrow> inv t"
  by (induction rule: reaches.induct) (auto intro: inv_step)

end

text \<open>
  A system whose states only move forward in an order: every later state extends every earlier one.
\<close>

locale monotone_system = invariant_system +
  fixes ext :: "'a \<Rightarrow> 'a \<Rightarrow> bool"
  assumes ext_refl: "ext s s"
    and ext_trans: "ext s t \<Longrightarrow> ext t u \<Longrightarrow> ext s u"
    and ext_step: "inv s \<Longrightarrow> step s t \<Longrightarrow> ext s t"
begin

lemma reaches_ext: "reaches step s t \<Longrightarrow> inv s \<Longrightarrow> ext s t"
  by (induction rule: reaches.induct) (auto intro: ext_refl ext_trans ext_step reaches_inv)

end

end
