(* ===== verification/Sha256.thy ===== *)
theory Sha256
  imports Prelude "HOL-Library.Word"
begin

text \<open>
  The \<open>hashlib.sha256(data).hexdigest()\<close> of the Python standard library, which the code uses
  to name records by their content: FIPS 180-4 SHA-256 over the bytes of a string, on 32-bit
  words, printed as 64 lower-case hexadecimal digits.
\<close>

unbundle bit_operations_syntax

type_synonym u32 = "32 word"

definition sha_k :: "u32 list" where
  "sha_k =
     [1116352408, 1899447441, 3049323471, 3921009573, 961987163, 1508970993, 2453635748,
      2870763221, 3624381080, 310598401, 607225278, 1426881987, 1925078388, 2162078206,
      2614888103, 3248222580, 3835390401, 4022224774, 264347078, 604807628, 770255983,
      1249150122, 1555081692, 1996064986, 2554220882, 2821834349, 2952996808, 3210313671,
      3336571891, 3584528711, 113926993, 338241895, 666307205, 773529912, 1294757372,
      1396182291, 1695183700, 1986661051, 2177026350, 2456956037, 2730485921, 2820302411,
      3259730800, 3345764771, 3516065817, 3600352804, 4094571909, 275423344, 430227734,
      506948616, 659060556, 883997877, 958139571, 1322822218, 1537002063, 1747873779,
      1955562222, 2024104815, 2227730452, 2361852424, 2428436474, 2756734187, 3204031479,
      3329325298]"

definition sha_init :: "u32 list" where
  "sha_init =
     [1779033703, 3144134277, 1013904242, 2773480762, 1359893119, 2600822924, 528734635,
      1541459225]"

definition rotr :: "nat \<Rightarrow> u32 \<Rightarrow> u32" where
  "rotr n x = drop_bit n x OR push_bit (32 - n) x"

definition word_of_bytes :: "string \<Rightarrow> u32" where
  "word_of_bytes bs = foldl (\<lambda>acc c. push_bit 8 acc OR of_char c) 0 bs"

definition bytes_of_len :: "nat \<Rightarrow> string" where
  "bytes_of_len n = map (\<lambda>i. char_of (int n div 256 ^ (7 - i) mod 256)) [0..<8]"

definition sha_pad :: "string \<Rightarrow> string" where
  "sha_pad bs =
     bs @ [char_of (128::nat)] @ replicate ((119 - length bs mod 64) mod 64) (char_of (0::nat))
        @ bytes_of_len (8 * length bs)"

fun chunks :: "nat \<Rightarrow> 'a list \<Rightarrow> 'a list list" where
  "chunks n xs = (if n = 0 \<or> xs = [] then [] else take n xs # chunks n (drop n xs))"

declare chunks.simps [simp del]

text \<open>The message schedule, built newest word first.\<close>

fun sha_schedule :: "nat \<Rightarrow> u32 list \<Rightarrow> u32 list" where
  "sha_schedule 0 ws = ws"
| "sha_schedule (Suc k) ws =
     (let w2 = ws ! 1; w15 = ws ! 14;
          s0 = rotr 7 w15 XOR rotr 18 w15 XOR drop_bit 3 w15;
          s1 = rotr 17 w2 XOR rotr 19 w2 XOR drop_bit 10 w2
      in sha_schedule k ((ws ! 15 + s0 + ws ! 6 + s1) # ws))"

type_synonym sha_state = "u32 \<times> u32 \<times> u32 \<times> u32 \<times> u32 \<times> u32 \<times> u32 \<times> u32"

definition sha_round :: "sha_state \<Rightarrow> u32 \<times> u32 \<Rightarrow> sha_state" where
  "sha_round = (\<lambda>(a, b, c, d, e, f, g, h) (k, w).
     let s1 = rotr 6 e XOR rotr 11 e XOR rotr 25 e;
         ch = (e AND f) XOR (NOT e AND g);
         t1 = h + s1 + ch + k + w;
         s0 = rotr 2 a XOR rotr 13 a XOR rotr 22 a;
         maj = (a AND b) XOR (a AND c) XOR (b AND c);
         t2 = s0 + maj
     in (t1 + t2, a, b, c, d + t1, e, f, g))"

definition sha_block :: "u32 list \<Rightarrow> string \<Rightarrow> u32 list" where
  "sha_block hs block =
     (let ws = rev (sha_schedule 48 (rev (map word_of_bytes (chunks 4 block))));
          (a, b, c, d, e, f, g, h) =
            foldl sha_round
              (hs ! 0, hs ! 1, hs ! 2, hs ! 3, hs ! 4, hs ! 5, hs ! 6, hs ! 7) (zip sha_k ws)
      in map2 (+) hs [a, b, c, d, e, f, g, h])"

definition hex_digit :: "int \<Rightarrow> char" where
  "hex_digit n = ''0123456789abcdef'' ! nat n"

definition hex_of_word :: "u32 \<Rightarrow> string" where
  "hex_of_word w = map (\<lambda>i. hex_digit (uint w div 16 ^ (7 - i) mod 16)) [0..<8]"

definition sha256_hex :: "string \<Rightarrow> string" where
  "sha256_hex bs = concat (map hex_of_word (foldl sha_block sha_init (chunks 64 (sha_pad bs))))"

section \<open>Shape of a digest\<close>

definition is_hex :: "char \<Rightarrow> bool" where
  "is_hex c \<longleftrightarrow> c \<in> set ''0123456789abcdef''"

lemma is_hex_digit: "0 \<le> n \<Longrightarrow> n < 16 \<Longrightarrow> is_hex (hex_digit n)"
  unfolding is_hex_def hex_digit_def by (rule nth_mem) simp

lemma length_sha_block: "length hs = 8 \<Longrightarrow> length (sha_block hs b) = 8"
  by (simp add: sha_block_def Let_def split: prod.splits)

lemma length_foldl_sha_block: "length hs = 8 \<Longrightarrow> length (foldl sha_block hs bs) = 8"
  by (induction bs arbitrary: hs) (simp_all add: length_sha_block)

text \<open>Every digest is a well-formed \<open>Sha256\<close> contract value: 64 lower-case hex digits.\<close>

lemma length_hex_of_word [simp]: "length (hex_of_word w) = 8"
  by (simp add: hex_of_word_def)

lemma length_sha256_hex: "length (sha256_hex bs) = 64"
proof -
  have "length (foldl sha_block sha_init (chunks 64 (sha_pad bs))) = 8"
    by (rule length_foldl_sha_block) (simp add: sha_init_def)
  then show ?thesis
    by (simp add: sha256_hex_def length_concat o_def sum_list_triv)
qed

lemma set_sha256_hex: "c \<in> set (sha256_hex bs) \<Longrightarrow> is_hex c"
  by (auto simp: sha256_hex_def hex_of_word_def intro!: is_hex_digit)

end
