(* ===== verification/Canonical_Json.thy ===== *)
theory Canonical_Json
  imports Sha256
begin

text \<open>
  \<open>contracts/canonical_json.py\<close>: the normalisation of contract values to plain JSON values
  (\<open>_normalize\<close>), the encoder (\<open>_encode\<close>, i.e. \<open>json.dumps\<close> with sorted keys, no
  whitespace and no ASCII escaping, then UTF-8), and the two entry points
  \<open>canonical_bytes\<close> and \<open>content_hash\<close>.  Content addressing rests on the encoding being
  injective up to the order of object members; the last section proves it.
\<close>

section \<open>Values\<close>

datatype json =
    JNull
  | JBool bool
  | JInt int
  | JStr string
  | JArr "json list"
  | JObj "(string \<times> json) list"

text \<open>The UTC fields of an aware \<open>datetime\<close>, as \<open>value.astimezone(UTC)\<close> gives them.\<close>

record utc_time =
  year :: nat
  month :: nat
  day :: nat
  hour :: nat
  minute :: nat
  second :: nat
  microsecond :: nat

datatype pykey = KStr string | KOther

text \<open>
  A Python object as \<open>_normalize\<close> distinguishes them: \<open>VModel\<close> carries whether it is a
  \<open>ContractModel\<close>, whether it has extra members, its \<open>canonical_omitted_null_fields\<close> and its
  declared fields; \<open>VOpaque\<close> is an \<open>OpaqueId\<close>; \<open>VDatetime\<close> tells aware from naive;
  \<open>VOther\<close> is any value of an unsupported type (a float, bytes, a set, \<dots>), named by its type.
\<close>

datatype pyval =
    VNone
  | VBool bool
  | VInt int
  | VStr string
  | VEnum pyval
  | VDatetime bool utc_time
  | VUuid string
  | VMap "(pykey \<times> pyval) list"
  | VSeq "pyval list"
  | VModel bool bool "string list" "(string \<times> pyval) list"
  | VOpaque bool pyval
  | VOther string

section \<open>The encoder\<close>

definition digit_char :: "nat \<Rightarrow> char" where
  "digit_char n = char_of (48 + n)"

fun show_nat :: "nat \<Rightarrow> string" where
  "show_nat n = (if n < 10 then [digit_char n] else show_nat (n div 10) @ [digit_char (n mod 10)])"

declare show_nat.simps [simp del]

definition show_int :: "int \<Rightarrow> string" where
  "show_int i = (if i < 0 then CHR ''-'' # show_nat (nat (- i)) else show_nat (nat i))"

definition escape_char :: "char \<Rightarrow> string" where
  "escape_char c =
     (if c = CHR 0x22 then [CHR 0x5C, CHR 0x22]
      else if c = CHR 0x5C then [CHR 0x5C, CHR 0x5C]
      else if c = CHR 0x08 then [CHR 0x5C, CHR ''b'']
      else if c = CHR 0x0C then [CHR 0x5C, CHR ''f'']
      else if c = CHR 0x0A then [CHR 0x5C, CHR ''n'']
      else if c = CHR 0x0D then [CHR 0x5C, CHR ''r'']
      else if c = CHR 0x09 then [CHR 0x5C, CHR ''t'']
      else if of_char c < (32::int) then
        [CHR 0x5C, CHR ''u'', CHR ''0'', CHR ''0'',
         hex_digit (of_char c div 16), hex_digit (of_char c mod 16)]
      else [c])"

definition quote :: "string \<Rightarrow> string" where
  "quote s = CHR 0x22 # concat (map escape_char s) @ [CHR 0x22]"

text \<open>The encoder on values whose objects list their members in the order they are printed.\<close>

fun enc :: "json \<Rightarrow> string"
  and enc_elems :: "json list \<Rightarrow> string"
  and enc_members :: "(string \<times> json) list \<Rightarrow> string" where
  "enc JNull = ''null''"
| "enc (JBool b) = (if b then ''true'' else ''false'')"
| "enc (JInt i) = show_int i"
| "enc (JStr s) = quote s"
| "enc (JArr xs) = CHR ''['' # enc_elems xs @ '']''"
| "enc (JObj ms) = CHR ''{'' # enc_members ms @ ''}''"
| "enc_elems [] = []"
| "enc_elems (x # xs) = enc x @ (if xs = [] then [] else CHR '','' # enc_elems xs)"
| "enc_members [] = []"
| "enc_members ((k, v) # ms) =
     quote k @ CHR '':'' # enc v @ (if ms = [] then [] else CHR '','' # enc_members ms)"

text \<open>\<open>sort_keys=True\<close>: the members of every object in key order.\<close>

fun sort_members :: "json \<Rightarrow> json" where
  "sort_members JNull = JNull"
| "sort_members (JBool b) = JBool b"
| "sort_members (JInt i) = JInt i"
| "sort_members (JStr s) = JStr s"
| "sort_members (JArr xs) = JArr (map sort_members xs)"
| "sort_members (JObj ms) = JObj (sort_key fst (map (\<lambda>(k, v). (k, sort_members v)) ms))"

definition encode :: "json \<Rightarrow> string" where
  "encode j = enc (sort_members j)"

section \<open>Normalisation\<close>

definition pad :: "nat \<Rightarrow> nat \<Rightarrow> string" where
  "pad w n = (let s = show_nat n in replicate (w - length s) (CHR ''0'') @ s)"

text \<open>\<open>isoformat(timespec="microseconds")\<close> with \<open>+00:00\<close> replaced by \<open>Z\<close>.\<close>

definition isoformat_utc :: "utc_time \<Rightarrow> string" where
  "isoformat_utc t =
     pad 4 (year t) @ ''-'' @ pad 2 (month t) @ ''-'' @ pad 2 (day t) @ ''T'' @
     pad 2 (hour t) @ '':'' @ pad 2 (minute t) @ '':'' @ pad 2 (second t) @ ''.'' @
     pad 6 (microsecond t) @ ''Z''"

type_synonym set_list_policy = "string list \<Rightarrow> string option option"

text \<open>The local \<open>sort_key\<close>: the whole item, or its member \<open>key\<close>, encoded.\<close>

definition semantic_sort_key :: "string option \<Rightarrow> json \<Rightarrow> string res" where
  "semantic_sort_key key item =
     (case key of
        None \<Rightarrow> Inr (encode item)
      | Some k \<Rightarrow>
          (case item of
             JObj ms \<Rightarrow>
               (case map_of ms k of
                  Some v \<Rightarrow> Inr (encode v)
                | None \<Rightarrow> Inl (ValueError (''Semantic list item missing key '' @ k)))
           | _ \<Rightarrow> Inl (ValueError (''Semantic list item missing key '' @ k))))"

definition sort_items :: "set_list_policy \<Rightarrow> string list \<Rightarrow> json list \<Rightarrow> json list res" where
  "sort_items policy path items =
     (case policy path of
        None \<Rightarrow> Inr items
      | Some key \<Rightarrow>
          bindR (mapR (semantic_sort_key key) items)
            (\<lambda>keys. Inr (map snd (sort_key fst (zip keys items)))))"

fun key_text :: "pykey \<Rightarrow> string" where
  "key_text (KStr s) = s"
| "key_text KOther = []"

text \<open>
  The branches of \<open>_normalize\<close> in the order of the source.  A contract model falls through to
  the \<open>Mapping\<close> branch with its fields as a dictionary.
\<close>

lemma size_pair_mem [termination_simp]:
  "(k, v) \<in> set kvs \<Longrightarrow> size v < Suc (size_list (size_prod f size) kvs)"
  by (induction kvs) auto

function normalize :: "set_list_policy \<Rightarrow> string list \<Rightarrow> bool \<Rightarrow> pyval \<Rightarrow> json res" where
  "normalize policy path rh (VModel contract extra omitted fs) =
     (if \<not> contract then Inl (TypeError ''Canonical JSON requires a contract model'')
      else if extra then
        Inl (ValueError ''Canonical contract models cannot contain extra members'')
      else
        (let kept = filter (\<lambda>kv. \<not> (fst kv \<in> set omitted \<and> snd kv = VNone)) fs in
         if rh \<and> path = [] \<and> ''content_hash'' \<in> fst ` set kept then
           Inl (ValueError ''content_hash member would be self-referential'')
         else
           bindR (mapR (\<lambda>kv. bindR (normalize policy (path @ [fst kv]) rh (snd kv))
                                (\<lambda>j. Inr (fst kv, j))) kept)
             (\<lambda>ms. Inr (JObj ms))))"
| "normalize policy path rh (VOpaque extra root) =
     (if extra then Inl (ValueError ''Canonical contract models cannot contain extra members'')
      else normalize policy path rh root)"
| "normalize policy path rh (VEnum v) = normalize policy path rh v"
| "normalize policy path rh (VDatetime aware t) =
     (if \<not> aware then Inl (ValueError ''Canonical datetime must be timezone-aware'')
      else Inr (JStr (isoformat_utc t)))"
| "normalize policy path rh (VUuid s) = Inr (JStr s)"
| "normalize policy path rh VNone = Inr JNull"
| "normalize policy path rh (VStr s) = Inr (JStr s)"
| "normalize policy path rh (VBool b) = Inr (JBool b)"
| "normalize policy path rh (VInt i) = Inr (JInt i)"
| "normalize policy path rh (VMap kvs) =
     (if KOther \<in> fst ` set kvs then Inl (TypeError ''JSON object keys must be strings'')
      else if rh \<and> path = [] \<and> KStr ''content_hash'' \<in> fst ` set kvs then
        Inl (ValueError ''content_hash member would be self-referential'')
      else
        bindR (mapR (\<lambda>kv. bindR (normalize policy (path @ [key_text (fst kv)]) rh (snd kv))
                             (\<lambda>j. Inr (key_text (fst kv), j))) kvs)
          (\<lambda>ms. Inr (JObj ms)))"
| "normalize policy path rh (VSeq vs) =
     bindR (mapR (normalize policy (path @ [''*'']) rh) vs)
       (\<lambda>items. bindR (sort_items policy path items) (\<lambda>js. Inr (JArr js)))"
| "normalize policy path rh (VOther tn) =
     Inl (TypeError (''Unsupported canonical JSON value: '' @ tn @
                     ''; numbers must be integers''))"
  by pat_completeness auto
termination
  by (relation "measure (\<lambda>(policy, path, rh, v). size v)")
     (auto simp: size_pair_mem size_list_estimation' less_Suc_eq_le)

definition canonical_bytes :: "set_list_policy \<Rightarrow> pyval \<Rightarrow> string res" where
  "canonical_bytes policy v = bindR (normalize policy [] False v) (\<lambda>j. Inr (encode j))"

definition content_hash :: "set_list_policy \<Rightarrow> pyval \<Rightarrow> string res" where
  "content_hash policy v = bindR (normalize policy [] True v) (\<lambda>j. Inr (sha256_hex (encode j)))"

section \<open>The encoding is injective up to member order\<close>

subsection \<open>Numbers\<close>

definition num_char :: "char \<Rightarrow> bool" where
  "num_char c \<longleftrightarrow> c = CHR ''-'' \<or> (48 \<le> (of_char c :: nat) \<and> (of_char c :: nat) < 58)"

definition read_nat :: "string \<Rightarrow> nat" where
  "read_nat s = foldl (\<lambda>acc c. 10 * acc + (of_char c - 48)) 0 s"

lemma of_digit_char: "n < 10 \<Longrightarrow> (of_char (digit_char n) :: nat) = 48 + n"
  by (simp add: digit_char_def)

lemma read_show_nat: "read_nat (show_nat n) = n"
proof (induction n rule: show_nat.induct)
  case (1 n)
  show ?case
  proof (cases "n < 10")
    case True
    then show ?thesis by (simp add: show_nat.simps [of n] read_nat_def of_digit_char)
  next
    case False
    with 1 have IH: "read_nat (show_nat (n div 10)) = n div 10" by simp
    from False show ?thesis
      using IH by (simp add: show_nat.simps [of n] read_nat_def of_digit_char)
  qed
qed

lemma show_nat_digits: "c \<in> set (show_nat n) \<Longrightarrow> 48 \<le> (of_char c :: nat) \<and> (of_char c :: nat) < 58"
proof (induction n rule: show_nat.induct)
  case (1 n)
  show ?case
  proof (cases "n < 10")
    case True
    with 1 show ?thesis by (simp add: show_nat.simps [of n] of_digit_char)
  next
    case False
    with 1 show ?thesis by (auto simp: show_nat.simps [of n] of_digit_char)
  qed
qed

lemma show_nat_not_Nil: "show_nat n \<noteq> []"
  by (subst show_nat.simps) simp

lemma show_int_chars: "c \<in> set (show_int i) \<Longrightarrow> num_char c"
  by (auto simp: show_int_def num_char_def dest: show_nat_digits split: if_splits)

lemma hd_show_nat: "hd (show_nat n) \<noteq> CHR ''-''"
proof
  assume "hd (show_nat n) = CHR ''-''"
  then have "CHR ''-'' \<in> set (show_nat n)"
    by (metis hd_in_set show_nat_not_Nil)
  from show_nat_digits [OF this] show False by simp
qed

lemma show_int_inj: "show_int i = show_int k \<Longrightarrow> i = k"
proof -
  assume eq: "show_int i = show_int k"
  have neg: "show_int m \<noteq> [] \<and> (hd (show_int m) = CHR ''-'' \<longleftrightarrow> m < 0)" for m
    by (auto simp: show_int_def hd_show_nat show_nat_not_Nil)
  from eq neg [of i] neg [of k] have same: "i < 0 \<longleftrightarrow> k < 0" by simp
  have "read_nat (show_nat (nat \<bar>i\<bar>)) = read_nat (show_nat (nat \<bar>k\<bar>))"
    using eq same by (auto simp: show_int_def split: if_splits)
  then have "nat \<bar>i\<bar> = nat \<bar>k\<bar>" by (simp add: read_show_nat)
  with same show ?thesis by auto
qed

text \<open>What follows a value inside a document: nothing, or a character no number contains.\<close>

definition stops :: "string \<Rightarrow> bool" where
  "stops r \<longleftrightarrow> r = [] \<or> hd r \<in> {CHR '','', CHR '']'', CHR ''}''}"

lemma stops_simps [simp]:
  "stops []" "stops (CHR '','' # r)" "stops (CHR '']'' # r)" "stops (CHR ''}'' # r)"
  by (simp_all add: stops_def)

lemma takeWhile_num:
  "(\<And>c. c \<in> set s \<Longrightarrow> num_char c) \<Longrightarrow> stops r \<Longrightarrow> takeWhile num_char (s @ r) = s"
  by (cases r) (auto simp: stops_def takeWhile_append num_char_def)

lemma show_int_prefix:
  assumes "show_int i @ r1 = show_int k @ r2" "stops r1" "stops r2"
  shows "i = k \<and> r1 = r2"
proof -
  have "show_int i = show_int k"
    using assms takeWhile_num [of "show_int i" r1] takeWhile_num [of "show_int k" r2]
    by (simp add: show_int_chars)
  with assms show ?thesis by (simp add: show_int_inj)
qed

subsection \<open>Strings\<close>

text \<open>A decoder for one escaped character.\<close>

definition hex_value :: "char \<Rightarrow> int" where
  "hex_value c = (if of_char c < (58::int) then of_char c - 48 else of_char c - 87)"

definition unescape :: "string \<Rightarrow> (char \<times> string) option" where
  "unescape s =
     (case s of
        [] \<Rightarrow> None
      | c # r \<Rightarrow>
          if c \<noteq> CHR 0x5C then Some (c, r)
          else (case r of
                  [] \<Rightarrow> None
                | d # r' \<Rightarrow>
                    if d = CHR ''b'' then Some (CHR 0x08, r')
                    else if d = CHR ''f'' then Some (CHR 0x0C, r')
                    else if d = CHR ''n'' then Some (CHR 0x0A, r')
                    else if d = CHR ''r'' then Some (CHR 0x0D, r')
                    else if d = CHR ''t'' then Some (CHR 0x09, r')
                    else if d = CHR ''u'' then
                      (case r' of
                         _ # _ # h1 # h2 # r'' \<Rightarrow>
                           Some (char_of (16 * hex_value h1 + hex_value h2), r'')
                       | _ \<Rightarrow> None)
                    else Some (d, r')))"

lemma hex_value_digit: "0 \<le> n \<Longrightarrow> n < 16 \<Longrightarrow> hex_value (hex_digit n) = n"
proof -
  assume "0 \<le> n" "n < 16"
  then have "n \<in> {0, 1, 2, 3, 4, 5, 6, 7, 8, 9, 10, 11, 12, 13, 14, 15}" by simp presburger
  then show ?thesis by (auto simp: hex_value_def hex_digit_def)
qed

lemma unescape_escape: "unescape (escape_char c @ r) = Some (c, r)"
proof -
  have "0 \<le> (of_char c :: int)"
    by (metis of_nat_0_le_iff of_nat_of_char)
  then have "of_char c < (32::int) \<Longrightarrow>
      16 * hex_value (hex_digit (of_char c div 16)) + hex_value (hex_digit (of_char c mod 16))
        = (of_char c :: int)"
    by (simp add: hex_value_digit)
  then show ?thesis
    by (simp add: escape_char_def unescape_def)
qed

lemma escape_char_not_Nil: "escape_char c \<noteq> []"
  by (simp add: escape_char_def)

lemma hd_escape_char: "hd (escape_char c) \<noteq> CHR 0x22"
  by (simp add: escape_char_def)

lemma escape_not_quote: "escape_char c @ x \<noteq> CHR 0x22 # r"
  using hd_escape_char [of c] escape_char_not_Nil [of c]
  by (metis hd_append2 list.sel(1))

lemma escape_prefix:
  "concat (map escape_char s) @ CHR 0x22 # r1 = concat (map escape_char t) @ CHR 0x22 # r2 \<Longrightarrow>
   s = t \<and> r1 = r2"
proof (induction s arbitrary: t)
  case Nil
  then show ?case by (cases t) (auto simp: escape_not_quote escape_not_quote [symmetric])
next
  case (Cons c s)
  show ?case
  proof (cases t)
    case Nil
    with Cons.prems show ?thesis by (simp add: escape_not_quote)
  next
    case (Cons d u)
    let ?x = "concat (map escape_char s) @ CHR 0x22 # r1"
    let ?y = "concat (map escape_char u) @ CHR 0x22 # r2"
    from Cons.prems Cons have "escape_char c @ ?x = escape_char d @ ?y" by simp
    then have "unescape (escape_char c @ ?x) = unescape (escape_char d @ ?y)" by simp
    then have "c = d \<and> ?x = ?y" by (simp add: unescape_escape)
    with Cons.IH [of u] Cons show ?thesis by simp
  qed
qed

lemma quote_prefix: "quote s @ r1 = quote t @ r2 \<Longrightarrow> s = t \<and> r1 = r2"
  by (auto simp: quote_def dest: escape_prefix)

subsection \<open>Documents\<close>

lemma hd_quote [simp]: "hd (quote s) = CHR 0x22" "quote s \<noteq> []"
  by (simp_all add: quote_def)

text \<open>The first character of an encoded value tells its constructor.\<close>

lemma hd_show_int: "num_char (hd (show_int i))" "show_int i \<noteq> []"
proof -
  show ne: "show_int i \<noteq> []"
    by (simp add: show_int_def show_nat_not_Nil)
  show "num_char (hd (show_int i))"
    using show_int_chars hd_in_set [OF ne] by blast
qed

lemma enc_not_Nil [simp]: "enc j \<noteq> []"
  by (cases j) (simp_all add: hd_show_int)

lemma hd_enc:
  "hd (enc JNull) = CHR ''n''"
  "hd (enc (JBool b)) = (if b then CHR ''t'' else CHR ''f'')"
  "num_char (hd (enc (JInt i)))"
  "hd (enc (JStr s)) = CHR 0x22"
  "hd (enc (JArr xs)) = CHR ''[''"
  "hd (enc (JObj ms)) = CHR ''{''"
  by (simp_all add: hd_show_int)

lemma num_char_cases [simp]:
  "\<not> num_char (CHR ''n'')" "\<not> num_char (CHR ''t'')" "\<not> num_char (CHR ''f'')"
  "\<not> num_char (CHR 0x22)" "\<not> num_char (CHR ''['')" "\<not> num_char (CHR ''{'')"
  "\<not> num_char (CHR '']'')" "\<not> num_char (CHR ''}'')"
  by (simp_all add: num_char_def)

fun json_kind :: "json \<Rightarrow> nat" where
  "json_kind JNull = 0"
| "json_kind (JBool b) = (if b then 1 else 2)"
| "json_kind (JInt i) = 3"
| "json_kind (JStr s) = 4"
| "json_kind (JArr xs) = 5"
| "json_kind (JObj ms) = 6"

definition kind_of_char :: "char \<Rightarrow> nat" where
  "kind_of_char c =
     (if c = CHR ''n'' then 0 else if c = CHR ''t'' then 1 else if c = CHR ''f'' then 2
      else if num_char c then 3 else if c = CHR 0x22 then 4 else if c = CHR ''['' then 5 else 6)"

lemma kind_hd_enc: "kind_of_char (hd (enc j)) = json_kind j"
proof (cases j)
  case (JInt i)
  have "hd (show_int i) \<noteq> CHR ''n''" "hd (show_int i) \<noteq> CHR ''t''" "hd (show_int i) \<noteq> CHR ''f''"
    using hd_show_int(1) [of i] by auto
  with JInt show ?thesis by (simp add: kind_of_char_def hd_show_int)
qed (simp_all add: kind_of_char_def)

lemma enc_kind: "enc a @ r1 = enc b @ r2 \<Longrightarrow> json_kind a = json_kind b"
  by (metis enc_not_Nil hd_append2 kind_hd_enc)

lemma hd_enc_stop: "hd (enc j) \<notin> {CHR '']'', CHR ''}''}"
proof -
  have "num_char (hd (show_int i)) \<longrightarrow> hd (show_int i) \<notin> {CHR '']'', CHR ''}''}" for i
    by (auto simp: num_char_def)
  then show ?thesis by (cases j) (auto simp: hd_show_int)
qed

lemma enc_elems_close:
  "enc_elems xs @ CHR '']'' # r \<noteq> CHR '']'' # r' \<or> xs = []"
proof (cases xs)
  case (Cons x ys)
  have "hd (enc_elems xs @ CHR '']'' # r) = hd (enc x)"
    by (simp add: Cons)
  then show ?thesis using hd_enc_stop [of x] by (metis insertI1 list.sel(1))
qed simp

lemma enc_members_close:
  "enc_members ms @ CHR ''}'' # r \<noteq> CHR ''}'' # r' \<or> ms = []"
proof (cases ms)
  case (Cons m ns)
  then have "hd (enc_members ms @ CHR ''}'' # r) = CHR 0x22"
    by (cases m) simp
  then have "enc_members ms @ CHR ''}'' # r \<noteq> CHR ''}'' # r'"
    by (auto dest: arg_cong [where f = hd])
  then show ?thesis by simp
qed simp

text \<open>
  The three statements of the prefix property are proved together: what the encoder prints for
  a value determines the value and where it ends.
\<close>

lemma enc_prefix_all:
  shows "enc a @ r1 = enc b @ r2 \<Longrightarrow> stops r1 \<Longrightarrow> stops r2 \<Longrightarrow> a = b \<and> r1 = r2"
    and "enc_elems xs @ CHR '']'' # r1 = enc_elems ys @ CHR '']'' # r2 \<Longrightarrow> xs = ys \<and> r1 = r2"
    and "enc_members ms @ CHR ''}'' # r1 = enc_members ns @ CHR ''}'' # r2 \<Longrightarrow> ms = ns \<and> r1 = r2"
proof (induction a and xs and ms arbitrary: b r1 r2 and ys r1 r2 and ns r1 r2
       rule: enc_enc_elems_enc_members.induct)
  case 1
  then have "json_kind b = 0" using enc_kind [of JNull r1 b r2] by simp
  then have "b = JNull" by (cases b) (auto split: if_splits)
  with 1 show ?case by simp
next
  case (2 x)
  then have k: "json_kind b = (if x then 1 else 2)" using enc_kind [of "JBool x" r1 b r2] by simp
  then have "b = JBool x" by (cases b) (auto split: if_splits)
  with 2 show ?case by simp
next
  case (3 i)
  then have "json_kind b = 3" using enc_kind [of "JInt i" r1 b r2] by simp
  then obtain k where "b = JInt k" by (cases b) (auto split: if_splits)
  with 3 show ?case by (auto dest: show_int_prefix)
next
  case (4 s)
  then have "json_kind b = 4" using enc_kind [of "JStr s" r1 b r2] by simp
  then obtain t where "b = JStr t" by (cases b) (auto split: if_splits)
  with 4 show ?case by (auto dest: quote_prefix)
next
  case (5 xs)
  then have "json_kind b = 5" using enc_kind [of "JArr xs" r1 b r2] by simp
  then obtain ys where b: "b = JArr ys" by (cases b) (auto split: if_splits)
  have "enc_elems xs @ CHR '']'' # r1 = enc_elems ys @ CHR '']'' # r2"
    using "5.prems"(1) by (simp add: b)
  with "5.IH" b show ?case by simp
next
  case (6 ms)
  then have "json_kind b = 6" using enc_kind [of "JObj ms" r1 b r2] by simp
  then obtain ns where b: "b = JObj ns" by (cases b) (auto split: if_splits)
  have "enc_members ms @ CHR ''}'' # r1 = enc_members ns @ CHR ''}'' # r2"
    using "6.prems"(1) by (simp add: b)
  with "6.IH" b show ?case by simp
next
  case 7
  then have "enc_elems ys @ CHR '']'' # r2 = CHR '']'' # r1" by simp
  with enc_elems_close [of ys r2 r1] show ?case by simp
next
  case (8 x xs)
  show ?case
  proof (cases ys)
    case Nil
    with "8.prems" have "enc_elems (x # xs) @ CHR '']'' # r1 = CHR '']'' # r2" by simp
    with enc_elems_close [of "x # xs" r1 r2] show ?thesis by blast
  next
    case (Cons y zs)
    define t1 where "t1 = (if xs = [] then CHR '']'' # r1 else CHR '','' # enc_elems xs @ CHR '']'' # r1)"
    define t2 where "t2 = (if zs = [] then CHR '']'' # r2 else CHR '','' # enc_elems zs @ CHR '']'' # r2)"
    have "enc x @ t1 = enc y @ t2"
      using "8.prems" by (simp add: Cons t1_def t2_def split: if_splits)
    moreover have "stops t1" "stops t2" by (simp_all add: t1_def t2_def)
    ultimately have "x = y" "t1 = t2" using "8.IH"(1) by blast+
    then show ?thesis
      using "8.IH"(2) [of r1 zs r2] by (auto simp: Cons t1_def t2_def split: if_splits)
  qed
next
  case 9
  then have "enc_members ns @ CHR ''}'' # r2 = CHR ''}'' # r1" by simp
  with enc_members_close [of ns r2 r1] show ?case by simp
next
  case (10 k v ms)
  show ?case
  proof (cases ns)
    case Nil
    with "10.prems" have "enc_members ((k, v) # ms) @ CHR ''}'' # r1 = CHR ''}'' # r2" by simp
    with enc_members_close [of "(k, v) # ms" r1 r2] show ?thesis by blast
  next
    case (Cons n ps)
    obtain l w where n: "n = (l, w)" by (cases n)
    define t1 where "t1 = (if ms = [] then CHR ''}'' # r1 else CHR '','' # enc_members ms @ CHR ''}'' # r1)"
    define t2 where "t2 = (if ps = [] then CHR ''}'' # r2 else CHR '','' # enc_members ps @ CHR ''}'' # r2)"
    have "quote k @ CHR '':'' # enc v @ t1 = quote l @ CHR '':'' # enc w @ t2"
      using "10.prems" by (simp add: Cons n t1_def t2_def split: if_splits)
    then have kl: "k = l" and vw: "enc v @ t1 = enc w @ t2"
      by (auto dest: quote_prefix)
    have "stops t1" "stops t2" by (simp_all add: t1_def t2_def)
    with vw have "v = w" "t1 = t2" using "10.IH"(1) by blast+
    then show ?thesis
      using "10.IH"(2) [of r1 ps r2] by (auto simp: Cons n kl t1_def t2_def split: if_splits)
  qed
qed

lemma enc_inj: "enc a = enc b \<longleftrightarrow> a = b"
  using enc_prefix_all(1) [of a "[]" b "[]"] by auto

lemma encode_eq_iff: "encode a = encode b \<longleftrightarrow> sort_members a = sort_members b"
  by (simp add: encode_def enc_inj)

subsection \<open>Reading the equality of encodings\<close>

lemma encode_arr_iff: "encode (JArr xs) = encode (JArr ys) \<longleftrightarrow> map encode xs = map encode ys"
proof -
  have "map sort_members xs = map sort_members ys \<longleftrightarrow> map encode xs = map encode ys"
    by (induction xs arbitrary: ys) (auto simp: Cons_eq_map_conv encode_eq_iff)
  then show ?thesis by (simp add: encode_eq_iff)
qed

definition sorted_members :: "(string \<times> json) list \<Rightarrow> (string \<times> json) list" where
  "sorted_members ms = sort_key fst (map (\<lambda>(k, v). (k, sort_members v)) ms)"

lemma distinct_fst_sort: "distinct (map f (sort_key f xs)) = distinct (map f xs)"
  by (induction xs) (simp_all add: distinct_insort_key)

lemma distinct_sorted_members:
  "distinct (map fst ms) \<Longrightarrow> distinct (map fst (sorted_members ms))"
  by (simp add: sorted_members_def distinct_fst_sort o_def case_prod_beta)

lemma map_of_sorted_members:
  assumes "distinct (map fst ms)"
  shows "map_of (sorted_members ms) k = map_option sort_members (map_of ms k)"
proof -
  let ?ns = "map (\<lambda>(k, v). (k, sort_members v)) ms"
  have d: "distinct (map fst ?ns)" using assms by (simp add: o_def case_prod_beta)
  have "map_of (sort_key fst ?ns) = map_of ?ns"
    using d by (intro map_of_inject_set [THEN iffD2]) (simp_all add: distinct_fst_sort)
  then show ?thesis by (simp add: sorted_members_def map_of_map)
qed

lemma sorted_members_eq_iff:
  assumes a: "distinct (map fst as)" and b: "distinct (map fst bs)"
  shows "sorted_members as = sorted_members bs \<longleftrightarrow>
           (\<forall>k. map_option sort_members (map_of as k) = map_option sort_members (map_of bs k))"
    (is "?L = ?R")
proof
  assume ?L
  then show ?R using map_of_sorted_members [OF a] map_of_sorted_members [OF b] by metis
next
  assume ?R
  then have eq: "map_of (sorted_members as) = map_of (sorted_members bs)"
    using a b by (auto simp: map_of_sorted_members)
  note d = distinct_sorted_members [OF a] distinct_sorted_members [OF b]
  then have "set (sorted_members as) = set (sorted_members bs)"
    using eq map_of_inject_set by blast
  moreover from this have "inj_on fst (set (sorted_members as) \<union> set (sorted_members bs))"
    using d by (simp add: distinct_map)
  moreover have "sorted (map fst (sorted_members ms))" for ms
    by (simp add: sorted_members_def)
  ultimately show ?L
    using d by (intro map_sorted_distinct_set_unique [where f = fst])
qed

lemma encode_obj_iff:
  assumes "distinct (map fst as)" and "distinct (map fst bs)"
  shows "encode (JObj as) = encode (JObj bs) \<longleftrightarrow>
           (\<forall>k. map_option encode (map_of as k) = map_option encode (map_of bs k))"
proof -
  have step: "map_option sort_members x = map_option sort_members y \<longleftrightarrow>
      map_option encode x = map_option encode y" for x y
    by (cases x; cases y) (simp_all add: encode_eq_iff)
  have "encode (JObj as) = encode (JObj bs) \<longleftrightarrow> sorted_members as = sorted_members bs"
    by (simp add: encode_eq_iff sorted_members_def)
  also have "\<dots> \<longleftrightarrow> (\<forall>k. map_option sort_members (map_of as k) = map_option sort_members (map_of bs k))"
    by (rule sorted_members_eq_iff [OF assms])
  finally show ?thesis by (simp add: step)
qed

lemma encode_atom_iff:
  "encode (JStr s) = encode (JStr t) \<longleftrightarrow> s = t"
  "encode (JInt i) = encode (JInt k) \<longleftrightarrow> i = k"
  "encode (JBool b) = encode (JBool c) \<longleftrightarrow> b = c"
  "encode JNull \<noteq> encode (JStr s)"
  by (simp_all add: encode_eq_iff)

end
