(* ===== verification/Contract_Refs.thy ===== *)
theory Contract_Refs
  imports Canonical_Json
begin

text \<open>
  \<open>contracts/records.py\<close> and \<open>contracts/refs.py\<close>: record metadata and its revision rule, the
  four kinds of exact references, how a reference is built from a record, and the checks that
  a reference names exactly one revision of one record in one scope.
\<close>

section \<open>Record metadata\<close>

record revision_meta =
  rm_record_id :: string
  rm_logical_record_id :: string
  rm_record_type :: string
  rm_schema_version :: string
  rm_revision_number :: int
  rm_previous_record_id :: "string option"
  rm_created_at :: int

text \<open>
  \<open>RunMeta\<close>, its subclass \<open>RecordMeta\<close> (analysis, workspace, commit, hypothesis, attempt)
  and \<open>PolicyCacheMeta\<close>.
\<close>

datatype record_metadata =
    RunMeta revision_meta string
  | RecordMeta revision_meta string string string "string option" "string option"
  | PolicyCacheMeta revision_meta string

fun revision_of :: "record_metadata \<Rightarrow> revision_meta" where
  "revision_of (RunMeta r _) = r"
| "revision_of (RecordMeta r _ _ _ _ _) = r"
| "revision_of (PolicyCacheMeta r _) = r"

text \<open>The \<open>revision_shape\<close> validator of every metadata model.\<close>

definition revision_shape :: "revision_meta \<Rightarrow> unit res" where
  "revision_shape r =
     (if (rm_revision_number r = 1) \<noteq> (rm_previous_record_id r = None) then
        Inl (ValueError ''First revision alone must have previous_record_id=null'')
      else if rm_previous_record_id r = Some (rm_record_id r) then
        Inl (ValueError ''A revision cannot reference itself'')
      else Inr ())"

fun meta_analysis :: "record_metadata \<Rightarrow> string option" where
  "meta_analysis (RunMeta _ a) = Some a"
| "meta_analysis (RecordMeta _ a _ _ _ _) = Some a"
| "meta_analysis (PolicyCacheMeta _ _) = None"

fun meta_workspace :: "record_metadata \<Rightarrow> string option" where
  "meta_workspace (RecordMeta _ _ w _ _ _) = Some w"
| "meta_workspace _ = None"

fun meta_commit :: "record_metadata \<Rightarrow> string option" where
  "meta_commit (RecordMeta _ _ _ c _ _) = Some c"
| "meta_commit _ = None"

fun meta_hypothesis :: "record_metadata \<Rightarrow> string option" where
  "meta_hypothesis (RecordMeta _ _ _ _ h _) = h"
| "meta_hypothesis _ = None"

fun meta_program :: "record_metadata \<Rightarrow> string option" where
  "meta_program (PolicyCacheMeta _ p) = Some p"
| "meta_program _ = None"

fun same_meta_type :: "record_metadata \<Rightarrow> record_metadata \<Rightarrow> bool" where
  "same_meta_type (RunMeta _ _) (RunMeta _ _) = True"
| "same_meta_type (RecordMeta _ _ _ _ _ _) (RecordMeta _ _ _ _ _ _) = True"
| "same_meta_type (PolicyCacheMeta _ _) (PolicyCacheMeta _ _) = True"
| "same_meta_type _ _ = False"

text \<open>The attributes \<open>validate_revision\<close> declares immutable; a missing one reads \<open>None\<close>.\<close>

definition immutable_attributes :: "record_metadata \<Rightarrow>
    string \<times> string \<times> string option \<times> string option \<times> string option \<times> string option \<times> string option"
where
  "immutable_attributes m =
     (rm_logical_record_id (revision_of m), rm_record_type (revision_of m), meta_analysis m,
      meta_workspace m, meta_commit m, meta_hypothesis m, meta_program m)"

definition validate_revision :: "record_metadata \<Rightarrow> record_metadata \<Rightarrow> unit res" where
  "validate_revision previous current =
     (if \<not> same_meta_type previous current then
        Inl (ValueError ''Metadata kind cannot change between revisions'')
      else if immutable_attributes previous \<noteq> immutable_attributes current then
        Inl (ValueError ''Revision identity or scope mismatch'')
      else if rm_previous_record_id (revision_of current) \<noteq> Some (rm_record_id (revision_of previous))
           \<or> rm_record_id (revision_of current) = rm_record_id (revision_of previous)
           \<or> rm_revision_number (revision_of current) \<noteq> rm_revision_number (revision_of previous) + 1
      then Inl (ValueError ''RECORD_REVISION_MISMATCH: exact predecessor and next revision required'')
      else if rm_created_at (revision_of current) < rm_created_at (revision_of previous) then
        Inl (ValueError ''Revision created_at precedes predecessor'')
      else Inr ())"

section \<open>References\<close>

text \<open>\<open>StoredDataRef\<close>, the reference the local runtime uses everywhere.\<close>

record stored_ref =
  sr_id :: string
  sr_kind :: string
  sr_hash :: string
  sr_workspace :: string
  sr_commit :: string
  sr_record :: "string option"

record run_ref =
  rr_id :: string
  rr_kind :: string
  rr_hash :: string
  rr_analysis :: string
  rr_record :: "string option"

record host_ref =
  hr_id :: string
  hr_kind :: string
  hr_hash :: string
  hr_host :: string
  hr_analysis :: string
  hr_workspace :: string
  hr_commit :: string
  hr_record :: string

record policy_ref =
  pr_id :: string
  pr_kind :: string
  pr_record :: string
  pr_hash :: string
  pr_program :: string
  pr_schema :: string

datatype record_ref =
    RunStoredDataRef run_ref
  | StoredDataRef stored_ref
  | HostConfigurationRef host_ref
  | PolicyCacheRef policy_ref

fun ref_record_id :: "record_ref \<Rightarrow> string option" where
  "ref_record_id (RunStoredDataRef r) = rr_record r"
| "ref_record_id (StoredDataRef r) = sr_record r"
| "ref_record_id (HostConfigurationRef r) = Some (hr_record r)"
| "ref_record_id (PolicyCacheRef r) = Some (pr_record r)"

fun ref_data_kind :: "record_ref \<Rightarrow> string" where
  "ref_data_kind (RunStoredDataRef r) = rr_kind r"
| "ref_data_kind (StoredDataRef r) = sr_kind r"
| "ref_data_kind (HostConfigurationRef r) = hr_kind r"
| "ref_data_kind (PolicyCacheRef r) = pr_kind r"

fun ref_content_hash :: "record_ref \<Rightarrow> string" where
  "ref_content_hash (RunStoredDataRef r) = rr_hash r"
| "ref_content_hash (StoredDataRef r) = sr_hash r"
| "ref_content_hash (HostConfigurationRef r) = hr_hash r"
| "ref_content_hash (PolicyCacheRef r) = pr_hash r"

text \<open>A record as \<open>reference\<close> reads it: its metadata, its \<open>host_id\<close> if any, and its value.\<close>

record referenced_record =
  rec_meta :: record_metadata
  rec_host_id :: "string option"
  rec_value :: pyval

definition reference :: "referenced_record \<Rightarrow> record_ref res" where
  "reference r =
     bindR (content_hash Map.empty (rec_value r)) (\<lambda>h.
       let m = revision_of (rec_meta r) in
       Inr (case rec_meta r of
          RecordMeta _ a w c _ _ \<Rightarrow>
            (case rec_host_id r of
               Some host \<Rightarrow>
                 HostConfigurationRef
                   \<lparr>hr_id = rm_record_id m, hr_kind = rm_record_type m, hr_hash = h, hr_host = host,
                    hr_analysis = a, hr_workspace = w, hr_commit = c, hr_record = rm_record_id m\<rparr>
             | None \<Rightarrow>
                 StoredDataRef
                   \<lparr>sr_id = rm_record_id m, sr_kind = rm_record_type m, sr_hash = h,
                    sr_workspace = w, sr_commit = c, sr_record = Some (rm_record_id m)\<rparr>)
        | RunMeta _ a \<Rightarrow>
            RunStoredDataRef
              \<lparr>rr_id = rm_record_id m, rr_kind = rm_record_type m, rr_hash = h, rr_analysis = a,
               rr_record = Some (rm_record_id m)\<rparr>
        | PolicyCacheMeta _ p \<Rightarrow>
            PolicyCacheRef
              \<lparr>pr_id = rm_record_id m, pr_kind = rm_record_type m, pr_record = rm_record_id m,
               pr_hash = h, pr_program = p, pr_schema = rm_schema_version m\<rparr>))"

definition require_record_ref :: "record_ref \<Rightarrow> string option \<Rightarrow> unit res" where
  "require_record_ref ref data_kind =
     (if ref_record_id ref = None then Inl (ValueError ''Stored-record reference requires record_id'')
      else if data_kind \<noteq> None \<and> data_kind \<noteq> Some (ref_data_kind ref) then
        Inl (ValueError ''Reference data_kind mismatch'')
      else Inr ())"

fun validate_ref_scope :: "record_ref \<Rightarrow> record_metadata \<Rightarrow> unit res" where
  "validate_ref_scope (HostConfigurationRef r) meta =
     (case meta of
        PolicyCacheMeta _ _ \<Rightarrow>
          Inl (ValueError ''Policy cache cannot carry host configuration metadata'')
      | _ \<Rightarrow> Inr ())"
| "validate_ref_scope (PolicyCacheRef r) meta =
     (case meta of
        PolicyCacheMeta _ p \<Rightarrow>
          if pr_program r \<noteq> p then Inl (ValueError ''Policy program mismatch'') else Inr ()
      | _ \<Rightarrow> Inr ())"
| "validate_ref_scope (StoredDataRef r) meta =
     (case meta of
        PolicyCacheMeta _ _ \<Rightarrow>
          Inl (ValueError ''Policy cache cannot carry code-scoped local metadata'')
      | RecordMeta _ _ w c _ _ \<Rightarrow>
          if (sr_workspace r, sr_commit r) \<noteq> (w, c) then Inl (ValueError ''WORKSPACE_MISMATCH'')
          else Inr ()
      | RunMeta _ _ \<Rightarrow> Inr ())"
| "validate_ref_scope (RunStoredDataRef r) meta =
     (if meta_analysis meta \<noteq> Some (rr_analysis r) then Inl (ValueError ''Analysis mismatch'')
      else Inr ())"

definition revision_mismatch :: py_error where
  "revision_mismatch = ValueError ''RECORD_REVISION_MISMATCH: record_id/content_hash mismatch''"

definition validate_exact_ref ::
  "record_ref \<Rightarrow> record_metadata \<Rightarrow> string \<Rightarrow> string option \<Rightarrow> unit res" where
  "validate_exact_ref ref meta expected_hash analysis_id =
     bindR (require_record_ref ref (Some (rm_record_type (revision_of meta)))) (\<lambda>_.
       let mismatch = (ref_record_id ref \<noteq> Some (rm_record_id (revision_of meta))
                       \<or> ref_content_hash ref \<noteq> expected_hash) in
       case ref of
         HostConfigurationRef r \<Rightarrow>
           (case meta of
              RecordMeta _ a w c _ _ \<Rightarrow>
                if (hr_analysis r, hr_workspace r, hr_commit r) \<noteq> (a, w, c) then
                  Inl (ValueError ''Host configuration publication scope mismatch'')
                else if mismatch then Inl revision_mismatch else Inr ()
            | _ \<Rightarrow> Inl (ValueError ''Host configuration publication scope mismatch''))
       | _ \<Rightarrow>
           bindR
             (case meta of
                PolicyCacheMeta m p \<Rightarrow>
                  (case ref of
                     PolicyCacheRef r \<Rightarrow>
                       if pr_schema r \<noteq> rm_schema_version m then
                         Inl (ValueError ''Policy cache reference kind/schema mismatch'')
                       else Inr ()
                   | _ \<Rightarrow> Inl (ValueError ''Policy cache reference kind/schema mismatch''))
              | RecordMeta _ a _ _ _ _ \<Rightarrow>
                  (case ref of
                     StoredDataRef _ \<Rightarrow>
                       if analysis_id \<noteq> Some a then
                         Inl (ValueError ''Consuming analysis mismatch or missing'')
                       else Inr ()
                   | _ \<Rightarrow> Inl (ValueError ''Record reference kind mismatch''))
              | RunMeta _ a \<Rightarrow>
                  (case ref of
                     RunStoredDataRef _ \<Rightarrow>
                       if analysis_id \<noteq> Some a then
                         Inl (ValueError ''Consuming analysis mismatch or missing'')
                       else Inr ()
                   | _ \<Rightarrow> Inl (ValueError ''Record reference kind mismatch'')))
             (\<lambda>_. bindR (validate_ref_scope ref meta)
                (\<lambda>_. if mismatch then Inl revision_mismatch else Inr ())))"

section \<open>Lemmas on revisions\<close>

lemma validate_revision_ok:
  "validate_revision p c = Inr () \<longleftrightarrow>
     same_meta_type p c \<and> immutable_attributes p = immutable_attributes c \<and>
     rm_previous_record_id (revision_of c) = Some (rm_record_id (revision_of p)) \<and>
     rm_record_id (revision_of c) \<noteq> rm_record_id (revision_of p) \<and>
     rm_revision_number (revision_of c) = rm_revision_number (revision_of p) + 1 \<and>
     rm_created_at (revision_of p) \<le> rm_created_at (revision_of c)"
  by (auto simp: validate_revision_def)

text \<open>A revision chain: every record is an accepted successor of the one before it.\<close>

fun revision_chain :: "record_metadata list \<Rightarrow> bool" where
  "revision_chain [] = True"
| "revision_chain [m] = True"
| "revision_chain (p # c # ms) = (validate_revision p c = Inr () \<and> revision_chain (c # ms))"

lemma revision_chain_nth:
  "revision_chain ms \<Longrightarrow> i < length ms \<Longrightarrow>
     immutable_attributes (ms ! i) = immutable_attributes (ms ! 0) \<and>
     rm_revision_number (revision_of (ms ! i)) = rm_revision_number (revision_of (ms ! 0)) + int i"
proof (induction ms arbitrary: i rule: revision_chain.induct)
  case (3 p c ms)
  show ?case
  proof (cases i)
    case (Suc k)
    with 3 have "immutable_attributes ((c # ms) ! k) = immutable_attributes c \<and>
        rm_revision_number (revision_of ((c # ms) ! k)) = rm_revision_number (revision_of c) + int k"
      by fastforce
    with 3 Suc show ?thesis by (auto simp: validate_revision_ok)
  qed simp
qed auto

lemma revision_chain_sorted:
  "revision_chain ms \<Longrightarrow> sorted (map (rm_created_at \<circ> revision_of) ms)"
proof (induction ms rule: revision_chain.induct)
  case (3 p c ms)
  then show ?case by (auto simp: validate_revision_ok)
qed auto

section \<open>The canonical bytes of local references\<close>

definition opaque :: "string \<Rightarrow> pyval" where
  "opaque s = VOpaque False (VStr s)"

definition stored_ref_value :: "stored_ref \<Rightarrow> pyval" where
  "stored_ref_value r =
     VModel True False []
       [(''stored_data_id'', opaque (sr_id r)), (''data_kind'', VStr (sr_kind r)),
        (''content_hash'', VStr (sr_hash r)), (''workspace_id'', opaque (sr_workspace r)),
        (''commit_id'', opaque (sr_commit r)),
        (''record_id'', case sr_record r of None \<Rightarrow> VNone | Some x \<Rightarrow> opaque x)]"

definition stored_ref_json :: "stored_ref \<Rightarrow> json" where
  "stored_ref_json r =
     JObj [(''stored_data_id'', JStr (sr_id r)), (''data_kind'', JStr (sr_kind r)),
           (''content_hash'', JStr (sr_hash r)), (''workspace_id'', JStr (sr_workspace r)),
           (''commit_id'', JStr (sr_commit r)),
           (''record_id'', case sr_record r of None \<Rightarrow> JNull | Some x \<Rightarrow> JStr x)]"

lemma normalize_stored_ref:
  "path \<noteq> [] \<or> \<not> rh \<Longrightarrow> normalize policy path rh (stored_ref_value r) = Inr (stored_ref_json r)"
  by (auto simp: stored_ref_value_def stored_ref_json_def opaque_def split: option.splits)

lemma encode_stored_ref_inj: "encode (stored_ref_json r) = encode (stored_ref_json s) \<longleftrightarrow> r = s"
proof
  assume "encode (stored_ref_json r) = encode (stored_ref_json s)"
  then have *: "map_option encode (map_of [(''stored_data_id'', JStr (sr_id r)), (''data_kind'', JStr (sr_kind r)),
           (''content_hash'', JStr (sr_hash r)), (''workspace_id'', JStr (sr_workspace r)),
           (''commit_id'', JStr (sr_commit r)),
           (''record_id'', case sr_record r of None \<Rightarrow> JNull | Some x \<Rightarrow> JStr x)] k)
     = map_option encode (map_of [(''stored_data_id'', JStr (sr_id s)), (''data_kind'', JStr (sr_kind s)),
           (''content_hash'', JStr (sr_hash s)), (''workspace_id'', JStr (sr_workspace s)),
           (''commit_id'', JStr (sr_commit s)),
           (''record_id'', case sr_record s of None \<Rightarrow> JNull | Some x \<Rightarrow> JStr x)] k)" for k
    unfolding stored_ref_json_def by (subst (asm) encode_obj_iff) simp_all
  from * [of "''stored_data_id''"] * [of "''data_kind''"] * [of "''content_hash''"]
    * [of "''workspace_id''"] * [of "''commit_id''"] * [of "''record_id''"]
  show "r = s"
    by (cases r; cases s)
       (auto simp: encode_atom_iff encode_atom_iff(4) [symmetric] split: option.splits)
qed simp

text \<open>A dictionary key for one reference: \<open>canonical_bytes(ref)\<close>.\<close>

definition ref_key :: "stored_ref \<Rightarrow> string" where
  "ref_key r = encode (stored_ref_json r)"

lemma canonical_bytes_ref: "canonical_bytes Map.empty (stored_ref_value r) = Inr (ref_key r)"
  by (simp add: canonical_bytes_def normalize_stored_ref ref_key_def)

lemma ref_key_inj [simp]: "ref_key r = ref_key s \<longleftrightarrow> r = s"
  by (simp add: ref_key_def encode_stored_ref_inj)

definition stored_refs_value :: "stored_ref list \<Rightarrow> pyval" where
  "stored_refs_value refs = VSeq (map stored_ref_value refs)"

lemma canonical_bytes_refs:
  "canonical_bytes Map.empty (stored_refs_value refs) = Inr (encode (JArr (map stored_ref_json refs)))"
proof -
  have "mapR (normalize Map.empty [''*''] False) (map stored_ref_value refs)
      = Inr (map stored_ref_json refs)"
    by (induction refs) (simp_all add: normalize_stored_ref)
  then show ?thesis
    by (simp add: canonical_bytes_def stored_refs_value_def sort_items_def)
qed

lemma canonical_refs_inj:
  "canonical_bytes Map.empty (stored_refs_value rs) = canonical_bytes Map.empty (stored_refs_value ss)
     \<longleftrightarrow> rs = ss"
proof -
  have "map (encode \<circ> stored_ref_json) rs = map (encode \<circ> stored_ref_json) ss \<longleftrightarrow> rs = ss"
    by (rule inj_map_eq_map) (simp add: inj_def encode_stored_ref_inj)
  then show ?thesis
    by (simp add: canonical_bytes_refs encode_arr_iff)
qed

end
