(* ===== verification/Activity.thy ===== *)
theory Activity
  imports Contract_Refs
begin

text \<open>
  \<open>observability/agent_activity.py\<close> and \<open>storage/agent_activity.py\<close>: the auditable activity
  event with its public-value validator, and the append-only event table with its primary key
  and its unique (analysis, hypothesis, attempt, sequence) key.
\<close>

section \<open>Events\<close>

datatype activity_kind =
    STAGE_STARTED
  | EVIDENCE_REVIEWED
  | CONTEXT_REQUESTED
  | EVIDENCE_RECORDED
  | TOOL_REQUESTED
  | TOOL_COMPLETED
  | DECISION_RECORDED
  | STAGE_COMPLETED
  | STAGE_BLOCKED
  | STAGE_FAILED

fun kind_value :: "activity_kind \<Rightarrow> string" where
  "kind_value STAGE_STARTED = ''STAGE_STARTED''"
| "kind_value EVIDENCE_REVIEWED = ''EVIDENCE_REVIEWED''"
| "kind_value CONTEXT_REQUESTED = ''CONTEXT_REQUESTED''"
| "kind_value EVIDENCE_RECORDED = ''EVIDENCE_RECORDED''"
| "kind_value TOOL_REQUESTED = ''TOOL_REQUESTED''"
| "kind_value TOOL_COMPLETED = ''TOOL_COMPLETED''"
| "kind_value DECISION_RECORDED = ''DECISION_RECORDED''"
| "kind_value STAGE_COMPLETED = ''STAGE_COMPLETED''"
| "kind_value STAGE_BLOCKED = ''STAGE_BLOCKED''"
| "kind_value STAGE_FAILED = ''STAGE_FAILED''"

record event =
  ev_event_id :: string
  ev_analysis :: string
  ev_workspace :: string
  ev_commit :: string
  ev_hypothesis :: "string option"
  ev_stage :: string
  ev_agent_role :: string
  ev_attempt :: string
  ev_sequence :: int
  ev_kind :: activity_kind
  ev_status :: string
  ev_summary_ko :: string
  ev_input_refs :: "stored_ref list"
  ev_output_refs :: "stored_ref list"
  ev_tool_name :: "string option"
  ev_tool_result_refs :: "stored_ref list"
  ev_provider :: "string option"
  ev_model :: "string option"
  ev_prompt_digest :: "string option"
  ev_output_digest :: "string option"
  ev_error_code :: "string option"
  ev_started_at :: int
  ev_finished_at :: "int option"
  ev_elapsed_ms :: "int option"

text \<open>\<open>_DIGEST.fullmatch\<close>: exactly 64 lower-case hexadecimal digits.\<close>

definition digest_text :: "string \<Rightarrow> bool" where
  "digest_text s \<longleftrightarrow> length s = 64 \<and> list_all is_hex s"

definition ref_in_scope :: "string \<Rightarrow> string \<Rightarrow> stored_ref \<Rightarrow> bool" where
  "ref_in_scope ws commit r \<longleftrightarrow> sr_workspace r = ws \<and> sr_commit r = commit"

text \<open>
  The \<open>validate_public_event\<close> validator.  \<open>safe\<close> stands for the public-text policy it applies
  to each public value: \<open>assert_safe_provider_text\<close> accepts the text and neither absolute-path
  pattern matches it.
\<close>

definition validate_public_event :: "(string \<Rightarrow> bool) \<Rightarrow> event \<Rightarrow> event res" where
  "validate_public_event safe e =
     (if \<not> pred_option digest_text (ev_prompt_digest e)
        \<or> \<not> pred_option digest_text (ev_output_digest e)
      then Inl (ValueError ''AGENT_ACTIVITY_DIGEST_INVALID'')
      else if \<not> list_all (ref_in_scope (ev_workspace e) (ev_commit e))
                   (ev_input_refs e @ ev_output_refs e @ ev_tool_result_refs e)
      then Inl (ValueError ''AGENT_ACTIVITY_REFERENCE_SCOPE_MISMATCH'')
      else if \<not> pred_option (\<lambda>t. ev_started_at e \<le> t) (ev_finished_at e)
      then Inl (ValueError ''AGENT_ACTIVITY_TIME_INVALID'')
      else if \<not> list_all safe
                   ([ev_stage e, ev_agent_role e, ev_status e, ev_summary_ko e] @
                    List.map_filter id
                      [ev_tool_name e, ev_provider e, ev_model e, ev_error_code e])
      then Inl (ValueError ''AGENT_ACTIVITY_UNSAFE'')
      else Inr e)"

text \<open>The bounds that the field declarations of \<open>AgentActivityEvent\<close> state.\<close>

definition len_in :: "nat \<Rightarrow> string \<Rightarrow> bool" where
  "len_in n s \<longleftrightarrow> 1 \<le> str_len s \<and> str_len s \<le> n"

definition event_fields_ok :: "event \<Rightarrow> bool" where
  "event_fields_ok e \<longleftrightarrow>
     len_in 256 (ev_event_id e) \<and> len_in 128 (ev_analysis e) \<and> len_in 256 (ev_workspace e)
     \<and> len_in 256 (ev_commit e) \<and> len_in 128 (ev_stage e) \<and> len_in 128 (ev_agent_role e)
     \<and> len_in 256 (ev_attempt e) \<and> 1 \<le> ev_sequence e \<and> len_in 64 (ev_status e)
     \<and> len_in 4000 (ev_summary_ko e) \<and> pred_option (\<lambda>n. 0 \<le> n) (ev_elapsed_ms e)"

text \<open>
  \<open>AgentActivityEvent(...)\<close>: the field constraints first, then the model validator.  A pydantic
  \<open>ValidationError\<close> is a \<open>ValueError\<close>.
\<close>

definition make_event :: "(string \<Rightarrow> bool) \<Rightarrow> event \<Rightarrow> event res" where
  "make_event safe e =
     (if event_fields_ok e then validate_public_event safe e
      else Inl (ValueError ''AgentActivityEvent''))"

lemma make_event_Inr: "make_event safe e = Inr e' \<Longrightarrow> e' = e"
  by (auto simp: make_event_def validate_public_event_def split: if_splits)

section \<open>The append-only table\<close>

definition event_hypothesis_key :: "event \<Rightarrow> string" where
  "event_hypothesis_key e = str_default (ev_hypothesis e) []"

text \<open>The columns of the \<open>UNIQUE\<close> constraint.\<close>

definition unique_key :: "event \<Rightarrow> string \<times> string \<times> string \<times> int" where
  "unique_key e = (ev_analysis e, event_hypothesis_key e, ev_attempt e, ev_sequence e)"

text \<open>
  \<open>append_connection\<close>.  The table keeps the rows in insertion order (\<open>rowid\<close>).  The stored
  \<open>event_json\<close> is the canonical encoding of the event, so comparing encodings is comparing
  events.
\<close>

definition append_event :: "event list \<Rightarrow> event \<Rightarrow> event list res" where
  "append_event table e =
     (case find (\<lambda>r. ev_event_id r = ev_event_id e) table of
        Some current \<Rightarrow>
          if current \<noteq> e then Inl (ValueError ''AGENT_ACTIVITY_EVENT_CONFLICT'') else Inr table
      | None \<Rightarrow>
          if \<exists>r \<in> set table. unique_key r = unique_key e
          then Inl (ValueError ''AGENT_ACTIVITY_EVENT_CONFLICT'')
          else Inr (table @ [e]))"

text \<open>The loop of a transaction that appends several events.\<close>

definition append_events :: "event list \<Rightarrow> event list \<Rightarrow> event list res" where
  "append_events = foldR append_event"

text \<open>\<open>list_analysis\<close>: the rows of one analysis, ordered by start time and then by row.\<close>

definition list_analysis :: "event list \<Rightarrow> string \<Rightarrow> string option \<Rightarrow> event list" where
  "list_analysis table analysis_id hypothesis_id =
     sort_key ev_started_at
       (filter (\<lambda>e. ev_analysis e = analysis_id \<and>
                    pred_option (\<lambda>h. event_hypothesis_key e = h) hypothesis_id) table)"

section \<open>The table is append-only and keeps its keys\<close>

definition event_table_ok :: "event list \<Rightarrow> bool" where
  "event_table_ok table \<longleftrightarrow> distinct (map ev_event_id table) \<and> distinct (map unique_key table)"

lemma append_event_cases:
  assumes "append_event table e = Inr table'"
  obtains "table' = table" "e \<in> set table"
  | "table' = table @ [e]" "ev_event_id e \<notin> ev_event_id ` set table"
    "unique_key e \<notin> unique_key ` set table"
proof (cases "find (\<lambda>r. ev_event_id r = ev_event_id e) table")
  case None
  with assms have "table' = table @ [e]" "ev_event_id e \<notin> ev_event_id ` set table"
    "unique_key e \<notin> unique_key ` set table"
    by (force simp: append_event_def find_None_iff split: if_splits)+
  then show ?thesis by (rule that(2))
next
  case (Some current)
  then have "current \<in> set table" by (auto simp: find_Some_iff)
  with Some assms that(1) show ?thesis
    by (auto simp: append_event_def split: if_splits)
qed

lemma append_event_prefix: "append_event table e = Inr table' \<Longrightarrow> \<exists>new. table' = table @ new"
  by (erule append_event_cases) auto

lemma append_event_mem: "append_event table e = Inr table' \<Longrightarrow> e \<in> set table'"
  by (erule append_event_cases) auto

lemma append_event_ok: "append_event table e = Inr table' \<Longrightarrow> event_table_ok table \<Longrightarrow> event_table_ok table'"
  by (erule append_event_cases) (auto simp: event_table_ok_def)

text \<open>Replaying the same event is a no-op; reusing an identifier for another event fails.\<close>

lemma append_event_idem:
  assumes ok: "event_table_ok table" and mem: "e \<in> set table"
  shows "append_event table e = Inr table"
proof -
  have "find (\<lambda>r. ev_event_id r = ev_event_id e) table = Some e"
    using ok mem
  proof (induction table)
    case (Cons r table)
    then show ?case by (auto simp: event_table_ok_def)
  qed simp
  then show ?thesis by (simp add: append_event_def)
qed

interpretation activity_log: append_log append_event event_table_ok
  by unfold_locales (fact append_event_prefix append_event_mem append_event_ok append_event_idem)+

lemmas append_events_prefix = activity_log.appends_prefix [folded append_events_def]
lemmas append_events_ok = activity_log.appends_ok [folded append_events_def]
lemmas append_events_mem = activity_log.appends_mem [folded append_events_def]
lemmas append_events_keep = activity_log.appends_keep [folded append_events_def]
lemmas append_events_replay = activity_log.appends_replay [folded append_events_def]

lemma append_event_conflict:
  assumes ok: "event_table_ok table" and r: "r \<in> set table"
    and id: "ev_event_id r = ev_event_id e" and ne: "r \<noteq> e"
  shows "append_event table e = Inl (ValueError ''AGENT_ACTIVITY_EVENT_CONFLICT'')"
proof -
  have "append_event table r = Inr table" by (rule append_event_idem [OF ok r])
  then have "find (\<lambda>x. ev_event_id x = ev_event_id e) table = Some r"
    using r id by (auto simp: append_event_def find_None_iff split: option.splits if_splits)
  with ne show ?thesis by (simp add: append_event_def)
qed

end
