(* ===== verification/Stage_Models.thy ===== *)
theory Stage_Models
  imports Activity
begin

text \<open>
  \<open>simple_runtime/models.py\<close>: the stages of an analysis and their order and versions, the
  checkpoint, result and failure records, the analysis run with its cross-field validator, and
  the three predicates that recognise a terminal, non-reportable outcome.
\<close>

section \<open>Stages\<close>

datatype stage =
    STATIC_DONE
  | HYPOTHESIS_DONE
  | PRO_CON_DONE
  | VERIFICATION_INITIAL_DONE
  | POC_CANDIDATE_DONE
  | POC_EXECUTION_DONE
  | VERIFICATION_FINAL_DONE
  | CWE_DONE
  | TECH_GATE_DONE
  | SCOPE_GATE_DONE
  | PRIMITIVE_ADMISSION_DONE
  | CHAINING_DONE
  | FINDING_DONE
  | REPORT_DONE

definition STAGE_ORDER :: "stage list" where
  "STAGE_ORDER =
     [STATIC_DONE, HYPOTHESIS_DONE, PRO_CON_DONE, VERIFICATION_INITIAL_DONE, POC_CANDIDATE_DONE,
      POC_EXECUTION_DONE, VERIFICATION_FINAL_DONE, CWE_DONE, TECH_GATE_DONE, SCOPE_GATE_DONE,
      PRIMITIVE_ADMISSION_DONE, CHAINING_DONE, FINDING_DONE, REPORT_DONE]"

definition HYPOTHESIS_STAGES :: "stage list" where
  "HYPOTHESIS_STAGES = drop 2 STAGE_ORDER"

definition MAX_RECOVERY_ATTEMPTS :: int where
  "MAX_RECOVERY_ATTEMPTS = 3"

text \<open>\<open>STAGE_ORDER.index(stage)\<close>.\<close>

fun stage_index :: "stage \<Rightarrow> nat" where
  "stage_index STATIC_DONE = 0"
| "stage_index HYPOTHESIS_DONE = 1"
| "stage_index PRO_CON_DONE = 2"
| "stage_index VERIFICATION_INITIAL_DONE = 3"
| "stage_index POC_CANDIDATE_DONE = 4"
| "stage_index POC_EXECUTION_DONE = 5"
| "stage_index VERIFICATION_FINAL_DONE = 6"
| "stage_index CWE_DONE = 7"
| "stage_index TECH_GATE_DONE = 8"
| "stage_index SCOPE_GATE_DONE = 9"
| "stage_index PRIMITIVE_ADMISSION_DONE = 10"
| "stage_index CHAINING_DONE = 11"
| "stage_index FINDING_DONE = 12"
| "stage_index REPORT_DONE = 13"

fun stage_value :: "stage \<Rightarrow> string" where
  "stage_value STATIC_DONE = ''STATIC_DONE''"
| "stage_value HYPOTHESIS_DONE = ''HYPOTHESIS_DONE''"
| "stage_value PRO_CON_DONE = ''PRO_CON_DONE''"
| "stage_value VERIFICATION_INITIAL_DONE = ''VERIFICATION_INITIAL_DONE''"
| "stage_value POC_CANDIDATE_DONE = ''POC_CANDIDATE_DONE''"
| "stage_value POC_EXECUTION_DONE = ''POC_EXECUTION_DONE''"
| "stage_value VERIFICATION_FINAL_DONE = ''VERIFICATION_FINAL_DONE''"
| "stage_value CWE_DONE = ''CWE_DONE''"
| "stage_value TECH_GATE_DONE = ''TECH_GATE_DONE''"
| "stage_value SCOPE_GATE_DONE = ''SCOPE_GATE_DONE''"
| "stage_value PRIMITIVE_ADMISSION_DONE = ''PRIMITIVE_ADMISSION_DONE''"
| "stage_value CHAINING_DONE = ''CHAINING_DONE''"
| "stage_value FINDING_DONE = ''FINDING_DONE''"
| "stage_value REPORT_DONE = ''REPORT_DONE''"

definition STAGE_VERSION :: "stage \<Rightarrow> string" where
  "STAGE_VERSION s =
     (if s = VERIFICATION_INITIAL_DONE then ''6''
      else if s = POC_CANDIDATE_DONE then ''6''
      else if s = REPORT_DONE then ''4''
      else if s \<in> {POC_EXECUTION_DONE, VERIFICATION_FINAL_DONE} then ''3''
      else if s = TECH_GATE_DONE then ''2''
      else ''1'')"

lemma stage_index_inj [simp]: "stage_index s = stage_index t \<longleftrightarrow> s = t"
  by (cases s; cases t) simp_all

lemma stage_index_less: "stage_index s < length STAGE_ORDER"
  by (cases s) (simp_all add: STAGE_ORDER_def)

lemma STAGE_ORDER_nth: "STAGE_ORDER ! stage_index s = s"
  by (cases s) (simp_all add: STAGE_ORDER_def)

lemma set_STAGE_ORDER [simp]: "s \<in> set STAGE_ORDER"
  by (cases s) (simp_all add: STAGE_ORDER_def)

lemma distinct_STAGE_ORDER [simp]: "distinct STAGE_ORDER"
  by (simp add: STAGE_ORDER_def)

text \<open>Stages are linearly ordered by their position, which makes the library's order apply.\<close>

instantiation stage :: linorder
begin

definition less_eq_stage :: "stage \<Rightarrow> stage \<Rightarrow> bool" where
  "less_eq_stage s t \<longleftrightarrow> stage_index s \<le> stage_index t"

definition less_stage :: "stage \<Rightarrow> stage \<Rightarrow> bool" where
  "less_stage s t \<longleftrightarrow> stage_index s < stage_index t"

instance
  by standard (auto simp: less_eq_stage_def less_stage_def)

end

lemma sorted_STAGE_ORDER: "sorted_wrt (<) STAGE_ORDER"
  by (simp add: STAGE_ORDER_def less_stage_def)

text \<open>\<open>STAGE_ORDER[index(s):]\<close> and \<open>STAGE_ORDER[:index(s)]\<close>.\<close>

definition stages_from :: "stage \<Rightarrow> stage list" where
  "stages_from s = drop (stage_index s) STAGE_ORDER"

definition stages_before :: "stage \<Rightarrow> stage list" where
  "stages_before s = take (stage_index s) STAGE_ORDER"

lemma set_stages_from: "t \<in> set (stages_from s) \<longleftrightarrow> s \<le> t"
  by (cases s; cases t) (simp_all add: stages_from_def STAGE_ORDER_def less_eq_stage_def)

lemma set_stages_before: "t \<in> set (stages_before s) \<longleftrightarrow> t < s"
  by (cases s; cases t) (simp_all add: stages_before_def STAGE_ORDER_def less_stage_def)

lemma set_HYPOTHESIS_STAGES: "t \<in> set HYPOTHESIS_STAGES \<longleftrightarrow> PRO_CON_DONE \<le> t"
  by (cases t) (simp_all add: HYPOTHESIS_STAGES_def STAGE_ORDER_def less_eq_stage_def)

section \<open>Checkpoints\<close>

datatype stage_status = PENDING | RUNNING | SUCCEEDED | BLOCKED | FAILED

fun status_value :: "stage_status \<Rightarrow> string" where
  "status_value PENDING = ''PENDING''"
| "status_value RUNNING = ''RUNNING''"
| "status_value SUCCEEDED = ''SUCCEEDED''"
| "status_value BLOCKED = ''BLOCKED''"
| "status_value FAILED = ''FAILED''"

datatype verdict = V_TRUE | V_FALSE | V_HOLD

datatype gate_decision = ACCEPT | REVISE | REJECT

record identity =
  id_analysis :: string
  id_workspace :: string
  id_commit :: string
  id_hypothesis :: "string option"

record checkpoint =
  cp_identity :: identity
  cp_stage :: stage
  cp_stage_version :: string
  cp_status :: stage_status
  cp_input_refs :: "stored_ref list"
  cp_input_hash :: string
  cp_output_refs :: "stored_ref list"
  cp_attempt_id :: "string option"
  cp_attempt_number :: int
  cp_gate_revision_count :: int
  cp_recovery_lineage_id :: "string option"
  cp_recovery_origin_stage :: "stage option"
  cp_recovery_decision_refs :: "stored_ref list"
  cp_poc_stop_decision_ref :: "stored_ref option"
  cp_external_prerequisites_ref :: "stored_ref option"
  cp_environment_block_ref :: "stored_ref option"
  cp_error_code :: "string option"
  cp_retryable :: bool
  cp_recipe_ref :: "stored_ref option"
  cp_image_digest :: "string option"
  cp_container_id :: "string option"
  cp_validated_poc_ref :: "stored_ref option"
  cp_report_ref :: "stored_ref option"
  cp_bundle_manifest_ref :: "stored_ref option"
  cp_bundle_archive_ref :: "stored_ref option"
  cp_verdict :: "verdict option"
  cp_gate_decision :: "gate_decision option"
  cp_markdown_path :: "string option"
  cp_updated_at :: int

text \<open>
  \<open>hashlib.sha256(canonical_bytes(refs)).hexdigest()\<close>; references are always representable
  (\<open>canonical_bytes_refs\<close>), so the error branch is never taken.
\<close>

definition input_reference_hash :: "stored_ref list \<Rightarrow> string" where
  "input_reference_hash refs =
     (case canonical_bytes Map.empty (stored_refs_value refs) of
        Inr bs \<Rightarrow> sha256_hex bs
      | Inl e \<Rightarrow> [])"

definition require_exact_input_hash :: "checkpoint \<Rightarrow> checkpoint res" where
  "require_exact_input_hash c =
     (if cp_input_hash c \<noteq> input_reference_hash (cp_input_refs c)
      then Inl (ValueError ''SIMPLE_RUNTIME_INPUT_HASH_MISMATCH'') else Inr c)"

text \<open>
  \<open>StageCheckpoint(identity=..., stage=..., ...)\<close> with the declared defaults for every field
  that is not given and the hash of its own inputs, as every construction site passes it.
\<close>

definition new_checkpoint ::
  "identity \<Rightarrow> stage \<Rightarrow> stage_status \<Rightarrow> stored_ref list \<Rightarrow> int \<Rightarrow> checkpoint" where
  "new_checkpoint ident s st inputs now =
     \<lparr>cp_identity = ident, cp_stage = s, cp_stage_version = STAGE_VERSION s, cp_status = st,
      cp_input_refs = inputs, cp_input_hash = input_reference_hash inputs, cp_output_refs = [],
      cp_attempt_id = None, cp_attempt_number = 0, cp_gate_revision_count = 0,
      cp_recovery_lineage_id = None, cp_recovery_origin_stage = None,
      cp_recovery_decision_refs = [], cp_poc_stop_decision_ref = None,
      cp_external_prerequisites_ref = None, cp_environment_block_ref = None,
      cp_error_code = None, cp_retryable = False, cp_recipe_ref = None, cp_image_digest = None,
      cp_container_id = None, cp_validated_poc_ref = None, cp_report_ref = None,
      cp_bundle_manifest_ref = None, cp_bundle_archive_ref = None, cp_verdict = None,
      cp_gate_decision = None, cp_markdown_path = None, cp_updated_at = now\<rparr>"

lemma input_reference_hash_eq:
  "input_reference_hash refs = sha256_hex (encode (JArr (map stored_ref_json refs)))"
  by (simp add: input_reference_hash_def canonical_bytes_refs)

lemma new_checkpoint_hash [simp]:
  "require_exact_input_hash (new_checkpoint ident s st inputs now)
     = Inr (new_checkpoint ident s st inputs now)"
  by (simp add: require_exact_input_hash_def new_checkpoint_def)

section \<open>Results and failures\<close>

record stage_result =
  res_output_refs :: "stored_ref list"
  res_external_prerequisites_ref :: "stored_ref option"
  res_environment_block_ref :: "stored_ref option"
  res_validated_poc_ref :: "stored_ref option"
  res_report_ref :: "stored_ref option"
  res_bundle_manifest_ref :: "stored_ref option"
  res_bundle_archive_ref :: "stored_ref option"
  res_verdict :: "verdict option"
  res_gate_decision :: "gate_decision option"
  res_recipe_ref :: "stored_ref option"
  res_image_digest :: "string option"
  res_container_id :: "string option"
  res_markdown_path :: "string option"
  res_activity_events :: "event list"

record stage_failure =
  fl_code :: string
  fl_retryable :: bool
  fl_safe_message :: string
  fl_invalid_field :: "string option"
  fl_evidence_refs :: "stored_ref list"

definition failure :: "string \<Rightarrow> bool \<Rightarrow> string \<Rightarrow> stored_ref list \<Rightarrow> stage_failure" where
  "failure code retryable message evidence =
     \<lparr>fl_code = code, fl_retryable = retryable, fl_safe_message = message,
      fl_invalid_field = None, fl_evidence_refs = evidence\<rparr>"

section \<open>Terminal outcomes\<close>

datatype terminal_outcome = INCONCLUSIVE | REJECTED

definition terminal_initial_outcome :: "checkpoint option \<Rightarrow> terminal_outcome option" where
  "terminal_initial_outcome checkpoint =
     (case checkpoint of
        None \<Rightarrow> None
      | Some c \<Rightarrow>
          if cp_stage c = VERIFICATION_INITIAL_DONE \<and> cp_status c = SUCCEEDED
             \<and> cp_stage_version c = STAGE_VERSION VERIFICATION_INITIAL_DONE
             \<and> cp_verdict c = Some V_HOLD
             \<and> ((case cp_external_prerequisites_ref c of
                    Some ref \<Rightarrow> cp_environment_block_ref c = None \<and> ref \<in> set (cp_output_refs c)
                  | None \<Rightarrow> False)
               \<or> (case cp_environment_block_ref c of
                    Some ref \<Rightarrow>
                      cp_external_prerequisites_ref c = None \<and> ref \<in> set (cp_output_refs c)
                  | None \<Rightarrow> False))
             \<and> cp_recipe_ref c = None \<and> cp_validated_poc_ref c = None
          then Some INCONCLUSIVE else None)"

definition terminal_poc_outcome :: "checkpoint option \<Rightarrow> terminal_outcome option" where
  "terminal_poc_outcome checkpoint =
     (case checkpoint of
        None \<Rightarrow> None
      | Some c \<Rightarrow>
          if cp_stage c = POC_EXECUTION_DONE \<and> cp_status c = SUCCEEDED
             \<and> cp_stage_version c = STAGE_VERSION POC_EXECUTION_DONE
             \<and> cp_verdict c = Some V_HOLD
             \<and> (MAX_RECOVERY_ATTEMPTS \<le> cp_attempt_number c \<or> cp_poc_stop_decision_ref c \<noteq> None)
             \<and> cp_validated_poc_ref c = None \<and> 2 \<le> length (cp_output_refs c)
          then Some INCONCLUSIVE else None)"

definition terminal_gate_outcome :: "checkpoint option \<Rightarrow> terminal_outcome option" where
  "terminal_gate_outcome checkpoint =
     (case checkpoint of
        None \<Rightarrow> None
      | Some c \<Rightarrow>
          if cp_stage c \<noteq> TECH_GATE_DONE \<or> cp_status c \<noteq> SUCCEEDED
             \<or> cp_stage_version c \<noteq> STAGE_VERSION TECH_GATE_DONE
          then None
          else if cp_gate_decision c = Some REJECT then Some REJECTED
          else if cp_gate_decision c = Some REVISE \<and> 2 \<le> cp_gate_revision_count c
          then Some INCONCLUSIVE
          else None)"

text \<open>No checkpoint is terminal for two reasons: the three predicates look at different stages.\<close>

lemma terminal_outcomes_exclusive:
  "terminal_initial_outcome (Some c) \<noteq> None \<Longrightarrow>
     terminal_poc_outcome (Some c) = None \<and> terminal_gate_outcome (Some c) = None"
  "terminal_poc_outcome (Some c) \<noteq> None \<Longrightarrow> terminal_gate_outcome (Some c) = None"
  by (auto simp: terminal_initial_outcome_def terminal_poc_outcome_def terminal_gate_outcome_def
      split: if_splits)

section \<open>Analysis runs\<close>

record candidate_terminal =
  ct_partial :: bool
  ct_bundle_hash :: string
  ct_scope_fingerprint :: string
  ct_decision_counts :: "(string \<times> int) list"
  ct_deep_counts :: "(string \<times> int) list"
  ct_hypothesis_count :: int
  ct_surface_index_hash :: "string option"
  ct_surface_coverage_hash :: "string option"
  ct_surface_proof_version :: int
  ct_scope_certificate_hash :: "string option"
  ct_surface_counts :: "(string \<times> int) list"
  ct_producer_finished :: bool
  ct_chaining_pool_fingerprint :: "string option"
  ct_chaining_batch_count :: "int option"
  ct_pending_child_count :: int

datatype enrichment_status = E_RUNNING | E_BLOCKED | E_FAILED | E_PAUSED | E_PARTIAL | E_COMPLETE

record analysis_run =
  run_analysis_id :: string
  run_display_analysis_id :: string
  run_workspace_id :: string
  run_commit_id :: string
  run_repository :: string
  run_profile_ref :: "string option"
  run_provider :: "string option"
  run_model :: "string option"
  run_model_route_version :: "int option"
  run_model_routes :: "(string \<times> string) list option"
  run_started_at :: "int option"
  run_llm_provider :: "string option"
  run_on_demand_possible :: bool
  run_workspace_path :: "string option"
  run_repository_profile_ref :: "stored_ref option"
  run_static_bundle_ref :: "stored_ref option"
  run_static_coverage_ref :: "stored_ref option"
  run_static_partial :: bool
  run_security_policy_ref :: "stored_ref option"
  run_policy_snapshot_ref :: "stored_ref option"
  run_candidate_pipeline_version :: "int option"
  run_candidate_scope_fingerprint :: "string option"
  run_candidate_terminal :: "candidate_terminal option"
  run_surface_supplement_plan_ref :: "stored_ref option"
  run_surface_enrichment_plan_ref :: "stored_ref option"
  run_surface_enrichment_v5_plan_ref :: "stored_ref option"
  run_surface_enrichment_v6_plan_ref :: "stored_ref option"
  run_surface_enrichment_v7_plan_ref :: "stored_ref option"
  run_surface_enrichment_v8_plan_ref :: "stored_ref option"
  run_surface_enrichment_v9_plan_ref :: "stored_ref option"
  run_surface_enrichment_v10_plan_ref :: "stored_ref option"
  run_surface_enrichment_v11_plan_ref :: "stored_ref option"
  run_python_scope_certificate_ref :: "stored_ref option"
  run_surface_enrichment_status :: "enrichment_status option"
  run_surface_enrichment_error_code :: "string option"
  run_hypothesis_ids :: "string list"
  run_parent_hypothesis_ids :: "(string \<times> string list) list"
  run_chain_depths :: "(string \<times> int) list"

text \<open>The cross-field validator \<open>validate_model_route_snapshot\<close>.\<close>

definition validate_run :: "analysis_run \<Rightarrow> analysis_run res" where
  "validate_run r =
    (if run_model_route_version r = None \<and> run_model_routes r \<noteq> None
     then Inl (ValueError ''MODEL_ROUTE_VERSION_REQUIRED'')
     else if run_model_route_version r \<noteq> None \<and>
        (run_provider r = None \<or> run_model r = None \<or> run_model_routes r = None)
     then Inl (ValueError ''MODEL_ROUTE_SNAPSHOT_INCOMPLETE'')
     else if run_surface_enrichment_status r \<in> {Some E_RUNNING, Some E_PARTIAL, Some E_COMPLETE} \<and>
        (run_surface_enrichment_plan_ref r = None \<or> run_python_scope_certificate_ref r = None)
     then Inl (ValueError ''SURFACE_ENRICHMENT_STATE_UNBOUND'')
     else if run_surface_enrichment_v5_plan_ref r \<noteq> None \<and>
        (run_surface_enrichment_plan_ref r = None \<or> run_python_scope_certificate_ref r = None)
     then Inl (ValueError ''SURFACE_ENRICHMENT_V5_STATE_UNBOUND'')
     else if run_surface_enrichment_v6_plan_ref r \<noteq> None \<and>
        (run_surface_enrichment_v5_plan_ref r = None \<or> run_surface_enrichment_plan_ref r = None \<or>
         run_python_scope_certificate_ref r = None)
     then Inl (ValueError ''SURFACE_ENRICHMENT_V6_STATE_UNBOUND'')
     else if run_surface_enrichment_v7_plan_ref r \<noteq> None \<and>
        (run_surface_enrichment_v6_plan_ref r = None \<or> run_surface_enrichment_v5_plan_ref r = None \<or>
         run_surface_enrichment_plan_ref r = None \<or> run_python_scope_certificate_ref r = None)
     then Inl (ValueError ''SURFACE_ENRICHMENT_V7_STATE_UNBOUND'')
     else if run_surface_enrichment_v8_plan_ref r \<noteq> None \<and>
        (run_surface_enrichment_v7_plan_ref r = None \<or> run_surface_enrichment_v6_plan_ref r = None \<or>
         run_surface_enrichment_v5_plan_ref r = None \<or> run_surface_enrichment_plan_ref r = None \<or>
         run_python_scope_certificate_ref r = None)
     then Inl (ValueError ''SURFACE_ENRICHMENT_V8_STATE_UNBOUND'')
     else if run_surface_enrichment_v9_plan_ref r \<noteq> None \<and>
        (run_surface_enrichment_v8_plan_ref r = None \<or> run_surface_enrichment_v7_plan_ref r = None \<or>
         run_python_scope_certificate_ref r = None)
     then Inl (ValueError ''SURFACE_ENRICHMENT_V9_STATE_UNBOUND'')
     else if run_surface_enrichment_v10_plan_ref r \<noteq> None \<and>
        (run_surface_enrichment_v9_plan_ref r = None \<or> run_python_scope_certificate_ref r = None)
     then Inl (ValueError ''SURFACE_ENRICHMENT_V10_STATE_UNBOUND'')
     else if run_surface_enrichment_v11_plan_ref r \<noteq> None \<and>
        (run_surface_enrichment_v10_plan_ref r = None \<or> run_python_scope_certificate_ref r = None)
     then Inl (ValueError ''SURFACE_ENRICHMENT_V11_STATE_UNBOUND'')
     else if (case run_candidate_terminal r of
                Some ct \<Rightarrow> ct_surface_proof_version ct = 9 \<and> run_surface_enrichment_v11_plan_ref r = None
              | None \<Rightarrow> False)
     then Inl (ValueError ''SURFACE_ENRICHMENT_V11_STATE_UNBOUND'')
     else if run_surface_enrichment_status r \<in> {Some E_BLOCKED, Some E_FAILED, Some E_PAUSED} then
       (if run_surface_enrichment_error_code r \<in> {None, Some []}
        then Inl (ValueError ''SURFACE_ENRICHMENT_ERROR_MISSING'') else Inr r)
     else if run_surface_enrichment_error_code r \<noteq> None
     then Inl (ValueError ''SURFACE_ENRICHMENT_ERROR_UNBOUND'')
     else Inr r)"

end
