(* ===== verification/Recovery_Policy.thy ===== *)
theory Recovery_Policy
  imports Stage_Models
begin

text \<open>
  \<open>simple_runtime/recovery.py\<close>: the categories and actions of a recovery decision, the action
  whitelist of each category, the validation of an agent's decision and the two fixed fallback
  decisions that are not agent decisions.
\<close>

datatype recovery_category = TRANSIENT_TOOL | GENERATED_INPUT | ENVIRONMENT | TERMINAL

datatype recovery_action =
    RETRY_STAGE
  | REBUILD_ENVIRONMENT
  | REPLAN_ENVIRONMENT
  | REGENERATE_INPUT
  | STOP

fun category_value :: "recovery_category \<Rightarrow> string" where
  "category_value TRANSIENT_TOOL = ''TRANSIENT_TOOL''"
| "category_value GENERATED_INPUT = ''GENERATED_INPUT''"
| "category_value ENVIRONMENT = ''ENVIRONMENT''"
| "category_value TERMINAL = ''TERMINAL''"

fun action_value :: "recovery_action \<Rightarrow> string" where
  "action_value RETRY_STAGE = ''RETRY_STAGE''"
| "action_value REBUILD_ENVIRONMENT = ''REBUILD_ENVIRONMENT''"
| "action_value REPLAN_ENVIRONMENT = ''REPLAN_ENVIRONMENT''"
| "action_value REGENERATE_INPUT = ''REGENERATE_INPUT''"
| "action_value STOP = ''STOP''"

record recovery_decision =
  rd_category :: recovery_category
  rd_action :: recovery_action
  rd_diagnosis :: string
  rd_guidance :: string
  rd_environment_patch :: string

record recovery_resolution =
  rr_decision :: recovery_decision
  rr_decision_ref :: stored_ref

definition TERMINAL_ERROR_CODES :: "string list" where
  "TERMINAL_ERROR_CODES =
     [''AUTH_REQUIRED'', ''AUTH_INVALID'', ''POLICY_DENIED'', ''CAPABILITY_DENIED'',
      ''RECOVERY_EXHAUSTED'', ''SIMPLE_RUNTIME_REFERENCE_SCOPE_MISMATCH'']"

fun ALLOWED_ACTIONS :: "recovery_category \<Rightarrow> recovery_action set" where
  "ALLOWED_ACTIONS TRANSIENT_TOOL = {RETRY_STAGE, STOP}"
| "ALLOWED_ACTIONS GENERATED_INPUT = {REGENERATE_INPUT, STOP}"
| "ALLOWED_ACTIONS ENVIRONMENT = {REBUILD_ENVIRONMENT, REPLAN_ENVIRONMENT, STOP}"
| "ALLOWED_ACTIONS TERMINAL = {STOP}"

definition LEGACY_RECOVERY_FALLBACK_STOPS :: "(string \<times> string) list" where
  "LEGACY_RECOVERY_FALLBACK_STOPS =
     [(''recovery provider did not return a decision'', ''preserve the failure for manual review''),
      (''recovery output failed policy validation'', ''preserve the failure for manual review'')]"

definition stop_decision :: "string \<Rightarrow> string \<Rightarrow> recovery_decision" where
  "stop_decision diagnosis guidance =
     \<lparr>rd_category = TERMINAL, rd_action = STOP, rd_diagnosis = diagnosis,
      rd_guidance = guidance, rd_environment_patch = []\<rparr>"

end
