(* ===== verification/Wire.thy ===== *)
theory Wire
  imports Recovery_Policy
begin

text \<open>
  Strict reading of JSON documents back into the contract models, as
  \<open>Model.model_validate_json(canonical_bytes(value))\<close> does: unknown members are refused
  (\<open>extra="forbid"\<close>), no value is converted to another type (\<open>strict=True\<close>), a member may be
  absent only when its field declares a default, and the field constraints of
  \<open>contracts/base.py\<close> are checked.  A failed validation is \<open>None\<close>.
\<close>

section \<open>Strings\<close>

text \<open>The code points of a UTF-8 byte sequence.\<close>

fun code_points :: "nat \<Rightarrow> string \<Rightarrow> nat list" where
  "code_points acc [] = [acc]"
| "code_points acc (c # cs) =
     (let b = of_char c :: nat in
      if b < 128 then acc # code_points b cs
      else if b < 192 then code_points (acc * 64 + (b - 128)) cs
      else if b < 224 then acc # code_points (b - 192) cs
      else if b < 240 then acc # code_points (b - 224) cs
      else acc # code_points (b - 240) cs)"

definition white_space :: "nat \<Rightarrow> bool" where
  "white_space n \<longleftrightarrow> 9 \<le> n \<and> n \<le> 13 \<or> n = 32 \<or> n = 0x85 \<or> n = 0xA0 \<or> n = 0x1680
     \<or> 0x2000 \<le> n \<and> n \<le> 0x200A \<or> n = 0x2028 \<or> n = 0x2029 \<or> n = 0x202F \<or> n = 0x205F
     \<or> n = 0x3000"

text \<open>\<open>NonEmptyStr\<close>: at least one character, and one that is not white space.\<close>

definition non_empty_str :: "string \<Rightarrow> bool" where
  "non_empty_str s \<longleftrightarrow> s \<noteq> [] \<and> (\<exists>n \<in> set (tl (code_points 0 s)). \<not> white_space n)"

section \<open>Members\<close>

definition jget :: "(string \<times> json) list \<Rightarrow> string \<Rightarrow> json option" where
  "jget ms k = map_of ms k"

fun as_str :: "json \<Rightarrow> string option" where
  "as_str (JStr s) = Some s"
| "as_str _ = None"

fun as_bool :: "json \<Rightarrow> bool option" where
  "as_bool (JBool b) = Some b"
| "as_bool _ = None"

fun as_obj :: "json \<Rightarrow> (string \<times> json) list option" where
  "as_obj (JObj ms) = Some ms"
| "as_obj _ = None"

fun as_arr :: "json \<Rightarrow> json list option" where
  "as_arr (JArr js) = Some js"
| "as_arr _ = None"

definition checked_str :: "(string \<Rightarrow> bool) \<Rightarrow> json \<Rightarrow> string option" where
  "checked_str P j = Option.bind (as_str j) (\<lambda>s. if P s then Some s else None)"

text \<open>An optional value: \<open>null\<close> is \<open>None\<close>.\<close>

definition nullable :: "(json \<Rightarrow> 'a option) \<Rightarrow> json \<Rightarrow> 'a option option" where
  "nullable p j = (if j = JNull then Some None else map_option Some (p j))"

definition required :: "(string \<times> json) list \<Rightarrow> string \<Rightarrow> (json \<Rightarrow> 'a option) \<Rightarrow> 'a option" where
  "required ms k p = Option.bind (jget ms k) p"

definition defaulted ::
  "(string \<times> json) list \<Rightarrow> string \<Rightarrow> 'a \<Rightarrow> (json \<Rightarrow> 'a option) \<Rightarrow> 'a option" where
  "defaulted ms k d p = (case jget ms k of None \<Rightarrow> Some d | Some j \<Rightarrow> p j)"

definition no_extra :: "(string \<times> json) list \<Rightarrow> string list \<Rightarrow> bool" where
  "no_extra ms names \<longleftrightarrow> list_all (\<lambda>kv. fst kv \<in> set names) ms"

fun parse_all :: "(json \<Rightarrow> 'a option) \<Rightarrow> json list \<Rightarrow> 'a list option" where
  "parse_all p [] = Some []"
| "parse_all p (j # js) =
     Option.bind (p j) (\<lambda>x. Option.bind (parse_all p js) (\<lambda>xs. Some (x # xs)))"

section \<open>The models\<close>

definition parse_stored_ref :: "json \<Rightarrow> stored_ref option" where
  "parse_stored_ref j = Option.bind (as_obj j) (\<lambda>ms.
     if \<not> no_extra ms [''stored_data_id'', ''data_kind'', ''content_hash'', ''workspace_id'',
                      ''commit_id'', ''record_id''] then None else
     Option.bind (required ms ''stored_data_id'' (checked_str non_empty_str)) (\<lambda>i.
     Option.bind (required ms ''data_kind'' (checked_str non_empty_str)) (\<lambda>k.
     Option.bind (required ms ''content_hash'' (checked_str digest_text)) (\<lambda>h.
     Option.bind (required ms ''workspace_id'' (checked_str non_empty_str)) (\<lambda>w.
     Option.bind (required ms ''commit_id'' (checked_str non_empty_str)) (\<lambda>c.
     Option.bind (required ms ''record_id'' (nullable (checked_str non_empty_str))) (\<lambda>r.
       Some \<lparr>sr_id = i, sr_kind = k, sr_hash = h, sr_workspace = w, sr_commit = c,
             sr_record = r\<rparr>)))))))"

definition parse_stage_failure :: "json \<Rightarrow> stage_failure option" where
  "parse_stage_failure j = Option.bind (as_obj j) (\<lambda>ms.
     if \<not> no_extra ms [''code'', ''retryable'', ''safe_message'', ''invalid_field'',
                      ''evidence_refs''] then None else
     Option.bind (required ms ''code'' as_str) (\<lambda>c.
     Option.bind (required ms ''retryable'' as_bool) (\<lambda>r.
     Option.bind (required ms ''safe_message'' as_str) (\<lambda>m.
     Option.bind (defaulted ms ''invalid_field'' None (nullable as_str)) (\<lambda>f.
     Option.bind (defaulted ms ''evidence_refs'' []
                    (\<lambda>v. Option.bind (as_arr v) (parse_all parse_stored_ref))) (\<lambda>e.
       Some \<lparr>fl_code = c, fl_retryable = r, fl_safe_message = m, fl_invalid_field = f,
             fl_evidence_refs = e\<rparr>))))))"

definition parse_category :: "json \<Rightarrow> recovery_category option" where
  "parse_category j = Option.bind (as_str j)
     (\<lambda>s. find (\<lambda>c. category_value c = s) [TRANSIENT_TOOL, GENERATED_INPUT, ENVIRONMENT, TERMINAL])"

definition parse_action :: "json \<Rightarrow> recovery_action option" where
  "parse_action j = Option.bind (as_str j)
     (\<lambda>s. find (\<lambda>a. action_value a = s)
        [RETRY_STAGE, REBUILD_ENVIRONMENT, REPLAN_ENVIRONMENT, REGENERATE_INPUT, STOP])"

definition parse_recovery_decision :: "json \<Rightarrow> recovery_decision option" where
  "parse_recovery_decision j = Option.bind (as_obj j) (\<lambda>ms.
     if \<not> no_extra ms [''category'', ''action'', ''diagnosis'', ''guidance'',
                      ''environment_patch''] then None else
     Option.bind (required ms ''category'' parse_category) (\<lambda>c.
     Option.bind (required ms ''action'' parse_action) (\<lambda>a.
     Option.bind (required ms ''diagnosis'' as_str) (\<lambda>d.
     Option.bind (required ms ''guidance'' as_str) (\<lambda>g.
     Option.bind (defaulted ms ''environment_patch'' [] as_str) (\<lambda>p.
       Some \<lparr>rd_category = c, rd_action = a, rd_diagnosis = d, rd_guidance = g,
             rd_environment_patch = p\<rparr>))))))"

section \<open>The JSON the writers produce\<close>

definition jopt :: "string option \<Rightarrow> json" where
  "jopt x = (case x of None \<Rightarrow> JNull | Some s \<Rightarrow> JStr s)"

definition identity_json :: "identity \<Rightarrow> json" where
  "identity_json i =
     JObj [(''analysis_id'', JStr (id_analysis i)), (''workspace_id'', JStr (id_workspace i)),
           (''commit_id'', JStr (id_commit i)), (''hypothesis_id'', jopt (id_hypothesis i))]"

definition stage_failure_json :: "stage_failure \<Rightarrow> json" where
  "stage_failure_json f =
     JObj [(''code'', JStr (fl_code f)), (''retryable'', JBool (fl_retryable f)),
           (''safe_message'', JStr (fl_safe_message f)), (''invalid_field'', jopt (fl_invalid_field f)),
           (''evidence_refs'', JArr (map stored_ref_json (fl_evidence_refs f)))]"

definition recovery_decision_json :: "recovery_decision \<Rightarrow> json" where
  "recovery_decision_json d =
     JObj [(''category'', JStr (category_value (rd_category d))),
           (''action'', JStr (action_value (rd_action d))), (''diagnosis'', JStr (rd_diagnosis d)),
           (''guidance'', JStr (rd_guidance d)),
           (''environment_patch'', JStr (rd_environment_patch d))]"

text \<open>\<open>a == b\<close> on parsed JSON objects ignores the order of members.\<close>

definition json_eq :: "json \<Rightarrow> json \<Rightarrow> bool" where
  "json_eq a b \<longleftrightarrow> sort_members a = sort_members b"

text \<open>\<open>value == n\<close> for an integer \<open>n\<close>: Python's \<open>True\<close> and \<open>False\<close> equal 1 and 0.\<close>

fun json_eq_int :: "json option \<Rightarrow> int \<Rightarrow> bool" where
  "json_eq_int (Some (JInt i)) n = (i = n)"
| "json_eq_int (Some (JBool b)) n = (n = (if b then 1 else 0))"
| "json_eq_int _ n = False"

section \<open>Reading back what was written\<close>

definition stored_ref_ok :: "stored_ref \<Rightarrow> bool" where
  "stored_ref_ok r \<longleftrightarrow> non_empty_str (sr_id r) \<and> non_empty_str (sr_kind r)
     \<and> digest_text (sr_hash r) \<and> non_empty_str (sr_workspace r) \<and> non_empty_str (sr_commit r)
     \<and> pred_option non_empty_str (sr_record r)"

lemmas wire_simps = jget_def required_def defaulted_def no_extra_def checked_str_def
  nullable_def jopt_def

lemma parse_stored_ref_json: "stored_ref_ok r \<Longrightarrow> parse_stored_ref (stored_ref_json r) = Some r"
  by (cases "sr_record r")
     (simp_all add: parse_stored_ref_def stored_ref_json_def stored_ref_ok_def wire_simps)

lemma parse_all_refs:
  "list_all stored_ref_ok rs \<Longrightarrow> parse_all parse_stored_ref (map stored_ref_json rs) = Some rs"
  by (induction rs) (simp_all add: parse_stored_ref_json)

lemma parse_stage_failure_json:
  "list_all stored_ref_ok (fl_evidence_refs f) \<Longrightarrow> parse_stage_failure (stage_failure_json f) = Some f"
  by (cases "fl_invalid_field f")
     (simp_all add: parse_stage_failure_def stage_failure_json_def wire_simps parse_all_refs)

lemma parse_category_value: "parse_category (JStr (category_value c)) = Some c"
  by (cases c) (simp_all add: parse_category_def)

lemma parse_action_value: "parse_action (JStr (action_value a)) = Some a"
  by (cases a) (simp_all add: parse_action_def)

lemma parse_recovery_decision_json: "parse_recovery_decision (recovery_decision_json d) = Some d"
  by (simp add: parse_recovery_decision_def recovery_decision_json_def wire_simps
      parse_category_value parse_action_value)

text \<open>Reading accepts only references that satisfy the field constraints.\<close>

lemma parse_stored_ref_ok: "parse_stored_ref j = Some r \<Longrightarrow> stored_ref_ok r"
  by (auto simp: parse_stored_ref_def stored_ref_ok_def wire_simps bind_eq_Some_conv
      split: if_splits)

end
