(* ===== verification/Tables.thy ===== *)
theory Tables
  imports Prelude
begin

text \<open>
  Keyed tables.  A SQLite table with a primary key is a list of rows in insertion order; the
  key of a row is computed from the row.  The statements the stores use are
  \<open>SELECT ... WHERE key = ?\<close> (\<open>tbl_lookup\<close>), \<open>INSERT ... ON CONFLICT (key) DO UPDATE\<close>
  (\<open>tbl_upsert\<close>) and \<open>DELETE ... WHERE P(key)\<close> (\<open>tbl_delete\<close>).  The locale \<open>keyed_table\<close> is
  what a store relies on.
\<close>

definition tbl_lookup :: "('r \<Rightarrow> 'k) \<Rightarrow> 'r list \<Rightarrow> 'k \<Rightarrow> 'r option" where
  "tbl_lookup key t k = find (\<lambda>r. key r = k) t"

fun tbl_upsert :: "('r \<Rightarrow> 'k) \<Rightarrow> 'r list \<Rightarrow> 'r \<Rightarrow> 'r list" where
  "tbl_upsert key [] r = [r]"
| "tbl_upsert key (q # t) r = (if key q = key r then r # t else q # tbl_upsert key t r)"

definition tbl_delete :: "('r \<Rightarrow> 'k) \<Rightarrow> ('k \<Rightarrow> bool) \<Rightarrow> 'r list \<Rightarrow> 'r list" where
  "tbl_delete key P t = filter (\<lambda>r. \<not> P (key r)) t"

definition tbl_ok :: "('r \<Rightarrow> 'k) \<Rightarrow> 'r list \<Rightarrow> bool" where
  "tbl_ok key t \<longleftrightarrow> distinct (map key t)"

section \<open>The interface\<close>

locale keyed_table =
  fixes lookup :: "'t \<Rightarrow> 'k \<Rightarrow> 'r option"
    and upsert :: "'t \<Rightarrow> 'r \<Rightarrow> 't"
    and delete :: "('k \<Rightarrow> bool) \<Rightarrow> 't \<Rightarrow> 't"
    and rows :: "'t \<Rightarrow> 'r set"
    and key :: "'r \<Rightarrow> 'k"
    and ok :: "'t \<Rightarrow> bool"
  assumes lookup_upsert: "lookup (upsert t r) k = (if k = key r then Some r else lookup t k)"
    and lookup_delete: "lookup (delete P t) k = (if P k then None else lookup t k)"
    and lookup_row: "lookup t k = Some r \<Longrightarrow> r \<in> rows t \<and> key r = k"
    and row_lookup: "ok t \<Longrightarrow> r \<in> rows t \<Longrightarrow> lookup t (key r) = Some r"
    and ok_upsert: "ok t \<Longrightarrow> ok (upsert t r)"
    and ok_delete: "ok t \<Longrightarrow> ok (delete P t)"
begin

text \<open>Replacing a range of rows by one row: the statement pair every restart uses.\<close>

lemma lookup_replace:
  "lookup (upsert (delete P t) r) k
     = (if k = key r then Some r else if P k then None else lookup t k)"
  by (simp add: lookup_upsert lookup_delete)

lemma rows_upsert: "ok t \<Longrightarrow> q \<in> rows (upsert t r) \<Longrightarrow> q = r \<or> q \<in> rows t"
  using row_lookup [OF ok_upsert] lookup_upsert lookup_row
  by (metis option.inject)

lemma rows_delete: "ok t \<Longrightarrow> q \<in> rows (delete P t) \<Longrightarrow> q \<in> rows t \<and> \<not> P (key q)"
  using row_lookup [OF ok_delete] lookup_delete lookup_row
  by (metis option.distinct(1))

lemma lookup_eq_iff: "ok t \<Longrightarrow> lookup t k = Some r \<longleftrightarrow> r \<in> rows t \<and> key r = k"
  using lookup_row row_lookup by blast

text \<open>A predicate of single rows that holds of every row and of the new one is kept.\<close>

lemma upsert_all:
  assumes "ok t" and "\<And>q. q \<in> rows t \<Longrightarrow> P q" and "P r"
  shows "\<And>q. q \<in> rows (upsert t r) \<Longrightarrow> P q"
  using assms rows_upsert by blast

lemma delete_all:
  assumes "ok t" and "\<And>q. q \<in> rows t \<Longrightarrow> P q"
  shows "\<And>q. q \<in> rows (delete R t) \<Longrightarrow> P q"
  using assms rows_delete by blast

end

section \<open>Lists of rows implement it\<close>

lemma tbl_lookup_upsert [store_simps]:
  "tbl_lookup key (tbl_upsert key t r) k = (if k = key r then Some r else tbl_lookup key t k)"
  by (induction key t r rule: tbl_upsert.induct) (auto simp: tbl_lookup_def)

lemma tbl_lookup_delete [store_simps]:
  "tbl_lookup key (tbl_delete key P t) k = (if P k then None else tbl_lookup key t k)"
  by (induction t) (auto simp: tbl_lookup_def tbl_delete_def)

lemma tbl_lookup_Some: "tbl_lookup key t k = Some r \<Longrightarrow> r \<in> set t \<and> key r = k"
  by (auto simp: tbl_lookup_def find_Some_iff)

lemma tbl_lookup_mem: "tbl_ok key t \<Longrightarrow> r \<in> set t \<Longrightarrow> tbl_lookup key t (key r) = Some r"
  by (induction t) (auto simp: tbl_lookup_def tbl_ok_def)

lemma key_set_upsert: "key ` set (tbl_upsert key t r) = insert (key r) (key ` set t)"
  by (induction key t r rule: tbl_upsert.induct) auto

lemma tbl_ok_upsert: "tbl_ok key t \<Longrightarrow> tbl_ok key (tbl_upsert key t r)"
proof (induction key t r rule: tbl_upsert.induct)
  case (2 key q t r)
  have "key q \<notin> key ` set (tbl_upsert key t r)" if "key q \<noteq> key r"
    using 2(2) that by (auto simp: tbl_ok_def key_set_upsert)
  with 2 show ?case by (auto simp: tbl_ok_def)
qed (simp add: tbl_ok_def)

lemma tbl_ok_delete: "tbl_ok key t \<Longrightarrow> tbl_ok key (tbl_delete key P t)"
  by (simp add: tbl_ok_def tbl_delete_def distinct_map_filter)

lemma keyed_table_list:
  "keyed_table (tbl_lookup key) (tbl_upsert key) (tbl_delete key) set key (tbl_ok key)"
  by unfold_locales
     (auto simp: tbl_lookup_upsert tbl_lookup_delete dest: tbl_lookup_Some
           intro: tbl_lookup_mem tbl_ok_upsert tbl_ok_delete)

end
