(* ===== verification/Lifecycle.thy ===== *)
theory Lifecycle
  imports Wire Tables
begin

text \<open>
  The activity events that \<open>simple_runtime/store.py\<close> writes beside every checkpoint change:
  the stage roles, the sequence numbers of a stage and \<open>_lifecycle_event\<close>.
\<close>

section \<open>Texts\<close>

text \<open>The Korean summaries of the store, by their code points.\<close>

definition pro_con_text :: string where
  "pro_con_text = utf8
     [80, 114, 111, 183, 67, 111, 110, 32, 65, 103, 101, 110, 116, 51032, 32, 52268, 49457,
      183, 48152, 45824, 32, 44540, 44144, 47484, 32, 50672, 44208, 54664, 49845, 45768, 45796,
      46]"

definition initial_text :: string where
  "initial_text = utf8
     [52488, 44592, 32, 44160, 51613, 32, 54032, 51221, 44284, 32, 54596, 50836, 54620, 32,
      46041, 51201, 32, 51116, 54788, 32, 47785, 51201, 51012, 32, 50672, 44208, 54664, 49845,
      45768, 45796, 46]"

definition started_text :: string where
  "started_text = utf8
     [45800, 44228, 32, 49892, 54665, 51012, 32, 49884, 51089, 54664, 49845, 45768, 45796, 46]"

definition completed_text :: string where
  "completed_text = utf8
     [45800, 44228, 32, 44208, 44284, 47484, 32, 51200, 51109, 54664, 49845, 45768, 45796, 46]"

definition failed_text :: string where
  "failed_text = utf8
     [45800, 44228, 44032, 32, 50756, 47308, 46104, 51648, 32, 50506, 50500, 32, 51473, 45800,
      54664, 49845, 45768, 45796, 46]"

definition exhausted_text_1 :: string where
  "exhausted_text_1 = utf8
     [51088, 46041, 32, 48373, 44396, 44032, 32, 97, 116, 116, 101, 109, 112, 116, 32]"

definition exhausted_text_2 :: string where
  "exhausted_text_2 = utf8
     [50640, 49436, 32, 51333, 47308, 46096, 49845, 45768, 45796, 46]"

definition decision_text_1 :: string where
  "decision_text_1 = utf8
     [51088, 46041, 32, 48373, 44396, 32, 44208, 51221, 32]"

definition decision_text_2 :: string where
  "decision_text_2 = utf8
     [32, 183, 32, 97, 116, 116, 101, 109, 112, 116, 32]"

definition environment_text :: string where
  "environment_text = utf8
     [44256, 51221, 46108, 32, 80, 121, 116, 104, 111, 110, 32, 48176, 54252, 48376, 51032, 32,
      51116, 54788, 32, 54872, 44221, 32, 48708, 54840, 54872, 51012, 32, 44160, 51613, 46108,
      32, 48120, 54869, 51221, 32, 49345, 53468, 47196, 32, 44592, 47197, 54664, 49845, 45768,
      45796, 46]"

definition stop_text :: string where
  "stop_text = utf8
     [50756, 47308, 46108, 32, 80, 111, 67, 32, 49892, 54665, 51032, 32, 44540, 44144, 32,
      48512, 51313, 44284, 32, 48373, 44396, 32, 51473, 45800, 32, 44208, 51221, 51012, 32,
      48120, 54869, 51221, 51004, 47196, 32, 44592, 47197, 54664, 49845, 45768, 45796, 46]"

definition repeated_text :: string where
  "repeated_text = utf8
     [50756, 47308, 46108, 32, 80, 111, 67, 32, 49892, 54665, 51032, 32, 48152, 48373, 46108,
      32, 44540, 44144, 32, 48512, 51313, 51012, 32, 48120, 54869, 51221, 51004, 47196, 32,
      44592, 47197, 54664, 49845, 45768, 45796, 46]"

definition pro_con_role :: string where
  "pro_con_role = utf8
     [80, 114, 111, 183, 67, 111, 110, 32, 65, 103, 101, 110, 116, 115]"

definition ROLE_BY_STAGE :: "stage \<Rightarrow> string" where
  "ROLE_BY_STAGE s = (case s of
     STATIC_DONE \<Rightarrow> ''Static Analysis Runtime''
   | HYPOTHESIS_DONE \<Rightarrow> ''Hypothesis Agent''
   | PRO_CON_DONE \<Rightarrow> pro_con_role
   | VERIFICATION_INITIAL_DONE \<Rightarrow> ''Verification Agent''
   | POC_CANDIDATE_DONE \<Rightarrow> ''Dynamic Reproduction Agent''
   | POC_EXECUTION_DONE \<Rightarrow> ''Reproduction Runtime''
   | VERIFICATION_FINAL_DONE \<Rightarrow> ''Verification Agent''
   | CWE_DONE \<Rightarrow> ''CWE Labeling Agent''
   | TECH_GATE_DONE \<Rightarrow> ''Technical Gate Agent''
   | SCOPE_GATE_DONE \<Rightarrow> ''Rule Scope Gate Agent''
   | PRIMITIVE_ADMISSION_DONE \<Rightarrow> ''Primitive Admission Runtime''
   | CHAINING_DONE \<Rightarrow> ''Chaining Agent''
   | FINDING_DONE \<Rightarrow> ''Finding Runtime''
   | REPORT_DONE \<Rightarrow> ''Reporter Agent'')"

section \<open>Events of a checkpoint\<close>

definition stage_sequence :: "stage \<Rightarrow> int \<Rightarrow> int" where
  "stage_sequence s offset = (int (stage_index s) + 1) * 100 + offset"

text \<open>\<open>identity.hypothesis_id or ""\<close>.\<close>

definition hypothesis_key :: "identity \<Rightarrow> string" where
  "hypothesis_key ident = str_default (id_hypothesis ident) []"

definition attempt_key :: "checkpoint \<Rightarrow> string" where
  "attempt_key c = str_default (cp_attempt_id c) ''checkpoint''"

definition join_colon :: "string list \<Rightarrow> string" where
  "join_colon parts = concat (case parts of [] \<Rightarrow> [] | p # ps \<Rightarrow> p # map (\<lambda>q. CHR '':'' # q) ps)"

definition lifecycle_event_id :: "checkpoint \<Rightarrow> activity_kind \<Rightarrow> int \<Rightarrow> string" where
  "lifecycle_event_id c kind sequence =
     sha256_hex (join_colon [id_analysis (cp_identity c), hypothesis_key (cp_identity c),
                             attempt_key c, show_int sequence, kind_value kind])"

definition lifecycle_event ::
  "(string \<Rightarrow> bool) \<Rightarrow> checkpoint \<Rightarrow> activity_kind \<Rightarrow> int \<Rightarrow> stage_status \<Rightarrow> string
     \<Rightarrow> stored_ref list \<Rightarrow> string option \<Rightarrow> event res" where
  "lifecycle_event safe c kind sequence status summary outputs error =
     make_event safe
       \<lparr>ev_event_id = lifecycle_event_id c kind sequence,
        ev_analysis = id_analysis (cp_identity c), ev_workspace = id_workspace (cp_identity c),
        ev_commit = id_commit (cp_identity c), ev_hypothesis = id_hypothesis (cp_identity c),
        ev_stage = stage_value (cp_stage c), ev_agent_role = ROLE_BY_STAGE (cp_stage c),
        ev_attempt = attempt_key c, ev_sequence = sequence, ev_kind = kind,
        ev_status = status_value status, ev_summary_ko = summary,
        ev_input_refs = cp_input_refs c, ev_output_refs = outputs, ev_tool_name = None,
        ev_tool_result_refs = [], ev_provider = None, ev_model = None, ev_prompt_digest = None,
        ev_output_digest = None, ev_error_code = error, ev_started_at = cp_updated_at c,
        ev_finished_at = (if kind \<noteq> STAGE_STARTED then Some (cp_updated_at c) else None),
        ev_elapsed_ms = None\<rparr>"

lemma lifecycle_event_fields:
  assumes "lifecycle_event safe c kind sequence status summary outputs error = Inr e"
  shows "ev_event_id e = lifecycle_event_id c kind sequence"
    and "ev_analysis e = id_analysis (cp_identity c)"
    and "event_hypothesis_key e = hypothesis_key (cp_identity c)"
    and "ev_attempt e = attempt_key c" and "ev_sequence e = sequence" and "ev_kind e = kind"
    and "ev_stage e = stage_value (cp_stage c)" and "ev_output_refs e = outputs"
    and "ev_error_code e = error" and "ev_status e = status_value status"
    and "ev_hypothesis e = id_hypothesis (cp_identity c)"
    and "ev_workspace e = id_workspace (cp_identity c)" and "ev_commit e = id_commit (cp_identity c)"
    and "ev_input_refs e = cp_input_refs c"
  using assms
  by (auto simp: lifecycle_event_def event_hypothesis_key_def hypothesis_key_def
      dest!: make_event_Inr)

text \<open>An event is only built for references of the checkpoint's own workspace and commit.\<close>

lemma lifecycle_event_scope:
  assumes "lifecycle_event safe c kind sequence status summary outputs error = Inr e"
  shows "list_all (ref_in_scope (id_workspace (cp_identity c)) (id_commit (cp_identity c)))
           (cp_input_refs c @ outputs)"
  using assms
  by (auto simp: lifecycle_event_def make_event_def validate_public_event_def split: if_splits)

text \<open>The sequence windows of two stages do not overlap.\<close>

lemma stage_sequence_inj:
  "0 \<le> i \<Longrightarrow> i < 100 \<Longrightarrow> 0 \<le> j \<Longrightarrow> j < 100 \<Longrightarrow>
     stage_sequence s i = stage_sequence t j \<longleftrightarrow> s = t \<and> i = j"
  by (cases s; cases t) (auto simp: stage_sequence_def)

end
