(* ===== verification/Checkpoint_Store.thy ===== *)
theory Checkpoint_Store
  imports Lifecycle
begin

text \<open>
  \<open>simple_runtime/store.py\<close>, the checkpoint side of \<open>SimpleCheckpointStore\<close>: the checkpoint,
  activity, run and dashboard tables, and every operation the runner uses to read, advance,
  fail, restart and terminalize a stage.

  An operation that writes is a transaction: it returns either an exception, and then the
  database is the one before the call (\<open>rollback\<close>), or its result with the new database.  The
  clock readings and the random marker of a call are arguments (\<open>stamp\<close>).  The store is the one
  built without a dashboard projector, so nothing runs after the commit.
\<close>

section \<open>The database\<close>

record dashboard_row =
  dr_analysis :: string
  dr_projection_version :: int
  dr_source_marker :: string
  dr_status :: string
  dr_last_error :: string
  dr_indexed_at :: int

text \<open>\<open>db_dashboard\<close> is \<open>None\<close> when the table \<open>dashboard_index_state\<close> does not exist.\<close>

record db =
  db_checkpoints :: "checkpoint list"
  db_events :: "event list"
  db_runs :: "analysis_run list"
  db_dashboard :: "dashboard_row list option"

record stamp =
  st_now :: int
  st_marker :: string
  st_indexed_at :: int

type_synonym 'a tx = "db \<Rightarrow> ('a \<times> db) res"

definition row_key :: "checkpoint \<Rightarrow> string \<times> string \<times> stage" where
  "row_key c = (id_analysis (cp_identity c), hypothesis_key (cp_identity c), cp_stage c)"

definition key_of :: "identity \<Rightarrow> stage \<Rightarrow> string \<times> string \<times> stage" where
  "key_of ident s = (id_analysis ident, hypothesis_key ident, s)"

abbreviation cp_lookup :: "checkpoint list \<Rightarrow> string \<times> string \<times> stage \<Rightarrow> checkpoint option" where
  "cp_lookup \<equiv> tbl_lookup row_key"

interpretation cps: keyed_table "tbl_lookup row_key" "tbl_upsert row_key" "tbl_delete row_key"
  set row_key "tbl_ok row_key"
  by (rule keyed_table_list)

interpretation runs: keyed_table "tbl_lookup run_analysis_id" "tbl_upsert run_analysis_id"
  "tbl_delete run_analysis_id" set run_analysis_id "tbl_ok run_analysis_id"
  by (rule keyed_table_list)

section \<open>Statements\<close>

definition upsert_checkpoint :: "checkpoint \<Rightarrow> db \<Rightarrow> db" where
  "upsert_checkpoint c d = d\<lparr>db_checkpoints := tbl_upsert row_key (db_checkpoints d) c\<rparr>"

text \<open>\<open>DELETE ... WHERE analysis_id = ? AND hypothesis_key = ? AND stage IN (...)\<close>.\<close>

definition in_stages :: "identity \<Rightarrow> stage list \<Rightarrow> string \<times> string \<times> stage \<Rightarrow> bool" where
  "in_stages ident stages k \<longleftrightarrow>
     fst k = id_analysis ident \<and> fst (snd k) = hypothesis_key ident \<and> snd (snd k) \<in> set stages"

definition delete_stages :: "identity \<Rightarrow> stage list \<Rightarrow> db \<Rightarrow> db" where
  "delete_stages ident stages d =
     d\<lparr>db_checkpoints := tbl_delete row_key (in_stages ident stages) (db_checkpoints d)\<rparr>"

definition upsert_run :: "analysis_run \<Rightarrow> db \<Rightarrow> db" where
  "upsert_run r d = d\<lparr>db_runs := tbl_upsert run_analysis_id (db_runs d) r\<rparr>"

definition mark_dirty :: "stamp \<Rightarrow> string \<Rightarrow> db \<Rightarrow> db" where
  "mark_dirty st analysis d =
     (case db_dashboard d of
        None \<Rightarrow> d
      | Some rows \<Rightarrow>
          d\<lparr>db_dashboard := Some (tbl_upsert dr_analysis rows
             \<lparr>dr_analysis = analysis, dr_projection_version = 0, dr_source_marker = st_marker st,
              dr_status = ''INCOMPLETE'', dr_last_error = ''DASHBOARD_INDEX_SOURCE_UPDATED'',
              dr_indexed_at = st_indexed_at st\<rparr>)\<rparr>)"

definition append_activity :: "event list \<Rightarrow> db \<Rightarrow> db res" where
  "append_activity es d =
     bindR (append_events (db_events d) es) (\<lambda>evs. Inr (d\<lparr>db_events := evs\<rparr>))"

text \<open>The \<open>fail_before_commit\<close> switch of the crash tests.\<close>

definition commit_unless :: "bool \<Rightarrow> db \<Rightarrow> db res" where
  "commit_unless fail d = (if fail then Inl (RuntimeError ''simulated crash'') else Inr d)"

definition write_tx :: "stamp \<Rightarrow> bool \<Rightarrow> checkpoint \<Rightarrow> analysis_run option \<Rightarrow> event list \<Rightarrow> db \<Rightarrow> db res" where
  "write_tx st fail c run es d =
     bindR (append_activity es
             (case run of None \<Rightarrow> upsert_checkpoint c d
                        | Some r \<Rightarrow> upsert_run r (upsert_checkpoint c d)))
       (\<lambda>d'. commit_unless fail (mark_dirty st (id_analysis (cp_identity c)) d'))"

section \<open>Reading\<close>

text \<open>Every read parses the stored row again, which checks the hash of its inputs.\<close>

definition get :: "db \<Rightarrow> identity \<Rightarrow> stage \<Rightarrow> checkpoint option res" where
  "get d ident s =
     (case cp_lookup (db_checkpoints d) (key_of ident s) of
        None \<Rightarrow> Inr None
      | Some row \<Rightarrow> bindR (require_exact_input_hash row)
          (\<lambda>c. Inr (if cp_identity c \<noteq> ident then None else Some c)))"

definition checkpoint_order :: "checkpoint \<Rightarrow> checkpoint \<Rightarrow> bool" where
  "checkpoint_order a b \<longleftrightarrow>
     cp_updated_at a < cp_updated_at b \<or> cp_updated_at a = cp_updated_at b \<and>
     (hypothesis_key (cp_identity a) < hypothesis_key (cp_identity b) \<or>
      hypothesis_key (cp_identity a) = hypothesis_key (cp_identity b) \<and>
      stage_value (cp_stage a) \<le> stage_value (cp_stage b))"

fun insert_by :: "('a \<Rightarrow> 'a \<Rightarrow> bool) \<Rightarrow> 'a \<Rightarrow> 'a list \<Rightarrow> 'a list" where
  "insert_by le x [] = [x]"
| "insert_by le x (y # ys) = (if le x y then x # y # ys else y # insert_by le x ys)"

text \<open>\<open>ORDER BY updated_at, hypothesis_key, stage\<close>.\<close>

definition list_checkpoints :: "db \<Rightarrow> string \<Rightarrow> checkpoint list res" where
  "list_checkpoints d analysis =
     mapR require_exact_input_hash
       (foldr (insert_by checkpoint_order)
          (filter (\<lambda>c. id_analysis (cp_identity c) = analysis) (db_checkpoints d)) [])"

definition stage_activity :: "db \<Rightarrow> identity \<Rightarrow> stage \<Rightarrow> string \<Rightarrow> event list" where
  "stage_activity d ident s attempt =
     filter (\<lambda>e. ev_analysis e = id_analysis ident \<and> event_hypothesis_key e = hypothesis_key ident
                \<and> ev_attempt e = attempt \<and> ev_stage e = stage_value s) (db_events d)"

definition has_stage_activity :: "db \<Rightarrow> identity \<Rightarrow> stage \<Rightarrow> string \<Rightarrow> bool" where
  "has_stage_activity d ident s attempt \<longleftrightarrow> stage_activity d ident s attempt \<noteq> []"

definition reusable :: "db \<Rightarrow> identity \<Rightarrow> stage \<Rightarrow> stored_ref list \<Rightarrow> bool res" where
  "reusable d ident s inputs =
     bindR (get d ident s) (\<lambda>c. Inr (case c of
        None \<Rightarrow> False
      | Some c \<Rightarrow> cp_status c = SUCCEEDED \<and> cp_stage_version c = STAGE_VERSION s
                  \<and> cp_input_refs c = inputs \<and> cp_input_hash c = input_reference_hash inputs))"

definition require :: "db \<Rightarrow> identity \<Rightarrow> stage \<Rightarrow> checkpoint res" where
  "require d ident s =
     bindR (get d ident s) (\<lambda>c. case c of
        None \<Rightarrow> Inl (LookupError (''Missing SimpleRuntime checkpoint: '' @ stage_value s))
      | Some c \<Rightarrow> Inr c)"

text \<open>The checkpoints of the earlier stages, in stage order.\<close>

definition prior :: "db \<Rightarrow> identity \<Rightarrow> stage \<Rightarrow> (stage \<times> checkpoint) list res" where
  "prior d ident s =
     foldR (\<lambda>acc item. bindR (get d ident item)
              (\<lambda>c. Inr (case c of None \<Rightarrow> acc | Some c \<Rightarrow> acc @ [(item, c)])))
       [] (stages_before s)"

fun last_outputs :: "db \<Rightarrow> identity \<Rightarrow> stage list \<Rightarrow> stored_ref list res" where
  "last_outputs d ident [] = Inr []"
| "last_outputs d ident (s # ss) =
     bindR (get d ident s) (\<lambda>c. case c of
        Some c \<Rightarrow> if cp_status c = SUCCEEDED then Inr (cp_output_refs c) else last_outputs d ident ss
      | None \<Rightarrow> last_outputs d ident ss)"

definition input_refs_for :: "db \<Rightarrow> identity \<Rightarrow> stage \<Rightarrow> stored_ref list res" where
  "input_refs_for d ident s =
     bindR (get d ident s) (\<lambda>c. case c of
        Some c \<Rightarrow> Inr (cp_input_refs c)
      | None \<Rightarrow> last_outputs d ident (rev (stages_before s)))"

text \<open>\<open>_first_value\<close>, at the type of the field that is read.\<close>

fun first_value :: "(checkpoint \<Rightarrow> 'a option) \<Rightarrow> db \<Rightarrow> identity \<Rightarrow> stage list \<Rightarrow> 'a option res" where
  "first_value field d ident [] = Inr None"
| "first_value field d ident (s # ss) =
     bindR (get d ident s) (\<lambda>c. case c of
        None \<Rightarrow> first_value field d ident ss
      | Some c \<Rightarrow> if cp_status c \<noteq> SUCCEEDED then first_value field d ident ss
                  else (case field c of None \<Rightarrow> first_value field d ident ss
                                      | Some v \<Rightarrow> Inr (Some v)))"

definition validated_poc :: "db \<Rightarrow> identity \<Rightarrow> stored_ref option res" where
  "validated_poc d ident =
     first_value cp_validated_poc_ref d ident [POC_EXECUTION_DONE, VERIFICATION_FINAL_DONE]"

definition verdict_of :: "db \<Rightarrow> identity \<Rightarrow> verdict option res" where
  "verdict_of d ident = first_value cp_verdict d ident [VERIFICATION_FINAL_DONE]"

section \<open>Advancing a stage\<close>

definition save_success ::
  "stamp \<Rightarrow> checkpoint \<Rightarrow> stored_ref list \<Rightarrow> bool \<Rightarrow> checkpoint tx" where
  "save_success st c outputs fail d =
     (let completed = c\<lparr>cp_status := SUCCEEDED, cp_output_refs := outputs, cp_error_code := None,
                        cp_retryable := False, cp_updated_at := st_now st\<rparr> in
      bindR (write_tx st fail completed None [] d) (\<lambda>d'. Inr (completed, d')))"

definition save_checkpoint :: "(string \<Rightarrow> bool) \<Rightarrow> stamp \<Rightarrow> checkpoint \<Rightarrow> unit tx" where
  "save_checkpoint safe st c d =
     bindR
       (if cp_status c = SUCCEEDED \<and> cp_stage c = PRO_CON_DONE then
          bindR (lifecycle_event safe c EVIDENCE_RECORDED (stage_sequence (cp_stage c) 10) SUCCEEDED
                   pro_con_text (cp_output_refs c) None) (\<lambda>e. Inr [e])
        else if cp_status c = SUCCEEDED \<and> cp_stage c = VERIFICATION_INITIAL_DONE then
          bindR (lifecycle_event safe c DECISION_RECORDED (stage_sequence (cp_stage c) 10) SUCCEEDED
                   initial_text (cp_output_refs c) None) (\<lambda>e. Inr [e])
        else Inr [])
       (\<lambda>es. bindR (write_tx st False c None es d) (\<lambda>d'. Inr ((), d')))"

definition mark_running ::
  "(string \<Rightarrow> bool) \<Rightarrow> stamp \<Rightarrow> identity \<Rightarrow> stage \<Rightarrow> stored_ref list \<Rightarrow> string
     \<Rightarrow> checkpoint option \<Rightarrow> checkpoint tx" where
  "mark_running safe st ident s inputs attempt inherit_from d =
     bindR (get d ident s) (\<lambda>previous.
       let reusable_state = opt_or previous inherit_from;
           recovery_refs = (case reusable_state of None \<Rightarrow> [] | Some c \<Rightarrow> cp_recovery_decision_refs c);
           exact_inputs = fromkeys (inputs @ recovery_refs);
           attempt_number =
             (case previous of
                Some p \<Rightarrow> cp_attempt_number p + 1
              | None \<Rightarrow> (case inherit_from of
                   Some i \<Rightarrow> if cp_recovery_lineage_id i \<noteq> None then cp_attempt_number i else 1
                 | None \<Rightarrow> 1));
           c = (new_checkpoint ident s RUNNING exact_inputs (st_now st))
                 \<lparr>cp_attempt_id := Some attempt,
                  cp_attempt_number := attempt_number,
                  cp_gate_revision_count :=
                    (case reusable_state of None \<Rightarrow> 0 | Some c \<Rightarrow> cp_gate_revision_count c),
                  cp_recovery_lineage_id :=
                    Option.bind reusable_state cp_recovery_lineage_id,
                  cp_recovery_origin_stage :=
                    Option.bind reusable_state cp_recovery_origin_stage,
                  cp_recovery_decision_refs := recovery_refs,
                  cp_recipe_ref := Option.bind reusable_state cp_recipe_ref,
                  cp_image_digest := Option.bind reusable_state cp_image_digest,
                  cp_container_id := Option.bind reusable_state cp_container_id\<rparr>
       in bindR (lifecycle_event safe c STAGE_STARTED (stage_sequence s 1) RUNNING started_text
                   [] None)
            (\<lambda>e. bindR (write_tx st False c None [e] d) (\<lambda>d'. Inr (c, d'))))"

text \<open>\<open>max((event.sequence for event in events), default=n) + 1\<close>.\<close>

definition final_sequence :: "stage \<Rightarrow> event list \<Rightarrow> int" where
  "final_sequence s es =
     (case es of [] \<Rightarrow> stage_sequence s 1 | e # es' \<Rightarrow> foldl max (ev_sequence e) (map ev_sequence es')) + 1"

definition complete_stage ::
  "(string \<Rightarrow> bool) \<Rightarrow> stamp \<Rightarrow> checkpoint \<Rightarrow> stage_result \<Rightarrow> analysis_run option \<Rightarrow> checkpoint tx"
  where
  "complete_stage safe st c result run d =
     (if (case run of None \<Rightarrow> False
            | Some r \<Rightarrow> cp_stage c \<noteq> STATIC_DONE
                \<or> run_analysis_id r \<noteq> id_analysis (cp_identity c)
                \<or> run_workspace_id r \<noteq> id_workspace (cp_identity c)
                \<or> run_commit_id r \<noteq> id_commit (cp_identity c))
      then Inl (ValueError ''STATIC_RUN_IDENTITY_MISMATCH'')
      else
        let updated = c\<lparr>cp_status := SUCCEEDED,
              cp_output_refs := res_output_refs result,
              cp_error_code := None,
              cp_retryable := False,
              cp_recipe_ref := opt_or (res_recipe_ref result) (cp_recipe_ref c),
              cp_image_digest := str_or (res_image_digest result) (cp_image_digest c),
              cp_container_id := str_or (res_container_id result) (cp_container_id c),
              cp_validated_poc_ref := res_validated_poc_ref result,
              cp_external_prerequisites_ref := res_external_prerequisites_ref result,
              cp_environment_block_ref := res_environment_block_ref result,
              cp_report_ref := res_report_ref result,
              cp_bundle_manifest_ref := res_bundle_manifest_ref result,
              cp_bundle_archive_ref := res_bundle_archive_ref result,
              cp_verdict := res_verdict result,
              cp_gate_decision := res_gate_decision result,
              cp_markdown_path := res_markdown_path result,
              cp_updated_at := st_now st\<rparr>;
            completed =
              (if cp_recovery_origin_stage c = Some (cp_stage c)
               then updated\<lparr>cp_recovery_lineage_id := None, cp_recovery_origin_stage := None,
                            cp_recovery_decision_refs := []\<rparr>
               else updated)
        in bindR (lifecycle_event safe completed STAGE_COMPLETED
                    (final_sequence (cp_stage c) (res_activity_events result)) SUCCEEDED
                    completed_text (res_output_refs result) None)
             (\<lambda>e. bindR (write_tx st False completed run (res_activity_events result @ [e]) d)
                     (\<lambda>d'. Inr (completed, d'))))"

definition mark_failure ::
  "(string \<Rightarrow> bool) \<Rightarrow> stamp \<Rightarrow> checkpoint \<Rightarrow> stage_failure \<Rightarrow> stage_status \<Rightarrow> string option
     \<Rightarrow> checkpoint tx" where
  "mark_failure safe st c f status activity_attempt d =
     (if status \<notin> {BLOCKED, FAILED}
      then Inl (ValueError ''SimpleRuntime failure status must be BLOCKED or FAILED'')
      else
        let failed = c\<lparr>cp_status := status, cp_output_refs := fl_evidence_refs f,
                       cp_error_code := Some (fl_code f), cp_retryable := fl_retryable f,
                       cp_updated_at := st_now st\<rparr>;
            kind = (if status = BLOCKED then STAGE_BLOCKED else STAGE_FAILED);
            event_checkpoint = (case activity_attempt of
               Some a \<Rightarrow> failed\<lparr>cp_attempt_id := Some a\<rparr> | None \<Rightarrow> failed)
        in bindR (lifecycle_event safe event_checkpoint kind (stage_sequence (cp_stage c) 99) status
                    failed_text (fl_evidence_refs f) (Some (fl_code f)))
             (\<lambda>e. bindR (write_tx st False failed None [e] d) (\<lambda>d'. Inr (failed, d'))))"

end
