(* ===== verification/Recovery_Store.thy ===== *)
theory Recovery_Store
  imports Checkpoint_Store
begin

text \<open>
  \<open>simple_runtime/store.py\<close>, the operations that restart or terminalize a hypothesis: recording
  and preparing a recovery, the gate revision, the promotion of exhausted stages to a
  non-reportable result, and the two ways to drop downstream checkpoints.
\<close>

section \<open>Recovery decisions\<close>

definition identity_value :: "identity \<Rightarrow> pyval" where
  "identity_value i =
     VModel True False []
       [(''analysis_id'', VStr (id_analysis i)), (''workspace_id'', VStr (id_workspace i)),
        (''commit_id'', VStr (id_commit i)),
        (''hypothesis_id'', case id_hypothesis i of None \<Rightarrow> VNone | Some h \<Rightarrow> VStr h)]"

definition lineage_value :: "checkpoint \<Rightarrow> pyval" where
  "lineage_value c =
     VMap [(KStr ''identity'', identity_value (cp_identity c)),
           (KStr ''stage'', VStr (stage_value (cp_stage c))),
           (KStr ''stage_version'', VStr (cp_stage_version c)),
           (KStr ''input_hash'', VStr (cp_input_hash c)),
           (KStr ''error_code'', case cp_error_code c of None \<Rightarrow> VNone | Some e \<Rightarrow> VStr e)]"

definition lineage_id :: "checkpoint \<Rightarrow> string res" where
  "lineage_id c =
     (if cp_recovery_lineage_id c \<notin> {None, Some []} then Inr (the (cp_recovery_lineage_id c))
      else bindR (canonical_bytes Map.empty (lineage_value c)) (\<lambda>bs. Inr (sha256_hex bs)))"

definition decision_rows :: "db \<Rightarrow> checkpoint \<Rightarrow> event list" where
  "decision_rows d c =
     sort_key ev_sequence
       (filter (\<lambda>e. ev_analysis e = id_analysis (cp_identity c)
                  \<and> event_hypothesis_key e = hypothesis_key (cp_identity c)
                  \<and> ev_attempt e = attempt_key c
                  \<and> stage_sequence (cp_stage c) 40 \<le> ev_sequence e
                  \<and> ev_sequence e < stage_sequence (cp_stage c) 40 + 59) (db_events d))"

definition decision_summary :: "checkpoint \<Rightarrow> recovery_action \<Rightarrow> string" where
  "decision_summary c action =
     decision_text_1 @ action_value action @ decision_text_2 @ show_int (cp_attempt_number c) @
     ''/'' @ show_int MAX_RECOVERY_ATTEMPTS"

definition recovery_event ::
  "(string \<Rightarrow> bool) \<Rightarrow> db \<Rightarrow> checkpoint \<Rightarrow> recovery_resolution \<Rightarrow> event res" where
  "recovery_event safe d failed resolution =
     (let base = stage_sequence (cp_stage failed) 40;
          rows = decision_rows d failed
      in case find (\<lambda>e. ev_stage e = stage_value (cp_stage failed) \<and> ev_kind e = DECISION_RECORDED
                        \<and> ev_output_refs e = [rr_decision_ref resolution]) rows of
           Some existing \<Rightarrow> Inr existing
         | None \<Rightarrow>
             (case find (\<lambda>v. v \<notin> ev_sequence ` set rows) [base .. base + 58] of
                None \<Rightarrow> Inl (ValueError ''RECOVERY_EVENT_SEQUENCE_EXHAUSTED'')
              | Some sequence \<Rightarrow>
                  lifecycle_event safe failed DECISION_RECORDED sequence BLOCKED
                    (decision_summary failed (rd_action (rr_decision resolution)))
                    [rr_decision_ref resolution] (cp_error_code failed)))"

definition recovery_pending ::
  "stamp \<Rightarrow> checkpoint \<Rightarrow> recovery_resolution \<Rightarrow> stage \<Rightarrow> checkpoint option \<Rightarrow> string \<Rightarrow> checkpoint" where
  "recovery_pending st failed resolution restart_stage restart lineage =
     (let decision_refs = fromkeys (cp_recovery_decision_refs failed @ [rr_decision_ref resolution]);
          original_inputs = (case restart of None \<Rightarrow> [] | Some r \<Rightarrow> cp_input_refs r);
          inputs = fromkeys (original_inputs @ cp_input_refs failed @ cp_output_refs failed
                             @ decision_refs);
          rebuild = (rd_action (rr_decision resolution)
                       \<in> {REBUILD_ENVIRONMENT, REPLAN_ENVIRONMENT})
      in (new_checkpoint (cp_identity failed) restart_stage PENDING inputs (st_now st))
           \<lparr>cp_attempt_number := cp_attempt_number failed,
            cp_gate_revision_count := cp_gate_revision_count failed,
            cp_recovery_lineage_id := Some lineage,
            cp_recovery_origin_stage :=
              Some (case cp_recovery_origin_stage failed of None \<Rightarrow> cp_stage failed | Some s \<Rightarrow> s),
            cp_recovery_decision_refs := decision_refs,
            cp_recipe_ref := (if rebuild then None else cp_recipe_ref failed),
            cp_image_digest := (if rebuild then None else cp_image_digest failed),
            cp_container_id := None\<rparr>)"

definition prepare_recovery ::
  "(string \<Rightarrow> bool) \<Rightarrow> stamp \<Rightarrow> checkpoint \<Rightarrow> recovery_resolution \<Rightarrow> stage \<Rightarrow> bool \<Rightarrow> checkpoint tx"
  where
  "prepare_recovery safe st failed resolution restart_stage fail d =
     (if cp_status failed \<notin> {BLOCKED, FAILED}
      then Inl (ValueError ''RECOVERY_CHECKPOINT_NOT_FAILED'')
      else if rd_action (rr_decision resolution) = STOP
      then Inl (ValueError ''RECOVERY_STOP_CANNOT_PREPARE'')
      else if stage_index restart_stage > stage_index (cp_stage failed)
      then Inl (ValueError ''RECOVERY_RESTART_STAGE_INVALID'')
      else
        bindR (get d (cp_identity failed) restart_stage) (\<lambda>restart.
        bindR (lineage_id failed) (\<lambda>lineage.
          let pending = recovery_pending st failed resolution restart_stage restart lineage in
          bindR (recovery_event safe d failed resolution) (\<lambda>e.
          bindR (append_activity [e] d) (\<lambda>d1.
          bindR (commit_unless fail
                   (mark_dirty st (id_analysis (cp_identity failed))
                      (upsert_checkpoint pending
                         (delete_stages (cp_identity failed) (stages_from restart_stage) d1))))
            (\<lambda>d2. Inr (pending, d2)))))))"

definition record_recovery_decision ::
  "(string \<Rightarrow> bool) \<Rightarrow> stamp \<Rightarrow> checkpoint \<Rightarrow> recovery_resolution \<Rightarrow> bool \<Rightarrow> unit tx" where
  "record_recovery_decision safe st failed resolution fail d =
     (let d1 = upsert_checkpoint failed d in
      bindR (recovery_event safe d1 failed resolution) (\<lambda>e.
      bindR (append_activity [e] d1) (\<lambda>d2.
      bindR (commit_unless fail d2) (\<lambda>d3.
        Inr ((), mark_dirty st (id_analysis (cp_identity failed)) d3)))))"

definition record_recovery_stop ::
  "(string \<Rightarrow> bool) \<Rightarrow> stamp \<Rightarrow> checkpoint \<Rightarrow> recovery_resolution \<Rightarrow> bool \<Rightarrow> checkpoint tx" where
  "record_recovery_stop safe st failed resolution fail d =
     (if rd_action (rr_decision resolution) \<noteq> STOP
      then Inl (ValueError ''RECOVERY_STOP_ACTION_REQUIRED'')
      else
        let stopped = failed\<lparr>cp_retryable := False, cp_updated_at := st_now st\<rparr> in
        bindR (record_recovery_decision safe st stopped resolution fail d)
          (\<lambda>(_, d'). Inr (stopped, d')))"

definition mark_recovery_exhausted ::
  "(string \<Rightarrow> bool) \<Rightarrow> stamp \<Rightarrow> checkpoint \<Rightarrow> checkpoint tx" where
  "mark_recovery_exhausted safe st c d =
     (let exhausted = c\<lparr>cp_status := BLOCKED, cp_error_code := Some ''RECOVERY_EXHAUSTED'',
                        cp_retryable := False, cp_updated_at := st_now st\<rparr> in
      bindR (lifecycle_event safe exhausted STAGE_BLOCKED (stage_sequence (cp_stage exhausted) 100)
               BLOCKED
               (exhausted_text_1 @ show_int (cp_attempt_number exhausted) @ ''/'' @
                show_int MAX_RECOVERY_ATTEMPTS @ exhausted_text_2)
               (cp_output_refs exhausted) (Some ''RECOVERY_EXHAUSTED''))
        (\<lambda>e. bindR (write_tx st False exhausted None [e] d) (\<lambda>d'. Inr (exhausted, d'))))"

section \<open>Gate revisions\<close>

definition gate_revision_pending ::
  "stamp \<Rightarrow> checkpoint \<Rightarrow> checkpoint \<Rightarrow> checkpoint \<Rightarrow> checkpoint" where
  "gate_revision_pending st gate candidate execution =
     (new_checkpoint (cp_identity gate) POC_CANDIDATE_DONE PENDING
        (fromkeys (cp_output_refs gate @ cp_input_refs candidate @ cp_output_refs candidate
                   @ cp_output_refs execution)) (st_now st))
       \<lparr>cp_gate_revision_count := cp_gate_revision_count gate + 1,
        cp_recipe_ref := opt_or (cp_recipe_ref candidate) (cp_recipe_ref gate),
        cp_image_digest := str_or (cp_image_digest candidate) (cp_image_digest gate)\<rparr>"

text \<open>\<open>checkpoint_at\<close>: the row under the key, with no identity check.\<close>

definition checkpoint_at :: "db \<Rightarrow> identity \<Rightarrow> stage \<Rightarrow> checkpoint option res" where
  "checkpoint_at d ident s =
     (case cp_lookup (db_checkpoints d) (key_of ident s) of
        None \<Rightarrow> Inr None
      | Some row \<Rightarrow> bindR (require_exact_input_hash row) (\<lambda>c. Inr (Some c)))"

definition prepare_gate_revision :: "stamp \<Rightarrow> checkpoint \<Rightarrow> bool \<Rightarrow> checkpoint tx" where
  "prepare_gate_revision st gate fail d =
     (if cp_stage gate \<noteq> TECH_GATE_DONE \<or> cp_stage_version gate \<noteq> STAGE_VERSION TECH_GATE_DONE
         \<or> cp_status gate \<noteq> SUCCEEDED \<or> cp_gate_decision gate \<noteq> Some REVISE
         \<or> length (cp_output_refs gate) \<noteq> 1 \<or> cp_gate_revision_count gate \<ge> 2
      then Inl (ValueError ''GATE_REVISION_NOT_PREPARABLE'')
      else
        bindR (checkpoint_at d (cp_identity gate) TECH_GATE_DONE) (\<lambda>current.
        bindR (checkpoint_at d (cp_identity gate) POC_CANDIDATE_DONE) (\<lambda>candidate.
          case current of
            None \<Rightarrow>
              (case candidate of
                 Some cand \<Rightarrow>
                   if cp_status cand = PENDING
                      \<and> cp_gate_revision_count cand = cp_gate_revision_count gate + 1
                      \<and> cp_input_refs cand \<noteq> []
                      \<and> hd (cp_input_refs cand) = hd (cp_output_refs gate)
                   then Inr (cand, d)
                   else Inl (ValueError ''GATE_REVISION_STALE'')
               | None \<Rightarrow> Inl (ValueError ''GATE_REVISION_STALE''))
          | Some cur \<Rightarrow>
              if cur \<noteq> gate then Inl (ValueError ''GATE_REVISION_STALE'')
              else
                (case candidate of
                   None \<Rightarrow> Inl (ValueError ''GATE_REVISION_CANDIDATE_MISSING'')
                 | Some cand \<Rightarrow>
                     if cp_status cand \<noteq> SUCCEEDED
                     then Inl (ValueError ''GATE_REVISION_CANDIDATE_MISSING'')
                     else
                       bindR (checkpoint_at d (cp_identity gate) POC_EXECUTION_DONE) (\<lambda>execution.
                         case execution of
                           None \<Rightarrow> Inl (ValueError ''GATE_REVISION_EXECUTION_MISSING'')
                         | Some exe \<Rightarrow>
                             if cp_status exe \<noteq> SUCCEEDED
                             then Inl (ValueError ''GATE_REVISION_EXECUTION_MISSING'')
                             else
                               let pending = gate_revision_pending st gate cand exe in
                               bindR (commit_unless fail
                                        (mark_dirty st (id_analysis (cp_identity gate))
                                          (upsert_checkpoint pending
                                            (delete_stages (cp_identity gate)
                                              (stages_from POC_CANDIDATE_DONE) d))))
                                 (\<lambda>d'. Inr (pending, d')))))))"

section \<open>Terminalizing\<close>

text \<open>
  What the store and the runner use of \<open>SimpleArtifactRepository\<close>: its identity, the JSON
  document behind a reference (\<open>None\<close> when it cannot be read or parsed), and its three verifying
  operations.  Documents are canonical JSON and hold no floating point number.
\<close>

record artifacts =
  ar_identity :: identity
  ar_read_json :: "stored_ref \<Rightarrow> json option"
  ar_build_initial_block :: "checkpoint \<Rightarrow> stored_ref option res"
  ar_verified_terminal_initial :: "checkpoint \<Rightarrow> terminal_outcome option res"
  ar_verified_terminal_poc :: "checkpoint \<Rightarrow> terminal_outcome option res"

definition promote_initial_environment_inconclusive ::
  "(string \<Rightarrow> bool) \<Rightarrow> stamp \<Rightarrow> checkpoint \<Rightarrow> artifacts \<Rightarrow> checkpoint tx" where
  "promote_initial_environment_inconclusive safe st blocked art d =
     (if cp_stage blocked \<noteq> VERIFICATION_INITIAL_DONE
         \<or> cp_stage_version blocked \<noteq> STAGE_VERSION VERIFICATION_INITIAL_DONE
         \<or> cp_status blocked \<noteq> BLOCKED
         \<or> cp_error_code blocked \<notin> {Some ''POC_AUTO_BUNDLE_DOWNLOAD_FAILED'',
                                    Some ''RECOVERY_EXHAUSTED''}
         \<or> cp_attempt_id blocked = None \<or> cp_attempt_number blocked < 1
         \<or> cp_recipe_ref blocked \<noteq> None \<or> cp_validated_poc_ref blocked \<noteq> None
         \<or> cp_external_prerequisites_ref blocked \<noteq> None
         \<or> cp_environment_block_ref blocked \<noteq> None
         \<or> ar_identity art \<noteq> cp_identity blocked
      then Inl (ValueError ''INITIAL_ENVIRONMENT_INCONCLUSIVE_PROMOTION_INVALID'')
      else
        bindR (ar_build_initial_block art blocked) (\<lambda>block.
          case block of
            None \<Rightarrow> Inl (ValueError ''INITIAL_ENVIRONMENT_INCONCLUSIVE_EVIDENCE_INVALID'')
          | Some ref \<Rightarrow>
              let completed = blocked\<lparr>cp_status := SUCCEEDED,
                    cp_output_refs := fromkeys (cp_output_refs blocked @ [ref]),
                    cp_environment_block_ref := Some ref, cp_verdict := Some V_HOLD,
                    cp_error_code := None, cp_retryable := False, cp_updated_at := st_now st\<rparr>
              in bindR (ar_verified_terminal_initial art completed) (\<lambda>outcome.
                 if outcome = None
                 then Inl (ValueError ''INITIAL_ENVIRONMENT_INCONCLUSIVE_EVIDENCE_INVALID'')
                 else
                   bindR (checkpoint_at d (cp_identity blocked) (cp_stage blocked)) (\<lambda>current.
                   if current \<noteq> Some blocked
                   then Inl (ValueError ''INITIAL_ENVIRONMENT_INCONCLUSIVE_PROMOTION_STALE'')
                   else
                     bindR (lifecycle_event safe completed STAGE_COMPLETED
                              (stage_sequence (cp_stage completed) 2) SUCCEEDED environment_text
                              (cp_output_refs completed) None) (\<lambda>e.
                     bindR (append_activity [e] (upsert_checkpoint completed d)) (\<lambda>d'.
                       Inr (completed, mark_dirty st (id_analysis (cp_identity blocked)) d')))))))"

text \<open>The STOP document that \<open>_store\<close> of the recovery coordinator wrote for this checkpoint.\<close>

definition stop_document_ok :: "checkpoint \<Rightarrow> json \<Rightarrow> bool" where
  "stop_document_ok c doc =
     (case as_obj doc of
        None \<Rightarrow> False
      | Some ms \<Rightarrow>
          (case (Option.bind (jget ms ''original_error'') parse_stage_failure,
                 Option.bind (jget ms ''decision'') parse_recovery_decision) of
             (Some err, Some stop) \<Rightarrow>
               jget ms ''kind'' = Some (JStr ''simple_recovery_decision'')
               \<and> pred_option (\<lambda>j. json_eq j (identity_json (cp_identity c))) (jget ms ''identity'')
               \<and> jget ms ''identity'' \<noteq> None
               \<and> jget ms ''stage'' = Some (JStr (stage_value (cp_stage c)))
               \<and> json_eq_int (jget ms ''attempt'') (cp_attempt_number c)
               \<and> jget ms ''attempt_id'' = Some (jopt (cp_attempt_id c))
               \<and> Some (fl_code err) = cp_error_code c
               \<and> fl_retryable err
               \<and> fl_evidence_refs err = cp_output_refs c
               \<and> rd_action stop = STOP
               \<and> rd_action stop \<in> ALLOWED_ACTIONS (rd_category stop)
               \<and> rd_environment_patch stop = []
               \<and> (jget ms ''decision_origin'' = Some (JStr ''AGENT'')
                  \<or> jget ms ''decision_origin'' = None
                    \<and> (rd_diagnosis stop, rd_guidance stop)
                        \<notin> set LEGACY_RECOVERY_FALLBACK_STOPS)
           | _ \<Rightarrow> False))"

definition stop_event_ok :: "checkpoint \<Rightarrow> event \<Rightarrow> bool" where
  "stop_event_ok c e \<longleftrightarrow>
     ev_kind e = DECISION_RECORDED \<and> ev_stage e = stage_value (cp_stage c)
     \<and> ev_analysis e = id_analysis (cp_identity c) \<and> ev_workspace e = id_workspace (cp_identity c)
     \<and> ev_commit e = id_commit (cp_identity c) \<and> ev_hypothesis e = id_hypothesis (cp_identity c)
     \<and> Some (ev_attempt e) = cp_attempt_id c \<and> ev_error_code e = cp_error_code c
     \<and> length (ev_output_refs e) = 1"

text \<open>The execution and its interpretation: a finished run that proved nothing.\<close>

definition inconclusive_execution_ok :: "checkpoint \<Rightarrow> stored_ref \<Rightarrow> json \<Rightarrow> json \<Rightarrow> bool" where
  "inconclusive_execution_ok c execution_ref execution interpretation =
     (case (as_obj execution, as_obj interpretation) of
        (Some ex, Some it) \<Rightarrow>
          jget ex ''kind'' = Some (JStr ''simple_poc_execution'')
          \<and> jget ex ''attempt_id'' = Some (jopt (cp_attempt_id c))
          \<and> jget ex ''timed_out'' = Some (JBool False)
          \<and> jget ex ''exit_code'' = Some (JInt 0)
          \<and> jget it ''kind'' = Some (JStr ''simple_dynamic_interpretation'')
          \<and> pred_option (\<lambda>j. json_eq j (stored_ref_json execution_ref)) (jget it ''execution_ref'')
          \<and> jget it ''execution_ref'' \<noteq> None
          \<and> (case Option.bind (jget it ''result'') as_obj of
               Some result \<Rightarrow> jget result ''outcome'' = Some (JStr ''INCONCLUSIVE'')
             | None \<Rightarrow> False)
      | _ \<Rightarrow> False)"

definition verified_inconclusive_stop :: "db \<Rightarrow> checkpoint \<Rightarrow> artifacts \<Rightarrow> stored_ref option" where
  "verified_inconclusive_stop d c art =
     (case (cp_attempt_id c, cp_output_refs c) of
        (Some attempt, [execution_ref, interpretation_ref]) \<Rightarrow>
          (case (ar_read_json art execution_ref, ar_read_json art interpretation_ref) of
             (Some execution, Some interpretation) \<Rightarrow>
               if \<not> inconclusive_execution_ok c execution_ref execution interpretation then None
               else
                 map_option (\<lambda>e. hd (ev_output_refs e))
                   (find (\<lambda>e. stop_event_ok c e
                             \<and> (case ar_read_json art (hd (ev_output_refs e)) of
                                  None \<Rightarrow> False
                                | Some doc \<Rightarrow> stop_document_ok c doc))
                      (filter (\<lambda>e. ev_analysis e = id_analysis (cp_identity c)
                                 \<and> event_hypothesis_key e = hypothesis_key (cp_identity c)
                                 \<and> ev_attempt e = attempt) (db_events d)))
           | _ \<Rightarrow> None)
      | _ \<Rightarrow> None)"

definition promote_inconclusive_execution ::
  "(string \<Rightarrow> bool) \<Rightarrow> stamp \<Rightarrow> checkpoint \<Rightarrow> artifacts option \<Rightarrow> checkpoint tx" where
  "promote_inconclusive_execution safe st exhausted art d =
     (let exhausted_attempts = (cp_error_code exhausted = Some ''RECOVERY_EXHAUSTED''
                                \<and> cp_attempt_number exhausted \<ge> MAX_RECOVERY_ATTEMPTS);
          stopped_inconclusive = (cp_error_code exhausted = Some ''POC_INCONCLUSIVE''
                                  \<and> cp_attempt_number exhausted \<ge> 1
                                  \<and> (case art of None \<Rightarrow> False
                                       | Some a \<Rightarrow> ar_identity a = cp_identity exhausted))
      in
      if cp_stage exhausted \<noteq> POC_EXECUTION_DONE
         \<or> cp_stage_version exhausted \<noteq> STAGE_VERSION POC_EXECUTION_DONE
         \<or> cp_status exhausted \<noteq> BLOCKED
         \<or> \<not> (exhausted_attempts \<or> stopped_inconclusive)
         \<or> length (cp_output_refs exhausted) \<noteq> 2
         \<or> cp_validated_poc_ref exhausted \<noteq> None
      then Inl (ValueError ''POC_INCONCLUSIVE_PROMOTION_INVALID'')
      else
        bindR (checkpoint_at d (cp_identity exhausted) (cp_stage exhausted)) (\<lambda>current.
        if current \<noteq> Some exhausted
        then Inl (ValueError ''POC_INCONCLUSIVE_PROMOTION_STALE'')
        else
          let stop_ref = (if stopped_inconclusive
                          then Option.bind art (verified_inconclusive_stop d exhausted) else None)
          in
          if stopped_inconclusive \<and> stop_ref = None
          then Inl (ValueError ''POC_INCONCLUSIVE_STOP_UNVERIFIED'')
          else
            let completed = exhausted\<lparr>cp_status := SUCCEEDED, cp_verdict := Some V_HOLD,
                  cp_error_code := None, cp_retryable := False,
                  cp_poc_stop_decision_ref := stop_ref, cp_updated_at := st_now st\<rparr>
            in
            bindR (lifecycle_event safe completed STAGE_COMPLETED
                     (stage_sequence (cp_stage completed) 2) SUCCEEDED
                     (if stop_ref \<noteq> None then stop_text else repeated_text)
                     (cp_output_refs completed) None) (\<lambda>e.
            bindR (append_activity [e] (upsert_checkpoint completed d)) (\<lambda>d'.
              Inr (completed, mark_dirty st (id_analysis (cp_identity exhausted)) d')))))"

section \<open>Dropping downstream work\<close>

definition invalidate_from ::
  "stamp \<Rightarrow> identity \<Rightarrow> stage \<Rightarrow> stored_ref list \<Rightarrow> bool \<Rightarrow> unit tx" where
  "invalidate_from st ident s new_inputs force d =
     bindR (if force then Inr False else reusable d ident s new_inputs) (\<lambda>keep.
       if keep then Inr ((), d)
       else
         let d' = delete_stages ident (stages_from s) d in
         if length (db_checkpoints d') < length (db_checkpoints d)
         then Inr ((), mark_dirty st (id_analysis ident) d')
         else Inr ((), d'))"

definition replace_from :: "stamp \<Rightarrow> checkpoint \<Rightarrow> bool \<Rightarrow> unit tx" where
  "replace_from st pending fail d =
     (if cp_status pending \<noteq> PENDING then Inl (ValueError ''REPLAY_CHECKPOINT_NOT_PENDING'')
      else
        bindR (commit_unless fail
                 (mark_dirty st (id_analysis (cp_identity pending))
                    (upsert_checkpoint pending
                       (delete_stages (cp_identity pending) (stages_from (cp_stage pending)) d))))
          (\<lambda>d'. Inr ((), d')))"

end
