(* ===== verification/Store_Invariant.thy ===== *)
theory Store_Invariant
  imports Recovery_Store
begin

text \<open>
  The invariant of the checkpoint store and what each operation does to it: the primary keys are
  unique, every stored checkpoint carries the exact hash of its inputs, a revision count within
  the bound, a recovery origin exactly when it belongs to a recovery lineage and a STOP decision
  only at the PoC execution, and the activity table keeps its two unique keys and only grows.
\<close>

section \<open>The invariant\<close>

definition valid_cp :: "checkpoint \<Rightarrow> bool" where
  "valid_cp c \<longleftrightarrow> cp_input_hash c = input_reference_hash (cp_input_refs c)
     \<and> 0 \<le> cp_gate_revision_count c \<and> cp_gate_revision_count c \<le> 2
     \<and> (cp_recovery_lineage_id c = None \<longleftrightarrow> cp_recovery_origin_stage c = None)
     \<and> (cp_poc_stop_decision_ref c = None \<or> cp_stage c = POC_EXECUTION_DONE)"

definition db_ok :: "db \<Rightarrow> bool" where
  "db_ok d \<longleftrightarrow> tbl_ok row_key (db_checkpoints d) \<and> (\<forall>c \<in> set (db_checkpoints d). valid_cp c)
     \<and> event_table_ok (db_events d) \<and> tbl_ok run_analysis_id (db_runs d)
     \<and> pred_option (tbl_ok dr_analysis) (db_dashboard d)"

text \<open>The store that \<open>_initialize\<close> creates.\<close>

definition empty_db :: db where
  "empty_db = \<lparr>db_checkpoints = [], db_events = [], db_runs = [], db_dashboard = None\<rparr>"

lemma empty_db_ok: "db_ok empty_db"
  by (simp add: db_ok_def empty_db_def tbl_ok_def event_table_ok_def)

lemma valid_cp_hash: "valid_cp c \<Longrightarrow> require_exact_input_hash c = Inr c"
  by (simp add: valid_cp_def require_exact_input_hash_def)

lemma require_exact_input_hash_Inr:
  "require_exact_input_hash c = Inr c' \<longleftrightarrow> c' = c \<and> cp_input_hash c = input_reference_hash (cp_input_refs c)"
  by (auto simp: require_exact_input_hash_def)

lemma valid_new_checkpoint [simp]: "valid_cp (new_checkpoint ident s st inputs now)"
  by (simp add: valid_cp_def new_checkpoint_def)

text \<open>Field updates that leave the inputs and the revision count alone.\<close>

lemma valid_cp_update [simp]:
  "valid_cp (c\<lparr>cp_status := a\<rparr>) = valid_cp c"
  "valid_cp (c\<lparr>cp_output_refs := b\<rparr>) = valid_cp c"
  "valid_cp (c\<lparr>cp_error_code := e\<rparr>) = valid_cp c"
  "valid_cp (c\<lparr>cp_retryable := r\<rparr>) = valid_cp c"
  "valid_cp (c\<lparr>cp_updated_at := t\<rparr>) = valid_cp c"
  "valid_cp (c\<lparr>cp_attempt_id := i\<rparr>) = valid_cp c"
  "valid_cp (c\<lparr>cp_attempt_number := n\<rparr>) = valid_cp c"
  "valid_cp (c\<lparr>cp_recovery_decision_refs := b\<rparr>) = valid_cp c"
  "valid_cp (c\<lparr>cp_recipe_ref := p\<rparr>) = valid_cp c"
  "valid_cp (c\<lparr>cp_image_digest := i\<rparr>) = valid_cp c"
  "valid_cp (c\<lparr>cp_container_id := i\<rparr>) = valid_cp c"
  "valid_cp (c\<lparr>cp_verdict := v\<rparr>) = valid_cp c"
  "valid_cp (c\<lparr>cp_environment_block_ref := p\<rparr>) = valid_cp c"
  "valid_cp (c\<lparr>cp_external_prerequisites_ref := p\<rparr>) = valid_cp c"
  "valid_cp (c\<lparr>cp_validated_poc_ref := p\<rparr>) = valid_cp c"
  "valid_cp (c\<lparr>cp_report_ref := p\<rparr>) = valid_cp c"
  "valid_cp (c\<lparr>cp_bundle_manifest_ref := p\<rparr>) = valid_cp c"
  "valid_cp (c\<lparr>cp_bundle_archive_ref := p\<rparr>) = valid_cp c"
  "valid_cp (c\<lparr>cp_gate_decision := q\<rparr>) = valid_cp c"
  "valid_cp (c\<lparr>cp_markdown_path := i\<rparr>) = valid_cp c"
  "valid_cp (c\<lparr>cp_stage_version := z\<rparr>) = valid_cp c"
  by (simp_all add: valid_cp_def)

section \<open>Reading under the invariant\<close>

definition stored :: "db \<Rightarrow> identity \<Rightarrow> stage \<Rightarrow> checkpoint option" where
  "stored d ident s =
     (case cp_lookup (db_checkpoints d) (key_of ident s) of
        None \<Rightarrow> None
      | Some c \<Rightarrow> if cp_identity c = ident then Some c else None)"

lemma lookup_valid:
  "db_ok d \<Longrightarrow> cp_lookup (db_checkpoints d) k = Some c \<Longrightarrow> valid_cp c \<and> row_key c = k"
  using cps.lookup_row by (auto simp: db_ok_def)

text \<open>In every state of the invariant a read succeeds.\<close>

lemma get_stored: "db_ok d \<Longrightarrow> get d ident s = Inr (stored d ident s)"
  by (auto simp: get_def stored_def dest: lookup_valid valid_cp_hash split: option.splits)

lemma checkpoint_at_lookup:
  "db_ok d \<Longrightarrow> checkpoint_at d ident s = Inr (cp_lookup (db_checkpoints d) (key_of ident s))"
  by (auto simp: checkpoint_at_def dest: lookup_valid valid_cp_hash split: option.splits)

lemma row_key_of: "row_key c = key_of (cp_identity c) (cp_stage c)"
  by (simp add: row_key_def key_of_def)

lemma key_of_eq_iff [simp]: "key_of ident s = key_of ident t \<longleftrightarrow> s = t"
  by (simp add: key_of_def)

lemma stored_valid:
  assumes "db_ok d" "stored d ident s = Some c"
  shows "valid_cp c" "cp_identity c = ident" "cp_stage c = s"
  using assms lookup_valid [OF assms(1), of "key_of ident s"]
  by (auto simp: stored_def row_key_of key_of_def split: option.splits if_splits)

section \<open>The tables after a statement\<close>

lemma mark_dirty_fields [simp, store_simps]:
  "db_checkpoints (mark_dirty st a d) = db_checkpoints d"
  "db_events (mark_dirty st a d) = db_events d"
  "db_runs (mark_dirty st a d) = db_runs d"
  by (simp_all add: mark_dirty_def split: option.splits)

lemma upsert_checkpoint_fields [simp, store_simps]:
  "db_checkpoints (upsert_checkpoint c d) = tbl_upsert row_key (db_checkpoints d) c"
  "db_events (upsert_checkpoint c d) = db_events d"
  "db_runs (upsert_checkpoint c d) = db_runs d"
  "db_dashboard (upsert_checkpoint c d) = db_dashboard d"
  by (simp_all add: upsert_checkpoint_def)

lemma delete_stages_fields [simp, store_simps]:
  "db_checkpoints (delete_stages i ss d) = tbl_delete row_key (in_stages i ss) (db_checkpoints d)"
  "db_events (delete_stages i ss d) = db_events d"
  "db_runs (delete_stages i ss d) = db_runs d"
  "db_dashboard (delete_stages i ss d) = db_dashboard d"
  by (simp_all add: delete_stages_def)

lemma upsert_run_fields [simp, store_simps]:
  "db_checkpoints (upsert_run r d) = db_checkpoints d"
  "db_events (upsert_run r d) = db_events d"
  "db_runs (upsert_run r d) = tbl_upsert run_analysis_id (db_runs d) r"
  "db_dashboard (upsert_run r d) = db_dashboard d"
  by (simp_all add: upsert_run_def)

lemma append_activity_cases:
  assumes "append_activity es d = Inr d'"
  obtains evs where "append_events (db_events d) es = Inr evs" "d' = d\<lparr>db_events := evs\<rparr>"
  using assms by (auto simp: append_activity_def)

lemma commit_unless_Inr [simp]: "commit_unless fail d = Inr d' \<longleftrightarrow> \<not> fail \<and> d' = d"
  by (auto simp: commit_unless_def)

lemma in_stages_key [simp]: "in_stages ident ss (key_of ident s) \<longleftrightarrow> s \<in> set ss"
  by (simp add: in_stages_def key_of_def)

lemma mark_dirty_ok: "db_ok d \<Longrightarrow> db_ok (mark_dirty st a d)"
  by (auto simp: db_ok_def mark_dirty_def tbl_ok_upsert split: option.splits)

lemma upsert_checkpoint_ok: "db_ok d \<Longrightarrow> valid_cp c \<Longrightarrow> db_ok (upsert_checkpoint c d)"
  using cps.upsert_all [of "db_checkpoints d" valid_cp c]
  by (auto simp: db_ok_def tbl_ok_upsert)

lemma delete_stages_ok: "db_ok d \<Longrightarrow> db_ok (delete_stages i ss d)"
  using cps.delete_all [of "db_checkpoints d" valid_cp]
  by (auto simp: db_ok_def tbl_ok_delete)

lemma upsert_run_ok: "db_ok d \<Longrightarrow> db_ok (upsert_run r d)"
  by (auto simp: db_ok_def tbl_ok_upsert)

lemma append_activity_ok: "append_activity es d = Inr d' \<Longrightarrow> db_ok d \<Longrightarrow> db_ok d'"
  by (erule append_activity_cases) (auto simp: db_ok_def dest: append_events_ok)

lemmas statement_ok = mark_dirty_ok upsert_checkpoint_ok delete_stages_ok upsert_run_ok
  append_activity_ok

text \<open>Rows read under another key are untouched by a statement.\<close>

lemma stored_upsert:
  "stored (upsert_checkpoint c d) ident s
     = (if row_key c = key_of ident s then (if cp_identity c = ident then Some c else None)
        else stored d ident s)"
  by (auto simp: stored_def tbl_lookup_upsert)

lemma stored_delete:
  "stored (delete_stages ident ss d) ident s = (if s \<in> set ss then None else stored d ident s)"
  by (simp add: stored_def tbl_lookup_delete)

lemma stored_events [simp]: "stored (d\<lparr>db_events := evs\<rparr>) ident s = stored d ident s"
  by (simp add: stored_def)

lemma stored_dirty [simp]: "stored (mark_dirty st a d) ident s = stored d ident s"
  by (simp add: stored_def)

lemma stored_run [simp]: "stored (upsert_run r d) ident s = stored d ident s"
  by (simp add: stored_def)

text \<open>\<open>_write\<close>: one row replaced, the events appended, or nothing at all.\<close>

lemma write_tx_Inr:
  assumes "write_tx st fail c run es d = Inr d'"
  shows "db_checkpoints d' = tbl_upsert row_key (db_checkpoints d) c"
    and "append_events (db_events d) es = Inr (db_events d')"
    and "\<not> fail" and "run = None \<Longrightarrow> db_runs d' = db_runs d"
  using assms
  by (auto simp: write_tx_def elim!: append_activity_cases split: option.splits)

lemma write_tx_ok:
  assumes "write_tx st fail c run es d = Inr d'" "db_ok d" "valid_cp c"
  shows "db_ok d'"
proof -
  obtain d1 where d1: "append_activity es
      (case run of None \<Rightarrow> upsert_checkpoint c d | Some r \<Rightarrow> upsert_run r (upsert_checkpoint c d)) = Inr d1"
    and d': "d' = mark_dirty st (id_analysis (cp_identity c)) d1"
    using assms(1) by (auto simp: write_tx_def)
  have "db_ok (case run of None \<Rightarrow> upsert_checkpoint c d | Some r \<Rightarrow> upsert_run r (upsert_checkpoint c d))"
    using assms(2,3) by (cases run) (simp_all add: upsert_run_ok upsert_checkpoint_ok)
  with d1 d' show ?thesis by (simp add: mark_dirty_ok append_activity_ok [OF d1])
qed

lemma write_tx_stored:
  assumes "write_tx st fail c run es d = Inr d'"
  shows "stored d' (cp_identity c) s
           = (if s = cp_stage c then Some c else stored d (cp_identity c) s)"
  using write_tx_Inr(1) [OF assms]
  by (simp add: stored_def tbl_lookup_upsert row_key_of)

text \<open>A row of another hypothesis is never touched by a write.\<close>

lemma write_tx_other:
  assumes "write_tx st fail c run es d = Inr d'" "key_of ident s \<noteq> row_key c"
  shows "stored d' ident s = stored d ident s"
  using write_tx_Inr(1) [OF assms(1)] assms(2)
  by (auto simp: stored_def tbl_lookup_upsert)

end
