(* ===== verification/Store_Steps.thy ===== *)
theory Store_Steps
  imports Store_Invariant
begin

text \<open>
  The store as a state machine: one rule per writing operation, with the checkpoints it is handed
  valid.  Every reachable database satisfies the invariant, and the activity history only grows.
\<close>

section \<open>What a transaction keeps\<close>

definition extends :: "db \<Rightarrow> db \<Rightarrow> bool" where
  "extends d d' \<longleftrightarrow> db_ok d' \<and> (\<exists>new. db_events d' = db_events d @ new)"

lemma extends_refl: "db_ok d \<Longrightarrow> extends d d"
  by (simp add: extends_def)

lemma extends_trans: "extends d e \<Longrightarrow> extends e f \<Longrightarrow> extends d f"
  by (auto simp: extends_def)

lemma write_tx_extends:
  "write_tx st fail c run es d = Inr d' \<Longrightarrow> db_ok d \<Longrightarrow> valid_cp c \<Longrightarrow> extends d d'"
  using append_events_prefix [OF write_tx_Inr(2)]
  by (auto simp: extends_def write_tx_ok)

lemma append_activity_extends:
  assumes "append_activity es d = Inr d'" "db_ok d"
  shows "extends d d'"
  using assms(1) append_activity_ok [OF assms]
  by (auto simp: extends_def elim!: append_activity_cases dest: append_events_prefix)

lemma upsert_extends: "db_ok d \<Longrightarrow> valid_cp c \<Longrightarrow> extends d (upsert_checkpoint c d)"
  by (simp add: extends_def upsert_checkpoint_ok)

lemma delete_extends: "db_ok d \<Longrightarrow> extends d (delete_stages i ss d)"
  by (simp add: extends_def delete_stages_ok)

lemma dirty_extends: "db_ok d \<Longrightarrow> extends d (mark_dirty st a d)"
  by (simp add: extends_def mark_dirty_ok)

lemma extends_ok: "extends d d' \<Longrightarrow> db_ok d'"
  by (simp add: extends_def)

text \<open>The statement sequence of every restart: drop the later stages and seed one row.\<close>

lemma restart_extends:
  assumes "extends d d1" "valid_cp c"
  shows "extends d (mark_dirty st a (upsert_checkpoint c (delete_stages i ss d1)))"
proof -
  have 1: "extends d (delete_stages i ss d1)"
    using extends_trans [OF assms(1) delete_extends [OF extends_ok [OF assms(1)]]] .
  have 2: "extends d (upsert_checkpoint c (delete_stages i ss d1))"
    using extends_trans [OF 1 upsert_extends [OF extends_ok [OF 1] assms(2)]] .
  show ?thesis
    using extends_trans [OF 2 dirty_extends [OF extends_ok [OF 2]]] .
qed

section \<open>The operations that write one row\<close>

lemma save_success_write:
  assumes "save_success st c outputs fail d = Inr (r, d')"
  shows "write_tx st fail r None [] d = Inr d'"
    and "r = c\<lparr>cp_status := SUCCEEDED, cp_output_refs := outputs, cp_error_code := None,
               cp_retryable := False, cp_updated_at := st_now st\<rparr>"
  using assms by (auto simp: save_success_def Let_def)

lemma save_checkpoint_write:
  assumes "save_checkpoint safe st c d = Inr (u, d')"
  obtains es where "write_tx st False c None es d = Inr d'"
  using assms by (auto simp: save_checkpoint_def)

definition running_attempt :: "checkpoint option \<Rightarrow> checkpoint option \<Rightarrow> int" where
  "running_attempt previous inherit_from =
     (case previous of
        Some p \<Rightarrow> cp_attempt_number p + 1
      | None \<Rightarrow> (case inherit_from of
           Some i \<Rightarrow> if cp_recovery_lineage_id i \<noteq> None then cp_attempt_number i else 1
         | None \<Rightarrow> 1))"

definition running_refs :: "checkpoint option \<Rightarrow> stored_ref list" where
  "running_refs base = (case base of None \<Rightarrow> [] | Some c \<Rightarrow> cp_recovery_decision_refs c)"

lemma mark_running_write:
  assumes ok: "db_ok d"
    and run: "mark_running safe st ident s inputs attempt inherit_from d = Inr (c, d')"
  obtains e where "write_tx st False c None [e] d = Inr d'"
    "lifecycle_event safe c STAGE_STARTED (stage_sequence s 1) RUNNING started_text [] None = Inr e"
proof -
  obtain e where "lifecycle_event safe c STAGE_STARTED (stage_sequence s 1) RUNNING started_text
      [] None = Inr e" "write_tx st False c None [e] d = Inr d'"
    using run by (auto simp: mark_running_def Let_def get_stored [OF ok])
  then show ?thesis by (blast intro: that)
qed

lemma mark_running_fields:
  assumes ok: "db_ok d"
    and run: "mark_running safe st ident s inputs attempt inherit_from d = Inr (c, d')"
  defines "base \<equiv> opt_or (stored d ident s) inherit_from"
  shows "cp_identity c = ident" "cp_stage c = s" "cp_status c = RUNNING"
    "cp_stage_version c = STAGE_VERSION s" "cp_attempt_id c = Some attempt"
    "cp_attempt_number c = running_attempt (stored d ident s) inherit_from"
    "cp_input_refs c = fromkeys (inputs @ running_refs base)"
    "cp_input_hash c = input_reference_hash (cp_input_refs c)"
    "cp_gate_revision_count c = (case base of None \<Rightarrow> 0 | Some b \<Rightarrow> cp_gate_revision_count b)"
    "cp_output_refs c = []" "cp_error_code c = None" "cp_validated_poc_ref c = None"
    "cp_poc_stop_decision_ref c = None" "cp_verdict c = None" "cp_gate_decision c = None"
    "cp_recovery_lineage_id c = Option.bind base cp_recovery_lineage_id"
    "cp_recovery_origin_stage c = Option.bind base cp_recovery_origin_stage"
    "cp_recovery_decision_refs c = running_refs base"
  using run unfolding base_def
  by (auto simp: mark_running_def Let_def get_stored [OF ok] new_checkpoint_def
      running_attempt_def running_refs_def)

lemma mark_running_valid:
  assumes ok: "db_ok d"
    and run: "mark_running safe st ident s inputs attempt inherit_from d = Inr (c, d')"
    and inh: "pred_option valid_cp inherit_from"
  shows "valid_cp c"
proof -
  let ?base = "opt_or (stored d ident s) inherit_from"
  have "pred_option valid_cp ?base"
    using inh stored_valid(1) [OF ok] by (cases "stored d ident s") auto
  then have "0 \<le> cp_gate_revision_count c \<and> cp_gate_revision_count c \<le> 2
      \<and> (cp_recovery_lineage_id c = None \<longleftrightarrow> cp_recovery_origin_stage c = None)
      \<and> cp_poc_stop_decision_ref c = None"
    using mark_running_fields(9,13,16,17) [OF ok run] by (cases ?base) (auto simp: valid_cp_def)
  with mark_running_fields(8) [OF ok run] show ?thesis by (simp add: valid_cp_def)
qed

text \<open>The row that \<open>complete\<close> stores.\<close>

definition completed_cp :: "stamp \<Rightarrow> checkpoint \<Rightarrow> stage_result \<Rightarrow> checkpoint" where
  "completed_cp st c result =
     (let updated = c\<lparr>cp_status := SUCCEEDED,
              cp_output_refs := res_output_refs result,
              cp_error_code := None,
              cp_retryable := False,
              cp_recipe_ref := opt_or (res_recipe_ref result) (cp_recipe_ref c),
              cp_image_digest := str_or (res_image_digest result) (cp_image_digest c),
              cp_container_id := str_or (res_container_id result) (cp_container_id c),
              cp_validated_poc_ref := res_validated_poc_ref result,
              cp_external_prerequisites_ref := res_external_prerequisites_ref result,
              cp_environment_block_ref := res_environment_block_ref result,
              cp_report_ref := res_report_ref result,
              cp_bundle_manifest_ref := res_bundle_manifest_ref result,
              cp_bundle_archive_ref := res_bundle_archive_ref result,
              cp_verdict := res_verdict result,
              cp_gate_decision := res_gate_decision result,
              cp_markdown_path := res_markdown_path result,
              cp_updated_at := st_now st\<rparr>
      in if cp_recovery_origin_stage c = Some (cp_stage c)
         then updated\<lparr>cp_recovery_lineage_id := None, cp_recovery_origin_stage := None,
                      cp_recovery_decision_refs := []\<rparr>
         else updated)"

lemma completed_cp_fields [simp]:
  "cp_identity (completed_cp st c result) = cp_identity c"
  "cp_stage (completed_cp st c result) = cp_stage c"
  "cp_status (completed_cp st c result) = SUCCEEDED"
  "cp_stage_version (completed_cp st c result) = cp_stage_version c"
  "cp_input_refs (completed_cp st c result) = cp_input_refs c"
  "cp_input_hash (completed_cp st c result) = cp_input_hash c"
  "cp_output_refs (completed_cp st c result) = res_output_refs result"
  "cp_attempt_id (completed_cp st c result) = cp_attempt_id c"
  "cp_attempt_number (completed_cp st c result) = cp_attempt_number c"
  "cp_gate_revision_count (completed_cp st c result) = cp_gate_revision_count c"
  "cp_verdict (completed_cp st c result) = res_verdict result"
  "cp_gate_decision (completed_cp st c result) = res_gate_decision result"
  by (simp_all add: completed_cp_def Let_def)

lemma valid_completed_cp: "valid_cp c \<Longrightarrow> valid_cp (completed_cp st c result)"
  by (simp add: completed_cp_def Let_def valid_cp_def)

lemma complete_write:
  assumes "complete_stage safe st c result run d = Inr (r, d')"
  obtains e where "r = completed_cp st c result"
    "write_tx st False r run (res_activity_events result @ [e]) d = Inr d'"
    "lifecycle_event safe r STAGE_COMPLETED (final_sequence (cp_stage c) (res_activity_events result))
       SUCCEEDED completed_text (res_output_refs result) None = Inr e"
  using assms unfolding complete_stage_def Let_def completed_cp_def [unfolded Let_def, symmetric]
  by (auto split: if_splits)

definition failed_cp :: "stamp \<Rightarrow> checkpoint \<Rightarrow> stage_failure \<Rightarrow> stage_status \<Rightarrow> checkpoint" where
  "failed_cp st c f status =
     c\<lparr>cp_status := status, cp_output_refs := fl_evidence_refs f, cp_error_code := Some (fl_code f),
       cp_retryable := fl_retryable f, cp_updated_at := st_now st\<rparr>"

lemma mark_failure_write:
  assumes "mark_failure safe st c f status activity_attempt d = Inr (r, d')"
  obtains e where "r = failed_cp st c f status" "status \<in> {BLOCKED, FAILED}"
    "write_tx st False r None [e] d = Inr d'"
    "lifecycle_event safe
       (case activity_attempt of Some a \<Rightarrow> r\<lparr>cp_attempt_id := Some a\<rparr> | None \<Rightarrow> r)
       (if status = BLOCKED then STAGE_BLOCKED else STAGE_FAILED) (stage_sequence (cp_stage c) 99)
       status failed_text (fl_evidence_refs f) (Some (fl_code f)) = Inr e"
  using assms unfolding mark_failure_def Let_def failed_cp_def [symmetric]
  by (auto split: if_splits)

lemma mark_recovery_exhausted_write:
  assumes "mark_recovery_exhausted safe st c d = Inr (r, d')"
  obtains e where "r = c\<lparr>cp_status := BLOCKED, cp_error_code := Some ''RECOVERY_EXHAUSTED'',
                        cp_retryable := False, cp_updated_at := st_now st\<rparr>"
    "write_tx st False r None [e] d = Inr d'"
  using assms unfolding mark_recovery_exhausted_def Let_def by auto

section \<open>Restarts and promotions\<close>

lemma recovery_pending_fields [simp]:
  "cp_identity (recovery_pending st f res s r l) = cp_identity f"
  "cp_stage (recovery_pending st f res s r l) = s"
  "cp_status (recovery_pending st f res s r l) = PENDING"
  "cp_attempt_number (recovery_pending st f res s r l) = cp_attempt_number f"
  "cp_attempt_id (recovery_pending st f res s r l) = None"
  "cp_gate_revision_count (recovery_pending st f res s r l) = cp_gate_revision_count f"
  "cp_recovery_lineage_id (recovery_pending st f res s r l) = Some l"
  "cp_stage_version (recovery_pending st f res s r l) = STAGE_VERSION s"
  "cp_output_refs (recovery_pending st f res s r l) = []"
  "cp_poc_stop_decision_ref (recovery_pending st f res s r l) = None"
  "cp_input_hash (recovery_pending st f res s r l)
     = input_reference_hash (cp_input_refs (recovery_pending st f res s r l))"
  by (simp_all add: recovery_pending_def Let_def new_checkpoint_def)

lemma recovery_pending_origin [simp]:
  "cp_recovery_origin_stage (recovery_pending st f res s r l)
     = Some (case cp_recovery_origin_stage f of None \<Rightarrow> cp_stage f | Some t \<Rightarrow> t)"
  by (simp add: recovery_pending_def Let_def new_checkpoint_def)

lemma valid_recovery_pending: "valid_cp f \<Longrightarrow> valid_cp (recovery_pending st f res s r l)"
  by (simp add: valid_cp_def)

lemma prepare_recovery_cases:
  assumes ok: "db_ok d"
    and p: "prepare_recovery safe st failed res restart_stage fail d = Inr (pending, d')"
  obtains l e d1 where
    "cp_status failed \<in> {BLOCKED, FAILED}" "rd_action (rr_decision res) \<noteq> STOP"
    "restart_stage \<le> cp_stage failed" "\<not> fail" "lineage_id failed = Inr l"
    "pending = recovery_pending st failed res restart_stage
       (stored d (cp_identity failed) restart_stage) l"
    "recovery_event safe d failed res = Inr e" "append_activity [e] d = Inr d1"
    "d' = mark_dirty st (id_analysis (cp_identity failed)) (upsert_checkpoint pending
            (delete_stages (cp_identity failed) (stages_from restart_stage) d1))"
  using p unfolding prepare_recovery_def Let_def
  by (auto simp: get_stored [OF ok] less_eq_stage_def split: if_splits)

lemma record_recovery_decision_cases:
  assumes "record_recovery_decision safe st failed res fail d = Inr (u, d')"
  obtains e d1 where "recovery_event safe (upsert_checkpoint failed d) failed res = Inr e"
    "append_activity [e] (upsert_checkpoint failed d) = Inr d1" "\<not> fail"
    "d' = mark_dirty st (id_analysis (cp_identity failed)) d1"
  using assms unfolding record_recovery_decision_def Let_def by auto

lemma record_recovery_stop_cases:
  assumes "record_recovery_stop safe st failed res fail d = Inr (stopped, d')"
  shows "rd_action (rr_decision res) = STOP"
    and "stopped = failed\<lparr>cp_retryable := False, cp_updated_at := st_now st\<rparr>"
    and "record_recovery_decision safe st stopped res fail d = Inr ((), d')"
  using assms unfolding record_recovery_stop_def Let_def by (auto split: if_splits)

lemma gate_revision_pending_fields [simp]:
  "cp_identity (gate_revision_pending st g c e) = cp_identity g"
  "cp_stage (gate_revision_pending st g c e) = POC_CANDIDATE_DONE"
  "cp_status (gate_revision_pending st g c e) = PENDING"
  "cp_gate_revision_count (gate_revision_pending st g c e) = cp_gate_revision_count g + 1"
  "cp_recovery_lineage_id (gate_revision_pending st g c e) = None"
  "cp_recovery_origin_stage (gate_revision_pending st g c e) = None"
  "cp_attempt_number (gate_revision_pending st g c e) = 0"
  "cp_poc_stop_decision_ref (gate_revision_pending st g c e) = None"
  "cp_stage_version (gate_revision_pending st g c e) = STAGE_VERSION POC_CANDIDATE_DONE"
  "cp_input_hash (gate_revision_pending st g c e)
     = input_reference_hash (cp_input_refs (gate_revision_pending st g c e))"
  "cp_input_refs (gate_revision_pending st g c e)
     = fromkeys (cp_output_refs g @ cp_input_refs c @ cp_output_refs c @ cp_output_refs e)"
  by (simp_all add: gate_revision_pending_def new_checkpoint_def)

text \<open>A gate revision either replays an earlier one or restarts from the stored gate.\<close>

lemma prepare_gate_revision_cases:
  assumes ok: "db_ok d" and p: "prepare_gate_revision st gate fail d = Inr (pending, d')"
  obtains
    (replayed) "d' = d" "cp_lookup (db_checkpoints d) (key_of (cp_identity gate) TECH_GATE_DONE) = None"
      "cp_lookup (db_checkpoints d) (key_of (cp_identity gate) POC_CANDIDATE_DONE) = Some pending"
      "cp_status pending = PENDING"
      "cp_gate_revision_count pending = cp_gate_revision_count gate + 1"
  | (restarted) cand exe where
      "cp_lookup (db_checkpoints d) (key_of (cp_identity gate) TECH_GATE_DONE) = Some gate"
      "cp_lookup (db_checkpoints d) (key_of (cp_identity gate) POC_CANDIDATE_DONE) = Some cand"
      "cp_lookup (db_checkpoints d) (key_of (cp_identity gate) POC_EXECUTION_DONE) = Some exe"
      "cp_status cand = SUCCEEDED" "cp_status exe = SUCCEEDED" "\<not> fail"
      "pending = gate_revision_pending st gate cand exe"
      "d' = mark_dirty st (id_analysis (cp_identity gate)) (upsert_checkpoint pending
              (delete_stages (cp_identity gate) (stages_from POC_CANDIDATE_DONE) d))"
  using p unfolding prepare_gate_revision_def Let_def
  by (auto simp: checkpoint_at_lookup [OF ok] split: if_splits option.splits)

lemma prepare_gate_revision_guard:
  assumes "prepare_gate_revision st gate fail d = Inr (pending, d')"
  shows "cp_stage gate = TECH_GATE_DONE" "cp_stage_version gate = STAGE_VERSION TECH_GATE_DONE"
    "cp_status gate = SUCCEEDED" "cp_gate_decision gate = Some REVISE"
    "length (cp_output_refs gate) = 1" "cp_gate_revision_count gate < 2"
  using assms unfolding prepare_gate_revision_def by (auto split: if_splits)

lemma promote_initial_cases:
  assumes ok: "db_ok d"
    and p: "promote_initial_environment_inconclusive safe st blocked art d = Inr (r, d')"
  obtains ref e d1 outcome where
    "cp_stage blocked = VERIFICATION_INITIAL_DONE"
    "cp_stage_version blocked = STAGE_VERSION VERIFICATION_INITIAL_DONE"
    "cp_status blocked = BLOCKED" "cp_recipe_ref blocked = None"
    "cp_validated_poc_ref blocked = None" "cp_external_prerequisites_ref blocked = None"
    "ar_identity art = cp_identity blocked"
    "ar_build_initial_block art blocked = Inr (Some ref)"
    "r = blocked\<lparr>cp_status := SUCCEEDED,
           cp_output_refs := fromkeys (cp_output_refs blocked @ [ref]),
           cp_environment_block_ref := Some ref, cp_verdict := Some V_HOLD,
           cp_error_code := None, cp_retryable := False, cp_updated_at := st_now st\<rparr>"
    "ar_verified_terminal_initial art r = Inr (Some outcome)"
    "cp_lookup (db_checkpoints d) (row_key blocked) = Some blocked"
    "append_activity [e] (upsert_checkpoint r d) = Inr d1"
    "d' = mark_dirty st (id_analysis (cp_identity blocked)) d1"
proof -
  let ?r = "\<lambda>ref. blocked\<lparr>cp_status := SUCCEEDED,
           cp_output_refs := fromkeys (cp_output_refs blocked @ [ref]),
           cp_environment_block_ref := Some ref, cp_verdict := Some V_HOLD,
           cp_error_code := None, cp_retryable := False, cp_updated_at := st_now st\<rparr>"
  have g: "cp_stage blocked = VERIFICATION_INITIAL_DONE"
    "cp_stage_version blocked = STAGE_VERSION VERIFICATION_INITIAL_DONE"
    "cp_status blocked = BLOCKED" "cp_recipe_ref blocked = None"
    "cp_validated_poc_ref blocked = None" "cp_external_prerequisites_ref blocked = None"
    "ar_identity art = cp_identity blocked"
    using p unfolding promote_initial_environment_inconclusive_def by (auto split: if_splits)
  obtain ref outcome e d1 where "ar_build_initial_block art blocked = Inr (Some ref)"
    "r = ?r ref" "ar_verified_terminal_initial art r = Inr (Some outcome)"
    "cp_lookup (db_checkpoints d) (row_key blocked) = Some blocked"
    "append_activity [e] (upsert_checkpoint r d) = Inr d1"
    "d' = mark_dirty st (id_analysis (cp_identity blocked)) d1"
    using p unfolding promote_initial_environment_inconclusive_def Let_def row_key_of [of blocked]
    by (auto simp: checkpoint_at_lookup [OF ok] split: if_splits option.splits)
  then show ?thesis by (rule that [OF g])
qed

lemma promote_execution_cases:
  assumes ok: "db_ok d"
    and p: "promote_inconclusive_execution safe st exhausted art d = Inr (r, d')"
  obtains stop_ref e d1 where
    "cp_stage exhausted = POC_EXECUTION_DONE"
    "cp_stage_version exhausted = STAGE_VERSION POC_EXECUTION_DONE"
    "cp_status exhausted = BLOCKED" "length (cp_output_refs exhausted) = 2"
    "cp_validated_poc_ref exhausted = None"
    "cp_lookup (db_checkpoints d) (row_key exhausted) = Some exhausted"
    "(cp_error_code exhausted = Some ''RECOVERY_EXHAUSTED''
        \<and> cp_attempt_number exhausted \<ge> MAX_RECOVERY_ATTEMPTS \<and> stop_ref = None)
     \<or> (cp_error_code exhausted = Some ''POC_INCONCLUSIVE''
        \<and> (\<exists>a ref. art = Some a \<and> ar_identity a = cp_identity exhausted \<and> stop_ref = Some ref
             \<and> verified_inconclusive_stop d exhausted a = Some ref))"
    "r = exhausted\<lparr>cp_status := SUCCEEDED, cp_verdict := Some V_HOLD, cp_error_code := None,
           cp_retryable := False, cp_poc_stop_decision_ref := stop_ref,
           cp_updated_at := st_now st\<rparr>"
    "append_activity [e] (upsert_checkpoint r d) = Inr d1"
    "d' = mark_dirty st (id_analysis (cp_identity exhausted)) d1"
  using p unfolding promote_inconclusive_execution_def Let_def row_key_of [of exhausted]
  by (auto simp: checkpoint_at_lookup [OF ok] split: if_splits option.splits)

lemma replace_from_cases:
  assumes "replace_from st pending fail d = Inr (u, d')"
  shows "cp_status pending = PENDING" "\<not> fail"
    and "d' = mark_dirty st (id_analysis (cp_identity pending)) (upsert_checkpoint pending
            (delete_stages (cp_identity pending) (stages_from (cp_stage pending)) d))"
  using assms unfolding replace_from_def by (auto split: if_splits)

lemma invalidate_from_cases:
  assumes "invalidate_from st ident s inputs force d = Inr (u, d')"
  obtains (kept) "d' = d" "\<not> force" "reusable d ident s inputs = Inr True"
  | (dropped) "d' = mark_dirty st (id_analysis ident) (delete_stages ident (stages_from s) d)"
  | (absent) "d' = delete_stages ident (stages_from s) d"
  using assms unfolding invalidate_from_def Let_def by (auto split: if_splits)

section \<open>The state machine\<close>

inductive store_step :: "db \<Rightarrow> db \<Rightarrow> bool" where
  save_success: "save_success st c outputs fail d = Inr (r, d') \<Longrightarrow> valid_cp c \<Longrightarrow> store_step d d'"
| save_checkpoint: "save_checkpoint safe st c d = Inr (u, d') \<Longrightarrow> valid_cp c \<Longrightarrow> store_step d d'"
| mark_running:
    "mark_running safe st ident s inputs attempt inherit_from d = Inr (c, d') \<Longrightarrow>
       pred_option valid_cp inherit_from \<Longrightarrow> store_step d d'"
| complete: "complete_stage safe st c result run d = Inr (r, d') \<Longrightarrow> valid_cp c \<Longrightarrow> store_step d d'"
| mark_failure:
    "mark_failure safe st c f status attempt d = Inr (r, d') \<Longrightarrow> valid_cp c \<Longrightarrow> store_step d d'"
| prepare_recovery:
    "prepare_recovery safe st failed res s fail d = Inr (p, d') \<Longrightarrow> valid_cp failed \<Longrightarrow> store_step d d'"
| record_recovery_decision:
    "record_recovery_decision safe st failed res fail d = Inr (u, d') \<Longrightarrow> valid_cp failed \<Longrightarrow>
       store_step d d'"
| record_recovery_stop:
    "record_recovery_stop safe st failed res fail d = Inr (r, d') \<Longrightarrow> valid_cp failed \<Longrightarrow>
       store_step d d'"
| mark_recovery_exhausted:
    "mark_recovery_exhausted safe st c d = Inr (r, d') \<Longrightarrow> valid_cp c \<Longrightarrow> store_step d d'"
| prepare_gate_revision: "prepare_gate_revision st gate fail d = Inr (p, d') \<Longrightarrow> store_step d d'"
| promote_initial:
    "promote_initial_environment_inconclusive safe st blocked art d = Inr (r, d') \<Longrightarrow> store_step d d'"
| promote_execution:
    "promote_inconclusive_execution safe st exhausted oart d = Inr (r, d') \<Longrightarrow> store_step d d'"
| invalidate_from: "invalidate_from st ident s inputs force d = Inr (u, d') \<Longrightarrow> store_step d d'"
| replace_from: "replace_from st pending fail d = Inr (u, d') \<Longrightarrow> valid_cp pending \<Longrightarrow> store_step d d'"

lemma save_success_extends:
  "save_success st c outputs fail d = Inr (r, d') \<Longrightarrow> valid_cp c \<Longrightarrow> db_ok d \<Longrightarrow> extends d d'"
  using write_tx_extends [OF save_success_write(1)] save_success_write(2) by fastforce

lemma save_checkpoint_extends:
  "save_checkpoint safe st c d = Inr (u, d') \<Longrightarrow> valid_cp c \<Longrightarrow> db_ok d \<Longrightarrow> extends d d'"
  by (erule save_checkpoint_write) (rule write_tx_extends)

lemma mark_running_extends:
  assumes "mark_running safe st ident s inputs attempt inherit_from d = Inr (c, d')"
    "pred_option valid_cp inherit_from" "db_ok d"
  shows "extends d d'"
  using mark_running_write [OF assms(3,1)] mark_running_valid [OF assms(3,1,2)] assms(3)
  by (blast intro: write_tx_extends)

lemma complete_extends:
  assumes "complete_stage safe st c result run d = Inr (r, d')" "valid_cp c" "db_ok d"
  shows "extends d d'"
  using complete_write [OF assms(1)] assms(2,3) write_tx_extends valid_completed_cp by metis

lemma mark_failure_extends:
  assumes "mark_failure safe st c f status attempt d = Inr (r, d')" "valid_cp c" "db_ok d"
  shows "extends d d'"
proof -
  obtain e where r: "r = failed_cp st c f status" and w: "write_tx st False r None [e] d = Inr d'"
    by (rule mark_failure_write [OF assms(1)])
  have "valid_cp r" using assms(2) r by (simp add: failed_cp_def)
  with w assms(3) show ?thesis by (rule write_tx_extends [rotated 2, rotated 1])
qed

lemma prepare_recovery_extends:
  assumes "prepare_recovery safe st failed res s fail d = Inr (p, d')" "valid_cp failed" "db_ok d"
  shows "extends d d'"
proof -
  obtain l e d1 where p: "p = recovery_pending st failed res s (stored d (cp_identity failed) s) l"
    and a: "append_activity [e] d = Inr d1"
    and d': "d' = mark_dirty st (id_analysis (cp_identity failed)) (upsert_checkpoint p
            (delete_stages (cp_identity failed) (stages_from s) d1))"
    by (rule prepare_recovery_cases [OF assms(3,1)])
  show ?thesis unfolding d'
    by (rule restart_extends [OF append_activity_extends [OF a assms(3)]])
       (simp add: p valid_recovery_pending assms(2))
qed

lemma record_recovery_decision_extends:
  assumes "record_recovery_decision safe st failed res fail d = Inr (u, d')" "valid_cp failed" "db_ok d"
  shows "extends d d'"
proof -
  obtain e d1 where a: "append_activity [e] (upsert_checkpoint failed d) = Inr d1"
    and d': "d' = mark_dirty st (id_analysis (cp_identity failed)) d1"
    by (rule record_recovery_decision_cases [OF assms(1)])
  have 1: "extends d (upsert_checkpoint failed d)" by (rule upsert_extends [OF assms(3,2)])
  have 2: "extends d d1"
    by (rule extends_trans [OF 1 append_activity_extends [OF a extends_ok [OF 1]]])
  show ?thesis unfolding d' by (rule extends_trans [OF 2 dirty_extends [OF extends_ok [OF 2]]])
qed

lemma record_recovery_stop_extends:
  assumes "record_recovery_stop safe st failed res fail d = Inr (r, d')" "valid_cp failed" "db_ok d"
  shows "extends d d'"
  by (rule record_recovery_decision_extends [OF record_recovery_stop_cases(3) [OF assms(1)]])
     (simp_all add: record_recovery_stop_cases(2) [OF assms(1)] assms)

lemma mark_recovery_exhausted_extends:
  assumes "mark_recovery_exhausted safe st c d = Inr (r, d')" "valid_cp c" "db_ok d"
  shows "extends d d'"
proof -
  obtain e where "r = c\<lparr>cp_status := BLOCKED, cp_error_code := Some ''RECOVERY_EXHAUSTED'',
                        cp_retryable := False, cp_updated_at := st_now st\<rparr>"
    and w: "write_tx st False r None [e] d = Inr d'"
    by (rule mark_recovery_exhausted_write [OF assms(1)])
  then have "valid_cp r" using assms(2) by simp
  with w assms(3) show ?thesis by (blast intro: write_tx_extends)
qed

lemma prepare_gate_revision_extends:
  assumes p: "prepare_gate_revision st gate fail d = Inr (p, d')" and ok: "db_ok d"
  shows "extends d d'"
  using ok p
proof (cases rule: prepare_gate_revision_cases)
  case replayed
  then show ?thesis by (simp add: extends_refl ok)
next
  case (restarted cand exe)
  then have "valid_cp gate" using lookup_valid [OF ok] by blast
  then have "valid_cp p"
    using restarted(7) prepare_gate_revision_guard(6) [OF p] by (simp add: valid_cp_def)
  then show ?thesis
    unfolding restarted(8) by (rule restart_extends [OF extends_refl [OF ok]])
qed

lemma promoted_extends:
  assumes "append_activity [e] (upsert_checkpoint r d) = Inr d1" "valid_cp r" "db_ok d"
  shows "extends d (mark_dirty st a d1)"
proof -
  have 1: "extends d (upsert_checkpoint r d)" by (rule upsert_extends [OF assms(3,2)])
  have 2: "extends d d1"
    by (rule extends_trans [OF 1 append_activity_extends [OF assms(1) extends_ok [OF 1]]])
  show ?thesis by (rule extends_trans [OF 2 dirty_extends [OF extends_ok [OF 2]]])
qed

lemma promote_initial_extends:
  assumes p: "promote_initial_environment_inconclusive safe st blocked art d = Inr (r, d')"
    and ok: "db_ok d"
  shows "extends d d'"
proof (rule promote_initial_cases [OF ok p], goal_cases)
  case (1 ref e d1 outcome)
  have "valid_cp blocked" using lookup_valid [OF ok 1(11)] by blast
  then have "valid_cp r" using 1(9) by simp
  then show ?case unfolding 1(13) by (rule promoted_extends [OF 1(12) _ ok])
qed

lemma promote_execution_extends:
  assumes p: "promote_inconclusive_execution safe st exhausted art d = Inr (r, d')"
    and ok: "db_ok d"
  shows "extends d d'"
proof (rule promote_execution_cases [OF ok p], goal_cases)
  case (1 stop_ref e d1)
  have "valid_cp exhausted" using lookup_valid [OF ok 1(6)] by blast
  then have "valid_cp r" using 1(1,8) by (simp add: valid_cp_def)
  then show ?case unfolding 1(10) by (rule promoted_extends [OF 1(9) _ ok])
qed

lemma invalidate_from_extends:
  assumes "invalidate_from st ident s inputs force d = Inr (u, d')" "db_ok d"
  shows "extends d d'"
  using assms(1)
proof (cases rule: invalidate_from_cases)
  case dropped
  then show ?thesis
    using extends_trans [OF delete_extends dirty_extends] assms(2) delete_stages_ok by blast
qed (simp_all add: extends_refl delete_extends assms)

lemma replace_from_extends:
  assumes "replace_from st pending fail d = Inr (u, d')" "valid_cp pending" "db_ok d"
  shows "extends d d'"
  unfolding replace_from_cases(3) [OF assms(1)]
  by (rule restart_extends [OF extends_refl [OF assms(3)] assms(2)])

lemma store_step_extends: "store_step d d' \<Longrightarrow> db_ok d \<Longrightarrow> extends d d'"
  by (induction rule: store_step.induct)
     (blast intro: save_success_extends save_checkpoint_extends mark_running_extends
        complete_extends mark_failure_extends prepare_recovery_extends
        record_recovery_decision_extends record_recovery_stop_extends
        mark_recovery_exhausted_extends prepare_gate_revision_extends promote_initial_extends
        promote_execution_extends invalidate_from_extends replace_from_extends)+

interpretation store_machine: invariant_system store_step db_ok
  by unfold_locales (blast dest: store_step_extends extends_ok)

text \<open>What a run of the store keeps: the invariant and the history.\<close>

lemma reaches_extends: "reaches store_step d d' \<Longrightarrow> db_ok d \<Longrightarrow> extends d d'"
proof (induction rule: reaches.induct)
  case (step s t u)
  then show ?case
    using store_step_extends store_machine.reaches_inv extends_trans by blast
qed (rule extends_refl)

end
