(* ===== verification/Codex_Ledger.thy ===== *)
theory Codex_Ledger
  imports Store_Steps Complex_Main
begin

text \<open>
  \<open>simple_runtime/store.py\<close>, the durable ledger of model calls: recorded attempts with their
  ownership metadata, the one-in-flight reservation of the Codex process, the intents of its
  three child processes, and the operations that settle a reservation.

  Each operation is one write transaction over the checkpoint database and the ledger.  Costs
  are exact rationals; the rounding of floating point sums is not modelled.
\<close>

section \<open>Rows\<close>

text \<open>\<open>attempt_owner.py\<close>: ownership metadata and prompt sizes, with their checks.\<close>

record attempt_owner =
  ow_analysis :: string
  ow_stage :: string
  ow_candidates :: "string list"
  ow_hypothesis :: "string option"
  ow_surface :: "string option"
  ow_file :: "string option"
  ow_batch :: "string option"
  ow_context :: "string option"
  ow_checkpoint_attempt :: "string option"

definition make_owner :: "attempt_owner \<Rightarrow> attempt_owner res" where
  "make_owner ow =
     (if ow_analysis ow = [] \<or> ow_stage ow = [] then Inl (ValueError ''LLM_ATTEMPT_OWNER_INVALID'')
      else if \<not> distinct (ow_candidates ow) then Inl (ValueError ''LLM_ATTEMPT_OWNER_INVALID'')
      else Inr ow)"

record prompt_bytes =
  pb_raw_source :: "int option"
  pb_shared_context :: "int option"
  pb_candidate_specific :: "int option"
  pb_fixed_prompt :: "int option"

definition make_prompt_bytes :: "prompt_bytes \<Rightarrow> prompt_bytes res" where
  "make_prompt_bytes p =
     (if list_all (pred_option (\<lambda>n. 0 \<le> n))
           [pb_raw_source p, pb_shared_context p, pb_candidate_specific p, pb_fixed_prompt p]
      then Inr p else Inl (ValueError ''LLM_PROMPT_BYTES_INVALID''))"

record llm_attempt =
  at_id :: string
  at_analysis :: string
  at_agent :: string
  at_model :: string
  at_number :: int
  at_status :: string
  at_elapsed_ms :: int
  at_input_tokens :: "int option"
  at_output_tokens :: "int option"
  at_cost :: "rat option"
  at_artifact :: stored_ref

record attempt_metadata =
  md_attempt :: string
  md_analysis :: string
  md_owner :: "attempt_owner option"
  md_retry_of :: "string option"
  md_prompt :: prompt_bytes

datatype call_status = IN_FLIGHT | SAFE | CONFIRMED

record codex_call =
  cc_id :: string
  cc_analysis :: string
  cc_status :: call_status
  cc_started_at :: int
  cc_resolved_at :: "int option"
  cc_confirmation :: "stored_ref option"

datatype spawn_status = SPAWNING | CAPTURED | EXITED

record child_spawn =
  cs_call :: string
  cs_analysis :: string
  cs_phase :: string
  cs_status :: spawn_status
  cs_pid :: "int option"
  cs_start_identity :: "string option"

record call_version =
  cv_call :: string
  cv_analysis :: string
  cv_version :: int

record orphaned_call =
  oc_call :: string
  oc_analysis :: string
  oc_surface :: string
  oc_context :: string
  oc_file :: string
  oc_model :: string
  oc_attempt_ref :: stored_ref
  oc_confirmation :: stored_ref
  oc_orphaned_at :: int

record ledger =
  lg_attempts :: "llm_attempt list"
  lg_metadata :: "attempt_metadata list"
  lg_calls :: "codex_call list"
  lg_children :: "child_spawn list"
  lg_versions :: "call_version list"
  lg_orphans :: "orphaned_call list"

type_synonym store = "db \<times> ledger"

definition child_key :: "child_spawn \<Rightarrow> string \<times> string" where
  "child_key ch = (cs_call ch, cs_phase ch)"

section \<open>Recording attempts\<close>

text \<open>
  \<open>retry_of\<close> of a fresh surface call whose predecessor was orphaned: the one orphan of the same
  surface and context, if it names the same file and model and the new call started later.
\<close>

definition orphan_retry ::
  "ledger \<Rightarrow> string \<Rightarrow> string \<Rightarrow> string \<Rightarrow> attempt_owner option \<Rightarrow> string option \<Rightarrow> string option res"
  where
  "orphan_retry lg attempt analysis model ow retry_of =
     (case (retry_of, ow) of
        (None, Some own) \<Rightarrow>
          (case (ow_surface own, ow_context own) of
             (Some surface, Some context) \<Rightarrow>
               if ow_stage own \<noteq> ''HYPOTHESIS_SURFACE'' then Inr None
               else
                 let orphans = filter (\<lambda>q. oc_analysis q = analysis \<and> oc_surface q = surface
                                        \<and> oc_context q = context) (lg_orphans lg)
                 in if orphans = [] \<or> attempt \<in> oc_call ` set orphans then Inr None
                    else
                      (case find (\<lambda>c. cc_id c = attempt \<and> cc_analysis c = analysis) (lg_calls lg) of
                         None \<Rightarrow> Inr None
                       | Some call \<Rightarrow>
                           if length orphans \<noteq> 1 \<or> Some (oc_file (hd orphans)) \<noteq> ow_file own
                              \<or> oc_model (hd orphans) \<noteq> model
                              \<or> cc_started_at call < oc_orphaned_at (hd orphans)
                           then Inl (ValueError ''CODEX_ORPHAN_RETRY_LINEAGE_INVALID'')
                           else Inr (Some (oc_call (hd orphans))))
           | _ \<Rightarrow> Inr None)
      | _ \<Rightarrow> Inr retry_of)"

text \<open>\<open>INSERT OR IGNORE\<close>, then a comparison with the row that was already there.\<close>

definition insert_attempt :: "llm_attempt \<Rightarrow> ledger \<Rightarrow> (bool \<times> ledger) res" where
  "insert_attempt a lg =
     (case tbl_lookup at_id (lg_attempts lg) (at_id a) of
        None \<Rightarrow> Inr (True, lg\<lparr>lg_attempts := lg_attempts lg @ [a]\<rparr>)
      | Some row \<Rightarrow> if row = a then Inr (False, lg) else Inl (ValueError ''LLM_ATTEMPT_CONFLICT''))"

definition insert_metadata :: "attempt_metadata \<Rightarrow> ledger \<Rightarrow> (bool \<times> ledger) res" where
  "insert_metadata md lg =
     (case tbl_lookup md_attempt (lg_metadata lg) (md_attempt md) of
        None \<Rightarrow> Inr (True, lg\<lparr>lg_metadata := lg_metadata lg @ [md]\<rparr>)
      | Some row \<Rightarrow> if row = md then Inr (False, lg) else Inl (ValueError ''LLM_ATTEMPT_CONFLICT''))"

text \<open>The four size columns are \<open>NULL\<close> without prompt sizes.\<close>

definition prompt_columns :: "prompt_bytes option \<Rightarrow> prompt_bytes" where
  "prompt_columns p = (case p of
     None \<Rightarrow> \<lparr>pb_raw_source = None, pb_shared_context = None, pb_candidate_specific = None,
              pb_fixed_prompt = None\<rparr>
   | Some b \<Rightarrow> b)"

definition record_llm_attempt ::
  "stamp \<Rightarrow> llm_attempt \<Rightarrow> attempt_owner option \<Rightarrow> string option \<Rightarrow> prompt_bytes option \<Rightarrow> store
     \<Rightarrow> store res" where
  "record_llm_attempt st a ow retry_of prompt = (\<lambda>(d, lg).
     if (case ow of None \<Rightarrow> False | Some own \<Rightarrow> ow_analysis own \<noteq> at_analysis a)
     then Inl (ValueError ''LLM_ATTEMPT_OWNER_INVALID'')
     else
       bindR (insert_attempt a lg) (\<lambda>(new1, lg1).
       bindR (orphan_retry lg1 (at_id a) (at_analysis a) (at_model a) ow retry_of) (\<lambda>retry.
       bindR (if ow \<noteq> None \<or> retry \<noteq> None \<or> prompt \<noteq> None
              then insert_metadata \<lparr>md_attempt = at_id a, md_analysis = at_analysis a,
                     md_owner = ow, md_retry_of = retry, md_prompt = prompt_columns prompt\<rparr> lg1
              else Inr (False, lg1)) (\<lambda>(new2, lg2).
         Inr (if new1 \<or> new2 then mark_dirty st (at_analysis a) d else d, lg2)))))"

section \<open>Reservations\<close>

definition unresolved_codex_call :: "ledger \<Rightarrow> string \<Rightarrow> string option" where
  "unresolved_codex_call lg analysis =
     map_option cc_id
       (find (\<lambda>c. cc_analysis c = analysis \<and> cc_status c = IN_FLIGHT) (lg_calls lg))"

definition confirmed_codex_call_covering :: "ledger \<Rightarrow> string \<Rightarrow> int \<Rightarrow> bool" where
  "confirmed_codex_call_covering lg analysis observed =
     (if \<exists>c \<in> set (lg_calls lg). cc_analysis c = analysis \<and> cc_status c = IN_FLIGHT then False
      else \<exists>c \<in> set (lg_calls lg). cc_analysis c = analysis \<and> cc_status c = CONFIRMED
             \<and> cc_confirmation c \<noteq> None \<and> cc_started_at c \<le> observed
             \<and> (case cc_resolved_at c of None \<Rightarrow> False | Some t \<Rightarrow> observed \<le> t))"

definition begin_codex_call :: "stamp \<Rightarrow> string \<Rightarrow> string \<Rightarrow> store \<Rightarrow> (bool \<times> store) res" where
  "begin_codex_call st call analysis = (\<lambda>(d, lg).
     if call = [] \<or> analysis = [] then Inl (ValueError ''CODEX_CALL_IDENTITY_INVALID'')
     else if unresolved_codex_call lg analysis \<noteq> None then Inr (False, d, lg)
     else if tbl_lookup cc_id (lg_calls lg) call \<noteq> None
     then Inl (SqliteError ''UNIQUE constraint failed: simple_codex_calls.call_id'')
     else
       let lg1 = lg\<lparr>lg_calls := lg_calls lg @
             [\<lparr>cc_id = call, cc_analysis = analysis, cc_status = IN_FLIGHT,
               cc_started_at = st_now st, cc_resolved_at = None, cc_confirmation = None\<rparr>]\<rparr>
       in
       (case Option.bind (tbl_lookup run_analysis_id (db_runs d) analysis)
               run_candidate_pipeline_version of
          None \<Rightarrow> Inr (True, mark_dirty st analysis d, lg1)
        | Some v \<Rightarrow>
            if tbl_lookup cv_call (lg_versions lg1) call \<noteq> None
            then Inl (SqliteError ''UNIQUE constraint failed: simple_codex_call_versions.call_id'')
            else Inr (True, mark_dirty st analysis d,
                      lg1\<lparr>lg_versions := lg_versions lg1 @
                            [\<lparr>cv_call = call, cv_analysis = analysis, cv_version = v\<rparr>]\<rparr>)))"

definition begin_codex_child_spawn :: "string \<Rightarrow> string \<Rightarrow> string \<Rightarrow> ledger \<Rightarrow> ledger res" where
  "begin_codex_child_spawn call analysis phase lg =
     (if phase \<notin> {''VERSION'', ''LOGIN'', ''EXEC''}
      then Inl (ValueError ''CODEX_CHILD_IDENTITY_INVALID'')
      else if \<not> (\<exists>c \<in> set (lg_calls lg). cc_id c = call \<and> cc_analysis c = analysis
                     \<and> cc_status c = IN_FLIGHT)
      then Inl (ValueError ''CODEX_CHILD_IDENTITY_INVALID'')
      else if tbl_lookup child_key (lg_children lg) (call, phase) \<noteq> None
      then Inl (ValueError ''CODEX_CHILD_IDENTITY_CONFLICT'')
      else Inr (lg\<lparr>lg_children := lg_children lg @
             [\<lparr>cs_call = call, cs_analysis = analysis, cs_phase = phase, cs_status = SPAWNING,
               cs_pid = None, cs_start_identity = None\<rparr>]\<rparr>))"

text \<open>\<open>UPDATE ... WHERE\<close>, refused unless exactly one row changed.\<close>

definition update_one :: "('r \<Rightarrow> bool) \<Rightarrow> ('r \<Rightarrow> 'r) \<Rightarrow> string \<Rightarrow> 'r list \<Rightarrow> 'r list res" where
  "update_one P f err rows =
     (if length (filter P rows) \<noteq> 1 then Inl (ValueError err)
      else Inr (map (\<lambda>r. if P r then f r else r) rows))"

definition record_codex_child_spawn ::
  "string \<Rightarrow> string \<Rightarrow> string \<Rightarrow> int \<Rightarrow> string \<Rightarrow> ledger \<Rightarrow> ledger res" where
  "record_codex_child_spawn call analysis phase pid start lg =
     (if pid \<le> 0 \<or> start = [] then Inl (ValueError ''CODEX_CHILD_IDENTITY_INVALID'')
      else
        bindR (update_one
                 (\<lambda>ch. cs_call ch = call \<and> cs_analysis ch = analysis \<and> cs_phase ch = phase
                     \<and> cs_status ch = SPAWNING)
                 (\<lambda>ch. ch\<lparr>cs_status := CAPTURED, cs_pid := Some pid, cs_start_identity := Some start\<rparr>)
                 ''CODEX_CHILD_IDENTITY_CONFLICT'' (lg_children lg))
          (\<lambda>rows. Inr (lg\<lparr>lg_children := rows\<rparr>)))"

definition mark_codex_child_exited ::
  "string \<Rightarrow> string \<Rightarrow> string \<Rightarrow> int \<Rightarrow> string \<Rightarrow> ledger \<Rightarrow> ledger res" where
  "mark_codex_child_exited call analysis phase pid start lg =
     bindR (update_one
              (\<lambda>ch. cs_call ch = call \<and> cs_analysis ch = analysis \<and> cs_phase ch = phase
                  \<and> cs_pid ch = Some pid \<and> cs_start_identity ch = Some start
                  \<and> cs_status ch = CAPTURED)
              (\<lambda>ch. ch\<lparr>cs_status := EXITED\<rparr>)
              ''CODEX_CHILD_IDENTITY_CONFLICT'' (lg_children lg))
       (\<lambda>rows. Inr (lg\<lparr>lg_children := rows\<rparr>))"

definition mark_codex_call_safe :: "int \<Rightarrow> string \<Rightarrow> string \<Rightarrow> ledger \<Rightarrow> ledger res" where
  "mark_codex_call_safe now call analysis lg =
     bindR (update_one
              (\<lambda>c. cc_id c = call \<and> cc_analysis c = analysis \<and> cc_status c = IN_FLIGHT
                 \<and> (\<exists>a \<in> set (lg_attempts lg). at_id a = call \<and> at_analysis a = analysis))
              (\<lambda>c. c\<lparr>cc_status := SAFE, cc_resolved_at := Some now\<rparr>)
              ''CODEX_CALL_SAFE_UNVERIFIED'' (lg_calls lg))
       (\<lambda>rows. Inr (lg\<lparr>lg_calls := rows\<rparr>))"

text \<open>
  \<open>_reconcile_unspawned_codex_call_with_lease\<close>: under the exclusive run lease, a reservation of a
  version 2 run with no child intent and no attempt is settled.  \<open>same_db\<close> says whether the
  artifact repository lies beside this database, \<open>isoformat\<close> is \<open>datetime.isoformat\<close> and \<open>put_json\<close>
  the content-addressed writer.
\<close>

definition pre_spawn_confirmation ::
  "(int \<Rightarrow> string) \<Rightarrow> int \<Rightarrow> analysis_run \<Rightarrow> codex_call \<Rightarrow> json" where
  "pre_spawn_confirmation isoformat now run call =
     JObj [(''kind'', JStr ''simple_codex_pre_spawn_confirmation''),
           (''analysis_id'', JStr (run_analysis_id run)),
           (''workspace_id'', JStr (run_workspace_id run)),
           (''commit_id'', JStr (run_commit_id run)),
           (''call_id'', JStr (cc_id call)),
           (''call_started_at'', JStr (isoformat (cc_started_at call))),
           (''confirmed_at'', JStr (isoformat now)),
           (''candidate_pipeline_version'', JInt 2),
           (''child_spawn_rows'', JInt 0),
           (''llm_attempt_rows'', JInt 0)]"

definition reconcile_unspawned ::
  "(int \<Rightarrow> string) \<Rightarrow> (json \<Rightarrow> stored_ref res) \<Rightarrow> bool \<Rightarrow> int \<Rightarrow> analysis_run \<Rightarrow> store \<Rightarrow> (bool \<times> store) res"
  where
  "reconcile_unspawned isoformat put_json same_db now run = (\<lambda>(d, lg).
     case run_started_at run of
       None \<Rightarrow> Inr (False, d, lg)
     | Some run_start \<Rightarrow>
       if run_candidate_pipeline_version run \<noteq> Some 2 \<or> run_provider run \<noteq> Some ''codex''
          \<or> run_llm_provider run \<noteq> Some ''codex''
       then Inr (False, d, lg)
       else if \<not> same_db then Inl (ValueError ''CODEX_PRE_SPAWN_DATABASE_MISMATCH'')
       else
         (case find (\<lambda>c. cc_analysis c = run_analysis_id run \<and> cc_status c = IN_FLIGHT) (lg_calls lg) of
            None \<Rightarrow> Inr (False, d, lg)
          | Some call \<Rightarrow>
              if \<not> (\<exists>v \<in> set (lg_versions lg). cv_call v = cc_id call
                         \<and> cv_analysis v = run_analysis_id run \<and> cv_version v = 2)
                 \<or> tbl_lookup run_analysis_id (db_runs d) (run_analysis_id run) \<noteq> Some run
                 \<or> (\<exists>ch \<in> set (lg_children lg). cs_call ch = cc_id call)
                 \<or> (\<exists>a \<in> set (lg_attempts lg). at_id a = cc_id call)
                 \<or> \<not> (run_start \<le> cc_started_at call \<and> cc_started_at call \<le> now)
              then Inr (False, d, lg)
              else
                bindR (put_json (pre_spawn_confirmation isoformat now run call)) (\<lambda>confirmation.
                let a = \<lparr>at_id = cc_id call, at_analysis = run_analysis_id run,
                         at_agent = ''unknown'', at_model = str_default (run_model run) ''unknown'',
                         at_number = 0, at_status = ''CODEX_NOT_SPAWNED'', at_elapsed_ms = 0,
                         at_input_tokens = Some 0, at_output_tokens = Some 0, at_cost = Some 0,
                         at_artifact = confirmation\<rparr>
                in
                bindR (update_one
                         (\<lambda>c. cc_id c = cc_id call \<and> cc_analysis c = run_analysis_id run
                            \<and> cc_status c = IN_FLIGHT)
                         (\<lambda>c. c\<lparr>cc_status := CONFIRMED, cc_resolved_at := Some now,
                                cc_confirmation := Some confirmation\<rparr>)
                         ''CODEX_PRE_SPAWN_RECONCILIATION_STALE'' (lg_calls lg))
                  (\<lambda>calls. Inr (True, d, lg\<lparr>lg_attempts := lg_attempts lg @ [a],
                                          lg_calls := calls\<rparr>)))))"

section \<open>The invariant\<close>

definition call_row_ok :: "codex_call \<Rightarrow> bool" where
  "call_row_ok c \<longleftrightarrow> (cc_status c = IN_FLIGHT \<longleftrightarrow> cc_resolved_at c = None)
     \<and> (cc_status c = CONFIRMED \<longrightarrow> cc_confirmation c \<noteq> None)"

definition child_row_ok :: "child_spawn \<Rightarrow> bool" where
  "child_row_ok ch \<longleftrightarrow> cs_phase ch \<in> {''VERSION'', ''LOGIN'', ''EXEC''}
     \<and> (if cs_status ch = SPAWNING then cs_pid ch = None \<and> cs_start_identity ch = None
        else (\<exists>p i. cs_pid ch = Some p \<and> 0 < p \<and> cs_start_identity ch = Some i \<and> i \<noteq> []))"

text \<open>At most one call of an analysis is in flight.\<close>

definition one_in_flight :: "codex_call list \<Rightarrow> bool" where
  "one_in_flight calls \<longleftrightarrow>
     (\<forall>c \<in> set calls. \<forall>c' \<in> set calls. cc_status c = IN_FLIGHT \<longrightarrow> cc_status c' = IN_FLIGHT \<longrightarrow>
        cc_analysis c = cc_analysis c' \<longrightarrow> c = c')"

text \<open>A settled call has a durable attempt.\<close>

definition settled_recorded :: "ledger \<Rightarrow> bool" where
  "settled_recorded lg \<longleftrightarrow>
     (\<forall>c \<in> set (lg_calls lg). cc_status c \<noteq> IN_FLIGHT \<longrightarrow>
        (\<exists>a \<in> set (lg_attempts lg). at_id a = cc_id c \<and> at_analysis a = cc_analysis c))"

text \<open>A child belongs to a reserved call of its analysis.\<close>

definition children_owned :: "ledger \<Rightarrow> bool" where
  "children_owned lg \<longleftrightarrow>
     (\<forall>ch \<in> set (lg_children lg). \<exists>c \<in> set (lg_calls lg).
        cc_id c = cs_call ch \<and> cc_analysis c = cs_analysis ch)"

definition ledger_ok :: "ledger \<Rightarrow> bool" where
  "ledger_ok lg \<longleftrightarrow> tbl_ok cc_id (lg_calls lg) \<and> tbl_ok child_key (lg_children lg)
     \<and> tbl_ok at_id (lg_attempts lg) \<and> tbl_ok md_attempt (lg_metadata lg)
     \<and> tbl_ok cv_call (lg_versions lg) \<and> list_all call_row_ok (lg_calls lg)
     \<and> list_all child_row_ok (lg_children lg) \<and> one_in_flight (lg_calls lg)
     \<and> settled_recorded lg \<and> children_owned lg"

definition empty_ledger :: ledger where
  "empty_ledger = \<lparr>lg_attempts = [], lg_metadata = [], lg_calls = [], lg_children = [],
                   lg_versions = [], lg_orphans = []\<rparr>"

section \<open>Every operation keeps it\<close>

lemmas ledger_defs = ledger_ok_def settled_recorded_def children_owned_def one_in_flight_def

lemma tbl_ok_append:
  "tbl_ok key (t @ [r]) \<longleftrightarrow> tbl_ok key t \<and> tbl_lookup key t (key r) = None"
  by (induction t) (auto simp: tbl_ok_def tbl_lookup_def)

lemma tbl_lookup_snoc:
  "tbl_lookup key (t @ [r]) k
     = (case tbl_lookup key t k of Some x \<Rightarrow> Some x | None \<Rightarrow> if key r = k then Some r else None)"
  by (induction t) (auto simp: tbl_lookup_def)

lemma empty_ledger_ok: "ledger_ok empty_ledger"
  by (simp add: ledger_defs empty_ledger_def tbl_ok_def)

lemma insert_attempt_ok: "insert_attempt a lg = Inr (b, lg') \<Longrightarrow> ledger_ok lg \<Longrightarrow> ledger_ok lg'"
  by (auto simp: insert_attempt_def ledger_defs tbl_ok_append split: option.splits if_splits)

lemma insert_metadata_ok: "insert_metadata md lg = Inr (b, lg') \<Longrightarrow> ledger_ok lg \<Longrightarrow> ledger_ok lg'"
  by (auto simp: insert_metadata_def ledger_defs tbl_ok_append split: option.splits if_splits)

lemma record_llm_attempt_ok:
  assumes "record_llm_attempt st a ow retry prompt (d, lg) = Inr (d', lg')" "ledger_ok lg"
  shows "ledger_ok lg'"
proof -
  obtain b lg1 where 1: "insert_attempt a lg = Inr (b, lg1)"
    using assms(1) by (auto simp: record_llm_attempt_def split: if_splits)
  have ok: "ledger_ok lg1" by (rule insert_attempt_ok [OF 1 assms(2)])
  show ?thesis
    using assms(1) ok 1
    by (auto simp: record_llm_attempt_def dest: insert_metadata_ok split: if_splits prod.splits)
qed

lemma unresolved_None:
  "unresolved_codex_call lg analysis = None \<longleftrightarrow>
     (\<forall>c \<in> set (lg_calls lg). cc_analysis c = analysis \<longrightarrow> cc_status c \<noteq> IN_FLIGHT)"
  by (auto simp: unresolved_codex_call_def find_None_iff)

lemma begin_codex_call_cases:
  assumes "begin_codex_call st call analysis (d, lg) = Inr (ok, d', lg')"
  obtains (busy) "\<not> ok" "unresolved_codex_call lg analysis \<noteq> None" "d' = d" "lg' = lg"
  | (reserved) vs where "ok" "call \<noteq> []" "analysis \<noteq> []" "unresolved_codex_call lg analysis = None"
      "tbl_lookup cc_id (lg_calls lg) call = None" "d' = mark_dirty st analysis d"
      "lg' = lg\<lparr>lg_calls := lg_calls lg @
             [\<lparr>cc_id = call, cc_analysis = analysis, cc_status = IN_FLIGHT,
               cc_started_at = st_now st, cc_resolved_at = None, cc_confirmation = None\<rparr>],
             lg_versions := vs\<rparr>" "tbl_ok cv_call (lg_versions lg) \<longrightarrow> tbl_ok cv_call vs"
proof (cases "unresolved_codex_call lg analysis = None")
  case False
  then show ?thesis using assms busy by (auto simp: begin_codex_call_def split: if_splits)
next
  case True
  define lg1 where "lg1 = lg\<lparr>lg_calls := lg_calls lg @
             [\<lparr>cc_id = call, cc_analysis = analysis, cc_status = IN_FLIGHT,
               cc_started_at = st_now st, cc_resolved_at = None, cc_confirmation = None\<rparr>]\<rparr>"
  have g: "call \<noteq> []" "analysis \<noteq> []" "tbl_lookup cc_id (lg_calls lg) call = None"
    using assms True by (auto simp: begin_codex_call_def split: if_splits)
  have eq: "begin_codex_call st call analysis (d, lg) =
      (case Option.bind (tbl_lookup run_analysis_id (db_runs d) analysis)
               run_candidate_pipeline_version of
          None \<Rightarrow> Inr (True, mark_dirty st analysis d, lg1)
        | Some v \<Rightarrow>
            if tbl_lookup cv_call (lg_versions lg1) call \<noteq> None
            then Inl (SqliteError ''UNIQUE constraint failed: simple_codex_call_versions.call_id'')
            else Inr (True, mark_dirty st analysis d,
                      lg1\<lparr>lg_versions := lg_versions lg1 @
                            [\<lparr>cv_call = call, cv_analysis = analysis, cv_version = v\<rparr>]\<rparr>))"
    using g True by (simp add: begin_codex_call_def Let_def lg1_def split: option.splits)
  show ?thesis
  proof (cases "Option.bind (tbl_lookup run_analysis_id (db_runs d) analysis)
                  run_candidate_pipeline_version")
    case None
    then have "lg' = lg1" "ok" "d' = mark_dirty st analysis d" using assms eq by auto
    then show ?thesis using reserved [of "lg_versions lg"] g True by (simp add: lg1_def)
  next
    case (Some v)
    then have "tbl_lookup cv_call (lg_versions lg) call = None" "ok" "d' = mark_dirty st analysis d"
      "lg' = lg1\<lparr>lg_versions := lg_versions lg @
          [\<lparr>cv_call = call, cv_analysis = analysis, cv_version = v\<rparr>]\<rparr>"
      using assms eq by (auto simp: lg1_def split: if_splits)
    then show ?thesis
      using reserved [of "lg_versions lg @ [\<lparr>cv_call = call, cv_analysis = analysis, cv_version = v\<rparr>]"]
        g True by (simp add: lg1_def tbl_ok_append)
  qed
qed

lemma begin_codex_call_ok:
  assumes "begin_codex_call st call analysis (d, lg) = Inr (b, d', lg')" "ledger_ok lg"
  shows "ledger_ok lg'"
  using assms(1)
proof (cases rule: begin_codex_call_cases)
  case (reserved vs)
  let ?c = "\<lparr>cc_id = call, cc_analysis = analysis, cc_status = IN_FLIGHT,
      cc_started_at = st_now st, cc_resolved_at = None, cc_confirmation = None\<rparr>"
  have "one_in_flight (lg_calls lg @ [?c])"
    using assms(2) reserved(4) unfolding unresolved_None
    by (auto simp: ledger_ok_def one_in_flight_def)
  moreover have "tbl_ok cc_id (lg_calls lg @ [?c])"
    using assms(2) reserved(5) by (simp add: ledger_ok_def tbl_ok_append)
  ultimately show ?thesis
    using assms(2) reserved(7,8)
    by (auto simp: ledger_ok_def settled_recorded_def children_owned_def call_row_ok_def)
qed (use assms in simp)

lemma begin_codex_child_spawn_ok:
  assumes "begin_codex_child_spawn call analysis phase lg = Inr lg'" "ledger_ok lg"
  shows "ledger_ok lg'"
proof -
  let ?ch = "\<lparr>cs_call = call, cs_analysis = analysis, cs_phase = phase, cs_status = SPAWNING,
      cs_pid = None, cs_start_identity = None\<rparr>"
  have lg': "lg' = lg\<lparr>lg_children := lg_children lg @ [?ch]\<rparr>"
    and phase: "phase \<in> {''VERSION'', ''LOGIN'', ''EXEC''}"
    and new: "tbl_lookup child_key (lg_children lg) (child_key ?ch) = None"
    and owner: "\<exists>c \<in> set (lg_calls lg). cc_id c = call \<and> cc_analysis c = analysis"
    using assms(1) by (auto simp: begin_codex_child_spawn_def child_key_def split: if_splits)
  have "tbl_ok child_key (lg_children lg')"
    using assms(2) new unfolding lg' by (simp add: ledger_ok_def tbl_ok_append)
  moreover have "list_all child_row_ok (lg_children lg')"
    using assms(2) phase unfolding lg' by (simp add: ledger_ok_def child_row_ok_def)
  moreover have "children_owned lg'"
    using assms(2) owner unfolding lg' by (auto simp: ledger_ok_def children_owned_def)
  ultimately show ?thesis
    using assms(2) unfolding lg' by (simp add: ledger_ok_def settled_recorded_def)
qed

lemma update_one_Inr:
  assumes "update_one P f err rows = Inr rows'"
  shows "rows' = map (\<lambda>r. if P r then f r else r) rows"
    and "\<exists>r \<in> set rows. P r"
proof -
  have l: "length (filter P rows) = 1" and "rows' = map (\<lambda>r. if P r then f r else r) rows"
    using assms by (auto simp: update_one_def split: if_splits)
  then show "rows' = map (\<lambda>r. if P r then f r else r) rows" by simp
  from l have "filter P rows \<noteq> []" by (cases "filter P rows") auto
  then show "\<exists>r \<in> set rows. P r" by (auto simp: filter_empty_conv)
qed

lemma tbl_ok_map: "(\<And>r. key (f r) = key r) \<Longrightarrow> tbl_ok key (map f rows) = tbl_ok key rows"
  by (simp add: tbl_ok_def comp_def)

lemma record_codex_child_spawn_ok:
  assumes "record_codex_child_spawn call analysis phase pid start lg = Inr lg'" "ledger_ok lg"
  shows "ledger_ok lg'"
proof -
  let ?P = "\<lambda>ch. cs_call ch = call \<and> cs_analysis ch = analysis \<and> cs_phase ch = phase
      \<and> cs_status ch = SPAWNING"
  let ?f = "\<lambda>ch. ch\<lparr>cs_status := CAPTURED, cs_pid := Some pid, cs_start_identity := Some start\<rparr>"
  have g: "0 < pid" "start \<noteq> []"
    and lg': "lg' = lg\<lparr>lg_children := map (\<lambda>r. if ?P r then ?f r else r) (lg_children lg)\<rparr>"
    using assms(1) by (auto simp: record_codex_child_spawn_def split: if_splits
        dest: update_one_Inr(1))
  have "tbl_ok child_key (lg_children lg')"
    using assms(2) unfolding lg' by (simp add: ledger_ok_def tbl_ok_map child_key_def)
  moreover have "list_all child_row_ok (lg_children lg')"
    using assms(2) g unfolding lg' by (auto simp: ledger_ok_def list_all_iff child_row_ok_def)
  moreover have "children_owned lg'"
    using assms(2) unfolding lg' by (auto simp: ledger_ok_def children_owned_def)
  ultimately show ?thesis
    using assms(2) unfolding lg' by (simp add: ledger_ok_def settled_recorded_def)
qed

lemma mark_codex_child_exited_ok:
  assumes "mark_codex_child_exited call analysis phase pid start lg = Inr lg'" "ledger_ok lg"
  shows "ledger_ok lg'"
proof -
  let ?P = "\<lambda>ch. cs_call ch = call \<and> cs_analysis ch = analysis \<and> cs_phase ch = phase
      \<and> cs_pid ch = Some pid \<and> cs_start_identity ch = Some start \<and> cs_status ch = CAPTURED"
  have lg': "lg' = lg\<lparr>lg_children :=
      map (\<lambda>r. if ?P r then r\<lparr>cs_status := EXITED\<rparr> else r) (lg_children lg)\<rparr>"
    using assms(1) by (auto simp: mark_codex_child_exited_def dest: update_one_Inr(1))
  have "tbl_ok child_key (lg_children lg')"
    using assms(2) unfolding lg' by (simp add: ledger_ok_def tbl_ok_map child_key_def)
  moreover have "list_all child_row_ok (lg_children lg')"
    using assms(2) unfolding lg' by (auto simp: ledger_ok_def list_all_iff child_row_ok_def)
  moreover have "children_owned lg'"
    using assms(2) unfolding lg' by (auto simp: ledger_ok_def children_owned_def)
  ultimately show ?thesis
    using assms(2) unfolding lg' by (simp add: ledger_ok_def settled_recorded_def)
qed

text \<open>Settling a call: the row keeps its key, leaves \<open>IN_FLIGHT\<close> and has an attempt.\<close>

lemma settle_ok:
  assumes ok: "ledger_ok lg"
    and calls: "calls = map (\<lambda>c. if P c then f c else c) (lg_calls lg)"
    and f: "\<And>c. cc_id (f c) = cc_id c \<and> cc_analysis (f c) = cc_analysis c
              \<and> cc_status (f c) \<noteq> IN_FLIGHT \<and> call_row_ok (f c)"
    and att: "set (lg_attempts lg) \<subseteq> set as" "tbl_ok at_id as"
    and rec: "\<And>c. c \<in> set (lg_calls lg) \<Longrightarrow> P c \<Longrightarrow>
                (\<exists>a \<in> set as. at_id a = cc_id c \<and> at_analysis a = cc_analysis c)"
  shows "ledger_ok (lg\<lparr>lg_calls := calls, lg_attempts := as\<rparr>)"
proof -
  have 1: "tbl_ok cc_id calls"
    using ok f unfolding calls by (subst tbl_ok_map) (auto simp: ledger_ok_def)
  have 2: "list_all call_row_ok calls"
    using ok f unfolding calls by (auto simp: ledger_ok_def list_all_iff)
  have 3: "one_in_flight calls"
    using ok f unfolding calls by (auto simp: ledger_ok_def one_in_flight_def)
  have 4: "settled_recorded (lg\<lparr>lg_calls := calls, lg_attempts := as\<rparr>)"
    unfolding settled_recorded_def
  proof (intro ballI impI)
    fix c assume c: "c \<in> set (lg_calls (lg\<lparr>lg_calls := calls, lg_attempts := as\<rparr>))"
      "cc_status c \<noteq> IN_FLIGHT"
    then obtain c0 where c0: "c0 \<in> set (lg_calls lg)" "c = (if P c0 then f c0 else c0)"
      unfolding calls by auto
    show "\<exists>a \<in> set (lg_attempts (lg\<lparr>lg_calls := calls, lg_attempts := as\<rparr>)).
        at_id a = cc_id c \<and> at_analysis a = cc_analysis c"
    proof (cases "P c0")
      case True
      then show ?thesis using rec [OF c0(1) True] c0(2) f by simp
    next
      case False
      then have "cc_status c0 \<noteq> IN_FLIGHT" "c = c0" using c(2) c0(2) by simp_all
      then show ?thesis using ok c0(1) att(1) by (fastforce simp: ledger_ok_def settled_recorded_def)
    qed
  qed
  have 5: "children_owned (lg\<lparr>lg_calls := calls, lg_attempts := as\<rparr>)"
    unfolding children_owned_def
  proof
    fix ch assume "ch \<in> set (lg_children (lg\<lparr>lg_calls := calls, lg_attempts := as\<rparr>))"
    then obtain c where c: "c \<in> set (lg_calls lg)" "cc_id c = cs_call ch" "cc_analysis c = cs_analysis ch"
      using ok by (auto simp: ledger_ok_def children_owned_def)
    let ?c = "if P c then f c else c"
    have "?c \<in> set calls" using c(1) unfolding calls by auto
    moreover have "cc_id ?c = cs_call ch" "cc_analysis ?c = cs_analysis ch" using c f by simp_all
    ultimately show "\<exists>c \<in> set (lg_calls (lg\<lparr>lg_calls := calls, lg_attempts := as\<rparr>)).
        cc_id c = cs_call ch \<and> cc_analysis c = cs_analysis ch" by auto
  qed
  show ?thesis using ok att(2) 1 2 3 4 5 by (simp add: ledger_ok_def)
qed

lemma mark_codex_call_safe_ok:
  assumes "mark_codex_call_safe now call analysis lg = Inr lg'" "ledger_ok lg"
  shows "ledger_ok lg'"
proof -
  let ?P = "\<lambda>c. cc_id c = call \<and> cc_analysis c = analysis \<and> cc_status c = IN_FLIGHT
                 \<and> (\<exists>a \<in> set (lg_attempts lg). at_id a = call \<and> at_analysis a = analysis)"
  let ?f = "\<lambda>c. c\<lparr>cc_status := SAFE, cc_resolved_at := Some now\<rparr>"
  have lg': "lg' = lg\<lparr>lg_calls := map (\<lambda>c. if ?P c then ?f c else c) (lg_calls lg),
      lg_attempts := lg_attempts lg\<rparr>"
    using assms(1) by (auto simp: mark_codex_call_safe_def dest: update_one_Inr(1))
  show ?thesis unfolding lg'
    by (rule settle_ok [OF assms(2) refl])
       (use assms(2) in \<open>auto simp: call_row_ok_def ledger_ok_def\<close>)
qed

lemma reconcile_unspawned_cases:
  assumes "reconcile_unspawned isoformat put_json same_db now run (d, lg) = Inr (b, d', lg')"
  obtains (unchanged) "\<not> b" "d' = d" "lg' = lg"
  | (settled) call ref as where "b" "d' = d" "call \<in> set (lg_calls lg)" "cc_status call = IN_FLIGHT"
      "cc_analysis call = run_analysis_id run" "run_candidate_pipeline_version run = Some 2"
      "\<forall>ch \<in> set (lg_children lg). cs_call ch \<noteq> cc_id call"
      "\<forall>a \<in> set (lg_attempts lg). at_id a \<noteq> cc_id call"
      "put_json (pre_spawn_confirmation isoformat now run call) = Inr ref"
      "as = lg_attempts lg @
        [\<lparr>at_id = cc_id call, at_analysis = run_analysis_id run, at_agent = ''unknown'',
          at_model = str_default (run_model run) ''unknown'', at_number = 0,
          at_status = ''CODEX_NOT_SPAWNED'', at_elapsed_ms = 0, at_input_tokens = Some 0,
          at_output_tokens = Some 0, at_cost = Some 0, at_artifact = ref\<rparr>]"
      "lg' = lg\<lparr>lg_calls := map (\<lambda>c. if cc_id c = cc_id call \<and> cc_analysis c = run_analysis_id run
              \<and> cc_status c = IN_FLIGHT
            then c\<lparr>cc_status := CONFIRMED, cc_resolved_at := Some now, cc_confirmation := Some ref\<rparr>
            else c) (lg_calls lg), lg_attempts := as\<rparr>"
proof (cases "find (\<lambda>c. cc_analysis c = run_analysis_id run \<and> cc_status c = IN_FLIGHT) (lg_calls lg)")
  case None
  then show ?thesis
    using assms unchanged
    by (auto simp: reconcile_unspawned_def split: option.splits if_splits)
next
  case (Some call)
  note c = find_SomeD [OF Some]
  show ?thesis
  proof (cases b)
    case False
    then show ?thesis
      using assms unchanged Some
      by (auto simp: reconcile_unspawned_def Let_def split: option.splits if_splits)
  next
    case True
    then have g: "run_candidate_pipeline_version run = Some 2" "d' = d"
      "\<forall>ch \<in> set (lg_children lg). cs_call ch \<noteq> cc_id call"
      "\<forall>a \<in> set (lg_attempts lg). at_id a \<noteq> cc_id call"
      using assms Some
      by (auto simp: reconcile_unspawned_def Let_def split: option.splits if_splits)
    obtain ref calls where ref: "put_json (pre_spawn_confirmation isoformat now run call) = Inr ref"
      and u: "update_one (\<lambda>c. cc_id c = cc_id call \<and> cc_analysis c = run_analysis_id run
                            \<and> cc_status c = IN_FLIGHT)
                         (\<lambda>c. c\<lparr>cc_status := CONFIRMED, cc_resolved_at := Some now,
                                cc_confirmation := Some ref\<rparr>)
                         ''CODEX_PRE_SPAWN_RECONCILIATION_STALE'' (lg_calls lg) = Inr calls"
      and lg': "lg' = lg\<lparr>lg_calls := calls, lg_attempts := lg_attempts lg @
        [\<lparr>at_id = cc_id call, at_analysis = run_analysis_id run, at_agent = ''unknown'',
          at_model = str_default (run_model run) ''unknown'', at_number = 0,
          at_status = ''CODEX_NOT_SPAWNED'', at_elapsed_ms = 0, at_input_tokens = Some 0,
          at_output_tokens = Some 0, at_cost = Some 0, at_artifact = ref\<rparr>]\<rparr>"
      using assms Some True
      by (auto simp: reconcile_unspawned_def Let_def split: option.splits if_splits)
    show ?thesis
      by (rule settled [OF True g(2) _ _ _ g(1,3,4) ref refl])
         (use c lg' update_one_Inr(1) [OF u] in simp_all)
  qed
qed

lemma reconcile_unspawned_ok:
  assumes "reconcile_unspawned isoformat put_json same_db now run (d, lg) = Inr (b, d', lg')"
    and ok: "ledger_ok lg"
  shows "ledger_ok lg'"
  using assms(1)
proof (cases rule: reconcile_unspawned_cases)
  case (settled call ref as)
  have "tbl_ok at_id as"
    using ok settled(8,10) by (auto simp: ledger_ok_def tbl_ok_append tbl_lookup_def find_None_iff)
  then show ?thesis unfolding settled(11)
    by (intro settle_ok [where f = "\<lambda>c. c\<lparr>cc_status := CONFIRMED, cc_resolved_at := Some now,
            cc_confirmation := Some ref\<rparr>"
          and P = "\<lambda>c. cc_id c = cc_id call \<and> cc_analysis c = run_analysis_id run
            \<and> cc_status c = IN_FLIGHT", OF ok refl])
       (use settled(10) in \<open>auto simp: call_row_ok_def\<close>)
qed (use ok in simp)

end
