(* ===== verification/Ledger_Properties.thy ===== *)
theory Ledger_Properties
  imports Codex_Ledger
begin

text \<open>
  The call ledger as a state machine and what it guarantees: one Codex process per analysis,
  a durable attempt behind every settled call, and the pre-spawn boundary of a reconciliation.
\<close>

section \<open>The state machine\<close>

inductive ledger_step :: "store \<Rightarrow> store \<Rightarrow> bool" where
  attempt: "record_llm_attempt st a ow retry prompt s = Inr s' \<Longrightarrow> ledger_step s s'"
| begin_call: "begin_codex_call st call analysis s = Inr (b, s') \<Longrightarrow> ledger_step s s'"
| begin_child:
    "begin_codex_child_spawn call analysis phase lg = Inr lg' \<Longrightarrow> ledger_step (d, lg) (d, lg')"
| captured:
    "record_codex_child_spawn call analysis phase pid start lg = Inr lg' \<Longrightarrow>
       ledger_step (d, lg) (d, lg')"
| exited:
    "mark_codex_child_exited call analysis phase pid start lg = Inr lg' \<Longrightarrow>
       ledger_step (d, lg) (d, lg')"
| settled: "mark_codex_call_safe now call analysis lg = Inr lg' \<Longrightarrow> ledger_step (d, lg) (d, lg')"
| reconciled: "reconcile_unspawned isoformat put_json same_db now run s = Inr (b, s') \<Longrightarrow> ledger_step s s'"
| checkpoint: "store_step d d' \<Longrightarrow> ledger_step (d, lg) (d', lg)"

definition codex_store_ok :: "store \<Rightarrow> bool" where
  "codex_store_ok s \<longleftrightarrow> db_ok (fst s) \<and> ledger_ok (snd s)"

lemma record_llm_attempt_db:
  assumes "record_llm_attempt st a ow retry prompt (d, lg) = Inr (d', lg')"
  shows "d' = d \<or> d' = mark_dirty st (at_analysis a) d"
  using assms by (auto simp: record_llm_attempt_def split: if_splits prod.splits)

lemma ledger_step_ok: "ledger_step s s' \<Longrightarrow> codex_store_ok s \<Longrightarrow> codex_store_ok s'"
proof (induction rule: ledger_step.induct)
  case (attempt st a ow retry prompt s s')
  obtain d lg d' lg' where s: "s = (d, lg)" "s' = (d', lg')" by (cases s, cases s') auto
  have 1: "record_llm_attempt st a ow retry prompt (d, lg) = Inr (d', lg')" using attempt s by simp
  show ?case
    using attempt(2) s record_llm_attempt_ok [OF 1] record_llm_attempt_db [OF 1] mark_dirty_ok
    by (auto simp: codex_store_ok_def)
next
  case (begin_call st call analysis s b s')
  obtain d lg d' lg' where s: "s = (d, lg)" "s' = (d', lg')" by (cases s, cases s') auto
  have 1: "begin_codex_call st call analysis (d, lg) = Inr (b, d', lg')" using begin_call s by simp
  then have "d' = d \<or> d' = mark_dirty st analysis d" by (auto elim: begin_codex_call_cases)
  then show ?case
    using begin_call(2) s begin_codex_call_ok [OF 1] mark_dirty_ok by (auto simp: codex_store_ok_def)
next
  case (reconciled isoformat put_json same_db now run s b s')
  obtain d lg d' lg' where s: "s = (d, lg)" "s' = (d', lg')" by (cases s, cases s') auto
  have 1: "reconcile_unspawned isoformat put_json same_db now run (d, lg) = Inr (b, d', lg')"
    using reconciled s by simp
  then have "d' = d" by (auto elim: reconcile_unspawned_cases)
  then show ?case
    using reconciled(2) s reconcile_unspawned_ok [OF 1] by (simp add: codex_store_ok_def)
next
  case (checkpoint d d' lg)
  then show ?case using store_machine.inv_step [of d d'] by (simp add: codex_store_ok_def)
qed (auto simp: codex_store_ok_def intro: begin_codex_child_spawn_ok record_codex_child_spawn_ok
       mark_codex_child_exited_ok mark_codex_call_safe_ok)

interpretation ledger_machine: invariant_system ledger_step codex_store_ok
  by unfold_locales (rule ledger_step_ok)

lemma empty_store_ok: "codex_store_ok (empty_db, empty_ledger)"
  by (simp add: codex_store_ok_def empty_db_ok empty_ledger_ok)

section \<open>Properties\<close>

text \<open>
  C17.  In every reachable store at most one Codex call of an analysis is in flight, every
  settled call has a recorded attempt of the same analysis, every child process belongs to a
  reserved call, and a captured child carries a positive process id and a start identity.
\<close>

theorem codex_single_flight:
  assumes "reaches ledger_step (empty_db, empty_ledger) (d, lg)"
  shows "one_in_flight (lg_calls lg) \<and> settled_recorded lg \<and> children_owned lg
    \<and> list_all child_row_ok (lg_children lg)"
  using ledger_machine.reaches_inv [OF assms empty_store_ok] by (simp add: codex_store_ok_def ledger_ok_def)

text \<open>
  C18.  The reservation excludes: once a call of an analysis is reserved, every further
  reservation for that analysis is refused without a change, until the call is settled; and after
  it is settled as safe the analysis is free again.
\<close>

theorem codex_reservation_excludes:
  assumes "ledger_ok lg" "begin_codex_call st call analysis (d, lg) = Inr (True, d1, lg1)"
    "other \<noteq> []"
  shows "begin_codex_call st' other analysis (d1, lg1) = Inr (False, d1, lg1)
    \<and> (\<forall>now lg2. mark_codex_call_safe now call analysis lg1 = Inr lg2 \<longrightarrow>
         unresolved_codex_call lg2 analysis = None)"
  using assms(2)
proof (cases rule: begin_codex_call_cases)
  case (reserved vs)
  let ?c = "\<lparr>cc_id = call, cc_analysis = analysis, cc_status = IN_FLIGHT,
      cc_started_at = st_now st, cc_resolved_at = None, cc_confirmation = None\<rparr>"
  have mem: "?c \<in> set (lg_calls lg1)" using reserved(7) by simp
  then have "unresolved_codex_call lg1 analysis \<noteq> None"
    unfolding unresolved_None by force
  then have 1: "begin_codex_call st' other analysis (d1, lg1) = Inr (False, d1, lg1)"
    using assms(3) reserved(3) by (simp add: begin_codex_call_def)
  have "unresolved_codex_call lg2 analysis = None"
    if safe: "mark_codex_call_safe now call analysis lg1 = Inr lg2" for now lg2
  proof -
    let ?P = "\<lambda>c. cc_id c = call \<and> cc_analysis c = analysis \<and> cc_status c = IN_FLIGHT
                 \<and> (\<exists>a \<in> set (lg_attempts lg1). at_id a = call \<and> at_analysis a = analysis)"
    obtain rows where u: "update_one ?P (\<lambda>c. c\<lparr>cc_status := SAFE, cc_resolved_at := Some now\<rparr>)
        ''CODEX_CALL_SAFE_UNVERIFIED'' (lg_calls lg1) = Inr rows" and lg2: "lg2 = lg1\<lparr>lg_calls := rows\<rparr>"
      using safe by (auto simp: mark_codex_call_safe_def)
    have rec: "\<exists>a \<in> set (lg_attempts lg1). at_id a = call \<and> at_analysis a = analysis"
      using update_one_Inr(2) [OF u] by blast
    have "cc_id c = call" if c: "c \<in> set (lg_calls lg1)" "cc_analysis c = analysis"
      "cc_status c = IN_FLIGHT" for c
    proof -
      have "c \<in> set (lg_calls lg) \<or> cc_id c = call" using c(1) reserved(7) by auto
      then show ?thesis using c(2,3) reserved(4) unfolding unresolved_None by blast
    qed
    then show ?thesis
      unfolding unresolved_None lg2 using update_one_Inr(1) [OF u] rec by auto
  qed
  with 1 show ?thesis by blast
qed simp

text \<open>
  C19.  The pre-spawn boundary: when a reconciliation settles a reservation there was no child
  intent and no attempt of it, and no child can be announced for that call afterwards, so a late
  callback cannot spawn a process under a settled reservation.
\<close>

theorem reconcile_excludes_spawn:
  assumes "ledger_ok lg"
    "reconcile_unspawned isoformat put_json same_db now run (d, lg) = Inr (True, d', lg')"
  shows "\<exists>call. unresolved_codex_call lg (run_analysis_id run) = Some call
    \<and> (\<forall>ch \<in> set (lg_children lg). cs_call ch \<noteq> call)
    \<and> (\<forall>a \<in> set (lg_attempts lg). at_id a \<noteq> call)
    \<and> unresolved_codex_call lg' (run_analysis_id run) = None
    \<and> (\<forall>phase. \<exists>err. begin_codex_child_spawn call (run_analysis_id run) phase lg' = Inl err)"
  using assms(2)
proof (cases rule: reconcile_unspawned_cases)
  case (settled call ref as)
  have one: "c = call" if "c \<in> set (lg_calls lg)" "cc_analysis c = run_analysis_id run"
    "cc_status c = IN_FLIGHT" for c
    using assms(1) that settled(3,4,5) by (auto simp: ledger_ok_def one_in_flight_def)
  have "find (\<lambda>c. cc_analysis c = run_analysis_id run \<and> cc_status c = IN_FLIGHT) (lg_calls lg) \<noteq> None"
    using settled(3,4,5) by (auto simp: find_None_iff)
  then obtain c where
    c: "find (\<lambda>c. cc_analysis c = run_analysis_id run \<and> cc_status c = IN_FLIGHT) (lg_calls lg) = Some c"
    by blast
  then have "c = call" using one find_SomeD [OF c] by blast
  with c have u: "unresolved_codex_call lg (run_analysis_id run) = Some (cc_id call)"
    by (simp add: unresolved_codex_call_def)
  have calls: "lg_calls lg' = map (\<lambda>c. if cc_id c = cc_id call \<and> cc_analysis c = run_analysis_id run
              \<and> cc_status c = IN_FLIGHT
            then c\<lparr>cc_status := CONFIRMED, cc_resolved_at := Some now, cc_confirmation := Some ref\<rparr>
            else c) (lg_calls lg)"
    using settled(11) by simp
  have done1: "cc_status c \<noteq> IN_FLIGHT"
    if c: "c \<in> set (lg_calls lg')" "cc_analysis c = run_analysis_id run" for c
  proof -
    let ?P = "\<lambda>c. cc_id c = cc_id call \<and> cc_analysis c = run_analysis_id run \<and> cc_status c = IN_FLIGHT"
    obtain c0 where c0: "c0 \<in> set (lg_calls lg)" "c = (if ?P c0 then c0\<lparr>cc_status := CONFIRMED,
        cc_resolved_at := Some now, cc_confirmation := Some ref\<rparr> else c0)"
      using c(1) unfolding calls by auto
    show ?thesis
    proof (cases "?P c0")
      case False
      then have "c = c0" using c0(2) by (simp only: if_False)
      then show ?thesis using False one [OF c0(1)] c(2) by blast
    next
      case True
      then have "c = c0\<lparr>cc_status := CONFIRMED, cc_resolved_at := Some now,
          cc_confirmation := Some ref\<rparr>" using c0(2) by (simp only: if_P)
      then show ?thesis by simp
    qed
  qed
  then have "unresolved_codex_call lg' (run_analysis_id run) = None"
    by (simp add: unresolved_None)
  moreover have "\<exists>err. begin_codex_child_spawn (cc_id call) (run_analysis_id run) phase lg' = Inl err"
    for phase
  proof -
    have "\<not> (\<exists>c \<in> set (lg_calls lg'). cc_id c = cc_id call \<and> cc_analysis c = run_analysis_id run
        \<and> cc_status c = IN_FLIGHT)"
      using done1 by blast
    then show ?thesis unfolding begin_codex_child_spawn_def by auto
  qed
  ultimately show ?thesis using u settled(7,8) by blast
qed simp


section \<open>Witnesses\<close>

definition ex_ledger_ref :: stored_ref where
  "ex_ledger_ref = \<lparr>sr_id = ''r'', sr_kind = ''k'', sr_hash = ''h'', sr_workspace = ''w'',
                    sr_commit = ''c'', sr_record = None\<rparr>"


definition ex_ledger_stamp :: stamp where
  "ex_ledger_stamp = \<lparr>st_now = 7, st_marker = ''m'', st_indexed_at = 8\<rparr>"

definition ex_reserved :: ledger where
  "ex_reserved = empty_ledger\<lparr>lg_calls :=
     [\<lparr>cc_id = ''call'', cc_analysis = ''a'', cc_status = IN_FLIGHT, cc_started_at = 7,
       cc_resolved_at = None, cc_confirmation = None\<rparr>]\<rparr>"

lemma ex_begin:
  "begin_codex_call ex_ledger_stamp ''call'' ''a'' (empty_db, empty_ledger)
     = Inr (True, empty_db, ex_reserved)"
  by (simp add: begin_codex_call_def unresolved_codex_call_def empty_ledger_def empty_db_def
      tbl_lookup_def mark_dirty_def ex_reserved_def ex_ledger_stamp_def)

theorem codex_single_flight_witness:
  "reaches ledger_step (empty_db, empty_ledger) (empty_db, ex_reserved)
     \<and> one_in_flight (lg_calls ex_reserved)"
proof -
  have "ledger_step (empty_db, empty_ledger) (empty_db, ex_reserved)"
    by (rule ledger_step.begin_call [OF ex_begin])
  then have "reaches ledger_step (empty_db, empty_ledger) (empty_db, ex_reserved)"
    by (blast intro: reaches.intros)
  with codex_single_flight [OF this] show ?thesis by blast
qed

theorem codex_reservation_excludes_witness:
  "begin_codex_call ex_ledger_stamp ''other'' ''a'' (empty_db, ex_reserved)
     = Inr (False, empty_db, ex_reserved)"
  using codex_reservation_excludes [OF empty_ledger_ok ex_begin, of "''other''"] by simp

definition ex_run :: analysis_run where
  "ex_run = \<lparr>run_analysis_id = ''a'', run_display_analysis_id = ''a'', run_workspace_id = ''w'',
     run_commit_id = ''c'', run_repository = ''r'', run_profile_ref = None,
     run_provider = Some ''codex'', run_model = Some ''m'', run_model_route_version = None,
     run_model_routes = None, run_started_at = Some 1, run_llm_provider = Some ''codex'',
     run_on_demand_possible = False, run_workspace_path = None, run_repository_profile_ref = None,
     run_static_bundle_ref = None, run_static_coverage_ref = None, run_static_partial = False,
     run_security_policy_ref = None, run_policy_snapshot_ref = None,
     run_candidate_pipeline_version = Some 2, run_candidate_scope_fingerprint = None,
     run_candidate_terminal = None, run_surface_supplement_plan_ref = None,
     run_surface_enrichment_plan_ref = None, run_surface_enrichment_v5_plan_ref = None,
     run_surface_enrichment_v6_plan_ref = None, run_surface_enrichment_v7_plan_ref = None,
     run_surface_enrichment_v8_plan_ref = None, run_surface_enrichment_v9_plan_ref = None,
     run_surface_enrichment_v10_plan_ref = None, run_surface_enrichment_v11_plan_ref = None,
     run_python_scope_certificate_ref = None, run_surface_enrichment_status = None,
     run_surface_enrichment_error_code = None, run_hypothesis_ids = [],
     run_parent_hypothesis_ids = [], run_chain_depths = []\<rparr>"

lemma ex_run_fields [simp]:
  "run_analysis_id ex_run = ''a''" "run_started_at ex_run = Some 1"
  "run_candidate_pipeline_version ex_run = Some 2" "run_provider ex_run = Some ''codex''"
  "run_llm_provider ex_run = Some ''codex''"
  by (simp_all add: ex_run_def)

definition ex_versioned :: ledger where
  "ex_versioned = ex_reserved\<lparr>lg_versions :=
     [\<lparr>cv_call = ''call'', cv_analysis = ''a'', cv_version = 2\<rparr>]\<rparr>"

lemma ex_versioned_ok: "ledger_ok ex_versioned"
  by (simp add: ledger_defs ex_versioned_def ex_reserved_def empty_ledger_def tbl_ok_def
      call_row_ok_def)

lemma ex_reconcile:
  "\<exists>d' lg'. reconcile_unspawned (\<lambda>_. []) (\<lambda>_. Inr ex_ledger_ref) True 9 ex_run
     (empty_db\<lparr>db_runs := [ex_run]\<rparr>, ex_versioned) = Inr (True, d', lg')"
  by (simp add: reconcile_unspawned_def ex_versioned_def ex_reserved_def empty_ledger_def
      empty_db_def tbl_lookup_def update_one_def Let_def)

theorem reconcile_excludes_spawn_witness:
  "\<exists>d' lg'. reconcile_unspawned (\<lambda>_. []) (\<lambda>_. Inr ex_ledger_ref) True 9 ex_run
       (empty_db\<lparr>db_runs := [ex_run]\<rparr>, ex_versioned) = Inr (True, d', lg')
     \<and> unresolved_codex_call lg' ''a'' = None"
proof -
  obtain d' lg' where r: "reconcile_unspawned (\<lambda>_. []) (\<lambda>_. Inr ex_ledger_ref) True 9 ex_run
       (empty_db\<lparr>db_runs := [ex_run]\<rparr>, ex_versioned) = Inr (True, d', lg')"
    using ex_reconcile by blast
  from reconcile_excludes_spawn [OF ex_versioned_ok r] r show ?thesis by auto
qed


end
