(* ===== verification/Runner.thy ===== *)
theory Runner
  imports Ledger_Properties
begin

text \<open>
  \<open>simple_runtime/runner.py\<close>: \<open>SimpleRuntimeRunner\<close>, which drives one hypothesis through its
  stages.  It runs against the store (database and ledger) and an outside world \<open>'w\<close>; the stage
  handlers, the recovery coordinator, the artifact repository, the offline-base probe, the clock
  and the identifier source are what the constructor is given (\<open>env\<close>), and may do anything to
  the store and the world.

  Each early \<open>return\<close> of the source is a branch that does not call the continuation \<open>k\<close>.  The
  \<open>while True\<close> loop takes a number of rounds as fuel; \<open>None\<close> means that the rounds ran out.
\<close>

section \<open>The runner's world\<close>

type_synonym 'w rt = "db \<times> ledger \<times> 'w"

record run_outcome =
  ro_stage :: stage
  ro_status :: stage_status
  ro_error :: "string option"
  ro_hypothesis :: "string option"
  ro_attempt :: "string option"

text \<open>What awaiting a handler can end with; \<open>HError\<close> carries a string attribute \<open>code\<close>, if any.\<close>

datatype handler_reply =
    HResult stage_result
  | HBlocked stage_failure
  | HFailed stage_failure
  | HError "string option"
  | HCancelled

type_synonym 'w handler =
  "checkpoint \<Rightarrow> (stage \<times> checkpoint) list \<Rightarrow> 'w rt \<Rightarrow> handler_reply \<times> 'w rt"

record 'w env =
  en_safe :: "string \<Rightarrow> bool"
  en_handlers :: "stage \<Rightarrow> 'w handler option"
  en_recovery :: "(checkpoint \<Rightarrow> stage_failure \<Rightarrow> ('w rt, recovery_resolution) eff) option"
  en_policy_snapshot :: "stored_ref option"
  en_codex_invalid_output_resume :: bool
  en_redacted_anchor_resume :: bool
  en_artifacts :: "artifacts option"
  en_offline_base_ready :: "('w rt, bool) eff option"
  en_cleanup_confirmed :: "checkpoint \<Rightarrow> artifacts \<Rightarrow> ('w rt, bool) eff"
  en_stamp :: "'w \<Rightarrow> stamp \<times> 'w"
  en_uuid :: "'w \<Rightarrow> string \<times> 'w"

definition reading :: "(db \<Rightarrow> 'a res) \<Rightarrow> ('w rt, 'a) eff" where
  "reading f = (\<lambda>(d, lg, w). (f d, (d, lg, w)))"

text \<open>A store transaction: it reads the clock, and its exception leaves the database as it was.\<close>

definition writing :: "'w env \<Rightarrow> (stamp \<Rightarrow> 'a tx) \<Rightarrow> ('w rt, 'a) eff" where
  "writing en op = (\<lambda>(d, lg, w).
     let (st, w') = en_stamp en w in
     case op st d of
       Inl e \<Rightarrow> (Inl e, (d, lg, w'))
     | Inr (x, d') \<Rightarrow> (Inr x, (d', lg, w')))"

definition fresh_id :: "'w env \<Rightarrow> ('w rt, string) eff" where
  "fresh_id en = (\<lambda>(d, lg, w). let (u, w') = en_uuid en w in (Inr u, (d, lg, w')))"

definition unresolved_call :: "string \<Rightarrow> ('w rt, string option) eff" where
  "unresolved_call analysis = (\<lambda>(d, lg, w). (Inr (unresolved_codex_call lg analysis), (d, lg, w)))"

definition outcome :: "stage \<Rightarrow> stage_status \<Rightarrow> string option \<Rightarrow> string option \<Rightarrow> run_outcome" where
  "outcome s status error attempt =
     \<lparr>ro_stage = s, ro_status = status, ro_error = error, ro_hypothesis = None,
      ro_attempt = attempt\<rparr>"

text \<open>The outcome that repeats what a checkpoint says.\<close>

definition recorded :: "stage \<Rightarrow> checkpoint \<Rightarrow> run_outcome" where
  "recorded s c = outcome s (cp_status c) (cp_error_code c) (cp_attempt_id c)"

text \<open>The checkpoint as a pending replay of itself.\<close>

definition replay_pending :: "checkpoint \<Rightarrow> checkpoint" where
  "replay_pending c = c\<lparr>cp_status := PENDING, cp_output_refs := [], cp_attempt_id := None,
                       cp_error_code := None, cp_retryable := False\<rparr>"

definition is_value_error :: "py_error \<Rightarrow> bool" where
  "is_value_error e \<longleftrightarrow> (case e of ValueError _ \<Rightarrow> True | _ \<Rightarrow> False)"

text \<open>\<open>except (OSError, ValueError, sqlite3.Error)\<close>.\<close>

definition is_read_error :: "py_error \<Rightarrow> bool" where
  "is_read_error e \<longleftrightarrow>
     (case e of OSError _ \<Rightarrow> True | ValueError _ \<Rightarrow> True | SqliteError _ \<Rightarrow> True | _ \<Rightarrow> False)"

section \<open>Terminal evidence\<close>

definition verified_initial_terminal :: "'w env \<Rightarrow> checkpoint \<Rightarrow> ('w rt, run_outcome) eff" where
  "verified_initial_terminal en c =
     (let ok = retE (outcome (cp_stage c) SUCCEEDED None None);
          invalid =
            bindE (writing en (\<lambda>st. mark_failure (en_safe en) st c
                     (failure ''INITIAL_VERIFICATION_EVIDENCE_INVALID'' False
                        ''Initial verification evidence is unavailable or invalid''
                        (cp_output_refs c)) BLOCKED None))
              (\<lambda>failed. retE (outcome (cp_stage c) BLOCKED (cp_error_code failed)
                                (cp_attempt_id failed)))
      in case en_artifacts en of
           None \<Rightarrow> ok
         | Some art \<Rightarrow>
             (case ar_verified_terminal_initial art c of
                Inl e \<Rightarrow> if is_read_error e then invalid else raiseE e
              | Inr _ \<Rightarrow> ok))"

definition verified_poc_terminal :: "'w env \<Rightarrow> checkpoint \<Rightarrow> ('w rt, run_outcome) eff" where
  "verified_poc_terminal en c =
     (let error_code = (if cp_poc_stop_decision_ref c \<noteq> None then ''POC_STOP_EVIDENCE_INVALID''
                        else ''POC_TERMINAL_EVIDENCE_INVALID'');
          check = (case en_artifacts en of
                     None \<Rightarrow> Inl (ValueError error_code)
                   | Some art \<Rightarrow> ar_verified_terminal_poc art c)
      in case check of
           Inl e \<Rightarrow>
             if is_read_error e then
               bindE (writing en (\<lambda>st. mark_failure (en_safe en) st c
                        (failure error_code False
                           ''Terminal PoC evidence is unavailable or invalid'' (cp_output_refs c))
                        BLOCKED None))
                 (\<lambda>failed. retE (outcome (cp_stage c) BLOCKED (cp_error_code failed)
                                   (cp_attempt_id failed)))
             else raiseE e
         | Inr _ \<Rightarrow> retE (outcome (cp_stage c) SUCCEEDED None None))"

definition promote_initial :: "'w env \<Rightarrow> checkpoint \<Rightarrow> ('w rt, run_outcome option) eff" where
  "promote_initial en c =
     (case en_artifacts en of
        None \<Rightarrow> retE None
      | Some art \<Rightarrow>
          if cp_stage c \<noteq> VERIFICATION_INITIAL_DONE \<or> cp_status c \<noteq> BLOCKED
             \<or> cp_error_code c \<notin> {Some ''POC_AUTO_BUNDLE_DOWNLOAD_FAILED'',
                                  Some ''RECOVERY_EXHAUSTED''}
          then retE None
          else
            bindE (tryE (bindE (writing en (\<lambda>st. promote_initial_environment_inconclusive
                                   (en_safe en) st c art)) (\<lambda>r. retE (Some r)))
                     (\<lambda>e. if is_value_error e then Some (retE None) else None))
              (\<lambda>r. case r of
                 None \<Rightarrow> retE None
               | Some completed \<Rightarrow>
                   bindE (verified_initial_terminal en completed) (\<lambda>out. retE (Some out))))"

definition promote_stopped_poc :: "'w env \<Rightarrow> checkpoint \<Rightarrow> ('w rt, run_outcome option) eff" where
  "promote_stopped_poc en c =
     (if cp_stage c \<noteq> POC_EXECUTION_DONE \<or> cp_status c \<noteq> BLOCKED
         \<or> cp_error_code c \<noteq> Some ''POC_INCONCLUSIVE'' \<or> en_artifacts en = None
      then retE None
      else
        tryE (bindE (writing en (\<lambda>st. promote_inconclusive_execution (en_safe en) st c
                                        (en_artifacts en)))
                (\<lambda>_. retE (Some (outcome (cp_stage c) SUCCEEDED None None))))
          (\<lambda>e. if is_value_error e then Some (retE None) else None))"

definition has_prior_poc_recovery_decision :: "db \<Rightarrow> checkpoint \<Rightarrow> bool" where
  "has_prior_poc_recovery_decision d c =
     (case cp_attempt_id c of
        None \<Rightarrow> False
      | Some attempt \<Rightarrow>
          if cp_stage c \<noteq> POC_EXECUTION_DONE \<or> cp_status c \<noteq> BLOCKED
             \<or> cp_error_code c \<noteq> Some ''POC_INCONCLUSIVE''
          then False
          else \<exists>e \<in> set (stage_activity d (cp_identity c) (cp_stage c) attempt).
                 ev_kind e = DECISION_RECORDED \<and> ev_error_code e = cp_error_code c)"

definition prior_decision :: "checkpoint \<Rightarrow> ('w rt, bool) eff" where
  "prior_decision c = reading (\<lambda>d. Inr (has_prior_poc_recovery_decision d c))"

section \<open>Gates and recovery\<close>

datatype gate_act = GRestart | GReturn run_outcome | GNone

definition gate_action :: "'w env \<Rightarrow> checkpoint \<Rightarrow> ('w rt, gate_act) eff" where
  "gate_action en c =
     (if terminal_gate_outcome (Some c) \<noteq> None
      then retE (GReturn (outcome TECH_GATE_DONE SUCCEEDED None None))
      else if cp_stage c = TECH_GATE_DONE \<and> cp_status c = SUCCEEDED
              \<and> cp_stage_version c = STAGE_VERSION TECH_GATE_DONE
              \<and> cp_gate_decision c = Some REVISE
      then bindE (writing en (\<lambda>st. prepare_gate_revision st c False)) (\<lambda>_. retE GRestart)
      else retE GNone)"

definition recovery_restart_stage :: "stage \<Rightarrow> recovery_action \<Rightarrow> stage option" where
  "recovery_restart_stage failed_stage action =
     (if action = RETRY_STAGE then Some failed_stage
      else if action \<in> {REBUILD_ENVIRONMENT, REPLAN_ENVIRONMENT}
      then (if stage_index failed_stage < stage_index VERIFICATION_INITIAL_DONE then None
            else Some VERIFICATION_INITIAL_DONE)
      else if action = REGENERATE_INPUT \<and> failed_stage = POC_EXECUTION_DONE
      then Some POC_CANDIDATE_DONE
      else Some failed_stage)"

text \<open>
  \<open>_recover_or_stop\<close> once the failure is recorded: the coordinator decides, unless the failure is
  final or the attempts are used up.  \<open>None\<close> asks for a restart.
\<close>

definition recovery_decided ::
  "'w env \<Rightarrow> checkpoint \<Rightarrow> run_outcome \<Rightarrow> recovery_resolution \<Rightarrow> ('w rt, run_outcome option) eff"
  where
  "recovery_decided en failed stopped_outcome resolution =
     (if rd_action (rr_decision resolution) = STOP then
        bindE (writing en (\<lambda>st. record_recovery_stop (en_safe en) st failed resolution False))
          (\<lambda>stopped.
        bindE (promote_initial en stopped) (\<lambda>promoted_initial.
        case promoted_initial of
          Some out \<Rightarrow> retE (Some out)
        | None \<Rightarrow>
            bindE (promote_stopped_poc en stopped) (\<lambda>promoted.
            case promoted of
              Some out \<Rightarrow> retE (Some out)
            | None \<Rightarrow> retE (Some stopped_outcome))))
      else
        (case recovery_restart_stage (cp_stage failed) (rd_action (rr_decision resolution)) of
           None \<Rightarrow>
             bindE (writing en (\<lambda>st. record_recovery_decision (en_safe en) st failed resolution
                                     False))
               (\<lambda>_. retE (Some stopped_outcome))
         | Some restart \<Rightarrow>
             bindE (writing en (\<lambda>st. prepare_recovery (en_safe en) st failed resolution restart
                                     False))
               (\<lambda>_. retE None)))"

definition after_failure ::
  "'w env \<Rightarrow> stage_failure \<Rightarrow> stage_status \<Rightarrow> checkpoint \<Rightarrow> ('w rt, run_outcome option) eff" where
  "after_failure en f original_status failed =
     (let stopped_outcome = outcome (cp_stage failed) original_status (Some (fl_code f))
                              (cp_attempt_id failed)
      in case en_recovery en of
           None \<Rightarrow> retE (Some stopped_outcome)
         | Some decide \<Rightarrow>
             if \<not> fl_retryable f then retE (Some stopped_outcome)
             else if cp_attempt_number failed \<ge> MAX_RECOVERY_ATTEMPTS then
               bindE (writing en (\<lambda>st. mark_recovery_exhausted (en_safe en) st failed)) (\<lambda>exhausted.
                 retE (Some (outcome (cp_stage failed) BLOCKED (cp_error_code exhausted)
                               (cp_attempt_id exhausted))))
             else
               bindE (decide failed f) (recovery_decided en failed stopped_outcome))"

definition recover_or_stop ::
  "'w env \<Rightarrow> checkpoint \<Rightarrow> stage_failure \<Rightarrow> stage_status \<Rightarrow> bool \<Rightarrow> ('w rt, run_outcome option) eff"
  where
  "recover_or_stop en c f original_status already_failed =
     bindE (if already_failed then retE c
            else writing en (\<lambda>st. mark_failure (en_safe en) st c f original_status None))
       (after_failure en f original_status)"

definition cleanup_allows_replay :: "'w env \<Rightarrow> checkpoint \<Rightarrow> ('w rt, bool) eff" where
  "cleanup_allows_replay en c =
     (case en_artifacts en of
        None \<Rightarrow> retE False
      | Some art \<Rightarrow>
          if id_hypothesis (cp_identity c) = None \<or> ar_identity art \<noteq> cp_identity c then retE False
          else
            tryE (bindE (unresolved_call (id_analysis (cp_identity c))) (\<lambda>call.
                    if call \<notin> {None, Some []} then retE False
                    else if cp_status c = RUNNING then en_cleanup_confirmed en c art
                    else if cp_error_code c = Some ''CODEX_PROCESS_CLEANUP_UNCONFIRMED''
                    then en_cleanup_confirmed en c art
                    else if cp_error_code c = Some ''CODEX_CALL_IN_FLIGHT_UNRESOLVED''
                    then (\<lambda>(d, lg, w). (Inr (confirmed_codex_call_covering lg
                            (id_analysis (cp_identity c)) (cp_updated_at c)), (d, lg, w)))
                    else retE False))
              (\<lambda>e. case e of
                 OSError _ \<Rightarrow> Some (retE False) | ValueError _ \<Rightarrow> Some (retE False)
               | LookupError _ \<Rightarrow> Some (retE False) | SqliteError _ \<Rightarrow> Some (retE False)
               | _ \<Rightarrow> None))"

datatype recovered = RFalse | RRestart | RReturn run_outcome

definition replay :: "'w env \<Rightarrow> checkpoint \<Rightarrow> ('w rt, recovered) eff" where
  "replay en pending = bindE (writing en (\<lambda>st. replace_from st pending False)) (\<lambda>_. retE RFalse)"

definition ENVIRONMENT_CODES :: "string list" where
  "ENVIRONMENT_CODES =
     [''POC_OFFLINE_REQUIREMENT_UNSUPPORTED'', ''WHEEL_ARCHIVE_INVALID'', ''PINNED_CONTEXT_UNSAFE'']"

text \<open>
  \<open>_recover_existing\<close> past the promotions: the guarded replays of a recorded failure, each under
  the attempt limit, then the recovery of a retryable one.
\<close>

definition replay_if_free :: "'w env \<Rightarrow> checkpoint \<Rightarrow> ('w rt, recovered) eff" where
  "replay_if_free en c =
     (if cp_attempt_number c \<ge> MAX_RECOVERY_ATTEMPTS then retE (RReturn (recorded (cp_stage c) c))
      else
        bindE (unresolved_call (id_analysis (cp_identity c))) (\<lambda>call.
        if call \<noteq> None then retE (RReturn (recorded (cp_stage c) c))
        else replay en (replay_pending c)))"

definition to_recovered :: "run_outcome option \<Rightarrow> recovered" where
  "to_recovered r = (case r of None \<Rightarrow> RRestart | Some out \<Rightarrow> RReturn out)"

definition recover_offline_base :: "'w env \<Rightarrow> checkpoint \<Rightarrow> ('w rt, recovered) eff" where
  "recover_offline_base en c =
     (case en_offline_base_ready en of
        None \<Rightarrow> retE (RReturn (recorded (cp_stage c) c))
      | Some ready_probe \<Rightarrow>
          if cp_attempt_number c \<ge> MAX_RECOVERY_ATTEMPTS then retE (RReturn (recorded (cp_stage c) c))
          else
            bindE (tryE (bindE (unresolved_call (id_analysis (cp_identity c))) (\<lambda>call.
                           if call \<notin> {None, Some []} then retE False else ready_probe))
                     (\<lambda>e. case e of
                        SqliteError _ \<Rightarrow> Some (retE False) | OSError _ \<Rightarrow> Some (retE False)
                      | RuntimeError _ \<Rightarrow> Some (retE False) | ValueError _ \<Rightarrow> Some (retE False)
                      | _ \<Rightarrow> None))
              (\<lambda>ready.
               if \<not> ready then retE (RReturn (recorded (cp_stage c) c))
               else replay en ((replay_pending c)
                      \<lparr>cp_stage_version := STAGE_VERSION (cp_stage c)\<rparr>)))"

definition recover_failed :: "'w env \<Rightarrow> checkpoint \<Rightarrow> ('w rt, recovered) eff" where
  "recover_failed en c =
     (if cp_status c = RUNNING then
        bindE (recover_or_stop en c
                 (failure ''STAGE_INTERRUPTED'' True
                    ''Stage execution was interrupted before completion'' []) BLOCKED False)
          (\<lambda>r. retE (to_recovered r))
      else if cp_stage c = VERIFICATION_INITIAL_DONE \<and> cp_status c = BLOCKED
              \<and> cp_error_code c = Some ''POC_OFFLINE_BASE_IMAGE_UNAVAILABLE''
      then recover_offline_base en c
      else if cp_stage c = VERIFICATION_INITIAL_DONE \<and> cp_status c = BLOCKED
              \<and> cp_error_code c \<in> Some ` set ENVIRONMENT_CODES
      then replay_if_free en c
      else if cp_stage c \<in> {VERIFICATION_INITIAL_DONE, VERIFICATION_FINAL_DONE}
              \<and> cp_status c = FAILED \<and> cp_error_code c = Some ''HYPOTHESIS_ANCHOR_INVALID''
              \<and> en_redacted_anchor_resume en
      then replay_if_free en c
      else if cp_status c \<in> {BLOCKED, FAILED} \<and> cp_error_code c = Some ''INVALID_OUTPUT''
              \<and> en_codex_invalid_output_resume en
      then
        (if cp_attempt_number c \<ge> MAX_RECOVERY_ATTEMPTS then
           bindE (if cp_retryable c
                  then writing en (\<lambda>st. save_checkpoint (en_safe en) st (c\<lparr>cp_retryable := False\<rparr>))
                  else retE ())
             (\<lambda>_. retE (RReturn (recorded (cp_stage c) c)))
         else replay en (replay_pending c))
      else if \<not> cp_retryable c then retE (RReturn (recorded (cp_stage c) c))
      else
        bindE (recover_or_stop en c
                 (failure (str_default (cp_error_code c) ''STAGE_RECOVERY_REQUIRED'') True
                    ''Resume the recorded retryable stage failure'' (cp_output_refs c))
                 (cp_status c) True)
          (\<lambda>r. retE (to_recovered r)))"

definition recover_existing :: "'w env \<Rightarrow> checkpoint \<Rightarrow> ('w rt, recovered) eff" where
  "recover_existing en c =
     (if cp_status c = PENDING then retE RFalse
      else if cp_status c = SUCCEEDED then retE RFalse
      else
        bindE (promote_initial en c) (\<lambda>promoted_initial.
        case promoted_initial of
          Some out \<Rightarrow> retE (RReturn out)
        | None \<Rightarrow>
          bindE (promote_stopped_poc en c) (\<lambda>promoted.
          case promoted of
            Some out \<Rightarrow> retE (RReturn out)
          | None \<Rightarrow>
            bindE (prior_decision c) (\<lambda>decided.
            if decided then retE (RReturn (recorded (cp_stage c) c))
            else
              bindE (if cp_status c \<in> {RUNNING, BLOCKED, FAILED} then cleanup_allows_replay en c
                     else retE False) (\<lambda>cleaned.
              if cleaned then replay en (replay_pending c)
              else recover_failed en c)))))"

section \<open>One stage\<close>

datatype flow = FContinue | FRestart | FReturn run_outcome

text \<open>A terminal PoC failure that no resume option reopens.\<close>

definition poc_closed :: "'w env \<Rightarrow> checkpoint \<Rightarrow> bool" where
  "poc_closed en c \<longleftrightarrow> cp_status c \<in> {BLOCKED, FAILED} \<and> \<not> cp_retryable c
     \<and> \<not> (en_codex_invalid_output_resume en \<and> cp_error_code c = Some ''INVALID_OUTPUT''
          \<and> cp_attempt_number c < MAX_RECOVERY_ATTEMPTS)"

text \<open>The stages that a final HOLD verdict skips.\<close>

definition HOLD_SKIPPED :: "stage list" where
  "HOLD_SKIPPED = [CWE_DONE, TECH_GATE_DONE, SCOPE_GATE_DONE, FINDING_DONE, REPORT_DONE]"

definition final_hold :: "checkpoint option \<Rightarrow> bool" where
  "final_hold final =
     (case final of None \<Rightarrow> False
        | Some f \<Rightarrow> cp_status f = SUCCEEDED \<and> cp_verdict f = Some V_HOLD)"

text \<open>
  A checkpoint of another stage version: some failures keep their attempt count or stay as they
  are, everything else is dropped with the stages after it.
\<close>

definition version_gate ::
  "'w env \<Rightarrow> identity \<Rightarrow> stage \<Rightarrow> checkpoint option \<Rightarrow> (checkpoint option \<Rightarrow> ('w rt, flow) eff)
     \<Rightarrow> ('w rt, flow) eff" where
  "version_gate en ident s existing k =
     (case existing of
        None \<Rightarrow> k None
      | Some c \<Rightarrow>
          if cp_stage_version c = STAGE_VERSION s then k existing
          else if s \<in> {VERIFICATION_INITIAL_DONE, VERIFICATION_FINAL_DONE} \<and> cp_status c = FAILED
                  \<and> cp_error_code c = Some ''HYPOTHESIS_ANCHOR_INVALID''
                  \<and> cp_attempt_number c \<ge> MAX_RECOVERY_ATTEMPTS
          then retE (FReturn (recorded s c))
          else if s = VERIFICATION_INITIAL_DONE \<and> cp_status c = BLOCKED
                  \<and> cp_error_code c = Some ''POC_OFFLINE_BASE_IMAGE_UNAVAILABLE''
          then k existing
          else if s = VERIFICATION_INITIAL_DONE \<and> cp_status c = BLOCKED
                  \<and> cp_error_code c \<in> Some ` set ENVIRONMENT_CODES
          then
            (if cp_attempt_number c \<ge> MAX_RECOVERY_ATTEMPTS then retE (FReturn (recorded s c))
             else
               bindE (unresolved_call (id_analysis (cp_identity c))) (\<lambda>call.
               if call \<noteq> None then retE (FReturn (recorded s c))
               else
                 let pending = (replay_pending c)\<lparr>cp_stage_version := STAGE_VERSION s\<rparr> in
                 bindE (writing en (\<lambda>st. replace_from st pending False)) (\<lambda>_. k (Some pending))))
          else if s = POC_EXECUTION_DONE \<and> cp_status c \<in> {BLOCKED, FAILED}
                  \<and> cp_error_code c = Some ''INVALID_OUTPUT'' \<and> en_codex_invalid_output_resume en
                  \<and> cp_attempt_number c < MAX_RECOVERY_ATTEMPTS
          then
            (let pending = (replay_pending c)\<lparr>cp_stage_version := STAGE_VERSION s\<rparr> in
             bindE (writing en (\<lambda>st. replace_from st pending False)) (\<lambda>_. k (Some pending)))
          else
            bindE (writing en (\<lambda>st. invalidate_from st ident s (cp_input_refs c) False))
              (\<lambda>_. k None))"

text \<open>What follows a checkpoint that is complete, whether it was reused or has just run.\<close>

definition after_complete ::
  "'w env \<Rightarrow> stage \<Rightarrow> bool \<Rightarrow> checkpoint \<Rightarrow> ('w rt, flow) eff" where
  "after_complete en s hold_chain c =
     (if terminal_initial_outcome (Some c) \<noteq> None
      then bindE (verified_initial_terminal en c) (\<lambda>out. retE (FReturn out))
      else if terminal_poc_outcome (Some c) \<noteq> None \<or> cp_poc_stop_decision_ref c \<noteq> None
      then bindE (verified_poc_terminal en c) (\<lambda>out. retE (FReturn out))
      else if s = VERIFICATION_FINAL_DONE \<and> cp_verdict c = Some V_FALSE
      then retE (FReturn (outcome s SUCCEEDED None None))
      else if hold_chain then retE (FReturn (outcome s SUCCEEDED None None))
      else
        bindE (gate_action en c) (\<lambda>act.
        case act of
          GRestart \<Rightarrow> retE FRestart
        | GReturn out \<Rightarrow> retE (FReturn out)
        | GNone \<Rightarrow> retE FContinue))"

definition flow_of_recovery :: "run_outcome option \<Rightarrow> flow" where
  "flow_of_recovery r = (case r of None \<Rightarrow> FRestart | Some out \<Rightarrow> FReturn out)"

text \<open>Awaiting the handler and acting on how it ended.\<close>

definition run_handler ::
  "'w env \<Rightarrow> stage \<Rightarrow> checkpoint option \<Rightarrow> checkpoint \<Rightarrow> (stage \<times> checkpoint) list
     \<Rightarrow> ('w rt, flow) eff" where
  "run_handler en s final c pr =
     (case en_handlers en s of
        None \<Rightarrow>
          bindE (writing en (\<lambda>st. mark_failure (en_safe en) st c
                   (failure ''STAGE_HANDLER_MISSING'' False
                      (''No handler registered for '' @ stage_value s) []) FAILED None))
            (\<lambda>_. retE (FReturn (outcome s FAILED (Some ''STAGE_HANDLER_MISSING'')
                                  (cp_attempt_id c))))
      | Some h \<Rightarrow>
          (\<lambda>rt. case h c pr rt of (reply, rt') \<Rightarrow>
            (case reply of
               HResult result \<Rightarrow>
                 bindE (writing en (\<lambda>st. complete_stage (en_safe en) st c result None))
                   (after_complete en s
                      (s = CHAINING_DONE \<and> (case final of None \<Rightarrow> False
                          | Some f \<Rightarrow> cp_verdict f = Some V_HOLD)))
             | HCancelled \<Rightarrow>
                 bindE (writing en (\<lambda>st. mark_failure (en_safe en) st c
                          (failure ''STAGE_CANCELLED'' True
                             ''Stage was cancelled before completion'' []) BLOCKED None))
                   (\<lambda>_. raiseE CancelledError)
             | HBlocked f \<Rightarrow>
                 bindE (recover_or_stop en c f BLOCKED False) (\<lambda>r. retE (flow_of_recovery r))
             | HFailed f \<Rightarrow>
                 bindE (recover_or_stop en c f FAILED False) (\<lambda>r. retE (flow_of_recovery r))
             | HError code \<Rightarrow>
                 bindE (recover_or_stop en c
                          (failure (str_take 160 (str_default code ''STAGE_UNEXPECTED_ERROR'')) True
                             ''Stage execution ended unexpectedly; retry is allowed'' [])
                          BLOCKED False) (\<lambda>r. retE (flow_of_recovery r))) rt'))"

text \<open>Starting a stage: the attempt it joins, what it inherits, and the handler.\<close>

definition start_stage ::
  "'w env \<Rightarrow> identity \<Rightarrow> stage \<Rightarrow> checkpoint option \<Rightarrow> stored_ref list \<Rightarrow> ('w rt, flow) eff" where
  "start_stage en ident s final inputs =
     bindE (reading (\<lambda>d. get d ident s)) (\<lambda>existing.
     bindE (reading (\<lambda>d. prior d ident s)) (\<lambda>pr.
     let preceding = (if pr = [] then None else Some (snd (last pr)));
         inherit_from = (case existing of
            Some c \<Rightarrow> if cp_recipe_ref c \<noteq> None \<and> cp_image_digest c \<noteq> None then existing else preceding
          | None \<Rightarrow> preceding);
         shared = (case preceding of
            Some p \<Rightarrow> if s = POC_EXECUTION_DONE \<and> cp_stage p = POC_CANDIDATE_DONE \<and> existing = None
                       then cp_attempt_id p else None
          | None \<Rightarrow> None)
     in
     bindE (case shared of Some a \<Rightarrow> retE a | None \<Rightarrow> fresh_id en) (\<lambda>attempt.
     bindE (if (case existing of Some c \<Rightarrow> cp_status c = PENDING | None \<Rightarrow> False) then retE ()
            else writing en (\<lambda>st. invalidate_from st ident s inputs False)) (\<lambda>_.
     bindE (writing en (\<lambda>st. mark_running (en_safe en) st ident s inputs attempt inherit_from))
       (\<lambda>c. run_handler en s final c pr)))))"

definition reuse_or_start ::
  "'w env \<Rightarrow> identity \<Rightarrow> stage \<Rightarrow> checkpoint option \<Rightarrow> checkpoint option \<Rightarrow> ('w rt, flow) eff" where
  "reuse_or_start en ident s final existing =
     bindE (reading (\<lambda>d. input_refs_for d ident s)) (\<lambda>refs.
     let inputs = (case en_policy_snapshot en of
            Some p \<Rightarrow> if s = SCOPE_GATE_DONE \<and> existing = None then fromkeys (refs @ [p]) else refs
          | None \<Rightarrow> refs)
     in
     bindE (reading (\<lambda>d. reusable d ident s inputs)) (\<lambda>can_reuse.
     if can_reuse then
       bindE (reading (\<lambda>d. require d ident s)) (after_complete en s False)
     else start_stage en ident s final inputs))"

text \<open>A checkpoint of the current version: its recovery first, where one applies.\<close>

definition resume_existing ::
  "'w env \<Rightarrow> identity \<Rightarrow> stage \<Rightarrow> checkpoint option \<Rightarrow> checkpoint option \<Rightarrow> ('w rt, flow) eff" where
  "resume_existing en ident s final existing =
     (case existing of
        None \<Rightarrow> reuse_or_start en ident s final None
      | Some c \<Rightarrow>
          if en_recovery en \<noteq> None
             \<or> cp_status c \<in> {BLOCKED, FAILED}
               \<and> (\<not> cp_retryable c
                  \<or> en_codex_invalid_output_resume en \<and> cp_error_code c = Some ''INVALID_OUTPUT'')
          then
            bindE (recover_existing en c) (\<lambda>r.
            case r of
              RFalse \<Rightarrow> reuse_or_start en ident s final existing
            | RRestart \<Rightarrow> retE FRestart
            | RReturn out \<Rightarrow> retE (FReturn out))
          else reuse_or_start en ident s final existing)"

text \<open>The stored checkpoint of the stage, with the PoC decisions that end the run.\<close>

definition examine_stage ::
  "'w env \<Rightarrow> identity \<Rightarrow> stage \<Rightarrow> checkpoint option \<Rightarrow> ('w rt, flow) eff" where
  "examine_stage en ident s final =
     bindE (reading (\<lambda>d. get d ident s)) (\<lambda>existing.
     case existing of
       None \<Rightarrow> resume_existing en ident s final None
     | Some c \<Rightarrow>
         bindE (prior_decision c) (\<lambda>decided.
         if decided then
           bindE (promote_stopped_poc en c) (\<lambda>promoted.
           retE (FReturn (case promoted of Some out \<Rightarrow> out | None \<Rightarrow> recorded s c)))
         else if s = POC_EXECUTION_DONE \<and> poc_closed en c then retE (FReturn (recorded s c))
         else version_gate en ident s existing (resume_existing en ident s final)))"

definition stage_body :: "'w env \<Rightarrow> identity \<Rightarrow> stage \<Rightarrow> ('w rt, flow) eff" where
  "stage_body en ident s =
     bindE (reading (\<lambda>d. get d ident VERIFICATION_FINAL_DONE)) (\<lambda>final.
     if final_hold final \<and> s \<in> set HOLD_SKIPPED then retE FContinue
     else examine_stage en ident s final)"

section \<open>The loop\<close>

fun run_stages :: "'w env \<Rightarrow> identity \<Rightarrow> stage list \<Rightarrow> ('w rt, flow) eff" where
  "run_stages en ident [] = retE (FReturn (outcome REPORT_DONE SUCCEEDED None None))"
| "run_stages en ident (s # ss) =
     bindE (stage_body en ident s) (\<lambda>fl.
     case fl of
       FContinue \<Rightarrow> run_stages en ident ss
     | FRestart \<Rightarrow> retE FRestart
     | FReturn out \<Rightarrow> retE (FReturn out))"

fun resume_loop :: "nat \<Rightarrow> 'w env \<Rightarrow> identity \<Rightarrow> 'w rt \<Rightarrow> (run_outcome res \<times> 'w rt) option" where
  "resume_loop 0 en ident rt = None"
| "resume_loop (Suc n) en ident rt =
     (case run_stages en ident HYPOTHESIS_STAGES rt of
        (Inl e, rt') \<Rightarrow> Some (Inl e, rt')
      | (Inr (FReturn out), rt') \<Rightarrow> Some (Inr out, rt')
      | (Inr fl, rt') \<Rightarrow> resume_loop n en ident rt')"

text \<open>
  \<open>_reset_incomplete_poc_attempt\<close>: without a recovery coordinator, a candidate whose execution
  did not finish is restarted together with it under a new attempt.
\<close>

definition reset_incomplete_poc_attempt :: "'w env \<Rightarrow> identity \<Rightarrow> ('w rt, unit) eff" where
  "reset_incomplete_poc_attempt en ident =
     bindE (reading (\<lambda>d. get d ident POC_CANDIDATE_DONE)) (\<lambda>candidate.
     bindE (reading (\<lambda>d. get d ident POC_EXECUTION_DONE)) (\<lambda>execution.
     case candidate of
       None \<Rightarrow> retE ()
     | Some cand \<Rightarrow>
       if cp_status cand \<noteq> SUCCEEDED then retE ()
       else if (case execution of None \<Rightarrow> False
                  | Some x \<Rightarrow> cp_status x = SUCCEEDED
                      \<and> cp_stage_version x \<noteq> STAGE_VERSION POC_EXECUTION_DONE)
       then retE ()
       else
         bindE (case execution of
                  None \<Rightarrow> retE False
                | Some x \<Rightarrow>
                    bindE (prior_decision x) (\<lambda>decided.
                      retE (cp_error_code x = Some ''INVALID_OUTPUT'' \<or> decided
                            \<or> cp_status x = PENDING
                            \<or> cp_status x \<in> {BLOCKED, FAILED} \<and> \<not> cp_retryable x))) (\<lambda>kept.
         if kept then retE ()
         else
           bindE (reading (\<lambda>d. input_refs_for d ident POC_EXECUTION_DONE)) (\<lambda>execution_inputs.
           bindE (reading (\<lambda>d. if execution = None then Inr False
                               else reusable d ident POC_EXECUTION_DONE execution_inputs))
             (\<lambda>reusable_execution.
           bindE (reading (\<lambda>d. Inr (case cp_attempt_id cand of
                      None \<Rightarrow> []
                    | Some a \<Rightarrow> stage_activity d ident POC_EXECUTION_DONE a))) (\<lambda>activity.
           if reusable_execution \<or> execution = None \<and> activity = [] then retE ()
           else
             let repair_inputs = fromkeys (cp_input_refs cand @ cp_output_refs cand
                    @ (case execution of None \<Rightarrow> [] | Some x \<Rightarrow> cp_output_refs x)
                    @ concat (map ev_output_refs activity))
             in
             writing en (\<lambda>st. replace_from st
               ((new_checkpoint ident POC_CANDIDATE_DONE PENDING repair_inputs (st_now st))
                  \<lparr>cp_gate_revision_count := cp_gate_revision_count cand,
                   cp_recipe_ref := cp_recipe_ref cand,
                   cp_image_digest := cp_image_digest cand,
                   cp_container_id := cp_container_id cand\<rparr>) False)))))))"

text \<open>The check of a recorded PoC decision that precedes every version-driven invalidation.\<close>

definition entry_check :: "'w env \<Rightarrow> identity \<Rightarrow> ('w rt, run_outcome option) eff" where
  "entry_check en ident =
     bindE (reading (\<lambda>d. get d ident POC_EXECUTION_DONE)) (\<lambda>poc.
     case poc of
       None \<Rightarrow> retE None
     | Some c \<Rightarrow>
       if terminal_poc_outcome (Some c) \<noteq> None then
         (if en_artifacts en = None
          then retE (Some (outcome POC_EXECUTION_DONE BLOCKED
                             (Some ''POC_TERMINAL_EVIDENCE_INVALID'') (cp_attempt_id c)))
          else bindE (verified_poc_terminal en c) (\<lambda>out. retE (Some out)))
       else
         bindE (prior_decision c) (\<lambda>decided.
         if decided then
           bindE (promote_stopped_poc en c) (\<lambda>promoted.
           case promoted of
             Some out \<Rightarrow> retE (Some out)
           | None \<Rightarrow> retE (Some (recorded POC_EXECUTION_DONE c)))
         else if poc_closed en c then retE (Some (recorded POC_EXECUTION_DONE c))
         else retE None))"

definition resume_hypothesis ::
  "nat \<Rightarrow> 'w env \<Rightarrow> identity \<Rightarrow> 'w rt \<Rightarrow> (run_outcome res \<times> 'w rt) option" where
  "resume_hypothesis rounds en ident rt =
     (case bindE (if en_recovery en = None then reset_incomplete_poc_attempt en ident else retE ())
             (\<lambda>_. entry_check en ident) rt of
        (Inl e, rt') \<Rightarrow> Some (Inl e, rt')
      | (Inr (Some out), rt') \<Rightarrow> Some (Inr out, rt')
      | (Inr None, rt') \<Rightarrow> resume_loop rounds en ident rt')"

end
