(* ===== verification/Runner_Invariant.thy ===== *)
theory Runner_Invariant
  imports Runner
begin

text \<open>
  The runner keeps the store's invariant and its history on every path, exceptions included, as
  long as the injected components do.
\<close>

section \<open>What a run keeps\<close>

definition rt_ok :: "'w rt \<Rightarrow> bool" where
  "rt_ok t \<longleftrightarrow> db_ok (fst t) \<and> ledger_ok (fst (snd t))"

definition rt_step :: "'w rt \<Rightarrow> 'w rt \<Rightarrow> bool" where
  "rt_step s t \<longleftrightarrow> rt_ok s \<longrightarrow> rt_ok t \<and> (\<exists>new. db_events (fst t) = db_events (fst s) @ new)"

lemma rt_step_refl: "reflp rt_step"
  by (auto simp: reflp_def rt_step_def)

lemma rt_step_trans: "transp rt_step"
  by (rule transpI) (auto simp: rt_step_def)

text \<open>The contract of the injected handlers, coordinator and probes.\<close>

definition env_keeps :: "'w env \<Rightarrow> bool" where
  "env_keeps en \<longleftrightarrow>
     (\<forall>s h c pr t r t'. en_handlers en s = Some h \<longrightarrow> h c pr t = (r, t') \<longrightarrow> rt_step t t')
     \<and> (\<forall>decide c f t r t'. en_recovery en = Some decide \<longrightarrow> decide c f t = (r, t') \<longrightarrow> rt_step t t')
     \<and> (\<forall>probe t r t'. en_offline_base_ready en = Some probe \<longrightarrow> probe t = (r, t') \<longrightarrow> rt_step t t')
     \<and> (\<forall>c a t r t'. en_cleanup_confirmed en c a t = (r, t') \<longrightarrow> rt_step t t')"

definition ok_eff :: "('w rt, 'a) eff \<Rightarrow> ('a \<Rightarrow> bool) \<Rightarrow> bool" where
  "ok_eff m Q \<longleftrightarrow> spec rt_ok rt_step m (\<lambda>x t. rt_ok t \<and> Q x)"

lemma ok_ret: "Q x \<Longrightarrow> ok_eff (retE x) Q"
  unfolding ok_eff_def by (rule spec_ret [OF rt_step_refl]) simp

lemma ok_raise: "ok_eff (raiseE e) Q"
  unfolding ok_eff_def by (rule spec_raise [OF rt_step_refl])

lemma ok_bind:
  assumes "ok_eff m Q" "\<And>x. Q x \<Longrightarrow> ok_eff (f x) Q'"
  shows "ok_eff (bindE m f) Q'"
  unfolding ok_eff_def
proof (rule spec_bind [OF rt_step_trans])
  show "spec rt_ok rt_step m (\<lambda>x t. rt_ok t \<and> Q x)" using assms(1) by (simp add: ok_eff_def)
  show "spec (\<lambda>t. rt_ok t \<and> Q x) rt_step (f x) (\<lambda>x t. rt_ok t \<and> Q' x)" for x
    using assms(2) [of x] by (cases "Q x") (auto simp: ok_eff_def spec_def)
qed

lemma ok_try:
  assumes "ok_eff m Q" "\<And>e k. h e = Some k \<Longrightarrow> ok_eff k Q"
  shows "ok_eff (tryE m h) Q"
  unfolding ok_eff_def
  by (rule spec_try [OF rt_step_trans, where P' = rt_ok])
     (use assms in \<open>auto simp: ok_eff_def rt_step_def\<close>)

lemma ok_if:
  "(b \<Longrightarrow> ok_eff x Q) \<Longrightarrow> (\<not> b \<Longrightarrow> ok_eff y Q) \<Longrightarrow> ok_eff (if b then x else y) Q"
  by simp

lemma ok_step:
  assumes "\<And>t r t'. m t = (r, t') \<Longrightarrow> rt_step t t'"
  shows "ok_eff m (\<lambda>_. True)"
  unfolding ok_eff_def using assms by (auto simp: spec_def rt_step_def)

lemma ok_option:
  "(v = None \<Longrightarrow> ok_eff a Q) \<Longrightarrow> (\<And>x. v = Some x \<Longrightarrow> ok_eff (b x) Q) \<Longrightarrow>
     ok_eff (case v of None \<Rightarrow> a | Some x \<Rightarrow> b x) Q"
  by (cases v) simp_all

lemma ok_reading: "(\<And>d x. db_ok d \<Longrightarrow> f d = Inr x \<Longrightarrow> Q x) \<Longrightarrow> ok_eff (reading f) Q"
  unfolding ok_eff_def by (auto simp: spec_def reading_def rt_step_def rt_ok_def split: prod.splits)

lemma ok_writing:
  assumes "\<And>st d x d'. db_ok d \<Longrightarrow> op st d = Inr (x, d') \<Longrightarrow> extends d d' \<and> Q x"
  shows "ok_eff (writing en op) Q"
  unfolding ok_eff_def
proof (rule specI)
  fix s r t assume ok: "rt_ok s" and w: "writing en op s = (r, t)"
  obtain d lg w0 where s: "s = (d, lg, w0)" by (cases s)
  obtain st w1 where st: "en_stamp en w0 = (st, w1)" by (cases "en_stamp en w0")
  show "rt_step s t \<and> (\<forall>x. r = Inr x \<longrightarrow> rt_ok t \<and> Q x)"
  proof (cases "op st d")
    case (Inl e)
    then show ?thesis using w s st ok by (auto simp: writing_def rt_step_def rt_ok_def)
  next
    case (Inr a)
    obtain x d' where a: "a = (x, d')" by (cases a)
    have "extends d d' \<and> Q x" using assms [of d st x d'] Inr a ok s by (simp add: rt_ok_def)
    then show ?thesis
      using w s st ok Inr a by (auto simp: writing_def rt_step_def rt_ok_def extends_def)
  qed
qed

lemma ok_fresh: "ok_eff (fresh_id en) (\<lambda>_. True)"
  by (rule ok_step) (auto simp: fresh_id_def rt_step_def rt_ok_def split: prod.splits)

lemma ok_unresolved: "ok_eff (unresolved_call a) (\<lambda>_. True)"
  by (rule ok_step) (auto simp: unresolved_call_def rt_step_def rt_ok_def)

lemma ok_prior_decision: "ok_eff (prior_decision c) (\<lambda>_. True)"
  unfolding prior_decision_def by (rule ok_reading) simp

text \<open>A stored checkpoint is valid and lies under the key it was read from.\<close>

lemma ok_get:
  "ok_eff (reading (\<lambda>d. get d ident s))
     (pred_option (\<lambda>c. valid_cp c \<and> cp_identity c = ident \<and> cp_stage c = s))"
proof (rule ok_reading)
  fix d x assume ok: "db_ok d" and g: "get d ident s = Inr x"
  have "x = stored d ident s" using get_stored [OF ok] g by simp
  then show "pred_option (\<lambda>c. valid_cp c \<and> cp_identity c = ident \<and> cp_stage c = s) x"
    using stored_valid [OF ok] by (cases "stored d ident s") simp_all
qed

section \<open>The parts of the runner\<close>

lemma ok_mark_failure:
  assumes v: "valid_cp c"
  shows "ok_eff (writing en (\<lambda>st. mark_failure safe st c f status a)) valid_cp"
proof (rule ok_writing)
  fix st d x d' assume ok: "db_ok d" and m: "mark_failure safe st c f status a d = Inr (x, d')"
  have "x = failed_cp st c f status" by (rule mark_failure_write [OF m])
  then show "extends d d' \<and> valid_cp x"
    using mark_failure_extends [OF m v ok] v by (simp add: failed_cp_def)
qed

lemma ok_verified_initial: "valid_cp c \<Longrightarrow> ok_eff (verified_initial_terminal en c) (\<lambda>_. True)"
  unfolding verified_initial_terminal_def Let_def
  by (auto intro!: ok_ret ok_raise ok_bind [OF ok_mark_failure] split: option.split sum.split)

lemma ok_verified_poc: "valid_cp c \<Longrightarrow> ok_eff (verified_poc_terminal en c) (\<lambda>_. True)"
  unfolding verified_poc_terminal_def Let_def
  by (auto intro!: ok_ret ok_raise ok_bind [OF ok_mark_failure] split: option.split sum.split)

lemma ok_promote_initial_write:
  "ok_eff (writing en (\<lambda>st. promote_initial_environment_inconclusive safe st c art)) valid_cp"
proof (rule ok_writing)
  fix st d x d'
  assume ok: "db_ok d" and p: "promote_initial_environment_inconclusive safe st c art d = Inr (x, d')"
  have "valid_cp x"
    by (rule promote_initial_cases [OF ok p]) (use lookup_valid [OF ok] in auto)
  then show "extends d d' \<and> valid_cp x" using promote_initial_extends [OF p ok] by blast
qed

lemma ok_promote_execution_write:
  "ok_eff (writing en (\<lambda>st. promote_inconclusive_execution safe st c art)) (\<lambda>_. True)"
  by (rule ok_writing) (auto intro: promote_execution_extends)

lemma ok_promote_initial: "ok_eff (promote_initial en c) (\<lambda>_. True)"
proof (cases "en_artifacts en")
  case (Some art)
  have tr: "ok_eff (tryE (bindE (writing en (\<lambda>st. promote_initial_environment_inconclusive
        (en_safe en) st c art)) (\<lambda>r. retE (Some r)))
      (\<lambda>e. if is_value_error e then Some (retE None) else None)) (pred_option valid_cp)"
    by (rule ok_try, rule ok_bind [OF ok_promote_initial_write])
       (auto intro!: ok_ret split: if_splits)
  show ?thesis
    unfolding promote_initial_def Some
    by (auto intro!: ok_ret ok_bind [OF tr] ok_bind [OF ok_verified_initial] split: option.split)
qed (simp add: promote_initial_def ok_ret)

lemma ok_promote_stopped: "ok_eff (promote_stopped_poc en c) (\<lambda>_. True)"
  unfolding promote_stopped_poc_def
  by (auto intro!: ok_ret ok_try ok_bind [OF ok_promote_execution_write] split: if_splits)

lemma ok_gate_action: "ok_eff (gate_action en c) (\<lambda>_. True)"
proof -
  have "ok_eff (writing en (\<lambda>st. prepare_gate_revision st c False)) (\<lambda>_. True)"
    by (rule ok_writing) (auto intro: prepare_gate_revision_extends)
  then show ?thesis unfolding gate_action_def by (auto intro!: ok_ret ok_bind)
qed

lemma ok_decide:
  "env_keeps en \<Longrightarrow> en_recovery en = Some decide \<Longrightarrow> ok_eff (decide c f) (\<lambda>_. True)"
  by (rule ok_step) (auto simp: env_keeps_def)

lemma ok_mark_exhausted:
  "valid_cp c \<Longrightarrow> ok_eff (writing en (\<lambda>st. mark_recovery_exhausted safe st c)) (\<lambda>_. True)"
  by (rule ok_writing) (auto intro: mark_recovery_exhausted_extends)

lemma ok_record_stop:
  "valid_cp c \<Longrightarrow> ok_eff (writing en (\<lambda>st. record_recovery_stop safe st c res fail)) (\<lambda>_. True)"
  by (rule ok_writing) (auto intro: record_recovery_stop_extends)

lemma ok_record_decision:
  "valid_cp c \<Longrightarrow> ok_eff (writing en (\<lambda>st. record_recovery_decision safe st c res fail)) (\<lambda>_. True)"
  by (rule ok_writing) (auto intro: record_recovery_decision_extends)

lemma ok_prepare_recovery:
  "valid_cp c \<Longrightarrow> ok_eff (writing en (\<lambda>st. prepare_recovery safe st c res s fail)) (\<lambda>_. True)"
  by (rule ok_writing) (auto intro: prepare_recovery_extends)

lemma ok_decided: "valid_cp c \<Longrightarrow> ok_eff (recovery_decided en c out res) (\<lambda>_. True)"
  unfolding recovery_decided_def
  by (intro ok_if ok_option ok_ret TrueI ok_bind [OF ok_record_stop] ok_bind [OF ok_promote_initial]
      ok_bind [OF ok_promote_stopped] ok_bind [OF ok_record_decision]
      ok_bind [OF ok_prepare_recovery]; assumption)

lemma ok_after_failure:
  "env_keeps en \<Longrightarrow> valid_cp c \<Longrightarrow> ok_eff (after_failure en f status c) (\<lambda>_. True)"
  unfolding after_failure_def Let_def
  by (intro ok_if ok_option ok_ret TrueI ok_bind [OF ok_mark_exhausted] ok_bind [OF ok_decide]
      ok_decided; assumption)

lemma ok_recover_or_stop:
  assumes en: "env_keeps en" and v: "valid_cp c"
  shows "ok_eff (recover_or_stop en c f status already) (\<lambda>_. True)"
proof -
  have 1: "ok_eff (if already then retE c
      else writing en (\<lambda>st. mark_failure (en_safe en) st c f status None)) valid_cp"
    using v by (auto intro: ok_ret ok_mark_failure)
  show ?thesis
    unfolding recover_or_stop_def by (rule ok_bind [OF 1 ok_after_failure [OF en]])
qed

lemma ok_cleanup: "env_keeps en \<Longrightarrow> ok_eff (en_cleanup_confirmed en c a) (\<lambda>_. True)"
  by (rule ok_step) (auto simp: env_keeps_def)

lemma ok_covering:
  "ok_eff (\<lambda>(d, lg, w). (Inr (confirmed_codex_call_covering lg a t), (d, lg, w))) (\<lambda>_. True)"
  by (rule ok_step) (auto simp: rt_step_def)

lemma ok_cleanup_allows: "env_keeps en \<Longrightarrow> ok_eff (cleanup_allows_replay en c) (\<lambda>_. True)"
  unfolding cleanup_allows_replay_def
  by (auto intro!: ok_ret ok_try ok_bind [OF ok_unresolved] ok_cleanup ok_covering
      split: option.split py_error.splits)

lemma valid_replay_pending [simp]: "valid_cp (replay_pending c) = valid_cp c"
  by (simp add: replay_pending_def)

lemma ok_replace: "valid_cp c \<Longrightarrow> ok_eff (writing en (\<lambda>st. replace_from st c fail)) (\<lambda>_. True)"
  by (rule ok_writing) (auto intro: replace_from_extends)

lemma ok_replay: "valid_cp c \<Longrightarrow> ok_eff (replay en c) (\<lambda>_. True)"
  unfolding replay_def by (auto intro!: ok_ret ok_bind [OF ok_replace])

lemma ok_replay_if_free: "valid_cp c \<Longrightarrow> ok_eff (replay_if_free en c) (\<lambda>_. True)"
  unfolding replay_if_free_def by (auto intro!: ok_ret ok_bind [OF ok_unresolved] ok_replay)

lemma ok_probe:
  "env_keeps en \<Longrightarrow> en_offline_base_ready en = Some probe \<Longrightarrow> ok_eff probe (\<lambda>_. True)"
  by (rule ok_step) (auto simp: env_keeps_def)

lemma ok_offline_base:
  assumes en: "env_keeps en" and v: "valid_cp c"
  shows "ok_eff (recover_offline_base en c) (\<lambda>_. True)"
proof (cases "en_offline_base_ready en")
  case (Some probe)
  have tr: "ok_eff (tryE (bindE (unresolved_call (id_analysis (cp_identity c))) (\<lambda>call.
        if call \<notin> {None, Some []} then retE False else probe))
      (\<lambda>e. case e of
         SqliteError _ \<Rightarrow> Some (retE False) | OSError _ \<Rightarrow> Some (retE False)
       | RuntimeError _ \<Rightarrow> Some (retE False) | ValueError _ \<Rightarrow> Some (retE False) | _ \<Rightarrow> None))
      (\<lambda>_. True)"
    by (rule ok_try, rule ok_bind [OF ok_unresolved])
       (auto intro!: ok_ret ok_probe [OF en Some] split: py_error.splits)
  show ?thesis
    unfolding recover_offline_base_def Some option.case
    by (intro ok_if ok_ret TrueI ok_bind [OF tr] ok_replay) (simp add: v)
qed (simp add: recover_offline_base_def ok_ret)

lemma ok_save_checkpoint:
  "valid_cp c \<Longrightarrow> ok_eff (writing en (\<lambda>st. save_checkpoint safe st c)) (\<lambda>_. True)"
  by (rule ok_writing) (auto intro: save_checkpoint_extends)

lemma ok_recover_failed:
  assumes en: "env_keeps en" and v: "valid_cp c"
  shows "ok_eff (recover_failed en c) (\<lambda>_. True)"
proof -
  have save: "ok_eff (if cp_retryable c
      then writing en (\<lambda>st. save_checkpoint (en_safe en) st (c\<lparr>cp_retryable := False\<rparr>))
      else retE ()) (\<lambda>_. True)"
    using v by (auto intro: ok_ret ok_save_checkpoint)
  show ?thesis
    unfolding recover_failed_def
    by (intro ok_if ok_ret TrueI ok_bind [OF ok_recover_or_stop [OF en v]]
        ok_offline_base [OF en v] ok_replay_if_free [OF v] ok_bind [OF save] ok_replay)
       (simp add: v)
qed

lemma ok_recover_existing:
  assumes en: "env_keeps en" and v: "valid_cp c"
  shows "ok_eff (recover_existing en c) (\<lambda>_. True)"
  unfolding recover_existing_def
  using v by (auto intro!: ok_ret ok_bind [OF ok_promote_initial] ok_bind [OF ok_promote_stopped]
      ok_bind [OF ok_prior_decision] ok_bind [OF ok_cleanup_allows [OF en]]
      ok_replay ok_recover_failed [OF en] split: option.split)

section \<open>One stage and the loop\<close>

lemma ok_invalidate: "ok_eff (writing en (\<lambda>st. invalidate_from st ident s inputs force)) (\<lambda>_. True)"
  by (rule ok_writing) (auto intro: invalidate_from_extends)

lemma ok_version_gate:
  assumes v: "pred_option valid_cp existing" and k: "\<And>e. pred_option valid_cp e \<Longrightarrow> ok_eff (k e) Q"
    and Q: "\<And>out. Q (FReturn out)"
  shows "ok_eff (version_gate en ident s existing k) Q"
proof (cases existing)
  case (Some c)
  have v': "valid_cp c" using v Some by simp
  have p: "valid_cp ((replay_pending c)\<lparr>cp_stage_version := STAGE_VERSION s\<rparr>)" using v' by simp
  show ?thesis
    unfolding version_gate_def Some Let_def option.case
    by (intro ok_if ok_ret Q ok_bind [OF ok_unresolved] ok_bind [OF ok_replace [OF p]]
          ok_bind [OF ok_invalidate] k)
       (use v' in simp_all)
qed (use k in \<open>simp add: version_gate_def\<close>)

lemma ok_after_complete: "valid_cp c \<Longrightarrow> ok_eff (after_complete en s b c) (\<lambda>_. True)"
  unfolding after_complete_def
  by (auto intro!: ok_ret ok_bind [OF ok_verified_initial] ok_bind [OF ok_verified_poc]
      ok_bind [OF ok_gate_action] split: gate_act.split)

lemma ok_complete:
  assumes v: "valid_cp c"
  shows "ok_eff (writing en (\<lambda>st. complete_stage safe st c result run)) valid_cp"
proof (rule ok_writing)
  fix st d x d' assume ok: "db_ok d" and w: "complete_stage safe st c result run d = Inr (x, d')"
  have "x = completed_cp st c result" by (rule complete_write [OF w])
  then show "extends d d' \<and> valid_cp x"
    using complete_extends [OF w v ok] valid_completed_cp [OF v] by blast
qed

lemma ok_handler_run:
  assumes "env_keeps en" "en_handlers en s = Some h" "\<And>reply. ok_eff (m reply) Q"
  shows "ok_eff (\<lambda>t. case h c pr t of (reply, t') \<Rightarrow> m reply t') Q"
  unfolding ok_eff_def
proof (rule specI)
  fix t r u assume ok: "rt_ok t" and h: "(case h c pr t of (reply, t') \<Rightarrow> m reply t') = (r, u)"
  obtain reply t' where t': "h c pr t = (reply, t')" by (cases "h c pr t")
  have st: "rt_step t t'"
    using assms(1) [unfolded env_keeps_def, THEN conjunct1, rule_format, OF assms(2) t'] .
  then have "rt_ok t'" using ok by (simp add: rt_step_def)
  moreover have "m reply t' = (r, u)" using h t' by simp
  ultimately have "rt_step t' u \<and> (\<forall>x. r = Inr x \<longrightarrow> rt_ok u \<and> Q x)"
    using specD [OF assms(3) [of reply, unfolded ok_eff_def]] by blast
  then show "rt_step t u \<and> (\<forall>x. r = Inr x \<longrightarrow> rt_ok u \<and> Q x)"
    using st transpD [OF rt_step_trans] by blast
qed

lemma ok_run_handler:
  assumes en: "env_keeps en" and v: "valid_cp c"
  shows "ok_eff (run_handler en s final c pr) (\<lambda>_. True)"
proof (cases "en_handlers en s")
  case None
  then show ?thesis
    unfolding run_handler_def using v by (auto intro!: ok_ret ok_bind [OF ok_mark_failure])
next
  case (Some h)
  show ?thesis
    unfolding run_handler_def Some option.case
    by (rule ok_handler_run [OF en Some])
       (auto intro!: ok_ret ok_raise ok_bind [OF ok_complete [OF v]] ok_after_complete
          ok_bind [OF ok_mark_failure [OF v]] ok_bind [OF ok_recover_or_stop [OF en v]]
          split: handler_reply.split)
qed

lemma prior_valid:
  assumes ok: "db_ok d" and p: "prior d ident s = Inr pr"
  shows "list_all (valid_cp \<circ> snd) pr"
proof -
  have "list_all (valid_cp \<circ> snd) pr"
    using p unfolding prior_def
    by (rule foldR_invariant [rotated])
       (auto simp: get_stored [OF ok] dest: stored_valid(1) [OF ok] split: option.splits)
  then show ?thesis .
qed

lemma ok_prior: "ok_eff (reading (\<lambda>d. prior d ident s)) (list_all (valid_cp \<circ> snd))"
  by (rule ok_reading) (rule prior_valid)

lemma ok_mark_running:
  assumes "pred_option valid_cp inh"
  shows "ok_eff (writing en (\<lambda>st. mark_running safe st ident s inputs a inh)) valid_cp"
  by (rule ok_writing) (auto intro: mark_running_extends mark_running_valid assms)

lemma ok_start_stage:
  assumes en: "env_keeps en"
  shows "ok_eff (start_stage en ident s final inputs) (\<lambda>_. True)"
  unfolding start_stage_def
proof (rule ok_bind [OF ok_get], rule ok_bind [OF ok_prior], unfold Let_def)
  fix existing :: "checkpoint option" and pr :: "(stage \<times> checkpoint) list"
  assume e: "pred_option (\<lambda>c. valid_cp c \<and> cp_identity c = ident \<and> cp_stage c = s) existing"
    and pr: "list_all (valid_cp \<circ> snd) pr"
  let ?preceding = "if pr = [] then None else Some (snd (last pr))"
  have prec: "pred_option valid_cp ?preceding"
    using pr by (auto simp: list_all_iff)
  let ?inh = "case existing of
      Some c \<Rightarrow> if cp_recipe_ref c \<noteq> None \<and> cp_image_digest c \<noteq> None then existing else ?preceding
    | None \<Rightarrow> ?preceding"
  have inh: "pred_option valid_cp ?inh"
    using prec e by (auto split: option.splits)
  have att: "ok_eff (case sh of Some a \<Rightarrow> retE a | None \<Rightarrow> fresh_id en) (\<lambda>_. True)" for sh
    by (cases sh) (auto intro: ok_ret ok_fresh)
  have inv: "ok_eff (if b then retE () else writing en (\<lambda>st. invalidate_from st ident s inputs False))
      (\<lambda>_. True)" for b
    by (auto intro: ok_ret ok_invalidate)
  show "ok_eff (bindE (case case ?preceding of
            Some p \<Rightarrow> if s = POC_EXECUTION_DONE \<and> cp_stage p = POC_CANDIDATE_DONE \<and> existing = None
                       then cp_attempt_id p else None
          | None \<Rightarrow> None of Some a \<Rightarrow> retE a | None \<Rightarrow> fresh_id en) (\<lambda>attempt.
     bindE (if (case existing of Some c \<Rightarrow> cp_status c = PENDING | None \<Rightarrow> False) then retE ()
            else writing en (\<lambda>st. invalidate_from st ident s inputs False)) (\<lambda>_.
     bindE (writing en (\<lambda>st. mark_running (en_safe en) st ident s inputs attempt ?inh))
       (\<lambda>c. run_handler en s final c pr)))) (\<lambda>_. True)"
    by (rule ok_bind [OF att], rule ok_bind [OF inv], rule ok_bind [OF ok_mark_running [OF inh]],
        rule ok_run_handler [OF en])
qed

lemma ok_require: "ok_eff (reading (\<lambda>d. require d ident s)) valid_cp"
  by (rule ok_reading)
     (auto simp: require_def get_stored dest: stored_valid(1) split: option.splits)

lemma ok_reuse_or_start:
  assumes en: "env_keeps en"
  shows "ok_eff (reuse_or_start en ident s final existing) (\<lambda>_. True)"
proof -
  have r: "ok_eff (reading f) (\<lambda>_. True)" for f :: "db \<Rightarrow> 'b res"
    by (rule ok_reading) simp
  show ?thesis
    unfolding reuse_or_start_def Let_def
    by (rule ok_bind [OF r], rule ok_bind [OF r])
       (auto intro!: ok_bind [OF ok_require] ok_after_complete ok_start_stage [OF en])
qed

lemma ok_resume_existing:
  "env_keeps en \<Longrightarrow> pred_option valid_cp e \<Longrightarrow> ok_eff (resume_existing en ident s final e) (\<lambda>_. True)"
  unfolding resume_existing_def
  by (cases e)
     (auto intro!: ok_reuse_or_start ok_ret ok_bind [OF ok_recover_existing] split: recovered.split)

lemma ok_stage_body:
  assumes en: "env_keeps en"
  shows "ok_eff (stage_body en ident s) (\<lambda>_. True)"
proof -
  have "ok_eff (examine_stage en ident s final) (\<lambda>_. True)" for final
    unfolding examine_stage_def
    by (rule ok_bind [OF ok_get])
       (auto intro!: ok_option ok_if ok_ret ok_resume_existing [OF en] ok_version_gate
          ok_bind [OF ok_prior_decision] ok_bind [OF ok_promote_stopped])
  then show ?thesis
    unfolding stage_body_def by (auto intro!: ok_bind [OF ok_get] ok_ret)
qed

lemma ok_run_stages: "env_keeps en \<Longrightarrow> ok_eff (run_stages en ident ss) (\<lambda>_. True)"
  by (induction ss)
     (auto intro!: ok_ret ok_bind [OF ok_stage_body] split: flow.split)

lemma resume_loop_step:
  "env_keeps en \<Longrightarrow> resume_loop n en ident t = Some (r, t') \<Longrightarrow> rt_ok t \<Longrightarrow> rt_step t t' \<and> rt_ok t'"
proof (induction n arbitrary: t)
  case (Suc n)
  obtain q u where q: "run_stages en ident HYPOTHESIS_STAGES t = (q, u)"
    by (cases "run_stages en ident HYPOTHESIS_STAGES t")
  have st: "rt_step t u"
    by (rule specD(1) [OF ok_run_stages [OF Suc.prems(1), unfolded ok_eff_def] Suc.prems(3) q])
  then have u: "rt_ok u" using Suc.prems(3) by (simp add: rt_step_def)
  show ?case
  proof (cases "u = t' \<and> Some (r, t') = resume_loop (Suc n) en ident t \<and>
      (case q of Inl e \<Rightarrow> True | Inr (FReturn out) \<Rightarrow> True | _ \<Rightarrow> False)")
    case True
    then show ?thesis using st u by simp
  next
    case False
    then have "resume_loop n en ident u = Some (r, t')"
      using Suc.prems(2) q by (auto split: sum.splits flow.splits)
    then show ?thesis
      using Suc.IH [OF Suc.prems(1) _ u] st transpD [OF rt_step_trans] by blast
  qed
qed simp

lemma ok_reset:
  "ok_eff (reset_incomplete_poc_attempt en ident) (\<lambda>_. True)"
proof -
  have r: "ok_eff (reading f) (\<lambda>_. True)" for f :: "db \<Rightarrow> 'b res"
    by (rule ok_reading) simp
  have kept: "ok_eff (case x of None \<Rightarrow> retE False
      | Some x \<Rightarrow> bindE (prior_decision x) (\<lambda>decided.
          retE (cp_error_code x = Some ''INVALID_OUTPUT'' \<or> decided \<or> cp_status x = PENDING
                \<or> cp_status x \<in> {BLOCKED, FAILED} \<and> \<not> cp_retryable x))) (\<lambda>_. True)" for x
    by (cases x) (auto intro!: ok_ret ok_bind [OF ok_prior_decision])
  have w: "ok_eff (writing en (\<lambda>st. replace_from st
      ((new_checkpoint ident POC_CANDIDATE_DONE PENDING inputs (st_now st))
         \<lparr>cp_gate_revision_count := cp_gate_revision_count cand, cp_recipe_ref := a,
          cp_image_digest := b, cp_container_id := x\<rparr>) False)) (\<lambda>_. True)"
    if v: "valid_cp cand" for inputs cand a b x
  proof (rule ok_writing)
    fix st d u d'
    assume ok: "db_ok d" and rf: "replace_from st
      ((new_checkpoint ident POC_CANDIDATE_DONE PENDING inputs (st_now st))
         \<lparr>cp_gate_revision_count := cp_gate_revision_count cand, cp_recipe_ref := a,
          cp_image_digest := b, cp_container_id := x\<rparr>) False d = Inr (u, d')"
    show "extends d d' \<and> True"
      using replace_from_extends [OF rf _ ok] v by (simp add: valid_cp_def new_checkpoint_def)
  qed
  show ?thesis
    unfolding reset_incomplete_poc_attempt_def Let_def
    by (rule ok_bind [OF ok_get], rule ok_bind [OF ok_get])
       (intro ok_if ok_option ok_ret TrueI ok_bind [OF kept] ok_bind [OF r] w; simp)
qed

lemma ok_entry_check: "ok_eff (entry_check en ident) (\<lambda>_. True)"
  unfolding entry_check_def
  by (rule ok_bind [OF ok_get])
     (intro ok_if ok_option ok_ret TrueI ok_bind [OF ok_verified_poc] ok_bind [OF ok_prior_decision]
        ok_bind [OF ok_promote_stopped]; simp)

lemma resume_step:
  assumes en: "env_keeps en" and r: "resume_hypothesis n en ident t = Some (r, t')" and ok: "rt_ok t"
  shows "rt_step t t' \<and> rt_ok t'"
proof -
  let ?m = "bindE (if en_recovery en = None then reset_incomplete_poc_attempt en ident else retE ())
      (\<lambda>_. entry_check en ident)"
  obtain q u where q: "?m t = (q, u)" by (cases "?m t")
  have m: "ok_eff ?m (\<lambda>_. True)"
    by (intro ok_bind [where Q = "\<lambda>_. True"] ok_if ok_reset ok_ret ok_entry_check TrueI)
  have st: "rt_step t u" by (rule specD(1) [OF m [unfolded ok_eff_def] ok q])
  then have u: "rt_ok u" using ok by (simp add: rt_step_def)
  show ?thesis
  proof (cases q)
    case (Inl e)
    then show ?thesis using r q st u by (simp add: resume_hypothesis_def)
  next
    case (Inr x)
    show ?thesis
    proof (cases x)
      case None
      then have "resume_loop n en ident u = Some (r, t')"
        using r q Inr by (simp add: resume_hypothesis_def)
      then show ?thesis
        using resume_loop_step [OF en _ u] st transpD [OF rt_step_trans] by blast
    next
      case (Some out)
      then show ?thesis using r q st u Inr by (simp add: resume_hypothesis_def)
    qed
  qed
qed

end
