(* ===== verification/Runner_Rows.thy ===== *)
theory Runner_Rows
  imports Runner_Invariant
begin

text \<open>
  What each part of the runner does to the checkpoint rows of its hypothesis, when the injected
  components leave those rows alone: which rows a completed stage, a failed stage, a recovery and
  a gate revision leave behind.
\<close>

section \<open>Triples over the rows of a hypothesis\<close>

type_synonym rows = "stage \<Rightarrow> checkpoint option"

definition rows_of :: "identity \<Rightarrow> 'w rt \<Rightarrow> rows" where
  "rows_of ident t = stored (fst t) ident"

definition ok_step_rel :: "'w rt \<Rightarrow> 'w rt \<Rightarrow> bool" where
  "ok_step_rel s t \<longleftrightarrow> db_ok (fst s) \<longrightarrow> db_ok (fst t)"

definition tri :: "identity \<Rightarrow> rows \<Rightarrow> ('w rt, 'a) eff \<Rightarrow> ('a \<Rightarrow> rows \<Rightarrow> bool) \<Rightarrow> bool" where
  "tri ident \<rho> m Q \<longleftrightarrow>
     spec (\<lambda>t. db_ok (fst t) \<and> rows_of ident t = \<rho>) ok_step_rel m
          (\<lambda>x t. db_ok (fst t) \<and> Q x (rows_of ident t))"

lemma ok_step_rel_refl: "reflp ok_step_rel"
  by (simp add: reflp_def ok_step_rel_def)

lemma ok_step_rel_trans: "transp ok_step_rel"
  by (rule transpI) (simp add: ok_step_rel_def)

lemma triI:
  assumes "\<And>t r t'. db_ok (fst t) \<Longrightarrow> rows_of ident t = \<rho> \<Longrightarrow> m t = (r, t') \<Longrightarrow>
    db_ok (fst t') \<and> (\<forall>x. r = Inr x \<longrightarrow> Q x (rows_of ident t'))"
  shows "tri ident \<rho> m Q"
  unfolding tri_def by (rule specI) (use assms in \<open>auto simp: ok_step_rel_def\<close>)

lemma triD:
  assumes "tri ident \<rho> m Q" "db_ok (fst t)" "rows_of ident t = \<rho>" "m t = (r, t')"
  shows "db_ok (fst t')" and "r = Inr x \<Longrightarrow> Q x (rows_of ident t')"
proof -
  note d = specD [OF assms(1) [unfolded tri_def] conjI [OF assms(2,3)] assms(4)]
  show "db_ok (fst t')" using d(1) assms(2) by (simp add: ok_step_rel_def)
  show "r = Inr x \<Longrightarrow> Q x (rows_of ident t')" using d(2) by blast
qed

lemma tri_ret: "Q x \<rho> \<Longrightarrow> tri ident \<rho> (retE x) Q"
  by (rule triI) auto

lemma tri_raise: "tri ident \<rho> (raiseE e) Q"
  by (rule triI) auto

lemma tri_bind:
  assumes "tri ident \<rho> m Q" "\<And>x \<rho>'. Q x \<rho>' \<Longrightarrow> tri ident \<rho>' (f x) Q'"
  shows "tri ident \<rho> (bindE m f) Q'"
  unfolding tri_def
proof (rule spec_bind [OF ok_step_rel_trans])
  show "spec (\<lambda>t. db_ok (fst t) \<and> rows_of ident t = \<rho>) ok_step_rel m
      (\<lambda>x t. db_ok (fst t) \<and> Q x (rows_of ident t))"
    using assms(1) by (simp add: tri_def)
  show "spec (\<lambda>t. db_ok (fst t) \<and> Q x (rows_of ident t)) ok_step_rel (f x)
      (\<lambda>x t. db_ok (fst t) \<and> Q' x (rows_of ident t))" for x
  proof (rule specI)
    fix s r t assume p: "db_ok (fst s) \<and> Q x (rows_of ident s)" and m: "f x s = (r, t)"
    note d = triD [OF assms(2) _ refl m]
    show "ok_step_rel s t \<and> (\<forall>y. r = Inr y \<longrightarrow> db_ok (fst t) \<and> Q' y (rows_of ident t))"
      using d p by (auto simp: ok_step_rel_def)
  qed
qed

lemma tri_weaken:
  "tri ident \<rho> m Q \<Longrightarrow> (\<And>x \<rho>'. Q x \<rho>' \<Longrightarrow> Q' x \<rho>') \<Longrightarrow> tri ident \<rho> m Q'"
  unfolding tri_def by (erule spec_weaken) auto

lemma tri_if: "(b \<Longrightarrow> tri ident \<rho> x Q) \<Longrightarrow> (\<not> b \<Longrightarrow> tri ident \<rho> y Q) \<Longrightarrow> tri ident \<rho> (if b then x else y) Q"
  by simp

lemma tri_option:
  "(v = None \<Longrightarrow> tri ident \<rho> a Q) \<Longrightarrow> (\<And>x. v = Some x \<Longrightarrow> tri ident \<rho> (b x) Q) \<Longrightarrow>
     tri ident \<rho> (case v of None \<Rightarrow> a | Some x \<Rightarrow> b x) Q"
  by (cases v) simp_all

text \<open>Code that leaves the rows as they are, exceptions included.\<close>

definition frames :: "identity \<Rightarrow> 'w rt \<Rightarrow> 'w rt \<Rightarrow> bool" where
  "frames ident t t' \<longleftrightarrow> db_ok (fst t) \<longrightarrow> db_ok (fst t') \<and> rows_of ident t' = rows_of ident t"

definition row_framed :: "identity \<Rightarrow> ('w rt, 'a) eff \<Rightarrow> bool" where
  "row_framed ident m \<longleftrightarrow> (\<forall>t r t'. m t = (r, t') \<longrightarrow> frames ident t t')"

lemma row_framedI: "(\<And>t r t'. m t = (r, t') \<Longrightarrow> frames ident t t') \<Longrightarrow> row_framed ident m"
  by (simp add: row_framed_def)

lemma frames_refl [simp]: "frames ident t t"
  by (simp add: frames_def)

lemma frames_trans: "frames ident t u \<Longrightarrow> frames ident u v \<Longrightarrow> frames ident t v"
  by (simp add: frames_def)

lemma row_framed_ret: "row_framed ident (retE x)"
  by (simp add: row_framed_def)

lemma row_framed_read: "(\<And>t. snd (m t) = t) \<Longrightarrow> row_framed ident m"
  by (auto simp: row_framed_def intro: row_framedI) (metis frames_refl snd_conv)

lemma row_framed_bind:
  assumes "row_framed ident m" "\<And>x. row_framed ident (f x)"
  shows "row_framed ident (bindE m f)"
proof (rule row_framedI)
  fix t r t' assume b: "bindE m f t = (r, t')"
  obtain q u where m: "m t = (q, u)" by (cases "m t")
  have tu: "frames ident t u" using assms(1) m unfolding row_framed_def by blast
  show "frames ident t t'"
  proof (cases q)
    case (Inl e)
    then show ?thesis using b m tu by (simp add: bindE_def)
  next
    case (Inr x)
    then have "f x u = (r, t')" using b m by (simp add: bindE_def)
    then show ?thesis using assms(2) tu frames_trans unfolding row_framed_def by blast
  qed
qed

lemma row_framed_try:
  assumes "row_framed ident m" "\<And>e k. h e = Some k \<Longrightarrow> row_framed ident k"
  shows "row_framed ident (tryE m h)"
proof (rule row_framedI)
  fix t r t' assume b: "tryE m h t = (r, t')"
  obtain q u where m: "m t = (q, u)" by (cases "m t")
  have tu: "frames ident t u" using assms(1) m unfolding row_framed_def by blast
  show "frames ident t t'"
  proof (cases "\<exists>e k. q = Inl e \<and> h e = Some k")
    case True
    then obtain e k where "q = Inl e" "h e = Some k" by blast
    then have "k u = (r, t')" "row_framed ident k" using b m assms(2) by (auto simp: tryE_def)
    then show ?thesis using tu frames_trans unfolding row_framed_def by blast
  next
    case False
    then show ?thesis
      using b m tu by (cases q) (auto simp: tryE_def split: option.splits)
  qed
qed

lemma tri_framed: "row_framed ident m \<Longrightarrow> tri ident \<rho> m (\<lambda>_ \<rho>'. \<rho>' = \<rho>)"
  by (rule triI) (auto simp: row_framed_def frames_def)

lemma row_framed_reading: "row_framed ident (reading f)"
  by (rule row_framed_read) (auto simp: reading_def split: prod.split)

lemma row_framed_fresh: "row_framed ident (fresh_id en)"
  by (rule row_framedI) (auto simp: fresh_id_def frames_def rows_of_def split: prod.splits)

lemma row_framed_unresolved: "row_framed ident (unresolved_call a)"
  by (rule row_framed_read) (auto simp: unresolved_call_def split: prod.split)

lemma row_framed_prior_decision: "row_framed ident (prior_decision c)"
  unfolding prior_decision_def by (rule row_framed_reading)

lemma tri_reading:
  assumes "\<And>d x. db_ok d \<Longrightarrow> stored d ident = \<rho> \<Longrightarrow> f d = Inr x \<Longrightarrow> Q x \<rho>"
  shows "tri ident \<rho> (reading f) Q"
  by (rule triI) (use assms in \<open>auto simp: reading_def rows_of_def split: prod.splits\<close>)

definition row_at :: "identity \<Rightarrow> stage \<Rightarrow> checkpoint \<Rightarrow> bool" where
  "row_at ident s c \<longleftrightarrow> valid_cp c \<and> cp_identity c = ident \<and> cp_stage c = s"

lemma tri_get:
  "tri ident \<rho> (reading (\<lambda>d. get d ident s))
     (\<lambda>x \<rho>'. x = \<rho> s \<and> \<rho>' = \<rho> \<and> pred_option (row_at ident s) x)"
proof (rule tri_reading)
  fix d x assume ok: "db_ok d" and r: "stored d ident = \<rho>" and g: "get d ident s = Inr x"
  have x: "x = stored d ident s" using get_stored [OF ok] g by simp
  have "pred_option (row_at ident s) (stored d ident s)"
    using stored_valid [OF ok] by (cases "stored d ident s") (auto simp: row_at_def)
  then show "x = \<rho> s \<and> \<rho> = \<rho> \<and> pred_option (row_at ident s) x" using x r by simp
qed

lemma tri_writing:
  assumes "\<And>st d x d'. db_ok d \<Longrightarrow> stored d ident = \<rho> \<Longrightarrow> op st d = Inr (x, d') \<Longrightarrow>
    db_ok d' \<and> Q x (stored d' ident)"
  shows "tri ident \<rho> (writing en op) Q"
proof (rule triI)
  fix t r t' assume ok: "db_ok (fst t)" and rows: "rows_of ident t = \<rho>" and w: "writing en op t = (r, t')"
  obtain d lg w0 where t: "t = (d, lg, w0)" by (cases t)
  obtain st w1 where st: "en_stamp en w0 = (st, w1)" by (cases "en_stamp en w0")
  show "db_ok (fst t') \<and> (\<forall>x. r = Inr x \<longrightarrow> Q x (rows_of ident t'))"
  proof (cases "op st d")
    case (Inl e)
    then show ?thesis using w t st ok by (auto simp: writing_def)
  next
    case (Inr a)
    obtain x d' where a: "a = (x, d')" by (cases a)
    have "db_ok d' \<and> Q x (stored d' ident)"
      using assms [of d st x d'] Inr a ok rows t by (simp add: rows_of_def)
    then show ?thesis using w t st Inr a by (auto simp: writing_def rows_of_def)
  qed
qed

text \<open>A transaction whose \<open>ValueError\<close> is turned into \<open>None\<close>: no exception leaves a trace.\<close>

lemma tri_try_writing:
  assumes "\<And>st d x d'. db_ok d \<Longrightarrow> stored d ident = \<rho> \<Longrightarrow> op st d = Inr (x, d') \<Longrightarrow>
    db_ok d' \<and> Q (Some (g x)) (stored d' ident)"
    and none: "Q None \<rho>"
  shows "tri ident \<rho> (tryE (bindE (writing en op) (\<lambda>x. retE (Some (g x))))
      (\<lambda>e. if is_value_error e then Some (retE None) else None)) Q"
proof (rule triI)
  fix t r t' assume ok: "db_ok (fst t)" and rows: "rows_of ident t = \<rho>"
    and w: "tryE (bindE (writing en op) (\<lambda>x. retE (Some (g x))))
      (\<lambda>e. if is_value_error e then Some (retE None) else None) t = (r, t')"
  obtain d lg w0 where t: "t = (d, lg, w0)" by (cases t)
  obtain st w1 where st: "en_stamp en w0 = (st, w1)" by (cases "en_stamp en w0")
  show "db_ok (fst t') \<and> (\<forall>x. r = Inr x \<longrightarrow> Q x (rows_of ident t'))"
  proof (cases "op st d")
    case (Inl e)
    then show ?thesis
      using w t st ok rows none
      by (auto simp: tryE_def bindE_def writing_def rows_of_def split: if_splits)
  next
    case (Inr a)
    obtain x d' where a: "a = (x, d')" by (cases a)
    have "db_ok d' \<and> Q (Some (g x)) (stored d' ident)"
      using assms(1) [of d st x d'] Inr a ok rows t by (simp add: rows_of_def)
    then show ?thesis
      using w t st Inr a by (auto simp: tryE_def bindE_def writing_def rows_of_def)
  qed
qed

section \<open>The injected components\<close>

text \<open>
  The contract of the handlers, the coordinator and the probes: the checkpoint rows of a
  hypothesis are the runner's own.
\<close>

definition env_frames :: "identity \<Rightarrow> 'w env \<Rightarrow> bool" where
  "env_frames ident en \<longleftrightarrow>
     (\<forall>s h c pr t r t'. en_handlers en s = Some h \<longrightarrow> h c pr t = (r, t') \<longrightarrow> frames ident t t')
     \<and> (\<forall>decide c f. en_recovery en = Some decide \<longrightarrow> row_framed ident (decide c f))
     \<and> (\<forall>probe. en_offline_base_ready en = Some probe \<longrightarrow> row_framed ident probe)
     \<and> (\<forall>c a. row_framed ident (en_cleanup_confirmed en c a))"

lemma row_framed_decide: "env_frames ident en \<Longrightarrow> en_recovery en = Some decide \<Longrightarrow> row_framed ident (decide c f)"
  by (simp add: env_frames_def)

lemma row_framed_probe:
  "env_frames ident en \<Longrightarrow> en_offline_base_ready en = Some probe \<Longrightarrow> row_framed ident probe"
  by (simp add: env_frames_def)

lemma row_framed_cleanup: "env_frames ident en \<Longrightarrow> row_framed ident (en_cleanup_confirmed en c a)"
  by (simp add: env_frames_def)

lemma row_framed_covering:
  "row_framed ident (\<lambda>(d, lg, w). (Inr (confirmed_codex_call_covering lg a t), (d, lg, w)))"
  by (rule row_framed_read) (auto split: prod.split)

lemma row_framed_cleanup_allows: "env_frames ident en \<Longrightarrow> row_framed ident (cleanup_allows_replay en c)"
  unfolding cleanup_allows_replay_def
  by (auto intro!: row_framed_ret row_framed_try row_framed_bind row_framed_unresolved row_framed_cleanup
      row_framed_covering split: option.split py_error.splits)

section \<open>Rows after a transaction\<close>

definition restart_rows :: "rows \<Rightarrow> stage \<Rightarrow> checkpoint \<Rightarrow> rows" where
  "restart_rows \<rho> r p = (\<lambda>t. if t < r then \<rho> t else if t = r then Some p else None)"

definition pending_row :: "identity \<Rightarrow> stage \<Rightarrow> checkpoint \<Rightarrow> bool" where
  "pending_row ident r p \<longleftrightarrow> row_at ident r p \<and> cp_status p = PENDING
     \<and> cp_stage_version p = STAGE_VERSION r"

lemma restart_rows_upd: "r \<le> s \<Longrightarrow> restart_rows (\<rho>(s \<mapsto> c)) r p = restart_rows \<rho> r p"
  by (rule ext) (auto simp: restart_rows_def)

lemma write_tx_rows:
  assumes "write_tx st fail c run es d = Inr d'"
  shows "stored d' (cp_identity c) = (stored d (cp_identity c))(cp_stage c \<mapsto> c)"
  by (rule ext) (simp add: write_tx_stored [OF assms])

lemma restart_stored_rows:
  "stored (mark_dirty st a (upsert_checkpoint p
      (delete_stages (cp_identity p) (stages_from (cp_stage p)) d))) (cp_identity p)
     = restart_rows (stored d (cp_identity p)) (cp_stage p) p"
  by (rule ext) (auto simp: stored_upsert stored_delete restart_rows_def row_key_of set_stages_from)

lemma append_activity_stored: "append_activity es d = Inr d' \<Longrightarrow> stored d' ident = stored d ident"
  by (rule ext) (auto elim!: append_activity_cases)

text \<open>The row a recovery leaves: it counts the failed attempt and keeps the origin of the lineage.\<close>

definition recovered_from :: "identity \<Rightarrow> rows \<Rightarrow> checkpoint \<Rightarrow> rows \<Rightarrow> bool" where
  "recovered_from ident \<rho> c \<rho>' \<longleftrightarrow> (\<exists>r p. \<rho>' = restart_rows \<rho> r p \<and> pending_row ident r p
     \<and> r \<le> cp_stage c \<and> r \<in> {cp_stage c, VERIFICATION_INITIAL_DONE, POC_CANDIDATE_DONE}
     \<and> cp_attempt_number p = cp_attempt_number c \<and> cp_attempt_number c < MAX_RECOVERY_ATTEMPTS
     \<and> cp_gate_revision_count p = cp_gate_revision_count c
     \<and> cp_recovery_origin_stage p
         = Some (case cp_recovery_origin_stage c of None \<Rightarrow> cp_stage c | Some s \<Rightarrow> s))"

definition revised_from :: "identity \<Rightarrow> rows \<Rightarrow> checkpoint \<Rightarrow> rows \<Rightarrow> bool" where
  "revised_from ident \<rho> c \<rho>' \<longleftrightarrow> cp_stage c = TECH_GATE_DONE \<and> cp_gate_revision_count c < 2
     \<and> (\<exists>p. \<rho>' = restart_rows \<rho> POC_CANDIDATE_DONE p \<and> pending_row ident POC_CANDIDATE_DONE p
          \<and> cp_gate_revision_count p = cp_gate_revision_count c + 1)"

lemma recovery_restart_stage_cases:
  "recovery_restart_stage s a = Some r \<Longrightarrow>
     r \<in> {s, VERIFICATION_INITIAL_DONE, POC_CANDIDATE_DONE}"
  by (auto simp: recovery_restart_stage_def split: if_splits)

lemma tri_prepare_recovery:
  assumes c: "row_at ident s c" and r: "r \<in> {s, VERIFICATION_INITIAL_DONE, POC_CANDIDATE_DONE}"
    and a: "cp_attempt_number c < MAX_RECOVERY_ATTEMPTS"
  shows "tri ident \<rho> (writing en (\<lambda>st. prepare_recovery safe st c res r fail))
           (\<lambda>_. recovered_from ident \<rho> c)"
proof (rule tri_writing)
  fix st d x d' assume ok: "db_ok d" and rho: "stored d ident = \<rho>"
    and p: "prepare_recovery safe st c res r fail d = Inr (x, d')"
  have "db_ok d'" using prepare_recovery_extends [OF p] c ok by (simp add: row_at_def extends_def)
  moreover obtain l e d1 where x: "r \<le> cp_stage c"
    "x = recovery_pending st c res r (stored d (cp_identity c) r) l"
    "append_activity [e] d = Inr d1"
    "d' = mark_dirty st (id_analysis (cp_identity c)) (upsert_checkpoint x
            (delete_stages (cp_identity c) (stages_from r) d1))"
    by (rule prepare_recovery_cases [OF ok p]) blast
  have "stored d' ident = restart_rows \<rho> r x"
    using restart_stored_rows [of st "id_analysis (cp_identity c)" x d1] x c rho
      append_activity_stored [OF x(3)] by (simp add: row_at_def)
  moreover have "pending_row ident r x"
    using c x(2) valid_recovery_pending by (simp add: pending_row_def row_at_def)
  ultimately show "db_ok d' \<and> recovered_from ident \<rho> c (stored d' ident)"
    unfolding recovered_from_def using x(1,2) c r a
    by (intro conjI exI [of _ r] exI [of _ x]) (auto simp: row_at_def)
qed

lemma tri_mark_failure:
  assumes c: "row_at ident s c"
  shows "tri ident \<rho> (writing en (\<lambda>st. mark_failure safe st c f status a))
           (\<lambda>x \<rho>'. \<exists>st. x = failed_cp st c f status \<and> \<rho>' = \<rho>(s \<mapsto> x))"
proof (rule tri_writing)
  fix st d x d' assume ok: "db_ok d" and rho: "stored d ident = \<rho>"
    and m: "mark_failure safe st c f status a d = Inr (x, d')"
  obtain e where x: "x = failed_cp st c f status" "write_tx st False x None [e] d = Inr d'"
    by (rule mark_failure_write [OF m]) blast
  have "cp_identity x = ident" "cp_stage x = s" using c x(1) by (simp_all add: failed_cp_def row_at_def)
  then show "db_ok d' \<and> (\<exists>st. x = failed_cp st c f status \<and> stored d' ident = \<rho>(s \<mapsto> x))"
    using mark_failure_extends [OF m] c ok write_tx_rows [OF x(2)] x(1) rho
    by (auto simp: row_at_def extends_def)
qed

lemma row_at_failed_cp: "row_at ident s (failed_cp st c f status) = row_at ident s c"
  by (simp add: row_at_def failed_cp_def)

section \<open>Rows after the parts of the runner\<close>

text \<open>The outcomes of a run that did not come to the end of the stages.\<close>

definition ends_early :: "run_outcome \<Rightarrow> bool" where
  "ends_early out \<longleftrightarrow> \<not> (ro_stage out = REPORT_DONE \<and> ro_status out = SUCCEEDED)"

lemma ends_early_outcome [simp]:
  "ends_early (outcome s status e a) \<longleftrightarrow> \<not> (s = REPORT_DONE \<and> status = SUCCEEDED)"
  by (simp add: ends_early_def outcome_def)

lemma ends_early_recorded [simp]:
  "ends_early (recorded s c) \<longleftrightarrow> \<not> (s = REPORT_DONE \<and> cp_status c = SUCCEEDED)"
  by (simp add: recorded_def)

lemma tri_verified_initial:
  "row_at ident s c \<Longrightarrow> tri ident \<rho> (verified_initial_terminal en c) (\<lambda>out _. ro_stage out = cp_stage c)"
  unfolding verified_initial_terminal_def Let_def
  by (auto simp: outcome_def intro!: tri_ret tri_raise tri_bind [OF tri_mark_failure] split: option.split sum.split)

lemma tri_verified_poc:
  "row_at ident s c \<Longrightarrow> tri ident \<rho> (verified_poc_terminal en c) (\<lambda>out _. ro_stage out = cp_stage c)"
  unfolding verified_poc_terminal_def Let_def
  by (auto simp: outcome_def intro!: tri_ret tri_raise tri_bind [OF tri_mark_failure] split: option.split sum.split)

lemma tri_promote_initial:
  assumes c: "row_at ident s c"
  shows "tri ident \<rho> (promote_initial en c)
     (\<lambda>x \<rho>'. (x = None \<longrightarrow> \<rho>' = \<rho>) \<and> pred_option ends_early x)"
proof (cases "en_artifacts en")
  case (Some art)
  have tr: "tri ident \<rho> (tryE (bindE (writing en (\<lambda>st. promote_initial_environment_inconclusive
        (en_safe en) st c art)) (\<lambda>r. retE (Some r)))
      (\<lambda>e. if is_value_error e then Some (retE None) else None))
      (\<lambda>x \<rho>'. (x = None \<longrightarrow> \<rho>' = \<rho>) \<and> pred_option (row_at ident s) x)"
  proof (rule tri_try_writing)
    fix st d x d' assume ok: "db_ok d"
      and p: "promote_initial_environment_inconclusive (en_safe en) st c art d = Inr (x, d')"
    have "row_at ident s x"
      by (rule promote_initial_cases [OF ok p]) (use c in \<open>auto simp: row_at_def\<close>)
    then show "db_ok d' \<and> (Some x = None \<longrightarrow> stored d' ident = \<rho>)
        \<and> pred_option (row_at ident s) (Some x)"
      using promote_initial_extends [OF p ok] by (simp add: extends_def)
  qed simp
  show ?thesis
    unfolding promote_initial_def Some option.case
  proof (rule tri_if, (rule tri_ret, simp), rule tri_bind [OF tr], rule tri_option, (rule tri_ret, simp))
    fix x y \<rho>'
    assume g: "\<not> (cp_stage c \<noteq> VERIFICATION_INITIAL_DONE \<or> cp_status c \<noteq> BLOCKED
             \<or> cp_error_code c \<notin> {Some ''POC_AUTO_BUNDLE_DOWNLOAD_FAILED'',
                                  Some ''RECOVERY_EXHAUSTED''})"
      and x: "(x = None \<longrightarrow> \<rho>' = \<rho>) \<and> pred_option (row_at ident s) x" "x = Some y"
    have y: "row_at ident s y" "cp_stage y \<noteq> REPORT_DONE" using g x c by (auto simp: row_at_def)
    show "tri ident \<rho>' (bindE (verified_initial_terminal en y) (\<lambda>out. retE (Some out)))
        (\<lambda>x \<rho>'. (x = None \<longrightarrow> \<rho>' = \<rho>) \<and> pred_option ends_early x)"
      by (rule tri_bind [OF tri_verified_initial [OF y(1)]]) (use y(2) in \<open>auto intro!: tri_ret simp: ends_early_def\<close>)
  qed
qed (simp add: promote_initial_def tri_ret)

lemma tri_promote_stopped:
  "tri ident \<rho> (promote_stopped_poc en c)
     (\<lambda>x \<rho>'. (x = None \<longrightarrow> \<rho>' = \<rho>) \<and> pred_option ends_early x)"
  unfolding promote_stopped_poc_def
  by (intro tri_if tri_ret tri_try_writing)
     (auto dest: promote_execution_extends extends_ok)

lemma tri_decided:
  assumes c: "row_at ident s c" and a: "cp_attempt_number c < MAX_RECOVERY_ATTEMPTS"
    and out: "ends_early out"
  shows "tri ident \<rho> (recovery_decided en c out res)
           (\<lambda>x \<rho>'. (x = None \<longrightarrow> recovered_from ident \<rho> c \<rho>') \<and> pred_option ends_early x)"
proof -
  have stop: "tri ident \<rho> (writing en (\<lambda>st. record_recovery_stop (en_safe en) st c res False))
      (\<lambda>y _. row_at ident s y)" for \<rho>
    using c by (auto intro!: tri_writing simp: row_at_def
        dest: record_recovery_stop_extends record_recovery_stop_cases(2) extends_ok)
  have dec: "tri ident \<rho> (writing en (\<lambda>st. record_recovery_decision (en_safe en) st c res False))
      (\<lambda>_ _. True)"
    using c by (auto intro!: tri_writing simp: row_at_def
        dest: record_recovery_decision_extends extends_ok)
  have prep: "tri ident \<rho> (writing en (\<lambda>st. prepare_recovery (en_safe en) st c res r False))
      (\<lambda>_. recovered_from ident \<rho> c)"
    if "recovery_restart_stage (cp_stage c) act = Some r" for r act
    using recovery_restart_stage_cases [OF that] tri_prepare_recovery [OF c _ a] c
    by (simp add: row_at_def)
  show ?thesis
    unfolding recovery_decided_def
    using out by (auto intro!: tri_if tri_option tri_ret tri_bind [OF stop] tri_bind [OF tri_promote_initial]
      tri_bind [OF tri_promote_stopped] tri_bind [OF dec] tri_bind [OF prep])
qed

lemma tri_after_failure:
  assumes en: "env_frames ident en" and c: "row_at ident s c" and st: "status \<noteq> SUCCEEDED"
  shows "tri ident \<rho> (after_failure en f status c)
           (\<lambda>x \<rho>'. (x = None \<longrightarrow> recovered_from ident \<rho> c \<rho>') \<and> pred_option ends_early x)"
proof -
  have exh: "tri ident \<rho> (writing en (\<lambda>st. mark_recovery_exhausted (en_safe en) st c)) (\<lambda>_ _. True)"
    using c by (auto intro!: tri_writing simp: row_at_def
        dest: mark_recovery_exhausted_extends extends_ok)
  show ?thesis
    unfolding after_failure_def Let_def
    using st
    by (auto intro!: tri_decided [OF c] tri_if tri_option tri_ret tri_bind [OF exh]
      tri_bind [OF tri_framed [OF row_framed_decide [OF en]]])
qed

lemma failed_cp_fields [simp]:
  "cp_identity (failed_cp st c f status) = cp_identity c"
  "cp_stage (failed_cp st c f status) = cp_stage c"
  "cp_attempt_number (failed_cp st c f status) = cp_attempt_number c"
  "cp_gate_revision_count (failed_cp st c f status) = cp_gate_revision_count c"
  "cp_recovery_origin_stage (failed_cp st c f status) = cp_recovery_origin_stage c"
  by (simp_all add: failed_cp_def)

lemma recovered_from_failed:
  assumes "recovered_from ident (\<rho>(cp_stage c \<mapsto> x)) (failed_cp st c f status) \<rho>'"
  shows "recovered_from ident \<rho> c \<rho>'"
proof -
  obtain r p where h: "\<rho>' = restart_rows (\<rho>(cp_stage c \<mapsto> x)) r p \<and> pending_row ident r p
     \<and> r \<le> cp_stage c \<and> r \<in> {cp_stage c, VERIFICATION_INITIAL_DONE, POC_CANDIDATE_DONE}
     \<and> cp_attempt_number p = cp_attempt_number c \<and> cp_attempt_number c < MAX_RECOVERY_ATTEMPTS
     \<and> cp_gate_revision_count p = cp_gate_revision_count c
     \<and> cp_recovery_origin_stage p
         = Some (case cp_recovery_origin_stage c of None \<Rightarrow> cp_stage c | Some s \<Rightarrow> s)"
    using assms unfolding recovered_from_def failed_cp_fields by blast
  then have "restart_rows (\<rho>(cp_stage c \<mapsto> x)) r p = restart_rows \<rho> r p"
    by (simp add: restart_rows_upd)
  with h show ?thesis
    unfolding recovered_from_def by (intro exI [of _ r] exI [of _ p]) simp
qed

lemma tri_recover_or_stop:
  assumes en: "env_frames ident en" and c: "row_at ident s c" and status: "status \<noteq> SUCCEEDED"
  shows "tri ident \<rho> (recover_or_stop en c f status already)
           (\<lambda>x \<rho>'. (x = None \<longrightarrow> recovered_from ident \<rho> c \<rho>') \<and> pred_option ends_early x)"
proof (cases already)
  case True
  then show ?thesis using tri_after_failure [OF en c status] by (simp add: recover_or_stop_def)
next
  case False
  have step: "tri ident \<rho>' (after_failure en f status x)
      (\<lambda>y \<rho>''. (y = None \<longrightarrow> recovered_from ident \<rho> c \<rho>'') \<and> pred_option ends_early y)"
    if failed: "\<exists>st. x = failed_cp st c f status \<and> \<rho>' = \<rho>(s \<mapsto> x)" for x \<rho>'
  proof -
    obtain st where x: "x = failed_cp st c f status" "\<rho>' = \<rho>(s \<mapsto> x)" using failed by blast
    have "row_at ident s x" using c x(1) by (simp add: row_at_failed_cp)
    from tri_after_failure [OF en this status] show ?thesis
      by (rule tri_weaken) (use recovered_from_failed x c in \<open>auto simp: row_at_def\<close>)
  qed
  have "tri ident \<rho> (bindE (writing en (\<lambda>st. mark_failure (en_safe en) st c f status None))
      (after_failure en f status))
      (\<lambda>x \<rho>'. (x = None \<longrightarrow> recovered_from ident \<rho> c \<rho>') \<and> pred_option ends_early x)"
    by (rule tri_bind [OF tri_mark_failure [OF c]]) (rule step)
  then show ?thesis using False by (simp add: recover_or_stop_def)
qed

section \<open>Completing a stage\<close>

text \<open>
  A stage that the loop passes by: complete in its current version, its gate neither rejected nor
  sent back, its final verdict not FALSE.
\<close>

definition gate_passed :: "stage \<Rightarrow> checkpoint \<Rightarrow> bool" where
  "gate_passed s c \<longleftrightarrow> cp_status c = SUCCEEDED \<and> cp_stage_version c = STAGE_VERSION s
     \<and> (s = TECH_GATE_DONE \<longrightarrow> cp_gate_decision c \<notin> {Some REVISE, Some REJECT})"

definition done_row :: "stage \<Rightarrow> checkpoint \<Rightarrow> bool" where
  "done_row s c \<longleftrightarrow> gate_passed s c \<and> (s = VERIFICATION_FINAL_DONE \<longrightarrow> cp_verdict c \<noteq> Some V_FALSE)"

definition completes :: "checkpoint \<Rightarrow> checkpoint \<Rightarrow> bool" where
  "completes c c' \<longleftrightarrow> cp_attempt_number c' = cp_attempt_number c
     \<and> cp_gate_revision_count c' = cp_gate_revision_count c
     \<and> (if cp_recovery_origin_stage c = Some (cp_stage c) then cp_recovery_origin_stage c' = None
        else cp_recovery_origin_stage c' = cp_recovery_origin_stage c)"

lemma stored_lookup: "stored d ident s = Some c \<Longrightarrow> cp_lookup (db_checkpoints d) (key_of ident s) = Some c"
  by (auto simp: stored_def split: option.splits if_splits)

lemma tri_gate_revision:
  assumes c: "row_at ident s c" and rho: "\<rho> s = Some c"
  shows "tri ident \<rho> (writing en (\<lambda>st. prepare_gate_revision st c fail)) (\<lambda>_. revised_from ident \<rho> c)"
proof (rule tri_writing)
  fix st d x d' assume ok: "db_ok d" and r: "stored d ident = \<rho>"
    and p: "prepare_gate_revision st c fail d = Inr (x, d')"
  note guard = prepare_gate_revision_guard [OF p]
  have lk: "cp_lookup (db_checkpoints d) (key_of (cp_identity c) TECH_GATE_DONE) = Some c"
    using stored_lookup [of d ident s c] rho r c guard(1) by (auto simp: row_at_def)
  have "valid_cp x \<and> cp_identity x = cp_identity c \<and> cp_stage x = POC_CANDIDATE_DONE
      \<and> cp_status x = PENDING \<and> cp_stage_version x = STAGE_VERSION POC_CANDIDATE_DONE
      \<and> cp_gate_revision_count x = cp_gate_revision_count c + 1
      \<and> stored d' (cp_identity c) = restart_rows (stored d (cp_identity c)) POC_CANDIDATE_DONE x"
  proof (cases rule: prepare_gate_revision_cases [OF ok p])
    case 1
    then show ?thesis using lk by simp
  next
    case (2 cand exe)
    then show ?thesis
      using restart_stored_rows [of st "id_analysis (cp_identity c)" x d] guard(6) c
      by (simp add: valid_cp_def row_at_def)
  qed
  then show "db_ok d' \<and> revised_from ident \<rho> c (stored d' ident)"
    using prepare_gate_revision_extends [OF p ok] guard(1,6) c r
    by (auto simp: revised_from_def pending_row_def row_at_def extends_def)
qed

lemma tri_gate_action:
  assumes "row_at ident s c" "\<rho> s = Some c" "cp_status c = SUCCEEDED"
    "cp_stage_version c = STAGE_VERSION s"
  shows "tri ident \<rho> (gate_action en c) (\<lambda>act \<rho>'. case act of
           GRestart \<Rightarrow> revised_from ident \<rho> c \<rho>' | GNone \<Rightarrow> \<rho>' = \<rho> \<and> gate_passed s c
         | GReturn out \<Rightarrow> ends_early out)"
  unfolding gate_action_def
  by (intro tri_if tri_ret tri_bind [OF tri_gate_revision [where \<rho> = \<rho>, OF assms(1,2)]])
     (use assms in \<open>auto simp: gate_passed_def row_at_def terminal_gate_outcome_def\<close>)

lemma tri_after_complete:
  assumes c: "row_at ident s c" "\<rho> s = Some c" "cp_status c = SUCCEEDED"
    "cp_stage_version c = STAGE_VERSION s"
    and hold: "hold \<longrightarrow> s \<noteq> REPORT_DONE"
  shows "tri ident \<rho> (after_complete en s hold c) (\<lambda>fl \<rho>'. case fl of
           FContinue \<Rightarrow> \<rho>' = \<rho> \<and> done_row s c | FRestart \<Rightarrow> revised_from ident \<rho> c \<rho>'
         | FReturn out \<Rightarrow> ends_early out)"
proof -
  have n: "terminal_initial_outcome (Some c) \<noteq> None \<Longrightarrow> cp_stage c \<noteq> REPORT_DONE"
    "terminal_poc_outcome (Some c) \<noteq> None \<or> cp_poc_stop_decision_ref c \<noteq> None \<Longrightarrow> cp_stage c \<noteq> REPORT_DONE"
    using c(1) by (auto simp: terminal_initial_outcome_def terminal_poc_outcome_def row_at_def
        valid_cp_def split: if_splits)
  have ver: "tri ident \<rho> (bindE m (\<lambda>out. retE (FReturn out))) (\<lambda>fl \<rho>'. case fl of
           FContinue \<Rightarrow> \<rho>' = \<rho> \<and> done_row s c | FRestart \<Rightarrow> revised_from ident \<rho> c \<rho>'
         | FReturn out \<Rightarrow> ends_early out)"
    if "tri ident \<rho> m (\<lambda>out _. ro_stage out = cp_stage c)" "cp_stage c \<noteq> REPORT_DONE" for m
    by (rule tri_bind [OF that(1)]) (use that(2) in \<open>auto intro!: tri_ret simp: ends_early_def\<close>)
  show ?thesis
    unfolding after_complete_def
    by (intro tri_if tri_bind [OF tri_gate_action [where \<rho> = \<rho>, OF c]] ver
          tri_verified_initial [OF c(1)] tri_verified_poc [OF c(1)])
       (use n hold in \<open>auto intro!: tri_ret simp: done_row_def split: gate_act.splits\<close>)
qed

lemma tri_complete:
  assumes c: "row_at ident s c"
  shows "tri ident \<rho> (writing en (\<lambda>st. complete_stage safe st c result run))
     (\<lambda>x \<rho>'. \<rho>' = \<rho>(s \<mapsto> x) \<and> row_at ident s x \<and> completes c x
        \<and> cp_status x = SUCCEEDED \<and> cp_stage_version x = cp_stage_version c)"
proof (rule tri_writing)
  fix st d x d' assume ok: "db_ok d" and r: "stored d ident = \<rho>"
    and w: "complete_stage safe st c result run d = Inr (x, d')"
  obtain e where x: "x = completed_cp st c result"
    "write_tx st False x run (res_activity_events result @ [e]) d = Inr d'"
    by (rule complete_write [OF w]) blast
  have "completes c x" by (simp add: x(1) completes_def completed_cp_def Let_def)
  moreover have "row_at ident s x" using c x(1) valid_completed_cp by (simp add: row_at_def)
  ultimately show "db_ok d' \<and> stored d' ident = \<rho>(s \<mapsto> x) \<and> row_at ident s x \<and> completes c x
        \<and> cp_status x = SUCCEEDED \<and> cp_stage_version x = cp_stage_version c"
    using complete_extends [OF w] ok c write_tx_rows [OF x(2)] x(1) r
    by (auto simp: row_at_def extends_def)
qed

text \<open>How the run of a started stage ends.\<close>

definition stage_flow :: "identity \<Rightarrow> rows \<Rightarrow> stage \<Rightarrow> checkpoint \<Rightarrow> flow \<Rightarrow> rows \<Rightarrow> bool" where
  "stage_flow ident \<rho> s c fl \<rho>' \<longleftrightarrow>
     (case fl of
        FContinue \<Rightarrow> \<exists>c'. \<rho>' = \<rho>(s \<mapsto> c') \<and> row_at ident s c' \<and> done_row s c' \<and> completes c c'
      | FRestart \<Rightarrow> recovered_from ident \<rho> c \<rho>'
          \<or> (\<exists>c'. row_at ident s c' \<and> completes c c' \<and> revised_from ident \<rho> c' \<rho>')
      | FReturn out \<Rightarrow> ends_early out)"

lemma revised_from_upd:
  assumes "revised_from ident (\<rho>(s \<mapsto> x)) c \<rho>'" "cp_stage c = s"
  shows "revised_from ident \<rho> c \<rho>'"
proof -
  have "restart_rows (\<rho>(TECH_GATE_DONE \<mapsto> x)) POC_CANDIDATE_DONE p
      = restart_rows \<rho> POC_CANDIDATE_DONE p" for p
    by (rule restart_rows_upd) (simp add: less_eq_stage_def)
  then show ?thesis using assms by (auto simp: revised_from_def)
qed

lemma tri_completed:
  assumes c: "row_at ident s c" and v: "cp_stage_version c = STAGE_VERSION s"
    and hold: "hold \<longrightarrow> s \<noteq> REPORT_DONE"
  shows "tri ident \<rho> (bindE (writing en (\<lambda>st. complete_stage (en_safe en) st c result None))
      (after_complete en s hold)) (stage_flow ident \<rho> s c)"
proof (rule tri_bind [OF tri_complete [OF c]])
  fix x \<rho>'
  assume x: "\<rho>' = \<rho>(s \<mapsto> x) \<and> row_at ident s x \<and> completes c x
        \<and> cp_status x = SUCCEEDED \<and> cp_stage_version x = cp_stage_version c"
  have "tri ident \<rho>' (after_complete en s hold x) (\<lambda>fl \<rho>''. case fl of
           FContinue \<Rightarrow> \<rho>'' = \<rho>' \<and> done_row s x | FRestart \<Rightarrow> revised_from ident \<rho>' x \<rho>''
         | FReturn out \<Rightarrow> ends_early out)"
    by (rule tri_after_complete) (use x v hold in auto)
  then show "tri ident \<rho>' (after_complete en s hold x) (stage_flow ident \<rho> s c)"
    by (rule tri_weaken)
       (use x revised_from_upd in \<open>auto simp: stage_flow_def row_at_def split: flow.splits\<close>)
qed

lemma tri_recovery_flow:
  assumes "env_frames ident en" "row_at ident s c" "status \<noteq> SUCCEEDED"
  shows "tri ident \<rho> (bindE (recover_or_stop en c f status already)
      (\<lambda>r. retE (flow_of_recovery r))) (stage_flow ident \<rho> s c)"
  by (rule tri_bind [OF tri_recover_or_stop [OF assms]])
     (auto intro!: tri_ret simp: flow_of_recovery_def stage_flow_def split: option.split)

lemma tri_handler:
  assumes en: "env_frames ident en" "en_handlers en s = Some h" and m: "\<And>reply. tri ident \<rho> (m reply) Q"
  shows "tri ident \<rho> (\<lambda>t. case h c pr t of (reply, t') \<Rightarrow> m reply t') Q"
proof (rule triI)
  fix t r u assume ok: "db_ok (fst t)" and rho: "rows_of ident t = \<rho>"
    and h: "(case h c pr t of (reply, t') \<Rightarrow> m reply t') = (r, u)"
  obtain reply t' where t': "h c pr t = (reply, t')" by (cases "h c pr t")
  have "frames ident t t'"
    using en(1) [unfolded env_frames_def, THEN conjunct1, rule_format, OF en(2) t'] .
  then have a: "db_ok (fst t')" "rows_of ident t' = \<rho>" using ok rho by (simp_all add: frames_def)
  have b: "m reply t' = (r, u)" using h t' by simp
  show "db_ok (fst u) \<and> (\<forall>x. r = Inr x \<longrightarrow> Q x (rows_of ident u))"
    using triD [OF m a b] by blast
qed

lemma tri_run_handler:
  assumes en: "env_frames ident en" and c: "row_at ident s c" "cp_stage_version c = STAGE_VERSION s"
  shows "tri ident \<rho> (run_handler en s final c pr) (stage_flow ident \<rho> s c)"
proof (cases "en_handlers en s")
  case None
  then show ?thesis
    by (auto simp: run_handler_def stage_flow_def intro!: tri_ret tri_bind [OF tri_mark_failure [OF c(1)]])
next
  case (Some h)
  have canc: "tri ident \<rho> (bindE (writing en (\<lambda>st. mark_failure (en_safe en) st c f BLOCKED None))
      (\<lambda>_. raiseE CancelledError)) (stage_flow ident \<rho> s c)" for f
    by (rule tri_bind [OF tri_mark_failure [OF c(1)]]) (rule tri_raise)
  show ?thesis
    unfolding run_handler_def Some option.case
    by (rule tri_handler [OF en Some])
       (simp add: tri_completed [OF c] tri_recovery_flow [OF en c(1)] canc split: handler_reply.split)
qed

end
