(* ===== verification/Runner_Stage.thy ===== *)
theory Runner_Stage
  imports Runner_Rows
begin

text \<open>
  What one stage of a round leaves behind: the attempt and the lineage a started stage inherits,
  and the rows after it when it is passed by, completed, restarted or ends the run.
\<close>

section \<open>Starting a stage\<close>

definition present :: "rows \<Rightarrow> stage list \<Rightarrow> (stage \<times> checkpoint) list" where
  "present \<rho> ss = concat (map (\<lambda>t. case \<rho> t of None \<Rightarrow> [] | Some c \<Rightarrow> [(t, c)]) ss)"

definition preceding_row :: "rows \<Rightarrow> stage \<Rightarrow> checkpoint option" where
  "preceding_row \<rho> s =
     (let pr = present \<rho> (stages_before s) in if pr = [] then None else Some (snd (last pr)))"

lemma prior_present:
  assumes ok: "db_ok d"
  shows "prior d ident s = Inr (present (stored d ident) (stages_before s))"
proof -
  have "foldR (\<lambda>acc item. bindR (get d ident item)
              (\<lambda>c. Inr (case c of None \<Rightarrow> acc | Some c \<Rightarrow> acc @ [(item, c)]))) acc ss
      = Inr (acc @ present (stored d ident) ss)" for acc ss
    by (induction ss arbitrary: acc) (auto simp: present_def get_stored [OF ok] split: option.split)
  then show ?thesis by (simp add: prior_def)
qed

lemma stages_before_split:
  "t < s \<Longrightarrow> \<exists>mid. stages_before s = stages_before t @ t # mid \<and> (\<forall>u \<in> set mid. t < u \<and> u < s)"
  by (rule exI [of _ "drop (Suc (stage_index t)) (stages_before s)"], cases t; cases s)
     (simp_all add: stages_before_def STAGE_ORDER_def less_stage_def)

lemma preceding_row_last:
  assumes "t < s" "\<rho> t = Some q" "\<And>u. t < u \<Longrightarrow> u < s \<Longrightarrow> \<rho> u = None"
  shows "preceding_row \<rho> s = Some q"
proof -
  obtain mid where mid: "stages_before s = stages_before t @ t # mid"
    "\<forall>u \<in> set mid. t < u \<and> u < s"
    using stages_before_split [OF assms(1)] by blast
  have "present \<rho> mid = []" using mid(2) assms(3) by (simp add: present_def)
  then have "present \<rho> (stages_before s) = present \<rho> (stages_before t) @ [(t, q)]"
    by (simp add: mid(1) present_def assms(2))
  then show ?thesis by (simp add: preceding_row_def)
qed

lemma stored_row_at: "db_ok d \<Longrightarrow> stored d ident s = Some c \<Longrightarrow> row_at ident s c"
  by (simp add: row_at_def stored_valid)

lemma present_valid:
  "db_ok d \<Longrightarrow> \<forall>x \<in> set (present (stored d ident) ss). valid_cp (snd x)"
  by (auto simp: present_def stored_valid split: option.splits)

text \<open>The row a started stage runs with: what it counts and inherits.\<close>

definition started :: "identity \<Rightarrow> rows \<Rightarrow> stage \<Rightarrow> checkpoint \<Rightarrow> bool" where
  "started ident \<rho> s c \<longleftrightarrow> row_at ident s c \<and> cp_stage_version c = STAGE_VERSION s
     \<and> (\<forall>p. \<rho> s = Some p \<longrightarrow> cp_status p = PENDING \<longrightarrow>
          cp_attempt_number c = cp_attempt_number p + 1
          \<and> cp_gate_revision_count c = cp_gate_revision_count p
          \<and> cp_recovery_origin_stage c = cp_recovery_origin_stage p)
     \<and> (\<forall>q. \<rho> s = None \<longrightarrow> preceding_row \<rho> s = Some q \<longrightarrow>
          cp_attempt_number c = (if cp_recovery_origin_stage q \<noteq> None then cp_attempt_number q else 1)
          \<and> cp_gate_revision_count c = cp_gate_revision_count q
          \<and> cp_recovery_origin_stage c = cp_recovery_origin_stage q)"

lemma tri_mark_running:
  assumes inh: "pred_option valid_cp inh"
  shows "tri ident \<rho> (writing en (\<lambda>st. mark_running safe st ident s inputs attempt inh))
     (\<lambda>c \<rho>'. \<rho>' = \<rho>(s \<mapsto> c) \<and> row_at ident s c \<and> cp_stage_version c = STAGE_VERSION s
        \<and> cp_attempt_number c = running_attempt (\<rho> s) inh
        \<and> cp_gate_revision_count c
            = (case opt_or (\<rho> s) inh of None \<Rightarrow> 0 | Some b \<Rightarrow> cp_gate_revision_count b)
        \<and> cp_recovery_origin_stage c = Option.bind (opt_or (\<rho> s) inh) cp_recovery_origin_stage)"
proof (rule tri_writing)
  fix st d c d' assume ok: "db_ok d" and r: "stored d ident = \<rho>"
    and m: "mark_running safe st ident s inputs attempt inh d = Inr (c, d')"
  note f = mark_running_fields [OF ok m]
  have v: "valid_cp c" by (rule mark_running_valid [OF ok m inh])
  obtain e where w: "write_tx st False c None [e] d = Inr d'"
    by (rule mark_running_write [OF ok m]) blast
  show "db_ok d' \<and> stored d' ident = \<rho>(s \<mapsto> c) \<and> row_at ident s c
        \<and> cp_stage_version c = STAGE_VERSION s
        \<and> cp_attempt_number c = running_attempt (\<rho> s) inh
        \<and> cp_gate_revision_count c
            = (case opt_or (\<rho> s) inh of None \<Rightarrow> 0 | Some b \<Rightarrow> cp_gate_revision_count b)
        \<and> cp_recovery_origin_stage c = Option.bind (opt_or (\<rho> s) inh) cp_recovery_origin_stage"
    using write_tx_ok [OF w ok v] write_tx_rows [OF w] f(1,2,4,6,9,17) v r
    by (auto simp: row_at_def)
qed

definition same_below :: "stage \<Rightarrow> rows \<Rightarrow> rows \<Rightarrow> bool" where
  "same_below s \<rho> \<rho>' \<longleftrightarrow> (\<forall>t < s. \<rho>' t = \<rho> t)"

lemma same_below_simps [simp]:
  "same_below s \<rho> \<rho>" "same_below s \<rho> (restart_rows \<rho> s p)" "same_below s \<rho> (\<rho>'(s \<mapsto> c)) = same_below s \<rho> \<rho>'"
  by (auto simp: same_below_def restart_rows_def)

lemma restart_rows_below: "same_below s \<rho> \<rho>' \<Longrightarrow> r \<le> s \<Longrightarrow> restart_rows \<rho>' r p = restart_rows \<rho> r p"
  by (rule ext) (auto simp: restart_rows_def same_below_def)

lemma recovered_from_below:
  "recovered_from ident \<rho>' c x \<Longrightarrow> same_below (cp_stage c) \<rho> \<rho>' \<Longrightarrow> recovered_from ident \<rho> c x"
  unfolding recovered_from_def using restart_rows_below by blast

lemma revised_from_below:
  assumes "revised_from ident \<rho>' c x" "same_below (cp_stage c) \<rho> \<rho>'"
  shows "revised_from ident \<rho> c x"
proof -
  have "POC_CANDIDATE_DONE \<le> TECH_GATE_DONE" by (simp add: less_eq_stage_def)
  then show ?thesis
    using assms restart_rows_below [OF assms(2), of POC_CANDIDATE_DONE] by (auto simp: revised_from_def)
qed

text \<open>How a started stage ends, relative to the rows before it was started.\<close>

definition body_post :: "identity \<Rightarrow> rows \<Rightarrow> stage \<Rightarrow> checkpoint \<Rightarrow> flow \<Rightarrow> rows \<Rightarrow> bool" where
  "body_post ident \<rho> s c fl \<rho>' \<longleftrightarrow>
     (case fl of
        FContinue \<Rightarrow> (\<exists>c'. \<rho>' s = Some c' \<and> row_at ident s c' \<and> done_row s c' \<and> completes c c')
          \<and> same_below s \<rho> \<rho>' \<and> (\<forall>t > s. \<rho> t = None \<longrightarrow> \<rho>' t = None)
      | FRestart \<Rightarrow> recovered_from ident \<rho> c \<rho>'
          \<or> (\<exists>c'. row_at ident s c' \<and> completes c c' \<and> revised_from ident \<rho> c' \<rho>')
      | FReturn out \<Rightarrow> ends_early out)"

lemma body_post_flow:
  assumes "stage_flow ident (\<rho>1(s \<mapsto> c)) s c fl \<rho>'" "row_at ident s c" "same_below s \<rho> \<rho>1"
    "\<forall>t > s. \<rho> t = None \<longrightarrow> \<rho>1 t = None"
  shows "body_post ident \<rho> s c fl \<rho>'"
proof -
  have b: "same_below s \<rho> (\<rho>1(s \<mapsto> c))" using assms(3) by simp
  show ?thesis
  proof (cases fl)
    case FContinue
    then show ?thesis
      using assms(1,4) b by (auto simp: stage_flow_def body_post_def)
  next
    case FRestart
    then show ?thesis
      using assms(1,2) b recovered_from_below [of ident "\<rho>1(s \<mapsto> c)" c \<rho>' \<rho>]
        revised_from_below [of ident "\<rho>1(s \<mapsto> c)" _ \<rho>' \<rho>]
      by (auto simp: stage_flow_def body_post_def row_at_def)
  qed (use assms(1) in \<open>simp add: stage_flow_def body_post_def\<close>)
qed

lemma tri_invalidate:
  "tri ident \<rho> (writing en (\<lambda>st. invalidate_from st ident s inputs force))
     (\<lambda>_ \<rho>'. (\<rho>' = \<rho> \<or> \<rho>' s = None) \<and> same_below s \<rho> \<rho>' \<and> (\<forall>t > s. \<rho> t = None \<longrightarrow> \<rho>' t = None)
        \<and> (\<rho> s = None \<longrightarrow> \<rho>' s = None))"
proof (rule tri_writing)
  fix st d x d' assume ok: "db_ok d" and r: "stored d ident = \<rho>"
    and i: "invalidate_from st ident s inputs force d = Inr (x, d')"
  have "stored d' ident = \<rho> \<or> stored d' ident = (\<lambda>t. if t < s then \<rho> t else None)"
    using i
    by (cases rule: invalidate_from_cases)
       (use r in \<open>auto simp: stored_delete set_stages_from fun_eq_iff\<close>)
  then show "db_ok d' \<and> (stored d' ident = \<rho> \<or> stored d' ident s = None)
      \<and> same_below s \<rho> (stored d' ident) \<and> (\<forall>t > s. \<rho> t = None \<longrightarrow> stored d' ident t = None)
      \<and> (\<rho> s = None \<longrightarrow> stored d' ident s = None)"
    using invalidate_from_extends [OF i ok] by (auto simp: extends_def same_below_def)
qed

lemma tri_prior:
  "tri ident \<rho> (reading (\<lambda>d. prior d ident s))
     (\<lambda>x \<rho>'. x = present \<rho> (stages_before s) \<and> \<rho>' = \<rho> \<and> (\<forall>y \<in> set x. valid_cp (snd y)))"
  by (rule tri_reading) (use present_valid in \<open>auto simp: prior_present\<close>)

lemma started_running:
  assumes inh: "inh = (case \<rho> s of
       Some c \<Rightarrow> if cp_recipe_ref c \<noteq> None \<and> cp_image_digest c \<noteq> None then Some c else pre
     | None \<Rightarrow> pre)"
    and pre: "pre = preceding_row \<rho> s" "pred_option valid_cp pre"
    and \<rho>1: "\<rho> s = None \<Longrightarrow> \<rho>1 s = None" "\<And>p. \<rho> s = Some p \<Longrightarrow> cp_status p = PENDING \<Longrightarrow> \<rho>1 = \<rho>"
    and c: "row_at ident s c" "cp_stage_version c = STAGE_VERSION s"
      "cp_attempt_number c = running_attempt (\<rho>1 s) inh"
      "cp_gate_revision_count c
         = (case opt_or (\<rho>1 s) inh of None \<Rightarrow> 0 | Some b \<Rightarrow> cp_gate_revision_count b)"
      "cp_recovery_origin_stage c = Option.bind (opt_or (\<rho>1 s) inh) cp_recovery_origin_stage"
  shows "started ident \<rho> s c"
proof -
  have "cp_recovery_lineage_id q = None \<longleftrightarrow> cp_recovery_origin_stage q = None" if "pre = Some q" for q
    using pre(2) that by (simp add: valid_cp_def)
  then show ?thesis
    unfolding started_def using c \<rho>1 inh pre(1)
    by (auto simp: running_attempt_def)
qed

lemma tri_start_stage:
  assumes en: "env_frames ident en"
  shows "tri ident \<rho> (start_stage en ident s final inputs)
     (\<lambda>fl \<rho>'. \<exists>c. started ident \<rho> s c \<and> body_post ident \<rho> s c fl \<rho>')"
  unfolding start_stage_def Let_def
proof (rule tri_bind [OF tri_get], rule tri_bind [OF tri_prior])
  fix existing \<rho>a pr \<rho>b
  assume e: "existing = \<rho> s \<and> \<rho>a = \<rho> \<and> pred_option (row_at ident s) existing"
    and p: "pr = present \<rho>a (stages_before s) \<and> \<rho>b = \<rho>a \<and> (\<forall>y \<in> set pr. valid_cp (snd y))"
  let ?pre = "if pr = [] then None else Some (snd (last pr))"
  let ?inh = "case existing of
      Some c \<Rightarrow> if cp_recipe_ref c \<noteq> None \<and> cp_image_digest c \<noteq> None then existing else ?pre
    | None \<Rightarrow> ?pre"
  have \<rho>b: "\<rho>b = \<rho>" and pre: "?pre = preceding_row \<rho> s" and vpre: "pred_option valid_cp ?pre"
    using e p by (auto simp: preceding_row_def Let_def)
  have inh: "?inh = (case \<rho> s of
       Some c \<Rightarrow> if cp_recipe_ref c \<noteq> None \<and> cp_image_digest c \<noteq> None then Some c else ?pre
     | None \<Rightarrow> ?pre)"
    using e by (auto split: option.split)
  have vinh: "pred_option valid_cp ?inh"
    using vpre e by (auto simp: row_at_def split: option.split)
  have inv: "tri ident \<rho> (if (case existing of Some c \<Rightarrow> cp_status c = PENDING | None \<Rightarrow> False)
        then retE () else writing en (\<lambda>st. invalidate_from st ident s inputs False))
      (\<lambda>_ \<rho>1. same_below s \<rho> \<rho>1 \<and> (\<forall>t > s. \<rho> t = None \<longrightarrow> \<rho>1 t = None) \<and> (\<rho> s = None \<longrightarrow> \<rho>1 s = None)
         \<and> (\<forall>p. \<rho> s = Some p \<longrightarrow> cp_status p = PENDING \<longrightarrow> \<rho>1 = \<rho>))"
    by (rule tri_if, (rule tri_ret, simp), rule tri_weaken [OF tri_invalidate])
       (use e in auto)
  have run: "tri ident \<rho>1
      (bindE (writing en (\<lambda>st. mark_running (en_safe en) st ident s inputs attempt ?inh))
        (\<lambda>c. run_handler en s final c pr))
      (\<lambda>fl \<rho>'. \<exists>c. started ident \<rho> s c \<and> body_post ident \<rho> s c fl \<rho>')"
    if h: "same_below s \<rho> \<rho>1 \<and> (\<forall>t > s. \<rho> t = None \<longrightarrow> \<rho>1 t = None) \<and> (\<rho> s = None \<longrightarrow> \<rho>1 s = None)
         \<and> (\<forall>p. \<rho> s = Some p \<longrightarrow> cp_status p = PENDING \<longrightarrow> \<rho>1 = \<rho>)" for \<rho>1 attempt
  proof (rule tri_bind [OF tri_mark_running [OF vinh]])
    fix c \<rho>2
    assume c: "\<rho>2 = \<rho>1(s \<mapsto> c) \<and> row_at ident s c \<and> cp_stage_version c = STAGE_VERSION s
        \<and> cp_attempt_number c = running_attempt (\<rho>1 s) ?inh
        \<and> cp_gate_revision_count c
            = (case opt_or (\<rho>1 s) ?inh of None \<Rightarrow> 0 | Some b \<Rightarrow> cp_gate_revision_count b)
        \<and> cp_recovery_origin_stage c = Option.bind (opt_or (\<rho>1 s) ?inh) cp_recovery_origin_stage"
    have st: "started ident \<rho> s c"
      by (rule started_running [OF inh pre vpre, of \<rho>1]) (use h c in blast)+
    show "tri ident \<rho>2 (run_handler en s final c pr)
        (\<lambda>fl \<rho>'. \<exists>c. started ident \<rho> s c \<and> body_post ident \<rho> s c fl \<rho>')"
      by (rule tri_weaken [OF tri_run_handler [OF en]])
         (use c h st body_post_flow in blast)+
  qed
  show "tri ident \<rho>b
      (bindE (case (case ?pre of
            Some p \<Rightarrow> if s = POC_EXECUTION_DONE \<and> cp_stage p = POC_CANDIDATE_DONE \<and> existing = None
                       then cp_attempt_id p else None
          | None \<Rightarrow> None) of Some a \<Rightarrow> retE a | None \<Rightarrow> fresh_id en) (\<lambda>attempt.
        bindE (if (case existing of Some c \<Rightarrow> cp_status c = PENDING | None \<Rightarrow> False) then retE ()
            else writing en (\<lambda>st. invalidate_from st ident s inputs False)) (\<lambda>_.
        bindE (writing en (\<lambda>st. mark_running (en_safe en) st ident s inputs attempt ?inh))
          (\<lambda>c. run_handler en s final c pr))))
      (\<lambda>fl \<rho>'. \<exists>c. started ident \<rho> s c \<and> body_post ident \<rho> s c fl \<rho>')"
    unfolding \<rho>b
    by (rule tri_bind [where Q = "\<lambda>_ \<rho>'. \<rho>' = \<rho>"],
        (intro tri_option tri_framed row_framed_fresh tri_ret refl),
        simp only:, rule tri_bind [OF inv], rule run)
qed

section \<open>One stage of a round\<close>

definition leaves :: "identity \<Rightarrow> rows \<Rightarrow> stage \<Rightarrow> flow \<Rightarrow> rows \<Rightarrow> bool" where
  "leaves ident \<rho> s fl \<rho>' \<longleftrightarrow>
     (case fl of
        FContinue \<Rightarrow> (\<exists>c. \<rho>' s = Some c \<and> done_row s c) \<and> same_below s \<rho> \<rho>'
      | FRestart \<Rightarrow> \<exists>r p. \<rho>' = restart_rows \<rho> r p \<and> pending_row ident r p \<and> r \<le> s
          \<and> r \<in> {s, VERIFICATION_INITIAL_DONE, POC_CANDIDATE_DONE}
      | FReturn out \<Rightarrow> ends_early out)"

lemma leaves_return [simp]: "leaves ident \<rho> s (FReturn out) \<rho>' \<longleftrightarrow> ends_early out"
  by (simp add: leaves_def)

lemma leaves_restart:
  "pending_row ident r p \<Longrightarrow> r \<le> s \<Longrightarrow> r \<in> {s, VERIFICATION_INITIAL_DONE, POC_CANDIDATE_DONE} \<Longrightarrow>
     leaves ident \<rho> s FRestart (restart_rows \<rho> r p)"
  unfolding leaves_def by auto

lemma leaves_recovered:
  "recovered_from ident \<rho> c \<rho>' \<Longrightarrow> cp_stage c = s \<Longrightarrow> leaves ident \<rho> s FRestart \<rho>'"
  using leaves_restart unfolding recovered_from_def by blast

lemma leaves_revised:
  assumes "revised_from ident \<rho> c \<rho>'" "cp_stage c = s"
  shows "leaves ident \<rho> s FRestart \<rho>'"
proof -
  have "POC_CANDIDATE_DONE \<le> TECH_GATE_DONE" by (simp add: less_eq_stage_def)
  then show ?thesis using assms leaves_restart by (auto simp: revised_from_def)
qed

lemma leaves_body_post:
  assumes "body_post ident \<rho> s c fl \<rho>'" "row_at ident s c"
  shows "leaves ident \<rho> s fl \<rho>'"
proof (cases fl)
  case FRestart
  then show ?thesis
    using assms leaves_recovered leaves_revised by (auto simp: body_post_def row_at_def)
qed (use assms in \<open>auto simp: body_post_def leaves_def\<close>)

lemma leaves_below:
  assumes "leaves ident \<rho>' s fl x" "same_below s \<rho> \<rho>'"
  shows "leaves ident \<rho> s fl x"
proof (cases fl)
  case FRestart
  then obtain r p where "x = restart_rows \<rho>' r p" "pending_row ident r p" "r \<le> s"
    "r \<in> {s, VERIFICATION_INITIAL_DONE, POC_CANDIDATE_DONE}"
    using assms(1) unfolding leaves_def by auto
  then show ?thesis
    using leaves_restart restart_rows_below [OF assms(2)] FRestart by metis
qed (use assms in \<open>auto simp: leaves_def same_below_def\<close>)

lemma tri_reusable:
  "tri ident \<rho> (reading (\<lambda>d. reusable d ident s inputs))
     (\<lambda>x \<rho>'. \<rho>' = \<rho> \<and> (x \<longleftrightarrow> (\<exists>c. \<rho> s = Some c \<and> cp_status c = SUCCEEDED
        \<and> cp_stage_version c = STAGE_VERSION s \<and> cp_input_refs c = inputs)))"
proof (rule tri_reading)
  fix d x assume ok: "db_ok d" and r: "stored d ident = \<rho>" and u: "reusable d ident s inputs = Inr x"
  have "valid_cp c" if "\<rho> s = Some c" for c using stored_valid(1) [OF ok] that r by blast
  then show "\<rho> = \<rho> \<and> (x \<longleftrightarrow> (\<exists>c. \<rho> s = Some c \<and> cp_status c = SUCCEEDED
        \<and> cp_stage_version c = STAGE_VERSION s \<and> cp_input_refs c = inputs))"
    using u r by (auto simp: reusable_def get_stored [OF ok] valid_cp_def split: option.splits)
qed

lemma tri_require:
  "tri ident \<rho> (reading (\<lambda>d. require d ident s))
     (\<lambda>c \<rho>'. \<rho>' = \<rho> \<and> \<rho> s = Some c \<and> row_at ident s c)"
  by (rule tri_reading)
     (use stored_row_at in \<open>auto simp: require_def get_stored split: option.splits\<close>)

text \<open>A reused row is left as it is.\<close>

definition reused_post :: "identity \<Rightarrow> rows \<Rightarrow> stage \<Rightarrow> flow \<Rightarrow> rows \<Rightarrow> bool" where
  "reused_post ident \<rho> s fl \<rho>' \<longleftrightarrow>
     (\<exists>c. \<rho> s = Some c \<and> row_at ident s c \<and> cp_status c = SUCCEEDED
        \<and> cp_stage_version c = STAGE_VERSION s
        \<and> (case fl of FContinue \<Rightarrow> \<rho>' = \<rho> \<and> done_row s c
           | FRestart \<Rightarrow> revised_from ident \<rho> c \<rho>' \<and> \<not> done_row s c | FReturn out \<Rightarrow> ends_early out))"

lemma tri_conj:
  "tri ident \<rho> m Q \<Longrightarrow> tri ident \<rho> m Q' \<Longrightarrow> tri ident \<rho> m (\<lambda>x \<rho>'. Q x \<rho>' \<and> Q' x \<rho>')"
  by (rule triI) (blast dest: triD)

lemma tri_done_no_restart:
  assumes c: "row_at ident s c" "done_row s c"
  shows "tri ident \<rho> (after_complete en s hold c) (\<lambda>fl _. fl \<noteq> FRestart)"
proof -
  have g: "tri ident \<rho> (gate_action en c) (\<lambda>act _. act \<noteq> GRestart)"
    unfolding gate_action_def using c by (auto intro!: tri_ret simp: done_row_def gate_passed_def row_at_def)
  have "tri ident \<rho> (bindE (gate_action en c) (\<lambda>act. case act of
      GRestart \<Rightarrow> retE FRestart | GReturn out \<Rightarrow> retE (FReturn out) | GNone \<Rightarrow> retE FContinue))
      (\<lambda>fl _. fl \<noteq> FRestart)"
    by (rule tri_bind [OF g]) (auto intro!: tri_ret split: gate_act.split)
  then show ?thesis
    unfolding after_complete_def
    by (auto intro!: tri_if tri_ret tri_bind [OF tri_verified_initial [OF c(1)]]
          tri_bind [OF tri_verified_poc [OF c(1)]])
qed

lemma tri_reuse:
  assumes "\<rho> s = Some c" "cp_status c = SUCCEEDED" "cp_stage_version c = STAGE_VERSION s"
  shows "tri ident \<rho> (bindE (reading (\<lambda>d. require d ident s)) (after_complete en s False))
     (reused_post ident \<rho> s)"
proof (rule tri_bind [OF tri_require])
  fix x \<rho>' assume "\<rho>' = \<rho> \<and> \<rho> s = Some x \<and> row_at ident s x"
  then have r: "\<rho>' = \<rho>" and x: "x = c" "row_at ident s c" using assms(1) by simp_all
  have t: "tri ident \<rho> (after_complete en s False c) (\<lambda>fl \<rho>'. case fl of
           FContinue \<Rightarrow> \<rho>' = \<rho> \<and> done_row s c | FRestart \<Rightarrow> revised_from ident \<rho> c \<rho>'
         | FReturn out \<Rightarrow> ends_early out)"
    by (rule tri_after_complete [OF x(2)]) (use assms in simp_all)
  have u: "tri ident \<rho> (after_complete en s False c) (\<lambda>fl _. done_row s c \<longrightarrow> fl \<noteq> FRestart)"
    by (cases "done_row s c")
       (use tri_done_no_restart [OF x(2)] tri_weaken [OF t, of "\<lambda>_ _. True"] in simp_all)
  show "tri ident \<rho>' (after_complete en s False x) (reused_post ident \<rho> s)"
    unfolding x(1) r
    by (rule tri_weaken [OF tri_conj [OF t u]])
       (use assms x(2) in \<open>auto simp: reused_post_def split: flow.splits\<close>)
qed

text \<open>The stage as \<open>reuse_or_start\<close> leaves it: reused as it is, or started.\<close>

lemma tri_reuse_or_start:
  assumes en: "env_frames ident en"
  shows "tri ident \<rho> (reuse_or_start en ident s final existing)
     (\<lambda>fl \<rho>'. reused_post ident \<rho> s fl \<rho>'
        \<or> (\<exists>c. started ident \<rho> s c \<and> body_post ident \<rho> s c fl \<rho>'
             \<and> (\<forall>x. \<rho> s = Some x \<longrightarrow> existing \<noteq> None \<longrightarrow> \<not> done_row s x)))"
proof -
  have refs: "tri ident \<rho> (reading (\<lambda>d. input_refs_for d ident s))
      (\<lambda>x \<rho>'. \<rho>' = \<rho> \<and> (\<forall>c. \<rho> s = Some c \<longrightarrow> x = cp_input_refs c))"
    by (rule tri_reading) (auto simp: input_refs_for_def get_stored split: option.splits)
  show ?thesis
    unfolding reuse_or_start_def Let_def
  proof (rule tri_bind [OF refs], rule tri_bind [OF tri_reusable], rule tri_if)
    fix refs \<rho>1 can \<rho>2
    let ?inputs = "case en_policy_snapshot en of
            Some p \<Rightarrow> if s = SCOPE_GATE_DONE \<and> existing = None then fromkeys (refs @ [p]) else refs
          | None \<Rightarrow> refs"
    assume r: "\<rho>1 = \<rho> \<and> (\<forall>c. \<rho> s = Some c \<longrightarrow> refs = cp_input_refs c)"
      and u: "\<rho>2 = \<rho>1 \<and> (can \<longleftrightarrow> (\<exists>c. \<rho>1 s = Some c \<and> cp_status c = SUCCEEDED
        \<and> cp_stage_version c = STAGE_VERSION s \<and> cp_input_refs c = ?inputs))"
    {
      assume can
      then obtain c where "\<rho> s = Some c" "cp_status c = SUCCEEDED" "cp_stage_version c = STAGE_VERSION s"
        using r u by blast
      then have t: "tri ident \<rho> (bindE (reading (\<lambda>d. require d ident s)) (after_complete en s False))
          (reused_post ident \<rho> s)" by (rule tri_reuse)
      have r2: "\<rho>2 = \<rho>" using r u by simp
      show "tri ident \<rho>2
          (bindE (reading (\<lambda>d. require d ident s)) (after_complete en s False))
          (\<lambda>fl \<rho>'. reused_post ident \<rho> s fl \<rho>'
            \<or> (\<exists>c. started ident \<rho> s c \<and> body_post ident \<rho> s c fl \<rho>'
                 \<and> (\<forall>x. \<rho> s = Some x \<longrightarrow> existing \<noteq> None \<longrightarrow> \<not> done_row s x)))"
        unfolding r2 by (rule tri_weaken [OF t]) blast
    next
      assume "\<not> can"
      then have n: "\<forall>x. \<rho> s = Some x \<longrightarrow> existing \<noteq> None \<longrightarrow> \<not> done_row s x"
        using r u by (auto simp: done_row_def gate_passed_def split: option.splits)
      have r2: "\<rho>2 = \<rho>" using r u by simp
      show "tri ident \<rho>2 (start_stage en ident s final ?inputs)
          (\<lambda>fl \<rho>'. reused_post ident \<rho> s fl \<rho>'
            \<or> (\<exists>c. started ident \<rho> s c \<and> body_post ident \<rho> s c fl \<rho>'
                 \<and> (\<forall>x. \<rho> s = Some x \<longrightarrow> existing \<noteq> None \<longrightarrow> \<not> done_row s x)))"
        unfolding r2 by (rule tri_weaken [OF tri_start_stage [OF en]]) (use n in blast)
    }
  qed
qed

lemma leaves_reuse_or_start:
  assumes en: "env_frames ident en"
  shows "tri ident \<rho> (reuse_or_start en ident s final existing) (leaves ident \<rho> s)"
proof (rule tri_weaken [OF tri_reuse_or_start [OF en]], elim disjE exE conjE)
  fix fl \<rho>' assume "reused_post ident \<rho> s fl \<rho>'"
  then obtain c where c: "\<rho> s = Some c" "row_at ident s c"
    "case fl of FContinue \<Rightarrow> \<rho>' = \<rho> \<and> done_row s c
     | FRestart \<Rightarrow> revised_from ident \<rho> c \<rho>' \<and> \<not> done_row s c | FReturn out \<Rightarrow> ends_early out"
    unfolding reused_post_def by blast
  show "leaves ident \<rho> s fl \<rho>'"
  proof (cases fl)
    case FRestart
    then show ?thesis using c by (auto simp: row_at_def intro: leaves_revised)
  qed (use c in \<open>simp_all add: leaves_def\<close>)
qed (auto intro: leaves_body_post simp: started_def)

definition recovered_post :: "identity \<Rightarrow> rows \<Rightarrow> stage \<Rightarrow> recovered \<Rightarrow> rows \<Rightarrow> bool" where
  "recovered_post ident \<rho> s r \<rho>' \<longleftrightarrow>
     (case r of RFalse \<Rightarrow> same_below s \<rho> \<rho>' | RRestart \<Rightarrow> leaves ident \<rho> s FRestart \<rho>' | RReturn out \<Rightarrow> ends_early out)"

lemma tri_replace:
  assumes "row_at ident s c"
  shows "tri ident \<rho> (writing en (\<lambda>st. replace_from st c fail)) (\<lambda>_ \<rho>'. \<rho>' = restart_rows \<rho> s c)"
proof (rule tri_writing)
  fix st d u d' assume ok: "db_ok d" and r: "stored d ident = \<rho>" and w: "replace_from st c fail d = Inr (u, d')"
  have "stored d' ident = restart_rows \<rho> s c"
    using replace_from_cases(3) [OF w] restart_stored_rows [of st "id_analysis (cp_identity c)" c d] assms r
    by (auto simp: row_at_def)
  then show "db_ok d' \<and> stored d' ident = restart_rows \<rho> s c"
    using replace_from_extends [OF w _ ok] assms by (simp add: row_at_def extends_def)
qed

lemma row_at_replay [simp]:
  "row_at ident s (replay_pending c) = row_at ident s c"
  "row_at ident s ((replay_pending c)\<lparr>cp_stage_version := v\<rparr>) = row_at ident s c"
  by (simp_all add: row_at_def replay_pending_def)

lemma tri_replay: "row_at ident s c \<Longrightarrow> tri ident \<rho> (replay en c) (recovered_post ident \<rho> s)"
  unfolding replay_def
  by (rule tri_bind [OF tri_replace]) (auto intro!: tri_ret simp: recovered_post_def)

lemma recovered_post_return [simp]: "recovered_post ident \<rho> s (RReturn out) \<rho>' \<longleftrightarrow> ends_early out"
  by (simp add: recovered_post_def)

text \<open>From here on \<open>ns\<close>: the row that is resumed is not complete.\<close>

lemma tri_replay_if_free:
  "row_at ident s c \<Longrightarrow> cp_status c \<noteq> SUCCEEDED \<Longrightarrow>
     tri ident \<rho> (replay_if_free en c) (recovered_post ident \<rho> s)"
  unfolding replay_if_free_def
  by (auto intro!: tri_ret tri_bind [OF tri_framed [OF row_framed_unresolved]] tri_replay)

lemma tri_offline_base:
  assumes en: "env_frames ident en" and c: "row_at ident s c" and ns: "cp_status c \<noteq> SUCCEEDED"
  shows "tri ident \<rho> (recover_offline_base en c) (recovered_post ident \<rho> s)"
proof (cases "en_offline_base_ready en")
  case (Some probe)
  have tr: "row_framed ident (tryE (bindE (unresolved_call (id_analysis (cp_identity c))) (\<lambda>call.
        if call \<notin> {None, Some []} then retE False else probe))
      (\<lambda>e. case e of
         SqliteError _ \<Rightarrow> Some (retE False) | OSError _ \<Rightarrow> Some (retE False)
       | RuntimeError _ \<Rightarrow> Some (retE False) | ValueError _ \<Rightarrow> Some (retE False) | _ \<Rightarrow> None))"
    by (rule row_framed_try, rule row_framed_bind [OF row_framed_unresolved])
       (auto intro!: row_framed_ret row_framed_probe [OF en Some] split: py_error.splits)
  have k: "tri ident \<rho>' (if \<not> ready then retE (RReturn (recorded (cp_stage c) c))
      else replay en ((replay_pending c)\<lparr>cp_stage_version := STAGE_VERSION (cp_stage c)\<rparr>))
      (recovered_post ident \<rho> s)" if "\<rho>' = \<rho>" for ready \<rho>'
    using c that ns by (auto intro!: tri_ret tri_replay)
  show ?thesis
    unfolding recover_offline_base_def Some option.case
    by (intro tri_if [of "MAX_RECOVERY_ATTEMPTS \<le> cp_attempt_number c"] tri_ret
        tri_bind [OF tri_framed [OF tr]] k) (simp add: ns)
qed (use ns in \<open>simp add: recover_offline_base_def tri_ret\<close>)

lemma tri_recover_recovered:
  assumes "env_frames ident en" "row_at ident s c" "status \<noteq> SUCCEEDED"
  shows "tri ident \<rho> (bindE (recover_or_stop en c f status already) (\<lambda>r. retE (to_recovered r)))
     (recovered_post ident \<rho> s)"
  by (rule tri_bind [OF tri_recover_or_stop [OF assms]])
     (use assms(2) leaves_recovered in
       \<open>auto intro!: tri_ret simp: to_recovered_def recovered_post_def row_at_def split: option.split\<close>)

lemma tri_recover_failed:
  assumes en: "env_frames ident en" and c: "row_at ident s c" and ns: "cp_status c \<noteq> SUCCEEDED"
  shows "tri ident \<rho> (recover_failed en c) (recovered_post ident \<rho> s)"
proof -
  have "tri ident \<rho> (if cp_retryable c
      then writing en (\<lambda>st. save_checkpoint (en_safe en) st (c\<lparr>cp_retryable := False\<rparr>))
      else retE ()) (\<lambda>_ _. True)"
    using c by (auto intro!: tri_ret tri_writing simp: row_at_def dest: save_checkpoint_extends extends_ok)
  note save = tri_bind [OF this]
  show ?thesis
    unfolding recover_failed_def
    by (intro tri_if tri_ret tri_recover_recovered [OF en c] tri_offline_base [OF en c ns]
        tri_replay_if_free [OF c ns] save tri_replay)
       (simp_all add: c ns)
qed

lemma tri_recover_existing:
  assumes en: "env_frames ident en" and c: "row_at ident s c"
  shows "tri ident \<rho> (recover_existing en c) (recovered_post ident \<rho> s)"
proof -
  have cl: "row_framed ident (if cp_status c \<in> {RUNNING, BLOCKED, FAILED} then cleanup_allows_replay en c
      else retE False)"
    by (simp add: row_framed_cleanup_allows [OF en] row_framed_ret)
  have last: "tri ident \<rho>' (if cleaned then replay en (replay_pending c) else recover_failed en c)
      (recovered_post ident \<rho> s)" if "\<rho>' = \<rho>" "cp_status c \<noteq> SUCCEEDED" for cleaned \<rho>'
    using that c tri_recover_failed [OF en c] by (auto intro: tri_replay)
  show ?thesis
    unfolding recover_existing_def
    by (intro tri_if tri_ret tri_option tri_bind [OF tri_promote_initial [OF c]]
          tri_bind [OF tri_promote_stopped] tri_bind [OF tri_framed [OF row_framed_prior_decision]]
          tri_bind [OF tri_framed [OF cl]] last)
       (auto simp: recovered_post_def)
qed

lemma tri_version_gate:
  assumes c: "pred_option (row_at ident s) existing"
    and k: "\<And>e \<rho>'. pred_option (row_at ident s) e \<Longrightarrow> same_below s \<rho> \<rho>' \<Longrightarrow> tri ident \<rho>' (k e) (leaves ident \<rho> s)"
  shows "tri ident \<rho> (version_gate en ident s existing k) (leaves ident \<rho> s)"
proof (cases existing)
  case (Some c)
  let ?p = "(replay_pending c)\<lparr>cp_stage_version := STAGE_VERSION s\<rparr>"
  have row: "row_at ident s ?p" using assms(1) Some by simp
  have re: "tri ident \<rho>' (bindE (writing en (\<lambda>st. replace_from st ?p False)) (\<lambda>_. k (Some ?p)))
      (leaves ident \<rho> s)" if "\<rho>' = \<rho>" for \<rho>'
    unfolding that by (rule tri_bind [OF tri_replace [OF row]]) (use row in \<open>auto intro: k\<close>)
  have inv: "tri ident \<rho> (bindE (writing en (\<lambda>st. invalidate_from st ident s (cp_input_refs c) False))
      (\<lambda>_. k None)) (leaves ident \<rho> s)"
    by (rule tri_bind [OF tri_invalidate]) (simp add: k)
  show ?thesis
    unfolding version_gate_def Some Let_def option.case
    by (intro tri_if tri_ret re inv refl
        tri_bind [OF tri_framed [OF row_framed_unresolved]] k) (use c Some in auto)
qed (simp add: version_gate_def k)

definition skipped :: "rows \<Rightarrow> stage \<Rightarrow> bool" where
  "skipped \<rho> s \<longleftrightarrow> final_hold (\<rho> VERIFICATION_FINAL_DONE) \<and> s \<in> set HOLD_SKIPPED"

text \<open>
  One stage of a round: passed by under a final HOLD, complete, or the reason for a restart at
  or below it.
\<close>

lemma tri_resume_existing:
  assumes en: "env_frames ident en" and e: "pred_option (row_at ident s) e"
  shows "tri ident \<rho> (resume_existing en ident s final e) (leaves ident \<rho> s)"
proof -
  have rec: "tri ident \<rho> (bindE (recover_existing en c) (\<lambda>r. case r of
        RFalse \<Rightarrow> reuse_or_start en ident s final e
      | RRestart \<Rightarrow> retE FRestart
      | RReturn out \<Rightarrow> retE (FReturn out))) (leaves ident \<rho> s)"
    if c: "row_at ident s c" for c
  proof (rule tri_bind [OF tri_recover_existing [OF en c]])
    fix r \<rho>' assume "recovered_post ident \<rho> s r \<rho>'"
    then show "tri ident \<rho>' (case r of
        RFalse \<Rightarrow> reuse_or_start en ident s final e
      | RRestart \<Rightarrow> retE FRestart
      | RReturn out \<Rightarrow> retE (FReturn out)) (leaves ident \<rho> s)"
      using tri_weaken [OF leaves_reuse_or_start [OF en] leaves_below]
      by (cases r) (auto simp: recovered_post_def intro!: tri_ret)
  qed
  show ?thesis
    unfolding resume_existing_def
    by (intro tri_option tri_if rec leaves_reuse_or_start [OF en]) (use e in auto)
qed

lemma tri_prior_decision:
  "tri ident \<rho> (prior_decision c) (\<lambda>x \<rho>'. \<rho>' = \<rho> \<and> (x \<longrightarrow> cp_status c = BLOCKED))"
  unfolding prior_decision_def
  by (rule tri_reading) (auto simp: has_prior_poc_recovery_decision_def split: option.splits if_splits)

lemma tri_examine:
  assumes en: "env_frames ident en"
  shows "tri ident \<rho> (examine_stage en ident s final) (leaves ident \<rho> s)"
  unfolding examine_stage_def
proof (rule tri_bind [OF tri_get], rule tri_option)
  fix existing \<rho>' assume e: "existing = \<rho> s \<and> \<rho>' = \<rho> \<and> pred_option (row_at ident s) existing"
  then show "tri ident \<rho>' (resume_existing en ident s final None) (leaves ident \<rho> s)"
    using tri_resume_existing [OF en, of s None] by simp
  fix c assume "existing = Some c"
  have "tri ident \<rho> (version_gate en ident s existing (resume_existing en ident s final))
      (leaves ident \<rho> s)"
    by (rule tri_version_gate, use e in blast, rule tri_weaken [OF tri_resume_existing [OF en]])
       (simp_all add: leaves_below)
  then show "tri ident \<rho>' (bindE (prior_decision c) (\<lambda>decided.
         if decided then
           bindE (promote_stopped_poc en c) (\<lambda>promoted.
           retE (FReturn (case promoted of Some out \<Rightarrow> out | None \<Rightarrow> recorded s c)))
         else if s = POC_EXECUTION_DONE \<and> poc_closed en c then retE (FReturn (recorded s c))
         else version_gate en ident s existing (resume_existing en ident s final))) (leaves ident \<rho> s)"
    using e by (auto intro!: tri_bind [OF tri_prior_decision] tri_bind [OF tri_promote_stopped] tri_ret
        simp: poc_closed_def split: option.split)
qed

lemma tri_stage_body:
  assumes en: "env_frames ident en"
  shows "tri ident \<rho> (stage_body en ident s)
     (\<lambda>fl \<rho>'. if skipped \<rho> s then fl = FContinue \<and> \<rho>' = \<rho> else leaves ident \<rho> s fl \<rho>')"
  unfolding stage_body_def
  by (rule tri_bind [OF tri_get]) (auto simp: skipped_def intro: tri_ret tri_examine [OF en])

end
