(* ===== verification/Runner_Progress.thy ===== *)
theory Runner_Progress
  imports Runner_Stage
begin

text \<open>
  Every run of the loop ends.  A round that asks for a restart leaves the rows of a clean restart:
  the stages below it are complete, the restarted one is pending, nothing lies above it.  From
  there each further restart uses up a gate revision, moves the origin of the recovery lineage
  to a later stage, or uses up an attempt.
\<close>

section \<open>The rows after a restart\<close>

definition passed :: "rows \<Rightarrow> stage \<Rightarrow> bool" where
  "passed \<rho> s \<longleftrightarrow> skipped \<rho> s \<or> (\<exists>c. \<rho> s = Some c \<and> done_row s c)"

definition top_row :: "rows \<Rightarrow> stage \<Rightarrow> checkpoint \<Rightarrow> bool" where
  "top_row \<rho> r p \<longleftrightarrow> \<rho> r = Some p \<and> (\<forall>t > r. \<rho> t = None)"

definition clean :: "identity \<Rightarrow> rows \<Rightarrow> stage \<Rightarrow> checkpoint \<Rightarrow> bool" where
  "clean ident \<rho> r p \<longleftrightarrow> PRO_CON_DONE \<le> r \<and> pending_row ident r p \<and> top_row \<rho> r p
     \<and> (\<forall>t < r. PRO_CON_DONE \<le> t \<longrightarrow> passed \<rho> t) \<and> \<not> skipped \<rho> r"

lemma HOLD_SKIPPED_after_final: "s \<in> set HOLD_SKIPPED \<Longrightarrow> VERIFICATION_FINAL_DONE < s"
  by (auto simp: HOLD_SKIPPED_def less_stage_def)

lemma skipped_below: "same_below s \<rho> \<rho>' \<Longrightarrow> t \<le> s \<Longrightarrow> skipped \<rho>' t = skipped \<rho> t"
  using HOLD_SKIPPED_after_final [of t] by (auto simp: skipped_def same_below_def)

lemma passed_below: "same_below s \<rho> \<rho>' \<Longrightarrow> t < s \<Longrightarrow> passed \<rho>' t = passed \<rho> t"
  using skipped_below [of s \<rho> \<rho>' t] by (auto simp: passed_def same_below_def)

lemma top_row_unique: "top_row \<rho> r p \<Longrightarrow> top_row \<rho> r' p' \<Longrightarrow> r' = r \<and> p' = p"
  unfolding top_row_def by (metis linorder_less_linear option.distinct(1) option.inject)

lemma clean_restart:
  assumes "leaves ident \<rho> s FRestart \<rho>'" "\<not> skipped \<rho> s" "PRO_CON_DONE \<le> s"
    "\<And>t. PRO_CON_DONE \<le> t \<Longrightarrow> t < s \<Longrightarrow> passed \<rho> t"
  shows "\<exists>r p. clean ident \<rho>' r p"
proof -
  obtain r p where r: "\<rho>' = restart_rows \<rho> r p" "pending_row ident r p" "r \<le> s"
    "r \<in> {s, VERIFICATION_INITIAL_DONE, POC_CANDIDATE_DONE}"
    using assms(1) unfolding leaves_def by auto
  have b: "same_below r \<rho> \<rho>'" by (simp add: r(1))
  have "r = s" if "skipped \<rho> r" using that r(4) by (auto simp: skipped_def HOLD_SKIPPED_def)
  then have "\<not> skipped \<rho>' r" using skipped_below [OF b] assms(2) by auto
  moreover have "passed \<rho>' t" if "t < r" "PRO_CON_DONE \<le> t" for t
    using passed_below [OF b that(1)] assms(4) that r(3) by simp
  moreover have "top_row \<rho>' r p" by (auto simp: r(1) top_row_def restart_rows_def)
  moreover have "PRO_CON_DONE \<le> r" using r(4) assms(3) by (auto simp: less_eq_stage_def)
  ultimately show ?thesis using r(2) unfolding clean_def by blast
qed

text \<open>Positions in \<open>HYPOTHESIS_STAGES\<close>.\<close>

lemma hypothesis_prefix:
  assumes "HYPOTHESIS_STAGES = pre @ s # ss"
  shows "PRO_CON_DONE \<le> s" "t \<in> set pre \<longleftrightarrow> PRO_CON_DONE \<le> t \<and> t < s" "u \<in> set ss \<Longrightarrow> s < u"
proof -
  have "sorted_wrt (<) HYPOTHESIS_STAGES"
    unfolding HYPOTHESIS_STAGES_def using sorted_STAGE_ORDER by (rule sorted_wrt_drop)
  then have o: "\<forall>a \<in> set pre. \<forall>b \<in> set (s # ss). a < b" "\<forall>b \<in> set ss. s < b"
    unfolding assms by (auto simp: sorted_wrt_append)
  have m: "x \<in> set (pre @ s # ss) \<longleftrightarrow> PRO_CON_DONE \<le> x" for x
    using set_HYPOTHESIS_STAGES [of x] by (simp only: assms)
  show "PRO_CON_DONE \<le> s" using m [of s] by simp
  show "u \<in> set ss \<Longrightarrow> s < u" using o(2) by blast
  show "t \<in> set pre \<longleftrightarrow> PRO_CON_DONE \<le> t \<and> t < s"
    using m [of t] o by (auto dest: less_asym)
qed

definition all_passed :: "rows \<Rightarrow> bool" where
  "all_passed \<rho> \<longleftrightarrow> (\<forall>s \<in> set HYPOTHESIS_STAGES. passed \<rho> s)"

text \<open>A round ends the run early, comes to its end with every stage passed, or restarts cleanly.\<close>

definition round_post :: "identity \<Rightarrow> flow \<Rightarrow> rows \<Rightarrow> bool" where
  "round_post ident fl \<rho> \<longleftrightarrow>
     (case fl of
        FContinue \<Rightarrow> False
      | FRestart \<Rightarrow> \<exists>r p. clean ident \<rho> r p
      | FReturn out \<Rightarrow> ends_early out \<or> all_passed \<rho>)"

lemma tri_run_stages_clean:
  assumes en: "env_frames ident en"
  shows "HYPOTHESIS_STAGES = pre @ ss \<Longrightarrow> \<forall>t \<in> set pre. passed \<rho> t \<Longrightarrow>
    tri ident \<rho> (run_stages en ident ss) (round_post ident)"
proof (induction ss arbitrary: pre \<rho>)
  case Nil
  then show ?case
    unfolding run_stages.simps by (intro tri_ret) (simp add: round_post_def all_passed_def)
next
  case (Cons s ss)
  note pos = hypothesis_prefix [OF Cons.prems(1)]
  show ?case
    unfolding run_stages.simps
  proof (rule tri_bind [OF tri_stage_body [OF en]])
    fix fl \<rho>'
    assume fl: "if skipped \<rho> s then fl = FContinue \<and> \<rho>' = \<rho> else leaves ident \<rho> s fl \<rho>'"
    show "tri ident \<rho>' (case fl of FContinue \<Rightarrow> run_stages en ident ss
        | FRestart \<Rightarrow> retE FRestart | FReturn out \<Rightarrow> retE (FReturn out)) (round_post ident)"
    proof (cases fl)
      case FContinue
      have b: "same_below s \<rho> \<rho>'" and s: "passed \<rho>' s"
        using fl FContinue by (auto simp: leaves_def passed_def split: if_splits)
      have "\<forall>t \<in> set (pre @ [s]). passed \<rho>' t"
        using s Cons.prems(2) passed_below [OF b] pos(2) by auto
      then show ?thesis using Cons.IH [of "pre @ [s]" \<rho>'] Cons.prems(1) FContinue by simp
    next
      case FRestart
      then have "\<exists>r p. clean ident \<rho>' r p"
        using fl clean_restart [of ident \<rho> s \<rho>'] pos Cons.prems(2) by (auto split: if_splits)
      then show ?thesis using FRestart by (simp add: tri_ret round_post_def)
    qed (use fl in \<open>auto intro!: tri_ret simp: round_post_def split: if_splits\<close>)
  qed
qed

section \<open>Every further restart goes down\<close>

definition origin_code :: "checkpoint \<Rightarrow> nat" where
  "origin_code p = (case cp_recovery_origin_stage p of None \<Rightarrow> 0 | Some s \<Rightarrow> Suc (stage_index s))"

lemma origin_code_le: "origin_code p \<le> 14"
proof -
  have "stage_index s < 14" for s using stage_index_less [of s] by (simp add: STAGE_ORDER_def)
  then show ?thesis by (auto simp: origin_code_def Suc_le_eq split: option.split)
qed

text \<open>Gate revisions left, stages a lineage can still originate from, attempts left.\<close>

definition rank :: "checkpoint \<Rightarrow> nat \<times> nat \<times> nat" where
  "rank p = (nat (2 - cp_gate_revision_count p), 14 - origin_code p,
             nat (MAX_RECOVERY_ATTEMPTS - cp_attempt_number p))"

definition rank_less :: "checkpoint \<Rightarrow> checkpoint \<Rightarrow> bool" where
  "rank_less p q \<longleftrightarrow> (rank p, rank q) \<in> less_than <*lex*> less_than <*lex*> less_than"

text \<open>What a row of the current round knows of the pending row \<open>p\<close> the round began with.\<close>

definition attempt_descends :: "checkpoint \<Rightarrow> nat \<Rightarrow> checkpoint \<Rightarrow> bool" where
  "attempt_descends p n c \<longleftrightarrow> cp_gate_revision_count c = cp_gate_revision_count p
     \<and> (cp_recovery_origin_stage c = cp_recovery_origin_stage p \<and> cp_recovery_origin_stage p \<noteq> None
          \<and> cp_attempt_number c = cp_attempt_number p + 1
        \<or> cp_recovery_origin_stage c = None \<and> origin_code p \<le> n)"

lemma attempt_descends_mono: "attempt_descends p m c \<Longrightarrow> m \<le> n \<Longrightarrow> attempt_descends p n c"
  by (auto simp: attempt_descends_def)

lemma attempt_descends_completes:
  assumes "attempt_descends p (stage_index s) c" "completes c c'" "cp_stage c = s"
  shows "attempt_descends p (Suc (stage_index s)) c'"
  using assms by (auto simp: attempt_descends_def completes_def origin_code_def split: if_splits option.splits)

lemma rank_less_revised:
  "cp_gate_revision_count p' = cp_gate_revision_count p + 1 \<Longrightarrow> cp_gate_revision_count p < 2 \<Longrightarrow>
     rank_less p' p"
  by (simp add: rank_less_def rank_def)

lemma rank_less_recovered:
  assumes d: "attempt_descends p (stage_index (cp_stage c)) c"
    and p': "cp_attempt_number p' = cp_attempt_number c" "cp_attempt_number c < MAX_RECOVERY_ATTEMPTS"
      "cp_gate_revision_count p' = cp_gate_revision_count c"
      "cp_recovery_origin_stage p'
         = Some (case cp_recovery_origin_stage c of None \<Rightarrow> cp_stage c | Some s \<Rightarrow> s)"
  shows "rank_less p' p"
proof (cases "cp_recovery_origin_stage c")
  case None
  then have "origin_code p \<le> stage_index (cp_stage c)" using d by (auto simp: attempt_descends_def)
  moreover have "origin_code p' = Suc (stage_index (cp_stage c))" using p'(4) None by (simp add: origin_code_def)
  ultimately have "14 - origin_code p' < 14 - origin_code p" using origin_code_le [of p'] by linarith
  then show ?thesis using p'(3) d by (simp add: rank_less_def rank_def attempt_descends_def)
next
  case (Some o')
  then have "origin_code p' = origin_code p" "cp_attempt_number c = cp_attempt_number p + 1"
    using p'(4) d by (auto simp: attempt_descends_def origin_code_def)
  then show ?thesis using p' d by (simp add: rank_less_def rank_def attempt_descends_def)
qed

definition goes_down :: "checkpoint \<Rightarrow> rows \<Rightarrow> bool" where
  "goes_down p \<rho> \<longleftrightarrow> (\<exists>r p'. top_row \<rho> r p' \<and> rank_less p' p)"

lemma top_row_restart: "top_row (restart_rows \<rho> r p) r p"
  by (auto simp: top_row_def restart_rows_def)

lemma goes_down_restart:
  assumes "body_post ident \<rho> s c FRestart \<rho>'" "row_at ident s c" "attempt_descends p (stage_index s) c"
  shows "goes_down p \<rho>'"
proof -
  have s: "cp_stage c = s" using assms(2) by (simp add: row_at_def)
  consider "recovered_from ident \<rho> c \<rho>'"
    | c' where "completes c c'" "revised_from ident \<rho> c' \<rho>'"
    using assms(1) by (auto simp: body_post_def)
  then show ?thesis
  proof cases
    case 1
    then show ?thesis
      using rank_less_recovered [of p c] assms(3) s top_row_restart
      unfolding recovered_from_def goes_down_def by blast
  next
    case 2
    then show ?thesis
      using rank_less_revised [of _ p] assms(3) top_row_restart
      unfolding revised_from_def goes_down_def attempt_descends_def completes_def by metis
  qed
qed

text \<open>The row that the next stage inherits from.\<close>

definition carried :: "checkpoint \<Rightarrow> rows \<Rightarrow> stage \<Rightarrow> bool" where
  "carried p \<rho> s \<longleftrightarrow> (\<exists>u q. u < s \<and> top_row \<rho> u q \<and> attempt_descends p (stage_index s) q)"

lemma carried_mono: "carried p \<rho> s \<Longrightarrow> s \<le> t \<Longrightarrow> carried p \<rho> t"
  unfolding carried_def using attempt_descends_mono
  by (auto simp: less_eq_stage_def less_stage_def) (meson less_le_trans)

lemma carried_next:
  assumes "body_post ident \<rho> s c FContinue \<rho>'" "row_at ident s c" "attempt_descends p (stage_index s) c"
    "\<forall>t > s. \<rho> t = None" "s < t"
  shows "carried p \<rho>' t"
proof -
  obtain c' where c': "\<rho>' s = Some c'" "completes c c'" "\<forall>t > s. \<rho>' t = None"
    using assms(1,4) by (auto simp: body_post_def)
  have "attempt_descends p (Suc (stage_index s)) c'"
    using attempt_descends_completes [OF assms(3) c'(2)] assms(2) by (simp add: row_at_def)
  then have "attempt_descends p (stage_index t) c'"
    by (rule attempt_descends_mono) (use assms(5) in \<open>simp add: less_stage_def\<close>)
  then show ?thesis unfolding carried_def top_row_def using c' assms(5) by blast
qed

text \<open>A stage with no row, a pending one or a complete one is reused or started at once.\<close>

definition settled :: "stage \<Rightarrow> checkpoint option \<Rightarrow> bool" where
  "settled s x \<longleftrightarrow>
     pred_option (\<lambda>c. cp_status c \<in> {PENDING, SUCCEEDED} \<and> cp_stage_version c = STAGE_VERSION s) x"

lemma resume_settled:
  "settled s x \<Longrightarrow> resume_existing en ident s final x = reuse_or_start en ident s final x"
  by (cases x) (auto simp: resume_existing_def settled_def recover_existing_def)

lemma tri_examine_settled:
  assumes "settled s (\<rho> s)" "\<And>out \<rho>'. Q (FReturn out) \<rho>'"
    and r: "tri ident \<rho> (reuse_or_start en ident s final (\<rho> s)) Q"
  shows "tri ident \<rho> (examine_stage en ident s final) Q"
  unfolding examine_stage_def
proof (rule tri_bind [OF tri_get], rule tri_option)
  fix existing \<rho>' assume e: "existing = \<rho> s \<and> \<rho>' = \<rho> \<and> pred_option (row_at ident s) existing"
  {
    assume "existing = None"
    then show "tri ident \<rho>' (resume_existing en ident s final None) Q"
      using e r by (simp add: resume_existing_def)
  next
    fix c assume c: "existing = Some c"
    have "version_gate en ident s existing (resume_existing en ident s final)
        = reuse_or_start en ident s final (\<rho> s)"
    proof -
      have r: "\<rho> s = Some c" using e c by simp
      then have "cp_stage_version c = STAGE_VERSION s" using assms(1) by (simp add: settled_def)
      then show ?thesis using assms(1) r c resume_settled [of s "Some c"] by (simp add: version_gate_def)
    qed
    then show "tri ident \<rho>' (bindE (prior_decision c) (\<lambda>decided.
         if decided then
           bindE (promote_stopped_poc en c) (\<lambda>promoted.
           retE (FReturn (case promoted of Some out \<Rightarrow> out | None \<Rightarrow> recorded s c)))
         else if s = POC_EXECUTION_DONE \<and> poc_closed en c then retE (FReturn (recorded s c))
         else version_gate en ident s existing (resume_existing en ident s final))) Q"
      using e r assms(2) by (auto intro!: tri_bind [OF tri_framed [OF row_framed_prior_decision]]
          tri_bind [OF tri_promote_stopped] tri_ret)
  }
qed

lemma tri_body_settled:
  assumes "settled s (\<rho> s)" "\<And>out \<rho>'. Q (FReturn out) \<rho>'"
    and "skipped \<rho> s \<Longrightarrow> Q FContinue \<rho>"
    and "\<And>final. \<not> skipped \<rho> s \<Longrightarrow> tri ident \<rho> (reuse_or_start en ident s final (\<rho> s)) Q"
  shows "tri ident \<rho> (stage_body en ident s) Q"
  unfolding stage_body_def
  by (rule tri_bind [OF tri_get])
     (use assms in \<open>auto simp: skipped_def intro!: tri_ret tri_examine_settled [where \<rho> = \<rho> and Q = Q]\<close>)

lemma tri_body_passed:
  assumes en: "env_frames ident en" and p: "passed \<rho> s"
  shows "tri ident \<rho> (stage_body en ident s) (\<lambda>fl \<rho>'. fl \<noteq> FRestart \<and> (fl = FContinue \<longrightarrow> \<rho>' = \<rho>))"
proof (cases "skipped \<rho> s")
  case True
  then show ?thesis using tri_weaken [OF tri_stage_body [OF en]] by simp
next
  case False
  then obtain c where c: "\<rho> s = Some c" "done_row s c" using p by (auto simp: passed_def)
  show ?thesis
  proof (rule tri_body_settled)
    show "settled s (\<rho> s)" using c by (simp add: settled_def done_row_def gate_passed_def)
    fix final
    show "tri ident \<rho> (reuse_or_start en ident s final (\<rho> s))
        (\<lambda>fl \<rho>'. fl \<noteq> FRestart \<and> (fl = FContinue \<longrightarrow> \<rho>' = \<rho>))"
      by (rule tri_weaken [OF tri_reuse_or_start [OF en]])
         (use c in \<open>auto simp: reused_post_def split: flow.splits\<close>)
  qed (use False in simp_all)
qed

text \<open>A stage that has to run: its row attempt_descends from the pending row of the round.\<close>

lemma tri_body_run:
  assumes en: "env_frames ident en" and ns: "\<not> skipped \<rho> s"
    and x: "\<rho> s = None \<or> (\<exists>q. \<rho> s = Some q \<and> pending_row ident s q)" "\<forall>t > s. \<rho> t = None"
    and d: "\<And>c. started ident \<rho> s c \<Longrightarrow> attempt_descends p (stage_index s) c"
  shows "tri ident \<rho> (stage_body en ident s)
     (\<lambda>fl \<rho>'. (fl = FRestart \<longrightarrow> goes_down p \<rho>') \<and> (fl = FContinue \<longrightarrow> (\<forall>t > s. carried p \<rho>' t)))"
proof (rule tri_body_settled)
  show "settled s (\<rho> s)" using x(1) by (auto simp: settled_def pending_row_def)
  fix final
  show "tri ident \<rho> (reuse_or_start en ident s final (\<rho> s))
     (\<lambda>fl \<rho>'. (fl = FRestart \<longrightarrow> goes_down p \<rho>') \<and> (fl = FContinue \<longrightarrow> (\<forall>t > s. carried p \<rho>' t)))"
  proof (rule tri_weaken [OF tri_reuse_or_start [OF en]], elim disjE exE conjE)
    fix fl \<rho>' assume "reused_post ident \<rho> s fl \<rho>'"
    then show "(fl = FRestart \<longrightarrow> goes_down p \<rho>') \<and> (fl = FContinue \<longrightarrow> (\<forall>t > s. carried p \<rho>' t))"
      using x(1) by (auto simp: reused_post_def pending_row_def)
  next
    fix fl \<rho>' c assume st: "started ident \<rho> s c" and b: "body_post ident \<rho> s c fl \<rho>'"
    have r: "row_at ident s c" using st by (simp add: started_def)
    show "(fl = FRestart \<longrightarrow> goes_down p \<rho>') \<and> (fl = FContinue \<longrightarrow> (\<forall>t > s. carried p \<rho>' t))"
      using goes_down_restart [OF _ r d [OF st]] carried_next [OF _ r d [OF st] x(2)] b by blast
  qed
qed (use ns in simp_all)

lemma tri_body_restarted:
  assumes en: "env_frames ident en" and c: "clean ident \<rho> r p"
  shows "tri ident \<rho> (stage_body en ident r)
     (\<lambda>fl \<rho>'. (fl = FRestart \<longrightarrow> goes_down p \<rho>') \<and> (fl = FContinue \<longrightarrow> (\<forall>t > r. carried p \<rho>' t)))"
proof (rule tri_body_run [OF en])
  have top: "\<rho> r = Some p" "\<forall>t > r. \<rho> t = None" and p: "pending_row ident r p"
    using c by (auto simp: clean_def top_row_def)
  show "\<not> skipped \<rho> r" using c by (simp add: clean_def)
  show "\<rho> r = None \<or> (\<exists>q. \<rho> r = Some q \<and> pending_row ident r q)" using top(1) p by blast
  show "\<forall>t > r. \<rho> t = None" by (rule top(2))
  fix c assume "started ident \<rho> r c"
  then have "cp_attempt_number c = cp_attempt_number p + 1"
    "cp_gate_revision_count c = cp_gate_revision_count p"
    "cp_recovery_origin_stage c = cp_recovery_origin_stage p"
    using top(1) p by (auto simp: started_def pending_row_def)
  then show "attempt_descends p (stage_index r) c" by (auto simp: attempt_descends_def origin_code_def)
qed

lemma tri_body_carried:
  assumes en: "env_frames ident en" and c: "carried p \<rho> s"
  shows "tri ident \<rho> (stage_body en ident s)
     (\<lambda>fl \<rho>'. (fl = FRestart \<longrightarrow> goes_down p \<rho>') \<and> (fl = FContinue \<longrightarrow> (\<forall>t > s. carried p \<rho>' t)))"
proof (cases "skipped \<rho> s")
  case True
  have "carried p \<rho> t" if "s < t" for t using carried_mono [OF c] that by simp
  then show ?thesis by (intro tri_weaken [OF tri_stage_body [OF en]]) (use True in auto)
next
  case False
  obtain u q where u: "u < s" "\<rho> u = Some q" "\<forall>t > u. \<rho> t = None" "attempt_descends p (stage_index s) q"
    using c by (auto simp: carried_def top_row_def)
  have pre: "preceding_row \<rho> s = Some q" using u by (auto intro: preceding_row_last)
  have "attempt_descends p (stage_index s) c" if "started ident \<rho> s c" for c
    using that pre u(1,3,4) by (auto simp: started_def attempt_descends_def)
  then show ?thesis using tri_body_run [OF en False, of p] u by auto
qed

section \<open>Termination\<close>

lemma tri_run_stages_down:
  assumes en: "env_frames ident en"
  shows "HYPOTHESIS_STAGES = pre @ ss \<Longrightarrow> \<forall>s \<in> set ss. carried p \<rho> s \<Longrightarrow>
    tri ident \<rho> (run_stages en ident ss) (\<lambda>fl \<rho>'. fl = FRestart \<longrightarrow> goes_down p \<rho>')"
proof (induction ss arbitrary: pre \<rho>)
  case Nil
  show ?case unfolding run_stages.simps by (rule tri_ret) simp
next
  case (Cons s ss)
  show ?case
    unfolding run_stages.simps
  proof (rule tri_bind [OF tri_body_carried [OF en]])
    show "carried p \<rho> s" using Cons.prems(2) by simp
    fix fl \<rho>'
    assume fl: "(fl = FRestart \<longrightarrow> goes_down p \<rho>') \<and> (fl = FContinue \<longrightarrow> (\<forall>t > s. carried p \<rho>' t))"
    show "tri ident \<rho>' (case fl of FContinue \<Rightarrow> run_stages en ident ss
        | FRestart \<Rightarrow> retE FRestart | FReturn out \<Rightarrow> retE (FReturn out))
      (\<lambda>fl \<rho>'. fl = FRestart \<longrightarrow> goes_down p \<rho>')"
      using fl hypothesis_prefix(3) [OF Cons.prems(1)] Cons.IH [of "pre @ [s]" \<rho>'] Cons.prems(1)
      by (cases fl) (auto intro: tri_ret)
  qed
qed

lemma tri_run_stages_restarted:
  assumes en: "env_frames ident en" and c: "clean ident \<rho> r p"
  shows "HYPOTHESIS_STAGES = pre @ ss \<Longrightarrow> r \<in> set ss \<Longrightarrow>
    tri ident \<rho> (run_stages en ident ss) (\<lambda>fl \<rho>'. fl = FRestart \<longrightarrow> goes_down p \<rho>')"
proof (induction ss arbitrary: pre)
  case (Cons s ss)
  note pos = hypothesis_prefix [OF Cons.prems(1)]
  show ?case
  proof (cases "s = r")
    case True
    show ?thesis
      unfolding run_stages.simps True
    proof (rule tri_bind [OF tri_body_restarted [OF en c]])
      fix fl \<rho>'
      assume fl: "(fl = FRestart \<longrightarrow> goes_down p \<rho>') \<and> (fl = FContinue \<longrightarrow> (\<forall>t > r. carried p \<rho>' t))"
      show "tri ident \<rho>' (case fl of FContinue \<Rightarrow> run_stages en ident ss
        | FRestart \<Rightarrow> retE FRestart | FReturn out \<Rightarrow> retE (FReturn out))
      (\<lambda>fl \<rho>'. fl = FRestart \<longrightarrow> goes_down p \<rho>')"
        using fl pos(3) True tri_run_stages_down [OF en, of "pre @ [s]" ss p \<rho>'] Cons.prems(1)
        by (cases fl) (auto intro: tri_ret)
    qed
  next
    case False
    then have "s < r" using pos(3) Cons.prems(2) by auto
    then have "passed \<rho> s" using c pos(1) by (simp add: clean_def)
    show ?thesis
      unfolding run_stages.simps
    proof (rule tri_bind [OF tri_body_passed [OF en \<open>passed \<rho> s\<close>]])
      fix fl \<rho>' assume fl: "fl \<noteq> FRestart \<and> (fl = FContinue \<longrightarrow> \<rho>' = \<rho>)"
      show "tri ident \<rho>' (case fl of FContinue \<Rightarrow> run_stages en ident ss
        | FRestart \<Rightarrow> retE FRestart | FReturn out \<Rightarrow> retE (FReturn out))
      (\<lambda>fl \<rho>'. fl = FRestart \<longrightarrow> goes_down p \<rho>')"
        using fl Cons.IH [of "pre @ [s]"] Cons.prems False by (cases fl) (auto intro: tri_ret)
    qed
  qed
qed simp

lemma resume_loop_more: "resume_loop n en ident t = Some x \<Longrightarrow> resume_loop (n + k) en ident t = Some x"
proof (induction n arbitrary: t)
  case (Suc n)
  then show ?case by (auto split: prod.splits sum.splits flow.splits)
qed simp

text \<open>One round: it ends the run, or it leaves the rows of a clean restart.\<close>

lemma round_cases:
  assumes en: "env_frames ident en" and ok: "db_ok (fst t)"
  obtains (raised) e t' where "run_stages en ident HYPOTHESIS_STAGES t = (Inl e, t')" "db_ok (fst t')"
  | (returned) out t' where "run_stages en ident HYPOTHESIS_STAGES t = (Inr (FReturn out), t')"
      "db_ok (fst t')" "ends_early out \<or> all_passed (rows_of ident t')"
  | (restarted) t' r p where "run_stages en ident HYPOTHESIS_STAGES t = (Inr FRestart, t')"
      "db_ok (fst t')" "clean ident (rows_of ident t') r p"
proof -
  obtain x t' where run: "run_stages en ident HYPOTHESIS_STAGES t = (x, t')"
    by (cases "run_stages en ident HYPOTHESIS_STAGES t")
  have tr: "tri ident (rows_of ident t) (run_stages en ident HYPOTHESIS_STAGES) (round_post ident)"
    by (rule tri_run_stages_clean [OF en, of "[]"]) simp_all
  note d = triD [OF tr ok refl run]
  show ?thesis
  proof (cases x)
    case (Inl e)
    then show ?thesis using raised run d(1) by blast
  next
    case (Inr fl)
    with d have p: "round_post ident fl (rows_of ident t')" "db_ok (fst t')" by blast+
    show ?thesis
    proof (cases fl)
      case FRestart
      then obtain r q where "clean ident (rows_of ident t') r q" using p by (auto simp: round_post_def)
      then show ?thesis using restarted [OF _ p(2)] run Inr FRestart by blast
    next
      case (FReturn out)
      then show ?thesis using p run Inr returned unfolding round_post_def by simp
    qed (use p in \<open>simp add: round_post_def\<close>)
  qed
qed

lemma rank_less_wf: "wf (inv_image (less_than <*lex*> less_than <*lex*> less_than) rank)"
  by (intro wf_inv_image wf_lex_prod wf_less_than)

lemma clean_terminates:
  assumes en: "env_frames ident en"
  shows "db_ok (fst t) \<Longrightarrow> clean ident (rows_of ident t) r p \<Longrightarrow> \<exists>n x. resume_loop n en ident t = Some x"
proof (induction p arbitrary: t r rule: wf_induct_rule [OF rank_less_wf])
  case (1 p)
  show ?case using en 1(2)
  proof (cases rule: round_cases)
    case (restarted t' r' p')
    have "r \<in> set HYPOTHESIS_STAGES" using 1(3) by (simp add: clean_def set_HYPOTHESIS_STAGES)
    then have tr: "tri ident (rows_of ident t) (run_stages en ident HYPOTHESIS_STAGES)
        (\<lambda>fl \<rho>'. fl = FRestart \<longrightarrow> goes_down p \<rho>')"
      using tri_run_stages_restarted [OF en 1(3), of "[]" HYPOTHESIS_STAGES] by simp
    have "goes_down p (rows_of ident t')"
      using triD(2) [OF tr 1(2) refl restarted(1)] by blast
    then have "rank_less p' p"
      using restarted(3) top_row_unique unfolding goes_down_def clean_def by metis
    then have "(p', p) \<in> inv_image (less_than <*lex*> less_than <*lex*> less_than) rank"
      unfolding rank_less_def in_inv_image .
    from 1(1) [OF this restarted(2,3)] obtain n x where "resume_loop n en ident t' = Some x" by blast
    then have "resume_loop (Suc n) en ident t = Some x" using restarted(1) by simp
    then show ?thesis by blast
  next
    case (raised e t')
    then have "resume_loop 1 en ident t = Some (Inl e, t')" by simp
    then show ?thesis by blast
  next
    case (returned out t')
    then have "resume_loop 1 en ident t = Some (Inr out, t')" by simp
    then show ?thesis by blast
  qed
qed

lemma resume_loop_terminates:
  assumes en: "env_frames ident en" and ok: "db_ok (fst t)"
  shows "\<exists>n x. resume_loop n en ident t = Some x"
  using en ok
proof (cases rule: round_cases)
  case (raised e t')
  then have "resume_loop 1 en ident t = Some (Inl e, t')" by simp
  then show ?thesis by blast
next
  case (returned out t')
  then have "resume_loop 1 en ident t = Some (Inr out, t')" by simp
  then show ?thesis by blast
next
  case (restarted t' r p)
  then obtain n x where "resume_loop n en ident t' = Some x" using clean_terminates [OF en] by blast
  then have "resume_loop (Suc n) en ident t = Some x" using restarted(1) by simp
  then show ?thesis by blast
qed

text \<open>A run that reports the last stage as succeeded has passed every stage.\<close>

lemma resume_loop_reported:
  assumes en: "env_frames ident en"
  shows "db_ok (fst t) \<Longrightarrow> resume_loop n en ident t = Some (Inr out, t') \<Longrightarrow>
    ends_early out \<or> all_passed (rows_of ident t')"
proof (induction n arbitrary: t)
  case (Suc n)
  show ?case using en Suc.prems(1)
  proof (cases rule: round_cases)
    case (restarted u r p)
    then show ?thesis using Suc.IH [of u] Suc.prems(2) by simp
  qed (use Suc.prems(2) in auto)
qed simp

end
