(* ===== verification/Store_Properties.thy ===== *)
theory Store_Properties
  imports Store_Steps
begin

text \<open>
  What the checkpoint store promises its clients, proved from the operation lemmas: the
  reachable-state invariant, what a restart leaves behind, the idempotence of the gate revision
  and of recorded decisions, and the evidence behind a terminal result.
\<close>

section \<open>Shared facts\<close>

lemma restart_stored:
  assumes "d' = mark_dirty st a (upsert_checkpoint p (delete_stages (cp_identity p) (stages_from (cp_stage p)) d))"
  shows "stored d' (cp_identity p) t
           = (if t = cp_stage p then Some p else if cp_stage p < t then None
              else stored d (cp_identity p) t)"
  using assms by (auto simp: stored_upsert stored_delete row_key_of set_stages_from)

lemma append_activity_mem:
  "append_activity [e] d = Inr d' \<Longrightarrow> e \<in> set (db_events d')"
  using append_events_mem [of "db_events d" "[e]" "db_events d'" e]
  by (auto elim: append_activity_cases)

lemma stored_append_activity: "append_activity es d = Inr d' \<Longrightarrow> stored d' i s = stored d i s"
  by (erule append_activity_cases) simp

text \<open>A decision event found or built by \<open>_recovery_event\<close> names exactly this decision.\<close>

lemma recovery_event_fields:
  assumes "recovery_event safe d failed res = Inr e"
  shows "ev_kind e = DECISION_RECORDED" "ev_output_refs e = [rr_decision_ref res]"
    "ev_stage e = stage_value (cp_stage failed)" "ev_attempt e = attempt_key failed"
    "ev_analysis e = id_analysis (cp_identity failed)"
    "event_hypothesis_key e = hypothesis_key (cp_identity failed)"
    "stage_sequence (cp_stage failed) 40 \<le> ev_sequence e"
    "ev_sequence e < stage_sequence (cp_stage failed) 99"
proof -
  let ?P = "\<lambda>e. ev_stage e = stage_value (cp_stage failed) \<and> ev_kind e = DECISION_RECORDED
      \<and> ev_output_refs e = [rr_decision_ref res]"
  have "?P e \<and> ev_attempt e = attempt_key failed \<and> ev_analysis e = id_analysis (cp_identity failed)
      \<and> event_hypothesis_key e = hypothesis_key (cp_identity failed)
      \<and> stage_sequence (cp_stage failed) 40 \<le> ev_sequence e
      \<and> ev_sequence e < stage_sequence (cp_stage failed) 99"
  proof (cases "find ?P (decision_rows d failed)")
    case (Some x)
    then have "e = x" using assms by (simp add: recovery_event_def)
    moreover note find_SomeD [OF Some]
    ultimately have "e = x" "x \<in> set (decision_rows d failed)" "?P x" by auto
    then show ?thesis by (auto simp: decision_rows_def stage_sequence_def)
  next
    case None
    obtain q where
      q: "find (\<lambda>v. v \<notin> ev_sequence ` set (decision_rows d failed))
            [stage_sequence (cp_stage failed) 40 .. stage_sequence (cp_stage failed) 40 + 58] = Some q"
      and e: "lifecycle_event safe failed DECISION_RECORDED q BLOCKED
            (decision_summary failed (rd_action (rr_decision res)))
            [rr_decision_ref res] (cp_error_code failed) = Inr e"
      using assms None by (auto simp: recovery_event_def Let_def split: option.splits)
    have "q \<in> set [stage_sequence (cp_stage failed) 40 .. stage_sequence (cp_stage failed) 40 + 58]"
      using find_SomeD [OF q] by blast
    then have "stage_sequence (cp_stage failed) 40 \<le> q" "q < stage_sequence (cp_stage failed) 99"
      by (simp_all add: stage_sequence_def)
    with lifecycle_event_fields [OF e] show ?thesis by simp
  qed
  then show "ev_kind e = DECISION_RECORDED" "ev_output_refs e = [rr_decision_ref res]"
    "ev_stage e = stage_value (cp_stage failed)" "ev_attempt e = attempt_key failed"
    "ev_analysis e = id_analysis (cp_identity failed)"
    "event_hypothesis_key e = hypothesis_key (cp_identity failed)"
    "stage_sequence (cp_stage failed) 40 \<le> ev_sequence e"
    "ev_sequence e < stage_sequence (cp_stage failed) 99" by simp_all
qed

text \<open>Once a decision is in the history, asking for its event finds one that is already there.\<close>

lemma recovery_event_again:
  assumes e: "e \<in> set (db_events d)" "ev_kind e = DECISION_RECORDED"
      "ev_output_refs e = [rr_decision_ref res]" "ev_stage e = stage_value (cp_stage failed)"
      "ev_attempt e = attempt_key failed" "ev_analysis e = id_analysis (cp_identity failed)"
      "event_hypothesis_key e = hypothesis_key (cp_identity failed)"
      "stage_sequence (cp_stage failed) 40 \<le> ev_sequence e"
      "ev_sequence e < stage_sequence (cp_stage failed) 99"
  shows "\<exists>e'. recovery_event safe d failed res = Inr e' \<and> e' \<in> set (db_events d)"
proof -
  let ?P = "\<lambda>e. ev_stage e = stage_value (cp_stage failed) \<and> ev_kind e = DECISION_RECORDED
      \<and> ev_output_refs e = [rr_decision_ref res]"
  have "e \<in> set (decision_rows d failed)"
    using e by (simp add: decision_rows_def stage_sequence_def)
  with e have "find ?P (decision_rows d failed) \<noteq> None"
    by (auto simp: find_None_iff)
  then obtain x where x: "find ?P (decision_rows d failed) = Some x" by blast
  then have "x \<in> set (decision_rows d failed)" by (blast dest: find_SomeD)
  then have "x \<in> set (db_events d)" by (simp add: decision_rows_def)
  with x show ?thesis by (auto simp: recovery_event_def Let_def)
qed

lemma append_activity_again: "db_ok d \<Longrightarrow> e \<in> set (db_events d) \<Longrightarrow> append_activity [e] d = Inr d"
  by (simp add: append_activity_def append_events_replay db_ok_def)

section \<open>The invariant\<close>


text \<open>
  C6.  Whatever sequence of operations runs, no activity event is ever changed or removed: the
  history before is a prefix of the history after.
\<close>

theorem store_history_append_only:
  assumes "db_ok d" "reaches store_step d d'"
  shows "\<exists>new. db_events d' = db_events d @ new"
  using reaches_extends [OF assms(2,1)] by (simp add: extends_def)

section \<open>Restarts\<close>

text \<open>
  C7.  Preparing a recovery is atomic and exact: the decision is in the activity history, the
  restart stage is pending under the failed checkpoint's attempt number and with the decision among
  its inputs, every later stage of this hypothesis is gone, and every earlier one is untouched.
\<close>

theorem prepare_recovery_restarts:
  assumes "db_ok d" "prepare_recovery safe st failed res s fail d = Inr (p, d')"
  shows "get d' (cp_identity failed) s = Inr (Some p) \<and> cp_status p = PENDING
    \<and> cp_attempt_number p = cp_attempt_number failed
    \<and> rr_decision_ref res \<in> set (cp_input_refs p)
    \<and> set (cp_output_refs failed) \<subseteq> set (cp_input_refs p)
    \<and> cp_recovery_lineage_id p \<noteq> None
    \<and> (\<forall>t. s < t \<longrightarrow> stored d' (cp_identity failed) t = None)
    \<and> (\<forall>t. t < s \<longrightarrow> stored d' (cp_identity failed) t = stored d (cp_identity failed) t)
    \<and> (\<exists>e \<in> set (db_events d'). ev_kind e = DECISION_RECORDED
         \<and> ev_output_refs e = [rr_decision_ref res])"
proof (rule prepare_recovery_cases [OF assms], goal_cases)
  case (1 l e d1)
  have p: "cp_identity p = cp_identity failed" "cp_stage p = s" using 1(6) by simp_all
  have d': "stored d' (cp_identity failed) t
      = (if t = s then Some p else if s < t then None else stored d (cp_identity failed) t)" for t
    using restart_stored [of d' st "id_analysis (cp_identity failed)" p d1 t] 1(9)
      stored_append_activity [OF 1(8)] p by simp
  have e: "e \<in> set (db_events d')" using append_activity_mem [OF 1(8)] 1(9) by simp
  have refs: "rr_decision_ref res \<in> set (cp_input_refs p)"
    "set (cp_output_refs failed) \<subseteq> set (cp_input_refs p)"
    using 1(6) by (auto simp: recovery_pending_def Let_def new_checkpoint_def)
  have "require_exact_input_hash p = Inr p"
    using 1(6) by (simp add: require_exact_input_hash_Inr)
  moreover have "cp_lookup (db_checkpoints d') (key_of (cp_identity failed) s) = Some p"
    using 1(9) p by (simp add: tbl_lookup_upsert row_key_of)
  ultimately have "get d' (cp_identity failed) s = Inr (Some p)"
    using p by (simp add: get_def)
  moreover have "cp_status p = PENDING" "cp_attempt_number p = cp_attempt_number failed"
    "cp_recovery_lineage_id p \<noteq> None" using 1(6) by simp_all
  ultimately show ?case
    using d' e refs recovery_event_fields(1,2) [OF 1(7)] by auto
qed

text \<open>
  C13.  The attempt that follows a prepared recovery is numbered one more than the failed attempt,
  stays in the same recovery lineage and reads the recorded decision.
\<close>

theorem recovery_attempt_numbering:
  assumes "db_ok d" "valid_cp failed"
    "prepare_recovery safe st failed res s fail d = Inr (p, d')"
    "mark_running safe st' (cp_identity failed) s inputs attempt inherit_from d' = Inr (c, d'')"
  shows "cp_attempt_number c = cp_attempt_number failed + 1
    \<and> cp_recovery_lineage_id c = cp_recovery_lineage_id p
    \<and> cp_recovery_origin_stage c
        = Some (case cp_recovery_origin_stage failed of None \<Rightarrow> cp_stage failed | Some t \<Rightarrow> t)
    \<and> rr_decision_ref res \<in> set (cp_input_refs c)"
proof (rule prepare_recovery_cases [OF assms(1,3)], goal_cases)
  case (1 l e d1)
  have ok: "db_ok d'"
    using prepare_recovery_extends [OF assms(3,2,1)] by (rule extends_ok)
  have st: "stored d' (cp_identity failed) s = Some p"
    using restart_stored [of d' st "id_analysis (cp_identity failed)" p d1 s] 1(6,9) by simp
  note f = mark_running_fields [OF ok assms(4), unfolded st opt_or_simps]
  have "cp_recovery_origin_stage p
      = Some (case cp_recovery_origin_stage failed of None \<Rightarrow> cp_stage failed | Some t \<Rightarrow> t)"
    "rr_decision_ref res \<in> set (cp_recovery_decision_refs p)"
    using 1(6) by (auto simp: recovery_pending_def Let_def new_checkpoint_def)
  with f(6,7,16,17) 1(6) show ?case by (simp add: running_attempt_def running_refs_def)
qed

text \<open>
  C14.  A gate revision can be replayed: preparing the same accepted revision again, after a
  crash between the commit and its use, returns the same pending candidate and changes nothing.
\<close>

theorem gate_revision_replay:
  assumes "db_ok d" "prepare_gate_revision st gate fail d = Inr (p, d')"
  shows "prepare_gate_revision st' gate fail' d' = Inr (p, d')"
proof -
  have ok: "db_ok d'"
    using prepare_gate_revision_extends [OF assms(2,1)] by (rule extends_ok)
  note g = prepare_gate_revision_guard [OF assms(2)]
  let ?look = "\<lambda>d s. cp_lookup (db_checkpoints d) (key_of (cp_identity gate) s)"
  have "?look d' TECH_GATE_DONE = None \<and> ?look d' POC_CANDIDATE_DONE = Some p
      \<and> cp_status p = PENDING \<and> cp_gate_revision_count p = cp_gate_revision_count gate + 1
      \<and> cp_input_refs p \<noteq> [] \<and> hd (cp_input_refs p) = hd (cp_output_refs gate)"
    using assms
  proof (cases rule: prepare_gate_revision_cases)
    case replayed
    then show ?thesis
      using assms(2) g by (auto simp: prepare_gate_revision_def checkpoint_at_lookup [OF assms(1)]
          split: if_splits)
  next
    case (restarted cand exe)
    obtain r where r: "cp_output_refs gate = [r]" using g(5) by (cases "cp_output_refs gate") auto
    have "POC_CANDIDATE_DONE \<le> TECH_GATE_DONE" "POC_CANDIDATE_DONE \<le> POC_CANDIDATE_DONE"
      by (simp_all add: less_eq_stage_def)
    with restarted(7,8) r show ?thesis
      by (simp add: tbl_lookup_upsert tbl_lookup_delete row_key_of set_stages_from)
  qed
  with g show ?thesis
    by (simp add: prepare_gate_revision_def checkpoint_at_lookup [OF ok])
qed

text \<open>
  C15.  An accepted revision request restarts exactly the PoC part: the pending candidate carries
  the gate's verdict document as its first input and the next revision number, all stages from the
  candidate on are dropped, all earlier ones stay, and no revision number passes 2.
\<close>

theorem gate_revision_restarts:
  assumes "db_ok d" "prepare_gate_revision st gate fail d = Inr (p, d')"
    "stored d (cp_identity gate) TECH_GATE_DONE = Some gate"
  shows "stored d' (cp_identity gate) POC_CANDIDATE_DONE = Some p
    \<and> cp_gate_revision_count p = cp_gate_revision_count gate + 1 \<and> cp_gate_revision_count p \<le> 2
    \<and> [hd (cp_input_refs p)] = cp_output_refs gate
    \<and> (\<forall>t. POC_CANDIDATE_DONE < t \<longrightarrow> stored d' (cp_identity gate) t = None)
    \<and> (\<forall>t. t < POC_CANDIDATE_DONE \<longrightarrow>
          stored d' (cp_identity gate) t = stored d (cp_identity gate) t)"
proof -
  note g = prepare_gate_revision_guard [OF assms(2)]
  have "cp_lookup (db_checkpoints d) (key_of (cp_identity gate) TECH_GATE_DONE) \<noteq> None"
    using assms(3) by (auto simp: stored_def split: option.splits)
  then obtain cand exe where p: "p = gate_revision_pending st gate cand exe"
    and d': "d' = mark_dirty st (id_analysis (cp_identity gate)) (upsert_checkpoint p
              (delete_stages (cp_identity gate) (stages_from POC_CANDIDATE_DONE) d))"
    using assms(1,2) by (auto elim: prepare_gate_revision_cases)
  obtain r where r: "cp_output_refs gate = [r]" using g(5) by (cases "cp_output_refs gate") auto
  have "stored d' (cp_identity gate) t
      = (if t = POC_CANDIDATE_DONE then Some p else if POC_CANDIDATE_DONE < t then None
         else stored d (cp_identity gate) t)" for t
    using restart_stored [of d' st "id_analysis (cp_identity gate)" p d t] d' p by simp
  with p r g(6) show ?thesis by auto
qed

section \<open>Decisions and evidence\<close>

text \<open>
  Recording the same recovery decision twice, as a restart after a crash does, leaves one
  event: the second call succeeds and the history is the one after the first call.
\<close>

theorem recovery_decision_recorded_once:
  assumes "db_ok d" "valid_cp failed"
    "record_recovery_decision safe st failed res fail d = Inr (u, d')"
  shows "\<exists>d''. record_recovery_decision safe st' failed res False d' = Inr ((), d'')
           \<and> db_events d'' = db_events d'"
proof (rule record_recovery_decision_cases [OF assms(3)], goal_cases)
  case (1 e d1)
  have ok: "db_ok d'"
    using record_recovery_decision_extends [OF assms(3,2,1)] by (rule extends_ok)
  let ?d = "upsert_checkpoint failed d'"
  have "e \<in> set (db_events ?d)" using append_activity_mem [OF 1(2)] 1(4) by simp
  then obtain e' where "recovery_event safe ?d failed res = Inr e'" "e' \<in> set (db_events ?d)"
    using recovery_event_again recovery_event_fields [OF 1(1)] by blast
  then show ?case
    using append_activity_again [OF upsert_checkpoint_ok [OF ok assms(2)]]
    by (simp add: record_recovery_decision_def)
qed

text \<open>
  C16.  Terminalizing an executed PoC yields exactly the state that the runner recognises as
  inconclusive, it is stored, and when the attempts were not exhausted there is an append-only
  decision event of this very attempt whose document is an agent's STOP for this checkpoint.
\<close>

theorem promote_execution_terminal:
  assumes "db_ok d" "promote_inconclusive_execution safe st exhausted art d = Inr (r, d')"
  shows "terminal_poc_outcome (Some r) = Some INCONCLUSIVE
    \<and> stored d' (cp_identity r) POC_EXECUTION_DONE = Some r
    \<and> cp_output_refs r = cp_output_refs exhausted
    \<and> (cp_attempt_number r < MAX_RECOVERY_ATTEMPTS \<longrightarrow>
         (\<exists>a e doc. art = Some a \<and> e \<in> set (db_events d) \<and> stop_event_ok exhausted e
            \<and> cp_poc_stop_decision_ref r = Some (hd (ev_output_refs e))
            \<and> ar_read_json a (hd (ev_output_refs e)) = Some doc \<and> stop_document_ok exhausted doc))"
proof (rule promote_execution_cases [OF assms], goal_cases)
  case (1 stop_ref e d1)
  have "stored d' (cp_identity r) POC_EXECUTION_DONE = Some r"
    using 1(1,8,10) stored_append_activity [OF 1(9)] by (simp add: stored_upsert row_key_of)
  moreover have "terminal_poc_outcome (Some r) = Some INCONCLUSIVE"
    using 1(1-8) by (auto simp: terminal_poc_outcome_def)
  moreover have "\<exists>a e doc. art = Some a \<and> e \<in> set (db_events d) \<and> stop_event_ok exhausted e
      \<and> stop_ref = Some (hd (ev_output_refs e))
      \<and> ar_read_json a (hd (ev_output_refs e)) = Some doc \<and> stop_document_ok exhausted doc"
    if less: "cp_attempt_number exhausted < MAX_RECOVERY_ATTEMPTS"
  proof -
    obtain a ref where "art = Some a" "stop_ref = Some ref"
      and v: "verified_inconclusive_stop d exhausted a = Some ref"
      using 1(7) less by auto
    moreover obtain x where "x \<in> set (db_events d)" "stop_event_ok exhausted x"
      "hd (ev_output_refs x) = ref"
      "case ar_read_json a (hd (ev_output_refs x)) of None \<Rightarrow> False
         | Some doc \<Rightarrow> stop_document_ok exhausted doc"
      using v by (auto simp: verified_inconclusive_stop_def dest!: find_SomeD
          split: option.splits list.splits if_splits)
    ultimately show ?thesis by (auto split: option.splits)
  qed
  ultimately show ?case using 1(8) by simp
qed

text \<open>
  Terminalizing an initial verification whose pinned environment cannot be built yields
  exactly the inconclusive state the runner recognises, bound to the block evidence that the
  artifact repository built and verified.
\<close>

theorem promote_initial_terminal:
  assumes "db_ok d" "promote_initial_environment_inconclusive safe st blocked art d = Inr (r, d')"
  shows "terminal_initial_outcome (Some r) = Some INCONCLUSIVE
    \<and> stored d' (cp_identity r) VERIFICATION_INITIAL_DONE = Some r
    \<and> (\<exists>ref outcome. ar_build_initial_block art blocked = Inr (Some ref)
         \<and> cp_environment_block_ref r = Some ref
         \<and> ar_verified_terminal_initial art r = Inr (Some outcome))"
proof (rule promote_initial_cases [OF assms], goal_cases)
  case (1 ref e d1 outcome)
  have "stored d' (cp_identity r) VERIFICATION_INITIAL_DONE = Some r"
    using 1(1,9,13) stored_append_activity [OF 1(12)] by (simp add: stored_upsert row_key_of)
  moreover have "terminal_initial_outcome (Some r) = Some INCONCLUSIVE"
    using 1(1-6,9) by (simp add: terminal_initial_outcome_def)
  ultimately show ?case using 1(8-10) by simp
qed

text \<open>
  C21.  A completed stage is reused for exactly the inputs it ran on: the next resume finds it
  reusable with those inputs and not with any others.
\<close>

theorem completed_stage_reusable:
  assumes "db_ok d" "valid_cp c" "cp_stage_version c = STAGE_VERSION (cp_stage c)"
    "complete_stage safe st c result run d = Inr (r, d')"
  shows "reusable d' (cp_identity c) (cp_stage c) inputs = Inr (inputs = cp_input_refs c)"
proof -
  have ok: "db_ok d'" using complete_extends [OF assms(4,2,1)] by (rule extends_ok)
  obtain e where r: "r = completed_cp st c result"
    and w: "write_tx st False r run (res_activity_events result @ [e]) d = Inr d'"
    by (rule complete_write [OF assms(4)])
  have "stored d' (cp_identity c) (cp_stage c) = Some r"
    using write_tx_stored [OF w] r by simp
  then show ?thesis
    using assms(2,3) r by (auto simp: reusable_def get_stored [OF ok] valid_cp_def)
qed

text \<open>
  C22.  A second failure of the same kind under the same stage attempt cannot be recorded unless
  it is the same event: a later \<open>BLOCKED\<close> outcome of an attempt that already has one raises
  \<open>AGENT_ACTIVITY_EVENT_CONFLICT\<close> when the caller passes no attempt of its own.
\<close>

theorem second_block_conflicts:
  assumes "db_ok d" "valid_cp c" "mark_failure safe st c f BLOCKED None d = Inr (r, d')"
    and again: "cp_identity c' = cp_identity c" "cp_stage c' = cp_stage c"
      "cp_attempt_id c' = cp_attempt_id c" "fl_code f' \<noteq> fl_code f"
    and event: "lifecycle_event safe (failed_cp st' c' f' BLOCKED) STAGE_BLOCKED
      (stage_sequence (cp_stage c') 99) BLOCKED failed_text (fl_evidence_refs f')
      (Some (fl_code f')) = Inr e'"
  shows "mark_failure safe st' c' f' BLOCKED None d'
           = Inl (ValueError ''AGENT_ACTIVITY_EVENT_CONFLICT'')"
proof -
  have ok: "db_ok d'" using mark_failure_extends [OF assms(3,2,1)] by (rule extends_ok)
  obtain e where r: "r = failed_cp st c f BLOCKED" and w: "write_tx st False r None [e] d = Inr d'"
    and e: "lifecycle_event safe r STAGE_BLOCKED (stage_sequence (cp_stage c) 99) BLOCKED
       failed_text (fl_evidence_refs f) (Some (fl_code f)) = Inr e"
    using mark_failure_write [OF assms(3)] by auto
  have mem: "e \<in> set (db_events d')" using append_events_mem [OF write_tx_Inr(2) [OF w]] by simp
  have "ev_event_id e = ev_event_id e'"
    using lifecycle_event_fields(1) [OF e] lifecycle_event_fields(1) [OF event] r again
    by (simp add: failed_cp_def lifecycle_event_id_def attempt_key_def)
  moreover have "e \<noteq> e'"
    using lifecycle_event_fields(9) [OF e] lifecycle_event_fields(9) [OF event] again(4) by auto
  ultimately have "append_event (db_events d') e' = Inl (ValueError ''AGENT_ACTIVITY_EVENT_CONFLICT'')"
    using ok mem by (simp add: append_event_conflict db_ok_def)
  then show ?thesis
    using event
    by (simp add: mark_failure_def failed_cp_def write_tx_def append_activity_def append_events_def)
qed

end
