(* ===== verification/Store_Examples.thy ===== *)
theory Store_Examples
  imports Store_Properties
begin

text \<open>
  Concrete databases on which the store's properties apply: one hypothesis with a failed, a
  decided and a gated stage.  The identifiers of pre-existing events are short, so that they
  differ from every 64-digit identifier the store computes.
\<close>

section \<open>When an event is accepted\<close>

lemma ascii_str_len: "list_all (\<lambda>c. (of_char c :: nat) < 128) s \<Longrightarrow> str_len s = length s"
  by (simp add: str_len_def utf8_continuation_def list_all_iff filter_id_conv
      linorder_not_le)

lemma is_hex_ascii: "is_hex c \<Longrightarrow> (of_char c :: nat) < 128"
  by (auto simp: is_hex_def)

lemma str_len_sha256: "str_len (sha256_hex bs) = 64"
  using set_sha256_hex is_hex_ascii
  by (subst ascii_str_len) (auto simp: list_all_iff length_sha256_hex)

lemma len_in_stage_value: "len_in 128 (stage_value s)"
  by (cases s) (simp_all add: len_in_def str_len_def utf8_continuation_def)

lemma len_in_status_value: "len_in 64 (status_value s)"
  by (cases s) (simp_all add: len_in_def str_len_def utf8_continuation_def)

lemma len_in_role: "len_in 128 (ROLE_BY_STAGE s)"
  by (cases s)
     (simp_all add: len_in_def str_len_def utf8_continuation_def ROLE_BY_STAGE_def
        pro_con_role_def utf8_def utf8_char_def)

lemma lifecycle_event_accepted:
  assumes "len_in 128 (id_analysis (cp_identity c))" "len_in 256 (id_workspace (cp_identity c))"
    "len_in 256 (id_commit (cp_identity c))" "len_in 256 (attempt_key c)" "1 \<le> sequence"
    "len_in 4000 summary"
    "list_all (ref_in_scope (id_workspace (cp_identity c)) (id_commit (cp_identity c)))
       (cp_input_refs c @ outputs)"
  shows "\<exists>e. lifecycle_event (\<lambda>_. True) c kind sequence status summary outputs error = Inr e"
  using assms len_in_stage_value len_in_status_value len_in_role
  by (simp add: lifecycle_event_def make_event_def event_fields_ok_def validate_public_event_def
      lifecycle_event_id_def str_len_sha256 list_all_iff len_in_def [of 256 "sha256_hex _"])

text \<open>A computed event can be appended to a table that has neither its identifier nor its key.\<close>

lemma lifecycle_append:
  assumes "lifecycle_event safe c kind sequence status summary outputs error = Inr e"
    and "\<And>r. r \<in> set t \<Longrightarrow> length (ev_event_id r) \<noteq> 64"
    and "\<And>r. r \<in> set t \<Longrightarrow> ev_sequence r \<noteq> sequence"
  shows "append_events t [e] = Inr (t @ [e])"
proof -
  have "length (ev_event_id e) = 64" "ev_sequence e = sequence"
    using lifecycle_event_fields(1,5) [OF assms(1)]
    by (simp_all add: lifecycle_event_id_def length_sha256_hex)
  then have "find (\<lambda>r. ev_event_id r = ev_event_id e) t = None"
    "\<not> (\<exists>r \<in> set t. unique_key r = unique_key e)"
    using assms(2,3) by (force simp: find_None_iff unique_key_def)+
  then show ?thesis by (simp add: append_events_def append_event_def)
qed

text \<open>Every failed checkpoint has a lineage.\<close>

lemma lineage_id_total: "\<exists>l. lineage_id c = Inr l"
  by (cases "cp_error_code c"; cases "id_hypothesis (cp_identity c)")
     (auto simp: lineage_id_def canonical_bytes_def lineage_value_def identity_value_def)

section \<open>The example hypothesis\<close>

definition ex_ident :: identity where
  "ex_ident = \<lparr>id_analysis = ''a'', id_workspace = ''w'', id_commit = ''c'',
               id_hypothesis = Some ''h''\<rparr>"

definition ex_ref :: "string \<Rightarrow> stored_ref" where
  "ex_ref i = \<lparr>sr_id = i, sr_kind = ''k'', sr_hash = replicate 64 CHR ''0'', sr_workspace = ''w'',
               sr_commit = ''c'', sr_record = None\<rparr>"

definition ex_stamp :: stamp where
  "ex_stamp = \<lparr>st_now = 7, st_marker = ''m'', st_indexed_at = 8\<rparr>"

definition ex_running :: "stage \<Rightarrow> checkpoint" where
  "ex_running s = (new_checkpoint ex_ident s RUNNING [ex_ref ''i''] 1)
     \<lparr>cp_attempt_id := Some ''t1'', cp_attempt_number := 1\<rparr>"

definition ex_failed :: checkpoint where
  "ex_failed = (ex_running POC_EXECUTION_DONE)
     \<lparr>cp_status := BLOCKED, cp_error_code := Some ''POC_INCONCLUSIVE'', cp_retryable := True,
      cp_output_refs := [ex_ref ''x'', ex_ref ''y'']\<rparr>"

definition ex_resolution :: "recovery_action \<Rightarrow> recovery_resolution" where
  "ex_resolution a =
     \<lparr>rr_decision = \<lparr>rd_category = TRANSIENT_TOOL, rd_action = a, rd_diagnosis = ''d'',
                     rd_guidance = ''g'', rd_environment_patch = []\<rparr>,
      rr_decision_ref = ex_ref ''z''\<rparr>"

text \<open>The decision event of the failed attempt.\<close>

definition ex_event :: event where
  "ex_event =
     \<lparr>ev_event_id = ''e'', ev_analysis = ''a'', ev_workspace = ''w'', ev_commit = ''c'',
      ev_hypothesis = Some ''h'', ev_stage = ''POC_EXECUTION_DONE'', ev_agent_role = ''r'',
      ev_attempt = ''t1'', ev_sequence = 640, ev_kind = DECISION_RECORDED, ev_status = ''BLOCKED'',
      ev_summary_ko = ''s'', ev_input_refs = [], ev_output_refs = [ex_ref ''z''],
      ev_tool_name = None, ev_tool_result_refs = [], ev_provider = None, ev_model = None,
      ev_prompt_digest = None, ev_output_digest = None,
      ev_error_code = Some ''POC_INCONCLUSIVE'', ev_started_at = 2, ev_finished_at = Some 2,
      ev_elapsed_ms = None\<rparr>"

definition ex_db :: db where
  "ex_db = empty_db\<lparr>db_checkpoints := [ex_failed], db_events := [ex_event]\<rparr>"

lemmas ex_defs = ex_ident_def ex_ref_def ex_running_def ex_failed_def new_checkpoint_def

lemma ex_failed_fields [simp]:
  "cp_identity ex_failed = ex_ident" "cp_stage ex_failed = POC_EXECUTION_DONE"
  "cp_status ex_failed = BLOCKED" "attempt_key ex_failed = ''t1''"
  "cp_input_refs ex_failed = [ex_ref ''i'']" "cp_output_refs ex_failed = [ex_ref ''x'', ex_ref ''y'']"
  "cp_attempt_number ex_failed = 1" "cp_error_code ex_failed = Some ''POC_INCONCLUSIVE''"
  "cp_attempt_id ex_failed = Some ''t1''" "valid_cp ex_failed"
  "cp_stage_version ex_failed = STAGE_VERSION POC_EXECUTION_DONE"
  "cp_validated_poc_ref ex_failed = None"
  by (simp_all add: ex_failed_def ex_running_def new_checkpoint_def attempt_key_def str_default_def
      valid_cp_def)

lemma ex_running_fields [simp]:
  "cp_identity (ex_running s) = ex_ident" "cp_stage (ex_running s) = s"
  "attempt_key (ex_running s) = ''t1''" "cp_input_refs (ex_running s) = [ex_ref ''i'']"
  "cp_stage_version (ex_running s) = STAGE_VERSION s" "valid_cp (ex_running s)"
  "cp_attempt_id (ex_running s) = Some ''t1''"
  by (simp_all add: ex_running_def new_checkpoint_def attempt_key_def str_default_def valid_cp_def)

lemma ex_ident_fields [simp]:
  "id_analysis ex_ident = ''a''" "id_workspace ex_ident = ''w''" "id_commit ex_ident = ''c''"
  "hypothesis_key ex_ident = ''h''"
  by (simp_all add: ex_ident_def hypothesis_key_def str_default_def)

lemma ex_ref_scope [simp]: "ref_in_scope ''w'' ''c'' (ex_ref i)"
  by (simp add: ref_in_scope_def ex_ref_def)

lemma ex_lens [simp]: "len_in 128 ''a''" "len_in 256 ''w''" "len_in 256 ''c''" "len_in 256 ''t1''"
  "len_in 256 ''t2''"
  by (simp_all add: len_in_def str_len_def utf8_continuation_def)

lemma ex_db_ok: "db_ok ex_db"
  by (simp add: db_ok_def ex_db_def empty_db_def tbl_ok_def event_table_ok_def)

lemma text_lens [simp]:
  "len_in 4000 started_text" "len_in 4000 failed_text" "len_in 4000 completed_text"
  "len_in 4000 stop_text" "len_in 4000 repeated_text" "len_in 4000 environment_text"
  by (simp_all add: len_in_def started_text_def failed_text_def completed_text_def stop_text_def
      repeated_text_def environment_text_def utf8_def utf8_char_def str_len_def
      utf8_continuation_def)

section \<open>The operations on the example\<close>

abbreviation any_text :: "string \<Rightarrow> bool" where
  "any_text \<equiv> (\<lambda>_. True)"

lemma ex_decision_row: "decision_rows ex_db ex_failed = [ex_event]"
  by (simp add: decision_rows_def ex_db_def ex_event_def stage_sequence_def
      event_hypothesis_key_def str_default_def)

lemma ex_recovery_event: "recovery_event safe ex_db ex_failed (ex_resolution a) = Inr ex_event"
  by (simp add: recovery_event_def ex_decision_row ex_event_def ex_resolution_def)

lemma ex_append_again: "append_activity [ex_event] ex_db = Inr ex_db"
  by (rule append_activity_again [OF ex_db_ok]) (simp add: ex_db_def)

lemma ex_stored: "stored ex_db ex_ident POC_EXECUTION_DONE = Some ex_failed"
  by (simp add: stored_def ex_db_def tbl_lookup_def row_key_of)

lemma ex_prepare:
  "\<exists>p d'. prepare_recovery any_text ex_stamp ex_failed (ex_resolution RETRY_STAGE)
       POC_EXECUTION_DONE False ex_db = Inr (p, d') \<and> db_events d' = [ex_event]"
proof -
  obtain l where l: "lineage_id ex_failed = Inr l" using lineage_id_total by blast
  show ?thesis
    by (simp add: prepare_recovery_def l get_stored [OF ex_db_ok] ex_stored ex_recovery_event
        ex_append_again commit_unless_def Let_def)
       (simp add: ex_resolution_def ex_db_def)
qed

text \<open>A stage can be started in any valid database that only holds short event identifiers.\<close>

lemma ex_start:
  assumes ok: "db_ok d" and short: "\<And>r. r \<in> set (db_events d) \<Longrightarrow> length (ev_event_id r) \<noteq> 64"
    and seq: "\<And>r. r \<in> set (db_events d) \<Longrightarrow> ev_sequence r \<noteq> stage_sequence s 1"
    and inputs: "list_all (ref_in_scope ''w'' ''c'') (inputs @ running_refs (stored d ex_ident s))"
  shows "\<exists>c d'. mark_running any_text st ex_ident s inputs ''t2'' None d = Inr (c, d')"
proof -
  define c where "c = (new_checkpoint ex_ident s RUNNING
      (fromkeys (inputs @ running_refs (stored d ex_ident s))) (st_now st))
      \<lparr>cp_attempt_id := Some ''t2'',
       cp_attempt_number := running_attempt (stored d ex_ident s) None,
       cp_gate_revision_count :=
         (case stored d ex_ident s of None \<Rightarrow> 0 | Some c \<Rightarrow> cp_gate_revision_count c),
       cp_recovery_lineage_id := Option.bind (stored d ex_ident s) cp_recovery_lineage_id,
       cp_recovery_origin_stage := Option.bind (stored d ex_ident s) cp_recovery_origin_stage,
       cp_recovery_decision_refs := running_refs (stored d ex_ident s),
       cp_recipe_ref := Option.bind (stored d ex_ident s) cp_recipe_ref,
       cp_image_digest := Option.bind (stored d ex_ident s) cp_image_digest,
       cp_container_id := Option.bind (stored d ex_ident s) cp_container_id\<rparr>"
  have f: "cp_identity c = ex_ident" "attempt_key c = ''t2''"
    "cp_input_refs c = fromkeys (inputs @ running_refs (stored d ex_ident s))"
    by (simp_all add: c_def new_checkpoint_def attempt_key_def str_default_def)
  have "1 \<le> stage_sequence s 1" by (simp add: stage_sequence_def)
  moreover have "list_all (ref_in_scope ''w'' ''c'')
      (fromkeys (inputs @ running_refs (stored d ex_ident s)))"
    using inputs by (simp add: list_all_iff)
  ultimately obtain e where e: "lifecycle_event any_text c STAGE_STARTED (stage_sequence s 1)
      RUNNING started_text [] None = Inr e"
    using lifecycle_event_accepted [of c "stage_sequence s 1" started_text "[]" STAGE_STARTED
        RUNNING None] f
    by (auto simp del: list_all_append)
  have "append_events (db_events d) [e] = Inr (db_events d @ [e])"
    by (rule lifecycle_append [OF e]) (use short seq in auto)
  then have "\<exists>d'. write_tx st False c None [e] d = Inr d'"
    by (simp add: write_tx_def append_activity_def commit_unless_def)
  moreover have "mark_running any_text st ex_ident s inputs ''t2'' None d
      = bindR (lifecycle_event any_text c STAGE_STARTED (stage_sequence s 1) RUNNING started_text
                 [] None) (\<lambda>e. bindR (write_tx st False c None [e] d) (\<lambda>d'. Inr (c, d')))"
    by (cases "stored d ex_ident s")
       (simp_all add: mark_running_def get_stored [OF ok] Let_def c_def running_attempt_def
          running_refs_def)
  ultimately show ?thesis using e by auto
qed

section \<open>Witnesses\<close>


theorem store_history_append_only_witness:
  "\<exists>c d. mark_running any_text ex_stamp ex_ident PRO_CON_DONE [] ''t2'' None ex_db = Inr (c, d)
     \<and> (\<exists>new. db_events d = db_events ex_db @ new)"
proof -
  obtain c d where m: "mark_running any_text ex_stamp ex_ident PRO_CON_DONE [] ''t2'' None ex_db
      = Inr (c, d)"
    using ex_start [OF ex_db_ok, of PRO_CON_DONE "[]" ex_stamp]
    by (auto simp: ex_db_def empty_db_def stored_def tbl_lookup_def running_refs_def ex_event_def
        stage_sequence_def row_key_def key_of_def)
  then have "store_step ex_db d" by (rule store_step.mark_running) simp
  then have "reaches store_step ex_db d" by (blast intro: reaches.intros)
  from store_history_append_only [OF ex_db_ok this] m show ?thesis by blast
qed

theorem prepare_recovery_restarts_witness:
  "\<exists>p d'. prepare_recovery any_text ex_stamp ex_failed (ex_resolution RETRY_STAGE)
       POC_EXECUTION_DONE False ex_db = Inr (p, d')
     \<and> get d' ex_ident POC_EXECUTION_DONE = Inr (Some p) \<and> cp_attempt_number p = 1"
  using ex_prepare prepare_recovery_restarts [OF ex_db_ok, of any_text ex_stamp ex_failed
      "ex_resolution RETRY_STAGE" POC_EXECUTION_DONE False] by fastforce

theorem recovery_attempt_numbering_witness:
  "\<exists>p d' c d''. prepare_recovery any_text ex_stamp ex_failed (ex_resolution RETRY_STAGE)
       POC_EXECUTION_DONE False ex_db = Inr (p, d')
     \<and> mark_running any_text ex_stamp ex_ident POC_EXECUTION_DONE [] ''t2'' None d' = Inr (c, d'')
     \<and> cp_attempt_number c = 2 \<and> cp_recovery_lineage_id c = cp_recovery_lineage_id p"
proof -
  obtain p d' where p: "prepare_recovery any_text ex_stamp ex_failed (ex_resolution RETRY_STAGE)
       POC_EXECUTION_DONE False ex_db = Inr (p, d')" and ev: "db_events d' = [ex_event]"
    using ex_prepare by blast
  have ok: "db_ok d'"
    by (rule extends_ok [OF prepare_recovery_extends [OF p _ ex_db_ok]]) simp
  have "stored d' ex_ident POC_EXECUTION_DONE = Some p \<and> cp_recovery_decision_refs p = [ex_ref ''z'']"
    by (rule prepare_recovery_cases [OF ex_db_ok p])
       (auto simp: stored_upsert row_key_of recovery_pending_def Let_def new_checkpoint_def
          ex_resolution_def ex_failed_def ex_running_def)
  then obtain c d'' where m: "mark_running any_text ex_stamp ex_ident POC_EXECUTION_DONE [] ''t2''
      None d' = Inr (c, d'')"
    using ex_start [OF ok, of POC_EXECUTION_DONE "[]" ex_stamp] ev
    by (auto simp: running_refs_def ex_event_def stage_sequence_def)
  with p recovery_attempt_numbering [OF ex_db_ok _ p, of ex_stamp "[]" "''t2''" None c d'']
  show ?thesis by auto
qed


text \<open>An accepted revision request of the example hypothesis.\<close>

definition ex_gate :: checkpoint where
  "ex_gate = (ex_running TECH_GATE_DONE)
     \<lparr>cp_status := SUCCEEDED, cp_gate_decision := Some REVISE, cp_output_refs := [ex_ref ''v'']\<rparr>"

definition ex_gate_db :: db where
  "ex_gate_db = empty_db\<lparr>db_checkpoints :=
     [(ex_running POC_CANDIDATE_DONE)\<lparr>cp_status := SUCCEEDED\<rparr>,
      (ex_running POC_EXECUTION_DONE)\<lparr>cp_status := SUCCEEDED\<rparr>, ex_gate]\<rparr>"

lemma ex_gate_fields [simp]:
  "cp_identity ex_gate = ex_ident" "cp_stage ex_gate = TECH_GATE_DONE"
  "cp_status ex_gate = SUCCEEDED" "cp_gate_decision ex_gate = Some REVISE"
  "cp_output_refs ex_gate = [ex_ref ''v'']" "cp_gate_revision_count ex_gate = 0"
  "cp_stage_version ex_gate = STAGE_VERSION TECH_GATE_DONE" "valid_cp ex_gate"
  by (simp_all add: ex_gate_def) (simp add: ex_running_def new_checkpoint_def)

lemma ex_gate_db_ok: "db_ok ex_gate_db"
  by (simp add: db_ok_def ex_gate_db_def empty_db_def tbl_ok_def event_table_ok_def row_key_def)

lemma ex_gate_lookup:
  "tbl_lookup row_key (db_checkpoints ex_gate_db) (key_of ex_ident TECH_GATE_DONE) = Some ex_gate"
  "\<exists>c. tbl_lookup row_key (db_checkpoints ex_gate_db) (key_of ex_ident POC_CANDIDATE_DONE) = Some c
      \<and> cp_status c = SUCCEEDED"
  "\<exists>c. tbl_lookup row_key (db_checkpoints ex_gate_db) (key_of ex_ident POC_EXECUTION_DONE) = Some c
      \<and> cp_status c = SUCCEEDED"
  by (simp_all add: ex_gate_db_def tbl_lookup_def row_key_of)

lemma ex_revision:
  "\<exists>p d'. prepare_gate_revision ex_stamp ex_gate False ex_gate_db = Inr (p, d')"
  using ex_gate_lookup
  by (auto simp: prepare_gate_revision_def checkpoint_at_lookup [OF ex_gate_db_ok]
      commit_unless_def Let_def)

theorem gate_revision_replay_witness:
  "\<exists>p d'. prepare_gate_revision ex_stamp ex_gate False ex_gate_db = Inr (p, d')
     \<and> prepare_gate_revision ex_stamp ex_gate True d' = Inr (p, d')"
  using ex_revision gate_revision_replay [OF ex_gate_db_ok] by blast

theorem gate_revision_restarts_witness:
  "\<exists>p d'. prepare_gate_revision ex_stamp ex_gate False ex_gate_db = Inr (p, d')
     \<and> stored d' ex_ident POC_CANDIDATE_DONE = Some p \<and> cp_gate_revision_count p = 1
     \<and> stored d' ex_ident TECH_GATE_DONE = None"
proof -
  obtain p d' where p: "prepare_gate_revision ex_stamp ex_gate False ex_gate_db = Inr (p, d')"
    using ex_revision by blast
  have "stored ex_gate_db (cp_identity ex_gate) TECH_GATE_DONE = Some ex_gate"
    using ex_gate_lookup(1) by (simp add: stored_def)
  from gate_revision_restarts [OF ex_gate_db_ok p this] p show ?thesis
    by (auto simp: less_stage_def)
qed

theorem recovery_decision_recorded_once_witness:
  "\<exists>d' d''. record_recovery_decision any_text ex_stamp ex_failed (ex_resolution RETRY_STAGE) False
       ex_db = Inr ((), d')
     \<and> record_recovery_decision any_text ex_stamp ex_failed (ex_resolution RETRY_STAGE) False
       d' = Inr ((), d'') \<and> db_events d'' = db_events d'"
proof -
  have "upsert_checkpoint ex_failed ex_db = ex_db"
    by (simp add: upsert_checkpoint_def ex_db_def)
  then obtain d' where r: "record_recovery_decision any_text ex_stamp ex_failed
      (ex_resolution RETRY_STAGE) False ex_db = Inr ((), d')"
    by (simp add: record_recovery_decision_def ex_recovery_event ex_append_again)
  with recovery_decision_recorded_once [OF ex_db_ok _ r, of ex_stamp] show ?thesis by auto
qed

text \<open>Artifacts that hold a finished execution, its interpretation and the agent's STOP.\<close>

definition ex_stop_document :: json where
  "ex_stop_document = JObj
     [(''kind'', JStr ''simple_recovery_decision''), (''identity'', identity_json ex_ident),
      (''stage'', JStr ''POC_EXECUTION_DONE''), (''attempt'', JInt 1), (''attempt_id'', JStr ''t1''),
      (''original_error'', stage_failure_json
         (failure ''POC_INCONCLUSIVE'' True ''m'' [ex_ref ''x'', ex_ref ''y''])),
      (''decision'', recovery_decision_json (stop_decision ''d'' ''g'')),
      (''decision_origin'', JStr ''AGENT'')]"

definition ex_artifacts :: artifacts where
  "ex_artifacts = \<lparr>ar_identity = ex_ident,
     ar_read_json = (\<lambda>r.
       if sr_id r = ''x'' then Some (JObj [(''kind'', JStr ''simple_poc_execution''),
            (''attempt_id'', JStr ''t1''), (''timed_out'', JBool False), (''exit_code'', JInt 0)])
       else if sr_id r = ''y'' then Some (JObj [(''kind'', JStr ''simple_dynamic_interpretation''),
            (''execution_ref'', stored_ref_json (ex_ref ''x'')),
            (''result'', JObj [(''outcome'', JStr ''INCONCLUSIVE'')])])
       else if sr_id r = ''z'' then Some ex_stop_document
       else None),
     ar_build_initial_block = (\<lambda>c. Inr (Some (ex_ref ''b''))),
     ar_verified_terminal_initial = (\<lambda>c. Inr (terminal_initial_outcome (Some c))),
     ar_verified_terminal_poc = (\<lambda>c. Inr (terminal_poc_outcome (Some c)))\<rparr>"

lemma ex_ref_ok: "stored_ref_ok (ex_ref ''x'')" "stored_ref_ok (ex_ref ''y'')"
  by (simp_all add: stored_ref_ok_def ex_ref_def non_empty_str_def white_space_def digest_text_def
      is_hex_def list_all_iff)

lemma ex_stop_document_ok: "stop_document_ok ex_failed ex_stop_document"
  by (simp add: stop_document_ok_def ex_stop_document_def jget_def parse_stage_failure_json
      parse_recovery_decision_json ex_ref_ok failure_def stop_decision_def json_eq_def jopt_def)

lemma ex_stop: "verified_inconclusive_stop ex_db ex_failed ex_artifacts = Some (ex_ref ''z'')"
proof -
  have read: "ar_read_json ex_artifacts (ex_ref ''x'') = Some (JObj
      [(''kind'', JStr ''simple_poc_execution''), (''attempt_id'', JStr ''t1''),
       (''timed_out'', JBool False), (''exit_code'', JInt 0)])"
    "ar_read_json ex_artifacts (ex_ref ''y'') = Some (JObj
      [(''kind'', JStr ''simple_dynamic_interpretation''),
       (''execution_ref'', stored_ref_json (ex_ref ''x'')),
       (''result'', JObj [(''outcome'', JStr ''INCONCLUSIVE'')])])"
    "ar_read_json ex_artifacts (ex_ref ''z'') = Some ex_stop_document"
    by (simp_all add: ex_artifacts_def ex_ref_def)
  have ev: "stop_event_ok ex_failed ex_event"
    by (simp add: stop_event_ok_def ex_event_def) (simp add: ex_ident_def)
  have "ev_output_refs ex_event = [ex_ref ''z'']" "ev_analysis ex_event = ''a''"
    "event_hypothesis_key ex_event = ''h''" "ev_attempt ex_event = ''t1''"
    by (simp_all add: ex_event_def event_hypothesis_key_def str_default_def)
  then show ?thesis
    using read ev ex_stop_document_ok
    by (simp add: verified_inconclusive_stop_def inconclusive_execution_ok_def jget_def jopt_def
        json_eq_def ex_db_def)
qed


text \<open>Appending one computed event to a database with short identifiers always succeeds.\<close>

lemma ex_append:
  assumes "lifecycle_event safe c kind sequence status summary outputs error = Inr e"
    and "\<And>r. r \<in> set (db_events d) \<Longrightarrow> length (ev_event_id r) \<noteq> 64 \<and> ev_sequence r \<noteq> sequence"
  shows "append_activity [e] d = Inr (d\<lparr>db_events := db_events d @ [e]\<rparr>)"
  using lifecycle_append [OF assms(1), of "db_events d"] assms(2)
  by (simp add: append_activity_def)

lemma ex_event_accepted:
  assumes "cp_identity c = ex_ident" "attempt_key c = ''t1''" "cp_input_refs c = [ex_ref ''i'']"
    "list_all (ref_in_scope ''w'' ''c'') outputs" "1 \<le> sequence" "len_in 4000 summary"
  shows "\<exists>e. lifecycle_event any_text c kind sequence status summary outputs error = Inr e"
  by (rule lifecycle_event_accepted) (use assms in simp_all)

lemma ex_promote:
  "\<exists>r d'. promote_inconclusive_execution any_text ex_stamp ex_failed (Some ex_artifacts) ex_db
     = Inr (r, d')"
proof -
  let ?r = "ex_failed\<lparr>cp_status := SUCCEEDED, cp_verdict := Some V_HOLD, cp_error_code := None,
      cp_retryable := False, cp_poc_stop_decision_ref := Some (ex_ref ''z''), cp_updated_at := 7\<rparr>"
  have "attempt_key ?r = ''t1''" by (simp add: attempt_key_def str_default_def)
  then obtain e where e: "lifecycle_event any_text ?r STAGE_COMPLETED
      (stage_sequence POC_EXECUTION_DONE 2) SUCCEEDED stop_text [ex_ref ''x'', ex_ref ''y''] None = Inr e"
    using ex_event_accepted [of ?r "[ex_ref ''x'', ex_ref ''y'']" "stage_sequence POC_EXECUTION_DONE 2"
        stop_text STAGE_COMPLETED SUCCEEDED None] by (auto simp: stage_sequence_def)
  have "append_activity [e] (upsert_checkpoint ?r ex_db)
      = Inr ((upsert_checkpoint ?r ex_db)\<lparr>db_events := db_events ex_db @ [e]\<rparr>)"
    using ex_append [OF e, of "upsert_checkpoint ?r ex_db"]
    by (simp add: ex_db_def ex_event_def stage_sequence_def)
  moreover have "tbl_lookup row_key (db_checkpoints ex_db) (key_of ex_ident POC_EXECUTION_DONE)
      = Some ex_failed"
    by (simp add: ex_db_def tbl_lookup_def row_key_of)
  moreover have "ar_identity ex_artifacts = ex_ident" by (simp add: ex_artifacts_def)
  moreover have "st_now ex_stamp = 7" by (simp add: ex_stamp_def)
  ultimately show ?thesis
    using e by (simp add: promote_inconclusive_execution_def checkpoint_at_lookup [OF ex_db_ok]
        ex_stop Let_def)
qed

theorem promote_execution_terminal_witness:
  "\<exists>r d'. promote_inconclusive_execution any_text ex_stamp ex_failed (Some ex_artifacts) ex_db
       = Inr (r, d')
     \<and> terminal_poc_outcome (Some r) = Some INCONCLUSIVE
     \<and> cp_poc_stop_decision_ref r \<noteq> None"
proof -
  obtain r d' where p: "promote_inconclusive_execution any_text ex_stamp ex_failed
      (Some ex_artifacts) ex_db = Inr (r, d')"
    using ex_promote by blast
  have "cp_attempt_number r < MAX_RECOVERY_ATTEMPTS"
    by (rule promote_execution_cases [OF ex_db_ok p]) (simp add: MAX_RECOVERY_ATTEMPTS_def)
  with promote_execution_terminal [OF ex_db_ok p] p show ?thesis by auto
qed

definition ex_initial :: checkpoint where
  "ex_initial = (ex_running VERIFICATION_INITIAL_DONE)
     \<lparr>cp_status := BLOCKED, cp_error_code := Some ''RECOVERY_EXHAUSTED''\<rparr>"

definition ex_initial_db :: db where
  "ex_initial_db = empty_db\<lparr>db_checkpoints := [ex_initial]\<rparr>"

lemma ex_initial_fields [simp]:
  "cp_identity ex_initial = ex_ident" "cp_stage ex_initial = VERIFICATION_INITIAL_DONE"
  "cp_status ex_initial = BLOCKED" "cp_error_code ex_initial = Some ''RECOVERY_EXHAUSTED''"
  "cp_attempt_id ex_initial = Some ''t1''" "cp_attempt_number ex_initial = 1"
  "cp_recipe_ref ex_initial = None" "cp_validated_poc_ref ex_initial = None"
  "cp_external_prerequisites_ref ex_initial = None" "cp_environment_block_ref ex_initial = None"
  "cp_output_refs ex_initial = []" "cp_input_refs ex_initial = [ex_ref ''i'']"
  "cp_stage_version ex_initial = STAGE_VERSION VERIFICATION_INITIAL_DONE" "valid_cp ex_initial"
  by (simp_all add: ex_initial_def) (simp_all add: ex_running_def new_checkpoint_def)

lemma ex_initial_db_ok: "db_ok ex_initial_db"
  by (simp add: db_ok_def ex_initial_db_def empty_db_def tbl_ok_def event_table_ok_def)

lemma ex_promote_initial:
  "\<exists>r d'. promote_initial_environment_inconclusive any_text ex_stamp ex_initial ex_artifacts
     ex_initial_db = Inr (r, d')"
proof -
  let ?r = "ex_initial\<lparr>cp_status := SUCCEEDED, cp_output_refs := [ex_ref ''b''],
      cp_environment_block_ref := Some (ex_ref ''b''), cp_verdict := Some V_HOLD,
      cp_error_code := None, cp_retryable := False, cp_updated_at := 7\<rparr>"
  have "attempt_key ?r = ''t1''" by (simp add: attempt_key_def str_default_def)
  then obtain e where e: "lifecycle_event any_text ?r STAGE_COMPLETED
      (stage_sequence VERIFICATION_INITIAL_DONE 2) SUCCEEDED environment_text [ex_ref ''b''] None = Inr e"
    using ex_event_accepted [of ?r "[ex_ref ''b'']" "stage_sequence VERIFICATION_INITIAL_DONE 2"
        environment_text STAGE_COMPLETED SUCCEEDED None] by (auto simp: stage_sequence_def)
  have "append_activity [e] (upsert_checkpoint ?r ex_initial_db)
      = Inr ((upsert_checkpoint ?r ex_initial_db)\<lparr>db_events := db_events ex_initial_db @ [e]\<rparr>)"
    using ex_append [OF e, of "upsert_checkpoint ?r ex_initial_db"]
    by (simp add: ex_initial_db_def empty_db_def)
  moreover have "tbl_lookup row_key (db_checkpoints ex_initial_db)
      (key_of ex_ident VERIFICATION_INITIAL_DONE) = Some ex_initial"
    by (simp add: ex_initial_db_def tbl_lookup_def row_key_of)
  moreover have "ar_identity ex_artifacts = ex_ident"
    "ar_build_initial_block ex_artifacts ex_initial = Inr (Some (ex_ref ''b''))"
    "ar_verified_terminal_initial ex_artifacts ?r = Inr (Some INCONCLUSIVE)"
    by (simp_all add: ex_artifacts_def terminal_initial_outcome_def)
  moreover have "st_now ex_stamp = 7" by (simp add: ex_stamp_def)
  ultimately show ?thesis
    using e by (simp add: promote_initial_environment_inconclusive_def
        checkpoint_at_lookup [OF ex_initial_db_ok] Let_def)
qed

theorem promote_initial_terminal_witness:
  "\<exists>r d'. promote_initial_environment_inconclusive any_text ex_stamp ex_initial ex_artifacts
       ex_initial_db = Inr (r, d')
     \<and> terminal_initial_outcome (Some r) = Some INCONCLUSIVE"
  using ex_promote_initial promote_initial_terminal [OF ex_initial_db_ok] by blast

definition ex_result :: stage_result where
  "ex_result = \<lparr>res_output_refs = [ex_ref ''o''], res_external_prerequisites_ref = None,
     res_environment_block_ref = None, res_validated_poc_ref = None, res_report_ref = None,
     res_bundle_manifest_ref = None, res_bundle_archive_ref = None, res_verdict = None,
     res_gate_decision = None, res_recipe_ref = None, res_image_digest = None,
     res_container_id = None, res_markdown_path = None, res_activity_events = []\<rparr>"

lemma ex_complete:
  "\<exists>r d'. complete_stage any_text ex_stamp (ex_running PRO_CON_DONE) ex_result None empty_db = Inr (r, d')"
proof -
  let ?r = "completed_cp ex_stamp (ex_running PRO_CON_DONE) ex_result"
  have "attempt_key ?r = ''t1''" by (simp add: attempt_key_def str_default_def)
  then obtain e where e: "lifecycle_event any_text ?r STAGE_COMPLETED
      (final_sequence PRO_CON_DONE []) SUCCEEDED completed_text [ex_ref ''o''] None = Inr e"
    using ex_event_accepted [of ?r "[ex_ref ''o'']" "final_sequence PRO_CON_DONE []"
        completed_text STAGE_COMPLETED SUCCEEDED None]
    by (auto simp: final_sequence_def stage_sequence_def)
  then have "append_activity [e] (upsert_checkpoint ?r empty_db)
      = Inr ((upsert_checkpoint ?r empty_db)\<lparr>db_events := db_events empty_db @ [e]\<rparr>)"
    using ex_append [OF e, of "upsert_checkpoint ?r empty_db"] by (simp add: empty_db_def)
  with e show ?thesis
    unfolding complete_stage_def Let_def completed_cp_def [unfolded Let_def, symmetric]
    by (simp add: write_tx_def commit_unless_def ex_result_def)
qed

theorem completed_stage_reusable_witness:
  "\<exists>r d'. complete_stage any_text ex_stamp (ex_running PRO_CON_DONE) ex_result None empty_db = Inr (r, d')
     \<and> reusable d' ex_ident PRO_CON_DONE [ex_ref ''i''] = Inr True
     \<and> reusable d' ex_ident PRO_CON_DONE [] = Inr False"
proof -
  obtain r d' where c: "complete_stage any_text ex_stamp (ex_running PRO_CON_DONE) ex_result None empty_db
      = Inr (r, d')" using ex_complete by blast
  have "cp_stage_version (ex_running PRO_CON_DONE) = STAGE_VERSION (cp_stage (ex_running PRO_CON_DONE))"
    by simp
  from completed_stage_reusable [OF empty_db_ok _ this c] c show ?thesis by auto
qed

theorem second_block_conflicts_witness:
  "\<exists>r d'. mark_failure any_text ex_stamp (ex_running POC_EXECUTION_DONE)
       (failure ''POC_INCONCLUSIVE'' True ''m'' []) BLOCKED None empty_db = Inr (r, d')
     \<and> mark_failure any_text ex_stamp (ex_running POC_EXECUTION_DONE)
       (failure ''POC_STOP_EVIDENCE_INVALID'' False ''m'' []) BLOCKED None d'
         = Inl (ValueError ''AGENT_ACTIVITY_EVENT_CONFLICT'')"
proof -
  let ?c = "ex_running POC_EXECUTION_DONE"
  let ?f = "failure ''POC_INCONCLUSIVE'' True ''m'' []"
  let ?g = "failure ''POC_STOP_EVIDENCE_INVALID'' False ''m'' []"
  have key: "attempt_key (failed_cp ex_stamp ?c f BLOCKED) = ''t1''" for f
    by (simp add: failed_cp_def attempt_key_def str_default_def)
  have ev: "\<exists>e. lifecycle_event any_text (failed_cp ex_stamp ?c f BLOCKED) STAGE_BLOCKED
      (stage_sequence POC_EXECUTION_DONE 99) BLOCKED failed_text [] (Some code) = Inr e" for f code
    using ex_event_accepted [of "failed_cp ex_stamp ?c f BLOCKED" "[]"
        "stage_sequence POC_EXECUTION_DONE 99" failed_text STAGE_BLOCKED BLOCKED "Some code"] key
    by (auto simp: stage_sequence_def failed_cp_def)
  obtain e where e: "lifecycle_event any_text (failed_cp ex_stamp ?c ?f BLOCKED) STAGE_BLOCKED
      (stage_sequence POC_EXECUTION_DONE 99) BLOCKED failed_text [] (Some ''POC_INCONCLUSIVE'') = Inr e"
    using ev by blast
  obtain e' where e': "lifecycle_event any_text (failed_cp ex_stamp ?c ?g BLOCKED) STAGE_BLOCKED
      (stage_sequence POC_EXECUTION_DONE 99) BLOCKED failed_text []
      (Some ''POC_STOP_EVIDENCE_INVALID'') = Inr e'"
    using ev by blast
  have "append_activity [e] (upsert_checkpoint (failed_cp ex_stamp ?c ?f BLOCKED) empty_db)
      = Inr ((upsert_checkpoint (failed_cp ex_stamp ?c ?f BLOCKED) empty_db)
          \<lparr>db_events := db_events empty_db @ [e]\<rparr>)"
    using ex_append [OF e, of "upsert_checkpoint (failed_cp ex_stamp ?c ?f BLOCKED) empty_db"]
    by (simp add: empty_db_def)
  then obtain r d' where m: "mark_failure any_text ex_stamp ?c ?f BLOCKED None empty_db = Inr (r, d')"
    using e unfolding mark_failure_def Let_def failed_cp_def [symmetric]
    by (auto simp: failure_def write_tx_def commit_unless_def)
  have "mark_failure any_text ex_stamp ?c ?g BLOCKED None d'
      = Inl (ValueError ''AGENT_ACTIVITY_EVENT_CONFLICT'')"
    by (rule second_block_conflicts [OF empty_db_ok _ m, where e' = e'])
       (use e' in \<open>simp_all add: failure_def\<close>)
  with m show ?thesis by blast
qed

end
