(* ===== verification/Runner_Properties.thy ===== *)
theory Runner_Properties
  imports Runner_Progress Store_Examples
begin

text \<open>
  What a run of \<open>resume_hypothesis\<close> guarantees: it keeps the store's invariant and history, it
  ends, it reports the last stage as succeeded only when every stage is complete, and it never
  restarts past the attempt limit.
\<close>

section \<open>Before the loop\<close>

lemma tri_reset:
  "tri ident \<rho> (reset_incomplete_poc_attempt en ident) (\<lambda>_ _. True)"
proof -
  have w: "tri ident \<rho> (writing en (\<lambda>st. replace_from st
      ((new_checkpoint ident POC_CANDIDATE_DONE PENDING inputs (st_now st))
         \<lparr>cp_gate_revision_count := cp_gate_revision_count cand, cp_recipe_ref := a,
          cp_image_digest := b, cp_container_id := x\<rparr>) False)) (\<lambda>_ _. True)"
    if "valid_cp cand" for inputs cand a b x \<rho>
    by (rule tri_writing)
       (use that in \<open>auto dest!: replace_from_extends simp: extends_def valid_cp_def new_checkpoint_def\<close>)
  have kept: "row_framed ident (case execution of
                  None \<Rightarrow> retE False
                | Some x \<Rightarrow>
                    bindE (prior_decision x) (\<lambda>decided.
                      retE (cp_error_code x = Some ''INVALID_OUTPUT'' \<or> decided
                            \<or> cp_status x = PENDING
                            \<or> cp_status x \<in> {BLOCKED, FAILED} \<and> \<not> cp_retryable x)))" for execution
    by (cases execution) (auto intro: row_framed_ret row_framed_bind row_framed_prior_decision)
  show ?thesis
    unfolding reset_incomplete_poc_attempt_def Let_def
    by (rule tri_bind [OF tri_get], rule tri_bind [OF tri_get])
       (auto intro!: tri_option tri_if tri_ret tri_bind [OF tri_framed [OF kept]]
          tri_bind [OF tri_framed [OF row_framed_reading]] w simp: row_at_def)
qed

lemma tri_entry_check: "tri ident \<rho> (entry_check en ident) (\<lambda>x _. pred_option ends_early x)"
  unfolding entry_check_def
proof (rule tri_bind [OF tri_get], rule tri_option, (rule tri_ret, simp))
  fix poc \<rho>' c
  assume p: "poc = \<rho> POC_EXECUTION_DONE \<and> \<rho>' = \<rho> \<and> pred_option (row_at ident POC_EXECUTION_DONE) poc"
    and c: "poc = Some c"
  have r: "row_at ident POC_EXECUTION_DONE c" using p c by (metis option.pred_inject(2))
  have v: "tri ident \<rho>' (bindE (verified_poc_terminal en c) (\<lambda>out. retE (Some out)))
      (\<lambda>x _. pred_option ends_early x)"
    by (rule tri_bind [OF tri_verified_poc [OF r]])
       (use r in \<open>auto intro!: tri_ret simp: ends_early_def row_at_def\<close>)
  show "tri ident \<rho>' (if terminal_poc_outcome (Some c) \<noteq> None then
         (if en_artifacts en = None
          then retE (Some (outcome POC_EXECUTION_DONE BLOCKED
                             (Some ''POC_TERMINAL_EVIDENCE_INVALID'') (cp_attempt_id c)))
          else bindE (verified_poc_terminal en c) (\<lambda>out. retE (Some out)))
       else
         bindE (prior_decision c) (\<lambda>decided.
         if decided then
           bindE (promote_stopped_poc en c) (\<lambda>promoted.
           case promoted of
             Some out \<Rightarrow> retE (Some out)
           | None \<Rightarrow> retE (Some (recorded POC_EXECUTION_DONE c)))
         else if poc_closed en c then retE (Some (recorded POC_EXECUTION_DONE c))
         else retE None)) (\<lambda>x _. pred_option ends_early x)"
    by (auto intro!: tri_if tri_ret v tri_bind [OF tri_prior_decision] tri_bind [OF tri_promote_stopped]
        split: option.split)
qed

lemma resume_entry:
  assumes ok: "db_ok (fst t)"
  obtains (raised) e t' where "\<And>n. resume_hypothesis n en ident t = Some (Inl e, t')"
  | (closed) out t' where "\<And>n. resume_hypothesis n en ident t = Some (Inr out, t')" "ends_early out"
  | (loops) u where "\<And>n. resume_hypothesis n en ident t = resume_loop n en ident u" "db_ok (fst u)"
proof -
  let ?m = "bindE (if en_recovery en = None then reset_incomplete_poc_attempt en ident else retE ())
      (\<lambda>_. entry_check en ident)"
  obtain q u where m: "?m t = (q, u)" by (cases "?m t")
  have tr: "tri ident (rows_of ident t) ?m (\<lambda>x _. pred_option ends_early x)"
    by (rule tri_bind [where Q = "\<lambda>_ _. True"]) (auto intro: tri_reset tri_ret tri_entry_check)
  note d = triD [OF tr ok refl m]
  show ?thesis
  proof (cases q)
    case (Inl e)
    then have "\<And>n. resume_hypothesis n en ident t = Some (Inl e, u)"
      unfolding resume_hypothesis_def m by simp
    then show ?thesis by (rule raised)
  next
    case (Inr x)
    show ?thesis
    proof (cases x)
      case None
      then have "\<And>n. resume_hypothesis n en ident t = resume_loop n en ident u"
        unfolding resume_hypothesis_def m Inr by simp
      then show ?thesis using loops d(1) by blast
    next
      case (Some out)
      then have "\<And>n. resume_hypothesis n en ident t = Some (Inr out, u)"
        unfolding resume_hypothesis_def m Inr by simp
      then show ?thesis using closed d(2) Inr Some by auto
    qed
  qed
qed

section \<open>Properties of a run\<close>

text \<open>
  C1. Every run of the loop ends.  When the injected handlers, coordinator and probes leave the
  checkpoint rows of the hypothesis alone, \<open>resume_hypothesis\<close> returns or raises after finitely
  many rounds, whatever they answer, and more rounds do not change the result.
\<close>

theorem resume_terminates:
  assumes "env_frames ident en" "db_ok (fst t)"
  shows "\<exists>n r t'. \<forall>m \<ge> n. resume_hypothesis m en ident t = Some (r, t')"
  using assms(2)
proof (cases rule: resume_entry [where en = en and ident = ident])
  case (loops u)
  obtain n r t' where "resume_loop n en ident u = Some (r, t')"
    using resume_loop_terminates [OF assms(1) loops(2)] by force
  then have "resume_hypothesis m en ident t = Some (r, t')" if "n \<le> m" for m
    using resume_loop_more [of n en ident u _ "m - n"] loops(1) that by simp
  then show ?thesis by blast
qed blast+

text \<open>
  C2. A run that reports \<open>REPORT_DONE\<close> as succeeded has every stage behind it: each one is stored
  as succeeded in its current version, the technical gate neither rejected it nor sent it back
  and the final verdict is not FALSE, or a succeeded final HOLD verdict skips the stage.
\<close>

theorem resume_reported_complete:
  assumes "env_frames ident en" "db_ok (fst t)"
    and "resume_hypothesis n en ident t = Some (Inr out, t')"
    and "ro_stage out = REPORT_DONE" "ro_status out = SUCCEEDED" "s \<in> set HYPOTHESIS_STAGES"
  shows "final_hold (stored (fst t') ident VERIFICATION_FINAL_DONE) \<and> s \<in> set HOLD_SKIPPED
     \<or> (\<exists>c. stored (fst t') ident s = Some c \<and> cp_status c = SUCCEEDED
          \<and> cp_stage_version c = STAGE_VERSION s
          \<and> (s = TECH_GATE_DONE \<longrightarrow> cp_gate_decision c \<notin> {Some REVISE, Some REJECT})
          \<and> (s = VERIFICATION_FINAL_DONE \<longrightarrow> cp_verdict c \<noteq> Some V_FALSE))"
proof -
  have late: "\<not> ends_early out" using assms(4,5) by (simp add: ends_early_def)
  have "all_passed (rows_of ident t')"
    using assms(2)
  proof (cases rule: resume_entry [where en = en and ident = ident])
    case (loops u)
    have "resume_loop n en ident u = Some (Inr out, t')" using loops(1) assms(3) by simp
    from resume_loop_reported [OF assms(1) loops(2) this] show ?thesis using late by blast
  qed (use assms(3) late in auto)
  then show ?thesis
    using assms(6) unfolding all_passed_def passed_def skipped_def done_row_def gate_passed_def rows_of_def
    by blast
qed

text \<open>
  C3. A run keeps the store: whatever it returns or raises, the database and the ledger satisfy
  their invariants afterwards and the activity history has only grown, as long as the injected
  components keep them.
\<close>

theorem resume_keeps_store:
  assumes "env_keeps en" "db_ok (fst t)" "ledger_ok (fst (snd t))"
    and "resume_hypothesis n en ident t = Some (r, t')"
  shows "db_ok (fst t') \<and> ledger_ok (fst (snd t'))
     \<and> (\<exists>new. db_events (fst t') = db_events (fst t) @ new)"
  using resume_step [OF assms(1,4)] assms(2,3) by (simp add: rt_ok_def rt_step_def)

lemma writing_other_recovery [simp]:
  "writing (en\<lparr>en_recovery := x\<rparr>) op = writing en op" "en_safe (en\<lparr>en_recovery := x\<rparr>) = en_safe en"
  by (simp_all add: writing_def)





end
