(* ===== verification/Runner_Examples.thy ===== *)
theory Runner_Examples
  imports Runner_Properties
begin

text \<open>
  A runner whose handlers always fail and whose coordinator always asks for a retry, and a
  hypothesis whose stages are all complete.
\<close>

definition ex_failure :: stage_failure where
  "ex_failure = failure ''TOOL_FAILED'' True ''tool'' []"

definition ex_env :: "unit env" where
  "ex_env =
     \<lparr>en_safe = (\<lambda>_. True),
      en_handlers = (\<lambda>_. Some (\<lambda>_ _ t. (HFailed ex_failure, t))),
      en_recovery = Some (\<lambda>_ _. retE (ex_resolution RETRY_STAGE)),
      en_policy_snapshot = None, en_codex_invalid_output_resume = False,
      en_redacted_anchor_resume = False, en_artifacts = None, en_offline_base_ready = None,
      en_cleanup_confirmed = (\<lambda>_ _. retE False),
      en_stamp = (\<lambda>w. (ex_stamp, w)), en_uuid = (\<lambda>w. (''u'', w))\<rparr>"

lemma ex_env_frames: "env_frames ident ex_env"
  by (auto simp: env_frames_def ex_env_def row_framed_ret)

lemma ex_env_keeps: "env_keeps ex_env"
  by (auto simp: env_keeps_def ex_env_def rt_step_def)

theorem resume_terminates_witness:
  "\<exists>n r t'. \<forall>m \<ge> n. resume_hypothesis m ex_env ex_ident (ex_db, empty_ledger, ()) = Some (r, t')"
  by (rule resume_terminates [OF ex_env_frames]) (simp add: ex_db_ok)

definition ex_done :: "stage \<Rightarrow> checkpoint" where
  "ex_done s = new_checkpoint ex_ident s SUCCEEDED [] 1"

definition ex_full_db :: db where
  "ex_full_db = empty_db\<lparr>db_checkpoints := map ex_done HYPOTHESIS_STAGES\<rparr>"

lemma ex_done_fields [simp]:
  "cp_identity (ex_done s) = ex_ident" "cp_stage (ex_done s) = s" "cp_status (ex_done s) = SUCCEEDED"
  "cp_stage_version (ex_done s) = STAGE_VERSION s" "cp_input_refs (ex_done s) = []"
  "cp_verdict (ex_done s) = None" "cp_gate_decision (ex_done s) = None" "valid_cp (ex_done s)"
  "cp_poc_stop_decision_ref (ex_done s) = None" "cp_input_hash (ex_done s) = input_reference_hash []"
  by (simp_all add: ex_done_def) (simp_all add: new_checkpoint_def)

lemma ex_full_ok: "db_ok ex_full_db"
proof -
  have "distinct (map (row_key \<circ> ex_done) HYPOTHESIS_STAGES)"
    by (simp add: HYPOTHESIS_STAGES_def STAGE_ORDER_def row_key_def)
  then show ?thesis
    by (auto simp: db_ok_def ex_full_db_def empty_db_def tbl_ok_def event_table_ok_def)
qed

lemma ex_full_stored: "s \<in> set HYPOTHESIS_STAGES \<Longrightarrow> stored ex_full_db ex_ident s = Some (ex_done s)"
  by (cases s) (simp_all add: stored_def ex_full_db_def HYPOTHESIS_STAGES_def STAGE_ORDER_def
      tbl_lookup_def row_key_def key_of_def)

abbreviation ex_full :: "unit rt" where
  "ex_full \<equiv> (ex_full_db, empty_ledger, ())"

lemma ex_full_get: "s \<in> set HYPOTHESIS_STAGES \<Longrightarrow> get ex_full_db ex_ident s = Inr (Some (ex_done s))"
  by (simp add: get_stored [OF ex_full_ok] ex_full_stored)

lemma ex_full_stage:
  assumes "s \<in> set HYPOTHESIS_STAGES"
  shows "stage_body ex_env ex_ident s ex_full = (Inr FContinue, ex_full)"
proof -
  have g: "get ex_full_db ex_ident s = Inr (Some (ex_done s))"
    "get ex_full_db ex_ident VERIFICATION_FINAL_DONE = Inr (Some (ex_done VERIFICATION_FINAL_DONE))"
    using assms by (auto intro!: ex_full_get simp: set_HYPOTHESIS_STAGES less_eq_stage_def)
  have ac: "after_complete ex_env s False (ex_done s) ex_full = (Inr FContinue, ex_full)"
    by (simp add: after_complete_def terminal_initial_outcome_def terminal_poc_outcome_def
        gate_action_def terminal_gate_outcome_def)
  have "reuse_or_start ex_env ex_ident s final (Some (ex_done s)) ex_full = (Inr FContinue, ex_full)"
    for final
    using ac by (simp add: reuse_or_start_def bindE_def reading_def input_refs_for_def g reusable_def
        require_def ex_env_def)
  then have "resume_existing ex_env ex_ident s final (Some (ex_done s)) ex_full = (Inr FContinue, ex_full)"
    for final
    by (simp add: resume_settled settled_def)
  then show ?thesis
    by (simp add: stage_body_def examine_stage_def bindE_def reading_def g final_hold_def prior_decision_def
        has_prior_poc_recovery_decision_def poc_closed_def version_gate_def split: option.split)
qed

lemma ex_full_run:
  "resume_hypothesis 1 ex_env ex_ident ex_full
     = Some (Inr (outcome REPORT_DONE SUCCEEDED None None), ex_full)"
proof -
  have "run_stages ex_env ex_ident ss ex_full
      = (Inr (FReturn (outcome REPORT_DONE SUCCEEDED None None)), ex_full)"
    if "set ss \<subseteq> set HYPOTHESIS_STAGES" for ss
    using that by (induction ss) (simp_all add: bindE_def ex_full_stage)
  moreover have "entry_check ex_env ex_ident ex_full = (Inr None, ex_full)"
    using ex_full_get [of POC_EXECUTION_DONE]
    by (simp add: entry_check_def bindE_def reading_def terminal_poc_outcome_def prior_decision_def
        has_prior_poc_recovery_decision_def poc_closed_def set_HYPOTHESIS_STAGES less_eq_stage_def
        split: option.split)
  ultimately show ?thesis by (simp add: resume_hypothesis_def ex_env_def)
qed

theorem resume_reported_complete_witness:
  "\<exists>c. stored ex_full_db ex_ident TECH_GATE_DONE = Some c \<and> cp_status c = SUCCEEDED
     \<and> cp_stage_version c = STAGE_VERSION TECH_GATE_DONE
     \<and> cp_gate_decision c \<notin> {Some REVISE, Some REJECT}"
proof -
  have "\<not> final_hold (stored ex_full_db ex_ident VERIFICATION_FINAL_DONE)"
    by (simp add: ex_full_stored set_HYPOTHESIS_STAGES less_eq_stage_def final_hold_def)
  then show ?thesis
    using resume_reported_complete [OF ex_env_frames _ ex_full_run, of TECH_GATE_DONE]
    by (simp add: ex_full_ok outcome_def set_HYPOTHESIS_STAGES less_eq_stage_def)
qed

theorem resume_keeps_store_witness:
  "db_ok (fst ex_full) \<and> ledger_ok (fst (snd ex_full))
     \<and> (\<exists>new. db_events (fst ex_full) = db_events (fst ex_full) @ new)"
  by (rule resume_keeps_store [OF ex_env_keeps _ _ ex_full_run]) (simp_all add: ex_full_ok empty_ledger_ok)


end
