(* ===== verification/Contract_Values.thy ===== *)
theory Contract_Values
  imports Wire Tables
begin

text \<open>
  What the persistent contract models of \<open>contracts/\<close> share: how a field value appears to the
  canonical encoder, the field constraints of \<open>contracts/base.py\<close>, the validation of metadata and
  references, and \<open>ScopedRecord.reference_scopes\<close>.  An aware \<open>datetime\<close> is the number of
  microseconds since 0001-01-01T00:00:00 UTC; a \<open>NonNegativeInt\<close> or \<open>PositiveInt\<close> is a
  \<^typ>\<open>nat\<close>.
\<close>

section \<open>Checks in sequence\<close>

fun seqR :: "unit res list \<Rightarrow> unit res" where
  "seqR [] = Inr ()"
| "seqR (m # ms) = bindR m (\<lambda>_. seqR ms)"

lemma seqR_ok [simp]: "seqR ms = Inr () \<longleftrightarrow> list_all (\<lambda>m. m = Inr ()) ms"
  by (induction ms) auto

lemma seqR_append: "seqR (ms @ ns) = bindR (seqR ms) (\<lambda>_. seqR ns)"
  by (induction ms) (simp_all add: bindR_assoc)

definition seq2 :: "unit res \<Rightarrow> unit res \<Rightarrow> unit res" where
  "seq2 m n = bindR m (\<lambda>_. n)"

lemma seq2_ok [simp]: "seq2 m n = Inr () \<longleftrightarrow> m = Inr () \<and> n = Inr ()"
  by (cases m) (auto simp: seq2_def)

lemma unit_res_cases: "(m :: unit res) = Inr () \<or> (\<exists>e. m = Inl e)"
  by (cases m) auto

section \<open>Calendar\<close>

text \<open>\<open>date.fromordinal\<close>: year, month and day of a day number, 1 being 0001-01-01.\<close>

definition days_before_month :: "nat \<Rightarrow> nat" where
  "days_before_month m = [0, 0, 31, 59, 90, 120, 151, 181, 212, 243, 273, 304, 334] ! m"

definition days_in_month :: "nat \<Rightarrow> nat" where
  "days_in_month m = [0, 31, 28, 31, 30, 31, 30, 31, 31, 30, 31, 30, 31] ! m"

definition ord2ymd :: "nat \<Rightarrow> nat \<times> nat \<times> nat" where
  "ord2ymd ordinal =
     (let n = ordinal - 1; n400 = n div 146097; n = n mod 146097;
          n100 = n div 36524; n = n mod 36524;
          n4 = n div 1461; n = n mod 1461;
          n1 = n div 365; n = n mod 365;
          y = n400 * 400 + 1 + n100 * 100 + n4 * 4 + n1
      in if n1 = 4 \<or> n100 = 4 then (y - 1, 12, 31)
         else
           let leap = (n1 = 3 \<and> (n4 \<noteq> 24 \<or> n100 = 3));
               mth = (n + 50) div 32;
               preceding = days_before_month mth + (if mth > 2 \<and> leap then 1 else 0)
           in if preceding > n
              then let mth' = mth - 1;
                       preceding' = preceding - days_in_month mth' - (if mth' = 2 \<and> leap then 1 else 0)
                   in (y, mth', n - preceding' + 1)
              else (y, mth, n - preceding + 1))"

definition utc_of :: "int \<Rightarrow> utc_time" where
  "utc_of t =
     (let us = nat t; s = us div 1000000; d = s div 86400; r = s mod 86400;
          (y, m, dd) = ord2ymd (d + 1)
      in \<lparr>year = y, month = m, day = dd, hour = r div 3600, minute = r mod 3600 div 60,
          second = r mod 60, microsecond = us mod 1000000\<rparr>)"

section \<open>Field values as the encoder sees them\<close>

definition v_opt :: "('a \<Rightarrow> pyval) \<Rightarrow> 'a option \<Rightarrow> pyval" where
  "v_opt f x = (case x of None \<Rightarrow> VNone | Some y \<Rightarrow> f y)"

definition v_seq :: "('a \<Rightarrow> pyval) \<Rightarrow> 'a list \<Rightarrow> pyval" where
  "v_seq f xs = VSeq (map f xs)"

definition v_nat :: "nat \<Rightarrow> pyval" where
  "v_nat n = VInt (int n)"

definition v_enum :: "('a \<Rightarrow> string) \<Rightarrow> 'a \<Rightarrow> pyval" where
  "v_enum text x = VEnum (VStr (text x))"

definition v_time :: "int \<Rightarrow> pyval" where
  "v_time t = VDatetime True (utc_of t)"

definition contract_model :: "(string \<times> pyval) list \<Rightarrow> pyval" where
  "contract_model members = VModel True False [] members"

definition run_ref_value :: "run_ref \<Rightarrow> pyval" where
  "run_ref_value r =
     contract_model
       [(''stored_data_id'', opaque (rr_id r)), (''data_kind'', VStr (rr_kind r)),
        (''content_hash'', VStr (rr_hash r)), (''analysis_id'', opaque (rr_analysis r)),
        (''record_id'', v_opt opaque (rr_record r))]"

definition host_ref_value :: "host_ref \<Rightarrow> pyval" where
  "host_ref_value r =
     contract_model
       [(''stored_data_id'', opaque (hr_id r)), (''data_kind'', VStr (hr_kind r)),
        (''content_hash'', VStr (hr_hash r)), (''configuration_scope'', VStr ''HOST''),
        (''host_id'', VStr (hr_host r)), (''publication_analysis_id'', opaque (hr_analysis r)),
        (''publication_workspace_id'', opaque (hr_workspace r)),
        (''publication_commit_id'', opaque (hr_commit r)), (''record_id'', opaque (hr_record r))]"

definition policy_ref_value :: "policy_ref \<Rightarrow> pyval" where
  "policy_ref_value r =
     contract_model
       [(''stored_data_id'', opaque (pr_id r)), (''data_kind'', VStr (pr_kind r)),
        (''record_id'', opaque (pr_record r)), (''content_hash'', VStr (pr_hash r)),
        (''program_id'', opaque (pr_program r)), (''schema_version'', VStr (pr_schema r))]"

fun ref_value :: "record_ref \<Rightarrow> pyval" where
  "ref_value (RunStoredDataRef r) = run_ref_value r"
| "ref_value (StoredDataRef r) = stored_ref_value r"
| "ref_value (HostConfigurationRef r) = host_ref_value r"
| "ref_value (PolicyCacheRef r) = policy_ref_value r"

definition revision_members :: "revision_meta \<Rightarrow> (string \<times> pyval) list" where
  "revision_members r =
     [(''record_id'', opaque (rm_record_id r)),
      (''logical_record_id'', opaque (rm_logical_record_id r)),
      (''record_type'', VStr (rm_record_type r)), (''schema_version'', VStr (rm_schema_version r)),
      (''revision_number'', VInt (rm_revision_number r)),
      (''previous_record_id'', v_opt opaque (rm_previous_record_id r)),
      (''created_at'', v_time (rm_created_at r))]"

fun meta_value :: "record_metadata \<Rightarrow> pyval" where
  "meta_value (RunMeta r a) = contract_model (revision_members r @ [(''analysis_id'', opaque a)])"
| "meta_value (RecordMeta r a w c h t) =
     contract_model (revision_members r @
       [(''analysis_id'', opaque a), (''workspace_id'', opaque w), (''commit_id'', opaque c),
        (''hypothesis_id'', v_opt opaque h), (''attempt_id'', v_opt opaque t)])"
| "meta_value (PolicyCacheMeta r p) =
     contract_model (revision_members r @ [(''program_id'', opaque p)])"

section \<open>Field constraints\<close>

text \<open>A constraint or type that the field declaration states; pydantic's report is one message.\<close>

definition field_error :: py_error where
  "field_error = ValueError ''validation error''"

definition check_fields :: "bool \<Rightarrow> unit res" where
  "check_fields ok = raise_if (\<not> ok) field_error"

lemma check_fields_ok [simp]: "check_fields b = Inr () \<longleftrightarrow> b"
  by (simp add: check_fields_def)

definition decimal :: "string \<Rightarrow> bool" where
  "decimal s \<longleftrightarrow> s \<noteq> [] \<and> list_all (\<lambda>c. 48 \<le> (of_char c :: nat) \<and> (of_char c :: nat) < 58) s"

definition version_part :: "string \<Rightarrow> bool" where
  "version_part s \<longleftrightarrow> decimal s \<and> (s = ''0'' \<or> hd s \<noteq> CHR ''0'')"

definition schema_version_text :: "string \<Rightarrow> bool" where
  "schema_version_text s =
     (let major = takeWhile (\<lambda>c. c \<noteq> CHR ''.'') s; rest = drop (Suc (length major)) s;
          minor = takeWhile (\<lambda>c. c \<noteq> CHR ''.'') rest; patch = drop (Suc (length minor)) rest
      in s = major @ CHR ''.'' # minor @ CHR ''.'' # patch
         \<and> version_part major \<and> major \<noteq> ''0'' \<and> version_part minor \<and> version_part patch)"

definition run_ref_ok :: "run_ref \<Rightarrow> bool" where
  "run_ref_ok r \<longleftrightarrow> non_empty_str (rr_id r) \<and> non_empty_str (rr_kind r) \<and> digest_text (rr_hash r)
     \<and> non_empty_str (rr_analysis r) \<and> pred_option non_empty_str (rr_record r)"

definition host_ref_ok :: "host_ref \<Rightarrow> bool" where
  "host_ref_ok r \<longleftrightarrow> non_empty_str (hr_id r) \<and> non_empty_str (hr_kind r) \<and> digest_text (hr_hash r)
     \<and> non_empty_str (hr_host r) \<and> non_empty_str (hr_analysis r) \<and> non_empty_str (hr_workspace r)
     \<and> non_empty_str (hr_commit r) \<and> non_empty_str (hr_record r)"

definition policy_ref_ok :: "policy_ref \<Rightarrow> bool" where
  "policy_ref_ok r \<longleftrightarrow> non_empty_str (pr_id r) \<and> pr_kind r = ''policy_cache_record''
     \<and> non_empty_str (pr_record r) \<and> digest_text (pr_hash r) \<and> non_empty_str (pr_program r)
     \<and> schema_version_text (pr_schema r)"

fun ref_ok :: "record_ref \<Rightarrow> bool" where
  "ref_ok (RunStoredDataRef r) = run_ref_ok r"
| "ref_ok (StoredDataRef r) = stored_ref_ok r"
| "ref_ok (HostConfigurationRef r) = host_ref_ok r"
| "ref_ok (PolicyCacheRef r) = policy_ref_ok r"

text \<open>\<open>BudgetScopeRef\<close> is \<open>RunStoredDataRef | StoredDataRef\<close>; \<open>CheckedConfigurationRef\<close> adds hosts.\<close>

fun budget_scope_ref :: "record_ref \<Rightarrow> bool" where
  "budget_scope_ref (RunStoredDataRef r) = run_ref_ok r"
| "budget_scope_ref (StoredDataRef r) = stored_ref_ok r"
| "budget_scope_ref _ = False"

fun checked_configuration_ref :: "record_ref \<Rightarrow> bool" where
  "checked_configuration_ref (HostConfigurationRef r) = host_ref_ok r"
| "checked_configuration_ref r = budget_scope_ref r"

definition revision_fields_ok :: "revision_meta \<Rightarrow> bool" where
  "revision_fields_ok r \<longleftrightarrow> non_empty_str (rm_record_id r) \<and> non_empty_str (rm_logical_record_id r)
     \<and> non_empty_str (rm_record_type r) \<and> schema_version_text (rm_schema_version r)
     \<and> 1 \<le> rm_revision_number r \<and> pred_option non_empty_str (rm_previous_record_id r)"

fun meta_fields_ok :: "record_metadata \<Rightarrow> bool" where
  "meta_fields_ok (RunMeta r a) = (revision_fields_ok r \<and> non_empty_str a)"
| "meta_fields_ok (RecordMeta r a w c h t) =
     (revision_fields_ok r \<and> non_empty_str a \<and> non_empty_str w \<and> non_empty_str c
      \<and> pred_option non_empty_str h \<and> pred_option non_empty_str t)"
| "meta_fields_ok (PolicyCacheMeta r p) =
     (revision_fields_ok r \<and> rm_record_type r = ''policy_cache_record'' \<and> non_empty_str p)"

definition validate_meta :: "record_metadata \<Rightarrow> unit res" where
  "validate_meta m = seq2 (check_fields (meta_fields_ok m)) (revision_shape (revision_of m))"

fun is_record_meta :: "record_metadata \<Rightarrow> bool" where
  "is_record_meta (RecordMeta _ _ _ _ _ _) = True"
| "is_record_meta _ = False"

fun is_policy_meta :: "record_metadata \<Rightarrow> bool" where
  "is_policy_meta (PolicyCacheMeta _ _) = True"
| "is_policy_meta _ = False"

fun meta_attempt :: "record_metadata \<Rightarrow> string option" where
  "meta_attempt (RecordMeta _ _ _ _ _ t) = t"
| "meta_attempt _ = None"

abbreviation meta_record_id :: "record_metadata \<Rightarrow> string" where
  "meta_record_id m \<equiv> rm_record_id (revision_of m)"

abbreviation meta_record_type :: "record_metadata \<Rightarrow> string" where
  "meta_record_type m \<equiv> rm_record_type (revision_of m)"

abbreviation meta_revision :: "record_metadata \<Rightarrow> int" where
  "meta_revision m \<equiv> rm_revision_number (revision_of m)"

text \<open>
  \<open>ScopedRecord\<close>: its metadata is a \<open>RunMeta\<close> or \<open>RecordMeta\<close>, and every reference that is a
  field, or a member of a tuple field, is in the scope of the metadata.
\<close>

definition validate_scoped :: "record_metadata \<Rightarrow> unit res" where
  "validate_scoped m = seq2 (check_fields (\<not> is_policy_meta m)) (validate_meta m)"

definition reference_scopes :: "record_ref list \<Rightarrow> record_metadata \<Rightarrow> unit res" where
  "reference_scopes refs meta = seqR (map (\<lambda>r. validate_ref_scope r meta) refs)"

definition option_refs :: "('a \<Rightarrow> record_ref) \<Rightarrow> 'a option \<Rightarrow> record_ref list" where
  "option_refs f x = (case x of None \<Rightarrow> [] | Some y \<Rightarrow> [f y])"

text \<open>\<open>require_record_ref\<close> on a nullable reference.\<close>

definition require_if :: "record_ref option \<Rightarrow> string option \<Rightarrow> unit res" where
  "require_if ref kind = (case ref of None \<Rightarrow> Inr () | Some r \<Rightarrow> require_record_ref r kind)"

section \<open>New metadata\<close>

text \<open>
  \<open>storage/records.py\<close>: the metadata of a first revision and of the next one.  The new identifier
  and the time are what \<open>ids.new\<close> and \<open>clock.now\<close> answer.
\<close>

fun with_revision :: "revision_meta \<Rightarrow> record_metadata \<Rightarrow> record_metadata" where
  "with_revision r (RunMeta _ a) = RunMeta r a"
| "with_revision r (RecordMeta _ a w c h t) = RecordMeta r a w c h t"
| "with_revision r (PolicyCacheMeta _ p) = PolicyCacheMeta r p"

definition fresh_meta :: "record_metadata \<Rightarrow> string \<Rightarrow> string \<Rightarrow> int \<Rightarrow> record_metadata res" where
  "fresh_meta m kind new_id now =
     (let m' = with_revision ((revision_of m)\<lparr>rm_record_id := new_id, rm_logical_record_id := new_id,
                  rm_record_type := kind, rm_revision_number := 1, rm_previous_record_id := None,
                  rm_created_at := now\<rparr>) m
      in bindR (validate_meta m') (\<lambda>_. Inr m'))"

definition next_meta :: "record_metadata \<Rightarrow> string \<Rightarrow> int \<Rightarrow> record_metadata res" where
  "next_meta m new_id now =
     (let m' = with_revision ((revision_of m)\<lparr>rm_record_id := new_id,
                  rm_previous_record_id := Some (meta_record_id m),
                  rm_revision_number := meta_revision m + 1, rm_created_at := now\<rparr>) m
      in bindR (validate_meta m') (\<lambda>_. Inr m'))"

lemma revision_of_with [simp]: "revision_of (with_revision r m) = r"
  by (cases m) simp_all

lemma with_revision_scope [simp]:
  "same_meta_type (with_revision r m) m" "same_meta_type m (with_revision r m)"
  "meta_analysis (with_revision r m) = meta_analysis m"
  "meta_workspace (with_revision r m) = meta_workspace m"
  "meta_commit (with_revision r m) = meta_commit m"
  "meta_hypothesis (with_revision r m) = meta_hypothesis m"
  "meta_program (with_revision r m) = meta_program m"
  "meta_attempt (with_revision r m) = meta_attempt m"
  by (cases m; simp)+

text \<open>The next metadata is an accepted revision, unless the clock went backwards or the id repeats.\<close>

lemma next_meta_revision:
  assumes "next_meta m new_id now = Inr m'" "rm_created_at (revision_of m) \<le> now"
  shows "validate_revision m m' = Inr ()"
  using assms
  by (auto simp: next_meta_def Let_def validate_revision_ok immutable_attributes_def validate_meta_def
      revision_shape_def split: if_splits)

end
