(* ===== verification/Work_Contracts.thy ===== *)
theory Work_Contracts
  imports Contract_Values
begin

text \<open>
  \<open>contracts/work.py\<close>: the work item, its attempts, its state transitions and their commits, the
  shape every stored one has, and the checks between them.  An enumeration member \<open>X.Y\<close> is a
  constructor with a prefix for \<open>X\<close> and a text.
\<close>

section \<open>Enumerations\<close>

datatype work_type =
    WT_WORKSPACE_PREP | WT_REPOSITORY_PROFILE | WT_STATIC_TOOL | WT_STATIC_NORMALIZE
  | WT_HYPOTHESIS_PROPOSAL | WT_CONTEXT_RETRIEVAL | WT_PRO_EVIDENCE | WT_CON_EVIDENCE
  | WT_VERIFICATION | WT_DYNAMIC_REPRO | WT_PRIMITIVE_UPDATE | WT_CHAINING | WT_CWE_LABEL
  | WT_POLICY_FETCH | WT_TECHNICAL_GATE | WT_RULE_SCOPE_GATE | WT_FINDING_NORMALIZE
  | WT_REPORT_DRAFT

fun work_type_text :: "work_type \<Rightarrow> string" where
  "work_type_text WT_WORKSPACE_PREP = ''WORKSPACE_PREP''"
| "work_type_text WT_REPOSITORY_PROFILE = ''REPOSITORY_PROFILE''"
| "work_type_text WT_STATIC_TOOL = ''STATIC_TOOL''"
| "work_type_text WT_STATIC_NORMALIZE = ''STATIC_NORMALIZE''"
| "work_type_text WT_HYPOTHESIS_PROPOSAL = ''HYPOTHESIS_PROPOSAL''"
| "work_type_text WT_CONTEXT_RETRIEVAL = ''CONTEXT_RETRIEVAL''"
| "work_type_text WT_PRO_EVIDENCE = ''PRO_EVIDENCE''"
| "work_type_text WT_CON_EVIDENCE = ''CON_EVIDENCE''"
| "work_type_text WT_VERIFICATION = ''VERIFICATION''"
| "work_type_text WT_DYNAMIC_REPRO = ''DYNAMIC_REPRO''"
| "work_type_text WT_PRIMITIVE_UPDATE = ''PRIMITIVE_UPDATE''"
| "work_type_text WT_CHAINING = ''CHAINING''"
| "work_type_text WT_CWE_LABEL = ''CWE_LABEL''"
| "work_type_text WT_POLICY_FETCH = ''POLICY_FETCH''"
| "work_type_text WT_TECHNICAL_GATE = ''TECHNICAL_GATE''"
| "work_type_text WT_RULE_SCOPE_GATE = ''RULE_SCOPE_GATE''"
| "work_type_text WT_FINDING_NORMALIZE = ''FINDING_NORMALIZE''"
| "work_type_text WT_REPORT_DRAFT = ''REPORT_DRAFT''"

datatype work_status =
    W_PENDING | W_READY | W_RUNNING | W_BLOCKED | W_SUCCEEDED | W_PARTIAL | W_FAILED
  | W_CANCELLED

fun work_status_text :: "work_status \<Rightarrow> string" where
  "work_status_text W_PENDING = ''PENDING''"
| "work_status_text W_READY = ''READY''"
| "work_status_text W_RUNNING = ''RUNNING''"
| "work_status_text W_BLOCKED = ''BLOCKED''"
| "work_status_text W_SUCCEEDED = ''SUCCEEDED''"
| "work_status_text W_PARTIAL = ''PARTIAL''"
| "work_status_text W_FAILED = ''FAILED''"
| "work_status_text W_CANCELLED = ''CANCELLED''"

datatype attempt_status =
    A_RUNNING | A_SUCCEEDED | A_PARTIAL | A_FAILED | A_CANCELLED

fun attempt_status_text :: "attempt_status \<Rightarrow> string" where
  "attempt_status_text A_RUNNING = ''RUNNING''"
| "attempt_status_text A_SUCCEEDED = ''SUCCEEDED''"
| "attempt_status_text A_PARTIAL = ''PARTIAL''"
| "attempt_status_text A_FAILED = ''FAILED''"
| "attempt_status_text A_CANCELLED = ''CANCELLED''"

datatype target_status =
    T_READY | T_RUNNING | T_BLOCKED | T_SUCCEEDED | T_PARTIAL | T_FAILED | T_CANCELLED

fun target_status_text :: "target_status \<Rightarrow> string" where
  "target_status_text T_READY = ''READY''"
| "target_status_text T_RUNNING = ''RUNNING''"
| "target_status_text T_BLOCKED = ''BLOCKED''"
| "target_status_text T_SUCCEEDED = ''SUCCEEDED''"
| "target_status_text T_PARTIAL = ''PARTIAL''"
| "target_status_text T_FAILED = ''FAILED''"
| "target_status_text T_CANCELLED = ''CANCELLED''"

datatype commit_target =
    C_BLOCKED | C_SUCCEEDED | C_PARTIAL | C_FAILED | C_CANCELLED

fun commit_target_text :: "commit_target \<Rightarrow> string" where
  "commit_target_text C_BLOCKED = ''BLOCKED''"
| "commit_target_text C_SUCCEEDED = ''SUCCEEDED''"
| "commit_target_text C_PARTIAL = ''PARTIAL''"
| "commit_target_text C_FAILED = ''FAILED''"
| "commit_target_text C_CANCELLED = ''CANCELLED''"

datatype subject_type =
    S_ANALYSIS | S_PROPOSAL | S_HYPOTHESIS | S_REPORT

fun subject_type_text :: "subject_type \<Rightarrow> string" where
  "subject_type_text S_ANALYSIS = ''ANALYSIS''"
| "subject_type_text S_PROPOSAL = ''PROPOSAL''"
| "subject_type_text S_HYPOTHESIS = ''HYPOTHESIS''"
| "subject_type_text S_REPORT = ''REPORT''"

datatype attempt_trigger =
    TRIGGER_INITIAL | TRIGGER_RETRY | TRIGGER_RESUME

fun attempt_trigger_text :: "attempt_trigger \<Rightarrow> string" where
  "attempt_trigger_text TRIGGER_INITIAL = ''INITIAL''"
| "attempt_trigger_text TRIGGER_RETRY = ''RETRY''"
| "attempt_trigger_text TRIGGER_RESUME = ''RESUME''"

datatype waiting_for =
    WAIT_RETRY | WAIT_AUTH | WAIT_APPROVAL | WAIT_INPUT | WAIT_BUDGET | WAIT_DEPENDENCY

fun waiting_for_text :: "waiting_for \<Rightarrow> string" where
  "waiting_for_text WAIT_RETRY = ''RETRY''"
| "waiting_for_text WAIT_AUTH = ''AUTH''"
| "waiting_for_text WAIT_APPROVAL = ''APPROVAL''"
| "waiting_for_text WAIT_INPUT = ''INPUT''"
| "waiting_for_text WAIT_BUDGET = ''BUDGET''"
| "waiting_for_text WAIT_DEPENDENCY = ''DEPENDENCY''"

datatype commit_state =
    CS_PREPARED | CS_COMMITTED | CS_ABORTED

fun commit_state_text :: "commit_state \<Rightarrow> string" where
  "commit_state_text CS_PREPARED = ''PREPARED''"
| "commit_state_text CS_COMMITTED = ''COMMITTED''"
| "commit_state_text CS_ABORTED = ''ABORTED''"

definition TERMINAL_WORK_STATUSES :: "work_status set" where
  "TERMINAL_WORK_STATUSES = {W_SUCCEEDED, W_PARTIAL, W_FAILED, W_CANCELLED}"

fun ALLOWED_TRANSITIONS :: "work_status \<Rightarrow> work_status set" where
  "ALLOWED_TRANSITIONS W_PENDING = {W_READY, W_CANCELLED}"
| "ALLOWED_TRANSITIONS W_READY = {W_RUNNING, W_BLOCKED, W_CANCELLED}"
| "ALLOWED_TRANSITIONS W_RUNNING = {W_READY, W_BLOCKED} \<union> TERMINAL_WORK_STATUSES"
| "ALLOWED_TRANSITIONS W_BLOCKED = {W_READY, W_FAILED, W_CANCELLED}"
| "ALLOWED_TRANSITIONS W_FAILED = {W_READY}"
| "ALLOWED_TRANSITIONS _ = {}"

text \<open>\<open>WorkStatus(to_status.value)\<close>.\<close>

fun work_status_of :: "target_status \<Rightarrow> work_status" where
  "work_status_of T_READY = W_READY"
| "work_status_of T_RUNNING = W_RUNNING"
| "work_status_of T_BLOCKED = W_BLOCKED"
| "work_status_of T_SUCCEEDED = W_SUCCEEDED"
| "work_status_of T_PARTIAL = W_PARTIAL"
| "work_status_of T_FAILED = W_FAILED"
| "work_status_of T_CANCELLED = W_CANCELLED"

section \<open>Work\<close>

record work =
  wk_meta :: record_metadata
  wk_work_id :: string
  wk_parent_work_ref :: "record_ref option"
  wk_work_type :: work_type
  wk_subject_type :: subject_type
  wk_subject_id :: string
  wk_work_generation :: nat
  wk_status :: work_status
  wk_state_version :: nat
  wk_last_transition_ref :: "record_ref option"
  wk_last_transition_commit_ref :: "record_ref option"
  wk_active_attempt_id :: "string option"
  wk_input_hash :: string
  wk_dedupe_key :: string
  wk_trigger_primitive_ref :: "stored_ref option"
  wk_input_refs :: "record_ref list"
  wk_output_refs :: "record_ref list"
  wk_gap_ids :: "string list"
  wk_error_ids :: "string list"
  wk_waiting_for :: "waiting_for list"
  wk_stop_reason :: "string option"
  wk_started_at :: "int option"
  wk_finished_at :: "int option"
  wk_elapsed_ms :: nat

definition work_value :: "work \<Rightarrow> pyval" where
  "work_value w =
     contract_model
       [(''meta'', meta_value (wk_meta w)), (''work_id'', opaque (wk_work_id w)),
        (''parent_work_ref'', v_opt ref_value (wk_parent_work_ref w)),
        (''work_type'', v_enum work_type_text (wk_work_type w)),
        (''subject_type'', v_enum subject_type_text (wk_subject_type w)),
        (''subject_id'', opaque (wk_subject_id w)),
        (''work_generation'', v_nat (wk_work_generation w)),
        (''status'', v_enum work_status_text (wk_status w)),
        (''state_version'', v_nat (wk_state_version w)),
        (''last_transition_ref'', v_opt ref_value (wk_last_transition_ref w)),
        (''last_transition_commit_ref'', v_opt ref_value (wk_last_transition_commit_ref w)),
        (''active_attempt_id'', v_opt opaque (wk_active_attempt_id w)),
        (''input_hash'', VStr (wk_input_hash w)), (''dedupe_key'', VStr (wk_dedupe_key w)),
        (''trigger_primitive_ref'', v_opt stored_ref_value (wk_trigger_primitive_ref w)),
        (''input_refs'', v_seq ref_value (wk_input_refs w)),
        (''output_refs'', v_seq ref_value (wk_output_refs w)),
        (''gap_ids'', v_seq opaque (wk_gap_ids w)), (''error_ids'', v_seq opaque (wk_error_ids w)),
        (''waiting_for'', v_seq (v_enum waiting_for_text) (wk_waiting_for w)),
        (''stop_reason'', v_opt VStr (wk_stop_reason w)),
        (''started_at'', v_opt v_time (wk_started_at w)),
        (''finished_at'', v_opt v_time (wk_finished_at w)),
        (''elapsed_ms'', v_nat (wk_elapsed_ms w))]"

definition work_ok :: "work \<Rightarrow> bool" where
  "work_ok w \<longleftrightarrow>
     non_empty_str (wk_work_id w) \<and> pred_option budget_scope_ref (wk_parent_work_ref w) \<and>
     non_empty_str (wk_subject_id w) \<and> 1 \<le> wk_work_generation w \<and>
     1 \<le> wk_state_version w \<and>
     pred_option budget_scope_ref (wk_last_transition_ref w) \<and>
     pred_option budget_scope_ref (wk_last_transition_commit_ref w) \<and>
     pred_option non_empty_str (wk_active_attempt_id w) \<and> digest_text (wk_input_hash w) \<and>
     digest_text (wk_dedupe_key w) \<and>
     pred_option stored_ref_ok (wk_trigger_primitive_ref w) \<and>
     list_all ref_ok (wk_input_refs w) \<and> list_all ref_ok (wk_output_refs w) \<and>
     list_all non_empty_str (wk_gap_ids w) \<and> list_all non_empty_str (wk_error_ids w) \<and>
     pred_option non_empty_str (wk_stop_reason w)"

definition work_refs :: "work \<Rightarrow> record_ref list" where
  "work_refs w =
     option_refs id (wk_parent_work_ref w) @ option_refs id (wk_last_transition_ref w) @
     option_refs id (wk_last_transition_commit_ref w) @
     option_refs StoredDataRef (wk_trigger_primitive_ref w) @ wk_input_refs w @ wk_output_refs w"

definition partial_shape :: "work \<Rightarrow> unit res" where
  "partial_shape w =
     seqR
       [raise_if (wk_work_type w \<notin> {WT_STATIC_TOOL, WT_STATIC_NORMALIZE, WT_CONTEXT_RETRIEVAL,
                                     WT_DYNAMIC_REPRO} \<or> wk_output_refs w = [])
          (ValueError ''PARTIAL requires an eligible work type and outputs''),
        raise_if (wk_work_type w \<noteq> WT_DYNAMIC_REPRO \<and> wk_error_ids w = [] \<and> wk_gap_ids w = [])
          (ValueError ''Static/context PARTIAL requires gaps or errors''),
        if wk_work_type w = WT_DYNAMIC_REPRO then
          seq2 (raise_if (length (wk_output_refs w) \<noteq> 1)
                  (ValueError ''Dynamic PARTIAL requires one result''))
            (require_record_ref (hd (wk_output_refs w)) (Some ''dynamic_reproduction_result''))
        else Inr ()]"

definition trigger_shape :: "work \<Rightarrow> unit res" where
  "trigger_shape w =
     (case wk_trigger_primitive_ref w of
        None \<Rightarrow> Inr ()
      | Some r \<Rightarrow>
          seq2 (require_record_ref (StoredDataRef r) (Some ''primitive''))
            (raise_if (wk_subject_type w \<noteq> S_ANALYSIS
                       \<or> count_list (wk_input_refs w) (StoredDataRef r) \<noteq> 1)
               (ValueError ''CHAINING requires analysis subject and one trigger input'')))"

definition later :: "int option \<Rightarrow> int option \<Rightarrow> bool" where
  "later a b = (case (a, b) of (Some x, Some y) \<Rightarrow> y < x | _ \<Rightarrow> False)"

definition work_shape :: "work \<Rightarrow> unit res" where
  "work_shape w =
     (let terminal = (wk_status w \<in> TERMINAL_WORK_STATUSES) in
      seqR
       [raise_if (wk_work_type w \<noteq> WT_WORKSPACE_PREP \<and> \<not> is_record_meta (wk_meta w))
          (ValueError ''Post-workspace work requires RecordMeta''),
        raise_if (wk_work_type w = WT_WORKSPACE_PREP \<and> is_record_meta (wk_meta w))
          (ValueError ''WORKSPACE_PREP must retain RunMeta''),
        raise_if (is_record_meta (wk_meta w) \<and> meta_attempt (wk_meta w) \<noteq> None)
          (ValueError ''Work metadata attempt_id must be null''),
        raise_if (wk_subject_type w = S_ANALYSIS \<and> Some (wk_subject_id w) \<noteq> meta_analysis (wk_meta w))
          (ValueError ''Analysis subject mismatch''),
        raise_if (wk_subject_type w = S_HYPOTHESIS
                  \<and> (\<not> is_record_meta (wk_meta w)
                     \<or> Some (wk_subject_id w) \<noteq> meta_hypothesis (wk_meta w)))
          (ValueError ''Hypothesis subject mismatch''),
        raise_if ((wk_status w = W_RUNNING) \<noteq> (wk_active_attempt_id w \<noteq> None))
          (ValueError ''Only RUNNING has an active attempt''),
        raise_if (terminal \<noteq> (wk_finished_at w \<noteq> None))
          (ValueError ''Only terminal work has finished_at''),
        raise_if (later (wk_started_at w) (wk_finished_at w))
          (ValueError ''finished_at precedes started_at''),
        raise_if (wk_status w = W_RUNNING \<and> wk_started_at w = None)
          (ValueError ''RUNNING requires started_at''),
        raise_if (wk_status w \<in> {W_PENDING, W_READY} \<and> (wk_output_refs w \<noteq> [] \<or> wk_waiting_for w \<noteq> []))
          (ValueError ''PENDING/READY require empty outputs and waiting_for''),
        if wk_status w = W_BLOCKED then
          raise_if (wk_waiting_for w = [] \<or> wk_stop_reason w \<in> {None, Some []})
            (ValueError ''BLOCKED requires waiting_for and stop_reason'')
        else raise_if (wk_waiting_for w \<noteq> []) (ValueError ''Only BLOCKED can wait''),
        raise_if (terminal \<and> wk_stop_reason w \<in> {None, Some []})
          (ValueError ''Terminal work requires stop_reason''),
        raise_if (wk_status w = W_SUCCEEDED \<and> wk_stop_reason w \<noteq> Some ''COMPLETED'')
          (ValueError ''SUCCEEDED stop_reason must be COMPLETED''),
        raise_if (wk_status w = W_FAILED \<and> wk_error_ids w = [])
          (ValueError ''FAILED requires error_ids''),
        if wk_status w = W_PARTIAL then partial_shape w else Inr (),
        require_if (wk_last_transition_ref w) (Some ''state_transition''),
        require_if (wk_last_transition_commit_ref w) (Some ''transition_commit''),
        require_if (wk_parent_work_ref w) (Some ''work_execution_state''),
        if wk_status w = W_PENDING then
          raise_if (wk_state_version w \<noteq> 1 \<or> wk_last_transition_ref w \<noteq> None
                    \<or> wk_last_transition_commit_ref w \<noteq> None)
            (ValueError ''Initial PENDING has version 1 and no transition'')
        else
          raise_if (wk_last_transition_ref w = None \<or> wk_state_version w < 2)
            (ValueError ''Non-PENDING work requires its transition and advanced version''),
        raise_if ((wk_work_type w \<in> {WT_PRO_EVIDENCE, WT_CON_EVIDENCE, WT_DYNAMIC_REPRO, WT_CWE_LABEL,
                                     WT_FINDING_NORMALIZE}) \<noteq> (wk_parent_work_ref w \<noteq> None))
          (ValueError ''Parent required only for declared child work types''),
        raise_if (wk_work_type w = WT_FINDING_NORMALIZE \<and> wk_subject_type w \<noteq> S_HYPOTHESIS)
          (ValueError ''FINDING_NORMALIZE requires a hypothesis subject''),
        raise_if ((wk_work_type w = WT_CHAINING) \<noteq> (wk_trigger_primitive_ref w \<noteq> None))
          (ValueError ''Only CHAINING requires trigger_primitive_ref''),
        trigger_shape w])"

definition validate_work :: "work \<Rightarrow> unit res" where
  "validate_work w =
     seqR [validate_scoped (wk_meta w), check_fields (work_ok w),
           reference_scopes (work_refs w) (wk_meta w), work_shape w]"

section \<open>Attempts\<close>

record attempt =
  wa_meta :: record_metadata
  wa_work_id :: string
  wa_attempt_id :: string
  wa_attempt_number :: nat
  wa_trigger :: attempt_trigger
  wa_input_hash :: string
  wa_status :: attempt_status
  wa_output_refs :: "record_ref list"
  wa_gap_ids :: "string list"
  wa_error_ids :: "string list"
  wa_started_at :: int
  wa_finished_at :: "int option"
  wa_elapsed_ms :: nat

definition attempt_value :: "attempt \<Rightarrow> pyval" where
  "attempt_value a =
     contract_model
       [(''meta'', meta_value (wa_meta a)), (''work_id'', opaque (wa_work_id a)),
        (''attempt_id'', opaque (wa_attempt_id a)),
        (''attempt_number'', v_nat (wa_attempt_number a)),
        (''trigger'', v_enum attempt_trigger_text (wa_trigger a)),
        (''input_hash'', VStr (wa_input_hash a)),
        (''status'', v_enum attempt_status_text (wa_status a)),
        (''output_refs'', v_seq ref_value (wa_output_refs a)),
        (''gap_ids'', v_seq opaque (wa_gap_ids a)), (''error_ids'', v_seq opaque (wa_error_ids a)),
        (''started_at'', v_time (wa_started_at a)),
        (''finished_at'', v_opt v_time (wa_finished_at a)),
        (''elapsed_ms'', v_nat (wa_elapsed_ms a))]"

definition attempt_ok :: "attempt \<Rightarrow> bool" where
  "attempt_ok a \<longleftrightarrow>
     non_empty_str (wa_work_id a) \<and> non_empty_str (wa_attempt_id a) \<and>
     1 \<le> wa_attempt_number a \<and> digest_text (wa_input_hash a) \<and>
     list_all ref_ok (wa_output_refs a) \<and> list_all non_empty_str (wa_gap_ids a) \<and>
     list_all non_empty_str (wa_error_ids a)"

definition attempt_refs :: "attempt \<Rightarrow> record_ref list" where
  "attempt_refs a =
     wa_output_refs a"

text \<open>\<open>_attempt_meta\<close>: a code-scoped record carries the attempt it belongs to.\<close>

definition attempt_meta :: "record_metadata \<Rightarrow> string option \<Rightarrow> unit res" where
  "attempt_meta meta attempt =
     raise_if (is_record_meta meta \<and> meta_attempt meta \<noteq> attempt)
       (ValueError ''Metadata attempt_id mismatch'')"

definition attempt_shape :: "attempt \<Rightarrow> unit res" where
  "attempt_shape a =
     seqR
       [raise_if ((wa_attempt_number a = 1) \<noteq> (wa_trigger a = TRIGGER_INITIAL))
          (ValueError ''Only first attempt has INITIAL trigger''),
        raise_if ((wa_status a = A_RUNNING) \<noteq> (wa_finished_at a = None))
          (ValueError ''Only running attempt has finished_at=null''),
        raise_if (later (Some (wa_started_at a)) (wa_finished_at a))
          (ValueError ''finished_at precedes started_at''),
        raise_if (wa_status a = A_FAILED \<and> wa_error_ids a = [])
          (ValueError ''Failed attempt requires errors''),
        attempt_meta (wa_meta a) (Some (wa_attempt_id a))]"

definition validate_attempt :: "attempt \<Rightarrow> unit res" where
  "validate_attempt a =
     seqR [validate_scoped (wa_meta a), check_fields (attempt_ok a),
           reference_scopes (attempt_refs a) (wa_meta a), attempt_shape a]"

section \<open>Transitions\<close>

record transition =
  tr_meta :: record_metadata
  tr_transition_id :: string
  tr_work_id :: string
  tr_action_decision_ref :: record_ref
  tr_from_status :: work_status
  tr_to_status :: target_status
  tr_expected_state_version :: nat
  tr_new_state_version :: nat
  tr_attempt_id :: "string option"
  tr_cause :: string
  tr_output_refs :: "record_ref list"
  tr_gap_ids :: "string list"
  tr_error_ids :: "string list"
  tr_dedupe_key :: string
  tr_created_at :: int

definition transition_value :: "transition \<Rightarrow> pyval" where
  "transition_value t =
     contract_model
       [(''meta'', meta_value (tr_meta t)), (''transition_id'', opaque (tr_transition_id t)),
        (''work_id'', opaque (tr_work_id t)),
        (''action_decision_ref'', ref_value (tr_action_decision_ref t)),
        (''from_status'', v_enum work_status_text (tr_from_status t)),
        (''to_status'', v_enum target_status_text (tr_to_status t)),
        (''expected_state_version'', v_nat (tr_expected_state_version t)),
        (''new_state_version'', v_nat (tr_new_state_version t)),
        (''attempt_id'', v_opt opaque (tr_attempt_id t)), (''cause'', VStr (tr_cause t)),
        (''output_refs'', v_seq ref_value (tr_output_refs t)),
        (''gap_ids'', v_seq opaque (tr_gap_ids t)), (''error_ids'', v_seq opaque (tr_error_ids t)),
        (''dedupe_key'', VStr (tr_dedupe_key t)), (''created_at'', v_time (tr_created_at t))]"

definition transition_ok :: "transition \<Rightarrow> bool" where
  "transition_ok t \<longleftrightarrow>
     non_empty_str (tr_transition_id t) \<and> non_empty_str (tr_work_id t) \<and>
     budget_scope_ref (tr_action_decision_ref t) \<and> 1 \<le> tr_expected_state_version t \<and>
     1 \<le> tr_new_state_version t \<and> pred_option non_empty_str (tr_attempt_id t) \<and>
     non_empty_str (tr_cause t) \<and> list_all ref_ok (tr_output_refs t) \<and>
     list_all non_empty_str (tr_gap_ids t) \<and> list_all non_empty_str (tr_error_ids t) \<and>
     digest_text (tr_dedupe_key t)"

definition transition_refs :: "transition \<Rightarrow> record_ref list" where
  "transition_refs t =
     [tr_action_decision_ref t] @ tr_output_refs t"

definition transition_shape :: "transition \<Rightarrow> unit res" where
  "transition_shape t =
     seqR
       [raise_if (work_status_of (tr_to_status t) \<notin> ALLOWED_TRANSITIONS (tr_from_status t))
          (ValueError ''STATE_TRANSITION_INVALID''),
        raise_if (tr_new_state_version t \<noteq> tr_expected_state_version t + 1)
          (ValueError ''State version must increase by exactly one''),
        raise_if (tr_to_status t = T_RUNNING \<and> tr_attempt_id t = None)
          (ValueError ''Starting RUNNING requires the new attempt_id''),
        require_record_ref (tr_action_decision_ref t) (Some ''action_decision''),
        attempt_meta (tr_meta t) (tr_attempt_id t)]"

definition validate_transition :: "transition \<Rightarrow> unit res" where
  "validate_transition t =
     seqR [validate_scoped (tr_meta t), check_fields (transition_ok t),
           reference_scopes (transition_refs t) (tr_meta t), transition_shape t]"

section \<open>Commits\<close>

record transition_commit =
  tc_meta :: record_metadata
  tc_transition_commit_id :: string
  tc_work_id :: string
  tc_transition_ref :: record_ref
  tc_expected_state_version :: nat
  tc_target_state_version :: nat
  tc_attempt_id :: "string option"
  tc_target_status :: commit_target
  tc_output_refs :: "record_ref list"
  tc_gap_ids :: "string list"
  tc_error_ids :: "string list"
  tc_state :: commit_state
  tc_prepared_at :: int
  tc_committed_at :: "int option"
  tc_abort_reason :: "string option"

definition transition_commit_value :: "transition_commit \<Rightarrow> pyval" where
  "transition_commit_value t =
     contract_model
       [(''meta'', meta_value (tc_meta t)),
        (''transition_commit_id'', opaque (tc_transition_commit_id t)),
        (''work_id'', opaque (tc_work_id t)), (''transition_ref'', ref_value (tc_transition_ref t)),
        (''expected_state_version'', v_nat (tc_expected_state_version t)),
        (''target_state_version'', v_nat (tc_target_state_version t)),
        (''attempt_id'', v_opt opaque (tc_attempt_id t)),
        (''target_status'', v_enum commit_target_text (tc_target_status t)),
        (''output_refs'', v_seq ref_value (tc_output_refs t)),
        (''gap_ids'', v_seq opaque (tc_gap_ids t)), (''error_ids'', v_seq opaque (tc_error_ids t)),
        (''state'', v_enum commit_state_text (tc_state t)),
        (''prepared_at'', v_time (tc_prepared_at t)),
        (''committed_at'', v_opt v_time (tc_committed_at t)),
        (''abort_reason'', v_opt VStr (tc_abort_reason t))]"

definition transition_commit_ok :: "transition_commit \<Rightarrow> bool" where
  "transition_commit_ok t \<longleftrightarrow>
     non_empty_str (tc_transition_commit_id t) \<and> non_empty_str (tc_work_id t) \<and>
     budget_scope_ref (tc_transition_ref t) \<and> 1 \<le> tc_expected_state_version t \<and>
     1 \<le> tc_target_state_version t \<and> pred_option non_empty_str (tc_attempt_id t) \<and>
     list_all ref_ok (tc_output_refs t) \<and> list_all non_empty_str (tc_gap_ids t) \<and>
     list_all non_empty_str (tc_error_ids t) \<and> pred_option non_empty_str (tc_abort_reason t)"

definition transition_commit_refs :: "transition_commit \<Rightarrow> record_ref list" where
  "transition_commit_refs t =
     [tc_transition_ref t] @ tc_output_refs t"

definition commit_shape :: "transition_commit \<Rightarrow> unit res" where
  "commit_shape c =
     seqR
       [raise_if (tc_target_state_version c \<noteq> tc_expected_state_version c + 1)
          (ValueError ''Target version must increase by exactly one''),
        require_record_ref (tc_transition_ref c) (Some ''state_transition''),
        attempt_meta (tc_meta c) (tc_attempt_id c),
        raise_if ((tc_state c = CS_COMMITTED) \<noteq> (tc_committed_at c \<noteq> None))
          (ValueError ''Only COMMITTED has committed_at''),
        raise_if ((tc_state c = CS_ABORTED) \<noteq> (tc_abort_reason c \<noteq> None))
          (ValueError ''Only ABORTED has abort_reason''),
        raise_if (later (Some (tc_prepared_at c)) (tc_committed_at c))
          (ValueError ''committed_at precedes prepared_at'')]"

definition validate_commit :: "transition_commit \<Rightarrow> unit res" where
  "validate_commit c =
     seqR [validate_scoped (tc_meta c), check_fields (transition_commit_ok c),
           reference_scopes (transition_commit_refs c) (tc_meta c), commit_shape c]"

section \<open>Checks between records\<close>

text \<open>\<open>_validate_metadata_scope\<close>.\<close>

definition validate_metadata_scope :: "record_metadata \<Rightarrow> record_metadata \<Rightarrow> unit res" where
  "validate_metadata_scope left right =
     seqR
       [raise_if (\<not> same_meta_type left right \<or> meta_analysis left \<noteq> meta_analysis right)
          (ValueError ''Metadata kind or analysis scope mismatch''),
        raise_if (is_record_meta left \<and> is_record_meta right
                  \<and> (meta_workspace left, meta_commit left, meta_hypothesis left)
                     \<noteq> (meta_workspace right, meta_commit right, meta_hypothesis right))
          (ValueError ''Metadata workspace/commit/hypothesis scope mismatch'')]"

definition validate_transition_context :: "transition \<Rightarrow> work \<Rightarrow> attempt_trigger option \<Rightarrow> unit res" where
  "validate_transition_context t w retry_trigger =
     seqR
       [validate_metadata_scope (tr_meta t) (wk_meta w),
        raise_if (tr_work_id t \<noteq> wk_work_id w \<or> tr_expected_state_version t \<noteq> wk_state_version w
                  \<or> tr_from_status t \<noteq> wk_status w)
          (ValueError ''STATE_VERSION_CONFLICT: transition does not match current work''),
        raise_if (tr_from_status t = W_RUNNING \<and> tr_attempt_id t \<noteq> wk_active_attempt_id w)
          (ValueError ''ATTEMPT_NOT_ACTIVE''),
        raise_if (tr_from_status t = W_RUNNING \<and> tr_to_status t = T_READY
                  \<and> (wk_work_type w \<noteq> WT_DYNAMIC_REPRO \<or> retry_trigger \<noteq> Some TRIGGER_RETRY))
          (ValueError ''RUNNING -> READY requires dynamic session RETRY'')]"

definition validate_attempt_context :: "attempt \<Rightarrow> work \<Rightarrow> attempt option \<Rightarrow> unit res" where
  "validate_attempt_context a w previous_attempt =
     seqR
       [raise_if (wa_work_id a \<noteq> wk_work_id w \<or> wa_input_hash a \<noteq> wk_input_hash w)
          (ValueError ''Attempt work/input_hash mismatch''),
        raise_if (\<not> same_meta_type (wa_meta a) (wk_meta w)
                  \<or> meta_analysis (wa_meta a) \<noteq> meta_analysis (wk_meta w))
          (ValueError ''Attempt metadata kind or analysis mismatch''),
        raise_if (is_record_meta (wa_meta a) \<and> is_record_meta (wk_meta w)
                  \<and> (meta_workspace (wa_meta a), meta_commit (wa_meta a), meta_hypothesis (wa_meta a))
                     \<noteq> (meta_workspace (wk_meta w), meta_commit (wk_meta w), meta_hypothesis (wk_meta w)))
          (ValueError ''Attempt workspace/commit/hypothesis mismatch''),
        raise_if (wa_status a = A_RUNNING
                  \<and> (wk_status w \<noteq> W_RUNNING \<or> wk_active_attempt_id w \<noteq> Some (wa_attempt_id a)))
          (ValueError ''ATTEMPT_NOT_ACTIVE''),
        (case previous_attempt of
           None \<Rightarrow> Inr ()
         | Some p \<Rightarrow>
             raise_if (wa_work_id p \<noteq> wa_work_id a \<or> wa_attempt_id p = wa_attempt_id a
                       \<or> wa_attempt_number p + 1 \<noteq> wa_attempt_number a \<or> wa_status p = A_RUNNING)
               (ValueError ''Previous attempt must be ended and numbering consecutive''))]"

definition validate_commit_transition :: "transition_commit \<Rightarrow> transition \<Rightarrow> unit res" where
  "validate_commit_transition c t =
     bindR (validate_metadata_scope (tc_meta c) (tr_meta t)) (\<lambda>_.
     bindR (content_hash Map.empty (transition_value t)) (\<lambda>h.
     bindR (validate_exact_ref (tc_transition_ref c) (tr_meta t) h (meta_analysis (tc_meta c))) (\<lambda>_.
       raise_if (tc_work_id c \<noteq> tr_work_id t
                 \<or> tc_expected_state_version c \<noteq> tr_expected_state_version t
                 \<or> tc_target_state_version c \<noteq> tr_new_state_version t
                 \<or> tc_attempt_id c \<noteq> tr_attempt_id t
                 \<or> commit_target_text (tc_target_status c) \<noteq> target_status_text (tr_to_status t)
                 \<or> tc_output_refs c \<noteq> tr_output_refs t \<or> tc_gap_ids c \<noteq> tr_gap_ids t
                 \<or> tc_error_ids c \<noteq> tr_error_ids t
                 \<or> ref_record_id (tc_transition_ref c) \<noteq> Some (meta_record_id (tr_meta t)))
         (ValueError ''TransitionCommit does not match exact StateTransition''))))"

definition validate_parent_work :: "work \<Rightarrow> work \<Rightarrow> unit res" where
  "validate_parent_work child parent =
     (case wk_parent_work_ref child of
        None \<Rightarrow> Inl (ValueError ''Child work requires its exact parent reference'')
      | Some ref \<Rightarrow>
          bindR (validate_metadata_scope (wk_meta child) (wk_meta parent)) (\<lambda>_.
          bindR (content_hash Map.empty (work_value parent)) (\<lambda>h.
          bindR (validate_exact_ref ref (wk_meta parent) h (meta_analysis (wk_meta child))) (\<lambda>_.
          bindR (raise_if (wk_subject_type child \<noteq> wk_subject_type parent
                           \<or> wk_subject_id child \<noteq> wk_subject_id parent)
                   (ValueError ''Parent and child hypothesis subjects must match'')) (\<lambda>_.
            if wk_work_type child = WT_FINDING_NORMALIZE then
              raise_if (wk_work_type parent \<noteq> WT_RULE_SCOPE_GATE \<or> wk_status parent \<noteq> W_SUCCEEDED)
                (ValueError ''FINDING_NORMALIZE requires a successful RULE_SCOPE_GATE parent'')
            else
              raise_if (wk_work_type parent \<noteq> WT_VERIFICATION)
                (ValueError ''Verification child requires a VERIFICATION parent''))))))"

end
