(* ===== verification/Action_Contracts.thy ===== *)
theory Action_Contracts
  imports Work_Contracts
begin

text \<open>
  \<open>contracts/actions.py\<close>: the request for an action, the decision on it with its checks, the
  shape each kind of action has, and the revisions a decision may go through.
\<close>

section \<open>Enumerations\<close>

datatype action_type =
    REGISTER_WORK | CHANGE_WORK_STATE | START_ATTEMPT | CANCEL_WORK
  | RESTART_VERIFICATION_GENERATION | READ_CODE | RUN_TOOL | CALL_LLM | FETCH_POLICY
  | REQUEST_DYNAMIC_REPRO | RUN_SANDBOX | SAVE_RESULT | CALL_TECHNICAL_GATE
  | CALL_RULE_SCOPE_GATE | CREATE_REPORT_DRAFT

fun action_type_text :: "action_type \<Rightarrow> string" where
  "action_type_text REGISTER_WORK = ''REGISTER_WORK''"
| "action_type_text CHANGE_WORK_STATE = ''CHANGE_WORK_STATE''"
| "action_type_text START_ATTEMPT = ''START_ATTEMPT''"
| "action_type_text CANCEL_WORK = ''CANCEL_WORK''"
| "action_type_text RESTART_VERIFICATION_GENERATION = ''RESTART_VERIFICATION_GENERATION''"
| "action_type_text READ_CODE = ''READ_CODE''"
| "action_type_text RUN_TOOL = ''RUN_TOOL''"
| "action_type_text CALL_LLM = ''CALL_LLM''"
| "action_type_text FETCH_POLICY = ''FETCH_POLICY''"
| "action_type_text REQUEST_DYNAMIC_REPRO = ''REQUEST_DYNAMIC_REPRO''"
| "action_type_text RUN_SANDBOX = ''RUN_SANDBOX''"
| "action_type_text SAVE_RESULT = ''SAVE_RESULT''"
| "action_type_text CALL_TECHNICAL_GATE = ''CALL_TECHNICAL_GATE''"
| "action_type_text CALL_RULE_SCOPE_GATE = ''CALL_RULE_SCOPE_GATE''"
| "action_type_text CREATE_REPORT_DRAFT = ''CREATE_REPORT_DRAFT''"

datatype requester_role =
    RQ_ORCHESTRATION | RQ_HYPOTHESIS | RQ_PRO | RQ_CON | RQ_VERIFICATION | RQ_CWE_LABELING
  | RQ_CHAINING | RQ_TECHNICAL_GATE | RQ_RULE_SCOPE_GATE | RQ_REPORTER | RQ_REPOSITORY_LOADER
  | RQ_CONTEXT_RETRIEVAL_SERVICE | RQ_STATIC_ANALYSIS | RQ_POLICY_COLLECTOR | RQ_POLICY_PARSER
  | RQ_PRIMITIVE_ADMISSION_RUNTIME | RQ_DYNAMIC_REPRODUCTION | RQ_REPRODUCTION_SETUP_AUTOMATION
  | RQ_SANDBOX_CONTROLLER | RQ_REPRODUCTION_SESSION_MANAGER | RQ_BUDGET_RUNTIME
  | RQ_R8_EVALUATION_RUNTIME | RQ_RECOVERY

fun requester_role_text :: "requester_role \<Rightarrow> string" where
  "requester_role_text RQ_ORCHESTRATION = ''ORCHESTRATION''"
| "requester_role_text RQ_HYPOTHESIS = ''HYPOTHESIS''"
| "requester_role_text RQ_PRO = ''PRO''"
| "requester_role_text RQ_CON = ''CON''"
| "requester_role_text RQ_VERIFICATION = ''VERIFICATION''"
| "requester_role_text RQ_CWE_LABELING = ''CWE_LABELING''"
| "requester_role_text RQ_CHAINING = ''CHAINING''"
| "requester_role_text RQ_TECHNICAL_GATE = ''TECHNICAL_GATE''"
| "requester_role_text RQ_RULE_SCOPE_GATE = ''RULE_SCOPE_GATE''"
| "requester_role_text RQ_REPORTER = ''REPORTER''"
| "requester_role_text RQ_REPOSITORY_LOADER = ''REPOSITORY_LOADER''"
| "requester_role_text RQ_CONTEXT_RETRIEVAL_SERVICE = ''CONTEXT_RETRIEVAL_SERVICE''"
| "requester_role_text RQ_STATIC_ANALYSIS = ''STATIC_ANALYSIS''"
| "requester_role_text RQ_POLICY_COLLECTOR = ''POLICY_COLLECTOR''"
| "requester_role_text RQ_POLICY_PARSER = ''POLICY_PARSER''"
| "requester_role_text RQ_PRIMITIVE_ADMISSION_RUNTIME = ''PRIMITIVE_ADMISSION_RUNTIME''"
| "requester_role_text RQ_DYNAMIC_REPRODUCTION = ''DYNAMIC_REPRODUCTION''"
| "requester_role_text RQ_REPRODUCTION_SETUP_AUTOMATION = ''REPRODUCTION_SETUP_AUTOMATION''"
| "requester_role_text RQ_SANDBOX_CONTROLLER = ''SANDBOX_CONTROLLER''"
| "requester_role_text RQ_REPRODUCTION_SESSION_MANAGER = ''REPRODUCTION_SESSION_MANAGER''"
| "requester_role_text RQ_BUDGET_RUNTIME = ''BUDGET_RUNTIME''"
| "requester_role_text RQ_R8_EVALUATION_RUNTIME = ''R8_EVALUATION_RUNTIME''"
| "requester_role_text RQ_RECOVERY = ''RECOVERY''"

datatype check_type =
    CHK_SCHEMA | CHK_AUTHORITY | CHK_IDENTITY | CHK_REVISION | CHK_STATE | CHK_BUDGET | CHK_TOOL
  | CHK_FILE_PATH | CHK_PROVIDER | CHK_SESSION | CHK_GATE_ORDER | CHK_REPORT_READY
  | CHK_REDACTION

fun check_type_text :: "check_type \<Rightarrow> string" where
  "check_type_text CHK_SCHEMA = ''SCHEMA''"
| "check_type_text CHK_AUTHORITY = ''AUTHORITY''"
| "check_type_text CHK_IDENTITY = ''IDENTITY''"
| "check_type_text CHK_REVISION = ''REVISION''"
| "check_type_text CHK_STATE = ''STATE''"
| "check_type_text CHK_BUDGET = ''BUDGET''"
| "check_type_text CHK_TOOL = ''TOOL''"
| "check_type_text CHK_FILE_PATH = ''FILE_PATH''"
| "check_type_text CHK_PROVIDER = ''PROVIDER''"
| "check_type_text CHK_SESSION = ''SESSION''"
| "check_type_text CHK_GATE_ORDER = ''GATE_ORDER''"
| "check_type_text CHK_REPORT_READY = ''REPORT_READY''"
| "check_type_text CHK_REDACTION = ''REDACTION''"

datatype check_result =
    PASS | FAIL

fun check_result_text :: "check_result \<Rightarrow> string" where
  "check_result_text PASS = ''PASS''"
| "check_result_text FAIL = ''FAIL''"

datatype decision =
    ALLOW | DENY

fun decision_text :: "decision \<Rightarrow> string" where
  "decision_text ALLOW = ''ALLOW''"
| "decision_text DENY = ''DENY''"

datatype use_status =
    UNUSED | USED | NOT_USED | EXPIRED

fun use_status_text :: "use_status \<Rightarrow> string" where
  "use_status_text UNUSED = ''UNUSED''"
| "use_status_text USED = ''USED''"
| "use_status_text NOT_USED = ''NOT_USED''"
| "use_status_text EXPIRED = ''EXPIRED''"

datatype session_mode =
    SESSION_NEW | SESSION_RESUME | SESSION_AUTO

fun session_mode_text :: "session_mode \<Rightarrow> string" where
  "session_mode_text SESSION_NEW = ''NEW''"
| "session_mode_text SESSION_RESUME = ''RESUME''"
| "session_mode_text SESSION_AUTO = ''AUTO''"

datatype restart_reason =
    DYNAMIC_REQUEST_REPLACEMENT_REQUIRED | SANDBOX_PROFILE_REVISION_CHANGED

fun restart_reason_text :: "restart_reason \<Rightarrow> string" where
  "restart_reason_text DYNAMIC_REQUEST_REPLACEMENT_REQUIRED = ''DYNAMIC_REQUEST_REPLACEMENT_REQUIRED''"
| "restart_reason_text SANDBOX_PROFILE_REVISION_CHANGED = ''SANDBOX_PROFILE_REVISION_CHANGED''"

fun REQUIRED_CHECKS :: "action_type \<Rightarrow> check_type set" where
  "REQUIRED_CHECKS REGISTER_WORK =
     {CHK_SCHEMA, CHK_AUTHORITY, CHK_IDENTITY, CHK_REVISION, CHK_STATE, CHK_BUDGET}"
| "REQUIRED_CHECKS CHANGE_WORK_STATE =
     {CHK_SCHEMA, CHK_AUTHORITY, CHK_IDENTITY, CHK_STATE}"
| "REQUIRED_CHECKS START_ATTEMPT =
     {CHK_SCHEMA, CHK_AUTHORITY, CHK_STATE, CHK_BUDGET}"
| "REQUIRED_CHECKS CANCEL_WORK =
     {CHK_SCHEMA, CHK_AUTHORITY, CHK_IDENTITY, CHK_STATE}"
| "REQUIRED_CHECKS RESTART_VERIFICATION_GENERATION =
     {CHK_SCHEMA, CHK_AUTHORITY, CHK_IDENTITY, CHK_REVISION, CHK_STATE, CHK_BUDGET}"
| "REQUIRED_CHECKS READ_CODE =
     {CHK_SCHEMA, CHK_AUTHORITY, CHK_IDENTITY, CHK_REVISION, CHK_BUDGET, CHK_FILE_PATH}"
| "REQUIRED_CHECKS RUN_TOOL =
     {CHK_SCHEMA, CHK_AUTHORITY, CHK_REVISION, CHK_BUDGET, CHK_TOOL, CHK_FILE_PATH}"
| "REQUIRED_CHECKS CALL_LLM =
     {CHK_SCHEMA, CHK_AUTHORITY, CHK_IDENTITY, CHK_REVISION, CHK_STATE, CHK_BUDGET, CHK_PROVIDER,
      CHK_SESSION, CHK_REDACTION}"
| "REQUIRED_CHECKS FETCH_POLICY =
     {CHK_SCHEMA, CHK_AUTHORITY, CHK_REVISION, CHK_STATE, CHK_BUDGET, CHK_TOOL, CHK_REDACTION}"
| "REQUIRED_CHECKS REQUEST_DYNAMIC_REPRO =
     {CHK_SCHEMA, CHK_AUTHORITY, CHK_IDENTITY, CHK_REVISION, CHK_STATE, CHK_BUDGET}"
| "REQUIRED_CHECKS RUN_SANDBOX =
     {CHK_SCHEMA, CHK_AUTHORITY, CHK_IDENTITY, CHK_REVISION, CHK_STATE, CHK_BUDGET}"
| "REQUIRED_CHECKS SAVE_RESULT =
     {CHK_SCHEMA, CHK_AUTHORITY, CHK_IDENTITY, CHK_REVISION, CHK_STATE, CHK_REDACTION}"
| "REQUIRED_CHECKS CALL_TECHNICAL_GATE =
     {CHK_SCHEMA, CHK_AUTHORITY, CHK_IDENTITY, CHK_REVISION, CHK_STATE, CHK_BUDGET, CHK_PROVIDER,
      CHK_SESSION, CHK_GATE_ORDER, CHK_REDACTION}"
| "REQUIRED_CHECKS CALL_RULE_SCOPE_GATE =
     {CHK_SCHEMA, CHK_AUTHORITY, CHK_IDENTITY, CHK_REVISION, CHK_STATE, CHK_BUDGET, CHK_PROVIDER,
      CHK_SESSION, CHK_GATE_ORDER, CHK_REDACTION}"
| "REQUIRED_CHECKS CREATE_REPORT_DRAFT =
     {CHK_SCHEMA, CHK_AUTHORITY, CHK_IDENTITY, CHK_REVISION, CHK_STATE, CHK_BUDGET, CHK_PROVIDER,
      CHK_SESSION, CHK_REPORT_READY, CHK_REDACTION}"

text \<open>The actions that call a model provider, \<open>_LLM_ACTIONS\<close>.\<close>

definition LLM_ACTIONS :: "action_type set" where
  "LLM_ACTIONS = {CALL_LLM, CALL_TECHNICAL_GATE, CALL_RULE_SCOPE_GATE, CREATE_REPORT_DRAFT}"

text \<open>\<open>^sha256:[0-9a-f]{64}$\<close>.\<close>

definition image_digest_text :: "string \<Rightarrow> bool" where
  "image_digest_text s \<longleftrightarrow> take 7 s = ''sha256:'' \<and> digest_text (drop 7 s)"

definition limits_value :: "(string \<times> nat) list \<Rightarrow> pyval" where
  "limits_value l = VMap (map (\<lambda>(k, n). (KStr k, v_nat n)) l)"

section \<open>Requests\<close>

record action_request =
  ar_meta :: record_metadata
  ar_action_id :: string
  ar_requested_by :: requester_role
  ar_requester_identity_ref :: record_ref
  ar_action_type :: action_type
  ar_work_ref :: "record_ref option"
  ar_expected_state_version :: "nat option"
  ar_expected_verification_generation :: "nat option"
  ar_generation_restart_reason :: "restart_reason option"
  ar_generation_restart_basis_refs :: "record_ref list"
  ar_input_refs :: "record_ref list"
  ar_dynamic_request_ref :: "stored_ref option"
  ar_reproduction_plan_ref :: "stored_ref option"
  ar_result_kind :: "string option"
  ar_candidate_result_ref :: "record_ref option"
  ar_llm_call_spec_ref :: "stored_ref option"
  ar_tool_name :: "string option"
  ar_file_paths :: "string list"
  ar_provider_profile_ref :: "record_ref option"
  ar_session_mode :: "session_mode option"
  ar_sandbox_profile_ref :: "record_ref option"
  ar_resource_profile_ref :: "stored_ref option"
  ar_run_policy_state_ref :: "stored_ref option"
  ar_image_digest :: "string option"
  ar_network_targets :: "string list"
  ar_resource_limits :: "(string \<times> nat) list option"
  ar_reason :: string
  ar_requested_at :: int

definition action_request_value :: "action_request \<Rightarrow> pyval" where
  "action_request_value a =
     contract_model
       [(''meta'', meta_value (ar_meta a)), (''action_id'', opaque (ar_action_id a)),
        (''requested_by'', v_enum requester_role_text (ar_requested_by a)),
        (''requester_identity_ref'', ref_value (ar_requester_identity_ref a)),
        (''action_type'', v_enum action_type_text (ar_action_type a)),
        (''work_ref'', v_opt ref_value (ar_work_ref a)),
        (''expected_state_version'', v_opt v_nat (ar_expected_state_version a)),
        (''expected_verification_generation'', v_opt v_nat (ar_expected_verification_generation a)),
        (''generation_restart_reason'', v_opt (v_enum restart_reason_text) (ar_generation_restart_reason a)),
        (''generation_restart_basis_refs'', v_seq ref_value (ar_generation_restart_basis_refs a)),
        (''input_refs'', v_seq ref_value (ar_input_refs a)),
        (''dynamic_request_ref'', v_opt stored_ref_value (ar_dynamic_request_ref a)),
        (''reproduction_plan_ref'', v_opt stored_ref_value (ar_reproduction_plan_ref a)),
        (''result_kind'', v_opt VStr (ar_result_kind a)),
        (''candidate_result_ref'', v_opt ref_value (ar_candidate_result_ref a)),
        (''llm_call_spec_ref'', v_opt stored_ref_value (ar_llm_call_spec_ref a)),
        (''tool_name'', v_opt VStr (ar_tool_name a)),
        (''file_paths'', v_seq VStr (ar_file_paths a)),
        (''provider_profile_ref'', v_opt ref_value (ar_provider_profile_ref a)),
        (''session_mode'', v_opt (v_enum session_mode_text) (ar_session_mode a)),
        (''sandbox_profile_ref'', v_opt ref_value (ar_sandbox_profile_ref a)),
        (''resource_profile_ref'', v_opt stored_ref_value (ar_resource_profile_ref a)),
        (''run_policy_state_ref'', v_opt stored_ref_value (ar_run_policy_state_ref a)),
        (''image_digest'', v_opt VStr (ar_image_digest a)),
        (''network_targets'', v_seq VStr (ar_network_targets a)),
        (''resource_limits'', v_opt limits_value (ar_resource_limits a)),
        (''reason'', VStr (ar_reason a)), (''requested_at'', v_time (ar_requested_at a))]"

definition action_request_ok :: "action_request \<Rightarrow> bool" where
  "action_request_ok a \<longleftrightarrow>
     non_empty_str (ar_action_id a) \<and> budget_scope_ref (ar_requester_identity_ref a) \<and>
     pred_option budget_scope_ref (ar_work_ref a) \<and>
     pred_option (\<lambda>n. 1 \<le> n) (ar_expected_state_version a) \<and>
     pred_option (\<lambda>n. 1 \<le> n) (ar_expected_verification_generation a) \<and>
     list_all budget_scope_ref (ar_generation_restart_basis_refs a) \<and>
     list_all ref_ok (ar_input_refs a) \<and>
     pred_option stored_ref_ok (ar_dynamic_request_ref a) \<and>
     pred_option stored_ref_ok (ar_reproduction_plan_ref a) \<and>
     pred_option non_empty_str (ar_result_kind a) \<and>
     pred_option ref_ok (ar_candidate_result_ref a) \<and>
     pred_option stored_ref_ok (ar_llm_call_spec_ref a) \<and>
     pred_option non_empty_str (ar_tool_name a) \<and>
     list_all non_empty_str (ar_file_paths a) \<and>
     pred_option budget_scope_ref (ar_provider_profile_ref a) \<and>
     pred_option budget_scope_ref (ar_sandbox_profile_ref a) \<and>
     pred_option stored_ref_ok (ar_resource_profile_ref a) \<and>
     pred_option stored_ref_ok (ar_run_policy_state_ref a) \<and>
     pred_option non_empty_str (ar_image_digest a) \<and>
     list_all non_empty_str (ar_network_targets a) \<and> non_empty_str (ar_reason a)"

definition action_request_refs :: "action_request \<Rightarrow> record_ref list" where
  "action_request_refs a =
     [ar_requester_identity_ref a] @ option_refs id (ar_work_ref a) @
     ar_generation_restart_basis_refs a @ ar_input_refs a @
     option_refs StoredDataRef (ar_dynamic_request_ref a) @
     option_refs StoredDataRef (ar_reproduction_plan_ref a) @
     option_refs id (ar_candidate_result_ref a) @
     option_refs StoredDataRef (ar_llm_call_spec_ref a) @
     option_refs id (ar_provider_profile_ref a) @ option_refs id (ar_sandbox_profile_ref a) @
     option_refs StoredDataRef (ar_resource_profile_ref a) @
     option_refs StoredDataRef (ar_run_policy_state_ref a)"

definition of_kind :: "string \<Rightarrow> record_ref list \<Rightarrow> record_ref list" where
  "of_kind kind refs = filter (\<lambda>r. ref_data_kind r = kind) refs"

text \<open>Each of the references is present, and exactly once among the inputs.\<close>

definition fixed_once :: "record_ref list \<Rightarrow> record_ref option list \<Rightarrow> bool" where
  "fixed_once inputs refs \<longleftrightarrow>
     list_all (\<lambda>r. case r of None \<Rightarrow> False | Some x \<Rightarrow> count_list inputs x = 1) refs"

definition restart_kinds :: "(string \<times> nat) list" where
  "restart_kinds =
     [(''hypothesis_process_state'', 1), (''verification_assignment'', 1), (''work_execution_state'', 2),
      (''dynamic_reproduction_request'', 1), (''playbook_policy'', 1), (''verification_playbook'', 1)]"

definition validate_restart_inputs :: "action_request \<Rightarrow> unit res" where
  "validate_restart_inputs a =
     (let inputs = ar_input_refs a; profiles = of_kind ''sandbox_profile'' inputs;
          profile_count = (if ar_generation_restart_reason a = Some SANDBOX_PROFILE_REVISION_CHANGED
                           then 2 else 1)
      in seqR (
       [raise_if (ar_requested_by a \<noteq> RQ_VERIFICATION \<or> \<not> is_record_meta (ar_meta a)
                  \<or> meta_hypothesis (ar_meta a) = None \<or> ar_work_ref a = None)
          (ValueError ''Generation restart requires hypothesis-local VERIFICATION and current work''),
        raise_if (\<not> distinct inputs) (ValueError ''Generation restart input_refs must be unique'')]
       @ map (\<lambda>r. require_record_ref r None) inputs @
       [raise_if (\<not> fixed_once inputs ([ar_work_ref a, map_option StoredDataRef (ar_dynamic_request_ref a),
                                       ar_sandbox_profile_ref a]
                                      @ map Some (ar_generation_restart_basis_refs a)))
          (ValueError ''Generation restart must fix work, old request, profile and each basis exactly once'')]
       @ map (\<lambda>(kind, count). raise_if (length (of_kind kind inputs) \<noteq> count)
                (ValueError (''Generation restart requires '' @ show_nat count @ '' exact '' @ kind
                             @ '' inputs''))) restart_kinds @
       [raise_if (length profiles \<noteq> profile_count \<or> card (ref_record_id ` set profiles) \<noteq> profile_count)
          (ValueError ''Request replacement fixes one old profile; profile change fixes distinct old/new revisions'')]))"

definition sandbox_shape :: "action_request \<Rightarrow> unit res" where
  "sandbox_shape a =
     (let inputs = ar_input_refs a;
          requirements = of_kind ''environment_requirements'' inputs;
          recipe_sources = of_kind ''recipe_source'' inputs;
          recipes = of_kind ''environment_recipe'' inputs
      in seqR
       [require_if (map_option StoredDataRef (ar_reproduction_plan_ref a)) (Some ''reproduction_plan''),
        require_if (ar_sandbox_profile_ref a) (Some ''sandbox_profile''),
        require_if (map_option StoredDataRef (ar_resource_profile_ref a))
          (Some ''dynamic_reproduction_lifecycle_profile''),
        require_if (map_option StoredDataRef (ar_run_policy_state_ref a)) (Some ''run_policy_state''),
        raise_if (\<not> fixed_once inputs [map_option StoredDataRef (ar_dynamic_request_ref a),
                                      map_option StoredDataRef (ar_reproduction_plan_ref a),
                                      ar_sandbox_profile_ref a,
                                      map_option StoredDataRef (ar_resource_profile_ref a)])
          (ValueError ''RUN_SANDBOX must fix each execution input exactly once''),
        raise_if (length requirements \<noteq> 1)
          (ValueError ''RUN_SANDBOX requires one environment_requirements input''),
        require_record_ref (hd requirements) None,
        (case ar_image_digest a of
           None \<Rightarrow>
             raise_if (length recipe_sources \<noteq> 1 \<or> recipes \<noteq> [])
               (ValueError ''RUN_SANDBOX build phase requires one exact recipe_source'')
         | Some digest \<Rightarrow>
             raise_if (\<not> image_digest_text digest \<or> length recipes \<noteq> 1 \<or> recipe_sources \<noteq> [])
               (ValueError ''RUN_SANDBOX run phase requires sha256 image and one exact recipe'')),
        raise_if (case ar_run_policy_state_ref a of
                    None \<Rightarrow> False | Some r \<Rightarrow> StoredDataRef r \<in> set inputs)
          (ValueError ''run_policy_state_ref is audit-only, not input_refs'')])"

text \<open>The fields that exactly the actions of a group carry.\<close>

definition only_for :: "bool \<Rightarrow> bool list \<Rightarrow> string \<Rightarrow> unit res" where
  "only_for applies present message =
     raise_if (\<exists>p \<in> set present. applies \<noteq> p) (ValueError message)"

definition action_shape :: "action_request \<Rightarrow> unit res" where
  "action_shape a =
     (let restart = (ar_action_type a = RESTART_VERIFICATION_GENERATION);
          llm = (ar_action_type a \<in> LLM_ACTIONS);
          save = (ar_action_type a = SAVE_RESULT);
          sandbox = (ar_action_type a = RUN_SANDBOX)
      in seqR (
       [require_record_ref (ar_requester_identity_ref a) None,
        raise_if ((ar_work_ref a \<noteq> None) \<noteq> (ar_expected_state_version a \<noteq> None))
          (ValueError ''work_ref and expected_state_version must occur together''),
        require_if (ar_work_ref a) (Some ''work_execution_state''),
        only_for restart [ar_expected_verification_generation a \<noteq> None,
                          ar_generation_restart_reason a \<noteq> None]
          ''Generation fields are required only for generation restart'',
        only_for restart [ar_generation_restart_basis_refs a \<noteq> []]
          ''Generation restart requires exact basis refs'']
       @ map (\<lambda>r. require_record_ref r None) (ar_generation_restart_basis_refs a) @
       [only_for llm [ar_llm_call_spec_ref a \<noteq> None, ar_provider_profile_ref a \<noteq> None,
                      ar_session_mode a \<noteq> None]
          ''Provider/spec/session required only for LLM stage actions'',
        raise_if (llm \<and> ar_work_ref a = None) (ValueError ''LLM action requires current work''),
        raise_if (ar_action_type a = CALL_LLM \<and> ar_requested_by a \<in> {RQ_PRO, RQ_CON}
                  \<and> ar_session_mode a \<noteq> Some SESSION_NEW)
          (ValueError ''PRO and CON CALL_LLM require session_mode=NEW''),
        require_if (map_option StoredDataRef (ar_llm_call_spec_ref a)) (Some ''llm_call_spec''),
        require_if (ar_provider_profile_ref a) (Some ''provider_profile''),
        only_for save [ar_result_kind a \<noteq> None, ar_candidate_result_ref a \<noteq> None]
          ''Only SAVE_RESULT requires result_kind and candidate_result_ref'',
        require_if (ar_candidate_result_ref a) (ar_result_kind a),
        only_for (ar_action_type a = RUN_TOOL) [ar_tool_name a \<noteq> None] ''Only RUN_TOOL requires tool_name'',
        only_for (ar_action_type a \<in> {READ_CODE, RUN_TOOL}) [ar_file_paths a \<noteq> []]
          ''READ_CODE/RUN_TOOL require file_paths; other actions leave them empty'',
        only_for (ar_action_type a \<in> {REQUEST_DYNAMIC_REPRO, RUN_SANDBOX, RESTART_VERIFICATION_GENERATION})
          [ar_dynamic_request_ref a \<noteq> None]
          ''Dynamic request required for request, sandbox and generation restart'',
        require_if (map_option StoredDataRef (ar_dynamic_request_ref a)) (Some ''dynamic_reproduction_request''),
        only_for sandbox [ar_reproduction_plan_ref a \<noteq> None, ar_resource_profile_ref a \<noteq> None,
                          ar_run_policy_state_ref a \<noteq> None]
          ''RUN_SANDBOX requires plan and profile/audit refs'',
        only_for (sandbox \<or> restart) [ar_sandbox_profile_ref a \<noteq> None]
          ''Sandbox profile required only for sandbox or generation restart'',
        require_if (ar_sandbox_profile_ref a) (Some ''sandbox_profile''),
        if restart then validate_restart_inputs a else Inr (),
        raise_if (\<not> sandbox \<and> (ar_image_digest a \<noteq> None \<or> ar_network_targets a \<noteq> []
                                \<or> ar_resource_limits a \<noteq> None))
          (ValueError ''Sandbox execution fields cannot be used by other actions''),
        if sandbox then sandbox_shape a else Inr ()]))"

definition validate_action :: "action_request \<Rightarrow> unit res" where
  "validate_action a =
     seqR [validate_scoped (ar_meta a), check_fields (action_request_ok a),
           reference_scopes (action_request_refs a) (ar_meta a), action_shape a]"

section \<open>Decisions\<close>

record action_check =
  ac_check_type :: check_type
  ac_result :: check_result
  ac_reason_code :: string
  ac_safe_message :: string

definition action_check_value :: "action_check \<Rightarrow> pyval" where
  "action_check_value a =
     contract_model
       [(''check_type'', v_enum check_type_text (ac_check_type a)),
        (''result'', v_enum check_result_text (ac_result a)),
        (''reason_code'', VStr (ac_reason_code a)), (''safe_message'', VStr (ac_safe_message a))]"

definition action_check_ok :: "action_check \<Rightarrow> bool" where
  "action_check_ok a \<longleftrightarrow>
     non_empty_str (ac_reason_code a) \<and> non_empty_str (ac_safe_message a)"

record action_decision =
  ad_meta :: record_metadata
  ad_decision_id :: string
  ad_action_ref :: record_ref
  ad_decision :: decision
  ad_required_checks :: "check_type list"
  ad_check_results :: "action_check list"
  ad_checked_state_version :: "nat option"
  ad_checked_config_refs :: "record_ref list"
  ad_valid_until :: "int option"
  ad_error_ids :: "string list"
  ad_use_status :: use_status
  ad_used_at :: "int option"
  ad_expired_at :: "int option"
  ad_expire_reason :: "string option"
  ad_outcome_refs :: "record_ref list"
  ad_decided_at :: int

definition action_decision_value :: "action_decision \<Rightarrow> pyval" where
  "action_decision_value a =
     contract_model
       [(''meta'', meta_value (ad_meta a)), (''decision_id'', opaque (ad_decision_id a)),
        (''action_ref'', ref_value (ad_action_ref a)),
        (''decision'', v_enum decision_text (ad_decision a)),
        (''required_checks'', v_seq (v_enum check_type_text) (ad_required_checks a)),
        (''check_results'', v_seq action_check_value (ad_check_results a)),
        (''checked_state_version'', v_opt v_nat (ad_checked_state_version a)),
        (''checked_config_refs'', v_seq ref_value (ad_checked_config_refs a)),
        (''valid_until'', v_opt v_time (ad_valid_until a)),
        (''error_ids'', v_seq opaque (ad_error_ids a)),
        (''use_status'', v_enum use_status_text (ad_use_status a)),
        (''used_at'', v_opt v_time (ad_used_at a)),
        (''expired_at'', v_opt v_time (ad_expired_at a)),
        (''expire_reason'', v_opt VStr (ad_expire_reason a)),
        (''outcome_refs'', v_seq ref_value (ad_outcome_refs a)),
        (''decided_at'', v_time (ad_decided_at a))]"

definition action_decision_ok :: "action_decision \<Rightarrow> bool" where
  "action_decision_ok a \<longleftrightarrow>
     non_empty_str (ad_decision_id a) \<and> budget_scope_ref (ad_action_ref a) \<and>
     list_all action_check_ok (ad_check_results a) \<and>
     pred_option (\<lambda>n. 1 \<le> n) (ad_checked_state_version a) \<and>
     list_all checked_configuration_ref (ad_checked_config_refs a) \<and>
     list_all non_empty_str (ad_error_ids a) \<and>
     pred_option non_empty_str (ad_expire_reason a) \<and> list_all ref_ok (ad_outcome_refs a)"

definition action_decision_refs :: "action_decision \<Rightarrow> record_ref list" where
  "action_decision_refs a =
     [ad_action_ref a] @ ad_checked_config_refs a @ ad_outcome_refs a"

definition decision_shape :: "action_decision \<Rightarrow> unit res" where
  "decision_shape d =
     (let checks = map ac_check_type (ad_check_results d);
          failed = (\<exists>c \<in> set (ad_check_results d). ac_result c = FAIL);
          expired = (ad_use_status d = EXPIRED)
      in seqR (
       [require_record_ref (ad_action_ref d) (Some ''action_request''),
        raise_if (ad_required_checks d = [] \<or> \<not> distinct (ad_required_checks d) \<or> \<not> distinct checks
                  \<or> set checks \<noteq> set (ad_required_checks d))
          (ValueError ''Required checks and results must be nonempty, unique and set-equal''),
        raise_if (failed \<noteq> (ad_decision d = DENY))
          (ValueError ''Any FAIL requires DENY; all PASS requires ALLOW''),
        if ad_decision d = DENY then
          raise_if (ad_use_status d \<noteq> NOT_USED \<or> ad_error_ids d = [] \<or> ad_valid_until d \<noteq> None)
            (ValueError ''DENY requires NOT_USED, errors and no validity'')
        else
          raise_if (ad_use_status d = NOT_USED \<or> ad_error_ids d \<noteq> []
                    \<or> (case ad_valid_until d of None \<Rightarrow> True | Some v \<Rightarrow> v \<le> ad_decided_at d))
            (ValueError ''ALLOW requires future validity and no errors''),
        raise_if ((ad_use_status d = USED) \<noteq> (ad_used_at d \<noteq> None)) (ValueError ''Only USED has used_at''),
        raise_if (expired \<noteq> (ad_expired_at d \<noteq> None) \<or> expired \<noteq> (ad_expire_reason d \<noteq> None))
          (ValueError ''Only EXPIRED has expiration time and reason''),
        raise_if (ad_use_status d \<noteq> USED \<and> ad_outcome_refs d \<noteq> [])
          (ValueError ''Only USED can have outcomes''),
        raise_if (case ad_used_at d of
                    None \<Rightarrow> False
                  | Some u \<Rightarrow> (case ad_valid_until d of
                                None \<Rightarrow> True | Some v \<Rightarrow> \<not> (ad_decided_at d \<le> u \<and> u \<le> v)))
          (ValueError ''used_at must be within decision validity''),
        raise_if (later (Some (ad_decided_at d)) (ad_expired_at d))
          (ValueError ''expired_at precedes decided_at''),
        raise_if (meta_revision (ad_meta d) = 1 \<and> ad_decision d = ALLOW \<and> ad_use_status d \<noteq> UNUSED)
          (ValueError ''Initial ALLOW revision must be UNUSED'')]
       @ map (\<lambda>r. require_record_ref r None) (ad_checked_config_refs d)))"

definition validate_decision :: "action_decision \<Rightarrow> unit res" where
  "validate_decision d =
     seqR [validate_scoped (ad_meta d), check_fields (action_decision_ok d),
           reference_scopes (action_decision_refs d) (ad_meta d), decision_shape d]"

section \<open>Checks between records\<close>

definition validate_decision_for_action :: "action_decision \<Rightarrow> action_type \<Rightarrow> unit res" where
  "validate_decision_for_action d t =
     raise_if (set (ad_required_checks d) \<noteq> REQUIRED_CHECKS t)
       (ValueError ''Required-check set differs from action type'')"

definition validate_generation_restart_context ::
  "action_request \<Rightarrow> stored_ref \<Rightarrow> record_ref \<Rightarrow> record_ref option \<Rightarrow> unit res" where
  "validate_generation_restart_context a current_request current_profile approved_profile =
     seqR
       [raise_if (ar_action_type a \<noteq> RESTART_VERIFICATION_GENERATION)
          (ValueError ''Expected a generation restart action''),
        require_record_ref (StoredDataRef current_request) (Some ''dynamic_reproduction_request''),
        require_record_ref current_profile (Some ''sandbox_profile''),
        raise_if (ar_dynamic_request_ref a \<noteq> Some current_request
                  \<or> count_list (ar_input_refs a) current_profile \<noteq> 1)
          (ValueError ''Generation restart must retain the old current request/profile''),
        if ar_generation_restart_reason a = Some DYNAMIC_REQUEST_REPLACEMENT_REQUIRED then
          raise_if (ar_sandbox_profile_ref a \<noteq> Some current_profile \<or> approved_profile \<noteq> None)
            (ValueError ''Request replacement must retain the current sandbox profile'')
        else
          (case approved_profile of
             None \<Rightarrow> Inl (ValueError ''Profile change requires the approved new exact profile'')
           | Some approved \<Rightarrow>
               seq2 (require_record_ref approved (Some ''sandbox_profile''))
                 (raise_if (approved = current_profile \<or> ar_sandbox_profile_ref a \<noteq> Some approved)
                    (ValueError ''Profile change must select the approved new sandbox profile'')))]"

fun next_use :: "use_status \<Rightarrow> use_status set" where
  "next_use UNUSED = {USED, EXPIRED}"
| "next_use USED = {USED}"
| "next_use _ = {}"

definition validate_decision_revision :: "action_decision \<Rightarrow> action_decision \<Rightarrow> unit res" where
  "validate_decision_revision previous current =
     seqR
       [validate_revision (ad_meta previous) (ad_meta current),
        raise_if (ad_decision_id previous \<noteq> ad_decision_id current
                  \<or> ad_action_ref previous \<noteq> ad_action_ref current
                  \<or> ad_decision previous \<noteq> ad_decision current
                  \<or> ad_required_checks previous \<noteq> ad_required_checks current
                  \<or> ad_check_results previous \<noteq> ad_check_results current
                  \<or> ad_checked_state_version previous \<noteq> ad_checked_state_version current
                  \<or> ad_checked_config_refs previous \<noteq> ad_checked_config_refs current
                  \<or> ad_valid_until previous \<noteq> ad_valid_until current
                  \<or> ad_decided_at previous \<noteq> ad_decided_at current
                  \<or> ad_error_ids previous \<noteq> ad_error_ids current)
          (ValueError ''Decision revision changed immutable decision fields''),
        raise_if (ad_use_status current \<notin> next_use (ad_use_status previous))
          (ValueError ''Decision use state cannot be reopened''),
        raise_if (ad_use_status previous = UNUSED \<and> ad_use_status current = USED
                  \<and> ad_outcome_refs current \<noteq> [])
          (ValueError ''First USED claim must have empty outcome_refs''),
        raise_if (take (length (ad_outcome_refs previous)) (ad_outcome_refs current) \<noteq> ad_outcome_refs previous)
          (ValueError ''Decision outcomes must be append-only''),
        raise_if (ad_use_status previous = USED \<and> ad_used_at current \<noteq> ad_used_at previous)
          (ValueError ''Claim timestamp is immutable'')]"

end
