(* ===== verification/Budget_Contracts.thy ===== *)
theory Budget_Contracts
  imports Action_Contracts
begin

text \<open>
  \<open>contracts/budget.py\<close> and the run state of \<open>contracts/analysis.py\<close>: budget profiles and the
  binding that selects them, the units of a reservation and of a ledger entry, the shape each
  stored one has, and the revision that finalizes a reservation.
\<close>

section \<open>Enumerations\<close>

datatype purpose =
    PRODUCTION | EVALUATION | LOCAL_EVALUATION

fun purpose_text :: "purpose \<Rightarrow> string" where
  "purpose_text PRODUCTION = ''PRODUCTION''"
| "purpose_text EVALUATION = ''EVALUATION''"
| "purpose_text LOCAL_EVALUATION = ''LOCAL_EVALUATION''"

datatype profile_status =
    DRAFT | ACTIVE | RETIRED

fun profile_status_text :: "profile_status \<Rightarrow> string" where
  "profile_status_text DRAFT = ''DRAFT''"
| "profile_status_text ACTIVE = ''ACTIVE''"
| "profile_status_text RETIRED = ''RETIRED''"

datatype operation_kind =
    OP_WORKSPACE_PREP | OP_REPOSITORY_PROFILE | OP_STATIC_TOOL | OP_STATIC_NORMALIZE
  | OP_POLICY_COLLECT | OP_POLICY_PARSE | OP_HYPOTHESIS_GENERATE | OP_CONTEXT_RETRIEVAL
  | OP_PRO_EVIDENCE | OP_CON_EVIDENCE | OP_VERIFICATION_SYNTHESIS | OP_PRIMITIVE_UPDATE
  | OP_CHAINING | OP_DYNAMIC_REPRO | OP_CWE_LABELING | OP_TECHNICAL_GATE | OP_RULE_SCOPE_GATE
  | OP_FINDING_NORMALIZE | OP_REPORTER

fun operation_kind_text :: "operation_kind \<Rightarrow> string" where
  "operation_kind_text OP_WORKSPACE_PREP = ''WORKSPACE_PREP''"
| "operation_kind_text OP_REPOSITORY_PROFILE = ''REPOSITORY_PROFILE''"
| "operation_kind_text OP_STATIC_TOOL = ''STATIC_TOOL''"
| "operation_kind_text OP_STATIC_NORMALIZE = ''STATIC_NORMALIZE''"
| "operation_kind_text OP_POLICY_COLLECT = ''POLICY_COLLECT''"
| "operation_kind_text OP_POLICY_PARSE = ''POLICY_PARSE''"
| "operation_kind_text OP_HYPOTHESIS_GENERATE = ''HYPOTHESIS_GENERATE''"
| "operation_kind_text OP_CONTEXT_RETRIEVAL = ''CONTEXT_RETRIEVAL''"
| "operation_kind_text OP_PRO_EVIDENCE = ''PRO_EVIDENCE''"
| "operation_kind_text OP_CON_EVIDENCE = ''CON_EVIDENCE''"
| "operation_kind_text OP_VERIFICATION_SYNTHESIS = ''VERIFICATION_SYNTHESIS''"
| "operation_kind_text OP_PRIMITIVE_UPDATE = ''PRIMITIVE_UPDATE''"
| "operation_kind_text OP_CHAINING = ''CHAINING''"
| "operation_kind_text OP_DYNAMIC_REPRO = ''DYNAMIC_REPRO''"
| "operation_kind_text OP_CWE_LABELING = ''CWE_LABELING''"
| "operation_kind_text OP_TECHNICAL_GATE = ''TECHNICAL_GATE''"
| "operation_kind_text OP_RULE_SCOPE_GATE = ''RULE_SCOPE_GATE''"
| "operation_kind_text OP_FINDING_NORMALIZE = ''FINDING_NORMALIZE''"
| "operation_kind_text OP_REPORTER = ''REPORTER''"

datatype budget_role =
    BR_HYPOTHESIS | BR_PRO | BR_CON | BR_VERIFICATION | BR_CWE_LABELING | BR_CHAINING
  | BR_TECHNICAL_GATE | BR_RULE_SCOPE_GATE | BR_REPORTER | BR_POLICY_PARSER
  | BR_DYNAMIC_REPRODUCTION | BR_REPOSITORY_LOADER | BR_STATIC_ANALYSIS | BR_POLICY_COLLECTOR

fun budget_role_text :: "budget_role \<Rightarrow> string" where
  "budget_role_text BR_HYPOTHESIS = ''HYPOTHESIS''"
| "budget_role_text BR_PRO = ''PRO''"
| "budget_role_text BR_CON = ''CON''"
| "budget_role_text BR_VERIFICATION = ''VERIFICATION''"
| "budget_role_text BR_CWE_LABELING = ''CWE_LABELING''"
| "budget_role_text BR_CHAINING = ''CHAINING''"
| "budget_role_text BR_TECHNICAL_GATE = ''TECHNICAL_GATE''"
| "budget_role_text BR_RULE_SCOPE_GATE = ''RULE_SCOPE_GATE''"
| "budget_role_text BR_REPORTER = ''REPORTER''"
| "budget_role_text BR_POLICY_PARSER = ''POLICY_PARSER''"
| "budget_role_text BR_DYNAMIC_REPRODUCTION = ''DYNAMIC_REPRODUCTION''"
| "budget_role_text BR_REPOSITORY_LOADER = ''REPOSITORY_LOADER''"
| "budget_role_text BR_STATIC_ANALYSIS = ''STATIC_ANALYSIS''"
| "budget_role_text BR_POLICY_COLLECTOR = ''POLICY_COLLECTOR''"

datatype reservation_status =
    RESERVED | COMMITTED | RELEASED

fun reservation_status_text :: "reservation_status \<Rightarrow> string" where
  "reservation_status_text RESERVED = ''RESERVED''"
| "reservation_status_text COMMITTED = ''COMMITTED''"
| "reservation_status_text RELEASED = ''RELEASED''"


fun WORK_OPERATIONS :: "work_type \<Rightarrow> operation_kind \<times> budget_role option" where
  "WORK_OPERATIONS WT_WORKSPACE_PREP = (OP_WORKSPACE_PREP, Some BR_REPOSITORY_LOADER)"
| "WORK_OPERATIONS WT_REPOSITORY_PROFILE = (OP_REPOSITORY_PROFILE, Some BR_STATIC_ANALYSIS)"
| "WORK_OPERATIONS WT_STATIC_TOOL = (OP_STATIC_TOOL, Some BR_STATIC_ANALYSIS)"
| "WORK_OPERATIONS WT_STATIC_NORMALIZE = (OP_STATIC_NORMALIZE, Some BR_STATIC_ANALYSIS)"
| "WORK_OPERATIONS WT_HYPOTHESIS_PROPOSAL = (OP_HYPOTHESIS_GENERATE, Some BR_HYPOTHESIS)"
| "WORK_OPERATIONS WT_CONTEXT_RETRIEVAL = (OP_CONTEXT_RETRIEVAL, None)"
| "WORK_OPERATIONS WT_PRO_EVIDENCE = (OP_PRO_EVIDENCE, Some BR_PRO)"
| "WORK_OPERATIONS WT_CON_EVIDENCE = (OP_CON_EVIDENCE, Some BR_CON)"
| "WORK_OPERATIONS WT_VERIFICATION = (OP_VERIFICATION_SYNTHESIS, Some BR_VERIFICATION)"
| "WORK_OPERATIONS WT_DYNAMIC_REPRO = (OP_DYNAMIC_REPRO, Some BR_DYNAMIC_REPRODUCTION)"
| "WORK_OPERATIONS WT_PRIMITIVE_UPDATE = (OP_PRIMITIVE_UPDATE, None)"
| "WORK_OPERATIONS WT_CHAINING = (OP_CHAINING, Some BR_CHAINING)"
| "WORK_OPERATIONS WT_CWE_LABEL = (OP_CWE_LABELING, Some BR_CWE_LABELING)"
| "WORK_OPERATIONS WT_POLICY_FETCH = (OP_POLICY_COLLECT, Some BR_POLICY_COLLECTOR)"
| "WORK_OPERATIONS WT_TECHNICAL_GATE = (OP_TECHNICAL_GATE, Some BR_TECHNICAL_GATE)"
| "WORK_OPERATIONS WT_RULE_SCOPE_GATE = (OP_RULE_SCOPE_GATE, Some BR_RULE_SCOPE_GATE)"
| "WORK_OPERATIONS WT_FINDING_NORMALIZE = (OP_FINDING_NORMALIZE, None)"
| "WORK_OPERATIONS WT_REPORT_DRAFT = (OP_REPORTER, Some BR_REPORTER)"

section \<open>Profiles\<close>

text \<open>\<open>CodeBudgetProfile.analysis_profile\<close> and \<open>ApprovedProfile.approval_shape\<close>.\<close>

definition analysis_profile :: "record_metadata \<Rightarrow> unit res" where
  "analysis_profile meta =
     raise_if (meta_hypothesis meta \<noteq> None \<or> meta_attempt meta \<noteq> None)
       (ValueError ''Budget profile is analysis-wide: hypothesis/attempt must be null'')"

definition approval_shape ::
  "profile_status \<Rightarrow> record_ref option \<Rightarrow> string option \<Rightarrow> int option \<Rightarrow> unit res" where
  "approval_shape status approval_ref approved_by approved_at =
     seqR
       [raise_if (status = ACTIVE \<and> (approval_ref = None \<or> approved_by = None \<or> approved_at = None))
          (ValueError ''ACTIVE requires exact approval reference, approver and time''),
        raise_if (status = DRAFT \<and> (approval_ref \<noteq> None \<or> approved_at \<noteq> None))
          (ValueError ''DRAFT approval_ref/approved_at must be null''),
        require_if approval_ref None]"

record execution_profile =
  ep_meta :: record_metadata
  ep_approval_ref :: "record_ref option"
  ep_approved_by :: "string option"
  ep_approved_at :: "int option"
  ep_status :: profile_status
  ep_profile_key :: string
  ep_purpose :: purpose
  ep_max_analysis_elapsed_ms :: nat
  ep_max_total_cost_minor_units :: nat
  ep_currency :: string
  ep_pricing_revision_ref :: record_ref
  ep_max_total_work :: nat
  ep_max_total_llm_calls :: nat
  ep_max_total_retries :: nat
  ep_max_parallel_work :: nat

definition execution_profile_value :: "execution_profile \<Rightarrow> pyval" where
  "execution_profile_value e =
     contract_model
       [(''meta'', meta_value (ep_meta e)), (''approval_ref'', v_opt ref_value (ep_approval_ref e)),
        (''approved_by'', v_opt VStr (ep_approved_by e)),
        (''approved_at'', v_opt v_time (ep_approved_at e)),
        (''status'', v_enum profile_status_text (ep_status e)),
        (''profile_key'', VStr (ep_profile_key e)),
        (''purpose'', v_enum purpose_text (ep_purpose e)),
        (''max_analysis_elapsed_ms'', v_nat (ep_max_analysis_elapsed_ms e)),
        (''max_total_cost_minor_units'', v_nat (ep_max_total_cost_minor_units e)),
        (''currency'', VStr (ep_currency e)),
        (''pricing_revision_ref'', ref_value (ep_pricing_revision_ref e)),
        (''max_total_work'', v_nat (ep_max_total_work e)),
        (''max_total_llm_calls'', v_nat (ep_max_total_llm_calls e)),
        (''max_total_retries'', v_nat (ep_max_total_retries e)),
        (''max_parallel_work'', v_nat (ep_max_parallel_work e))]"

definition execution_profile_ok :: "execution_profile \<Rightarrow> bool" where
  "execution_profile_ok e \<longleftrightarrow>
     pred_option budget_scope_ref (ep_approval_ref e) \<and>
     pred_option non_empty_str (ep_approved_by e) \<and> non_empty_str (ep_profile_key e) \<and>
     non_empty_str (ep_currency e) \<and> budget_scope_ref (ep_pricing_revision_ref e)"

definition execution_profile_refs :: "execution_profile \<Rightarrow> record_ref list" where
  "execution_profile_refs e =
     option_refs id (ep_approval_ref e) @ [ep_pricing_revision_ref e]"

definition run_profile :: "execution_profile \<Rightarrow> unit res" where
  "run_profile e =
     seq2 (raise_if (is_record_meta (ep_meta e)) (ValueError ''ExecutionBudgetProfile requires RunMeta''))
       (require_record_ref (ep_pricing_revision_ref e) None)"

definition validate_execution_profile :: "execution_profile \<Rightarrow> unit res" where
  "validate_execution_profile e =
     seqR [validate_scoped (ep_meta e), check_fields (execution_profile_ok e),
           reference_scopes (execution_profile_refs e) (ep_meta e),
           approval_shape (ep_status e) (ep_approval_ref e) (ep_approved_by e) (ep_approved_at e),
           run_profile e]"

record work_limit =
  wl_limit_key :: string
  wl_work_type :: work_type
  wl_operation_kind :: operation_kind
  wl_agent_role :: "budget_role option"
  wl_timeout_ms :: "nat option"
  wl_max_attempts :: "nat option"
  wl_max_calls_per_work :: "nat option"
  wl_max_items_per_work :: "nat option"

definition work_limit_value :: "work_limit \<Rightarrow> pyval" where
  "work_limit_value w =
     contract_model
       [(''limit_key'', VStr (wl_limit_key w)),
        (''work_type'', v_enum work_type_text (wl_work_type w)),
        (''operation_kind'', v_enum operation_kind_text (wl_operation_kind w)),
        (''agent_role'', v_opt (v_enum budget_role_text) (wl_agent_role w)),
        (''timeout_ms'', v_opt v_nat (wl_timeout_ms w)),
        (''max_attempts'', v_opt v_nat (wl_max_attempts w)),
        (''max_calls_per_work'', v_opt v_nat (wl_max_calls_per_work w)),
        (''max_items_per_work'', v_opt v_nat (wl_max_items_per_work w))]"

definition work_limit_ok :: "work_limit \<Rightarrow> bool" where
  "work_limit_ok w \<longleftrightarrow>
     non_empty_str (wl_limit_key w)"


record work_profile =
  wp_meta :: record_metadata
  wp_profile_key :: string
  wp_purpose :: purpose
  wp_limits :: "work_limit list"
  wp_unlisted_operation :: string
  wp_status :: profile_status

definition work_profile_value :: "work_profile \<Rightarrow> pyval" where
  "work_profile_value w =
     contract_model
       [(''meta'', meta_value (wp_meta w)), (''profile_key'', VStr (wp_profile_key w)),
        (''purpose'', v_enum purpose_text (wp_purpose w)),
        (''limits'', v_seq work_limit_value (wp_limits w)),
        (''unlisted_operation'', VStr (wp_unlisted_operation w)),
        (''status'', v_enum profile_status_text (wp_status w))]"

definition work_profile_ok :: "work_profile \<Rightarrow> bool" where
  "work_profile_ok w \<longleftrightarrow>
     is_record_meta (wp_meta w) \<and> non_empty_str (wp_profile_key w) \<and>
     list_all work_limit_ok (wp_limits w)"

definition work_profile_refs :: "work_profile \<Rightarrow> record_ref list" where
  "work_profile_refs w =
     []"

definition limit_scope :: "work_limit \<Rightarrow> work_type \<times> operation_kind \<times> budget_role option" where
  "limit_scope l = (wl_work_type l, wl_operation_kind l, wl_agent_role l)"

definition unique_limits :: "work_profile \<Rightarrow> unit res" where
  "unique_limits w =
     raise_if (\<not> distinct (map wl_limit_key (wp_limits w)) \<or> \<not> distinct (map limit_scope (wp_limits w)))
       (ValueError ''Duplicate limit_key or work/operation/role'')"

definition validate_work_profile :: "work_profile \<Rightarrow> unit res" where
  "validate_work_profile w =
     seqR [validate_scoped (wp_meta w), check_fields (work_profile_ok w),
           check_fields (wp_unlisted_operation w = ''DENY''),
           reference_scopes (work_profile_refs w) (wp_meta w), analysis_profile (wp_meta w),
           unique_limits w]"

record verification_profile =
  vp_meta :: record_metadata
  vp_profile_key :: string
  vp_max_verification_elapsed_ms :: nat
  vp_max_work_per_verification :: nat
  vp_max_llm_calls_per_verification :: nat
  vp_max_retries_per_work :: nat
  vp_max_parallel_evidence_calls :: nat
  vp_status :: profile_status

definition verification_profile_value :: "verification_profile \<Rightarrow> pyval" where
  "verification_profile_value v =
     contract_model
       [(''meta'', meta_value (vp_meta v)), (''profile_key'', VStr (vp_profile_key v)),
        (''max_verification_elapsed_ms'', v_nat (vp_max_verification_elapsed_ms v)),
        (''max_work_per_verification'', v_nat (vp_max_work_per_verification v)),
        (''max_llm_calls_per_verification'', v_nat (vp_max_llm_calls_per_verification v)),
        (''max_retries_per_work'', v_nat (vp_max_retries_per_work v)),
        (''max_parallel_evidence_calls'', v_nat (vp_max_parallel_evidence_calls v)),
        (''status'', v_enum profile_status_text (vp_status v))]"

definition verification_profile_ok :: "verification_profile \<Rightarrow> bool" where
  "verification_profile_ok v \<longleftrightarrow>
     is_record_meta (vp_meta v) \<and> non_empty_str (vp_profile_key v)"

definition verification_profile_refs :: "verification_profile \<Rightarrow> record_ref list" where
  "verification_profile_refs v =
     []"

definition validate_verification_profile :: "verification_profile \<Rightarrow> unit res" where
  "validate_verification_profile v =
     seqR [validate_scoped (vp_meta v), check_fields (verification_profile_ok v),
           reference_scopes (verification_profile_refs v) (vp_meta v), analysis_profile (vp_meta v)]"

record dynamic_profile =
  dp_meta :: record_metadata
  dp_profile_key :: string
  dp_preflight_budget_ref :: stored_ref
  dp_preflight_budget_source :: string
  dp_max_new_attempts :: nat
  dp_status :: profile_status
  dp_created_at :: int

definition dynamic_profile_value :: "dynamic_profile \<Rightarrow> pyval" where
  "dynamic_profile_value d =
     contract_model
       [(''meta'', meta_value (dp_meta d)), (''profile_key'', VStr (dp_profile_key d)),
        (''preflight_budget_ref'', stored_ref_value (dp_preflight_budget_ref d)),
        (''preflight_budget_source'', VStr (dp_preflight_budget_source d)),
        (''max_new_attempts'', v_nat (dp_max_new_attempts d)),
        (''status'', v_enum profile_status_text (dp_status d)),
        (''created_at'', v_time (dp_created_at d))]"

definition dynamic_profile_ok :: "dynamic_profile \<Rightarrow> bool" where
  "dynamic_profile_ok d \<longleftrightarrow>
     is_record_meta (dp_meta d) \<and> non_empty_str (dp_profile_key d) \<and>
     stored_ref_ok (dp_preflight_budget_ref d)"

definition dynamic_profile_refs :: "dynamic_profile \<Rightarrow> record_ref list" where
  "dynamic_profile_refs d =
     [StoredDataRef (dp_preflight_budget_ref d)]"

definition validate_dynamic_profile :: "dynamic_profile \<Rightarrow> unit res" where
  "validate_dynamic_profile d =
     seqR [validate_scoped (dp_meta d), check_fields (dynamic_profile_ok d),
           check_fields (dp_preflight_budget_source d = ''WORK_REMAINING_TIME''),
           reference_scopes (dynamic_profile_refs d) (dp_meta d), analysis_profile (dp_meta d),
           require_record_ref (StoredDataRef (dp_preflight_budget_ref d)) None]"

record budget_binding =
  bb_meta :: record_metadata
  bb_approval_ref :: "record_ref option"
  bb_approved_by :: "string option"
  bb_approved_at :: "int option"
  bb_status :: profile_status
  bb_binding_key :: string
  bb_purpose :: purpose
  bb_execution_budget_profile_ref :: run_ref
  bb_work_budget_profile_ref :: stored_ref
  bb_verification_budget_profile_ref :: stored_ref
  bb_dynamic_lifecycle_profile_ref :: stored_ref

definition budget_binding_value :: "budget_binding \<Rightarrow> pyval" where
  "budget_binding_value b =
     contract_model
       [(''meta'', meta_value (bb_meta b)), (''approval_ref'', v_opt ref_value (bb_approval_ref b)),
        (''approved_by'', v_opt VStr (bb_approved_by b)),
        (''approved_at'', v_opt v_time (bb_approved_at b)),
        (''status'', v_enum profile_status_text (bb_status b)),
        (''binding_key'', VStr (bb_binding_key b)),
        (''purpose'', v_enum purpose_text (bb_purpose b)),
        (''execution_budget_profile_ref'', run_ref_value (bb_execution_budget_profile_ref b)),
        (''work_budget_profile_ref'', stored_ref_value (bb_work_budget_profile_ref b)),
        (''verification_budget_profile_ref'', stored_ref_value (bb_verification_budget_profile_ref b)),
        (''dynamic_lifecycle_profile_ref'', stored_ref_value (bb_dynamic_lifecycle_profile_ref b))]"

definition budget_binding_ok :: "budget_binding \<Rightarrow> bool" where
  "budget_binding_ok b \<longleftrightarrow>
     is_record_meta (bb_meta b) \<and> pred_option budget_scope_ref (bb_approval_ref b) \<and>
     pred_option non_empty_str (bb_approved_by b) \<and> non_empty_str (bb_binding_key b) \<and>
     run_ref_ok (bb_execution_budget_profile_ref b) \<and>
     stored_ref_ok (bb_work_budget_profile_ref b) \<and>
     stored_ref_ok (bb_verification_budget_profile_ref b) \<and>
     stored_ref_ok (bb_dynamic_lifecycle_profile_ref b)"

definition budget_binding_refs :: "budget_binding \<Rightarrow> record_ref list" where
  "budget_binding_refs b =
     option_refs id (bb_approval_ref b) @ [RunStoredDataRef (bb_execution_budget_profile_ref b)] @
     [StoredDataRef (bb_work_budget_profile_ref b)] @
     [StoredDataRef (bb_verification_budget_profile_ref b)] @
     [StoredDataRef (bb_dynamic_lifecycle_profile_ref b)]"

definition binding_shape :: "budget_binding \<Rightarrow> unit res" where
  "binding_shape b =
     seqR
       [require_record_ref (RunStoredDataRef (bb_execution_budget_profile_ref b))
          (Some ''execution_budget_profile''),
        require_record_ref (StoredDataRef (bb_work_budget_profile_ref b)) (Some ''work_budget_profile''),
        require_record_ref (StoredDataRef (bb_verification_budget_profile_ref b))
          (Some ''verification_budget_profile''),
        require_record_ref (StoredDataRef (bb_dynamic_lifecycle_profile_ref b))
          (Some ''dynamic_reproduction_lifecycle_profile'')]"

definition validate_binding_record :: "budget_binding \<Rightarrow> unit res" where
  "validate_binding_record b =
     seqR [validate_scoped (bb_meta b), check_fields (budget_binding_ok b),
           reference_scopes (budget_binding_refs b) (bb_meta b), analysis_profile (bb_meta b),
           approval_shape (bb_status b) (bb_approval_ref b) (bb_approved_by b) (bb_approved_at b),
           binding_shape b]"

section \<open>Units\<close>

record budget_units =
  bu_elapsed_ms :: nat
  bu_work_count :: nat
  bu_llm_call_count :: nat
  bu_retry_count :: nat
  bu_cost_minor_units :: nat
  bu_currency :: string

definition budget_units_value :: "budget_units \<Rightarrow> pyval" where
  "budget_units_value b =
     contract_model
       [(''elapsed_ms'', v_nat (bu_elapsed_ms b)), (''work_count'', v_nat (bu_work_count b)),
        (''llm_call_count'', v_nat (bu_llm_call_count b)),
        (''retry_count'', v_nat (bu_retry_count b)),
        (''cost_minor_units'', v_nat (bu_cost_minor_units b)), (''currency'', VStr (bu_currency b))]"

definition budget_units_ok :: "budget_units \<Rightarrow> bool" where
  "budget_units_ok b \<longleftrightarrow>
     non_empty_str (bu_currency b)"

text \<open>\<open>UNIT_FIELDS\<close> of \<open>storage/budget_service.py\<close>, as the functions that read them.\<close>

definition UNIT_FIELDS :: "(budget_units \<Rightarrow> nat) list" where
  "UNIT_FIELDS = [bu_elapsed_ms, bu_work_count, bu_llm_call_count, bu_retry_count, bu_cost_minor_units]"

fun is_run_ref :: "record_ref \<Rightarrow> bool" where
  "is_run_ref (RunStoredDataRef _) = True"
| "is_run_ref _ = False"

fun is_stored_ref :: "record_ref \<Rightarrow> bool" where
  "is_stored_ref (StoredDataRef _) = True"
| "is_stored_ref _ = False"

definition validate_budget_scope :: "record_ref \<Rightarrow> record_metadata option \<Rightarrow> unit res" where
  "validate_budget_scope ref meta =
     seqR
       [require_record_ref ref
          (Some (if is_run_ref ref then ''execution_budget_profile'' else ''budget_profile_binding'')),
        (case meta of
           None \<Rightarrow> Inr ()
         | Some m \<Rightarrow>
             raise_if (is_record_meta m \<noteq> is_stored_ref ref)
               (ValueError ''Budget scope must follow run bootstrap versus workspace binding''))]"

section \<open>Reservations and ledger entries\<close>

record reservation =
  br_meta :: record_metadata
  br_reservation_id :: string
  br_budget_binding_ref :: record_ref
  br_action_ref :: record_ref
  br_work_ref :: record_ref
  br_requested_units :: budget_units
  br_status :: reservation_status
  br_ledger_entry_ref :: "record_ref option"
  br_reserved_at :: int
  br_finalized_at :: "int option"

definition reservation_value :: "reservation \<Rightarrow> pyval" where
  "reservation_value r =
     contract_model
       [(''meta'', meta_value (br_meta r)), (''reservation_id'', opaque (br_reservation_id r)),
        (''budget_binding_ref'', ref_value (br_budget_binding_ref r)),
        (''action_ref'', ref_value (br_action_ref r)), (''work_ref'', ref_value (br_work_ref r)),
        (''requested_units'', budget_units_value (br_requested_units r)),
        (''status'', v_enum reservation_status_text (br_status r)),
        (''ledger_entry_ref'', v_opt ref_value (br_ledger_entry_ref r)),
        (''reserved_at'', v_time (br_reserved_at r)),
        (''finalized_at'', v_opt v_time (br_finalized_at r))]"

definition reservation_ok :: "reservation \<Rightarrow> bool" where
  "reservation_ok r \<longleftrightarrow>
     non_empty_str (br_reservation_id r) \<and> budget_scope_ref (br_budget_binding_ref r) \<and>
     budget_scope_ref (br_action_ref r) \<and> budget_scope_ref (br_work_ref r) \<and>
     budget_units_ok (br_requested_units r) \<and>
     pred_option budget_scope_ref (br_ledger_entry_ref r)"

definition reservation_refs :: "reservation \<Rightarrow> record_ref list" where
  "reservation_refs r =
     [br_budget_binding_ref r] @ [br_action_ref r] @ [br_work_ref r] @
     option_refs id (br_ledger_entry_ref r)"

definition reservation_shape :: "reservation \<Rightarrow> unit res" where
  "reservation_shape r =
     seqR
       [validate_budget_scope (br_budget_binding_ref r) (Some (br_meta r)),
        require_record_ref (br_action_ref r) (Some ''action_request''),
        require_record_ref (br_work_ref r) (Some ''work_execution_state''),
        raise_if ((br_status r = RESERVED) \<noteq> (br_finalized_at r = None))
          (ValueError ''Only RESERVED has finalized_at=null''),
        raise_if ((br_status r = COMMITTED) \<noteq> (br_ledger_entry_ref r \<noteq> None))
          (ValueError ''Only COMMITTED requires ledger_entry_ref''),
        require_if (br_ledger_entry_ref r) (Some ''budget_ledger_entry''),
        raise_if (later (Some (br_reserved_at r)) (br_finalized_at r))
          (ValueError ''finalized_at precedes reserved_at'')]"

definition validate_reservation :: "reservation \<Rightarrow> unit res" where
  "validate_reservation r =
     seqR [validate_scoped (br_meta r), check_fields (reservation_ok r),
           reference_scopes (reservation_refs r) (br_meta r), reservation_shape r]"

record ledger_entry =
  bl_meta :: record_metadata
  bl_ledger_entry_id :: string
  bl_reservation_ref :: record_ref
  bl_budget_binding_ref :: record_ref
  bl_action_ref :: record_ref
  bl_work_ref :: record_ref
  bl_actual_units :: budget_units
  bl_usage_refs :: "record_ref list"
  bl_sequence :: nat
  bl_committed_at :: int

definition ledger_entry_value :: "ledger_entry \<Rightarrow> pyval" where
  "ledger_entry_value l =
     contract_model
       [(''meta'', meta_value (bl_meta l)), (''ledger_entry_id'', opaque (bl_ledger_entry_id l)),
        (''reservation_ref'', ref_value (bl_reservation_ref l)),
        (''budget_binding_ref'', ref_value (bl_budget_binding_ref l)),
        (''action_ref'', ref_value (bl_action_ref l)), (''work_ref'', ref_value (bl_work_ref l)),
        (''actual_units'', budget_units_value (bl_actual_units l)),
        (''usage_refs'', v_seq ref_value (bl_usage_refs l)), (''sequence'', v_nat (bl_sequence l)),
        (''committed_at'', v_time (bl_committed_at l))]"

definition ledger_entry_ok :: "ledger_entry \<Rightarrow> bool" where
  "ledger_entry_ok l \<longleftrightarrow>
     non_empty_str (bl_ledger_entry_id l) \<and> budget_scope_ref (bl_reservation_ref l) \<and>
     budget_scope_ref (bl_budget_binding_ref l) \<and> budget_scope_ref (bl_action_ref l) \<and>
     budget_scope_ref (bl_work_ref l) \<and> budget_units_ok (bl_actual_units l) \<and>
     list_all budget_scope_ref (bl_usage_refs l) \<and> 1 \<le> bl_sequence l"

definition ledger_entry_refs :: "ledger_entry \<Rightarrow> record_ref list" where
  "ledger_entry_refs l =
     [bl_reservation_ref l] @ [bl_budget_binding_ref l] @ [bl_action_ref l] @ [bl_work_ref l] @
     bl_usage_refs l"

definition ledger_shape :: "ledger_entry \<Rightarrow> unit res" where
  "ledger_shape l =
     seqR
       [validate_budget_scope (bl_budget_binding_ref l) (Some (bl_meta l)),
        require_record_ref (bl_reservation_ref l) (Some ''budget_reservation''),
        require_record_ref (bl_action_ref l) (Some ''action_request''),
        require_record_ref (bl_work_ref l) (Some ''work_execution_state'')]"

definition validate_ledger_entry :: "ledger_entry \<Rightarrow> unit res" where
  "validate_ledger_entry l =
     seqR [validate_scoped (bl_meta l), check_fields (ledger_entry_ok l),
           reference_scopes (ledger_entry_refs l) (bl_meta l), ledger_shape l]"

record budget_remaining =
  bm_budget_binding_ref :: record_ref
  bm_as_of_sequence :: nat
  bm_available_units :: budget_units
  bm_active_reservation_count :: nat

definition select_work_limit ::
  "work_profile \<Rightarrow> work_type \<Rightarrow> operation_kind \<Rightarrow> budget_role option \<Rightarrow> work_limit res" where
  "select_work_limit profile work_type operation_kind agent_role =
     (if wp_status profile \<noteq> ACTIVE then Inl (ValueError ''Budget profile is not ACTIVE'')
      else case find (\<lambda>l. limit_scope l = (work_type, operation_kind, agent_role)) (wp_limits profile) of
             Some l \<Rightarrow> Inr l
           | None \<Rightarrow> Inl (ValueError ''Unlisted operation: DENY''))"

definition validate_reservation_revision :: "reservation \<Rightarrow> reservation \<Rightarrow> unit res" where
  "validate_reservation_revision previous current =
     seqR
       [validate_revision (br_meta previous) (br_meta current),
        raise_if (br_status previous \<noteq> RESERVED \<or> br_status current = RESERVED)
          (ValueError ''Reservation may only finalize once''),
        raise_if (br_reservation_id previous \<noteq> br_reservation_id current
                  \<or> br_budget_binding_ref previous \<noteq> br_budget_binding_ref current
                  \<or> br_action_ref previous \<noteq> br_action_ref current
                  \<or> br_work_ref previous \<noteq> br_work_ref current
                  \<or> br_requested_units previous \<noteq> br_requested_units current
                  \<or> br_reserved_at previous \<noteq> br_reserved_at current)
          (ValueError ''Reservation identity, scope and requested units are immutable'')]"

section \<open>The state of an analysis run\<close>

datatype run_status =
    RUN_RUNNING | RUN_COMPLETE | RUN_PARTIAL | RUN_FAILED | RUN_CANCELLED

fun run_status_text :: "run_status \<Rightarrow> string" where
  "run_status_text RUN_RUNNING = ''RUNNING''"
| "run_status_text RUN_COMPLETE = ''COMPLETE''"
| "run_status_text RUN_PARTIAL = ''PARTIAL''"
| "run_status_text RUN_FAILED = ''FAILED''"
| "run_status_text RUN_CANCELLED = ''CANCELLED''"


record run_state =
  rs_meta :: record_metadata
  rs_purpose :: purpose
  rs_eval_config_refs :: "record_ref list"
  rs_analysis_input_ref :: run_ref
  rs_program_id :: string
  rs_execution_budget_profile_ref :: run_ref
  rs_budget_binding_ref :: "stored_ref option"
  rs_workspace_id :: "string option"
  rs_commit_id :: "string option"
  rs_workspace_ref :: "run_ref option"
  rs_run_policy_state_ref :: "stored_ref option"
  rs_status :: run_status
  rs_analysis_result_ref :: "run_ref option"
  rs_started_at :: int
  rs_finished_at :: "int option"
  rs_elapsed_ms :: nat

definition run_state_value :: "run_state \<Rightarrow> pyval" where
  "run_state_value r =
     contract_model
       [(''meta'', meta_value (rs_meta r)), (''purpose'', v_enum purpose_text (rs_purpose r)),
        (''eval_config_refs'', v_seq ref_value (rs_eval_config_refs r)),
        (''analysis_input_ref'', run_ref_value (rs_analysis_input_ref r)),
        (''program_id'', opaque (rs_program_id r)),
        (''execution_budget_profile_ref'', run_ref_value (rs_execution_budget_profile_ref r)),
        (''budget_binding_ref'', v_opt stored_ref_value (rs_budget_binding_ref r)),
        (''workspace_id'', v_opt opaque (rs_workspace_id r)),
        (''commit_id'', v_opt opaque (rs_commit_id r)),
        (''workspace_ref'', v_opt run_ref_value (rs_workspace_ref r)),
        (''run_policy_state_ref'', v_opt stored_ref_value (rs_run_policy_state_ref r)),
        (''status'', v_enum run_status_text (rs_status r)),
        (''analysis_result_ref'', v_opt run_ref_value (rs_analysis_result_ref r)),
        (''started_at'', v_time (rs_started_at r)),
        (''finished_at'', v_opt v_time (rs_finished_at r)),
        (''elapsed_ms'', v_nat (rs_elapsed_ms r))]"

definition run_state_ok :: "run_state \<Rightarrow> bool" where
  "run_state_ok r \<longleftrightarrow>
     list_all budget_scope_ref (rs_eval_config_refs r) \<and>
     run_ref_ok (rs_analysis_input_ref r) \<and> non_empty_str (rs_program_id r) \<and>
     run_ref_ok (rs_execution_budget_profile_ref r) \<and>
     pred_option stored_ref_ok (rs_budget_binding_ref r) \<and>
     pred_option non_empty_str (rs_workspace_id r) \<and>
     pred_option non_empty_str (rs_commit_id r) \<and>
     pred_option run_ref_ok (rs_workspace_ref r) \<and>
     pred_option stored_ref_ok (rs_run_policy_state_ref r) \<and>
     pred_option run_ref_ok (rs_analysis_result_ref r)"

definition run_state_refs :: "run_state \<Rightarrow> record_ref list" where
  "run_state_refs r =
     rs_eval_config_refs r @ [RunStoredDataRef (rs_analysis_input_ref r)] @
     [RunStoredDataRef (rs_execution_budget_profile_ref r)] @
     option_refs StoredDataRef (rs_budget_binding_ref r) @
     option_refs RunStoredDataRef (rs_workspace_ref r) @
     option_refs StoredDataRef (rs_run_policy_state_ref r) @
     option_refs RunStoredDataRef (rs_analysis_result_ref r)"

definition state_shape :: "run_state \<Rightarrow> unit res" where
  "state_shape r =
     seqR
       [raise_if (is_record_meta (rs_meta r)) (ValueError ''AnalysisRunState requires RunMeta''),
        require_record_ref (RunStoredDataRef (rs_analysis_input_ref r)) (Some ''analysis_run_input''),
        raise_if ((rs_eval_config_refs r \<noteq> []) \<noteq> (rs_purpose r = EVALUATION))
          (ValueError ''Only EVALUATION requires exact evaluation configuration''),
        raise_if ((rs_status r = RUN_RUNNING) \<noteq> (rs_analysis_result_ref r = None))
          (ValueError ''Terminal analysis requires its result''),
        raise_if ((rs_status r = RUN_RUNNING) \<noteq> (rs_finished_at r = None))
          (ValueError ''Only terminal analysis has finished_at''),
        raise_if (rs_status r \<in> {RUN_COMPLETE, RUN_PARTIAL} \<and> (rs_workspace_id r = None \<or> rs_commit_id r = None))
          (ValueError ''Completed analysis requires workspace and commit''),
        require_record_ref (RunStoredDataRef (rs_execution_budget_profile_ref r))
          (Some ''execution_budget_profile''),
        require_if (map_option StoredDataRef (rs_budget_binding_ref r)) (Some ''budget_profile_binding''),
        require_if (map_option RunStoredDataRef (rs_workspace_ref r)) (Some ''code_workspace''),
        require_if (map_option StoredDataRef (rs_run_policy_state_ref r)) (Some ''run_policy_state''),
        require_if (map_option RunStoredDataRef (rs_analysis_result_ref r)) (Some ''analysis_run_result''),
        raise_if (rs_budget_binding_ref r \<noteq> None
                  \<and> (rs_workspace_id r = None \<or> rs_commit_id r = None \<or> rs_workspace_ref r = None))
          (ValueError ''Binding requires exact workspace identity'')]"

definition validate_run_state :: "run_state \<Rightarrow> unit res" where
  "validate_run_state r =
     seqR [validate_scoped (rs_meta r), check_fields (run_state_ok r),
           reference_scopes (run_state_refs r) (rs_meta r), state_shape r]"

end
