(* ===== verification/Process_Contracts.thy ===== *)
theory Process_Contracts
  imports Budget_Contracts
begin

text \<open>
  The current projections that a work revision moves along (\<open>contracts/hypothesis.py\<close>,
  \<open>contracts/dynamic.py\<close>) and the workspace of a run (\<open>contracts/static.py\<close>), with the checks
  \<open>DomainRecord\<close> of \<open>contracts/_domain.py\<close> makes of every record of a hypothesis.
\<close>

section \<open>Domain records\<close>

text \<open>
  \<open>DomainRecord.domain_scope\<close>.  \<open>kinds\<close> are the fields of the model that \<open>REFERENCE_KINDS\<close> names,
  with the kind it requires of them; \<open>refs\<close> all the references the model contains.  The models here
  have no \<open>workspace_id\<close> or \<open>commit_id\<close> field and contain no other record.
\<close>

definition domain_scope ::
  "string \<Rightarrow> bool option \<Rightarrow> bool option \<Rightarrow> (stored_ref option \<times> string) list \<Rightarrow> record_ref list
     \<Rightarrow> record_metadata \<Rightarrow> unit res" where
  "domain_scope kind hypothesis attempt kinds refs meta =
     seqR
       [raise_if (kind \<noteq> [] \<and> meta_record_type meta \<noteq> kind) (ValueError ''RECORD_KIND_MISMATCH''),
        raise_if (\<exists>(ref, expected) \<in> set kinds.
                    case ref of None \<Rightarrow> False | Some r \<Rightarrow> sr_record r = None \<or> sr_kind r \<noteq> expected)
          (ValueError ''REFERENCE_KIND_MISMATCH''),
        raise_if ((hypothesis \<noteq> None \<and> hypothesis \<noteq> Some (meta_hypothesis meta \<noteq> None))
                  \<or> (attempt \<noteq> None \<and> attempt \<noteq> Some (meta_attempt meta \<noteq> None)))
          (ValueError ''METADATA_SCOPE_MISMATCH''),
        reference_scopes refs meta]"

section \<open>Verification assignments\<close>

datatype assignment_status =
    ASG_ACTIVE | ASG_SUPERSEDED

fun assignment_status_text :: "assignment_status \<Rightarrow> string" where
  "assignment_status_text ASG_ACTIVE = ''ACTIVE''"
| "assignment_status_text ASG_SUPERSEDED = ''SUPERSEDED''"

record assignment =
  as_meta :: record_metadata
  as_assignment_id :: string
  as_owner_identity_ref :: stored_ref
  as_assignment_generation :: nat
  as_status :: assignment_status
  as_previous_assignment_ref :: "stored_ref option"
  as_assigned_at :: int

definition assignment_value :: "assignment \<Rightarrow> pyval" where
  "assignment_value a =
     contract_model
       [(''meta'', meta_value (as_meta a)), (''assignment_id'', VStr (as_assignment_id a)),
        (''owner_identity_ref'', stored_ref_value (as_owner_identity_ref a)),
        (''assignment_generation'', v_nat (as_assignment_generation a)),
        (''status'', VStr (assignment_status_text (as_status a))),
        (''previous_assignment_ref'', v_opt stored_ref_value (as_previous_assignment_ref a)),
        (''assigned_at'', v_time (as_assigned_at a))]"

definition assignment_ok :: "assignment \<Rightarrow> bool" where
  "assignment_ok a \<longleftrightarrow>
     is_record_meta (as_meta a) \<and> non_empty_str (as_assignment_id a) \<and>
     stored_ref_ok (as_owner_identity_ref a) \<and> 1 \<le> as_assignment_generation a \<and>
     pred_option stored_ref_ok (as_previous_assignment_ref a)"

definition assignment_refs :: "assignment \<Rightarrow> record_ref list" where
  "assignment_refs a =
     [StoredDataRef (as_owner_identity_ref a)] @
     option_refs StoredDataRef (as_previous_assignment_ref a)"

definition assignment_chain :: "assignment \<Rightarrow> unit res" where
  "assignment_chain a =
     seq2 (raise_if ((as_assignment_generation a = 1) \<noteq> (as_previous_assignment_ref a = None))
             (ValueError ''ASSIGNMENT_PREVIOUS_REQUIRED''))
       (require_if (map_option StoredDataRef (as_previous_assignment_ref a))
          (Some ''verification_assignment''))"

definition validate_assignment :: "assignment \<Rightarrow> unit res" where
  "validate_assignment a =
     seqR [validate_meta (as_meta a), check_fields (assignment_ok a),
           domain_scope ''verification_assignment'' (Some True) (Some False) []
             (assignment_refs a) (as_meta a),
           assignment_chain a]"

section \<open>Hypothesis processes\<close>

datatype process_status =
    HP_REGISTERED | HP_ASSIGNED | HP_VERIFYING | HP_TERMINAL | HP_FAILED | HP_CANCELLED

fun process_status_text :: "process_status \<Rightarrow> string" where
  "process_status_text HP_REGISTERED = ''REGISTERED''"
| "process_status_text HP_ASSIGNED = ''ASSIGNED''"
| "process_status_text HP_VERIFYING = ''VERIFYING''"
| "process_status_text HP_TERMINAL = ''TERMINAL''"
| "process_status_text HP_FAILED = ''FAILED''"
| "process_status_text HP_CANCELLED = ''CANCELLED''"

record process =
  hs_meta :: record_metadata
  hs_proposal_ref :: stored_ref
  hs_status :: process_status
  hs_verification_assignment_ref :: "stored_ref option"
  hs_verification_generation :: nat
  hs_verification_work_ref :: "stored_ref option"
  hs_verification_result_ref :: "stored_ref option"
  hs_started_at :: int
  hs_finished_at :: "int option"
  hs_elapsed_ms :: nat

definition process_value :: "process \<Rightarrow> pyval" where
  "process_value p =
     contract_model
       [(''meta'', meta_value (hs_meta p)),
        (''proposal_ref'', stored_ref_value (hs_proposal_ref p)),
        (''status'', VStr (process_status_text (hs_status p))),
        (''verification_assignment_ref'', v_opt stored_ref_value (hs_verification_assignment_ref p)),
        (''verification_generation'', v_nat (hs_verification_generation p)),
        (''verification_work_ref'', v_opt stored_ref_value (hs_verification_work_ref p)),
        (''verification_result_ref'', v_opt stored_ref_value (hs_verification_result_ref p)),
        (''started_at'', v_time (hs_started_at p)),
        (''finished_at'', v_opt v_time (hs_finished_at p)),
        (''elapsed_ms'', v_nat (hs_elapsed_ms p))]"

definition process_ok :: "process \<Rightarrow> bool" where
  "process_ok p \<longleftrightarrow>
     is_record_meta (hs_meta p) \<and> stored_ref_ok (hs_proposal_ref p) \<and>
     pred_option stored_ref_ok (hs_verification_assignment_ref p) \<and>
     pred_option stored_ref_ok (hs_verification_work_ref p) \<and>
     pred_option stored_ref_ok (hs_verification_result_ref p)"

definition process_refs :: "process \<Rightarrow> record_ref list" where
  "process_refs p =
     [StoredDataRef (hs_proposal_ref p)] @
     option_refs StoredDataRef (hs_verification_assignment_ref p) @
     option_refs StoredDataRef (hs_verification_work_ref p) @
     option_refs StoredDataRef (hs_verification_result_ref p)"

definition process_shape :: "process \<Rightarrow> unit res" where
  "process_shape p =
     seqR
       [raise_if ((hs_status p \<in> {HP_TERMINAL, HP_FAILED, HP_CANCELLED}) \<noteq> (hs_finished_at p \<noteq> None))
          (ValueError ''PROCESS_TERMINAL_TIME_MISMATCH''),
        raise_if (hs_status p = HP_REGISTERED
                  \<and> (hs_verification_generation p \<noteq> 0 \<or> hs_verification_assignment_ref p \<noteq> None
                     \<or> hs_verification_work_ref p \<noteq> None \<or> hs_verification_result_ref p \<noteq> None))
          (ValueError ''REGISTERED_PROCESS_HAS_NO_ASSIGNMENT''),
        raise_if (hs_status p \<in> {HP_ASSIGNED, HP_VERIFYING, HP_TERMINAL, HP_FAILED}
                  \<and> hs_verification_assignment_ref p = None)
          (ValueError ''PROCESS_ASSIGNMENT_REQUIRED''),
        raise_if (hs_status p \<in> {HP_VERIFYING, HP_FAILED} \<and> hs_verification_work_ref p = None)
          (ValueError ''PROCESS_WORK_REQUIRED''),
        raise_if (hs_status p = HP_TERMINAL
                  \<and> (hs_verification_work_ref p \<noteq> None \<or> hs_verification_result_ref p = None))
          (ValueError ''TERMINAL_PROCESS_RESULT_REQUIRED''),
        raise_if (hs_status p = HP_FAILED \<and> hs_verification_result_ref p \<noteq> None)
          (ValueError ''FAILED_PROCESS_HAS_NO_VERDICT''),
        require_if (map_option StoredDataRef (hs_verification_assignment_ref p))
          (Some ''verification_assignment''),
        require_if (map_option StoredDataRef (hs_verification_work_ref p)) (Some ''work_execution_state'')]"

definition validate_process :: "process \<Rightarrow> unit res" where
  "validate_process p =
     seqR [validate_meta (hs_meta p), check_fields (process_ok p),
           domain_scope ''hypothesis_process_state'' (Some True) (Some False)
             [(hs_verification_result_ref p, ''verification_result''),
              (Some (hs_proposal_ref p), ''hypothesis_proposal'')]
             (process_refs p) (hs_meta p),
           process_shape p]"

section \<open>Dynamic reproduction\<close>

datatype dynamic_status =
    DY_NOT_REQUESTED | DY_RUNNING | DY_SUCCEEDED | DY_PARTIAL | DY_FAILED | DY_BLOCKED
  | DY_CANCELLED

fun dynamic_status_text :: "dynamic_status \<Rightarrow> string" where
  "dynamic_status_text DY_NOT_REQUESTED = ''NOT_REQUESTED''"
| "dynamic_status_text DY_RUNNING = ''RUNNING''"
| "dynamic_status_text DY_SUCCEEDED = ''SUCCEEDED''"
| "dynamic_status_text DY_PARTIAL = ''PARTIAL''"
| "dynamic_status_text DY_FAILED = ''FAILED''"
| "dynamic_status_text DY_BLOCKED = ''BLOCKED''"
| "dynamic_status_text DY_CANCELLED = ''CANCELLED''"

record dynamic_state =
  dy_meta :: record_metadata
  dy_verification_generation :: nat
  dy_dynamic_work_ref :: "stored_ref option"
  dy_status :: dynamic_status
  dy_request_ref :: "stored_ref option"
  dy_dynamic_result_ref :: "stored_ref option"
  dy_started_at :: "int option"
  dy_finished_at :: "int option"
  dy_elapsed_ms :: nat

definition dynamic_state_value :: "dynamic_state \<Rightarrow> pyval" where
  "dynamic_state_value d =
     contract_model
       [(''meta'', meta_value (dy_meta d)),
        (''verification_generation'', v_nat (dy_verification_generation d)),
        (''dynamic_work_ref'', v_opt stored_ref_value (dy_dynamic_work_ref d)),
        (''status'', VStr (dynamic_status_text (dy_status d))),
        (''request_ref'', v_opt stored_ref_value (dy_request_ref d)),
        (''dynamic_result_ref'', v_opt stored_ref_value (dy_dynamic_result_ref d)),
        (''started_at'', v_opt v_time (dy_started_at d)),
        (''finished_at'', v_opt v_time (dy_finished_at d)),
        (''elapsed_ms'', v_nat (dy_elapsed_ms d))]"

definition dynamic_state_ok :: "dynamic_state \<Rightarrow> bool" where
  "dynamic_state_ok d \<longleftrightarrow>
     is_record_meta (dy_meta d) \<and> 1 \<le> dy_verification_generation d \<and>
     pred_option stored_ref_ok (dy_dynamic_work_ref d) \<and>
     pred_option stored_ref_ok (dy_request_ref d) \<and>
     pred_option stored_ref_ok (dy_dynamic_result_ref d)"

definition dynamic_state_refs :: "dynamic_state \<Rightarrow> record_ref list" where
  "dynamic_state_refs d =
     option_refs StoredDataRef (dy_dynamic_work_ref d) @
     option_refs StoredDataRef (dy_request_ref d) @
     option_refs StoredDataRef (dy_dynamic_result_ref d)"

definition dynamic_shape :: "dynamic_state \<Rightarrow> unit res" where
  "dynamic_shape s =
     (if dy_status s = DY_NOT_REQUESTED then
        raise_if (dy_dynamic_work_ref s \<noteq> None \<or> dy_request_ref s \<noteq> None \<or> dy_dynamic_result_ref s \<noteq> None
                  \<or> dy_started_at s \<noteq> None \<or> dy_finished_at s \<noteq> None \<or> dy_elapsed_ms s \<noteq> 0)
          (ValueError ''DYNAMIC_STATE_NOT_REQUESTED'')
      else
        let ended = (dy_status s \<in> {DY_SUCCEEDED, DY_PARTIAL, DY_FAILED, DY_CANCELLED}) in
        seqR
          [raise_if (dy_dynamic_work_ref s = None \<or> dy_request_ref s = None \<or> dy_started_at s = None)
             (ValueError ''DYNAMIC_STATE_EXECUTION_REQUIRED''),
           raise_if (dy_status s = DY_RUNNING \<and> dy_dynamic_result_ref s \<noteq> None)
             (ValueError ''DYNAMIC_STATE_RESULT_REQUIRED''),
           raise_if (ended \<and> dy_dynamic_result_ref s = None) (ValueError ''DYNAMIC_STATE_RESULT_REQUIRED''),
           raise_if (ended \<noteq> (dy_finished_at s \<noteq> None)) (ValueError ''DYNAMIC_STATE_TERMINAL_TIME''),
           raise_if (later (dy_started_at s) (dy_finished_at s)) (ValueError ''DYNAMIC_STATE_TIME_RANGE''),
           require_if (map_option StoredDataRef (dy_dynamic_work_ref s)) (Some ''work_execution_state''),
           require_if (map_option StoredDataRef (dy_request_ref s)) (Some ''dynamic_reproduction_request''),
           require_if (map_option StoredDataRef (dy_dynamic_result_ref s))
             (Some ''dynamic_reproduction_result'')])"

definition validate_dynamic_state :: "dynamic_state \<Rightarrow> unit res" where
  "validate_dynamic_state s =
     seqR [validate_meta (dy_meta s), check_fields (dynamic_state_ok s),
           domain_scope ''dynamic_reproduction_state'' (Some True) (Some False)
             [(dy_dynamic_result_ref s, ''dynamic_reproduction_result''),
              (dy_request_ref s, ''dynamic_reproduction_request'')]
             (dynamic_state_refs s) (dy_meta s),
           dynamic_shape s]"

section \<open>Workspaces\<close>

datatype workspace_status =
    WS_PREPARING | WS_READY | WS_FAILED | WS_REMOVED

fun workspace_status_text :: "workspace_status \<Rightarrow> string" where
  "workspace_status_text WS_PREPARING = ''PREPARING''"
| "workspace_status_text WS_READY = ''READY''"
| "workspace_status_text WS_FAILED = ''FAILED''"
| "workspace_status_text WS_REMOVED = ''REMOVED''"

record workspace =
  ws_meta :: record_metadata
  ws_workspace_id :: string
  ws_analysis_id :: string
  ws_repository_url :: string
  ws_commit_id :: "string option"
  ws_status :: workspace_status

definition workspace_value :: "workspace \<Rightarrow> pyval" where
  "workspace_value w =
     contract_model
       [(''meta'', meta_value (ws_meta w)), (''workspace_id'', opaque (ws_workspace_id w)),
        (''analysis_id'', opaque (ws_analysis_id w)),
        (''repository_url'', VStr (ws_repository_url w)),
        (''commit_id'', v_opt opaque (ws_commit_id w)),
        (''status'', VStr (workspace_status_text (ws_status w)))]"

definition workspace_ok :: "workspace \<Rightarrow> bool" where
  "workspace_ok w \<longleftrightarrow>
     non_empty_str (ws_workspace_id w) \<and> non_empty_str (ws_analysis_id w) \<and>
     non_empty_str (ws_repository_url w) \<and> pred_option non_empty_str (ws_commit_id w)"

fun is_run_meta :: "record_metadata \<Rightarrow> bool" where
  "is_run_meta (RunMeta _ _) = True"
| "is_run_meta _ = False"

definition workspace_shape :: "workspace \<Rightarrow> unit res" where
  "workspace_shape w =
     seqR
       [raise_if (\<not> is_run_meta (ws_meta w) \<or> meta_record_type (ws_meta w) \<noteq> ''code_workspace''
                  \<or> Some (ws_analysis_id w) \<noteq> meta_analysis (ws_meta w))
          (ValueError ''METADATA_SCOPE_MISMATCH''),
        raise_if ((ws_status w = WS_READY \<and> ws_commit_id w = None)
                  \<or> (ws_status w = WS_PREPARING \<and> ws_commit_id w \<noteq> None))
          (ValueError ''WORKSPACE_NOT_READY'')]"

text \<open>The \<open>meta\<close> of a workspace is a \<open>RunMeta\<close>, which a \<open>RecordMeta\<close> is an instance of.\<close>

definition validate_workspace :: "workspace \<Rightarrow> unit res" where
  "validate_workspace w =
     seqR [validate_scoped (ws_meta w), check_fields (workspace_ok w), workspace_shape w]"

end
