(* ===== verification/Record_Store.thy ===== *)
theory Record_Store
  imports Process_Contracts
begin

text \<open>
  \<open>storage/codec.py\<close>, \<open>storage/repositories.py\<close> and \<open>storage/run_states.py\<close>: the table of
  immutable records, the table of published revisions, and the current state of each analysis run.

  The \<open>payload\<close> column of a row is the canonical text of a record; the row carries both the text
  and the record that \<open>decode\<close> reads from it.  A \<open>ref\<close> column holds the reference whose canonical
  text is stored.  A write operation returns the new database; when it raises, the transaction is
  rolled back and there is none.
\<close>

section \<open>Stored records\<close>

text \<open>
  The contract models of this development, and any other registered model by its metadata, its
  \<open>host_id\<close> and its value.
\<close>

datatype contract_record =
    WorkExecutionState work
  | WorkAttempt attempt
  | StateTransition transition
  | TransitionCommit transition_commit
  | ActionRequest action_request
  | ActionDecision action_decision
  | ExecutionBudgetProfile execution_profile
  | WorkBudgetProfile work_profile
  | VerificationBudgetProfile verification_profile
  | DynamicLifecycleProfile dynamic_profile
  | BudgetProfileBinding budget_binding
  | BudgetReservation reservation
  | BudgetLedgerEntry ledger_entry
  | AnalysisRunState run_state
  | VerificationAssignment assignment
  | HypothesisProcessState process
  | DynamicReproductionState dynamic_state
  | CodeWorkspace workspace
  | OtherRecord referenced_record

fun record_meta :: "contract_record \<Rightarrow> record_metadata" where
  "record_meta (WorkExecutionState x) = wk_meta x"
| "record_meta (WorkAttempt x) = wa_meta x"
| "record_meta (StateTransition x) = tr_meta x"
| "record_meta (TransitionCommit x) = tc_meta x"
| "record_meta (ActionRequest x) = ar_meta x"
| "record_meta (ActionDecision x) = ad_meta x"
| "record_meta (ExecutionBudgetProfile x) = ep_meta x"
| "record_meta (WorkBudgetProfile x) = wp_meta x"
| "record_meta (VerificationBudgetProfile x) = vp_meta x"
| "record_meta (DynamicLifecycleProfile x) = dp_meta x"
| "record_meta (BudgetProfileBinding x) = bb_meta x"
| "record_meta (BudgetReservation x) = br_meta x"
| "record_meta (BudgetLedgerEntry x) = bl_meta x"
| "record_meta (AnalysisRunState x) = rs_meta x"
| "record_meta (VerificationAssignment x) = as_meta x"
| "record_meta (HypothesisProcessState x) = hs_meta x"
| "record_meta (DynamicReproductionState x) = dy_meta x"
| "record_meta (CodeWorkspace x) = ws_meta x"
| "record_meta (OtherRecord x) = rec_meta x"

fun record_value :: "contract_record \<Rightarrow> pyval" where
  "record_value (WorkExecutionState x) = work_value x"
| "record_value (WorkAttempt x) = attempt_value x"
| "record_value (StateTransition x) = transition_value x"
| "record_value (TransitionCommit x) = transition_commit_value x"
| "record_value (ActionRequest x) = action_request_value x"
| "record_value (ActionDecision x) = action_decision_value x"
| "record_value (ExecutionBudgetProfile x) = execution_profile_value x"
| "record_value (WorkBudgetProfile x) = work_profile_value x"
| "record_value (VerificationBudgetProfile x) = verification_profile_value x"
| "record_value (DynamicLifecycleProfile x) = dynamic_profile_value x"
| "record_value (BudgetProfileBinding x) = budget_binding_value x"
| "record_value (BudgetReservation x) = reservation_value x"
| "record_value (BudgetLedgerEntry x) = ledger_entry_value x"
| "record_value (AnalysisRunState x) = run_state_value x"
| "record_value (VerificationAssignment x) = assignment_value x"
| "record_value (HypothesisProcessState x) = process_value x"
| "record_value (DynamicReproductionState x) = dynamic_state_value x"
| "record_value (CodeWorkspace x) = workspace_value x"
| "record_value (OtherRecord x) = rec_value x"

fun record_host :: "contract_record \<Rightarrow> string option" where
  "record_host (OtherRecord x) = rec_host_id x"
| "record_host _ = None"

fun record_kind :: "contract_record \<Rightarrow> string option" where
  "record_kind (WorkExecutionState x) = Some ''work_execution_state''"
| "record_kind (WorkAttempt x) = Some ''work_attempt''"
| "record_kind (StateTransition x) = Some ''state_transition''"
| "record_kind (TransitionCommit x) = Some ''transition_commit''"
| "record_kind (ActionRequest x) = Some ''action_request''"
| "record_kind (ActionDecision x) = Some ''action_decision''"
| "record_kind (ExecutionBudgetProfile x) = Some ''execution_budget_profile''"
| "record_kind (WorkBudgetProfile x) = Some ''work_budget_profile''"
| "record_kind (VerificationBudgetProfile x) = Some ''verification_budget_profile''"
| "record_kind (DynamicLifecycleProfile x) = Some ''dynamic_reproduction_lifecycle_profile''"
| "record_kind (BudgetProfileBinding x) = Some ''budget_profile_binding''"
| "record_kind (BudgetReservation x) = Some ''budget_reservation''"
| "record_kind (BudgetLedgerEntry x) = Some ''budget_ledger_entry''"
| "record_kind (AnalysisRunState x) = Some ''analysis_run_state''"
| "record_kind (VerificationAssignment x) = Some ''verification_assignment''"
| "record_kind (HypothesisProcessState x) = Some ''hypothesis_process_state''"
| "record_kind (DynamicReproductionState x) = Some ''dynamic_reproduction_state''"
| "record_kind (CodeWorkspace x) = Some ''code_workspace''"
| "record_kind (OtherRecord x) = None"

fun validate_record :: "contract_record \<Rightarrow> unit res" where
  "validate_record (WorkExecutionState x) = validate_work x"
| "validate_record (WorkAttempt x) = validate_attempt x"
| "validate_record (StateTransition x) = validate_transition x"
| "validate_record (TransitionCommit x) = validate_commit x"
| "validate_record (ActionRequest x) = validate_action x"
| "validate_record (ActionDecision x) = validate_decision x"
| "validate_record (ExecutionBudgetProfile x) = validate_execution_profile x"
| "validate_record (WorkBudgetProfile x) = validate_work_profile x"
| "validate_record (VerificationBudgetProfile x) = validate_verification_profile x"
| "validate_record (DynamicLifecycleProfile x) = validate_dynamic_profile x"
| "validate_record (BudgetProfileBinding x) = validate_binding_record x"
| "validate_record (BudgetReservation x) = validate_reservation x"
| "validate_record (BudgetLedgerEntry x) = validate_ledger_entry x"
| "validate_record (AnalysisRunState x) = validate_run_state x"
| "validate_record (VerificationAssignment x) = validate_assignment x"
| "validate_record (HypothesisProcessState x) = validate_process x"
| "validate_record (DynamicReproductionState x) = validate_dynamic_state x"
| "validate_record (CodeWorkspace x) = validate_workspace x"
| "validate_record (OtherRecord x) = validate_meta (rec_meta x)"

text \<open>The kinds with a registered model: \<open>CORE_SCHEMAS\<close>, and \<open>RESULT_REGISTRY\<close> over it.\<close>

definition CORE_SCHEMAS :: "string list" where
  "CORE_SCHEMAS =
     [''run_meta'', ''production_authority_catalog'', ''record_meta'', ''policy_cache_meta'',
      ''run_stored_data_ref'', ''stored_data_ref'', ''host_configuration_ref'',
      ''policy_cache_ref'', ''work_execution_state'', ''work_attempt'', ''state_transition'',
      ''transition_commit'', ''action_request'', ''action_check'', ''action_decision'',
      ''sandbox_profile'', ''dependency_bundle'', ''code_context_request'', ''static_tool_profile'',
      ''repository_profile'', ''repository_execution_selection'', ''tool_capability_evidence'',
      ''runtime_capability_profile'', ''vulnerability_hypothesis'', ''playbook_application'',
      ''dynamic_reproduction_state'', ''primitive_index_state'', ''finding_index_state'',
      ''report_process_state'', ''provider_validation_evidence'', ''client_execution_profile'',
      ''provider_profile'', ''execution_limits'', ''llm_retry_policy'', ''llm_tool_policy'',
      ''prompt_redaction_policy'', ''output_schema_spec'', ''semantic_validator_spec'',
      ''prompt_registry_entry'', ''prompt_payload'', ''llm_call_spec'', ''llm_invocation_request'',
      ''llm_invocation_result'', ''llm_invocation_log'', ''evaluation_run_config'',
      ''official_policy_source_config'', ''policy_freshness_criterion'', ''playbook_policy'',
      ''verification_playbook'', ''execution_budget_profile'', ''work_budget_limit'',
      ''work_budget_profile'', ''verification_budget_profile'',
      ''dynamic_reproduction_lifecycle_profile'', ''budget_profile_binding'', ''budget_units'',
      ''budget_reservation'', ''budget_ledger_entry'', ''budget_remaining'']"

definition RESULT_REGISTRY :: "string list" where
  "RESULT_REGISTRY =
     [''analysis_run_input'', ''analysis_run_state'', ''hypothesis_process_state'',
      ''verification_assignment'', ''code_workspace'', ''repository_profile'',
      ''repository_execution_selection'', ''code_context_response'', ''tool_run_result'',
      ''static_fact_bundle'', ''rule_execution_record'', ''hypothesis_proposal'',
      ''proposal_process_state'', ''hypothesis_duplicate_review'', ''pro_evidence_result'',
      ''con_evidence_result'', ''verification_result'', ''verification_initial_assessment'',
      ''dynamic_reproduction_tool_request'', ''primitive_admission_decision'', ''primitive'',
      ''chaining_result'', ''dynamic_reproduction_request'', ''environment_requirements'',
      ''reproduction_plan'', ''environment_recipe'', ''sandbox_environment'', ''cleanup_result'',
      ''sandbox_policy_decision'', ''sandbox_command_record'', ''poc_candidate'',
      ''dynamic_reproduction_conclusion'', ''agent_log'', ''poc_bundle'',
      ''dynamic_reproduction_result'', ''cwe_label'', ''run_policy_state'', ''policy_cache_record'',
      ''policy_parser_result'', ''policy_collection_result'', ''program_policy_record'',
      ''technical_evidence_review'', ''rule_scope_impact_review'', ''finding'', ''report_draft'',
      ''budget_reservation'', ''budget_ledger_entry'', ''evaluation_run_result'',
      ''evaluation_recommendation'', ''analysis_run_result'']"

text \<open>Registered models that are parts of records and have no metadata of their own.\<close>

definition PART_SCHEMAS :: "string list" where
  "PART_SCHEMAS =
     [''run_meta'', ''record_meta'', ''policy_cache_meta'', ''run_stored_data_ref'',
      ''stored_data_ref'', ''host_configuration_ref'', ''policy_cache_ref'', ''action_check'',
      ''work_budget_limit'', ''budget_units'', ''budget_remaining'']"

definition MODEL_KINDS :: "string list" where
  "MODEL_KINDS =
     [''work_execution_state'', ''work_attempt'', ''state_transition'', ''transition_commit'',
      ''action_request'', ''action_decision'', ''execution_budget_profile'',
      ''work_budget_profile'', ''verification_budget_profile'',
      ''dynamic_reproduction_lifecycle_profile'', ''budget_profile_binding'',
      ''budget_reservation'', ''budget_ledger_entry'', ''analysis_run_state'',
      ''verification_assignment'', ''hypothesis_process_state'', ''dynamic_reproduction_state'',
      ''code_workspace'']"

text \<open>
  \<open>decode(record.meta.record_type, payload)\<close> on the text of a record: the model registered for the
  record type has to be the record's own and has to accept it.
\<close>

definition decode_check :: "contract_record \<Rightarrow> unit res" where
  "decode_check r =
     (let kind = meta_record_type (record_meta r) in
      if kind \<notin> set (CORE_SCHEMAS @ RESULT_REGISTRY) then
        Inl (ValueError (''Unknown record kind: '' @ kind))
      else if (case record_kind r of Some k \<Rightarrow> k \<noteq> kind
               | None \<Rightarrow> kind \<in> set (MODEL_KINDS @ PART_SCHEMAS)) then Inl field_error
      else validate_record r)"

definition encode_record :: "contract_record \<Rightarrow> string res" where
  "encode_record r =
     bindR (canonical_bytes Map.empty (record_value r)) (\<lambda>payload.
     bindR (decode_check r) (\<lambda>_. Inr payload))"

definition record_reference :: "contract_record \<Rightarrow> record_ref res" where
  "record_reference r =
     reference \<lparr>rec_meta = record_meta r, rec_host_id = record_host r, rec_value = record_value r\<rparr>"

definition record_hash :: "contract_record \<Rightarrow> string res" where
  "record_hash r = content_hash Map.empty (record_value r)"

abbreviation record_id :: "contract_record \<Rightarrow> string" where
  "record_id r \<equiv> meta_record_id (record_meta r)"

section \<open>Tables\<close>

record record_row =
  ro_record_id :: string
  ro_logical_record_id :: string
  ro_revision_number :: int
  ro_kind :: string
  ro_content_hash :: string
  ro_payload :: string
  ro_record :: contract_record
  ro_ref :: record_ref

record revision_row =
  rv_record_id :: string
  rv_logical_record_id :: string
  rv_revision_number :: int

record current_row =
  cu_logical_record_id :: string
  cu_record_id :: string
  cu_state_version :: int

record run_row =
  an_analysis_id :: string
  an_payload :: run_state

record profile_row =
  pf_analysis_id :: string
  pf_kind :: string
  pf_ref :: record_ref

record reservation_row =
  rw_reservation_id :: string
  rw_analysis_id :: string
  rw_action_id :: string
  rw_status :: reservation_status
  rw_payload :: reservation
  rw_initial_ref :: record_ref
  rw_claimed :: bool
  rw_item_count :: "int option"

record ledger_row =
  lw_ledger_entry_id :: string
  lw_reservation_id :: string
  lw_analysis_id :: string
  lw_sequence :: nat
  lw_payload :: ledger_entry

record attempt_row =
  aw_attempt_id :: string
  aw_payload :: attempt

record sdb =
  sd_records :: "record_row list"
  sd_revisions :: "revision_row list"
  sd_current :: "current_row list"
  sd_runs :: "run_row list"
  sd_profiles :: "profile_row list"
  sd_reservations :: "reservation_row list"
  sd_ledger :: "ledger_row list"
  sd_attempts :: "attempt_row list"

type_synonym 'a stx = "sdb \<Rightarrow> ('a \<times> sdb) res"

section \<open>Staging and resolving\<close>

definition stored_row :: "contract_record \<Rightarrow> string \<Rightarrow> record_ref \<Rightarrow> record_row" where
  "stored_row r payload ref =
     (let m = revision_of (record_meta r) in
      \<lparr>ro_record_id = rm_record_id m, ro_logical_record_id = rm_logical_record_id m,
       ro_revision_number = rm_revision_number m, ro_kind = rm_record_type m,
       ro_content_hash = ref_content_hash ref, ro_payload = payload, ro_record = r, ro_ref = ref\<rparr>)"

definition stage_record :: "contract_record \<Rightarrow> record_ref stx" where
  "stage_record r d =
     bindR (encode_record r) (\<lambda>payload.
     bindR (record_reference r) (\<lambda>ref.
       case tbl_lookup ro_record_id (sd_records d) (record_id r) of
         Some old \<Rightarrow>
           if ro_payload old \<noteq> payload
           then Inl (ValueError ''RECORD_REVISION_MISMATCH: immutable record ID'')
           else Inr (ro_ref old, d)
       | None \<Rightarrow> Inr (ref, d\<lparr>sd_records := sd_records d @ [stored_row r payload ref]\<rparr>)))"

text \<open>\<open>str(ref.record_id)\<close>.\<close>

definition id_text :: "string option \<Rightarrow> string" where
  "id_text x = (case x of None \<Rightarrow> ''None'' | Some s \<Rightarrow> s)"

text \<open>\<open>records JOIN record_revisions\<close>, by record id.\<close>

definition published_row :: "sdb \<Rightarrow> string \<Rightarrow> record_row option" where
  "published_row d i =
     (if tbl_lookup rv_record_id (sd_revisions d) i = None then None
      else tbl_lookup ro_record_id (sd_records d) i)"

definition resolve :: "bool \<Rightarrow> sdb \<Rightarrow> record_ref \<Rightarrow> contract_record res" where
  "resolve candidate d ref =
     (let i = id_text (ref_record_id ref) in
      case (if candidate then tbl_lookup ro_record_id (sd_records d) i else published_row d i) of
        None \<Rightarrow> Inl (LookupError ''Exact record is not published'')
      | Some row \<Rightarrow>
          if ro_ref row \<noteq> ref then Inl (ValueError ''RECORD_REVISION_MISMATCH: exact reference'')
          else
            bindR (record_hash (ro_record row)) (\<lambda>h.
              if h \<noteq> ref_content_hash ref then Inl (ValueError ''HASH_MISMATCH'')
              else Inr (ro_record row)))"

definition publish :: "record_ref \<Rightarrow> unit stx" where
  "publish ref d =
     bindR (resolve True d ref) (\<lambda>r.
       let m = revision_of (record_meta r) in
       if tbl_lookup rv_record_id (sd_revisions d) (rm_record_id m) \<noteq> None then Inr ((), d)
       else
         bindR (case rm_previous_record_id m of
                  None \<Rightarrow> Inr ()
                | Some p \<Rightarrow>
                    (case published_row d p of
                       None \<Rightarrow> Inl (ValueError ''Missing published predecessor'')
                     | Some row \<Rightarrow> validate_revision (record_meta (ro_record row)) (record_meta r)))
           (\<lambda>_.
            if \<exists>v \<in> set (sd_revisions d). rv_logical_record_id v = rm_logical_record_id m
                 \<and> rv_revision_number v = rm_revision_number m
            then Inl (SqliteError ''UNIQUE constraint failed: record_revisions.logical_record_id, record_revisions.revision_number'')
            else Inr ((), d\<lparr>sd_revisions := sd_revisions d @
                   [\<lparr>rv_record_id = rm_record_id m, rv_logical_record_id = rm_logical_record_id m,
                     rv_revision_number = rm_revision_number m\<rparr>]\<rparr>)))"

text \<open>\<open>records.publish(connection, records.stage(connection, record))\<close>, with the reference.\<close>

definition stage_publish :: "contract_record \<Rightarrow> record_ref stx" where
  "stage_publish r d =
     bindR (stage_record r d) (\<lambda>(ref, d1). bindR (publish ref d1) (\<lambda>(_, d2). Inr (ref, d2)))"

section \<open>Revision chains\<close>

text \<open>
  The loop of \<open>is_revision_descendant\<close>: it follows \<open>previous_record_id\<close> through published records
  until it meets \<open>stop\<close>.  \<open>None\<close> is \<open>return False\<close>; otherwise the record it stopped at.
\<close>

function revision_walk :: "sdb \<Rightarrow> string \<Rightarrow> string list \<Rightarrow> contract_record \<Rightarrow> contract_record option res" where
  "revision_walk d stop visited current =
     (if record_id current = stop then Inr (Some current)
      else if record_id current \<in> set visited then Inr None
      else case rm_previous_record_id (revision_of (record_meta current)) of
        None \<Rightarrow> Inr None
      | Some p \<Rightarrow>
          (case published_row d p of
             None \<Rightarrow> Inr None
           | Some row \<Rightarrow>
               (case validate_revision (record_meta (ro_record row)) (record_meta current) of
                  Inl e \<Rightarrow> Inl e
                | Inr _ \<Rightarrow> revision_walk d stop (record_id current # visited) (ro_record row))))"
  by pat_completeness auto
termination
proof (relation "measure (\<lambda>(d, stop, visited, current).
    card (insert (record_id current) (record_id ` ro_record ` set (sd_records d)) - set visited))",
    simp, goal_cases)
  case (1 d stop visited current p row)
  let ?ids = "record_id ` ro_record ` set (sd_records d)"
  have row: "row \<in> set (sd_records d)"
    using 1(4) by (auto simp: published_row_def dest: tbl_lookup_Some split: if_splits)
  then have "insert (record_id (ro_record row)) ?ids - set (record_id current # visited)
      \<subset> insert (record_id current) ?ids - set visited"
    using 1(2) by (auto simp: image_iff)
  then show ?case by (auto intro!: psubset_card_mono)
qed

declare revision_walk.simps [simp del]

definition is_revision_descendant :: "sdb \<Rightarrow> record_ref \<Rightarrow> record_ref \<Rightarrow> bool res" where
  "is_revision_descendant d earlier_ref later_ref =
     bindR (resolve False d earlier_ref) (\<lambda>earlier.
     bindR (resolve False d later_ref) (\<lambda>current.
       let e = revision_of (record_meta earlier); c = revision_of (record_meta current) in
       if \<not> same_meta_type (record_meta earlier) (record_meta current)
          \<or> rm_logical_record_id e \<noteq> rm_logical_record_id c \<or> rm_record_type e \<noteq> rm_record_type c
          \<or> rm_revision_number c < rm_revision_number e
       then Inr False
       else
         bindR (revision_walk d (rm_record_id e) [] current) (\<lambda>found.
           case found of
             None \<Rightarrow> Inr False
           | Some r \<Rightarrow> bindR (record_reference r) (\<lambda>ref. Inr (ref = earlier_ref)))))"

section \<open>Analysis runs\<close>

definition get_run :: "sdb \<Rightarrow> string \<Rightarrow> run_state res" where
  "get_run d analysis =
     (case tbl_lookup an_analysis_id (sd_runs d) analysis of
        None \<Rightarrow> Inl (ValueError ''BUDGET run state is unavailable'')
      | Some row \<Rightarrow> Inr (an_payload row))"

definition run_immutable :: "run_state \<Rightarrow> run_state \<Rightarrow> unit res" where
  "run_immutable previous state =
     seq2 (validate_revision (rs_meta previous) (rs_meta state))
       (raise_if
          (rs_purpose previous \<noteq> rs_purpose state \<or> rs_eval_config_refs previous \<noteq> rs_eval_config_refs state
           \<or> rs_analysis_input_ref previous \<noteq> rs_analysis_input_ref state
           \<or> rs_program_id previous \<noteq> rs_program_id state
           \<or> rs_execution_budget_profile_ref previous \<noteq> rs_execution_budget_profile_ref state
           \<or> (rs_workspace_id previous \<noteq> None \<and> rs_workspace_id previous \<noteq> rs_workspace_id state)
           \<or> (rs_commit_id previous \<noteq> None \<and> rs_commit_id previous \<noteq> rs_commit_id state)
           \<or> (rs_budget_binding_ref previous \<noteq> None
              \<and> rs_budget_binding_ref previous \<noteq> rs_budget_binding_ref state))
          (ValueError ''RUN_STATE_IMMUTABLE''))"

text \<open>\<open>UPDATE ... WHERE\<close> on the rows that satisfy a condition, and how many there are.\<close>

definition update_rows :: "('r \<Rightarrow> bool) \<Rightarrow> ('r \<Rightarrow> 'r) \<Rightarrow> 'r list \<Rightarrow> 'r list" where
  "update_rows P f t = map (\<lambda>r. if P r then f r else r) t"

definition insert_run :: "run_state \<Rightarrow> unit stx" where
  "insert_run state d =
     (let m = revision_of (rs_meta state); a = id_text (meta_analysis (rs_meta state)) in
      if tbl_lookup an_analysis_id (sd_runs d) a \<noteq> None
      then Inl (SqliteError ''UNIQUE constraint failed: analysis_runs.analysis_id'')
      else if tbl_lookup cu_logical_record_id (sd_current d) (rm_logical_record_id m) \<noteq> None
      then Inl (SqliteError ''UNIQUE constraint failed: current_records.logical_record_id'')
      else Inr ((), d\<lparr>sd_runs := sd_runs d @ [\<lparr>an_analysis_id = a, an_payload = state\<rparr>],
                      sd_current := sd_current d @
                        [\<lparr>cu_logical_record_id = rm_logical_record_id m, cu_record_id = rm_record_id m,
                          cu_state_version = rm_revision_number m\<rparr>]\<rparr>))"

definition swap_run :: "run_state \<Rightarrow> run_state \<Rightarrow> unit stx" where
  "swap_run previous state d =
     (let m = revision_of (rs_meta state); a = id_text (meta_analysis (rs_meta state));
          old = (\<lambda>row. an_analysis_id row = a
                   \<and> canonical_bytes Map.empty (run_state_value (an_payload row))
                      = canonical_bytes Map.empty (run_state_value previous));
          pointer = (\<lambda>row. cu_logical_record_id row = rm_logical_record_id m
                       \<and> cu_record_id row = meta_record_id (rs_meta previous))
      in if length (filter old (sd_runs d)) \<noteq> 1
         then Inl (ValueError ''STATE_VERSION_CONFLICT: analysis'')
         else if length (filter pointer (sd_current d)) \<noteq> 1
         then Inl (ValueError ''STATE_VERSION_CONFLICT: analysis pointer'')
         else Inr ((), d\<lparr>sd_runs := update_rows old (\<lambda>row. row\<lparr>an_payload := state\<rparr>) (sd_runs d),
                         sd_current := update_rows pointer
                           (\<lambda>row. row\<lparr>cu_record_id := rm_record_id m,
                                      cu_state_version := rm_revision_number m\<rparr>) (sd_current d)\<rparr>))"

definition save_run :: "run_state \<Rightarrow> run_state option \<Rightarrow> unit stx" where
  "save_run state previous d =
     bindR (case previous of None \<Rightarrow> Inr () | Some p \<Rightarrow> run_immutable p state) (\<lambda>_.
     bindR (stage_publish (AnalysisRunState state) d) (\<lambda>(_, d1).
       case previous of None \<Rightarrow> insert_run state d1 | Some p \<Rightarrow> swap_run p state d1))"

end
