(* ===== verification/Record_Invariant.thy ===== *)
theory Record_Invariant
  imports Record_Store
begin

text \<open>
  What the record store promises: a row never changes once it is written, every row holds a record
  that its model accepts under the reference that was computed from it, and published revisions
  form chains.  The interface \<open>revision_store\<close> is what the budget ledger relies on.
\<close>

section \<open>Reading\<close>

lemma published_row_mem:
  "published_row d i = Some row \<Longrightarrow>
     row \<in> set (sd_records d) \<and> ro_record_id row = i \<and> i \<in> rv_record_id ` set (sd_revisions d)"
  using tbl_lookup_Some [of ro_record_id "sd_records d" i row]
    tbl_lookup_Some [of rv_record_id "sd_revisions d" i]
  by (force simp: published_row_def split: if_splits)

lemma resolve_iff:
  "resolve candidate d ref = Inr r \<longleftrightarrow>
     (\<exists>row. (if candidate then tbl_lookup ro_record_id (sd_records d) (id_text (ref_record_id ref))
             else published_row d (id_text (ref_record_id ref))) = Some row
        \<and> ro_ref row = ref \<and> record_hash (ro_record row) = Inr (ref_content_hash ref)
        \<and> r = ro_record row)"
  by (auto simp: resolve_def Let_def split: option.splits if_splits)

lemma resolve_row:
  assumes "resolve candidate d ref = Inr r"
  obtains row where "row \<in> set (sd_records d)" "ro_record row = r" "ro_ref row = ref"
    "ro_record_id row = id_text (ref_record_id ref)"
    "tbl_lookup ro_record_id (sd_records d) (id_text (ref_record_id ref)) = Some row"
    "record_hash r = Inr (ref_content_hash ref)"
    "candidate \<or> published_row d (id_text (ref_record_id ref)) = Some row"
  using assms
  by (auto simp: resolve_def published_row_def Let_def split: option.splits if_splits
      dest: tbl_lookup_Some)

lemma resolve_mem: "resolve candidate d ref = Inr r \<Longrightarrow> r \<in> ro_record ` set (sd_records d)"
  by (auto elim: resolve_row)

lemma resolve_candidate: "resolve False d ref = Inr r \<Longrightarrow> resolve True d ref = Inr r"
  by (auto simp: resolve_def published_row_def Let_def split: option.splits if_splits)

lemma tbl_lookup_None: "tbl_lookup key t k = None \<longleftrightarrow> k \<notin> key ` set t"
  by (auto simp: tbl_lookup_def find_None_iff)

lemma stage_cases:
  assumes "stage_record r d = Inr (ref, d')"
  obtains (old) row where "d' = d" "ref = ro_ref row" "encode_record r = Inr (ro_payload row)"
      "tbl_lookup ro_record_id (sd_records d) (record_id r) = Some row"
  | (new) payload where "encode_record r = Inr payload" "record_reference r = Inr ref"
      "record_id r \<notin> ro_record_id ` set (sd_records d)"
      "d' = d\<lparr>sd_records := sd_records d @ [stored_row r payload ref]\<rparr>"
proof -
  obtain payload ref' where e: "encode_record r = Inr payload" "record_reference r = Inr ref'"
    using assms by (auto simp: stage_record_def)
  show ?thesis
  proof (cases "tbl_lookup ro_record_id (sd_records d) (record_id r)")
    case None
    then have "ref = ref'" "d' = d\<lparr>sd_records := sd_records d @ [stored_row r payload ref']\<rparr>"
      using assms e by (auto simp: stage_record_def)
    then show ?thesis using new e None by (simp add: tbl_lookup_None)
  next
    case (Some row)
    then have "ro_payload row = payload" "ref = ro_ref row" "d' = d"
      using assms e by (simp_all add: stage_record_def split: if_splits)
    then show ?thesis using old [of row] e Some by simp
  qed
qed

abbreviation revision_row_of :: "contract_record \<Rightarrow> revision_row" where
  "revision_row_of r \<equiv> \<lparr>rv_record_id = record_id r,
     rv_logical_record_id = rm_logical_record_id (revision_of (record_meta r)),
     rv_revision_number = meta_revision (record_meta r)\<rparr>"

definition revision_key :: "revision_row \<Rightarrow> string \<times> int" where
  "revision_key v = (rv_logical_record_id v, rv_revision_number v)"

definition follows_published :: "sdb \<Rightarrow> contract_record \<Rightarrow> bool" where
  "follows_published d r \<longleftrightarrow>
     (\<forall>p. rm_previous_record_id (revision_of (record_meta r)) = Some p \<longrightarrow>
        (\<exists>q. published_row d p = Some q
           \<and> validate_revision (record_meta (ro_record q)) (record_meta r) = Inr ()))"

lemma publish_cases:
  assumes "publish ref d = Inr (u, d')"
  obtains (again) r where "d' = d" "resolve True d ref = Inr r"
      "record_id r \<in> rv_record_id ` set (sd_revisions d)"
  | (new) r where "resolve True d ref = Inr r" "record_id r \<notin> rv_record_id ` set (sd_revisions d)"
      "follows_published d r" "revision_key (revision_row_of r) \<notin> revision_key ` set (sd_revisions d)"
      "d' = d\<lparr>sd_revisions := sd_revisions d @ [revision_row_of r]\<rparr>"
proof -
  obtain r where r: "resolve True d ref = Inr r" using assms by (auto simp: publish_def)
  let ?m = "revision_of (record_meta r)"
  show ?thesis
  proof (cases "tbl_lookup rv_record_id (sd_revisions d) (record_id r)")
    case (Some v)
    then have "d' = d" using assms r by (simp add: publish_def)
    then show ?thesis using again r Some tbl_lookup_None [of rv_record_id "sd_revisions d" "record_id r"]
      by simp
  next
    case None
    have f: "follows_published d r"
      using assms r None
      by (auto simp: publish_def Let_def follows_published_def split: option.splits)
    have k: "\<not> (\<exists>v \<in> set (sd_revisions d). rv_logical_record_id v = rm_logical_record_id ?m
        \<and> rv_revision_number v = rm_revision_number ?m)"
      using assms r None by (auto simp: publish_def Let_def split: if_splits)
    then have d: "d' = d\<lparr>sd_revisions := sd_revisions d @ [revision_row_of r]\<rparr>"
      using assms r None by (auto simp: publish_def Let_def split: if_splits)
    show ?thesis
      by (rule new [OF r _ f _ d]) (use k None in \<open>auto simp: revision_key_def tbl_lookup_None\<close>)
  qed
qed

section \<open>Growth\<close>

text \<open>Rows are only appended: what could be read before reads the same afterwards.\<close>

definition grows :: "sdb \<Rightarrow> sdb \<Rightarrow> bool" where
  "grows d d' \<longleftrightarrow>
     (\<exists>new. sd_records d' = sd_records d @ new) \<and> (\<exists>new. sd_revisions d' = sd_revisions d @ new)"

lemma grows_refl [simp]: "grows d d"
  by (simp add: grows_def)

lemma grows_trans: "grows d d' \<Longrightarrow> grows d' d'' \<Longrightarrow> grows d d''"
  by (auto simp: grows_def)

lemma tbl_lookup_append:
  "tbl_lookup key (t @ u) k = (case tbl_lookup key t k of None \<Rightarrow> tbl_lookup key u k | Some r \<Rightarrow> Some r)"
  by (induction t) (auto simp: tbl_lookup_def)

lemma grows_lookup:
  "grows d d' \<Longrightarrow> tbl_lookup ro_record_id (sd_records d) i = Some row
     \<Longrightarrow> tbl_lookup ro_record_id (sd_records d') i = Some row"
  by (auto simp: grows_def tbl_lookup_append)

lemma grows_published: "grows d d' \<Longrightarrow> published_row d i = Some row \<Longrightarrow> published_row d' i = Some row"
  by (auto simp: published_row_def grows_def tbl_lookup_append split: if_splits option.splits)

lemma grows_resolve: "grows d d' \<Longrightarrow> resolve c d ref = Inr r \<Longrightarrow> resolve c d' ref = Inr r"
  by (cases c) (auto simp: resolve_iff dest: grows_lookup grows_published)

text \<open>
  What the clients of the record store rely on: what a reference resolves to is the same in every
  later state, however the system that writes the store moves.
\<close>

locale revision_store = monotone_system +
  fixes look :: "'a \<Rightarrow> 'k \<Rightarrow> 'r res"
  assumes look_ext: "ext s t \<Longrightarrow> look s k = Inr r \<Longrightarrow> look t k = Inr r"
begin

lemma reaches_look: "reaches step s t \<Longrightarrow> inv s \<Longrightarrow> look s k = Inr r \<Longrightarrow> look t k = Inr r"
  using reaches_ext look_ext by blast

lemma look_stable: "ext s t \<Longrightarrow> look s k = Inr r \<Longrightarrow> look t k = Inr r' \<Longrightarrow> r' = r"
  using look_ext [of s t k r] by simp

lemma look_all: "ext s t \<Longrightarrow> mapR (look s) ks = Inr rs \<Longrightarrow> mapR (look t) ks = Inr rs"
  by (induction ks arbitrary: rs) (auto simp: look_ext)

end

text \<open>The part of the database that staging and publishing leave alone.\<close>

definition same_tables :: "sdb \<Rightarrow> sdb \<Rightarrow> bool" where
  "same_tables d d' \<longleftrightarrow>
     sd_current d' = sd_current d \<and> sd_runs d' = sd_runs d \<and> sd_profiles d' = sd_profiles d
     \<and> sd_reservations d' = sd_reservations d \<and> sd_ledger d' = sd_ledger d
     \<and> sd_attempts d' = sd_attempts d"

lemma same_tables_refl [simp]: "same_tables d d"
  by (simp add: same_tables_def)

lemma same_tables_trans: "same_tables d d' \<Longrightarrow> same_tables d' d'' \<Longrightarrow> same_tables d d''"
  by (simp add: same_tables_def)

lemma stage_grows:
  assumes "stage_record r d = Inr (ref, d')"
  shows "grows d d'" and "same_tables d d'"
  using assms by (auto simp: stage_record_def grows_def same_tables_def split: option.splits if_splits)

lemma publish_grows:
  assumes "publish ref d = Inr (u, d')"
  shows "grows d d'" and "same_tables d d'"
  using assms by (cases rule: publish_cases; simp add: grows_def same_tables_def)+

lemma stage_publish_grows:
  assumes "stage_publish r d = Inr (ref, d')"
  shows "grows d d'" and "same_tables d d'"
proof -
  obtain d1 u where "stage_record r d = Inr (ref, d1)" "publish ref d1 = Inr (u, d')"
    using assms by (auto simp: stage_publish_def)
  note 1 = stage_grows [OF this(1)] and 2 = publish_grows [OF this(2)]
  show "grows d d'" using 1(1) 2(1) by (rule grows_trans)
  show "same_tables d d'" using 1(2) 2(2) by (rule same_tables_trans)
qed

section \<open>Invariant\<close>

text \<open>A row holds a valid record under its own reference and text.\<close>

definition row_ok :: "record_row \<Rightarrow> bool" where
  "row_ok row \<longleftrightarrow>
     encode_record (ro_record row) = Inr (ro_payload row)
     \<and> record_reference (ro_record row) = Inr (ro_ref row)
     \<and> row = stored_row (ro_record row) (ro_payload row) (ro_ref row)"

text \<open>A published revision has its row, and a later one its published and accepted predecessor.\<close>

definition revision_ok :: "sdb \<Rightarrow> revision_row \<Rightarrow> bool" where
  "revision_ok d v \<longleftrightarrow>
     (\<exists>row. tbl_lookup ro_record_id (sd_records d) (rv_record_id v) = Some row
        \<and> rv_logical_record_id v = ro_logical_record_id row
        \<and> rv_revision_number v = ro_revision_number row
        \<and> follows_published d (ro_record row))"

definition store_ok :: "sdb \<Rightarrow> bool" where
  "store_ok d \<longleftrightarrow>
     tbl_ok ro_record_id (sd_records d) \<and> list_all row_ok (sd_records d)
     \<and> tbl_ok rv_record_id (sd_revisions d) \<and> tbl_ok revision_key (sd_revisions d)
     \<and> list_all (revision_ok d) (sd_revisions d)"

lemma row_ok_fields:
  assumes "row_ok row"
  shows "ro_record_id row = record_id (ro_record row)"
    "ro_logical_record_id row = rm_logical_record_id (revision_of (record_meta (ro_record row)))"
    "ro_revision_number row = meta_revision (record_meta (ro_record row))"
proof -
  have *: "row = stored_row (ro_record row) (ro_payload row) (ro_ref row)"
    using assms by (simp add: row_ok_def)
  show "ro_record_id row = record_id (ro_record row)"
    "ro_logical_record_id row = rm_logical_record_id (revision_of (record_meta (ro_record row)))"
    "ro_revision_number row = meta_revision (record_meta (ro_record row))"
    by (subst (1) *; simp add: stored_row_def Let_def)+
qed

lemma tbl_ok_snoc: "tbl_ok key t \<Longrightarrow> key r \<notin> key ` set t \<Longrightarrow> tbl_ok key (t @ [r])"
  by (simp add: tbl_ok_def)

lemma follows_grows: "grows d d' \<Longrightarrow> follows_published d r \<Longrightarrow> follows_published d' r"
  unfolding follows_published_def using grows_published by blast

lemma revision_ok_grows: "grows d d' \<Longrightarrow> revision_ok d v \<Longrightarrow> revision_ok d' v"
  unfolding revision_ok_def using follows_grows grows_lookup by blast

lemma stage_ok:
  assumes "store_ok d" "stage_record r d = Inr (ref, d')"
  shows "store_ok d'"
proof -
  note g = stage_grows(1) [OF assms(2)]
  have rev: "sd_revisions d' = sd_revisions d"
    using assms(2) by (auto simp: stage_record_def split: option.splits if_splits)
  have "list_all (revision_ok d') (sd_revisions d')"
    using assms(1) revision_ok_grows [OF g] by (auto simp: rev store_ok_def list_all_iff)
  moreover have "tbl_ok ro_record_id (sd_records d') \<and> list_all row_ok (sd_records d')"
    using assms(2)
  proof (cases rule: stage_cases)
    case (new payload)
    then show ?thesis
      using assms(1) by (auto simp: store_ok_def row_ok_def stored_row_def Let_def intro!: tbl_ok_snoc)
  qed (use assms(1) in \<open>simp add: store_ok_def\<close>)
  ultimately show ?thesis using assms(1) by (simp add: rev store_ok_def)
qed

lemma publish_ok:
  assumes ok: "store_ok d" and h: "publish ref d = Inr (u, d')"
  shows "store_ok d'"
proof -
  note g = publish_grows(1) [OF h]
  show ?thesis using h
  proof (cases rule: publish_cases)
    case (new r)
    obtain row where row: "row \<in> set (sd_records d)" "ro_record row = r"
      using new(1) by (auto elim: resolve_row)
    have rok: "row_ok row" using ok row(1) by (auto simp: store_ok_def list_all_iff)
    have "tbl_lookup ro_record_id (sd_records d) (record_id r) = Some row"
      using tbl_lookup_mem [of ro_record_id "sd_records d" row] ok row row_ok_fields(1) [OF rok]
      by (simp add: store_ok_def)
    then have "revision_ok d' (revision_row_of r)"
      unfolding revision_ok_def using row(2) row_ok_fields [OF rok] follows_grows [OF g new(3)] grows_lookup [OF g]
      by (intro exI [of _ row]) simp
    then show ?thesis
      using ok new(2,4) revision_ok_grows [OF g]
      by (auto simp: store_ok_def new(5) list_all_iff intro!: tbl_ok_snoc)
  qed (use ok in simp)
qed

lemma stage_publish_ok:
  assumes "store_ok d" "stage_publish r d = Inr (ref, d')"
  shows "store_ok d'"
  using assms by (auto simp: stage_publish_def dest: stage_ok publish_ok)

end
