(* ===== verification/Budget_Registry.thy ===== *)
theory Budget_Registry
  imports Record_Invariant
begin

text \<open>
  \<open>storage/budget_registry.py\<close>, \<open>storage/budget_limits.py\<close> and \<open>storage/budget_hierarchy.py\<close>:
  the profiles pinned for an analysis, the operation a budget limit is selected by, the allowances
  of the bounded local repair, and the caps of a verification tree.
\<close>

section \<open>Pinned profiles\<close>

definition pinned_ref :: "sdb \<Rightarrow> string \<Rightarrow> string \<Rightarrow> record_ref option" where
  "pinned_ref d analysis kind =
     map_option pf_ref (tbl_lookup (\<lambda>row. (pf_analysis_id row, pf_kind row)) (sd_profiles d) (analysis, kind))"

definition pin :: "record_ref \<Rightarrow> string \<Rightarrow> unit stx" where
  "pin ref analysis d =
     (case pinned_ref d analysis (ref_data_kind ref) of
        Some old \<Rightarrow>
          if old \<noteq> ref then Inl (ValueError ''BUDGET binding is already pinned for this analysis'')
          else Inr ((), d)
      | None \<Rightarrow>
          Inr ((), d\<lparr>sd_profiles := sd_profiles d @
                 [\<lparr>pf_analysis_id = analysis, pf_kind = ref_data_kind ref, pf_ref = ref\<rparr>]\<rparr>))"

text \<open>
  The first half of \<open>execution\<close>: the reference is the pinned one, its record is published, and the
  run state selects it.
\<close>

definition pinned_profile :: "sdb \<Rightarrow> record_ref \<Rightarrow> string \<Rightarrow> contract_record res" where
  "pinned_profile d ref analysis =
     (if pinned_ref d analysis (ref_data_kind ref) \<noteq> Some ref
      then Inl (ValueError ''BUDGET unavailable: unpinned profile or consuming analysis mismatch'')
      else
        bindR (resolve False d ref) (\<lambda>profile.
        bindR (get_run d analysis) (\<lambda>state.
          let expected = (case profile of
                BudgetProfileBinding _ \<Rightarrow> map_option StoredDataRef (rs_budget_binding_ref state)
              | _ \<Rightarrow> Some (RunStoredDataRef (rs_execution_budget_profile_ref state)))
          in if expected \<noteq> Some ref then Inl (ValueError ''BUDGET exact run-state binding mismatch'')
             else Inr profile)))"

definition active_execution :: "string \<Rightarrow> contract_record \<Rightarrow> execution_profile res" where
  "active_execution analysis profile =
     (case profile of
        ExecutionBudgetProfile p \<Rightarrow>
          if id_text (meta_analysis (ep_meta p)) \<noteq> analysis \<or> ep_status p \<noteq> ACTIVE
          then Inl (ValueError ''BUDGET unavailable: ACTIVE execution profile required'')
          else Inr p
      | _ \<Rightarrow> Inl (ValueError ''BUDGET unavailable: ACTIVE execution profile required''))"

text \<open>
  \<open>execution\<close> on a run-scoped reference.  A binding is never selected by such a reference, because
  the run state names its binding by a \<open>StoredDataRef\<close>, so the recursion of the source ends here.
\<close>

definition run_execution :: "sdb \<Rightarrow> run_ref \<Rightarrow> string \<Rightarrow> execution_profile res" where
  "run_execution d ref analysis =
     bindR (pinned_profile d (RunStoredDataRef ref) analysis) (active_execution analysis)"

definition scope_of :: "record_metadata \<Rightarrow> string option \<times> string option \<times> string option" where
  "scope_of m = (meta_analysis m, meta_workspace m, meta_commit m)"

definition bound_profile ::
  "sdb \<Rightarrow> budget_binding \<Rightarrow> stored_ref \<Rightarrow> (contract_record \<Rightarrow> (profile_status \<times> purpose option) option) \<Rightarrow> unit res"
  where
  "bound_profile d b ref expected =
     bindR (resolve False d (StoredDataRef ref)) (\<lambda>profile.
       case expected profile of
         None \<Rightarrow> Inl (ValueError ''BUDGET requires all ACTIVE exact profiles'')
       | Some (status, purpose) \<Rightarrow>
           if status \<noteq> ACTIVE then Inl (ValueError ''BUDGET requires all ACTIVE exact profiles'')
           else if scope_of (record_meta profile) \<noteq> scope_of (bb_meta b)
           then Inl (ValueError ''BUDGET profile scope mismatch'')
           else raise_if (purpose \<noteq> None \<and> purpose \<noteq> Some (bb_purpose b))
                  (ValueError ''BUDGET purpose mismatch''))"

definition validate_binding :: "sdb \<Rightarrow> budget_binding \<Rightarrow> unit res" where
  "validate_binding d b =
     (if bb_status b \<noteq> ACTIVE then Inl (ValueError ''BUDGET requires full ACTIVE binding'')
      else
        bindR (run_execution d (bb_execution_budget_profile_ref b)
                 (id_text (meta_analysis (bb_meta b)))) (\<lambda>execution.
          seqR
            [raise_if (ep_purpose execution \<noteq> bb_purpose b) (ValueError ''BUDGET purpose mismatch''),
             bound_profile d b (bb_work_budget_profile_ref b)
               (\<lambda>p. case p of WorkBudgetProfile x \<Rightarrow> Some (wp_status x, Some (wp_purpose x)) | _ \<Rightarrow> None),
             bound_profile d b (bb_verification_budget_profile_ref b)
               (\<lambda>p. case p of VerificationBudgetProfile x \<Rightarrow> Some (vp_status x, None) | _ \<Rightarrow> None),
             bound_profile d b (bb_dynamic_lifecycle_profile_ref b)
               (\<lambda>p. case p of DynamicLifecycleProfile x \<Rightarrow> Some (dp_status x, None) | _ \<Rightarrow> None)]))"

definition execution :: "sdb \<Rightarrow> record_ref \<Rightarrow> string \<Rightarrow> execution_profile res" where
  "execution d ref analysis =
     bindR (pinned_profile d ref analysis) (\<lambda>profile.
       case profile of
         BudgetProfileBinding b \<Rightarrow>
           bindR (validate_binding d b) (\<lambda>_.
             run_execution d (bb_execution_budget_profile_ref b) analysis)
       | _ \<Rightarrow> active_execution analysis profile)"

text \<open>The equation of the source: the nested call is \<open>execution\<close> itself.\<close>

lemma execution_run: "execution d (RunStoredDataRef ref) analysis = run_execution d ref analysis"
proof -
  have "\<not> (\<exists>b. pinned_profile d (RunStoredDataRef ref) analysis = Inr (BudgetProfileBinding b))"
    by (auto simp: pinned_profile_def Let_def split: if_splits)
  then show ?thesis
    by (cases "pinned_profile d (RunStoredDataRef ref) analysis")
       (auto simp: execution_def run_execution_def split: contract_record.splits)
qed

section \<open>Operations and allowances\<close>

definition EXTERNAL_ACTIONS :: "action_type set" where
  "EXTERNAL_ACTIONS = {READ_CODE, RUN_TOOL, CALL_LLM, FETCH_POLICY, RUN_SANDBOX, CALL_TECHNICAL_GATE,
     CALL_RULE_SCOPE_GATE, CREATE_REPORT_DRAFT}"

definition LOCAL_MANUAL_REPAIR_ATTEMPTS :: nat where
  "LOCAL_MANUAL_REPAIR_ATTEMPTS = 11"

definition LOCAL_MANUAL_REPAIR_CALLS :: nat where
  "LOCAL_MANUAL_REPAIR_CALLS = 12"

definition allows_local_manual_repair_scope ::
  "purpose \<Rightarrow> work_status \<Rightarrow> string option \<Rightarrow> attempt_trigger option \<Rightarrow> bool" where
  "allows_local_manual_repair_scope purpose work_status transition_cause attempt_trigger =
     (if purpose \<noteq> LOCAL_EVALUATION then False
      else if work_status \<in> {W_BLOCKED, W_FAILED} then True
      else if work_status = W_READY then transition_cause = Some ''USER_RESUME''
      else work_status = W_RUNNING \<and> attempt_trigger \<in> {Some TRIGGER_RESUME, Some TRIGGER_RETRY})"

definition allows_local_manual_repair_attempt ::
  "purpose \<Rightarrow> action_type \<Rightarrow> string \<Rightarrow> work_status \<Rightarrow> string option \<Rightarrow> attempt_trigger option \<Rightarrow> bool"
  where
  "allows_local_manual_repair_attempt purpose action_type action_reason work_status transition_cause
     attempt_trigger =
     (if purpose \<noteq> LOCAL_EVALUATION \<or> action_type \<noteq> START_ATTEMPT
         \<or> action_reason \<noteq> ''Claim exact READY work'' then False
      else allows_local_manual_repair_scope purpose work_status transition_cause attempt_trigger)"

definition local_manual_repair_call_allowance ::
  "purpose \<Rightarrow> action_type \<Rightarrow> work_status \<Rightarrow> string option \<Rightarrow> attempt_trigger option \<Rightarrow> nat" where
  "local_manual_repair_call_allowance purpose action_type work_status transition_cause attempt_trigger =
     (if action_type \<notin> EXTERNAL_ACTIONS then 0
      else if \<not> allows_local_manual_repair_scope purpose work_status transition_cause attempt_trigger
      then 0
      else LOCAL_MANUAL_REPAIR_CALLS)"

definition operation :: "work_type \<Rightarrow> action_request \<Rightarrow> operation_kind \<times> budget_role option" where
  "operation work_type action =
     (if work_type = WT_POLICY_FETCH \<and> ar_requested_by action = RQ_POLICY_PARSER
      then (OP_POLICY_PARSE, Some BR_POLICY_PARSER)
      else WORK_OPERATIONS work_type)"

text \<open>What \<open>check_hierarchy\<close> and \<open>validate_operation\<close> both read about the current work.\<close>

definition transition_cause :: "sdb \<Rightarrow> work \<Rightarrow> string option res" where
  "transition_cause d w =
     (case wk_last_transition_ref w of
        None \<Rightarrow> Inr None
      | Some ref \<Rightarrow>
          bindR (resolve True d ref) (\<lambda>t.
            Inr (case t of StateTransition x \<Rightarrow> Some (tr_cause x) | _ \<Rightarrow> None)))"

definition attempt_trigger_of :: "sdb \<Rightarrow> work \<Rightarrow> attempt_trigger option" where
  "attempt_trigger_of d w =
     Option.bind (wk_active_attempt_id w) (\<lambda>a.
       map_option (wa_trigger \<circ> aw_payload) (tbl_lookup aw_attempt_id (sd_attempts d) a))"

section \<open>The verification tree\<close>

fun stored_work_id :: "contract_record \<Rightarrow> string" where
  "stored_work_id (WorkExecutionState w) = wk_work_id w"
| "stored_work_id _ = []"

text \<open>
  \<open>verification_root\<close>: the nearest \<open>VERIFICATION\<close> ancestor, following parent references until none
  is left; a cycle is an error, found by the work ids already seen.
\<close>

function verification_root_from :: "sdb \<Rightarrow> string list \<Rightarrow> work \<Rightarrow> string option res" where
  "verification_root_from d seen w =
     (if wk_work_id w \<in> set seen then Inl (ValueError ''BUDGET cyclic work ancestry'')
      else if wk_work_type w = WT_VERIFICATION then Inr (Some (wk_work_id w))
      else case wk_parent_work_ref w of
        None \<Rightarrow> Inr None
      | Some ref \<Rightarrow>
          (case resolve False d ref of
             Inl e \<Rightarrow> Inl e
           | Inr (WorkExecutionState parent) \<Rightarrow>
               verification_root_from d (wk_work_id w # seen) parent
           | Inr _ \<Rightarrow> Inl (ValueError ''BUDGET invalid verification ancestor'')))"
  by pat_completeness auto
termination
proof (relation "measure (\<lambda>(d, seen, w).
    card (insert (wk_work_id w) (stored_work_id ` ro_record ` set (sd_records d)) - set seen))",
    simp, goal_cases)
  case (1 d seen w ref r parent)
  let ?ids = "stored_work_id ` ro_record ` set (sd_records d)"
  have "WorkExecutionState parent \<in> ro_record ` set (sd_records d)"
    using resolve_mem [of False d ref] 1(4,5) by simp
  then have "wk_work_id parent \<in> ?ids" by (rule rev_image_eqI) simp
  then have "insert (wk_work_id parent) ?ids - set (wk_work_id w # seen)
      \<subset> insert (wk_work_id w) ?ids - set seen"
    using 1(1) by auto
  then show ?case by (auto intro!: psubset_card_mono)
qed

declare verification_root_from.simps [simp del]

definition verification_root :: "sdb \<Rightarrow> work \<Rightarrow> string option res" where
  "verification_root d w = verification_root_from d [] w"

end
