(* ===== verification/Budget_Service.thy ===== *)
theory Budget_Service
  imports Budget_Registry
begin

text \<open>
  \<open>check_hierarchy\<close> of \<open>storage/budget_hierarchy.py\<close> and \<open>storage/budget_service.py\<close>: admission of
  an operation against the budget, the reservation, the commit of its usage and its release.

  The trusted evidence the host injects (\<open>ports/trusted_evidence.py\<close>) is a parameter, and so are the
  identifier and the times that \<open>ids.new\<close> and \<open>clock.now\<close> answer.
\<close>

record evidence =
  ev_pricing :: "execution_profile \<Rightarrow> bool"
  ev_item_count :: "action_request \<Rightarrow> work \<Rightarrow> int option"

record budget_stamp =
  bs_record_id :: string
  bs_created_at :: int
  bs_finalized_at :: int

section \<open>Sums over reservations\<close>

text \<open>The rows of an analysis that are not released, without the reservation under decision.\<close>

definition live_rows :: "sdb \<Rightarrow> string \<Rightarrow> string \<Rightarrow> reservation_row list" where
  "live_rows d analysis except =
     filter (\<lambda>row. rw_analysis_id row = analysis \<and> rw_status row \<noteq> RELEASED
                   \<and> br_reservation_id (rw_payload row) \<noteq> except) (sd_reservations d)"

definition total :: "(budget_units \<Rightarrow> nat) \<Rightarrow> budget_units list \<Rightarrow> nat" where
  "total f us = sum_list (map f us)"

section \<open>Capacity\<close>

definition profile_units :: "execution_profile \<Rightarrow> budget_units" where
  "profile_units p =
     \<lparr>bu_elapsed_ms = ep_max_analysis_elapsed_ms p, bu_work_count = ep_max_total_work p,
      bu_llm_call_count = ep_max_total_llm_calls p, bu_retry_count = ep_max_total_retries p,
      bu_cost_minor_units = ep_max_total_cost_minor_units p, bu_currency = ep_currency p\<rparr>"

definition reserved_rows :: "sdb \<Rightarrow> string \<Rightarrow> reservation_row list" where
  "reserved_rows d analysis =
     filter (\<lambda>row. rw_analysis_id row = analysis \<and> rw_status row = RESERVED) (sd_reservations d)"

definition ledger_entries :: "sdb \<Rightarrow> string \<Rightarrow> ledger_entry list" where
  "ledger_entries d analysis =
     map lw_payload (filter (\<lambda>row. lw_analysis_id row = analysis) (sd_ledger d))"

definition used_units :: "sdb \<Rightarrow> string \<Rightarrow> string option \<Rightarrow> budget_units list" where
  "used_units d analysis except =
     map br_requested_units
       (filter (\<lambda>r. Some (br_reservation_id r) \<noteq> except) (map rw_payload (reserved_rows d analysis)))
     @ map bl_actual_units (ledger_entries d analysis)"

definition as_of_sequence :: "sdb \<Rightarrow> string \<Rightarrow> nat" where
  "as_of_sequence d analysis = fold max (map bl_sequence (ledger_entries d analysis)) 0"

text \<open>
  \<open>available\<close>: \<open>max(0, limit - sum(...))\<close> for every unit is subtraction on \<^typ>\<open>nat\<close>.
\<close>

definition available :: "sdb \<Rightarrow> record_ref \<Rightarrow> string \<Rightarrow> string option \<Rightarrow> budget_remaining res" where
  "available d scope analysis except =
     bindR (execution d scope analysis) (\<lambda>profile.
       let used = used_units d analysis except; limits = profile_units profile;
           units = \<lparr>bu_elapsed_ms = bu_elapsed_ms limits - total bu_elapsed_ms used,
                    bu_work_count = bu_work_count limits - total bu_work_count used,
                    bu_llm_call_count = bu_llm_call_count limits - total bu_llm_call_count used,
                    bu_retry_count = bu_retry_count limits - total bu_retry_count used,
                    bu_cost_minor_units = bu_cost_minor_units limits - total bu_cost_minor_units used,
                    bu_currency = bu_currency limits\<rparr>
       in bindR (check_fields (budget_units_ok units)) (\<lambda>_.
          bindR (validate_budget_scope scope None) (\<lambda>_.
          Inr \<lparr>bm_budget_binding_ref = scope, bm_as_of_sequence = as_of_sequence d analysis,
               bm_available_units = units,
               bm_active_reservation_count = length (reserved_rows d analysis)\<rparr>)))"

definition exceeds :: "budget_units \<Rightarrow> budget_units \<Rightarrow> bool" where
  "exceeds requested units \<longleftrightarrow> (\<exists>f \<in> set UNIT_FIELDS. f requested > f units)"

section \<open>The verification tree\<close>

record tally =
  ta_scope_units :: "budget_units list"
  ta_work_units :: "budget_units list"
  ta_attempts :: nat
  ta_evidence_calls :: nat

definition evidence_work :: "work \<Rightarrow> bool" where
  "evidence_work w \<longleftrightarrow> wk_work_type w \<in> {WT_PRO_EVIDENCE, WT_CON_EVIDENCE}"

definition is_action :: "action_type set \<Rightarrow> contract_record \<Rightarrow> bool" where
  "is_action kinds r = (case r of ActionRequest a \<Rightarrow> ar_action_type a \<in> kinds | _ \<Rightarrow> False)"

text \<open>The work of a reservation: \<open>assert isinstance(other_work, WorkExecutionState)\<close>.\<close>

definition asserted_work :: "contract_record \<Rightarrow> work res" where
  "asserted_work r = (case r of WorkExecutionState w \<Rightarrow> Inr w | _ \<Rightarrow> Inl (AssertionError []))"

text \<open>\<open>entry.actual_units\<close> once the usage is committed, the request before that.\<close>

definition charged_units :: "sdb \<Rightarrow> reservation \<Rightarrow> budget_units res" where
  "charged_units d other =
     (case br_ledger_entry_ref other of
        None \<Rightarrow> Inr (br_requested_units other)
      | Some ref \<Rightarrow>
          bindR (resolve False d ref) (\<lambda>entry.
            case entry of
              BudgetLedgerEntry e \<Rightarrow> Inr (bl_actual_units e)
            | _ \<Rightarrow> Inl (AssertionError [])))"

definition tally_step :: "sdb \<Rightarrow> work \<Rightarrow> string option \<Rightarrow> tally \<Rightarrow> reservation_row \<Rightarrow> tally res" where
  "tally_step d w root t row =
     (let other = rw_payload row in
      bindR (resolve True d (br_work_ref other)) (\<lambda>r.
      bindR (asserted_work r) (\<lambda>other_work.
      bindR (resolve False d (br_action_ref other)) (\<lambda>other_action.
      bindR (if ta_evidence_calls t > 0 \<and> br_status other = RESERVED \<and> evidence_work other_work
             then bindR (verification_root d other_work) (\<lambda>other_root.
                    Inr (other_root = root \<and> is_action EXTERNAL_ACTIONS other_action))
             else Inr False) (\<lambda>call.
      bindR (charged_units d other) (\<lambda>units.
      bindR (if root \<noteq> None
             then bindR (verification_root d other_work) (\<lambda>other_root. Inr (other_root = root))
             else Inr False) (\<lambda>scoped.
        let same_work = (wk_work_id other_work = wk_work_id w) in
        Inr (t\<lparr>ta_evidence_calls := ta_evidence_calls t + (if call then 1 else 0),
               ta_scope_units := ta_scope_units t @ (if scoped then [units] else []),
               ta_work_units := ta_work_units t @ (if same_work then [units] else []),
               ta_attempts := ta_attempts t +
                 (if same_work \<and> is_action {START_ATTEMPT} other_action then 1 else 0)\<rparr>))))))))"

definition tally_start :: "reservation \<Rightarrow> work \<Rightarrow> action_request \<Rightarrow> tally" where
  "tally_start r w a =
     \<lparr>ta_scope_units = [br_requested_units r], ta_work_units = [br_requested_units r],
      ta_attempts = (if ar_action_type a = START_ATTEMPT then 1 else 0),
      ta_evidence_calls = (if evidence_work w \<and> ar_action_type a \<in> EXTERNAL_ACTIONS then 1 else 0)\<rparr>"

definition tally_limits ::
  "verification_profile \<Rightarrow> dynamic_profile \<Rightarrow> string option \<Rightarrow> work \<Rightarrow> nat \<Rightarrow> tally \<Rightarrow> unit res" where
  "tally_limits profile dynamic root w extra t =
     seqR
       [raise_if (root \<noteq> None \<and> total bu_work_count (ta_scope_units t) > vp_max_work_per_verification profile)
          (ValueError ''BUDGET_EXCEEDED: Verification work_count''),
        raise_if (root \<noteq> None \<and> total bu_elapsed_ms (ta_scope_units t) > vp_max_verification_elapsed_ms profile)
          (ValueError ''BUDGET_EXCEEDED: Verification elapsed_ms''),
        raise_if (root \<noteq> None \<and> total bu_llm_call_count (ta_scope_units t)
                                  > vp_max_llm_calls_per_verification profile)
          (ValueError ''BUDGET_EXCEEDED: Verification llm_call_count''),
        raise_if (root \<noteq> None \<and> total bu_retry_count (ta_work_units t)
                                  > vp_max_retries_per_work profile + extra)
          (ValueError ''BUDGET_EXCEEDED: retries per work''),
        raise_if (ta_evidence_calls t > vp_max_parallel_evidence_calls profile)
          (ValueError ''BUDGET_EXCEEDED: parallel evidence calls''),
        raise_if (wk_work_type w = WT_DYNAMIC_REPRO
                  \<and> ta_attempts t > dp_max_new_attempts dynamic + 1 + extra)
          (ValueError ''BUDGET_EXCEEDED: dynamic attempts'')]"

definition preflight_check ::
  "sdb \<Rightarrow> reservation \<Rightarrow> work \<Rightarrow> action_request \<Rightarrow> budget_binding \<Rightarrow> dynamic_profile \<Rightarrow> tally \<Rightarrow> unit res" where
  "preflight_check d r w a b dynamic t =
     (if wk_work_type w \<noteq> WT_DYNAMIC_REPRO then Inr ()
      else
        bindR (resolve False d (StoredDataRef (dp_preflight_budget_ref dynamic))) (\<lambda>preflight.
          case preflight of
            WorkBudgetProfile p \<Rightarrow>
              if dp_preflight_budget_ref dynamic \<noteq> bb_work_budget_profile_ref b
                 \<or> dp_preflight_budget_source dynamic \<noteq> ''WORK_REMAINING_TIME''
              then Inl (ValueError ''BLOCKED waiting_for=BUDGET: preflight evidence unavailable'')
              else
                (case operation (wk_work_type w) a of
                   (kind, role) \<Rightarrow>
                     bindR (select_work_limit p (wk_work_type w) kind role) (\<lambda>limit.
                       case wl_timeout_ms limit of
                         None \<Rightarrow> Inl (ValueError ''BLOCKED waiting_for=BUDGET: work timeout unavailable'')
                       | Some work_maximum \<Rightarrow>
                           let previous_elapsed = total bu_elapsed_ms (tl (ta_work_units t)) in
                           raise_if (previous_elapsed \<ge> work_maximum
                                     \<or> bu_elapsed_ms (br_requested_units r)
                                        > work_maximum - previous_elapsed)
                             (ValueError ''BUDGET_EXCEEDED: dynamic remaining time'')))
          | _ \<Rightarrow> Inl (ValueError ''BLOCKED waiting_for=BUDGET: preflight evidence unavailable'')))"

definition repair_extra :: "sdb \<Rightarrow> work \<Rightarrow> nat res" where
  "repair_extra d w =
     bindR (transition_cause d w) (\<lambda>cause.
     bindR (get_run d (id_text (meta_analysis (wk_meta w)))) (\<lambda>run.
       Inr (if allows_local_manual_repair_scope (rs_purpose run) (wk_status w) cause
                 (attempt_trigger_of d w)
            then LOCAL_MANUAL_REPAIR_ATTEMPTS else 0)))"

definition check_hierarchy ::
  "sdb \<Rightarrow> reservation \<Rightarrow> work \<Rightarrow> action_request \<Rightarrow> budget_binding \<Rightarrow> unit res" where
  "check_hierarchy d r w a b =
     bindR (verification_root d w) (\<lambda>root.
     bindR (resolve False d (StoredDataRef (bb_verification_budget_profile_ref b))) (\<lambda>profile.
     bindR (resolve False d (StoredDataRef (bb_dynamic_lifecycle_profile_ref b))) (\<lambda>dynamic.
       case (profile, dynamic) of
         (VerificationBudgetProfile vp, DynamicLifecycleProfile dp) \<Rightarrow>
           bindR (repair_extra d w) (\<lambda>extra.
           bindR (foldR (tally_step d w root) (tally_start r w a)
                    (live_rows d (id_text (meta_analysis (wk_meta w))) (br_reservation_id r))) (\<lambda>t.
           bindR (tally_limits vp dp root w extra t) (\<lambda>_.
             preflight_check d r w a b dp t)))
       | _ \<Rightarrow> Inl (AssertionError []))))"

section \<open>Admission of an operation\<close>

abbreviation work_analysis :: "work \<Rightarrow> string" where
  "work_analysis w \<equiv> id_text (meta_analysis (wk_meta w))"

definition capacity_check :: "sdb \<Rightarrow> reservation \<Rightarrow> work \<Rightarrow> action_request \<Rightarrow> unit res" where
  "capacity_check d r w a =
     bindR (available d (br_budget_binding_ref r) (work_analysis w) (Some (br_reservation_id r)))
       (\<lambda>remaining.
        let units = bm_available_units remaining in
        seqR
          [raise_if (exceeds (br_requested_units r) units)
             (ValueError ''BUDGET_EXCEEDED: requested capacity no longer fits''),
           raise_if (ar_action_type a \<in> {REGISTER_WORK, START_ATTEMPT}
                     \<and> (\<exists>f \<in> {bu_elapsed_ms, bu_cost_minor_units, bu_llm_call_count, bu_work_count}.
                          f units = 0))
             (ValueError ''BUDGET_EXCEEDED: executable capacity exhausted'')])"

definition external_check :: "evidence \<Rightarrow> sdb \<Rightarrow> reservation \<Rightarrow> work \<Rightarrow> action_request \<Rightarrow> unit res" where
  "external_check ev d r w a =
     (if ar_action_type a \<notin> EXTERNAL_ACTIONS then Inr ()
      else
        bindR (execution d (br_budget_binding_ref r) (work_analysis w)) (\<lambda>execution_profile.
        bindR (available d (br_budget_binding_ref r) (work_analysis w) (Some (br_reservation_id r)))
          (\<lambda>remaining.
           let applicable = [bu_elapsed_ms, bu_cost_minor_units] @
                 (if ar_action_type a \<in> {CALL_LLM, CALL_TECHNICAL_GATE, CALL_RULE_SCOPE_GATE,
                                         CREATE_REPORT_DRAFT} then [bu_llm_call_count] else [])
           in seqR
             [raise_if (\<exists>f \<in> set applicable. f (bm_available_units remaining) = 0)
                (ValueError ''BUDGET_EXCEEDED: execution capacity exhausted''),
              raise_if (\<not> ev_pricing ev execution_profile
                        \<or> (\<exists>f \<in> set applicable. f (br_requested_units r) = 0))
                (ValueError ''BLOCKED waiting_for=BUDGET: positive execution/pricing proof required'')])))"

text \<open>Items already admitted for the same work, on top of the ones asked for now.\<close>

definition item_step :: "sdb \<Rightarrow> work \<Rightarrow> int \<Rightarrow> reservation_row \<Rightarrow> int res" where
  "item_step d w admitted row =
     bindR (resolve True d (br_work_ref (rw_payload row))) (\<lambda>prior_work.
       case prior_work of
         WorkExecutionState p \<Rightarrow>
           if wk_work_id p = wk_work_id w then
             (case rw_item_count row of
                None \<Rightarrow> Inl (ValueError ''BLOCKED waiting_for=BUDGET: item history unproven'')
              | Some n \<Rightarrow> Inr (admitted + n))
           else Inr admitted
       | _ \<Rightarrow> Inr admitted)"

definition item_check :: "evidence \<Rightarrow> sdb \<Rightarrow> reservation \<Rightarrow> work \<Rightarrow> action_request \<Rightarrow> work_limit \<Rightarrow> unit res" where
  "item_check ev d r w a limit =
     (case (wl_max_items_per_work limit, ev_item_count ev a w) of
        (Some max_items, Some count_items) \<Rightarrow>
          if count_items < 0
          then Inl (ValueError ''BLOCKED waiting_for=BUDGET: trusted item admission unavailable'')
          else if count_items > int max_items then Inl (ValueError ''BUDGET_EXCEEDED: work items'')
          else
            bindR (foldR (item_step d w) count_items
                     (filter (\<lambda>row. rw_analysis_id row = work_analysis w \<and> rw_status row \<noteq> RELEASED
                                    \<and> rw_reservation_id row \<noteq> br_reservation_id r)
                        (sd_reservations d)))
              (\<lambda>admitted. raise_if (admitted > int max_items)
                 (ValueError ''BUDGET_EXCEEDED: cumulative work items''))
      | _ \<Rightarrow> Inl (ValueError ''BLOCKED waiting_for=BUDGET: trusted item admission unavailable''))"

text \<open>The limit that applies to the operation, and the action kinds it counts.\<close>

definition operation_ceiling :: "work_limit \<Rightarrow> action_type \<Rightarrow> nat option \<times> action_type set" where
  "operation_ceiling limit t =
     (if t = START_ATTEMPT then (wl_max_attempts limit, {START_ATTEMPT})
      else if t \<in> {RUN_TOOL, CALL_LLM, FETCH_POLICY, RUN_SANDBOX, READ_CODE, CALL_TECHNICAL_GATE,
                   CALL_RULE_SCOPE_GATE, CREATE_REPORT_DRAFT}
      then (wl_max_calls_per_work limit,
            {RUN_TOOL, CALL_LLM, FETCH_POLICY, RUN_SANDBOX, READ_CODE, CALL_TECHNICAL_GATE,
             CALL_RULE_SCOPE_GATE, CREATE_REPORT_DRAFT})
      else (None, {}))"

definition repaired_ceiling :: "sdb \<Rightarrow> work \<Rightarrow> action_request \<Rightarrow> nat option \<Rightarrow> nat option res" where
  "repaired_ceiling d w a ceiling =
     bindR (transition_cause d w) (\<lambda>cause.
     bindR (get_run d (work_analysis w)) (\<lambda>run.
       Inr (map_option (\<lambda>n.
              if ar_action_type a = START_ATTEMPT then
                n + (if allows_local_manual_repair_attempt (rs_purpose run) (ar_action_type a)
                          (ar_reason a) (wk_status w) cause None
                     then LOCAL_MANUAL_REPAIR_ATTEMPTS else 0)
              else
                n + local_manual_repair_call_allowance (rs_purpose run) (ar_action_type a) (wk_status w)
                      cause (attempt_trigger_of d w)) ceiling)))"

definition same_operation :: "sdb \<Rightarrow> work \<Rightarrow> action_type set \<Rightarrow> nat \<Rightarrow> reservation_row \<Rightarrow> nat res" where
  "same_operation d w kinds n row =
     bindR (resolve True d (br_work_ref (rw_payload row))) (\<lambda>other_work.
     bindR (resolve False d (br_action_ref (rw_payload row))) (\<lambda>other_action.
       Inr (case other_work of
              WorkExecutionState p \<Rightarrow>
                if wk_work_id p = wk_work_id w \<and> is_action kinds other_action then n + 1 else n
            | _ \<Rightarrow> n)))"

definition operation_check :: "sdb \<Rightarrow> reservation \<Rightarrow> work \<Rightarrow> action_request \<Rightarrow> work_limit \<Rightarrow> unit res" where
  "operation_check d r w a limit =
     (case operation_ceiling limit (ar_action_type a) of
        (ceiling0, kinds) \<Rightarrow>
          bindR (repaired_ceiling d w a ceiling0) (\<lambda>ceiling.
          bindR (if kinds = {} then Inr ()
                 else case ceiling of
                   None \<Rightarrow> Inl (ValueError ''BUDGET unavailable: operation limit is unspecified'')
                 | Some n \<Rightarrow>
                     bindR (foldR (same_operation d w kinds) 0
                              (live_rows d (work_analysis w) (br_reservation_id r)))
                       (\<lambda>count. raise_if (count \<ge> n)
                          (ValueError ''BUDGET_EXCEEDED: work operation limit''))) (\<lambda>_.
            raise_if (case wl_timeout_ms limit of
                        None \<Rightarrow> False | Some m \<Rightarrow> bu_elapsed_ms (br_requested_units r) > m)
              (ValueError ''BUDGET_EXCEEDED: work timeout''))))"

definition validate_operation ::
  "evidence \<Rightarrow> sdb \<Rightarrow> reservation \<Rightarrow> work \<Rightarrow> action_request \<Rightarrow> unit res" where
  "validate_operation ev d r w a =
     bindR (capacity_check d r w a) (\<lambda>_.
     bindR (resolve False d (br_budget_binding_ref r)) (\<lambda>scope.
     bindR (case scope of
              BudgetProfileBinding b \<Rightarrow>
                bindR (validate_binding d b) (\<lambda>_. check_hierarchy d r w a b)
            | _ \<Rightarrow> Inr ()) (\<lambda>_.
     bindR (external_check ev d r w a) (\<lambda>_.
       case scope of
         BudgetProfileBinding b \<Rightarrow>
           if wk_work_type w = WT_WORKSPACE_PREP
           then Inl (ValueError ''BUDGET bootstrap requires run execution profile'')
           else
             bindR (resolve False d (StoredDataRef (bb_work_budget_profile_ref b))) (\<lambda>profile.
               case profile of
                 WorkBudgetProfile p \<Rightarrow>
                   (case operation (wk_work_type w) a of
                      (kind, role) \<Rightarrow>
                        bindR (select_work_limit p (wk_work_type w) kind role) (\<lambda>limit.
                        bindR (item_check ev d r w a limit) (\<lambda>_.
                          operation_check d r w a limit)))
               | _ \<Rightarrow> Inl (AssertionError []))
       | _ \<Rightarrow>
           if wk_work_type w = WT_WORKSPACE_PREP then Inr ()
           else Inl (ValueError ''BUDGET requires full ACTIVE binding'')))))"

section \<open>Reservations\<close>

definition insert_reservation :: "reservation_row \<Rightarrow> unit stx" where
  "insert_reservation row d =
     (if tbl_lookup rw_reservation_id (sd_reservations d) (rw_reservation_id row) \<noteq> None
      then Inl (SqliteError ''UNIQUE constraint failed: budget_reservations.reservation_id'')
      else if tbl_lookup rw_action_id (sd_reservations d) (rw_action_id row) \<noteq> None
      then Inl (SqliteError ''UNIQUE constraint failed: budget_reservations.action_id'')
      else Inr ((), d\<lparr>sd_reservations := sd_reservations d @ [row]\<rparr>))"

definition reserve_new :: "evidence \<Rightarrow> reservation \<Rightarrow> reservation stx" where
  "reserve_new ev r d =
     (if br_status r \<noteq> RESERVED then Inl (ValueError ''New reservation must be RESERVED'')
      else
        bindR (resolve True d (br_work_ref r)) (\<lambda>work_record.
        bindR (resolve True d (br_action_ref r)) (\<lambda>action_record.
          case work_record of
            WorkExecutionState w \<Rightarrow>
              if meta_analysis (wk_meta w) \<noteq> meta_analysis (br_meta r)
                 \<or> meta_analysis (record_meta action_record) \<noteq> meta_analysis (br_meta r)
              then Inl (ValueError ''BUDGET analysis/work mismatch'')
              else
                (case action_record of
                   ActionRequest a \<Rightarrow>
                     bindR (publish (br_action_ref r) d) (\<lambda>(_, d1).
                     bindR (validate_operation ev d1 r w a) (\<lambda>_.
                     bindR (available d1 (br_budget_binding_ref r) (id_text (meta_analysis (br_meta r))) None)
                       (\<lambda>remaining.
                        if bu_currency (br_requested_units r) \<noteq> bu_currency (bm_available_units remaining)
                        then Inl (ValueError ''BUDGET currency unavailable'')
                        else if exceeds (br_requested_units r) (bm_available_units remaining)
                        then Inl (ValueError ''BUDGET_EXCEEDED'')
                        else
                          bindR (stage_publish (BudgetReservation r) d1) (\<lambda>(ref, d2).
                          bindR (insert_reservation
                                   \<lparr>rw_reservation_id = br_reservation_id r,
                                    rw_analysis_id = id_text (meta_analysis (br_meta r)),
                                    rw_action_id = id_text (ref_record_id (br_action_ref r)),
                                    rw_status = br_status r, rw_payload = r, rw_initial_ref = ref,
                                    rw_claimed = False, rw_item_count = ev_item_count ev a w\<rparr> d2)
                            (\<lambda>(_, d3). Inr (r, d3))))))
                 | _ \<Rightarrow> Inl (ValueError ''BUDGET requires exact action''))
          | _ \<Rightarrow> Inl (ValueError ''BUDGET analysis/work mismatch''))))"

definition reserve :: "evidence \<Rightarrow> reservation \<Rightarrow> reservation stx" where
  "reserve ev r d =
     bindR (validate_reservation r) (\<lambda>_.
       case tbl_lookup rw_reservation_id (sd_reservations d) (br_reservation_id r) of
         Some existing \<Rightarrow>
           bindR (resolve False d (rw_initial_ref existing)) (\<lambda>initial.
             if initial \<noteq> BudgetReservation r then Inl (ValueError ''Reservation identity mismatch'')
             else Inr (rw_payload existing, d))
       | None \<Rightarrow> reserve_new ev r d)"

definition finalize :: "reservation \<Rightarrow> reservation \<Rightarrow> unit stx" where
  "finalize previous current d =
     bindR (validate_reservation_revision previous current) (\<lambda>_.
     bindR (stage_publish (BudgetReservation current) d) (\<lambda>(_, d1).
       Inr ((), d1\<lparr>sd_reservations :=
              update_rows (\<lambda>row. rw_reservation_id row = br_reservation_id current)
                (\<lambda>row. row\<lparr>rw_status := br_status current, rw_payload := current\<rparr>)
                (sd_reservations d1)\<rparr>)))"

section \<open>Usage\<close>

definition usage_check :: "sdb \<Rightarrow> ledger_entry \<Rightarrow> record_ref \<Rightarrow> unit res" where
  "usage_check d entry usage =
     bindR (resolve False d usage) (\<lambda>resolved.
       raise_if (meta_analysis (record_meta resolved) \<noteq> meta_analysis (bl_meta entry))
         (ValueError ''Usage analysis mismatch''))"

definition ledger_entry_check :: "sdb \<Rightarrow> ledger_entry \<Rightarrow> reservation \<Rightarrow> unit res" where
  "ledger_entry_check d entry r =
     (if br_status r \<noteq> RESERVED then Inl (ValueError ''Reservation already finalized'')
      else if bl_budget_binding_ref entry \<noteq> br_budget_binding_ref r
              \<or> bl_action_ref entry \<noteq> br_action_ref r \<or> bl_work_ref entry \<noteq> br_work_ref r
      then Inl (ValueError ''Ledger scope mismatch'')
      else if meta_analysis (bl_meta entry) \<noteq> meta_analysis (br_meta r)
              \<or> bu_currency (bl_actual_units entry) \<noteq> bu_currency (br_requested_units r)
      then Inl (ValueError ''Ledger analysis/currency mismatch'')
      else
        bindR (available d (bl_budget_binding_ref entry) (id_text (meta_analysis (bl_meta entry))) None)
          (\<lambda>remaining.
           if bl_sequence entry \<noteq> bm_as_of_sequence remaining + 1
           then Inl (ValueError ''Ledger sequence must be consecutive'')
           else seqR (map (usage_check d entry) (bl_usage_refs entry))))"

definition insert_ledger :: "ledger_row \<Rightarrow> unit stx" where
  "insert_ledger row d =
     (if tbl_lookup lw_ledger_entry_id (sd_ledger d) (lw_ledger_entry_id row) \<noteq> None
      then Inl (SqliteError ''UNIQUE constraint failed: budget_ledger_entries.ledger_entry_id'')
      else if tbl_lookup lw_reservation_id (sd_ledger d) (lw_reservation_id row) \<noteq> None
      then Inl (SqliteError ''UNIQUE constraint failed: budget_ledger_entries.reservation_id'')
      else if tbl_lookup (\<lambda>e. (lw_analysis_id e, lw_sequence e)) (sd_ledger d)
                (lw_analysis_id row, lw_sequence row) \<noteq> None
      then Inl (SqliteError ''UNIQUE constraint failed: budget_ledger_entries.analysis_id, budget_ledger_entries.sequence'')
      else Inr ((), d\<lparr>sd_ledger := sd_ledger d @ [row]\<rparr>))"

definition commit_new :: "budget_stamp \<Rightarrow> ledger_entry \<Rightarrow> string \<Rightarrow> ledger_entry stx" where
  "commit_new st entry reservation_id d =
     (case tbl_lookup rw_reservation_id (sd_reservations d) reservation_id of
        None \<Rightarrow> Inl (SqliteError ''No row was found when one was required'')
      | Some row \<Rightarrow>
          let r = rw_payload row in
          bindR (ledger_entry_check d entry r) (\<lambda>_.
          bindR (stage_publish (BudgetLedgerEntry entry) d) (\<lambda>(ref, d1).
          bindR (next_meta (br_meta r) (bs_record_id st) (bs_created_at st)) (\<lambda>meta.
            let finalized = r\<lparr>br_meta := meta, br_status := COMMITTED,
                              br_finalized_at := Some (bs_finalized_at st),
                              br_ledger_entry_ref := Some ref\<rparr>
            in
          bindR (validate_reservation finalized) (\<lambda>_.
          bindR (finalize r finalized d1) (\<lambda>(_, d2).
          bindR (insert_ledger
                   \<lparr>lw_ledger_entry_id = bl_ledger_entry_id entry, lw_reservation_id = reservation_id,
                    lw_analysis_id = id_text (meta_analysis (bl_meta entry)),
                    lw_sequence = bl_sequence entry, lw_payload = entry\<rparr> d2) (\<lambda>(_, d3).
            Inr (entry, d3))))))))"

definition commit_usage :: "budget_stamp \<Rightarrow> ledger_entry \<Rightarrow> ledger_entry stx" where
  "commit_usage st entry d =
     bindR (validate_ledger_entry entry) (\<lambda>_.
     bindR (resolve False d (bl_reservation_ref entry)) (\<lambda>initial.
       case initial of
         BudgetReservation i \<Rightarrow>
           (case tbl_lookup lw_reservation_id (sd_ledger d) (br_reservation_id i) of
              Some old \<Rightarrow>
                if lw_payload old \<noteq> entry
                then Inl (ValueError ''Duplicate debit differs from committed usage'')
                else Inr (lw_payload old, d)
            | None \<Rightarrow> commit_new st entry (br_reservation_id i) d)
       | _ \<Rightarrow> Inl (ValueError ''Expected exact reservation'')))"

definition release :: "reservation \<Rightarrow> reservation stx" where
  "release r d =
     bindR (validate_reservation r) (\<lambda>_.
       case tbl_lookup rw_reservation_id (sd_reservations d) (br_reservation_id r) of
         None \<Rightarrow> Inl (SqliteError ''No row was found when one was required'')
       | Some row \<Rightarrow>
           let previous = rw_payload row in
           if br_status previous \<noteq> RESERVED then Inr (previous, d)
           else if rw_claimed row \<or> br_status r \<noteq> RELEASED
           then Inl (ValueError ''BUDGET: cannot release uncertain or used reservation'')
           else bindR (finalize previous r d) (\<lambda>(_, d1). Inr (r, d1)))"

definition remaining :: "sdb \<Rightarrow> record_ref \<Rightarrow> string \<Rightarrow> budget_remaining res" where
  "remaining d scope analysis = available d scope analysis None"

section \<open>Claiming a reservation\<close>

text \<open>
  \<open>check_reservation\<close> of \<open>storage/action_validator.py\<close>, and the budget part of \<open>claim\<close>: a claimed
  reservation can no longer be released.
\<close>

definition check_reservation ::
  "evidence \<Rightarrow> sdb \<Rightarrow> record_ref option \<Rightarrow> action_request \<Rightarrow> work \<Rightarrow> bool \<Rightarrow> reservation res" where
  "check_reservation ev d ref a w allow_claimed =
     (case ref of
        None \<Rightarrow> Inl (ValueError ''BUDGET reservation required'')
      | Some ref \<Rightarrow>
          bindR (resolve False d ref) (\<lambda>record.
            case record of
              BudgetReservation r \<Rightarrow>
                if ar_action_type a = REGISTER_WORK \<and> bu_work_count (br_requested_units r) < 1
                then Inl (ValueError ''BUDGET reservation must include the new work'')
                else if ar_action_type a \<in> {CALL_LLM, CALL_TECHNICAL_GATE, CALL_RULE_SCOPE_GATE,
                                            CREATE_REPORT_DRAFT}
                        \<and> bu_llm_call_count (br_requested_units r) < 1
                then Inl (ValueError ''BUDGET reservation must include the LLM call'')
                else if (case tbl_lookup rw_reservation_id (sd_reservations d) (br_reservation_id r) of
                           None \<Rightarrow> True
                         | Some row \<Rightarrow> rw_status row \<noteq> RESERVED \<or> (rw_claimed row \<and> \<not> allow_claimed))
                then Inl (ValueError ''BUDGET reservation is unavailable or already claimed'')
                else
                  bindR (record_reference (ActionRequest a)) (\<lambda>action_ref.
                  bindR (record_reference (WorkExecutionState w)) (\<lambda>work_ref.
                    if br_action_ref r \<noteq> action_ref \<or> br_work_ref r \<noteq> work_ref
                       \<or> meta_analysis (br_meta r) \<noteq> meta_analysis (wk_meta w)
                    then Inl (ValueError ''BUDGET reservation action/work mismatch'')
                    else
                      bindR (execution d (br_budget_binding_ref r) (work_analysis w)) (\<lambda>_.
                      bindR (validate_operation ev d r w a) (\<lambda>_. Inr r))))
            | _ \<Rightarrow> Inl (ValueError ''BUDGET reservation required'')))"

definition claim_reservation :: "evidence \<Rightarrow> record_ref option \<Rightarrow> action_request \<Rightarrow> work \<Rightarrow> unit stx" where
  "claim_reservation ev ref a w d =
     bindR (check_reservation ev d ref a w False) (\<lambda>r.
       Inr ((), d\<lparr>sd_reservations :=
              update_rows (\<lambda>row. rw_reservation_id row = br_reservation_id r)
                (\<lambda>row. row\<lparr>rw_claimed := True\<rparr>) (sd_reservations d)\<rparr>))"

end
