(* ===== verification/Record_Properties.thy ===== *)
theory Record_Properties
  imports Record_Invariant
begin

text \<open>
  Properties of the record store: what is staged resolves to the same record for ever, published
  revisions of one logical record form a single line, and \<open>is_revision_descendant\<close> decides descent
  along it.
\<close>

section \<open>References of stored records\<close>

lemma reference_fields:
  assumes "record_reference r = Inr ref"
  shows "ref_record_id ref = Some (record_id r)"
    "ref_data_kind ref = meta_record_type (record_meta r)"
    "record_hash r = Inr (ref_content_hash ref)"
  using assms
  by (cases "record_meta r"; auto simp: record_reference_def reference_def record_hash_def Let_def
      split: option.splits)+

lemma row_resolve:
  assumes ok: "store_ok d" and row: "row \<in> set (sd_records d)"
  shows "resolve True d (ro_ref row) = Inr (ro_record row)"
proof -
  have r: "row_ok row" using assms by (auto simp: store_ok_def list_all_iff)
  then have ref: "record_reference (ro_record row) = Inr (ro_ref row)" by (simp add: row_ok_def)
  note f = reference_fields [OF ref]
  have "tbl_lookup ro_record_id (sd_records d) (id_text (ref_record_id (ro_ref row))) = Some row"
    using tbl_lookup_mem [of ro_record_id "sd_records d" row] ok row row_ok_fields(1) [OF r] f(1)
    by (simp add: store_ok_def id_text_def)
  then show ?thesis using f(3) by (simp add: resolve_iff)
qed

lemma published_resolve:
  assumes ok: "store_ok d" and row: "published_row d i = Some row"
  shows "resolve False d (ro_ref row) = Inr (ro_record row)"
proof -
  have mem: "row \<in> set (sd_records d)" "ro_record_id row = i"
    using published_row_mem [OF row] by auto
  have r: "row_ok row" using ok mem by (auto simp: store_ok_def list_all_iff)
  then have ref: "record_reference (ro_record row) = Inr (ro_ref row)" by (simp add: row_ok_def)
  have "id_text (ref_record_id (ro_ref row)) = i"
    using reference_fields(1) [OF ref] row_ok_fields(1) [OF r] mem by (simp add: id_text_def)
  then show ?thesis using row reference_fields(3) [OF ref] by (simp add: resolve_iff)
qed

lemma resolve_ref:
  assumes "store_ok d" "resolve c d ref = Inr r"
  shows "record_reference r = Inr ref" and "validate_record r = Inr ()"
    "record_kind r = Some k \<Longrightarrow> ref_data_kind ref = k"
proof -
  obtain row where row: "row \<in> set (sd_records d)" "ro_record row = r" "ro_ref row = ref"
    using assms(2) by (auto elim: resolve_row)
  then have ok: "row_ok row" using assms(1) by (auto simp: store_ok_def list_all_iff)
  then show ref: "record_reference r = Inr ref" using row by (simp add: row_ok_def)
  have d: "decode_check r = Inr ()" using ok row by (auto simp: row_ok_def encode_record_def)
  then show "validate_record r = Inr ()"
    by (auto simp: decode_check_def Let_def split: if_splits)
  show "ref_data_kind ref = k" if "record_kind r = Some k"
    using d that reference_fields(2) [OF ref] by (auto simp: decode_check_def Let_def split: if_splits)
qed

text \<open>
  C25. A record that was staged can be read back by the reference \<open>stage\<close> returned: the row holds a
  record with the same canonical text, and the record itself when its identifier was new.
\<close>

theorem staged_record_resolves:
  assumes "store_ok d" "stage_record r d = Inr (ref, d')"
  shows "\<exists>r'. resolve True d' ref = Inr r' \<and> encode_record r' = encode_record r
     \<and> (record_id r \<notin> ro_record_id ` set (sd_records d) \<longrightarrow> r' = r)"
  using assms(2)
proof (cases rule: stage_cases)
  case (old row)
  have mem: "row \<in> set (sd_records d)" "ro_record_id row = record_id r"
    using tbl_lookup_Some [OF old(4)] by auto
  then have "row_ok row" using assms(1) by (auto simp: store_ok_def list_all_iff)
  then show ?thesis
    using old mem row_resolve [OF assms(1) mem(1)]
    by (auto simp: row_ok_def image_iff)
next
  case (new payload)
  have "store_ok d'" by (rule stage_ok [OF assms])
  moreover have "stored_row r payload ref \<in> set (sd_records d')" by (simp add: new(4))
  ultimately show ?thesis using row_resolve by (fastforce simp: stored_row_def Let_def)
qed

section \<open>Chains of revisions\<close>

definition published :: "sdb \<Rightarrow> contract_record \<Rightarrow> bool" where
  "published d r \<longleftrightarrow> (\<exists>row. published_row d (record_id r) = Some row \<and> ro_record row = r)"

text \<open>The specification of descent: the published predecessors of a record, itself included.\<close>

inductive descends :: "sdb \<Rightarrow> contract_record \<Rightarrow> contract_record \<Rightarrow> bool" for d where
  self: "published d r \<Longrightarrow> descends d r r"
| revised: "descends d e p \<Longrightarrow> published d c
     \<Longrightarrow> rm_previous_record_id (revision_of (record_meta c)) = Some (record_id p) \<Longrightarrow> descends d e c"

inductive_cases descends_cases: "descends d e c"

lemma published_id: "published d r \<Longrightarrow> published d q \<Longrightarrow> record_id r = record_id q \<Longrightarrow> r = q"
  unfolding published_def by (metis option.inject)

lemma descends_published: "descends d e c \<Longrightarrow> published d e \<and> published d c"
  by (induction rule: descends.induct) auto

lemma published_resolved:
  assumes "store_ok d" "resolve False d ref = Inr r"
  shows "published d r"
proof -
  have "ref_record_id ref = Some (record_id r)"
    by (rule reference_fields(1) [OF resolve_ref(1) [OF assms]])
  then show ?thesis using assms(2) by (auto simp: published_def id_text_def elim: resolve_row)
qed

lemma published_rowD:
  assumes "store_ok d" "published_row d i = Some row"
  shows "record_id (ro_record row) = i" and "published d (ro_record row)"
proof -
  have "row \<in> set (sd_records d)" "ro_record_id row = i"
    using published_row_mem [OF assms(2)] by auto
  then show "record_id (ro_record row) = i"
    using assms(1) row_ok_fields(1) [of row] by (auto simp: store_ok_def list_all_iff)
  then show "published d (ro_record row)" using assms(2) by (auto simp: published_def)
qed

lemma published_revision:
  assumes "store_ok d" "published d r"
  shows "follows_published d r"
    and "revision_row_of r \<in> set (sd_revisions d)"
    and "validate_record r = Inr ()"
proof -
  obtain row where row: "published_row d (record_id r) = Some row" "ro_record row = r"
    using assms(2) by (auto simp: published_def)
  have mem: "row \<in> set (sd_records d)" "ro_record_id row = record_id r"
    "record_id r \<in> rv_record_id ` set (sd_revisions d)"
    using published_row_mem [OF row(1)] by auto
  then obtain v where v: "v \<in> set (sd_revisions d)" "rv_record_id v = record_id r" by auto
  have rok: "row_ok row" using assms(1) mem(1) by (auto simp: store_ok_def list_all_iff)
  have "tbl_lookup ro_record_id (sd_records d) (record_id r) = Some row"
    using row(1) by (auto simp: published_row_def split: if_splits)
  then have "rv_logical_record_id v = ro_logical_record_id row" "rv_revision_number v = ro_revision_number row"
    and f: "follows_published d (ro_record row)"
    using assms(1) v by (auto simp: store_ok_def list_all_iff revision_ok_def)
  then have "v = revision_row_of r"
    using row_ok_fields(2,3) [OF rok] v(2) row(2) by (cases v) simp
  then show "revision_row_of r \<in> set (sd_revisions d)" using v(1) by simp
  show "follows_published d r" using f row(2) by simp
  show "validate_record r = Inr ()"
    using resolve_ref(2) [OF assms(1) published_resolve [OF assms(1) row(1)]] row(2) by simp
qed

lemma published_predecessor:
  assumes "store_ok d" "published d c" "rm_previous_record_id (revision_of (record_meta c)) = Some p"
  obtains row where "published_row d p = Some row"
    "validate_revision (record_meta (ro_record row)) (record_meta c) = Inr ()"
    "published d (ro_record row)" "record_id (ro_record row) = p"
  using published_revision(1) [OF assms(1,2)] assms(3) published_rowD [OF assms(1)]
  by (auto simp: follows_published_def)

lemma descends_meta:
  assumes "descends d e c" "store_ok d"
  shows "same_meta_type (record_meta e) (record_meta c)
     \<and> immutable_attributes (record_meta e) = immutable_attributes (record_meta c)
     \<and> meta_revision (record_meta e) \<le> meta_revision (record_meta c)"
  using assms(1)
proof induction
  case (self r)
  then show ?case by (cases "record_meta r") auto
next
  case (revised e p c)
  have "validate_revision (record_meta p) (record_meta c) = Inr ()"
    using published_predecessor [OF assms(2) revised(2,3)] published_id descends_published [OF revised(1)]
    by metis
  then show ?case
    using revised.IH
    by (cases "record_meta e"; cases "record_meta p"; cases "record_meta c")
       (auto simp: validate_revision_ok)
qed

lemma walk_decides:
  assumes "store_ok d" "published d current"
    and "\<forall>v \<in> set visited. \<exists>x. published d x \<and> record_id x = v
           \<and> meta_revision (record_meta current) < meta_revision (record_meta x)"
  shows "\<exists>found. revision_walk d stop visited current = Inr found
     \<and> (case found of
          Some r \<Rightarrow> record_id r = stop \<and> descends d r current
        | None \<Rightarrow> \<not> (\<exists>e. record_id e = stop \<and> descends d e current))"
  using assms
proof (induction d stop visited current rule: revision_walk.induct)
  case (1 d stop visited current)
  note ok = 1(2) and pub = 1(3) and seen = 1(4)
  have fresh: "record_id current \<notin> set visited"
    using seen published_id [OF pub] by fastforce
  show ?case
  proof (cases "record_id current = stop")
    case True
    then show ?thesis using pub by (simp add: revision_walk.simps descends.self)
  next
    case stop: False
    show ?thesis
    proof (cases "rm_previous_record_id (revision_of (record_meta current))")
      case None
      then show ?thesis using stop fresh
        by (auto simp: revision_walk.simps [of d stop visited current] elim: descends_cases)
    next
      case (Some p)
      obtain row where row: "published_row d p = Some row" "published d (ro_record row)"
        "validate_revision (record_meta (ro_record row)) (record_meta current) = Inr ()"
        "record_id (ro_record row) = p"
        by (rule published_predecessor [OF ok pub Some])
      have walk: "revision_walk d stop visited current
          = revision_walk d stop (record_id current # visited) (ro_record row)"
        using stop fresh Some row(1,3) by (simp add: revision_walk.simps [of d stop visited current])
      have less: "meta_revision (record_meta (ro_record row)) < meta_revision (record_meta current)"
        using row(3) by (simp add: validate_revision_ok)
      have "\<forall>v \<in> set (record_id current # visited). \<exists>x. published d x \<and> record_id x = v
          \<and> meta_revision (record_meta (ro_record row)) < meta_revision (record_meta x)"
        using seen less pub by fastforce
      note IH = 1(1) [OF stop fresh Some row(1,3) ok row(2) this]
      have up: "descends d e current \<longleftrightarrow> descends d e (ro_record row)" if "record_id e = stop" for e
      proof
        assume "descends d e current"
        then show "descends d e (ro_record row)"
        proof (cases rule: descends.cases)
          case (revised q)
          then have "q = ro_record row"
            using Some row(2,4) descends_published published_id by (metis option.inject)
          then show ?thesis using revised by simp
        qed (use that stop in simp)
      next
        assume "descends d e (ro_record row)"
        then show "descends d e current" using descends.revised [OF _ pub] Some row(4) by simp
      qed
      obtain found where "revision_walk d stop visited current = Inr found"
        "case found of
          Some r \<Rightarrow> record_id r = stop \<and> descends d r (ro_record row)
        | None \<Rightarrow> \<not> (\<exists>e. record_id e = stop \<and> descends d e (ro_record row))"
        using IH unfolding walk by blast
      then show ?thesis using up by (cases found) auto
    qed
  qed
qed

text \<open>
  C26. \<open>is_revision_descendant\<close> always answers on published records, and its answer is whether the
  later record reaches the earlier one through published predecessors.
\<close>

theorem revision_descent_decided:
  assumes ok: "store_ok d"
    and e: "resolve False d earlier_ref = Inr earlier"
    and l: "resolve False d current_ref = Inr current"
  shows "is_revision_descendant d earlier_ref current_ref = Inr (descends d earlier current)"
proof -
  note pe = published_resolved [OF ok e] and pl = published_resolved [OF ok l]
  let ?skip = "\<not> same_meta_type (record_meta earlier) (record_meta current)
     \<or> rm_logical_record_id (revision_of (record_meta earlier))
        \<noteq> rm_logical_record_id (revision_of (record_meta current))
     \<or> meta_record_type (record_meta earlier) \<noteq> meta_record_type (record_meta current)
     \<or> meta_revision (record_meta current) < meta_revision (record_meta earlier)"
  obtain found where walk: "revision_walk d (record_id earlier) [] current = Inr found"
    and found: "case found of
          Some r \<Rightarrow> record_id r = record_id earlier \<and> descends d r current
        | None \<Rightarrow> \<not> (\<exists>e. record_id e = record_id earlier \<and> descends d e current)"
    using walk_decides [OF ok pl, of "[]"] by auto
  show ?thesis
  proof (cases ?skip)
    case True
    then have "\<not> descends d earlier current"
      using descends_meta [OF _ ok, of earlier current] by (auto simp: immutable_attributes_def)
    then show ?thesis using True e l by (simp add: is_revision_descendant_def Let_def)
  next
    case False
    show ?thesis
    proof (cases found)
      case None
      then show ?thesis using False e l walk found by (simp add: is_revision_descendant_def Let_def)
    next
      case (Some r)
      then have "r = earlier" using found published_id [OF _ pe] descends_published by fastforce
      then show ?thesis
        using Some False e l walk found resolve_ref(1) [OF ok e]
        by (simp add: is_revision_descendant_def Let_def)
    qed
  qed
qed

lemma validate_record_meta:
  assumes "validate_record r = Inr ()"
  shows "validate_meta (record_meta r) = Inr ()"
  using assms
  by (cases r)
     (simp_all add: validate_work_def validate_attempt_def validate_transition_def validate_commit_def
      validate_action_def validate_decision_def validate_execution_profile_def
      validate_work_profile_def validate_verification_profile_def validate_dynamic_profile_def
      validate_binding_record_def validate_reservation_def validate_ledger_entry_def
      validate_run_state_def validate_assignment_def validate_process_def
      validate_dynamic_state_def validate_workspace_def validate_scoped_def)

lemma first_revision:
  assumes "validate_record r = Inr ()"
  shows "1 \<le> meta_revision (record_meta r)"
    and "meta_revision (record_meta r) = 1 \<longleftrightarrow> rm_previous_record_id (revision_of (record_meta r)) = None"
  using validate_record_meta [OF assms]
  by (cases "record_meta r"; auto simp: validate_meta_def revision_fields_ok_def revision_shape_def
      split: if_splits)+

text \<open>
  C27. The published revisions of one logical record form a single line: of any two, the one with
  the higher number descends from the other.
\<close>

theorem published_revisions_linear:
  assumes ok: "store_ok d" and "published d a" "published d b"
    and "rm_logical_record_id (revision_of (record_meta a)) = rm_logical_record_id (revision_of (record_meta b))"
    and "meta_revision (record_meta a) \<le> meta_revision (record_meta b)"
  shows "descends d a b"
  using assms(3-)
proof (induction "nat (meta_revision (record_meta b) - meta_revision (record_meta a))" arbitrary: b)
  case 0
  then have "revision_key (revision_row_of a) = revision_key (revision_row_of b)"
    by (simp add: revision_key_def)
  then have "revision_row_of a = revision_row_of b"
    using ok published_revision(2) [OF ok assms(2)] published_revision(2) [OF ok 0(2)]
    by (auto simp: store_ok_def tbl_ok_def distinct_map inj_on_def)
  then have "a = b" using published_id assms(2) 0(2) by simp
  then show ?case using assms(2) by (simp add: descends.self)
next
  case (Suc n)
  note va = published_revision(3) [OF ok assms(2)] and vb = published_revision(3) [OF ok Suc(3)]
  have "meta_revision (record_meta b) \<noteq> 1"
    using first_revision(1) [OF va] Suc(2) by auto
  then obtain p where p: "rm_previous_record_id (revision_of (record_meta b)) = Some p"
    using first_revision(2) [OF vb] by auto
  obtain row where "published_row d p = Some row"
    and row: "validate_revision (record_meta (ro_record row)) (record_meta b) = Inr ()"
    "published d (ro_record row)" "record_id (ro_record row) = p"
    by (rule published_predecessor [OF ok Suc(3) p])
  have "descends d a (ro_record row)"
    using Suc(2,4,5) row by (intro Suc(1)) (auto simp: validate_revision_ok immutable_attributes_def)
  then show ?case using descends.revised [OF _ Suc(3)] p row(3) by simp
qed

end
