(* ===== verification/Budget_Invariant.thy ===== *)
theory Budget_Invariant
  imports Budget_Service Record_Properties
begin

text \<open>
  The invariant of the budget ledger and that every operation keeps it: reservations and ledger
  entries correspond, sequences are consecutive, and the units reserved and spent stay within the
  pinned limits up to what committed usage exceeded its reservation by.
\<close>

section \<open>Tables\<close>

lemma update_rows_key:
  assumes "\<And>r. key (f r) = key r"
  shows "map key (update_rows P f t) = map key t" and "tbl_ok key (update_rows P f t) = tbl_ok key t"
proof -
  show "map key (update_rows P f t) = map key t"
    using assms by (induction t) (auto simp: update_rows_def)
  then show "tbl_ok key (update_rows P f t) = tbl_ok key t" by (simp add: tbl_ok_def)
qed

lemma update_rows_lookup:
  assumes "\<And>r. key (f r) = key r"
  shows "tbl_lookup key (update_rows (\<lambda>r. key r = k) f t) i
     = (if i = k then map_option f (tbl_lookup key t i) else tbl_lookup key t i)"
  using assms by (induction t) (auto simp: update_rows_def tbl_lookup_def)

lemma update_rows_sum:
  fixes g :: "'r \<Rightarrow> nat"
  assumes "tbl_ok key t" "tbl_lookup key t k = Some r"
  shows "sum_list (map g (update_rows (\<lambda>x. key x = k) f t)) + g r = sum_list (map g t) + g (f r)"
  using assms
proof (induction t)
  case (Cons x t)
  show ?case
  proof (cases "key x = k")
    case True
    then have "update_rows (\<lambda>x. key x = k) f t = t"
      using Cons.prems(1) unfolding update_rows_def tbl_ok_def by (intro map_idI) (force simp: image_iff)
    then show ?thesis using True Cons.prems(2) by (simp add: update_rows_def tbl_lookup_def)
  next
    case False
    then show ?thesis using Cons by (simp add: update_rows_def tbl_lookup_def tbl_ok_def)
  qed
qed (simp add: tbl_lookup_def)

lemma sum_filter: "sum_list (map g (filter P t)) = sum_list (map (\<lambda>x. if P x then g x else (0::nat)) t)"
  by (induction t) simp_all

section \<open>What is used\<close>

definition used :: "sdb \<Rightarrow> string \<Rightarrow> (budget_units \<Rightarrow> nat) \<Rightarrow> nat" where
  "used d analysis f = total f (used_units d analysis None)"

definition reserved_share :: "string \<Rightarrow> (budget_units \<Rightarrow> nat) \<Rightarrow> reservation_row \<Rightarrow> nat" where
  "reserved_share a f row =
     (if rw_analysis_id row = a \<and> rw_status row = RESERVED then f (br_requested_units (rw_payload row))
      else 0)"

definition spent_share :: "string \<Rightarrow> (budget_units \<Rightarrow> nat) \<Rightarrow> ledger_row \<Rightarrow> nat" where
  "spent_share a f row = (if lw_analysis_id row = a then f (bl_actual_units (lw_payload row)) else 0)"

lemma used_eq:
  "used d a f = sum_list (map (reserved_share a f) (sd_reservations d))
     + sum_list (map (spent_share a f) (sd_ledger d))"
  unfolding reserved_share_def [abs_def] spent_share_def [abs_def] sum_filter [symmetric]
  by (simp add: used_def total_def used_units_def reserved_rows_def ledger_entries_def comp_def)

text \<open>What a committed entry exceeded its reservation by.\<close>

definition requested_by :: "sdb \<Rightarrow> string \<Rightarrow> (budget_units \<Rightarrow> nat) \<Rightarrow> nat" where
  "requested_by d i f =
     (case tbl_lookup rw_reservation_id (sd_reservations d) i of
        None \<Rightarrow> 0 | Some row \<Rightarrow> f (br_requested_units (rw_payload row)))"

definition overrun_share :: "sdb \<Rightarrow> string \<Rightarrow> (budget_units \<Rightarrow> nat) \<Rightarrow> ledger_row \<Rightarrow> nat" where
  "overrun_share d a f e =
     (if lw_analysis_id e = a
      then f (bl_actual_units (lw_payload e)) - requested_by d (lw_reservation_id e) f else 0)"

definition overrun :: "sdb \<Rightarrow> string \<Rightarrow> (budget_units \<Rightarrow> nat) \<Rightarrow> nat" where
  "overrun d a f = sum_list (map (overrun_share d a f) (sd_ledger d))"

section \<open>The pinned limits\<close>

definition pinned_execution :: "sdb \<Rightarrow> string \<Rightarrow> execution_profile \<Rightarrow> bool" where
  "pinned_execution d a p \<longleftrightarrow>
     (\<exists>ref. pinned_ref d a ''execution_budget_profile'' = Some ref
        \<and> resolve True d ref = Inr (ExecutionBudgetProfile p))"

lemma pinned_execution_unique: "pinned_execution d a p \<Longrightarrow> pinned_execution d a q \<Longrightarrow> p = q"
  by (auto simp: pinned_execution_def)

lemma run_execution_pinned:
  assumes "store_ok d" "run_execution d ref a = Inr p"
  shows "pinned_execution d a p"
proof -
  obtain r where r: "pinned_profile d (RunStoredDataRef ref) a = Inr r" "active_execution a r = Inr p"
    using assms(2) by (auto simp: run_execution_def)
  then have p: "r = ExecutionBudgetProfile p"
    by (auto simp: active_execution_def split: contract_record.splits if_splits)
  have res: "resolve False d (RunStoredDataRef ref) = Inr r"
    and pin: "pinned_ref d a (ref_data_kind (RunStoredDataRef ref)) = Some (RunStoredDataRef ref)"
    using r(1) by (auto simp: pinned_profile_def Let_def split: if_splits)
  have "ref_data_kind (RunStoredDataRef ref) = ''execution_budget_profile''"
    by (rule resolve_ref(3) [OF assms(1) res]) (simp add: p)
  then show ?thesis
    using pin resolve_candidate [OF res] p unfolding pinned_execution_def by metis
qed

lemma execution_pinned:
  assumes "store_ok d" "execution d ref a = Inr p"
  shows "pinned_execution d a p"
proof -
  obtain r where r: "pinned_profile d ref a = Inr r"
    using assms(2) by (auto simp: execution_def)
  show ?thesis
  proof (cases "\<exists>b. r = BudgetProfileBinding b")
    case True
    then obtain b where "r = BudgetProfileBinding b" by blast
    then have "run_execution d (bb_execution_budget_profile_ref b) a = Inr p"
      using assms(2) r by (auto simp: execution_def)
    then show ?thesis by (rule run_execution_pinned [OF assms(1)])
  next
    case False
    then have act: "active_execution a r = Inr p"
      using assms(2) r by (cases r) (auto simp: execution_def)
    then have p: "r = ExecutionBudgetProfile p"
      by (auto simp: active_execution_def split: contract_record.splits if_splits)
    then obtain run where "ref = RunStoredDataRef run"
      using r by (auto simp: pinned_profile_def Let_def split: if_splits)
    then have "run_execution d run a = Inr p" using r act by (simp add: run_execution_def)
    then show ?thesis by (rule run_execution_pinned [OF assms(1)])
  qed
qed

lemma available_units:
  assumes "available d scope a None = Inr m" "f \<in> set UNIT_FIELDS"
  obtains p where "execution d scope a = Inr p"
    "f (bm_available_units m) = f (profile_units p) - used d a f"
    "bm_as_of_sequence m = as_of_sequence d a"
  using assms by (auto simp: available_def Let_def UNIT_FIELDS_def used_def profile_units_def)

section \<open>The invariant\<close>

definition reservation_row_ok :: "reservation_row \<Rightarrow> bool" where
  "reservation_row_ok row \<longleftrightarrow>
     rw_reservation_id row = br_reservation_id (rw_payload row)
     \<and> rw_status row = br_status (rw_payload row)
     \<and> rw_analysis_id row = id_text (meta_analysis (br_meta (rw_payload row)))
     \<and> validate_reservation (rw_payload row) = Inr ()
     \<and> (rw_claimed row \<longrightarrow> rw_status row \<noteq> RELEASED)"

definition ledger_row_ok :: "sdb \<Rightarrow> ledger_row \<Rightarrow> bool" where
  "ledger_row_ok d e \<longleftrightarrow>
     lw_sequence e = bl_sequence (lw_payload e)
     \<and> (\<exists>row. tbl_lookup rw_reservation_id (sd_reservations d) (lw_reservation_id e) = Some row
          \<and> rw_status row = COMMITTED \<and> rw_analysis_id row = lw_analysis_id e)"

definition ledger_of :: "sdb \<Rightarrow> string \<Rightarrow> ledger_row list" where
  "ledger_of d a = filter (\<lambda>e. lw_analysis_id e = a) (sd_ledger d)"

definition sequences_ok :: "sdb \<Rightarrow> string \<Rightarrow> bool" where
  "sequences_ok d a \<longleftrightarrow> map lw_sequence (ledger_of d a) = [1..<Suc (length (ledger_of d a))]"

definition within_limits :: "sdb \<Rightarrow> string \<Rightarrow> bool" where
  "within_limits d a \<longleftrightarrow>
     (\<exists>p. pinned_execution d a p
        \<and> (\<forall>f \<in> set UNIT_FIELDS. used d a f \<le> f (profile_units p) + overrun d a f))"

definition budget_ok :: "sdb \<Rightarrow> bool" where
  "budget_ok d \<longleftrightarrow>
     store_ok d
     \<and> tbl_ok rw_reservation_id (sd_reservations d) \<and> list_all reservation_row_ok (sd_reservations d)
     \<and> tbl_ok lw_reservation_id (sd_ledger d) \<and> list_all (ledger_row_ok d) (sd_ledger d)
     \<and> (\<forall>row \<in> set (sd_reservations d). rw_status row = COMMITTED \<longrightarrow>
          rw_reservation_id row \<in> lw_reservation_id ` set (sd_ledger d))
     \<and> (\<forall>a. sequences_ok d a)
     \<and> (\<forall>row \<in> set (sd_reservations d). within_limits d (rw_analysis_id row))"

text \<open>The part that does not mention the records, and what carries it over.\<close>

definition keeps_pins :: "sdb \<Rightarrow> sdb \<Rightarrow> bool" where
  "keeps_pins d d' \<longleftrightarrow> grows d d' \<and> (\<exists>new. sd_profiles d' = sd_profiles d @ new)"

lemma pinned_ref_append:
  "sd_profiles d' = sd_profiles d @ new \<Longrightarrow> pinned_ref d a k = Some r \<Longrightarrow> pinned_ref d' a k = Some r"
  by (auto simp: pinned_ref_def tbl_lookup_append)

lemma pinned_execution_mono: "keeps_pins d d' \<Longrightarrow> pinned_execution d a p \<Longrightarrow> pinned_execution d' a p"
  unfolding keeps_pins_def pinned_execution_def
  by (elim conjE exE) (intro exI conjI, erule (1) pinned_ref_append, erule (1) grows_resolve)

lemma same_budget:
  assumes "sd_reservations d' = sd_reservations d" "sd_ledger d' = sd_ledger d"
  shows "used d' a f = used d a f" "overrun d' a f = overrun d a f" "sequences_ok d' a = sequences_ok d a"
    "ledger_row_ok d' e = ledger_row_ok d e" "ledger_of d' a = ledger_of d a"
proof -
  have r: "overrun_share d' a f = overrun_share d a f" for a f
    by (rule ext) (simp add: overrun_share_def requested_by_def assms)
  show "used d' a f = used d a f" "overrun d' a f = overrun d a f" "sequences_ok d' a = sequences_ok d a"
    "ledger_row_ok d' e = ledger_row_ok d e" "ledger_of d' a = ledger_of d a"
    by (simp_all add: used_eq overrun_def r sequences_ok_def ledger_of_def
        ledger_row_ok_def assms)
qed

lemma budget_ok_frame:
  assumes "budget_ok d" "store_ok d'" "keeps_pins d d'"
    and same: "sd_reservations d' = sd_reservations d" "sd_ledger d' = sd_ledger d"
  shows "budget_ok d'"
proof -
  have "within_limits d a \<Longrightarrow> within_limits d' a" for a
    unfolding within_limits_def same_budget [OF same] using pinned_execution_mono [OF assms(3)] by blast
  then show ?thesis
    using assms(1,2) by (simp add: budget_ok_def same same_budget [OF same] list_all_iff)
qed

lemma same_tables_frame:
  assumes "budget_ok d" "store_ok d'" "grows d d'" "same_tables d d'"
  shows "budget_ok d'"
  by (rule budget_ok_frame [OF assms(1,2)]) (use assms(3,4) in \<open>auto simp: keeps_pins_def same_tables_def\<close>)

end
