(* ===== verification/Budget_Steps.thy ===== *)
theory Budget_Steps
  imports Budget_Invariant
begin

text \<open>
  What each operation of the budget service does to the tables when it succeeds, and that it keeps
  the invariant.
\<close>

section \<open>Results by case\<close>

lemma case_contract [simp]:
  "(case r of WorkExecutionState w \<Rightarrow> F w | _ \<Rightarrow> Inl e) = (Inr y :: 'a res)
     \<longleftrightarrow> (\<exists>w. r = WorkExecutionState w \<and> F w = Inr y)"
  "(case r of ActionRequest a \<Rightarrow> G a | _ \<Rightarrow> Inl e) = (Inr y :: 'a res)
     \<longleftrightarrow> (\<exists>a. r = ActionRequest a \<and> G a = Inr y)"
  "(case r of BudgetReservation b \<Rightarrow> H b | _ \<Rightarrow> Inl e) = (Inr y :: 'a res)
     \<longleftrightarrow> (\<exists>b. r = BudgetReservation b \<and> H b = Inr y)"
  by (cases r; simp)+

lemma if_Inl [simp]:
  "(if c then Inl e else m) = (Inr y :: 'a res) \<longleftrightarrow> \<not> c \<and> m = Inr y"
  by simp

definition new_row :: "evidence \<Rightarrow> reservation \<Rightarrow> work \<Rightarrow> action_request \<Rightarrow> record_ref \<Rightarrow> reservation_row" where
  "new_row ev r w a ref =
     \<lparr>rw_reservation_id = br_reservation_id r, rw_analysis_id = id_text (meta_analysis (br_meta r)),
      rw_action_id = id_text (ref_record_id (br_action_ref r)), rw_status = br_status r,
      rw_payload = r, rw_initial_ref = ref, rw_claimed = False, rw_item_count = ev_item_count ev a w\<rparr>"

abbreviation reservation_analysis :: "reservation \<Rightarrow> string" where
  "reservation_analysis r \<equiv> id_text (meta_analysis (br_meta r))"

lemma reserve_cases:
  assumes "reserve ev r d = Inr (x, d')"
  obtains (again) row where "d' = d" "x = rw_payload row"
      "tbl_lookup rw_reservation_id (sd_reservations d) (br_reservation_id r) = Some row"
      "resolve False d (rw_initial_ref row) = Inr (BudgetReservation r)"
  | (new) w a m ref d1 d2 where "x = r" "br_status r = RESERVED" "validate_reservation r = Inr ()"
      "tbl_lookup rw_reservation_id (sd_reservations d) (br_reservation_id r) = None"
      "publish (br_action_ref r) d = Inr ((), d1)" "validate_operation ev d1 r w a = Inr ()"
      "available d1 (br_budget_binding_ref r) (reservation_analysis r) None = Inr m"
      "bu_currency (br_requested_units r) = bu_currency (bm_available_units m)"
      "\<not> exceeds (br_requested_units r) (bm_available_units m)"
      "stage_publish (BudgetReservation r) d1 = Inr (ref, d2)"
      "insert_reservation (new_row ev r w a ref) d2 = Inr ((), d')"
proof (cases "tbl_lookup rw_reservation_id (sd_reservations d) (br_reservation_id r)")
  case (Some row)
  have "resolve False d (rw_initial_ref row) = Inr (BudgetReservation r)" "d' = d" "x = rw_payload row"
    using assms Some by (auto simp: reserve_def)
  then show ?thesis using again Some by simp
next
  case None
  have v: "validate_reservation r = Inr ()" using assms by (auto simp: reserve_def)
  have n: "reserve_new ev r d = Inr (x, d')" using assms None v by (simp add: reserve_def)
  then have st: "br_status r = RESERVED" by (simp add: reserve_new_def)
  from n st obtain w a d1 m where *: "publish (br_action_ref r) d = Inr ((), d1)"
    "validate_operation ev d1 r w a = Inr ()"
    "available d1 (br_budget_binding_ref r) (reservation_analysis r) None = Inr m"
    and rest: "(if bu_currency (br_requested_units r) \<noteq> bu_currency (bm_available_units m)
        then Inl (ValueError ''BUDGET currency unavailable'')
        else if exceeds (br_requested_units r) (bm_available_units m)
        then Inl (ValueError ''BUDGET_EXCEEDED'')
        else bindR (stage_publish (BudgetReservation r) d1) (\<lambda>(ref, d2).
             bindR (insert_reservation (new_row ev r w a ref) d2) (\<lambda>(_, d3). Inr (r, d3))))
        = Inr (x, d')"
    unfolding reserve_new_def new_row_def by auto
  from rest obtain ref d2 where "x = r" "stage_publish (BudgetReservation r) d1 = Inr (ref, d2)"
    "insert_reservation (new_row ev r w a ref) d2 = Inr ((), d')"
    "bu_currency (br_requested_units r) = bu_currency (bm_available_units m)"
    "\<not> exceeds (br_requested_units r) (bm_available_units m)"
    by auto
  then show ?thesis using new * st v None by blast
qed

lemma finalize_cases:
  assumes "finalize previous current d = Inr (u, d')"
  obtains ref d1 where "validate_reservation_revision previous current = Inr ()"
    "stage_publish (BudgetReservation current) d = Inr (ref, d1)"
    "d' = d1\<lparr>sd_reservations := update_rows (\<lambda>row. rw_reservation_id row = br_reservation_id current)
            (\<lambda>row. row\<lparr>rw_status := br_status current, rw_payload := current\<rparr>) (sd_reservations d1)\<rparr>"
  using assms by (auto simp: finalize_def)

lemma release_cases:
  assumes "release r d = Inr (x, d')"
  obtains (again) row where "d' = d" "x = rw_payload row" "br_status (rw_payload row) \<noteq> RESERVED"
      "tbl_lookup rw_reservation_id (sd_reservations d) (br_reservation_id r) = Some row"
  | (released) row where "x = r" "validate_reservation r = Inr ()"
      "tbl_lookup rw_reservation_id (sd_reservations d) (br_reservation_id r) = Some row"
      "br_status (rw_payload row) = RESERVED" "\<not> rw_claimed row" "br_status r = RELEASED"
      "finalize (rw_payload row) r d = Inr ((), d')"
proof -
  have v: "validate_reservation r = Inr ()" using assms by (auto simp: release_def)
  obtain row where row: "tbl_lookup rw_reservation_id (sd_reservations d) (br_reservation_id r) = Some row"
    using assms v by (auto simp: release_def split: option.splits)
  show ?thesis
  proof (cases "br_status (rw_payload row) = RESERVED")
    case True
    then show ?thesis using assms v row released by (auto simp: release_def)
  next
    case False
    then show ?thesis using assms v row again by (auto simp: release_def)
  qed
qed

definition committed_reservation :: "budget_stamp \<Rightarrow> reservation \<Rightarrow> record_metadata \<Rightarrow> record_ref \<Rightarrow> reservation" where
  "committed_reservation st r meta ref =
     r\<lparr>br_meta := meta, br_status := COMMITTED, br_finalized_at := Some (bs_finalized_at st),
       br_ledger_entry_ref := Some ref\<rparr>"

definition entry_row :: "ledger_entry \<Rightarrow> string \<Rightarrow> ledger_row" where
  "entry_row e i =
     \<lparr>lw_ledger_entry_id = bl_ledger_entry_id e, lw_reservation_id = i,
      lw_analysis_id = id_text (meta_analysis (bl_meta e)), lw_sequence = bl_sequence e, lw_payload = e\<rparr>"

lemma commit_cases:
  assumes "commit_usage st e d = Inr (x, d')"
  obtains (again) i row where "d' = d" "x = e" "resolve False d (bl_reservation_ref e) = Inr (BudgetReservation i)"
      "tbl_lookup lw_reservation_id (sd_ledger d) (br_reservation_id i) = Some row" "lw_payload row = e"
  | (new) i row ref d1 meta d2 where "x = e" "validate_ledger_entry e = Inr ()"
      "resolve False d (bl_reservation_ref e) = Inr (BudgetReservation i)"
      "tbl_lookup lw_reservation_id (sd_ledger d) (br_reservation_id i) = None"
      "tbl_lookup rw_reservation_id (sd_reservations d) (br_reservation_id i) = Some row"
      "ledger_entry_check d e (rw_payload row) = Inr ()"
      "stage_publish (BudgetLedgerEntry e) d = Inr (ref, d1)"
      "next_meta (br_meta (rw_payload row)) (bs_record_id st) (bs_created_at st) = Inr meta"
      "validate_reservation (committed_reservation st (rw_payload row) meta ref) = Inr ()"
      "finalize (rw_payload row) (committed_reservation st (rw_payload row) meta ref) d1 = Inr ((), d2)"
      "insert_ledger (entry_row e (br_reservation_id i)) d2 = Inr ((), d')"
proof -
  have v: "validate_ledger_entry e = Inr ()" using assms by (auto simp: commit_usage_def)
  obtain i where i: "resolve False d (bl_reservation_ref e) = Inr (BudgetReservation i)"
    using assms by (auto simp: commit_usage_def)
  show ?thesis
  proof (cases "tbl_lookup lw_reservation_id (sd_ledger d) (br_reservation_id i)")
    case (Some old)
    then show ?thesis using assms v i again by (auto simp: commit_usage_def)
  next
    case None
    then have c: "commit_new st e (br_reservation_id i) d = Inr (x, d')"
      using assms v i by (simp add: commit_usage_def)
    then obtain row where row: "tbl_lookup rw_reservation_id (sd_reservations d) (br_reservation_id i) = Some row"
      by (auto simp: commit_new_def split: option.splits)
    from c row obtain ref d1 meta d2 where "x = e" "ledger_entry_check d e (rw_payload row) = Inr ()"
      "stage_publish (BudgetLedgerEntry e) d = Inr (ref, d1)"
      "next_meta (br_meta (rw_payload row)) (bs_record_id st) (bs_created_at st) = Inr meta"
      "validate_reservation (committed_reservation st (rw_payload row) meta ref) = Inr ()"
      "finalize (rw_payload row) (committed_reservation st (rw_payload row) meta ref) d1 = Inr ((), d2)"
      "insert_ledger (entry_row e (br_reservation_id i)) d2 = Inr ((), d')"
      by (auto simp: commit_new_def committed_reservation_def entry_row_def Let_def)
    then show ?thesis using new v i None row by blast
  qed
qed

section \<open>Operations keep the invariant\<close>

lemma store_ok_cong:
  "sd_records d' = sd_records d \<Longrightarrow> sd_revisions d' = sd_revisions d \<Longrightarrow> store_ok d' = store_ok d"
  by (simp add: store_ok_def revision_ok_def [abs_def] follows_published_def published_row_def)

lemma grows_cong:
  "sd_records d' = sd_records d \<Longrightarrow> sd_revisions d' = sd_revisions d \<Longrightarrow> grows e d' = grows e d"
  by (simp add: grows_def)

definition settle :: "reservation \<Rightarrow> reservation_row \<Rightarrow> reservation_row" where
  "settle c row = row\<lparr>rw_status := br_status c, rw_payload := c\<rparr>"

lemma settle_simps [simp]:
  "rw_reservation_id (settle c row) = rw_reservation_id row" "rw_status (settle c row) = br_status c"
  "rw_payload (settle c row) = c" "rw_analysis_id (settle c row) = rw_analysis_id row"
  "rw_claimed (settle c row) = rw_claimed row" "rw_action_id (settle c row) = rw_action_id row"
  "rw_initial_ref (settle c row) = rw_initial_ref row"
  by (simp_all add: settle_def)

lemma settle_cases:
  assumes "finalize previous c d1 = Inr (u, d2)" "store_ok d1"
  shows "br_status previous = RESERVED" "br_status c \<noteq> RESERVED"
    "br_requested_units c = br_requested_units previous"
    "br_reservation_id c = br_reservation_id previous"
    "meta_analysis (br_meta c) = meta_analysis (br_meta previous)"
    "store_ok d2" "grows d1 d2" "sd_profiles d2 = sd_profiles d1" "sd_ledger d2 = sd_ledger d1"
    "sd_reservations d2
       = update_rows (\<lambda>row. rw_reservation_id row = br_reservation_id c) (settle c) (sd_reservations d1)"
proof -
  obtain ref d where v: "validate_reservation_revision previous c = Inr ()"
    and sp: "stage_publish (BudgetReservation c) d1 = Inr (ref, d)"
    and d2: "d2 = d\<lparr>sd_reservations := update_rows (\<lambda>row. rw_reservation_id row = br_reservation_id c)
            (settle c) (sd_reservations d)\<rparr>"
    using finalize_cases [OF assms(1)] unfolding settle_def by metis
  note g = stage_publish_grows [OF sp]
  show "br_status previous = RESERVED" "br_status c \<noteq> RESERVED"
    "br_requested_units c = br_requested_units previous"
    "br_reservation_id c = br_reservation_id previous"
    "meta_analysis (br_meta c) = meta_analysis (br_meta previous)"
    using v by (auto simp: validate_reservation_revision_def validate_revision_ok immutable_attributes_def)
  show "store_ok d2"
    using stage_publish_ok [OF assms(2) sp] store_ok_cong [of d2 d] by (simp add: d2)
  show "grows d1 d2" using g(1) grows_cong [of d2 d d1] by (simp add: d2)
  show "sd_profiles d2 = sd_profiles d1" "sd_ledger d2 = sd_ledger d1"
    "sd_reservations d2
       = update_rows (\<lambda>row. rw_reservation_id row = br_reservation_id c) (settle c) (sd_reservations d1)"
    using g(2) by (simp_all add: d2 same_tables_def)
qed

lemma reservation_rowD:
  assumes "budget_ok d" "tbl_lookup rw_reservation_id (sd_reservations d) i = Some row"
  shows "row \<in> set (sd_reservations d)" "rw_reservation_id row = i" "reservation_row_ok row"
    "br_reservation_id (rw_payload row) = i" "rw_status row = br_status (rw_payload row)"
    "rw_analysis_id row = reservation_analysis (rw_payload row)"
    "validate_reservation (rw_payload row) = Inr ()"
proof -
  show mem: "row \<in> set (sd_reservations d)" "rw_reservation_id row = i"
    using tbl_lookup_Some [OF assms(2)] by auto
  show ok: "reservation_row_ok row" using assms(1) mem(1) by (auto simp: budget_ok_def list_all_iff)
  show "br_reservation_id (rw_payload row) = i" "rw_status row = br_status (rw_payload row)"
    "rw_analysis_id row = reservation_analysis (rw_payload row)"
    "validate_reservation (rw_payload row) = Inr ()"
    using ok mem(2) by (auto simp: reservation_row_ok_def)
qed

text \<open>One reservation row is settled: everything about reservations but its share of the budget.\<close>

lemma settled_table:
  fixes t :: "reservation_row list"
  assumes ok: "tbl_ok rw_reservation_id t" "list_all reservation_row_ok t"
    and row: "tbl_lookup rw_reservation_id t i = Some row"
    and c: "br_reservation_id c = i" "reservation_analysis c = rw_analysis_id row"
    "validate_reservation c = Inr ()" "rw_claimed row \<longrightarrow> br_status c \<noteq> RELEASED"
  defines "t' \<equiv> update_rows (\<lambda>r. rw_reservation_id r = i) (settle c) t"
  shows "tbl_ok rw_reservation_id t'" "list_all reservation_row_ok t'"
    "tbl_lookup rw_reservation_id t' j
       = (if j = i then Some (settle c row) else tbl_lookup rw_reservation_id t j)"
    "q \<in> set t' \<Longrightarrow> q = settle c row \<or> q \<in> set t \<and> rw_reservation_id q \<noteq> i"
proof -
  show t': "tbl_ok rw_reservation_id t'" unfolding t'_def using ok(1) by (subst update_rows_key) auto
  show "tbl_lookup rw_reservation_id t' j
       = (if j = i then Some (settle c row) else tbl_lookup rw_reservation_id t j)"
    unfolding t'_def by (subst update_rows_lookup) (auto simp: row)
  have q: "q = settle c row \<or> q \<in> set t \<and> rw_reservation_id q \<noteq> i"
    if mem: "q \<in> set t'" for q
  proof -
    obtain r where r: "r \<in> set t" "q = (if rw_reservation_id r = i then settle c r else r)"
      using mem unfolding t'_def update_rows_def set_map by blast
    then show ?thesis using tbl_lookup_mem [OF ok(1) r(1)] row by (cases "rw_reservation_id r = i") auto
  qed
  then show "q \<in> set t' \<Longrightarrow> q = settle c row \<or> q \<in> set t \<and> rw_reservation_id q \<noteq> i" .
  have "reservation_row_ok (settle c row)"
    using c tbl_lookup_Some [OF row] by (auto simp: reservation_row_ok_def)
  then show "list_all reservation_row_ok t'" using ok(2) q by (auto simp: list_all_iff)
qed

lemma settled_shares:
  assumes "tbl_ok rw_reservation_id t" "tbl_lookup rw_reservation_id t i = Some row"
    "rw_status row = RESERVED" "br_status c \<noteq> RESERVED"
  shows "sum_list (map (reserved_share a f) (update_rows (\<lambda>r. rw_reservation_id r = i) (settle c) t))
       + (if rw_analysis_id row = a then f (br_requested_units (rw_payload row)) else 0)
     = sum_list (map (reserved_share a f) t)"
  using update_rows_sum [OF assms(1,2), of "reserved_share a f" "settle c"] assms(3,4)
  by (simp add: reserved_share_def)

lemma requested_by_settled:
  assumes "sd_reservations d2 = update_rows (\<lambda>r. rw_reservation_id r = i) (settle c) (sd_reservations d)"
    "tbl_lookup rw_reservation_id (sd_reservations d) i = Some row"
    "br_requested_units c = br_requested_units (rw_payload row)"
  shows "requested_by d2 j f = requested_by d j f"
  using assms update_rows_lookup [of rw_reservation_id "settle c" i "sd_reservations d" j]
  by (simp add: requested_by_def)

end
