(* ===== verification/Budget_Preservation.thy ===== *)
theory Budget_Preservation
  imports Budget_Steps
begin

text \<open>Reserving, committing, releasing and claiming keep the invariant of the budget ledger.\<close>

section \<open>Limits\<close>

lemma within_limits_step:
  assumes "within_limits d a" "keeps_pins d d'"
    and "\<And>f. used d' a f + overrun d a f \<le> used d a f + overrun d' a f"
  shows "within_limits d' a"
proof -
  obtain p where "pinned_execution d a p"
    and le: "\<forall>f \<in> set UNIT_FIELDS. used d a f \<le> f (profile_units p) + overrun d a f"
    using assms(1) by (auto simp: within_limits_def)
  then have "pinned_execution d' a p" using pinned_execution_mono [OF assms(2)] by blast
  moreover have "used d' a f \<le> f (profile_units p) + overrun d' a f" if "f \<in> set UNIT_FIELDS" for f
    using le that assms(3) [of f] by fastforce
  ultimately show ?thesis by (auto simp: within_limits_def)
qed

lemma ledger_lookup_kept:
  assumes "ledger_row_ok d e"
    and "tbl_lookup rw_reservation_id (sd_reservations d) i = Some row" "rw_status row \<noteq> COMMITTED"
    and "\<And>j. j \<noteq> i \<Longrightarrow> tbl_lookup rw_reservation_id (sd_reservations d') j
           = tbl_lookup rw_reservation_id (sd_reservations d) j"
  shows "ledger_row_ok d' e" and "lw_reservation_id e \<noteq> i"
proof -
  show "lw_reservation_id e \<noteq> i" using assms(1-3) by (auto simp: ledger_row_ok_def)
  then show "ledger_row_ok d' e" using assms(1,4) by (simp add: ledger_row_ok_def)
qed

section \<open>Release\<close>

lemma release_ok:
  assumes ok: "budget_ok d" and h: "release r d = Inr (x, d')"
  shows "budget_ok d'"
  using h
proof (cases rule: release_cases)
  case again
  then show ?thesis using ok by simp
next
  case (released row)
  let ?i = "br_reservation_id r"
  note R = reservation_rowD [OF ok released(3)]
  have sok: "store_ok d" using ok by (simp add: budget_ok_def)
  note S = settle_cases [OF released(7) sok]
  have T: "tbl_ok rw_reservation_id (sd_reservations d)" "list_all reservation_row_ok (sd_reservations d)"
    using ok by (auto simp: budget_ok_def)
  have c: "reservation_analysis r = rw_analysis_id row" "rw_claimed row \<longrightarrow> br_status r \<noteq> RELEASED"
    using S(5) R(6) released(5) by auto
  note U = settled_table [OF T released(3) refl c(1) released(2) c(2), folded S(10)]
  have st: "rw_status row = RESERVED" using R(5) released(4) by simp
  have ledger: "ledger_row_ok d' e" if "e \<in> set (sd_ledger d)" for e
    by (rule ledger_lookup_kept [OF _ released(3)]) (use ok that st U(3) in \<open>auto simp: budget_ok_def list_all_iff\<close>)
  have pins: "keeps_pins d d'" using S(7,8) by (simp add: keeps_pins_def)
  have used: "used d' a f \<le> used d a f" for a f
    using settled_shares [OF T(1) released(3) st S(2), of a f] by (simp add: used_eq S(9,10))
  have over: "overrun d' a f = overrun d a f" for a f
  proof -
    have "overrun_share d' a f = overrun_share d a f"
      by (rule ext) (simp add: overrun_share_def requested_by_settled [OF S(10) released(3) S(3)])
    then show ?thesis by (simp add: overrun_def S(9))
  qed
  have within: "within_limits d' (rw_analysis_id q)" if "q \<in> set (sd_reservations d')" for q
    by (rule within_limits_step [OF _ pins])
       (use U(4) [OF that] ok R(1) used over in \<open>auto simp: budget_ok_def\<close>)
  have com: "rw_reservation_id q \<in> lw_reservation_id ` set (sd_ledger d')"
    if "q \<in> set (sd_reservations d')" "rw_status q = COMMITTED" for q
    using U(4) [OF that(1)] that(2) released(6) ok by (auto simp: budget_ok_def S(9))
  show ?thesis
    using ok S(6) U(1,2) ledger within com same_budget(5) [of d' d]
    by (simp add: budget_ok_def list_all_iff S(9) sequences_ok_def ledger_of_def)
qed

section \<open>Commit\<close>

lemma fold_max_upt: "fold max [Suc 0..<Suc n] 0 = n"
  by (induction n) (simp_all add: max_def)

lemma as_of_sequence_eq:
  assumes "budget_ok d"
  shows "as_of_sequence d a = length (ledger_of d a)"
proof -
  have "map bl_sequence (ledger_entries d a) = map lw_sequence (ledger_of d a)"
    using assms by (auto simp: ledger_entries_def ledger_of_def budget_ok_def list_all_iff ledger_row_ok_def)
  then show ?thesis
    using assms by (simp add: as_of_sequence_def budget_ok_def sequences_ok_def fold_max_upt del: upt_Suc)
qed

lemma entry_checkD:
  assumes "ledger_entry_check d e r = Inr ()"
  shows "br_status r = RESERVED" "meta_analysis (bl_meta e) = meta_analysis (br_meta r)"
    "bl_sequence e = as_of_sequence d (id_text (meta_analysis (bl_meta e))) + 1"
proof -
  show "br_status r = RESERVED" "meta_analysis (bl_meta e) = meta_analysis (br_meta r)"
    using assms by (auto simp: ledger_entry_check_def split: if_splits)
  obtain m where m: "available d (bl_budget_binding_ref e) (id_text (meta_analysis (bl_meta e))) None = Inr m"
    "bl_sequence e = bm_as_of_sequence m + 1"
    using assms by (auto simp: ledger_entry_check_def split: if_splits)
  then show "bl_sequence e = as_of_sequence d (id_text (meta_analysis (bl_meta e))) + 1"
    by (auto simp: available_def Let_def)
qed

lemma insert_ledger_cases:
  assumes "insert_ledger row d = Inr (u, d')"
  shows "lw_reservation_id row \<notin> lw_reservation_id ` set (sd_ledger d)"
    "d' = d\<lparr>sd_ledger := sd_ledger d @ [row]\<rparr>"
  using assms by (auto simp: insert_ledger_def tbl_lookup_None split: if_splits)

text \<open>A commit in terms of the tables: the reservation is settled and the entry appended.\<close>

lemma commit_effect:
  assumes ok: "budget_ok d" and h: "commit_usage st e d = Inr (x, d')" "d' \<noteq> d"
  obtains row c i where
    "tbl_lookup rw_reservation_id (sd_reservations d) i = Some row" "rw_status row = RESERVED"
    "br_reservation_id c = i" "br_status c = COMMITTED"
    "br_requested_units c = br_requested_units (rw_payload row)"
    "reservation_analysis c = rw_analysis_id row" "validate_reservation c = Inr ()"
    "store_ok d'" "keeps_pins d d'"
    "sd_reservations d' = update_rows (\<lambda>row. rw_reservation_id row = i) (settle c) (sd_reservations d)"
    "sd_ledger d' = sd_ledger d @ [entry_row e i]"
    "i \<notin> lw_reservation_id ` set (sd_ledger d)"
    "id_text (meta_analysis (bl_meta e)) = rw_analysis_id row"
    "bl_sequence e = as_of_sequence d (rw_analysis_id row) + 1"
  using h(1)
proof (cases rule: commit_cases)
  case again
  then show ?thesis using h(2) by simp
next
  case (new i row ref d1 meta d2)
  let ?c = "committed_reservation st (rw_payload row) meta ref"
  note R = reservation_rowD [OF ok new(5)]
  note E = entry_checkD [OF new(6)] and G = stage_publish_grows [OF new(7)]
  have s1: "store_ok d1" using stage_publish_ok [OF _ new(7)] ok by (simp add: budget_ok_def)
  note S = settle_cases [OF new(10) s1] and I = insert_ledger_cases [OF new(11)]
  have g: "grows d d'" using grows_trans [OF G(1) S(7)] grows_cong [of d' d2 d] I(2) by simp
  have tabs: "sd_reservations d1 = sd_reservations d" "sd_ledger d1 = sd_ledger d"
    "sd_profiles d1 = sd_profiles d"
    using G(2) by (simp_all add: same_tables_def)
  have an: "id_text (meta_analysis (bl_meta e)) = rw_analysis_id row" using E(2) R(6) by simp
  have id: "br_reservation_id ?c = br_reservation_id i" using S(4) R(4) by simp
  show ?thesis
  proof (rule that)
    show "tbl_lookup rw_reservation_id (sd_reservations d) (br_reservation_id i) = Some row" by (rule new(5))
    show "rw_status row = RESERVED" using R(5) E(1) by simp
    show "br_reservation_id ?c = br_reservation_id i" by (rule id)
    show "br_status ?c = COMMITTED" by (simp add: committed_reservation_def)
    show "br_requested_units ?c = br_requested_units (rw_payload row)" by (rule S(3))
    show "reservation_analysis ?c = rw_analysis_id row" using S(5) R(6) by simp
    show "validate_reservation ?c = Inr ()" by (rule new(9))
    show "store_ok d'" using S(6) store_ok_cong [of d' d2] I(2) by simp
    show "keeps_pins d d'" using g S(8) tabs(3) I(2) by (simp add: keeps_pins_def)
    show "sd_reservations d' = update_rows (\<lambda>row. rw_reservation_id row = br_reservation_id i) (settle ?c)
        (sd_reservations d)"
      using S(10) tabs(1) I(2) id by simp
    show "sd_ledger d' = sd_ledger d @ [entry_row e (br_reservation_id i)]"
      using S(9) tabs(2) I(2) by simp
    show "br_reservation_id i \<notin> lw_reservation_id ` set (sd_ledger d)"
      using new(4) by (simp add: tbl_lookup_None)
    show "id_text (meta_analysis (bl_meta e)) = rw_analysis_id row" by (rule an)
    show "bl_sequence e = as_of_sequence d (rw_analysis_id row) + 1" using E(3) an by simp
  qed
qed

lemma commit_ok:
  assumes ok: "budget_ok d" and h: "commit_usage st e d = Inr (x, d')"
  shows "budget_ok d'"
proof (cases "d' = d")
  case False
  obtain row c i where row: "tbl_lookup rw_reservation_id (sd_reservations d) i = Some row"
    and st: "rw_status row = RESERVED" and c: "br_reservation_id c = i" "br_status c = COMMITTED"
    "br_requested_units c = br_requested_units (rw_payload row)"
    "reservation_analysis c = rw_analysis_id row" "validate_reservation c = Inr ()"
    and sok: "store_ok d'" and pins: "keeps_pins d d'"
    and res: "sd_reservations d' = update_rows (\<lambda>row. rw_reservation_id row = i) (settle c) (sd_reservations d)"
    and led: "sd_ledger d' = sd_ledger d @ [entry_row e i]"
    and fresh: "i \<notin> lw_reservation_id ` set (sd_ledger d)"
    and an: "id_text (meta_analysis (bl_meta e)) = rw_analysis_id row"
    and seq: "bl_sequence e = as_of_sequence d (rw_analysis_id row) + 1"
    using commit_effect [OF ok h False] by metis
  note R = reservation_rowD [OF ok row]
  have T: "tbl_ok rw_reservation_id (sd_reservations d)" "list_all reservation_row_ok (sd_reservations d)"
    using ok by (auto simp: budget_ok_def)
  have cl: "rw_claimed row \<longrightarrow> br_status c \<noteq> RELEASED" using c(2) by simp
  note U = settled_table [OF T row c(1,4,5) cl, folded res]
  have ledger: "ledger_row_ok d' q" if "q \<in> set (sd_ledger d)" for q
    by (rule ledger_lookup_kept [OF _ row]) (use ok that st U(3) in \<open>auto simp: budget_ok_def list_all_iff\<close>)
  moreover have "ledger_row_ok d' (entry_row e i)"
    using U(3) [of i] c(2) an by (simp add: ledger_row_ok_def entry_row_def)
  ultimately have L: "list_all (ledger_row_ok d') (sd_ledger d')" by (auto simp: led list_all_iff)
  have com: "rw_reservation_id q \<in> lw_reservation_id ` set (sd_ledger d')"
    if "q \<in> set (sd_reservations d')" "rw_status q = COMMITTED" for q
    using U(4) [OF that(1)] that(2) ok R(2) by (auto simp: budget_ok_def led entry_row_def)
  have seqs: "sequences_ok d' a" for a
    using ok seq as_of_sequence_eq [OF ok, of a] an
    by (auto simp: budget_ok_def sequences_ok_def ledger_of_def led entry_row_def)
  let ?req = "\<lambda>f. f (br_requested_units (rw_payload row))" and ?act = "\<lambda>f. f (bl_actual_units e)"
  have used: "used d' a f + (if rw_analysis_id row = a then ?req f else 0)
      = used d a f + (if rw_analysis_id row = a then ?act f else 0)" for a f
  proof -
    have "br_status c \<noteq> RESERVED" using c(2) by simp
    note settled_shares [OF T(1) row st this, of a f]
    then show ?thesis using an
      by (cases "rw_analysis_id row = a") (auto simp: used_eq led res spent_share_def entry_row_def)
  qed
  have over: "overrun d' a f = overrun d a f + (if rw_analysis_id row = a then ?act f - ?req f else 0)" for a f
  proof -
    have "overrun_share d' a f = overrun_share d a f"
      by (rule ext) (simp add: overrun_share_def requested_by_settled [OF res row c(3)])
    moreover have "overrun_share d a f (entry_row e i) = (if rw_analysis_id row = a then ?act f - ?req f else 0)"
      using an row by (simp add: overrun_share_def entry_row_def requested_by_def)
    ultimately show ?thesis by (simp add: overrun_def led)
  qed
  have within: "within_limits d' (rw_analysis_id q)" if "q \<in> set (sd_reservations d')" for q
  proof (rule within_limits_step [OF _ pins])
    show "within_limits d (rw_analysis_id q)" using U(4) [OF that] ok R(1) by (auto simp: budget_ok_def)
    show "used d' (rw_analysis_id q) f + overrun d (rw_analysis_id q) f
        \<le> used d (rw_analysis_id q) f + overrun d' (rw_analysis_id q) f" for f
      using used [of "rw_analysis_id q" f] by (auto simp: over split: if_splits)
  qed
  have key: "tbl_ok lw_reservation_id (sd_ledger d')"
    using ok fresh unfolding led by (intro tbl_ok_snoc) (auto simp: budget_ok_def entry_row_def)
  show ?thesis unfolding budget_ok_def using sok U(1,2) key L com seqs within by blast
qed (use ok in simp)

section \<open>Reserve\<close>

lemma insert_reservation_cases:
  assumes "insert_reservation row d = Inr (u, d')"
  shows "rw_reservation_id row \<notin> rw_reservation_id ` set (sd_reservations d)"
    "rw_action_id row \<notin> rw_action_id ` set (sd_reservations d)"
    "d' = d\<lparr>sd_reservations := sd_reservations d @ [row]\<rparr>"
  using assms by (auto simp: insert_reservation_def tbl_lookup_None split: if_splits)

lemma new_row_simps [simp]:
  "rw_reservation_id (new_row ev r w a ref) = br_reservation_id r"
  "rw_analysis_id (new_row ev r w a ref) = reservation_analysis r"
  "rw_status (new_row ev r w a ref) = br_status r" "rw_payload (new_row ev r w a ref) = r"
  "rw_initial_ref (new_row ev r w a ref) = ref" "rw_claimed (new_row ev r w a ref) = False"
  by (simp_all add: new_row_def)

text \<open>An analysis without reservations has used nothing.\<close>

lemma unused:
  assumes "budget_ok d" "a \<notin> rw_analysis_id ` set (sd_reservations d)"
  shows "used d a f = 0"
proof -
  have "reserved_share a f row = 0" if "row \<in> set (sd_reservations d)" for row
    using that assms(2) by (auto simp: reserved_share_def)
  moreover have "spent_share a f e = 0" if e: "e \<in> set (sd_ledger d)" for e
  proof -
    obtain row where "tbl_lookup rw_reservation_id (sd_reservations d) (lw_reservation_id e) = Some row"
      "rw_analysis_id row = lw_analysis_id e"
      using assms(1) e by (auto simp: budget_ok_def list_all_iff ledger_row_ok_def)
    then have "lw_analysis_id e \<in> rw_analysis_id ` set (sd_reservations d)"
      using tbl_lookup_Some by (metis image_eqI)
    then show ?thesis using assms(2) by (auto simp: spent_share_def)
  qed
  ultimately show ?thesis by (simp add: used_eq)
qed

text \<open>A new reservation in terms of the tables.\<close>

lemma reserve_effect:
  assumes ok: "budget_ok d" and h: "reserve ev r d = Inr (x, d')" "d' \<noteq> d"
  obtains w a ref d2 p where "budget_ok d2" "keeps_pins d d2" "same_tables d d2"
    "pinned_execution d2 (reservation_analysis r) p"
    "d' = d2\<lparr>sd_reservations := sd_reservations d @ [new_row ev r w a ref]\<rparr>"
    "br_reservation_id r \<notin> rw_reservation_id ` set (sd_reservations d)"
    "br_status r = RESERVED" "validate_reservation r = Inr ()"
    "\<And>f. f \<in> set UNIT_FIELDS \<Longrightarrow>
       f (br_requested_units r) \<le> f (profile_units p) - used d (reservation_analysis r) f"
  using h(1)
proof (cases rule: reserve_cases)
  case again
  then show ?thesis using h(2) by simp
next
  case (new w a m ref d1 d2)
  note G1 = publish_grows [OF new(5)] and G2 = stage_publish_grows [OF new(10)]
  have s1: "store_ok d1" using publish_ok [OF _ new(5)] ok by (simp add: budget_ok_def)
  have b1: "budget_ok d1" by (rule same_tables_frame [OF ok s1 G1])
  have b2: "budget_ok d2" by (rule same_tables_frame [OF b1 stage_publish_ok [OF s1 new(10)] G2])
  have same: "same_tables d d2" by (rule same_tables_trans [OF G1(2) G2(2)])
  have pins: "keeps_pins d1 d2" using G2 by (simp add: keeps_pins_def same_tables_def)
  obtain p where p: "execution d1 (br_budget_binding_ref r) (reservation_analysis r) = Inr p"
    using new(7) by (auto simp: available_def)
  have le: "f (br_requested_units r) \<le> f (profile_units p) - used d (reservation_analysis r) f"
    if "f \<in> set UNIT_FIELDS" for f
  proof -
    have "f (bm_available_units m) = f (profile_units p) - used d1 (reservation_analysis r) f"
      using available_units [OF new(7) that] p by (metis sum.inject(2))
    moreover have "used d1 a f = used d a f" for a
      using G1(2) by (intro same_budget) (simp_all add: same_tables_def)
    ultimately show ?thesis using new(9) that by (auto simp: exceeds_def not_less)
  qed
  note I = insert_reservation_cases [OF new(11)]
  show ?thesis
  proof (rule that)
    show "budget_ok d2" by (rule b2)
    show "keeps_pins d d2"
      using grows_trans [OF G1(1) G2(1)] same by (simp add: keeps_pins_def same_tables_def)
    show "same_tables d d2" by (rule same)
    show "pinned_execution d2 (reservation_analysis r) p"
      by (rule pinned_execution_mono [OF pins execution_pinned [OF s1 p]])
    show "d' = d2\<lparr>sd_reservations := sd_reservations d @ [new_row ev r w a ref]\<rparr>"
      using I(3) same by (simp add: same_tables_def)
    show "br_reservation_id r \<notin> rw_reservation_id ` set (sd_reservations d)"
      using new(4) by (simp add: tbl_lookup_None)
  qed (use new(2,3) le in auto)
qed

lemma reserve_ok:
  assumes ok: "budget_ok d" and h: "reserve ev r d = Inr (x, d')"
  shows "budget_ok d'"
proof (cases "d' = d")
  case False
  obtain w a ref d2 p where b2: "budget_ok d2" and same: "same_tables d d2"
    and pin: "pinned_execution d2 (reservation_analysis r) p"
    and d': "d' = d2\<lparr>sd_reservations := sd_reservations d @ [new_row ev r w a ref]\<rparr>"
    and fresh: "br_reservation_id r \<notin> rw_reservation_id ` set (sd_reservations d)"
    and st: "br_status r = RESERVED" and v: "validate_reservation r = Inr ()"
    and le: "\<And>f. f \<in> set UNIT_FIELDS \<Longrightarrow>
       f (br_requested_units r) \<le> f (profile_units p) - used d (reservation_analysis r) f"
    using reserve_effect [OF ok h False] by metis
  let ?row = "new_row ev r w a ref" and ?a = "reservation_analysis r"
  have tabs: "sd_reservations d2 = sd_reservations d" "sd_ledger d2 = sd_ledger d"
    using same by (simp_all add: same_tables_def)
  have res: "sd_reservations d' = sd_reservations d @ [?row]" and led: "sd_ledger d' = sd_ledger d"
    using tabs by (simp_all add: d')
  have pins: "keeps_pins d2 d'" by (simp add: d' keeps_pins_def grows_def)
  have lookup: "tbl_lookup rw_reservation_id (sd_reservations d') i
      = (if i = br_reservation_id r then Some ?row else tbl_lookup rw_reservation_id (sd_reservations d) i)" for i
  proof (cases "i = br_reservation_id r")
    case True
    then have "tbl_lookup rw_reservation_id (sd_reservations d) i = None"
      using fresh by (simp add: tbl_lookup_None)
    then show ?thesis using True by (simp add: res tbl_lookup_append) (simp add: tbl_lookup_def)
  qed (simp add: res tbl_lookup_append, simp add: tbl_lookup_def split: option.split)
  have known: "lw_reservation_id e \<noteq> br_reservation_id r \<and> ledger_row_ok d e" if "e \<in> set (sd_ledger d)" for e
  proof
    show l: "ledger_row_ok d e" using ok that by (auto simp: budget_ok_def list_all_iff)
    show "lw_reservation_id e \<noteq> br_reservation_id r"
    proof -
      obtain row where "tbl_lookup rw_reservation_id (sd_reservations d) (lw_reservation_id e) = Some row"
        using l by (auto simp: ledger_row_ok_def)
      then show ?thesis using fresh tbl_lookup_Some by (metis image_eqI)
    qed
  qed
  have L: "list_all (ledger_row_ok d') (sd_ledger d')"
    using known by (simp add: led list_all_iff ledger_row_ok_def lookup)
  have used: "used d' b f = used d b f + (if b = ?a then f (br_requested_units r) else 0)" for b f
    using st by (auto simp: used_eq res led reserved_share_def)
  have over: "overrun d' b f = overrun d b f" for b f
    unfolding overrun_def led
    by (rule arg_cong [where f = sum_list], rule map_cong [OF refl])
       (use known in \<open>simp add: overrun_share_def requested_by_def lookup\<close>)
  have within: "within_limits d' b" if "b \<in> rw_analysis_id ` set (sd_reservations d')" for b
  proof (cases "b \<in> rw_analysis_id ` set (sd_reservations d)")
    case True
    then have w: "within_limits d2 b" using b2 tabs by (auto simp: budget_ok_def)
    then obtain q where q: "pinned_execution d2 b q"
      "\<forall>f \<in> set UNIT_FIELDS. used d2 b f \<le> f (profile_units q) + overrun d2 b f"
      by (auto simp: within_limits_def)
    have "used d' b f \<le> f (profile_units q) + overrun d' b f" if f: "f \<in> set UNIT_FIELDS" for f
    proof -
      have "used d b f \<le> f (profile_units q) + overrun d b f"
        using q(2) f same_budget [of d2 d] tabs by simp
      moreover have "f (br_requested_units r) \<le> f (profile_units q) - used d b f" if "b = ?a"
        using le [OF f] pinned_execution_unique [OF q(1)] pin that by blast
      ultimately show ?thesis by (auto simp: used over)
    qed
    then show ?thesis using pinned_execution_mono [OF pins q(1)] by (auto simp: within_limits_def)
  next
    case False
    then have b: "b = ?a" using that by (auto simp: res)
    have "used d' b f \<le> f (profile_units p) + overrun d' b f" if "f \<in> set UNIT_FIELDS" for f
      using le [OF that] unused [OF ok False, of f] by (simp add: used b)
    then show ?thesis using pinned_execution_mono [OF pins pin] b by (auto simp: within_limits_def)
  qed
  have rows: "list_all reservation_row_ok (sd_reservations d')"
    using ok v by (auto simp: res budget_ok_def reservation_row_ok_def)
  have key: "tbl_ok rw_reservation_id (sd_reservations d')"
    using ok fresh unfolding res by (intro tbl_ok_snoc) (auto simp: budget_ok_def)
  have "store_ok d'" using b2 store_ok_cong [of d' d2] by (simp add: d' budget_ok_def)
  moreover have "\<forall>q \<in> set (sd_reservations d'). rw_status q = COMMITTED \<longrightarrow>
      rw_reservation_id q \<in> lw_reservation_id ` set (sd_ledger d')"
    using ok st by (auto simp: res led budget_ok_def)
  moreover have "sequences_ok d' b" for b
    using ok by (simp add: budget_ok_def sequences_ok_def ledger_of_def led)
  moreover have "tbl_ok lw_reservation_id (sd_ledger d')" using ok by (simp add: budget_ok_def led)
  ultimately show ?thesis unfolding budget_ok_def using rows key L within by blast
qed (use ok in simp)

section \<open>Claim\<close>

lemma claim_effect:
  assumes "claim_reservation ev ref a w d = Inr (u, d')"
  obtains i row where "tbl_lookup rw_reservation_id (sd_reservations d) i = Some row"
    "rw_status row = RESERVED" "\<not> rw_claimed row"
    "d' = d\<lparr>sd_reservations := update_rows (\<lambda>row. rw_reservation_id row = i)
             (\<lambda>row. row\<lparr>rw_claimed := True\<rparr>) (sd_reservations d)\<rparr>"
proof -
  obtain r where r: "check_reservation ev d ref a w False = Inr r"
    and d': "d' = d\<lparr>sd_reservations := update_rows (\<lambda>row. rw_reservation_id row = br_reservation_id r)
             (\<lambda>row. row\<lparr>rw_claimed := True\<rparr>) (sd_reservations d)\<rparr>"
    using assms by (auto simp: claim_reservation_def)
  have "\<exists>row. tbl_lookup rw_reservation_id (sd_reservations d) (br_reservation_id r) = Some row
      \<and> rw_status row = RESERVED \<and> \<not> rw_claimed row"
    using r by (auto simp: check_reservation_def split: option.splits if_splits)
  then show ?thesis using that d' by blast
qed

lemma set_claimed_ok:
  assumes ok: "budget_ok d"
    and d': "d' = d\<lparr>sd_reservations := update_rows (\<lambda>row. rw_reservation_id row = i)
             (\<lambda>row. row\<lparr>rw_claimed := b\<rparr>) (sd_reservations d)\<rparr>"
    and b: "\<And>row. row \<in> set (sd_reservations d) \<Longrightarrow> rw_reservation_id row = i \<Longrightarrow> b \<Longrightarrow> rw_status row \<noteq> RELEASED"
  shows "budget_ok d'"
proof -
  let ?f = "\<lambda>row :: reservation_row. row\<lparr>rw_claimed := b\<rparr>"
  let ?t = "update_rows (\<lambda>row. rw_reservation_id row = i) ?f (sd_reservations d)"
  have T: "tbl_ok rw_reservation_id (sd_reservations d)" "list_all reservation_row_ok (sd_reservations d)"
    using ok by (auto simp: budget_ok_def)
  have res: "sd_reservations d' = ?t" and led: "sd_ledger d' = sd_ledger d" by (simp_all add: d')
  have look: "tbl_lookup rw_reservation_id (sd_reservations d') j
      = (if j = i then map_option ?f (tbl_lookup rw_reservation_id (sd_reservations d) j)
         else tbl_lookup rw_reservation_id (sd_reservations d) j)" for j
    unfolding res by (subst update_rows_lookup) auto
  have mem: "\<exists>r \<in> set (sd_reservations d). (q = r \<or> q = ?f r \<and> rw_reservation_id r = i)"
    if "q \<in> set (sd_reservations d')" for q
    using that by (auto simp: res update_rows_def)
  have rows: "list_all reservation_row_ok (sd_reservations d')"
    using T(2) mem b by (fastforce simp: list_all_iff reservation_row_ok_def)
  have share: "map (reserved_share a f) ?t = map (reserved_share a f) (sd_reservations d)" for a f
    by (auto simp: update_rows_def reserved_share_def)
  have req: "requested_by d' j f = requested_by d j f" for j f
    by (auto simp: requested_by_def look split: option.splits)
  have over: "overrun d' a f = overrun d a f" for a f
  proof -
    have "overrun_share d' a f = overrun_share d a f" by (rule ext) (simp add: overrun_share_def req)
    then show ?thesis by (simp add: overrun_def led)
  qed
  have ledger: "ledger_row_ok d' e" if "e \<in> set (sd_ledger d)" for e
  proof -
    have "ledger_row_ok d e" using ok that by (simp add: budget_ok_def list_all_iff)
    then show ?thesis by (auto simp: ledger_row_ok_def look)
  qed
  have within: "within_limits d' (rw_analysis_id q)" if "q \<in> set (sd_reservations d')" for q
  proof (rule within_limits_step)
    show "within_limits d (rw_analysis_id q)" using mem [OF that] ok by (auto simp: budget_ok_def)
    show "keeps_pins d d'" by (simp add: d' keeps_pins_def grows_def)
  qed (simp add: used_eq res share led over)
  have com: "rw_reservation_id q \<in> lw_reservation_id ` set (sd_ledger d')"
    if "q \<in> set (sd_reservations d')" "rw_status q = COMMITTED" for q
    using mem [OF that(1)] that(2) ok by (auto simp: budget_ok_def led)
  have "store_ok d'" using ok store_ok_cong [of d' d] by (simp add: d' budget_ok_def)
  moreover have "tbl_ok rw_reservation_id (sd_reservations d')"
    unfolding res using T(1) by (subst update_rows_key) auto
  moreover have "sequences_ok d' b" for b
    using ok by (simp add: budget_ok_def sequences_ok_def ledger_of_def led)
  moreover have "tbl_ok lw_reservation_id (sd_ledger d')" using ok by (simp add: budget_ok_def led)
  ultimately show ?thesis
    unfolding budget_ok_def using rows ledger com within by (auto simp: led list_all_iff)
qed

lemma claim_ok:
  assumes ok: "budget_ok d" and h: "claim_reservation ev ref a w d = Inr (u, d')"
  shows "budget_ok d'"
  using h
proof (cases rule: claim_effect)
  case (1 i row)
  have T: "tbl_ok rw_reservation_id (sd_reservations d)" using ok by (simp add: budget_ok_def)
  show ?thesis
  proof (rule set_claimed_ok [OF ok 1(4)])
    show "rw_status q \<noteq> RELEASED" if "q \<in> set (sd_reservations d)" "rw_reservation_id q = i" for q
      using tbl_lookup_mem [OF T that(1)] that(2) 1(1,2) by simp
  qed
qed

end
