(* ===== verification/Budget_Properties.thy ===== *)
theory Budget_Properties
  imports Budget_Preservation
begin

text \<open>
  The states the budget ledger can reach, and what holds in all of them.
\<close>

section \<open>Steps\<close>

text \<open>
  One committed write transaction: a record staged or published, a profile pinned, a run state
  saved, an operation of the budget service, a claim, or a change of the attempts table, which other
  services own.
\<close>

inductive budget_step :: "evidence \<Rightarrow> sdb \<Rightarrow> sdb \<Rightarrow> bool" for ev where
  staged: "stage_record r d = Inr (ref, d') \<Longrightarrow> budget_step ev d d'"
| published: "publish ref d = Inr (u, d') \<Longrightarrow> budget_step ev d d'"
| pinned: "pin ref a d = Inr (u, d') \<Longrightarrow> budget_step ev d d'"
| saved: "save_run state previous d = Inr (u, d') \<Longrightarrow> budget_step ev d d'"
| reserved: "reserve ev r d = Inr (x, d') \<Longrightarrow> budget_step ev d d'"
| committed: "commit_usage st e d = Inr (y, d') \<Longrightarrow> budget_step ev d d'"
| released: "release r d = Inr (x, d') \<Longrightarrow> budget_step ev d d'"
| claimed: "claim_reservation ev cref a w d = Inr (u, d') \<Longrightarrow> budget_step ev d d'"
| attempts: "budget_step ev d (d\<lparr>sd_attempts := t\<rparr>)"

inductive_cases budget_stepE: "budget_step ev d d'"

definition empty_sdb :: sdb where
  "empty_sdb = \<lparr>sd_records = [], sd_revisions = [], sd_current = [], sd_runs = [], sd_profiles = [],
     sd_reservations = [], sd_ledger = [], sd_attempts = []\<rparr>"

lemma save_run_frame:
  assumes "save_run state previous d = Inr (u, d')" "store_ok d"
  shows "store_ok d'" "keeps_pins d d'" "sd_reservations d' = sd_reservations d" "sd_ledger d' = sd_ledger d"
proof -
  obtain ref d1 where d1: "stage_publish (AnalysisRunState state) d = Inr (ref, d1)"
    and d': "(case previous of None \<Rightarrow> insert_run state d1 | Some p \<Rightarrow> swap_run p state d1) = Inr (u, d')"
    using assms(1) by (auto simp: save_run_def)
  have tabs: "sd_records d' = sd_records d1" "sd_revisions d' = sd_revisions d1"
    "sd_profiles d' = sd_profiles d1" "sd_reservations d' = sd_reservations d1" "sd_ledger d' = sd_ledger d1"
    using d' by (cases previous; auto simp: insert_run_def swap_run_def Let_def split: if_splits)+
  note g = stage_publish_grows [OF d1]
  show "store_ok d'" using stage_publish_ok [OF assms(2) d1] store_ok_cong [of d' d1] tabs by simp
  show "keeps_pins d d'" using g grows_cong [of d' d1 d] tabs by (simp add: keeps_pins_def same_tables_def)
  show "sd_reservations d' = sd_reservations d" "sd_ledger d' = sd_ledger d"
    using g(2) tabs by (simp_all add: same_tables_def)
qed

lemma pin_frame:
  assumes "pin ref a d = Inr (u, d')"
  shows "keeps_pins d d'" "sd_records d' = sd_records d" "sd_revisions d' = sd_revisions d"
    "sd_reservations d' = sd_reservations d" "sd_ledger d' = sd_ledger d"
  using assms by (auto simp: pin_def keeps_pins_def grows_def split: option.splits if_splits)

lemma budget_step_ok: "budget_ok d \<Longrightarrow> budget_step ev d d' \<Longrightarrow> budget_ok d'"
proof (erule budget_stepE)
  assume ok: "budget_ok d"
  then have s: "store_ok d" by (simp add: budget_ok_def)
  show "budget_ok d'" if "stage_record r d = Inr (ref, d')" for r ref
    by (rule same_tables_frame [OF ok stage_ok [OF s that] stage_grows [OF that]])
  show "budget_ok d'" if "publish ref d = Inr (u, d')" for ref u
    by (rule same_tables_frame [OF ok publish_ok [OF s that] publish_grows [OF that]])
  show "budget_ok d'" if "pin ref a d = Inr (u, d')" for ref a u
    using budget_ok_frame [OF ok _ pin_frame(1) [OF that]] pin_frame [OF that] s store_ok_cong [of d' d]
    by simp
  show "budget_ok d'" if "save_run state previous d = Inr (u, d')" for state previous u
    by (rule budget_ok_frame [OF ok save_run_frame [OF that s]])
  show "budget_ok d'" if "d' = d\<lparr>sd_attempts := t\<rparr>" for t
    using budget_ok_frame [OF ok, of d'] that s store_ok_cong [of d' d]
    by (simp add: keeps_pins_def grows_def)
qed (auto intro: reserve_ok commit_ok release_ok claim_ok)

interpretation budget: invariant_system "budget_step ev" budget_ok for ev
  by unfold_locales (rule budget_step_ok)

lemma empty_budget_ok: "budget_ok empty_sdb"
  by (simp add: budget_ok_def store_ok_def empty_sdb_def tbl_ok_def sequences_ok_def ledger_of_def)

lemmas budget_reaches = budget.reaches_inv [OF _ empty_budget_ok]

section \<open>Growth\<close>

lemma budget_step_pins:
  assumes "budget_ok d" "budget_step ev d d'"
  shows "keeps_pins d d'"
  using assms(2)
proof (rule budget_stepE)
  have sok: "store_ok d" using assms(1) by (simp add: budget_ok_def)
  show "keeps_pins d d'" if "save_run state previous d = Inr (u, d')" for state previous u
    by (rule save_run_frame(2) [OF that sok])
  show "keeps_pins d d'" if h: "reserve ev r d = Inr (x, d')" for r x
    using h
  proof (cases rule: reserve_cases)
    case again
    then show ?thesis by (simp add: keeps_pins_def)
  next
    case (new w a m ref d1 d2)
    note p = publish_grows [OF new(5)] and s = stage_publish_grows [OF new(10)]
    have "grows d d2" by (rule grows_trans [OF p(1) s(1)])
    then show ?thesis
      using insert_reservation_cases(3) [OF new(11)] grows_cong [of d' d2 d] p(2) s(2)
      by (simp add: keeps_pins_def same_tables_def)
  qed
  show "keeps_pins d d'" if h: "commit_usage st e d = Inr (y, d')" for st e y
  proof (cases "d' = d")
    case True
    then show ?thesis by (simp add: keeps_pins_def)
  next
    case False
    then show ?thesis by (rule commit_effect [OF assms(1) h])
  qed
  show "keeps_pins d d'" if h: "release r d = Inr (x, d')" for r x
    using h by (cases rule: release_cases) (auto simp: keeps_pins_def dest: settle_cases(7,8) [OF _ sok])
  show "keeps_pins d d'" if h: "claim_reservation ev cref a w d = Inr (u, d')" for cref a w u
    using h by (cases rule: claim_effect) (simp add: grows_def keeps_pins_def)
qed (auto dest: stage_grows publish_grows pin_frame simp: keeps_pins_def grows_def same_tables_def)

lemma budget_step_grows: "budget_ok d \<Longrightarrow> budget_step ev d d' \<Longrightarrow> grows d d'"
  by (drule (1) budget_step_pins) (simp add: keeps_pins_def)

interpretation budget_records: revision_store "budget_step ev" budget_ok grows "resolve c" for ev c
  by unfold_locales (auto intro: grows_trans budget_step_grows grows_resolve)

text \<open>
  C24. Stored records are immutable: whatever a reference resolves to, it resolves to in every later
  state, whether it was published or only staged.
\<close>

theorem resolved_record_permanent:
  assumes "reaches (budget_step ev) empty_sdb d" "reaches (budget_step ev) d d'"
    and "resolve candidate d ref = Inr r"
  shows "resolve candidate d' ref = Inr r"
  by (rule budget_records.reaches_look [OF assms(2) budget_reaches [OF assms(1)] assms(3)])

section \<open>The budget\<close>

text \<open>
  C8. Budgets hold: in every reachable state, what an analysis has reserved and spent stays, for
  every unit, within the limit of its execution profile, up to the amounts by which committed usage
  exceeded its reservation.
\<close>

theorem budget_within_limits:
  assumes "reaches (budget_step ev) empty_sdb d" "execution d scope a = Inr p" "f \<in> set UNIT_FIELDS"
  shows "used d a f \<le> f (profile_units p) + overrun d a f"
proof -
  have ok: "budget_ok d" by (rule budget_reaches [OF assms(1)])
  show ?thesis
  proof (cases "a \<in> rw_analysis_id ` set (sd_reservations d)")
    case True
    then have "within_limits d a" using ok by (auto simp: budget_ok_def)
    moreover have "pinned_execution d a p"
      using execution_pinned [OF _ assms(2)] ok by (simp add: budget_ok_def)
    ultimately show ?thesis
      using assms(3) pinned_execution_unique unfolding within_limits_def by blast
  next
    case False
    then show ?thesis using unused [OF ok] by simp
  qed
qed

text \<open>
  C12. A new reservation is admitted only when it fits: afterwards every unit it asks for is within
  the limit of the profile that the analysis is pinned to.
\<close>

theorem reservation_fits:
  assumes "reaches (budget_step ev) empty_sdb d" "reserve ev r d = Inr (x, d')" "d' \<noteq> d"
  shows "\<exists>p. pinned_execution d' (reservation_analysis r) p
     \<and> (\<forall>f \<in> set UNIT_FIELDS. f (br_requested_units r) > 0 \<longrightarrow>
          used d' (reservation_analysis r) f \<le> f (profile_units p))"
proof -
  obtain w a ref d2 p where same: "same_tables d d2"
    and pin: "pinned_execution d2 (reservation_analysis r) p"
    and d': "d' = d2\<lparr>sd_reservations := sd_reservations d @ [new_row ev r w a ref]\<rparr>"
    and st: "br_status r = RESERVED"
    and le: "\<And>f. f \<in> set UNIT_FIELDS \<Longrightarrow>
       f (br_requested_units r) \<le> f (profile_units p) - used d (reservation_analysis r) f"
    using reserve_effect [OF budget_reaches [OF assms(1)] assms(2,3)] by metis
  have "used d' (reservation_analysis r) f
      = used d (reservation_analysis r) f + f (br_requested_units r)" for f
    using st same by (simp add: used_eq d' same_tables_def reserved_share_def)
  moreover have "pinned_execution d' (reservation_analysis r) p"
    by (rule pinned_execution_mono [OF _ pin]) (simp add: d' keeps_pins_def grows_def)
  ultimately show ?thesis using le by (intro exI [of _ p]) fastforce
qed

text \<open>
  C11. The ledger is complete and gapless: the entries of every analysis are numbered 1, 2, \<dots>
  in the order they were committed, no reservation is debited twice, and the debited reservations
  are exactly those in status \<open>COMMITTED\<close>.
\<close>

theorem ledger_gapless:
  assumes "reaches (budget_step ev) empty_sdb d"
  shows "map lw_sequence (ledger_of d a) = [1..<Suc (length (ledger_of d a))]
     \<and> distinct (map lw_reservation_id (sd_ledger d))
     \<and> lw_reservation_id ` set (sd_ledger d)
        = rw_reservation_id ` {row \<in> set (sd_reservations d). rw_status row = COMMITTED}"
proof -
  have ok: "budget_ok d" by (rule budget_reaches [OF assms])
  have "lw_reservation_id e \<in> rw_reservation_id ` {row \<in> set (sd_reservations d). rw_status row = COMMITTED}"
    if "e \<in> set (sd_ledger d)" for e
  proof -
    have "ledger_row_ok d e" using ok that by (auto simp: budget_ok_def list_all_iff)
    then obtain row where "tbl_lookup rw_reservation_id (sd_reservations d) (lw_reservation_id e) = Some row"
      "rw_status row = COMMITTED"
      by (auto simp: ledger_row_ok_def)
    then show ?thesis using tbl_lookup_Some by (metis (mono_tags, lifting) image_eqI mem_Collect_eq)
  qed
  then show ?thesis using ok by (auto simp: budget_ok_def sequences_ok_def tbl_ok_def simp del: upt_Suc)
qed

section \<open>The life of a reservation\<close>















section \<open>Replays\<close>

text \<open>
  Committing the same usage again changes nothing: after a commit succeeded, the same request
  returns the same entry and leaves the database as it is, whatever the clock and the identifiers.
\<close>

theorem commit_idempotent:
  assumes "reaches (budget_step ev) empty_sdb d" "commit_usage st e d = Inr (x, d')"
  shows "commit_usage st' e d' = Inr (x, d')"
proof -
  have ok: "budget_ok d" by (rule budget_reaches [OF assms(1)])
  have g: "grows d d'" by (rule budget_step_grows [OF ok committed [OF assms(2)]])
  have v: "validate_ledger_entry e = Inr ()" using assms(2) by (auto simp: commit_usage_def)
  show ?thesis using assms(2)
  proof (cases rule: commit_cases)
    case (again i row)
    then show ?thesis using v by (simp add: commit_usage_def)
  next
    case (new i row ref d1 meta d2)
    have "sd_ledger d2 = sd_ledger d1"
      using settle_cases(9) [OF new(10)] stage_publish_ok [OF _ new(7)] ok by (simp add: budget_ok_def)
    then have "sd_ledger d' = sd_ledger d @ [entry_row e (br_reservation_id i)]"
      using insert_ledger_cases(2) [OF new(11)] stage_publish_grows(2) [OF new(7)]
      by (simp add: same_tables_def)
    then have "tbl_lookup lw_reservation_id (sd_ledger d') (br_reservation_id i)
        = Some (entry_row e (br_reservation_id i))"
      using new(4) by (simp add: tbl_lookup_append) (simp add: tbl_lookup_def entry_row_def)
    then show ?thesis
      using v grows_resolve [OF g new(3)] new(1) by (simp add: commit_usage_def entry_row_def)
  qed
qed

lemma stage_publish_resolves:
  assumes ok: "store_ok d" and h: "stage_publish r d = Inr (ref, d')"
    and fresh: "record_id r \<notin> ro_record_id ` set (sd_records d)"
  shows "resolve False d' ref = Inr r"
proof -
  obtain d1 u where st: "stage_record r d = Inr (ref, d1)" and pb: "publish ref d1 = Inr (u, d')"
    using h by (auto simp: stage_publish_def)
  have s1: "store_ok d1" by (rule stage_ok [OF ok st])
  have res: "resolve True d1 ref = Inr r" using staged_record_resolves [OF ok st] fresh by blast
  have "record_id r \<in> rv_record_id ` set (sd_revisions d')" using pb
  proof (cases rule: publish_cases)
    case (again q)
    then show ?thesis using res by simp
  next
    case (new q)
    then show ?thesis using res by simp
  qed
  moreover have "ref_record_id ref = Some (record_id r)"
    by (rule reference_fields(1) [OF resolve_ref(1) [OF s1 res]])
  ultimately show ?thesis
    using grows_resolve [OF publish_grows(1) [OF pb] res]
    by (auto simp: resolve_iff published_row_def id_text_def tbl_lookup_None)
qed

text \<open>
  C23. Reserving again is harmless: a repeated request for the same reservation returns what it has
  become and changes nothing.
\<close>

theorem reserve_idempotent:
  assumes "reaches (budget_step ev) empty_sdb d" "reserve ev r d = Inr (x, d')"
    and "meta_record_id (br_meta r) \<notin> ro_record_id ` set (sd_records d)"
  shows "reserve ev' r d' = Inr (x, d')"
proof -
  have ok: "budget_ok d" by (rule budget_reaches [OF assms(1)])
  have v: "validate_reservation r = Inr ()" using assms(2) by (auto simp: reserve_def)
  show ?thesis using assms(2)
  proof (cases rule: reserve_cases)
    case (again row)
    then show ?thesis using v by (simp add: reserve_def)
  next
    case (new w a m ref d1 d2)
    have s1: "store_ok d1" using publish_ok [OF _ new(5)] ok by (simp add: budget_ok_def)
    have "sd_records d1 = sd_records d" using new(5) by (cases rule: publish_cases) auto
    then have "resolve False d2 ref = Inr (BudgetReservation r)"
      using stage_publish_resolves [OF s1 new(10)] assms(3) by simp
    note I = insert_reservation_cases [OF new(11)]
    have "resolve False d' ref = Inr (BudgetReservation r)"
      by (rule grows_resolve [OF _ \<open>resolve False d2 ref = Inr (BudgetReservation r)\<close>])
         (simp add: I(3) grows_def)
    moreover have "tbl_lookup rw_reservation_id (sd_reservations d') (br_reservation_id r)
        = Some (new_row ev r w a ref)"
      using I(1) tbl_lookup_None [of rw_reservation_id "sd_reservations d2" "br_reservation_id r"]
      by (simp add: I(3) tbl_lookup_append) (simp add: tbl_lookup_def)
    ultimately show ?thesis using v new(1) by (simp add: reserve_def)
  qed
qed

section \<open>The verification tree\<close>

text \<open>The parent of a work item: the published record its parent reference resolves to.\<close>

definition parent_work :: "sdb \<Rightarrow> work \<Rightarrow> work \<Rightarrow> bool" where
  "parent_work d w p \<longleftrightarrow>
     (\<exists>ref. wk_parent_work_ref w = Some ref \<and> resolve False d ref = Inr (WorkExecutionState p))"

text \<open>A line of ancestors without repetition, from a work item up to its last member.\<close>

fun ancestry :: "sdb \<Rightarrow> work list \<Rightarrow> bool" where
  "ancestry d [] = False"
| "ancestry d [w] = True"
| "ancestry d (w # p # ps) = (parent_work d w p \<and> ancestry d (p # ps))"

text \<open>The line up to the nearest \<open>VERIFICATION\<close>, outside the work ids of \<open>seen\<close>.\<close>

definition root_line :: "sdb \<Rightarrow> string list \<Rightarrow> work \<Rightarrow> work list \<Rightarrow> bool" where
  "root_line d seen w ws \<longleftrightarrow>
     ws \<noteq> [] \<and> hd ws = w \<and> ancestry d ws \<and> distinct (map wk_work_id ws)
     \<and> wk_work_id ` set ws \<inter> set seen = {}
     \<and> list_all (\<lambda>x. wk_work_type x \<noteq> WT_VERIFICATION) (butlast ws)
     \<and> wk_work_type (last ws) = WT_VERIFICATION"

lemma root_line_step:
  "root_line d seen w ws \<longleftrightarrow>
     wk_work_id w \<notin> set seen
     \<and> (if wk_work_type w = WT_VERIFICATION then ws = [w]
        else \<exists>p ps. parent_work d w p \<and> ws = w # ps \<and> root_line d (wk_work_id w # seen) p ps)"
proof (cases ws)
  case (Cons x ps)
  show ?thesis
  proof (cases ps)
    case (Cons p qs)
    then show ?thesis using \<open>ws = x # ps\<close> by (auto simp: root_line_def)
  qed (auto simp: root_line_def Cons)
qed (auto simp: root_line_def)

lemma verification_root_from_iff:
  "verification_root_from d seen w = Inr (Some i) \<longleftrightarrow> (\<exists>ws. root_line d seen w ws \<and> wk_work_id (last ws) = i)"
proof (induction d seen w rule: verification_root_from.induct)
  case (1 d seen w)
  show ?case
  proof (cases "wk_work_id w \<in> set seen \<or> wk_work_type w = WT_VERIFICATION")
    case True
    then show ?thesis
      by (auto simp: verification_root_from.simps [of d seen w] root_line_step [of d seen w])
  next
    case False
    show ?thesis
    proof (cases "\<exists>p. parent_work d w p")
      case True
      then obtain ref p where p: "wk_parent_work_ref w = Some ref" "resolve False d ref = Inr (WorkExecutionState p)"
        by (auto simp: parent_work_def)
      have IH: "verification_root_from d (wk_work_id w # seen) p = Inr (Some i)
          \<longleftrightarrow> (\<exists>ws. root_line d (wk_work_id w # seen) p ws \<and> wk_work_id (last ws) = i)"
        using 1 False p by blast
      have only: "parent_work d w q \<longleftrightarrow> q = p" for q using p by (auto simp: parent_work_def)
      have ne: "root_line d s q ws \<Longrightarrow> ws \<noteq> []" for s q ws by (simp add: root_line_def)
      show ?thesis
        using False p IH ne
        by (auto simp: verification_root_from.simps [of d seen w] root_line_step [of d seen w] only)
    next
      case none: False
      then have "verification_root_from d seen w \<noteq> Inr (Some i)"
        using False
        by (auto simp: verification_root_from.simps [of d seen w] parent_work_def
            split: option.splits sum.splits contract_record.splits)
      then show ?thesis using False none by (auto simp: root_line_step [of d seen w])
    qed
  qed
qed

text \<open>
  C28. \<open>verification_root\<close> ends on every database, cyclic ancestry included, and it finds a root
  exactly when the parents of a work item lead, without repeating a work id, to a \<open>VERIFICATION\<close>
  item, the first on the way.
\<close>

theorem verification_root_found:
  "verification_root d w = Inr (Some i) \<longleftrightarrow>
     (\<exists>ws. hd ws = w \<and> ancestry d ws \<and> distinct (map wk_work_id ws)
        \<and> list_all (\<lambda>x. wk_work_type x \<noteq> WT_VERIFICATION) (butlast ws)
        \<and> wk_work_type (last ws) = WT_VERIFICATION \<and> wk_work_id (last ws) = i)"
proof -
  have "ancestry d ws \<Longrightarrow> ws \<noteq> []" for ws by (cases ws) auto
  then show ?thesis
    unfolding verification_root_def verification_root_from_iff root_line_def by auto
qed

end
