(* ===== verification/Budget_Book.thy ===== *)
theory Budget_Book
  imports Budget_Properties
begin

text \<open>
  The abstract specification of the budget ledger: a book of reservations, each open, spent or
  returned, and the moves it allows.  The database with its tables, records and revisions refines it.
\<close>

section \<open>The book\<close>




section \<open>Abstraction\<close>





section \<open>Simulation\<close>











end
