(* ===== verification/Record_Encoding.thy ===== *)
theory Record_Encoding
  imports Record_Store
begin

text \<open>
  The canonical encoder accepts every contract record: encoding one fails only when the registered
  model refuses it.
\<close>

section \<open>Values the encoder accepts\<close>

function (sequential) plain :: "pyval \<Rightarrow> bool" where
  "plain (VModel contract extra omitted ms) = (contract \<and> \<not> extra \<and> (\<forall>kv \<in> set ms. plain (snd kv)))"
| "plain (VOpaque extra v) = (\<not> extra \<and> plain v)"
| "plain (VEnum v) = plain v"
| "plain (VDatetime aware t) = aware"
| "plain (VMap kvs) = (\<forall>kv \<in> set kvs. fst kv \<noteq> KOther \<and> plain (snd kv))"
| "plain (VSeq vs) = (\<forall>v \<in> set vs. plain v)"
| "plain (VOther tn) = False"
| "plain v = True"
  by pat_completeness auto
termination
  by (relation "measure size") (auto simp: size_pair_mem size_list_estimation' less_Suc_eq_le)

text \<open>No member of the value itself is called \<open>content_hash\<close>.\<close>

fun no_self_hash :: "pyval \<Rightarrow> bool" where
  "no_self_hash (VModel contract extra omitted ms) = (''content_hash'' \<notin> fst ` set ms)"
| "no_self_hash (VMap kvs) = (KStr ''content_hash'' \<notin> fst ` set kvs)"
| "no_self_hash (VOpaque extra v) = no_self_hash v"
| "no_self_hash (VEnum v) = no_self_hash v"
| "no_self_hash _ = True"

lemma mapR_total: "(\<And>x. x \<in> set xs \<Longrightarrow> \<exists>y. f x = Inr y) \<Longrightarrow> \<exists>ys. mapR f xs = Inr ys"
proof (induction xs)
  case (Cons x xs)
  obtain y ys where "f x = Inr y" "mapR f xs = Inr ys" using Cons by fastforce
  then show ?case by simp
qed simp

lemma normalize_plain:
  "plain v \<Longrightarrow> path \<noteq> [] \<or> \<not> rh \<or> no_self_hash v \<Longrightarrow> \<exists>j. normalize Map.empty path rh v = Inr j"
proof (induction v arbitrary: path rule: plain.induct)
  case (1 contract extra omitted ms)
  let ?kept = "filter (\<lambda>kv. \<not> (fst kv \<in> set omitted \<and> snd kv = VNone)) ms"
  let ?f = "\<lambda>kv. bindR (normalize Map.empty (path @ [fst kv]) rh (snd kv)) (\<lambda>j. Inr (fst kv, j))"
  have "\<exists>y. ?f kv = Inr y"
    if kv: "kv \<in> set ?kept" for kv
  proof -
    have "kv \<in> set ms" "plain (snd kv)" using kv 1(2) by simp_all
    then obtain j where "normalize Map.empty (path @ [fst kv]) rh (snd kv) = Inr j"
      using 1(1) [of kv "path @ [fst kv]"] by blast
    then show ?thesis by simp
  qed
  then have "\<exists>js. mapR ?f ?kept = Inr js" by (rule mapR_total)
  then obtain js where "mapR ?f ?kept = Inr js" ..
  moreover have "\<not> (rh \<and> path = [] \<and> ''content_hash'' \<in> fst ` set ?kept)" using 1(3) by auto
  moreover have "contract" "\<not> extra" using 1(2) by simp_all
  ultimately show ?case by (simp only: normalize.simps Let_def if_False bindR_simps simp_thms sum.inject ex_simps)
next
  case (5 kvs)
  let ?f = "\<lambda>kv. bindR (normalize Map.empty (path @ [key_text (fst kv)]) rh (snd kv))
      (\<lambda>j. Inr (key_text (fst kv), j))"
  have "\<exists>y. ?f kv = Inr y" if kv: "kv \<in> set kvs" for kv
  proof -
    have "plain (snd kv)" using kv 5(2) by simp
    then obtain j where "normalize Map.empty (path @ [key_text (fst kv)]) rh (snd kv) = Inr j"
      using 5(1) [of kv "path @ [key_text (fst kv)]"] kv by blast
    then show ?thesis by simp
  qed
  then have "\<exists>js. mapR ?f kvs = Inr js" by (rule mapR_total)
  then obtain js where "mapR ?f kvs = Inr js" ..
  moreover have "KOther \<notin> fst ` set kvs" using 5(2) by auto
  moreover have "\<not> (rh \<and> path = [] \<and> KStr ''content_hash'' \<in> fst ` set kvs)" using 5(3) by auto
  ultimately show ?case by (simp only: normalize.simps if_False bindR_simps simp_thms sum.inject ex_simps)
next
  case (6 vs)
  have "\<exists>j. normalize Map.empty (path @ [''*'']) rh v = Inr j" if "v \<in> set vs" for v
    using 6 that by auto
  then have "\<exists>js. mapR (normalize Map.empty (path @ [''*'']) rh) vs = Inr js" by (rule mapR_total)
  then show ?case by (auto simp: sort_items_def)
qed auto

section \<open>Records are such values\<close>

lemma plain_atoms [simp]:
  "plain (opaque s)" "plain (v_nat n)" "plain (v_enum text x)" "plain (v_time t)"
  "plain (v_opt f y) \<longleftrightarrow> pred_option (\<lambda>x. plain (f x)) y"
  "plain (v_seq f xs) \<longleftrightarrow> (\<forall>x \<in> set xs. plain (f x))"
  "plain (contract_model ms) \<longleftrightarrow> (\<forall>kv \<in> set ms. plain (snd kv))"
  by (auto simp: opaque_def v_nat_def v_enum_def v_time_def v_opt_def v_seq_def contract_model_def
      split: option.split)

lemma plain_refs [simp]:
  "plain (stored_ref_value r)" "plain (run_ref_value q)" "plain (ref_value x)" "plain (meta_value m)"
proof -
  show s: "plain (stored_ref_value r)" for r
    by (simp add: stored_ref_value_def split: option.split)
  show run: "plain (run_ref_value q)" for q
    by (simp add: run_ref_value_def pred_option_def)
  show "plain (ref_value x)"
    by (cases x) (simp_all add: s run host_ref_value_def policy_ref_value_def)
  show "plain (meta_value m)"
    by (cases m) (simp_all add: revision_members_def pred_option_def)
qed

lemma plain_limits [simp]: "plain (limits_value l)"
  by (auto simp: limits_value_def)

lemma pred_option_True [simp]: "pred_option (\<lambda>x. True) y"
  by (cases y) simp_all

lemmas record_values = work_value_def attempt_value_def transition_value_def transition_commit_value_def
  action_request_value_def action_decision_value_def action_check_value_def
  execution_profile_value_def work_profile_value_def work_limit_value_def verification_profile_value_def
  dynamic_profile_value_def budget_binding_value_def budget_units_value_def reservation_value_def
  ledger_entry_value_def run_state_value_def assignment_value_def process_value_def
  dynamic_state_value_def workspace_value_def

definition modelled :: "contract_record \<Rightarrow> bool" where
  "modelled r \<longleftrightarrow> record_kind r \<noteq> None"

lemma record_value_plain:
  assumes "modelled r"
  shows "plain (record_value r)" and "no_self_hash (record_value r)"
proof -
  show "plain (record_value r)"
    using assms by (cases r) (auto simp: modelled_def record_values)
  show "no_self_hash (record_value r)"
    using assms by (cases r) (simp_all add: modelled_def record_values contract_model_def)
qed

lemma record_hash_digest:
  assumes "modelled r"
  obtains h where "record_hash r = Inr h" "digest_text h"
proof -
  note p = record_value_plain [OF assms]
  obtain j where "normalize Map.empty [] True (record_value r) = Inr j"
    using normalize_plain [OF p(1), of "[]" True] p(2) by blast
  then have "record_hash r = Inr (sha256_hex (encode j))"
    by (simp add: record_hash_def content_hash_def)
  moreover have "digest_text (sha256_hex (encode j))"
    using set_sha256_hex by (auto simp: digest_text_def length_sha256_hex list_all_iff)
  ultimately show thesis by (rule that)
qed

text \<open>
  C29. Every modelled record can be encoded and hashed; so \<open>encode\<close> raises exactly when the
  validation of the record does, and then with the same error.
\<close>

theorem encoding_total:
  assumes "modelled r"
  shows "(\<exists>h. record_hash r = Inr h \<and> digest_text h)
     \<and> (encode_record r = Inl e \<longleftrightarrow> decode_check r = Inl e)"
proof -
  obtain k where "normalize Map.empty [] False (record_value r) = Inr k"
    using normalize_plain [OF record_value_plain(1) [OF assms], of "[]" False] by blast
  then have "encode_record r = Inl e \<longleftrightarrow> decode_check r = Inl e"
    by (cases "decode_check r") (auto simp: encode_record_def canonical_bytes_def)
  then show ?thesis using record_hash_digest [OF assms] by blast
qed

end
