(* ===== verification/Budget_Examples.thy ===== *)
theory Budget_Examples
  imports Budget_Book Record_Encoding
begin

text \<open>
  A concrete run of the budget ledger, and the instances of the properties on it.  Content hashes
  stay the terms \<open>hash_of r\<close>: that the encoder accepts the records is all the run needs of them.
\<close>

section \<open>Records written once\<close>

definition hash_of :: "contract_record \<Rightarrow> string" where
  "hash_of r = (case record_hash r of Inr h \<Rightarrow> h | Inl _ \<Rightarrow> [])"

definition text_of :: "contract_record \<Rightarrow> string" where
  "text_of r = (case canonical_bytes Map.empty (record_value r) of Inr t \<Rightarrow> t | Inl _ \<Rightarrow> [])"

lemma hash_of [simp]: "modelled r \<Longrightarrow> record_hash r = Inr (hash_of r)" "modelled r \<Longrightarrow> digest_text (hash_of r)"
  by (auto simp: hash_of_def elim!: record_hash_digest)

lemma text_of: "modelled r \<Longrightarrow> decode_check r = Inr () \<Longrightarrow> encode_record r = Inr (text_of r)"
  using normalize_plain [OF record_value_plain(1), of r "[]" False]
  by (auto simp: encode_record_def text_of_def canonical_bytes_def)

definition run_ref_of :: "contract_record \<Rightarrow> run_ref" where
  "run_ref_of r =
     \<lparr>rr_id = record_id r, rr_kind = meta_record_type (record_meta r), rr_hash = hash_of r,
      rr_analysis = id_text (meta_analysis (record_meta r)), rr_record = Some (record_id r)\<rparr>"

lemma run_reference:
  "modelled r \<Longrightarrow> is_run_meta (record_meta r) \<Longrightarrow> record_reference r = Inr (RunStoredDataRef (run_ref_of r))"
  using hash_of(1) [of r]
  by (cases "record_meta r")
     (simp_all add: record_reference_def reference_def record_hash_def run_ref_of_def id_text_def Let_def)

text \<open>The database after a first revision with a run scope is staged and published.\<close>

definition put :: "contract_record \<Rightarrow> sdb \<Rightarrow> sdb" where
  "put r d = d\<lparr>sd_records := sd_records d @ [stored_row r (text_of r) (RunStoredDataRef (run_ref_of r))],
               sd_revisions := sd_revisions d @ [revision_row_of r]\<rparr>"

definition fresh_record :: "contract_record \<Rightarrow> sdb \<Rightarrow> bool" where
  "fresh_record r d \<longleftrightarrow>
     modelled r \<and> is_run_meta (record_meta r) \<and> decode_check r = Inr ()
     \<and> (case rm_previous_record_id (revision_of (record_meta r)) of
            None \<Rightarrow> True
          | Some p \<Rightarrow> (case published_row d p of
                None \<Rightarrow> False
              | Some row \<Rightarrow> validate_revision (record_meta (ro_record row)) (record_meta r) = Inr ()))
     \<and> record_id r \<notin> ro_record_id ` set (sd_records d)
     \<and> record_id r \<notin> rv_record_id ` set (sd_revisions d)
     \<and> revision_key (revision_row_of r) \<notin> revision_key ` set (sd_revisions d)"

lemma stored_row_simps [simp]:
  "ro_record_id (stored_row r t ref) = record_id r" "ro_ref (stored_row r t ref) = ref"
  "ro_record (stored_row r t ref) = r" "ro_payload (stored_row r t ref) = t"
  by (simp_all add: stored_row_def Let_def)

lemma stage_publish_fresh:
  assumes "fresh_record r d"
  shows "stage_publish r d = Inr (RunStoredDataRef (run_ref_of r), put r d)"
proof -
  let ?ref = "RunStoredDataRef (run_ref_of r)"
  let ?d1 = "d\<lparr>sd_records := sd_records d @ [stored_row r (text_of r) ?ref]\<rparr>"
  have f: "modelled r" "is_run_meta (record_meta r)" "decode_check r = Inr ()"
    "tbl_lookup ro_record_id (sd_records d) (record_id r) = None"
    "tbl_lookup rv_record_id (sd_revisions d) (record_id r) = None"
    and prev: "case rm_previous_record_id (revision_of (record_meta r)) of
            None \<Rightarrow> True
          | Some p \<Rightarrow> (case published_row d p of
                None \<Rightarrow> False
              | Some row \<Rightarrow> validate_revision (record_meta (ro_record row)) (record_meta r) = Inr ())"
    using assms by (simp_all add: fresh_record_def tbl_lookup_None)
  have k: "\<not> (\<exists>v \<in> set (sd_revisions d). rv_logical_record_id v = rm_logical_record_id (revision_of (record_meta r))
      \<and> rv_revision_number v = meta_revision (record_meta r))"
    using assms by (force simp: fresh_record_def revision_key_def image_iff)
  have st: "stage_record r d = Inr (?ref, ?d1)"
    using f by (simp add: stage_record_def text_of run_reference)
  have ref: "ref_record_id ?ref = Some (record_id r)" by (simp add: run_ref_of_def)
  have "tbl_lookup ro_record_id (sd_records ?d1) (record_id r) = Some (stored_row r (text_of r) ?ref)"
    using f(4) by (simp add: tbl_lookup_append) (simp add: tbl_lookup_def)
  then have "resolve True ?d1 ?ref = Inr r"
    using f(1) ref by (simp add: resolve_iff id_text_def) (simp add: run_ref_of_def)
  then have "publish ?ref ?d1 = Inr ((), put r d)"
    using f prev k
    by (auto simp: publish_def put_def Let_def published_row_def tbl_lookup_append
        split: option.splits if_splits)
  then show ?thesis using st by (simp add: stage_publish_def)
qed

lemma put_step:
  assumes "fresh_record r d" "reaches (budget_step ev) e d"
  shows "reaches (budget_step ev) e (put r d)"
proof -
  obtain d1 where "stage_record r d = Inr (RunStoredDataRef (run_ref_of r), d1)"
    "publish (RunStoredDataRef (run_ref_of r)) d1 = Inr ((), put r d)"
    using stage_publish_fresh [OF assms(1)] by (auto simp: stage_publish_def)
  then show ?thesis
    using assms(2) reaches.step budget_step.staged budget_step.published by metis
qed

text \<open>A database whose records are the given ones, all published.\<close>

definition filed :: "contract_record list \<Rightarrow> sdb \<Rightarrow> bool" where
  "filed rs d \<longleftrightarrow> list_all modelled rs \<and> distinct (map record_id rs)
     \<and> sd_records d = map (\<lambda>r. stored_row r (text_of r) (RunStoredDataRef (run_ref_of r))) rs
     \<and> sd_revisions d = map revision_row_of rs"

lemma filed_put: "filed rs d \<Longrightarrow> fresh_record r d \<Longrightarrow> filed (rs @ [r]) (put r d)"
  by (auto simp: filed_def fresh_record_def put_def image_image)

lemma tbl_lookup_map:
  "r \<in> set rs \<Longrightarrow> distinct (map key rs) \<Longrightarrow> (\<And>x. col (f x) = key x)
     \<Longrightarrow> tbl_lookup col (map f rs) (key r) = Some (f r)"
  by (induction rs) (auto simp: tbl_lookup_def image_iff)

lemma filed_published:
  assumes "filed rs d" "r \<in> set rs"
  shows "tbl_lookup ro_record_id (sd_records d) (record_id r)
       = Some (stored_row r (text_of r) (RunStoredDataRef (run_ref_of r)))"
    and "published_row d (record_id r)
       = Some (stored_row r (text_of r) (RunStoredDataRef (run_ref_of r)))"
proof -
  show *: "tbl_lookup ro_record_id (sd_records d) (record_id r)
       = Some (stored_row r (text_of r) (RunStoredDataRef (run_ref_of r)))"
    using assms tbl_lookup_map [of r rs record_id ro_record_id
        "\<lambda>r. stored_row r (text_of r) (RunStoredDataRef (run_ref_of r))"] by (simp add: filed_def)
  have "tbl_lookup rv_record_id (sd_revisions d) (record_id r) = Some (revision_row_of r)"
    using assms tbl_lookup_map [of r rs record_id rv_record_id revision_row_of] by (simp add: filed_def)
  then show "published_row d (record_id r)
       = Some (stored_row r (text_of r) (RunStoredDataRef (run_ref_of r)))"
    using * by (simp add: published_row_def)
qed

lemma filed_resolve:
  assumes "filed rs d" "r \<in> set rs"
  shows "resolve c d (RunStoredDataRef (run_ref_of r)) = Inr r"
  using filed_published [OF assms] assms
  by (simp add: resolve_iff id_text_def run_ref_of_def filed_def list_all_iff)

section \<open>The records of the run\<close>

definition ex_rev :: "string \<Rightarrow> string \<Rightarrow> revision_meta" where
  "ex_rev i kind =
     \<lparr>rm_record_id = i, rm_logical_record_id = i, rm_record_type = kind, rm_schema_version = ''1.0.0'',
      rm_revision_number = 1, rm_previous_record_id = None, rm_created_at = 0\<rparr>"

definition ex_meta :: "string \<Rightarrow> string \<Rightarrow> record_metadata" where
  "ex_meta i kind = RunMeta (ex_rev i kind) ''A''"

definition ex_outer_ref :: "string \<Rightarrow> string \<Rightarrow> run_ref" where
  "ex_outer_ref i kind =
     \<lparr>rr_id = i, rr_kind = kind, rr_hash = sha256_hex [], rr_analysis = ''A'', rr_record = Some i\<rparr>"

definition ex_profile :: execution_profile where
  "ex_profile =
     \<lparr>ep_meta = ex_meta ''P'' ''execution_budget_profile'',
      ep_approval_ref = Some (RunStoredDataRef (ex_outer_ref ''Q'' ''approval'')),
      ep_approved_by = Some ''B'', ep_approved_at = Some 0, ep_status = ACTIVE, ep_profile_key = ''K'',
      ep_purpose = PRODUCTION, ep_max_analysis_elapsed_ms = 1000, ep_max_total_cost_minor_units = 100,
      ep_currency = ''USD'', ep_pricing_revision_ref = RunStoredDataRef (ex_outer_ref ''R'' ''pricing''),
      ep_max_total_work = 4, ep_max_total_llm_calls = 3, ep_max_total_retries = 2,
      ep_max_parallel_work = 1\<rparr>"

abbreviation "ex_profile_record \<equiv> ExecutionBudgetProfile ex_profile"
abbreviation "ex_profile_ref \<equiv> run_ref_of ex_profile_record"

definition ex_state :: run_state where
  "ex_state =
     \<lparr>rs_meta = ex_meta ''S'' ''analysis_run_state'', rs_purpose = PRODUCTION, rs_eval_config_refs = [],
      rs_analysis_input_ref = ex_outer_ref ''I'' ''analysis_run_input'', rs_program_id = ''G'',
      rs_execution_budget_profile_ref = ex_profile_ref, rs_budget_binding_ref = None,
      rs_workspace_id = None, rs_commit_id = None, rs_workspace_ref = None,
      rs_run_policy_state_ref = None, rs_status = RUN_RUNNING, rs_analysis_result_ref = None,
      rs_started_at = 0, rs_finished_at = None, rs_elapsed_ms = 0\<rparr>"

definition ex_work :: work where
  "ex_work =
     \<lparr>wk_meta = ex_meta ''W'' ''work_execution_state'', wk_work_id = ''X'', wk_parent_work_ref = None,
      wk_work_type = WT_WORKSPACE_PREP, wk_subject_type = S_ANALYSIS, wk_subject_id = ''A'',
      wk_work_generation = 1, wk_status = W_PENDING, wk_state_version = 1, wk_last_transition_ref = None,
      wk_last_transition_commit_ref = None, wk_active_attempt_id = None, wk_input_hash = sha256_hex [],
      wk_dedupe_key = sha256_hex [], wk_trigger_primitive_ref = None, wk_input_refs = [],
      wk_output_refs = [], wk_gap_ids = [], wk_error_ids = [], wk_waiting_for = [],
      wk_stop_reason = None, wk_started_at = None, wk_finished_at = None, wk_elapsed_ms = 0\<rparr>"

definition ex_action :: action_request where
  "ex_action =
     \<lparr>ar_meta = ex_meta ''N'' ''action_request'', ar_action_id = ''M'', ar_requested_by = RQ_ORCHESTRATION,
      ar_requester_identity_ref = RunStoredDataRef (ex_outer_ref ''D'' ''identity''),
      ar_action_type = REGISTER_WORK, ar_work_ref = None, ar_expected_state_version = None,
      ar_expected_verification_generation = None, ar_generation_restart_reason = None,
      ar_generation_restart_basis_refs = [], ar_input_refs = [], ar_dynamic_request_ref = None,
      ar_reproduction_plan_ref = None, ar_result_kind = None, ar_candidate_result_ref = None,
      ar_llm_call_spec_ref = None, ar_tool_name = None, ar_file_paths = [], ar_provider_profile_ref = None,
      ar_session_mode = None, ar_sandbox_profile_ref = None, ar_resource_profile_ref = None,
      ar_run_policy_state_ref = None, ar_image_digest = None, ar_network_targets = [],
      ar_resource_limits = None, ar_reason = ''C'', ar_requested_at = 0\<rparr>"

definition ex_units :: "nat \<Rightarrow> budget_units" where
  "ex_units n = \<lparr>bu_elapsed_ms = n, bu_work_count = 1, bu_llm_call_count = 0, bu_retry_count = 0,
     bu_cost_minor_units = n, bu_currency = ''USD''\<rparr>"

definition ex_reservation :: reservation where
  "ex_reservation =
     \<lparr>br_meta = ex_meta ''V'' ''budget_reservation'', br_reservation_id = ''Y'',
      br_budget_binding_ref = RunStoredDataRef ex_profile_ref,
      br_action_ref = RunStoredDataRef (run_ref_of (ActionRequest ex_action)),
      br_work_ref = RunStoredDataRef (run_ref_of (WorkExecutionState ex_work)),
      br_requested_units = ex_units 10, br_status = RESERVED, br_ledger_entry_ref = None,
      br_reserved_at = 0, br_finalized_at = None\<rparr>"

definition ex_entry :: ledger_entry where
  "ex_entry =
     \<lparr>bl_meta = ex_meta ''L'' ''budget_ledger_entry'', bl_ledger_entry_id = ''E'',
      bl_reservation_ref = RunStoredDataRef (run_ref_of (BudgetReservation ex_reservation)),
      bl_budget_binding_ref = RunStoredDataRef ex_profile_ref,
      bl_action_ref = RunStoredDataRef (run_ref_of (ActionRequest ex_action)),
      bl_work_ref = RunStoredDataRef (run_ref_of (WorkExecutionState ex_work)),
      bl_actual_units = ex_units 12, bl_usage_refs = [], bl_sequence = 1, bl_committed_at = 5\<rparr>"

lemma ascii_text:
  assumes "of_char c < (128::nat)" "\<not> white_space (of_char c)" "cs = [] \<or> of_char (hd cs) < (128::nat)"
  shows "non_empty_str (c # cs)"
  using assms by (cases cs) (simp_all add: non_empty_str_def Let_def)

lemmas ex_text = ascii_text white_space_def

lemma ex_version: "schema_version_text ''1.0.0''"
  by (simp add: schema_version_text_def version_part_def decimal_def Let_def)

lemma ex_digest: "digest_text (sha256_hex bs)"
  using set_sha256_hex by (auto simp: digest_text_def length_sha256_hex list_all_iff)

text \<open>What the validators of the run's records unfold to.\<close>

lemmas ex_valid_defs = decode_check_def CORE_SCHEMAS_def RESULT_REGISTRY_def MODEL_KINDS_def
  PART_SCHEMAS_def validate_scoped_def validate_meta_def revision_fields_ok_def revision_shape_def
  ex_version ex_digest ex_meta_def ex_rev_def ex_outer_ref_def run_ref_ok_def run_ref_of_def
  reference_scopes_def check_fields_def raise_if_def seq2_def require_if_def option_refs_def
  require_record_ref_def validate_budget_scope_def later_def id_text_def

lemma ex_metas [simp]:
  "ep_meta ex_profile = ex_meta ''P'' ''execution_budget_profile''"
  "wk_meta ex_work = ex_meta ''W'' ''work_execution_state''"
  "ar_meta ex_action = ex_meta ''N'' ''action_request''"
  "br_meta ex_reservation = ex_meta ''V'' ''budget_reservation''"
  "bl_meta ex_entry = ex_meta ''L'' ''budget_ledger_entry''"
  "rs_meta ex_state = ex_meta ''S'' ''analysis_run_state''"
  by (simp_all add: ex_profile_def ex_work_def ex_action_def ex_reservation_def ex_entry_def ex_state_def)

lemma ex_modelled [simp]:
  "modelled ex_profile_record" "modelled (WorkExecutionState ex_work)" "modelled (ActionRequest ex_action)"
  "modelled (BudgetReservation ex_reservation)" "modelled (BudgetLedgerEntry ex_entry)"
  "modelled (AnalysisRunState ex_state)"
  by (simp_all add: modelled_def)

lemma ex_profile_ok: "decode_check ex_profile_record = Inr ()"
  by (simp add: validate_execution_profile_def execution_profile_ok_def
      execution_profile_refs_def approval_shape_def run_profile_def ex_valid_defs ex_text)
    (simp add: ex_profile_def ex_valid_defs ex_text)

lemma ex_work_ok: "decode_check (WorkExecutionState ex_work) = Inr ()"
  by (simp add: ex_work_def validate_work_def work_ok_def work_refs_def work_shape_def
      trigger_shape_def TERMINAL_WORK_STATUSES_def ex_valid_defs ex_text)

lemma ex_action_ok: "decode_check (ActionRequest ex_action) = Inr ()"
  by (simp add: ex_action_def validate_action_def action_request_ok_def action_request_refs_def
      action_shape_def only_for_def LLM_ACTIONS_def ex_valid_defs ex_text)

lemma ex_state_ok: "decode_check (AnalysisRunState ex_state) = Inr ()"
  by (simp add: ex_state_def validate_run_state_def run_state_ok_def run_state_refs_def
      state_shape_def ex_valid_defs ex_text)

lemma ex_reservation_ok: "decode_check (BudgetReservation ex_reservation) = Inr ()"
  by (simp add: ex_reservation_def validate_reservation_def reservation_ok_def reservation_refs_def
      reservation_shape_def budget_units_ok_def ex_units_def ex_valid_defs ex_text)

lemma ex_entry_ok: "decode_check (BudgetLedgerEntry ex_entry) = Inr ()"
  by (simp add: ex_entry_def validate_ledger_entry_def ledger_entry_ok_def ledger_entry_refs_def
      ledger_shape_def budget_units_ok_def ex_units_def ex_valid_defs ex_text)

section \<open>The run\<close>

definition ex_ev :: evidence where
  "ex_ev = \<lparr>ev_pricing = (\<lambda>_. True), ev_item_count = (\<lambda>_ _. None)\<rparr>"

definition ex_budget_stamp :: budget_stamp where
  "ex_budget_stamp = \<lparr>bs_record_id = ''Z'', bs_created_at = 6, bs_finalized_at = 7\<rparr>"

definition ex_d1 :: sdb where
  "ex_d1 = (put ex_profile_record empty_sdb)\<lparr>sd_profiles :=
     [\<lparr>pf_analysis_id = ''A'', pf_kind = ''execution_budget_profile'',
       pf_ref = RunStoredDataRef ex_profile_ref\<rparr>]\<rparr>"

definition ex_d2 :: sdb where
  "ex_d2 = (put (AnalysisRunState ex_state) ex_d1)
     \<lparr>sd_runs := [\<lparr>an_analysis_id = ''A'', an_payload = ex_state\<rparr>],
      sd_current := [\<lparr>cu_logical_record_id = ''S'', cu_record_id = ''S'', cu_state_version = 1\<rparr>]\<rparr>"

definition ex_d3 :: sdb where
  "ex_d3 = put (ActionRequest ex_action) (put (WorkExecutionState ex_work) ex_d2)"

abbreviation "ex_reservation_ref \<equiv> RunStoredDataRef (run_ref_of (BudgetReservation ex_reservation))"
abbreviation "ex_entry_ref \<equiv> RunStoredDataRef (run_ref_of (BudgetLedgerEntry ex_entry))"

definition ex_d4 :: sdb where
  "ex_d4 = (put (BudgetReservation ex_reservation) ex_d3)
     \<lparr>sd_reservations := [new_row ex_ev ex_reservation ex_work ex_action ex_reservation_ref]\<rparr>"

definition ex_committed :: reservation where
  "ex_committed = ex_reservation
     \<lparr>br_meta := RunMeta ((ex_rev ''V'' ''budget_reservation'')\<lparr>rm_record_id := ''Z'',
        rm_revision_number := 2, rm_previous_record_id := Some ''V'', rm_created_at := 6\<rparr>) ''A'',
      br_status := COMMITTED, br_finalized_at := Some 7, br_ledger_entry_ref := Some ex_entry_ref\<rparr>"

definition ex_d5 :: sdb where
  "ex_d5 = (put (BudgetReservation ex_committed) (put (BudgetLedgerEntry ex_entry) ex_d4))
     \<lparr>sd_reservations := [(new_row ex_ev ex_reservation ex_work ex_action ex_reservation_ref)
        \<lparr>rw_status := COMMITTED, rw_payload := ex_committed\<rparr>],
      sd_ledger := [entry_row ex_entry ''Y'']\<rparr>"

lemma filed_frame:
  "filed rs (d\<lparr>sd_profiles := x\<rparr>) = filed rs d" "filed rs (d\<lparr>sd_runs := y\<rparr>) = filed rs d"
  "filed rs (d\<lparr>sd_current := z\<rparr>) = filed rs d" "filed rs (d\<lparr>sd_reservations := v\<rparr>) = filed rs d"
  "filed rs (d\<lparr>sd_ledger := w\<rparr>) = filed rs d"
  by (simp_all add: filed_def)

text \<open>A first revision whose id is none of the filed ones.\<close>

lemma filed_fresh:
  assumes "filed rs d" "modelled r" "decode_check r = Inr ()" "record_meta r = ex_meta i kind"
    and "i \<notin> record_id ` set rs"
    and "list_all (\<lambda>x. rm_logical_record_id (revision_of (record_meta x)) \<noteq> i) rs"
  shows "fresh_record r d"
  using assms
  by (auto simp: fresh_record_def filed_def ex_meta_def ex_rev_def revision_key_def list_all_iff image_image)

lemma put_frame [simp]:
  "sd_runs (put r d) = sd_runs d" "sd_current (put r d) = sd_current d"
  "sd_profiles (put r d) = sd_profiles d" "sd_reservations (put r d) = sd_reservations d"
  "sd_ledger (put r d) = sd_ledger d" "sd_attempts (put r d) = sd_attempts d"
  by (simp_all add: put_def)

abbreviation "ex_bootstrap \<equiv>
  [ex_profile_record, AnalysisRunState ex_state, WorkExecutionState ex_work, ActionRequest ex_action]"

lemmas ex_ids = ex_meta_def ex_rev_def

lemma fresh_profile: "fresh_record ex_profile_record empty_sdb"
  by (rule filed_fresh [where rs = "[]" and i = "''P''"]) (simp_all add: filed_def empty_sdb_def ex_profile_ok)

lemma filed_d1: "filed [ex_profile_record] ex_d1"
  using filed_put [OF _ fresh_profile, of "[]"] by (simp add: filed_frame ex_d1_def filed_def empty_sdb_def)

lemma fresh_state: "fresh_record (AnalysisRunState ex_state) ex_d1"
  by (rule filed_fresh [OF filed_d1, where i = "''S''"])
    (simp_all add: ex_state_ok ex_ids)

lemma filed_d2: "filed [ex_profile_record, AnalysisRunState ex_state] ex_d2"
  using filed_put [OF filed_d1 fresh_state] by (simp add: filed_frame ex_d2_def)

lemma fresh_work: "fresh_record (WorkExecutionState ex_work) ex_d2"
  by (rule filed_fresh [OF filed_d2, where i = "''W''"])
    (simp_all add: ex_work_ok ex_ids)

lemma fresh_action: "fresh_record (ActionRequest ex_action) (put (WorkExecutionState ex_work) ex_d2)"
  by (rule filed_fresh [OF filed_put [OF filed_d2 fresh_work], where i = "''N''"])
    (simp_all add: ex_action_ok ex_ids)

lemma filed_d3: "filed ex_bootstrap ex_d3"
  using filed_put [OF filed_put [OF filed_d2 fresh_work] fresh_action] by (simp add: ex_d3_def)

lemma fresh_reservation: "fresh_record (BudgetReservation ex_reservation) ex_d3"
  by (rule filed_fresh [OF filed_d3, where i = "''V''"])
    (simp_all add: ex_reservation_ok ex_ids)

lemma filed_d4: "filed (ex_bootstrap @ [BudgetReservation ex_reservation]) ex_d4"
  using filed_put [OF filed_d3 fresh_reservation] by (simp add: filed_frame ex_d4_def)

lemma fresh_entry: "fresh_record (BudgetLedgerEntry ex_entry) ex_d4"
  by (rule filed_fresh [OF filed_d4, where i = "''L''"])
    (simp_all add: ex_entry_ok ex_ids)

lemmas filed_entry = filed_put [OF filed_d4 fresh_entry]

lemma ex_committed_meta [simp]:
  "br_meta ex_committed = RunMeta ((ex_rev ''V'' ''budget_reservation'')\<lparr>rm_record_id := ''Z'',
        rm_revision_number := 2, rm_previous_record_id := Some ''V'', rm_created_at := 6\<rparr>) ''A''"
  by (simp add: ex_committed_def)

lemma ex_committed_valid: "validate_reservation ex_committed = Inr ()"
  by (simp add: ex_committed_def ex_reservation_def validate_reservation_def reservation_ok_def
      reservation_refs_def reservation_shape_def budget_units_ok_def ex_units_def ex_valid_defs ex_text)

lemma fresh_committed:
  "fresh_record (BudgetReservation ex_committed) (put (BudgetLedgerEntry ex_entry) ex_d4)"
proof -
  have "published_row (put (BudgetLedgerEntry ex_entry) ex_d4) ''V''
      = Some (stored_row (BudgetReservation ex_reservation) (text_of (BudgetReservation ex_reservation))
          ex_reservation_ref)"
    using filed_published(2) [OF filed_entry, of "BudgetReservation ex_reservation"]
    by (simp add: ex_ids)
  moreover have "validate_revision (br_meta ex_reservation) (br_meta ex_committed) = Inr ()"
    by (simp add: validate_revision_ok immutable_attributes_def ex_ids)
  moreover have "decode_check (BudgetReservation ex_committed) = Inr ()"
    using ex_committed_valid by (simp add: ex_valid_defs)
  ultimately show ?thesis
    using filed_entry
    by (auto simp: fresh_record_def filed_def modelled_def ex_ids revision_key_def image_image)
qed

lemma filed_d5:
  "filed (ex_bootstrap @ [BudgetReservation ex_reservation, BudgetLedgerEntry ex_entry,
     BudgetReservation ex_committed]) ex_d5"
  using filed_put [OF filed_entry fresh_committed] by (simp add: filed_frame ex_d5_def)

section \<open>Every operation of the run\<close>

lemma filed_publish:
  assumes "filed rs d" "r \<in> set rs"
  shows "publish (RunStoredDataRef (run_ref_of r)) d = Inr ((), d)"
proof -
  have "tbl_lookup rv_record_id (sd_revisions d) (record_id r) \<noteq> None"
    using filed_published(2) [OF assms] by (auto simp: published_row_def split: if_splits)
  then show ?thesis
    using filed_resolve [OF assms, of True] by (simp add: publish_def Let_def)
qed

lemma ex_pin: "pin (RunStoredDataRef ex_profile_ref) ''A'' (put ex_profile_record empty_sdb) = Inr ((), ex_d1)"
  by (simp add: pin_def pinned_ref_def tbl_lookup_def ex_d1_def empty_sdb_def run_ref_of_def ex_ids)

lemma ex_save: "save_run ex_state None ex_d1 = Inr ((), ex_d2)"
proof -
  have "stage_publish (AnalysisRunState ex_state) ex_d1
      = Inr (RunStoredDataRef (run_ref_of (AnalysisRunState ex_state)), put (AnalysisRunState ex_state) ex_d1)"
    by (rule stage_publish_fresh [OF fresh_state])
  then show ?thesis
    by (simp add: save_run_def insert_run_def Let_def ex_d2_def ex_ids id_text_def)
      (simp add: ex_d1_def empty_sdb_def tbl_lookup_def)
qed

lemma ex_tables [simp]:
  "sd_runs ex_d3 = [\<lparr>an_analysis_id = ''A'', an_payload = ex_state\<rparr>]"
  "sd_profiles ex_d3 = [\<lparr>pf_analysis_id = ''A'', pf_kind = ''execution_budget_profile'',
       pf_ref = RunStoredDataRef ex_profile_ref\<rparr>]"
  "sd_reservations ex_d3 = []" "sd_ledger ex_d3 = []"
  by (simp_all add: ex_d3_def ex_d2_def ex_d1_def empty_sdb_def)

lemma ex_execution:
  assumes "filed rs d" "ex_profile_record \<in> set rs" "sd_runs d = sd_runs ex_d3" "sd_profiles d = sd_profiles ex_d3"
  shows "execution d (RunStoredDataRef ex_profile_ref) ''A'' = Inr ex_profile"
proof -
  have "pinned_profile d (RunStoredDataRef ex_profile_ref) ''A'' = Inr ex_profile_record"
    using filed_resolve [OF assms(1,2), of False] assms(3,4)
    by (simp add: pinned_profile_def pinned_ref_def get_run_def tbl_lookup_def Let_def)
      (simp add: run_ref_of_def ex_state_def ex_ids)
  then show ?thesis
    by (simp add: execution_def active_execution_def id_text_def ex_ids)
      (simp add: ex_profile_def)
qed

lemma ex_available:
  assumes "filed rs d" "ex_profile_record \<in> set rs" "sd_runs d = sd_runs ex_d3" "sd_profiles d = sd_profiles ex_d3"
  shows "available d (RunStoredDataRef ex_profile_ref) ''A'' except =
    (let used = used_units d ''A'' except in
     Inr \<lparr>bm_budget_binding_ref = RunStoredDataRef ex_profile_ref, bm_as_of_sequence = as_of_sequence d ''A'',
          bm_available_units = \<lparr>bu_elapsed_ms = 1000 - total bu_elapsed_ms used,
             bu_work_count = 4 - total bu_work_count used,
             bu_llm_call_count = 3 - total bu_llm_call_count used,
             bu_retry_count = 2 - total bu_retry_count used,
             bu_cost_minor_units = 100 - total bu_cost_minor_units used, bu_currency = ''USD''\<rparr>,
          bm_active_reservation_count = length (reserved_rows d ''A'')\<rparr>)"
  using ex_execution [OF assms]
  by (simp add: available_def Let_def profile_units_def validate_budget_scope_def require_record_ref_def
      check_fields_def budget_units_ok_def)
    (simp add: ex_profile_def ex_text run_ref_of_def ex_ids)

lemma ex_reservation_valid: "validate_reservation ex_reservation = Inr ()"
  using ex_reservation_ok by (simp add: ex_valid_defs ex_ids)

lemma ex_entry_valid: "validate_ledger_entry ex_entry = Inr ()"
  using ex_entry_ok by (simp add: ex_valid_defs ex_ids)

lemmas ex_sums = used_units_def reserved_rows_def ledger_entries_def as_of_sequence_def total_def

lemma ex_operation: "validate_operation ex_ev ex_d3 ex_reservation ex_work ex_action = Inr ()"
  using filed_resolve [OF filed_d3, of ex_profile_record False]
  by (simp add: validate_operation_def capacity_check_def external_check_def ex_reservation_def ex_work_def
      ex_action_def EXTERNAL_ACTIONS_def ex_available [OF filed_d3] ex_ids id_text_def ex_sums Let_def
      exceeds_def UNIT_FIELDS_def ex_units_def raise_if_def)

lemma ex_reserve: "reserve ex_ev ex_reservation ex_d3 = Inr (ex_reservation, ex_d4)"
proof -
  have res: "resolve True ex_d3 (br_work_ref ex_reservation) = Inr (WorkExecutionState ex_work)"
    "resolve True ex_d3 (br_action_ref ex_reservation) = Inr (ActionRequest ex_action)"
    "publish (br_action_ref ex_reservation) ex_d3 = Inr ((), ex_d3)"
    using filed_resolve [OF filed_d3] filed_publish [OF filed_d3] by (simp_all add: ex_reservation_def)
  have "stage_publish (BudgetReservation ex_reservation) ex_d3
      = Inr (ex_reservation_ref, put (BudgetReservation ex_reservation) ex_d3)"
    by (rule stage_publish_fresh [OF fresh_reservation])
  moreover have "br_budget_binding_ref ex_reservation = RunStoredDataRef ex_profile_ref"
    "br_status ex_reservation = RESERVED" "br_requested_units ex_reservation = ex_units 10"
    by (simp_all add: ex_reservation_def)
  ultimately show ?thesis
    using res
    by (simp add: reserve_def reserve_new_def ex_reservation_valid ex_operation tbl_lookup_def ex_ids
        id_text_def ex_available [OF filed_d3] ex_sums Let_def exceeds_def UNIT_FIELDS_def ex_units_def
        insert_reservation_def ex_d4_def new_row_def)
qed

lemma ex_usage: "commit_usage ex_budget_stamp ex_entry ex_d4 = Inr (ex_entry, ex_d5)"
proof -
  have res: "resolve False ex_d4 (bl_reservation_ref ex_entry) = Inr (BudgetReservation ex_reservation)"
    using filed_resolve [OF filed_d4] by (simp add: ex_entry_def)
  have tabs: "sd_runs ex_d4 = sd_runs ex_d3" "sd_profiles ex_d4 = sd_profiles ex_d3" "sd_ledger ex_d4 = []"
    "sd_reservations ex_d4 = [new_row ex_ev ex_reservation ex_work ex_action ex_reservation_ref]"
    by (simp_all add: ex_d4_def)
  have check: "ledger_entry_check ex_d4 ex_entry ex_reservation = Inr ()"
    by (simp add: ledger_entry_check_def ex_entry_def ex_reservation_def ex_ids id_text_def
        ex_available [OF filed_d4 _ tabs(1,2)] ex_sums tabs Let_def ex_units_def raise_if_def)
  have st: "stage_publish (BudgetLedgerEntry ex_entry) ex_d4
      = Inr (ex_entry_ref, put (BudgetLedgerEntry ex_entry) ex_d4)"
    by (rule stage_publish_fresh [OF fresh_entry])
  have meta: "next_meta (br_meta ex_reservation) ''Z'' 6 = Inr (br_meta ex_committed)"
    by (simp add: next_meta_def ex_ids Let_def validate_meta_def revision_fields_ok_def revision_shape_def
        ex_version ex_text seq2_def check_fields_def)
  have fin: "finalize ex_reservation ex_committed (put (BudgetLedgerEntry ex_entry) ex_d4)
      = Inr ((), (put (BudgetReservation ex_committed) (put (BudgetLedgerEntry ex_entry) ex_d4))
          \<lparr>sd_reservations := [(new_row ex_ev ex_reservation ex_work ex_action ex_reservation_ref)
             \<lparr>rw_status := COMMITTED, rw_payload := ex_committed\<rparr>]\<rparr>)"
    using stage_publish_fresh [OF fresh_committed]
    by (simp add: finalize_def validate_reservation_revision_def validate_revision_ok immutable_attributes_def
        ex_ids tabs update_rows_def new_row_def)
      (simp add: ex_committed_def ex_reservation_def)
  have row: "rw_payload (new_row ex_ev ex_reservation ex_work ex_action ex_reservation_ref) = ex_reservation"
    "br_reservation_id ex_reservation = ''Y''"
    by (simp_all add: new_row_def ex_reservation_def)
  have fin': "ex_reservation\<lparr>br_meta := br_meta ex_committed, br_status := COMMITTED,
      br_finalized_at := Some 7, br_ledger_entry_ref := Some ex_entry_ref\<rparr> = ex_committed"
    by (simp add: ex_committed_def)
  have "commit_new ex_budget_stamp ex_entry ''Y'' ex_d4 = Inr (ex_entry, ex_d5)"
    using check st meta fin fin' ex_committed_valid
    by (simp add: commit_new_def tabs tbl_lookup_def row Let_def ex_budget_stamp_def insert_ledger_def
        del: ex_committed_meta ex_metas)
      (simp add: ex_d5_def entry_row_def ex_d4_def new_row_def row)
  then show ?thesis
    using res by (simp add: commit_usage_def ex_entry_valid tabs tbl_lookup_def row)
qed

section \<open>The run is a run of the ledger\<close>

lemma reaches_d1: "reaches (budget_step ex_ev) empty_sdb ex_d1"
  using put_step [OF fresh_profile reaches.start] budget_step.pinned [OF ex_pin] reaches.step by metis

lemma reaches_d3: "reaches (budget_step ex_ev) ex_d1 ex_d3"
proof -
  have "reaches (budget_step ex_ev) ex_d1 ex_d2"
    by (rule reaches.step [OF reaches.start]) (rule budget_step.saved [OF ex_save])
  then show ?thesis
    unfolding ex_d3_def by (intro put_step fresh_action fresh_work)
qed

lemma reaches_d4: "reaches (budget_step ex_ev) ex_d3 ex_d4"
  by (rule reaches.step [OF reaches.start]) (rule budget_step.reserved [OF ex_reserve])

lemma reaches_d5: "reaches (budget_step ex_ev) ex_d4 ex_d5"
  by (rule reaches.step [OF reaches.start]) (rule budget_step.committed [OF ex_usage])

lemmas ex_reaches_d3 = reaches_trans [OF reaches_d1 reaches_d3]
lemmas ex_reaches_d4 = reaches_trans [OF ex_reaches_d3 reaches_d4]
lemmas ex_reaches_d5 = reaches_trans [OF ex_reaches_d4 reaches_d5]

lemma ex_store_ok: "store_ok ex_d5"
  using budget_reaches [OF ex_reaches_d5] by (simp add: budget_ok_def)

section \<open>The properties at the run\<close>

theorem staged_record_resolves_witness:
  "\<exists>r'. resolve True (put ex_profile_record empty_sdb) (RunStoredDataRef ex_profile_ref) = Inr r'
     \<and> encode_record r' = encode_record ex_profile_record
     \<and> (record_id ex_profile_record \<notin> ro_record_id ` set (sd_records (put ex_profile_record empty_sdb))
        \<longrightarrow> r' = ex_profile_record)"
proof -
  have f: "filed [ex_profile_record] (put ex_profile_record empty_sdb)"
    using filed_put [OF _ fresh_profile, of "[]"] by (simp add: filed_def empty_sdb_def)
  have "store_ok (put ex_profile_record empty_sdb)"
    using budget_reaches [OF put_step [OF fresh_profile reaches.start]] by (simp add: budget_ok_def)
  moreover have "stage_record ex_profile_record (put ex_profile_record empty_sdb)
      = Inr (RunStoredDataRef ex_profile_ref, put ex_profile_record empty_sdb)"
    using filed_published(1) [OF f, of ex_profile_record]
    by (simp add: stage_record_def text_of ex_profile_ok run_reference ex_meta_def)
  ultimately show ?thesis by (rule staged_record_resolves)
qed

theorem revision_descent_decided_witness:
  "is_revision_descendant ex_d5 ex_reservation_ref
       (RunStoredDataRef (run_ref_of (BudgetReservation ex_committed)))
     = Inr (descends ex_d5 (BudgetReservation ex_reservation) (BudgetReservation ex_committed))"
  using revision_descent_decided [OF ex_store_ok filed_resolve [OF filed_d5] filed_resolve [OF filed_d5]]
  by simp

theorem published_revisions_linear_witness:
  "descends ex_d5 (BudgetReservation ex_reservation) (BudgetReservation ex_committed)"
proof (rule published_revisions_linear [OF ex_store_ok])
  show "published ex_d5 (BudgetReservation ex_reservation)" "published ex_d5 (BudgetReservation ex_committed)"
    using filed_published(2) [OF filed_d5, of "BudgetReservation ex_reservation"]
      filed_published(2) [OF filed_d5, of "BudgetReservation ex_committed"]
    by (simp_all add: published_def del: ex_metas ex_committed_meta)
qed (simp_all add: ex_ids)

theorem encoding_total_witness:
  "(\<exists>h. record_hash (ActionRequest ex_action) = Inr h \<and> digest_text h)
     \<and> (encode_record (ActionRequest ex_action) = Inl field_error
        \<longleftrightarrow> decode_check (ActionRequest ex_action) = Inl field_error)"
  by (rule encoding_total) simp

theorem resolved_record_permanent_witness:
  "resolve False ex_d5 (RunStoredDataRef ex_profile_ref) = Inr ex_profile_record"
  by (rule resolved_record_permanent [OF ex_reaches_d3 reaches_trans [OF reaches_d4 reaches_d5]
        filed_resolve [OF filed_d3]]) simp

theorem budget_within_limits_witness:
  "used ex_d5 ''A'' bu_elapsed_ms \<le> bu_elapsed_ms (profile_units ex_profile) + overrun ex_d5 ''A'' bu_elapsed_ms"
  by (rule budget_within_limits [OF ex_reaches_d5 ex_execution [OF filed_d5]])
    (simp_all add: ex_d5_def ex_d4_def UNIT_FIELDS_def)

theorem reservation_fits_witness:
  "\<exists>p. pinned_execution ex_d4 ''A'' p
     \<and> (\<forall>f \<in> set UNIT_FIELDS. f (ex_units 10) > 0 \<longrightarrow> used ex_d4 ''A'' f \<le> f (profile_units p))"
proof -
  have "sd_reservations ex_d4 \<noteq> sd_reservations ex_d3" by (simp add: ex_d4_def)
  then have "ex_d4 \<noteq> ex_d3" by auto
  then show ?thesis
    using reservation_fits [OF ex_reaches_d3 ex_reserve]
    by (simp add: ex_ids id_text_def) (simp add: ex_reservation_def)
qed

theorem ledger_gapless_witness:
  "map lw_sequence (ledger_of ex_d5 ''A'') = [1..<Suc (length (ledger_of ex_d5 ''A''))]
     \<and> distinct (map lw_reservation_id (sd_ledger ex_d5))
     \<and> lw_reservation_id ` set (sd_ledger ex_d5)
        = rw_reservation_id ` {row \<in> set (sd_reservations ex_d5). rw_status row = COMMITTED}"
  by (rule ledger_gapless [OF ex_reaches_d5])


theorem commit_idempotent_witness: "commit_usage (ex_budget_stamp\<lparr>bs_record_id := ''T''\<rparr>) ex_entry ex_d5 = Inr (ex_entry, ex_d5)"
  by (rule commit_idempotent [OF ex_reaches_d4 ex_usage])

theorem reserve_idempotent_witness: "reserve ex_ev ex_reservation ex_d4 = Inr (ex_reservation, ex_d4)"
proof (rule reserve_idempotent [OF ex_reaches_d3 ex_reserve])
  show "meta_record_id (br_meta ex_reservation) \<notin> ro_record_id ` set (sd_records ex_d3)"
    using fresh_reservation by (simp add: fresh_record_def)
qed


end
