(* ===== verification/Transactions.thy ===== *)
theory Transactions
  imports Prelude
begin

text \<open>
  The body of \<open>with database.write() as connection\<close>: a sequence of reads and writes over one state,
  that ends with a value and the state to commit, or raises and leaves nothing behind.
\<close>

section \<open>Sequencing\<close>

type_synonym ('s, 'a) tx = "'s \<Rightarrow> ('a \<times> 's) res"

definition retT :: "'a \<Rightarrow> ('s, 'a) tx" where
  "retT x = (\<lambda>s. Inr (x, s))"

definition bindT :: "('s, 'a) tx \<Rightarrow> ('a \<Rightarrow> ('s, 'b) tx) \<Rightarrow> ('s, 'b) tx" where
  "bindT m f = (\<lambda>s. bindR (m s) (\<lambda>(x, t). f x t))"

text \<open>A read, a check that may raise, and a write.\<close>

definition askT :: "('s \<Rightarrow> 'a res) \<Rightarrow> ('s, 'a) tx" where
  "askT q = (\<lambda>s. bindR (q s) (\<lambda>x. Inr (x, s)))"

definition checkT :: "'a res \<Rightarrow> ('s, 'a) tx" where
  "checkT c = (\<lambda>s. bindR c (\<lambda>x. Inr (x, s)))"

definition modifyT :: "('s \<Rightarrow> 's) \<Rightarrow> ('s, unit) tx" where
  "modifyT f = (\<lambda>s. Inr ((), f s))"

fun forT :: "('a \<Rightarrow> ('s, unit) tx) \<Rightarrow> 'a list \<Rightarrow> ('s, unit) tx" where
  "forT f [] = retT ()"
| "forT f (x # xs) = bindT (f x) (\<lambda>_. forT f xs)"

definition expect :: "('a \<Rightarrow> 'b option) \<Rightarrow> py_error \<Rightarrow> 'a \<Rightarrow> 'b res" where
  "expect f e x = (case f x of None \<Rightarrow> Inl e | Some y \<Rightarrow> Inr y)"

lemma expect_Inr [simp]: "expect f e x = Inr y \<longleftrightarrow> f x = Some y"
  by (simp add: expect_def split: option.split)

text \<open>What a transaction that succeeds has done.\<close>

lemma bindT_eq [simp]: "bindT m f s = Inr r \<longleftrightarrow> (\<exists>x t. m s = Inr (x, t) \<and> f x t = Inr r)"
  by (auto simp: bindT_def)

lemma retT_eq [simp]: "retT x s = Inr r \<longleftrightarrow> r = (x, s)"
  by (auto simp: retT_def)

lemma askT_eq [simp]: "askT q s = Inr (x, t) \<longleftrightarrow> q s = Inr x \<and> t = s"
  by (auto simp: askT_def)

lemma checkT_eq [simp]: "checkT c s = Inr (x, t) \<longleftrightarrow> c = Inr x \<and> t = s"
  by (auto simp: checkT_def)

lemma modifyT_eq [simp]: "modifyT f s = Inr (x, t) \<longleftrightarrow> t = f s"
  by (auto simp: modifyT_def)

text \<open>A transaction on one component of the state.\<close>

definition liftT :: "('s \<Rightarrow> 'c) \<Rightarrow> ('c \<Rightarrow> 's \<Rightarrow> 's) \<Rightarrow> ('c, 'a) tx \<Rightarrow> ('s, 'a) tx" where
  "liftT get put m = (\<lambda>s. bindR (m (get s)) (\<lambda>(x, c). Inr (x, put c s)))"

lemma liftT_eq [simp]:
  "liftT get put m s = Inr (x, t) \<longleftrightarrow> (\<exists>c. m (get s) = Inr (x, c) \<and> t = put c s)"
  by (auto simp: liftT_def)

section \<open>What a transaction keeps\<close>

definition framed :: "('s \<Rightarrow> 's \<Rightarrow> bool) \<Rightarrow> ('s, 'a) tx \<Rightarrow> bool" where
  "framed R m \<longleftrightarrow> (\<forall>s x t. m s = Inr (x, t) \<longrightarrow> R s t)"

lemma framedI: "(\<And>s x t. m s = Inr (x, t) \<Longrightarrow> R s t) \<Longrightarrow> framed R m"
  by (simp add: framed_def)

lemma framedD: "framed R m \<Longrightarrow> m s = Inr (x, t) \<Longrightarrow> R s t"
  by (simp add: framed_def)

lemma framed_mono: "framed R m \<Longrightarrow> (\<And>s t. R s t \<Longrightarrow> Q s t) \<Longrightarrow> framed Q m"
  by (simp add: framed_def)

text \<open>
  A relation between the state before and after that holds of doing nothing and of doing two things
  in a row holds of a whole transaction when it holds of its writes.
\<close>

locale transaction_frame =
  fixes R :: "'s \<Rightarrow> 's \<Rightarrow> bool"
  assumes frame_refl: "R s s"
    and frame_trans: "R s t \<Longrightarrow> R t u \<Longrightarrow> R s u"
begin

lemma framed_ret: "framed R (retT x)"
  by (simp add: framed_def frame_refl)

lemma framed_ask: "framed R (askT q)"
  by (simp add: framed_def frame_refl)

lemma framed_check: "framed R (checkT c)"
  by (simp add: framed_def frame_refl)

lemma framed_bind: "framed R m \<Longrightarrow> (\<And>x. framed R (f x)) \<Longrightarrow> framed R (bindT m f)"
  by (rule framedI) (auto dest!: framedD intro: frame_trans)

lemma framed_for: "(\<And>x. framed R (f x)) \<Longrightarrow> framed R (forT f xs)"
  by (induction xs) (simp_all add: framed_ret framed_bind)

lemma framed_if: "framed R m \<Longrightarrow> framed R n \<Longrightarrow> framed R (if b then m else n)"
  by simp

lemma framed_option: "framed R m \<Longrightarrow> (\<And>y. framed R (f y)) \<Longrightarrow> framed R (case x of None \<Rightarrow> m | Some y \<Rightarrow> f y)"
  by (cases x) simp_all

lemma framed_prod: "(\<And>a b. framed R (f a b)) \<Longrightarrow> framed R (case x of (a, b) \<Rightarrow> f a b)"
  by (cases x) simp

lemmas framed_rules = framed_ret framed_ask framed_check framed_bind framed_for framed_if
  framed_option framed_prod

end

section \<open>Tables with a unique key\<close>

definition insertT :: "('s \<Rightarrow> 'r list) \<Rightarrow> (('r list \<Rightarrow> 'r list) \<Rightarrow> 's \<Rightarrow> 's) \<Rightarrow> ('r \<Rightarrow> 'k) \<Rightarrow> string \<Rightarrow> 'r \<Rightarrow> ('s, unit) tx" where
  "insertT get upd key message r =
     (\<lambda>s. if key r \<in> key ` set (get s) then Inl (SqliteError message)
          else Inr ((), upd (\<lambda>t. t @ [r]) s))"

lemma insertT_eq [simp]:
  "insertT get upd key message r s = Inr (x, t) \<longleftrightarrow> key r \<notin> key ` set (get s) \<and> t = upd (\<lambda>t. t @ [r]) s"
  by (auto simp: insertT_def)

end
