(* ===== verification/Work_Store.thy ===== *)
theory Work_Store
  imports Budget_Examples Transactions
begin

text \<open>
  The tables of the work services beside the record store (\<open>storage/models.py\<close>), the transactions
  over them (\<open>storage/database.py\<close>), the cancellation latch (\<open>storage/run_control.py\<close>), the
  current pointers, and the reads of external dispatches (\<open>storage/dispatches.py\<close>).

  The columns of \<open>work_attempts\<close> are always written together from one attempt, and the record store
  keeps that attempt; \<open>work_states\<close> has columns that are written apart from its payload and they are
  kept apart here.
\<close>

section \<open>Tables\<close>

record work_row =
  wr_work_id :: string
  wr_analysis_id :: string
  wr_registration_key :: string
  wr_status :: work_status
  wr_state_version :: nat
  wr_active_attempt_id :: "string option"
  wr_payload :: work
  wr_worker_id :: "string option"
  wr_lease_expires_at :: "int option"

record action_row =
  rq_action_id :: string
  rq_request_ref :: record_ref
  rq_decision_ref :: record_ref

record check_row =
  kr_action_id :: string
  kr_check_type :: check_type
  kr_payload :: action_check

record closure_row =
  oc_action_id :: string
  oc_decision_ref :: record_ref
  oc_output_refs :: "record_ref list"
  oc_content_hash :: string

record decision_row =
  dr_decision_id :: string
  dr_action_id :: string
  dr_payload :: action_decision

record dispatch_row =
  di_action_id :: string
  di_work_id :: string
  di_attempt_id :: string
  di_decision_ref :: record_ref
  di_reservation_ref :: "record_ref option"
  di_prepared_at :: int
  di_dispatched_at :: "int option"
  di_returned_at :: "int option"
  di_provider_request_id :: "string option"
  di_idempotency_key :: "string option"
  di_reconciled_at :: "int option"

record control_row =
  ct_analysis_id :: string
  ct_cancel_requested_at :: int
  ct_cancel_reason :: string
  ct_quiescent_at :: "int option"

record journal_row =
  jr_transition_commit_id :: string
  jr_work_id :: string
  jr_expected_state_version :: nat
  jr_candidate_binding :: string
  jr_state :: commit_state
  jr_payload :: transition_commit
  jr_request :: "record_ref \<times> record_ref \<times> record_ref list"

text \<open>
  The database, the flag that recovery sets on it, and how many answers the host has given: the
  clock and the generator of identifiers are streams of answers.
\<close>

record wdb =
  wd_store :: sdb
  wd_works :: "work_row list"
  wd_actions :: "action_row list"
  wd_checks :: "check_row list"
  wd_closures :: "closure_row list"
  wd_decisions :: "decision_row list"
  wd_dispatches :: "dispatch_row list"
  wd_controls :: "control_row list"
  wd_journal :: "journal_row list"
  wd_recovery_failed :: bool
  wd_ticks :: nat

record host =
  ho_now :: "nat \<Rightarrow> int"
  ho_new :: "nat \<Rightarrow> string"

type_synonym 'a wtx = "(wdb, 'a) tx"

section \<open>Transactions\<close>

definition nowT :: "host \<Rightarrow> int wtx" where
  "nowT h = (\<lambda>s. Inr (ho_now h (wd_ticks s), s\<lparr>wd_ticks := Suc (wd_ticks s)\<rparr>))"

definition newT :: "host \<Rightarrow> string wtx" where
  "newT h = (\<lambda>s. Inr (ho_new h (wd_ticks s), s\<lparr>wd_ticks := Suc (wd_ticks s)\<rparr>))"

definition storeT :: "'a stx \<Rightarrow> 'a wtx" where
  "storeT = liftT wd_store (\<lambda>c s. s\<lparr>wd_store := c\<rparr>)"

definition readT :: "(sdb \<Rightarrow> 'a res) \<Rightarrow> 'a wtx" where
  "readT q = askT (\<lambda>s. q (wd_store s))"

definition next_metaT :: "host \<Rightarrow> record_metadata \<Rightarrow> record_metadata wtx" where
  "next_metaT h m = bindT (newT h) (\<lambda>i. bindT (nowT h) (\<lambda>now. checkT (next_meta m i now)))"

definition fresh_metaT :: "host \<Rightarrow> record_metadata \<Rightarrow> string \<Rightarrow> record_metadata wtx" where
  "fresh_metaT h m kind = bindT (newT h) (\<lambda>i. bindT (nowT h) (\<lambda>now. checkT (fresh_meta m kind i now)))"

text \<open>\<open>records.publish(connection, records.stage(connection, record))\<close>.\<close>

definition keepT :: "contract_record \<Rightarrow> record_ref wtx" where
  "keepT r = storeT (stage_publish r)"

lemma nowT_eq [simp]: "nowT h s = Inr (x, t) \<longleftrightarrow> x = ho_now h (wd_ticks s) \<and> t = s\<lparr>wd_ticks := Suc (wd_ticks s)\<rparr>"
  by (auto simp: nowT_def)

lemma newT_eq [simp]: "newT h s = Inr (x, t) \<longleftrightarrow> x = ho_new h (wd_ticks s) \<and> t = s\<lparr>wd_ticks := Suc (wd_ticks s)\<rparr>"
  by (auto simp: newT_def)

lemma storeT_eq: "storeT m s = Inr (x, t) \<longleftrightarrow> (\<exists>d. m (wd_store s) = Inr (x, d) \<and> t = s\<lparr>wd_store := d\<rparr>)"
  by (simp add: storeT_def)

lemma readT_eq [simp]: "readT q s = Inr (x, t) \<longleftrightarrow> q (wd_store s) = Inr x \<and> t = s"
  by (simp add: readT_def)

section \<open>The cancellation latch\<close>

definition cancel_latched :: "wdb \<Rightarrow> string \<Rightarrow> bool" where
  "cancel_latched s analysis \<longleftrightarrow> tbl_lookup ct_analysis_id (wd_controls s) analysis \<noteq> None"

definition reject_cancelled :: "string \<Rightarrow> wdb \<Rightarrow> unit res" where
  "reject_cancelled analysis s = raise_if (cancel_latched s analysis) (ValueError ''RUN_CANCELLED'')"

text \<open>\<open>[A-Z0-9_]{1,64}\<close>, matched to the end.\<close>

definition safe_reason :: "string \<Rightarrow> bool" where
  "safe_reason r \<longleftrightarrow>
     1 \<le> length r \<and> length r \<le> 64
     \<and> list_all (\<lambda>c. (65 \<le> (of_char c :: nat) \<and> (of_char c :: nat) \<le> 90)
                    \<or> (48 \<le> (of_char c :: nat) \<and> (of_char c :: nat) \<le> 57) \<or> c = CHR ''_'') r"

definition request_cancel :: "host \<Rightarrow> string \<Rightarrow> string \<Rightarrow> unit wtx" where
  "request_cancel h analysis reason =
     bindT (checkT (raise_if (analysis = [] \<or> \<not> safe_reason reason)
                     (ValueError ''RUN_CONTROL_INPUT_INVALID''))) (\<lambda>_.
     bindT (askT Inr) (\<lambda>s.
       if tbl_lookup ct_analysis_id (wd_controls s) analysis \<noteq> None then retT ()
       else
         bindT (nowT h) (\<lambda>now.
         bindT (checkT (raise_if (tbl_lookup an_analysis_id (sd_runs (wd_store s)) analysis = None)
                         (SqliteError ''FOREIGN KEY constraint failed''))) (\<lambda>_.
           modifyT (\<lambda>s. s\<lparr>wd_controls := wd_controls s @
             [\<lparr>ct_analysis_id = analysis, ct_cancel_requested_at = now, ct_cancel_reason = reason,
               ct_quiescent_at = None\<rparr>]\<rparr>)))))"

definition cancel_requested :: "wdb \<Rightarrow> string \<Rightarrow> bool res" where
  "cancel_requested s analysis =
     (if analysis = [] then Inl (ValueError ''RUN_CONTROL_INPUT_INVALID'')
      else Inr (cancel_latched s analysis))"

text \<open>\<open>with admit_resource_mutation(analysis): body\<close>: the body runs inside the transaction.\<close>

definition admit_resource_mutation :: "string \<Rightarrow> 'a wtx \<Rightarrow> 'a wtx" where
  "admit_resource_mutation analysis body =
     bindT (checkT (raise_if (analysis = []) (ValueError ''RUN_CONTROL_INPUT_INVALID''))) (\<lambda>_.
     bindT (askT (reject_cancelled analysis)) (\<lambda>_. body))"

section \<open>Current pointers\<close>

text \<open>\<open>WorkService.point\<close>.\<close>

definition point :: "work \<Rightarrow> unit stx" where
  "point w d =
     (let logical = rm_logical_record_id (revision_of (wk_meta w));
          version = int (wk_state_version w) in
      case tbl_lookup cu_logical_record_id (sd_current d) logical of
        None \<Rightarrow>
          Inr ((), d\<lparr>sd_current := sd_current d @
                 [\<lparr>cu_logical_record_id = logical, cu_record_id = meta_record_id (wk_meta w),
                   cu_state_version = version\<rparr>]\<rparr>)
      | Some row \<Rightarrow>
          if cu_state_version row \<noteq> version - 1
          then Inl (ValueError ''STATE_VERSION_CONFLICT: current pointer'')
          else Inr ((), d\<lparr>sd_current := update_rows
                 (\<lambda>c. cu_logical_record_id c = logical \<and> cu_state_version c = cu_state_version row)
                 (\<lambda>c. c\<lparr>cu_record_id := meta_record_id (wk_meta w), cu_state_version := version\<rparr>)
                 (sd_current d)\<rparr>))"

text \<open>The swap of \<open>advance_verification_work\<close> and \<open>advance_dynamic_work\<close>: from one record to the next.\<close>

definition swap_pointer :: "record_metadata \<Rightarrow> record_metadata \<Rightarrow> string \<Rightarrow> unit stx" where
  "swap_pointer previous updated conflict d =
     (let here = (\<lambda>c. cu_logical_record_id c = rm_logical_record_id (revision_of previous)
                      \<and> cu_record_id c = meta_record_id previous) in
      if length (filter here (sd_current d)) \<noteq> 1 then Inl (ValueError conflict)
      else Inr ((), d\<lparr>sd_current := update_rows here
             (\<lambda>c. c\<lparr>cu_record_id := meta_record_id updated, cu_state_version := meta_revision updated\<rparr>)
             (sd_current d)\<rparr>))"

text \<open>\<open>TransitionService.publish_pointer\<close>.\<close>

definition publish_pointer :: "record_ref \<Rightarrow> unit stx" where
  "publish_pointer ref d =
     bindR (resolve False d ref) (\<lambda>r.
       let m = revision_of (record_meta r) in
       case tbl_lookup cu_logical_record_id (sd_current d) (rm_logical_record_id m) of
         None \<Rightarrow>
           if rm_revision_number m \<noteq> 1
           then Inl (ValueError ''RECORD_REVISION_MISMATCH: missing current predecessor'')
           else Inr ((), d\<lparr>sd_current := sd_current d @
                  [\<lparr>cu_logical_record_id = rm_logical_record_id m, cu_record_id = rm_record_id m,
                    cu_state_version = 1\<rparr>]\<rparr>)
       | Some row \<Rightarrow>
           if cu_record_id row \<noteq> id_text (rm_previous_record_id m)
           then Inl (ValueError ''STALE_RESULT: current record predecessor'')
           else Inr ((), d\<lparr>sd_current := update_rows
                  (\<lambda>c. cu_logical_record_id c = rm_logical_record_id m
                       \<and> cu_state_version c = cu_state_version row)
                  (\<lambda>c. c\<lparr>cu_record_id := rm_record_id m, cu_state_version := cu_state_version row + 1\<rparr>)
                  (sd_current d)\<rparr>))"

text \<open>\<open>records JOIN current_records ON record_id\<close>, for one kind.\<close>

definition current_refs :: "sdb \<Rightarrow> string \<Rightarrow> record_ref list" where
  "current_refs d kind =
     concat (map (\<lambda>row. map (\<lambda>_. ro_ref row)
                    (filter (\<lambda>c. cu_record_id c = ro_record_id row) (sd_current d)))
               (filter (\<lambda>row. ro_kind row = kind) (sd_records d)))"

definition is_current :: "sdb \<Rightarrow> contract_record \<Rightarrow> record_ref \<Rightarrow> bool" where
  "is_current d r ref \<longleftrightarrow>
     map_option cu_record_id
       (tbl_lookup cu_logical_record_id (sd_current d)
          (rm_logical_record_id (revision_of (record_meta r)))) = Some (id_text (ref_record_id ref))"

section \<open>Dispatches\<close>

text \<open>A side effect that was sent and of which nothing is known.\<close>

definition unresolved :: "dispatch_row \<Rightarrow> bool" where
  "unresolved row \<longleftrightarrow>
     di_dispatched_at row \<noteq> None \<and> di_returned_at row = None \<and> di_reconciled_at row = None"

definition uncertain :: "wdb \<Rightarrow> string \<Rightarrow> bool" where
  "uncertain s work_id \<longleftrightarrow> (\<exists>row \<in> set (wd_dispatches s). di_work_id row = work_id \<and> unresolved row)"

definition reject_uncertain :: "string \<Rightarrow> wdb \<Rightarrow> unit res" where
  "reject_uncertain work_id s =
     raise_if (uncertain s work_id)
       (ValueError ''BLOCKED waiting_for=INPUT: external request outcome is unknown'')"

text \<open>\<open>SELECT active_attempt_id FROM work_states WHERE work_id = ? AND status = 'RUNNING'\<close>.\<close>

definition running_attempt_of :: "wdb \<Rightarrow> string \<Rightarrow> string option" where
  "running_attempt_of s work_id =
     (case tbl_lookup wr_work_id (wd_works s) work_id of
        None \<Rightarrow> None
      | Some row \<Rightarrow> if wr_status row = W_RUNNING then wr_active_attempt_id row else None)"

definition get_work :: "wdb \<Rightarrow> string \<Rightarrow> work res" where
  "get_work s work_id =
     (case tbl_lookup wr_work_id (wd_works s) work_id of
        None \<Rightarrow> Inl (SqliteError ''No row was found when one was required'')
      | Some row \<Rightarrow> Inr (wr_payload row))"

end
