(* ===== verification/Action_Policy.thy ===== *)
theory Action_Policy
  imports Work_Store
begin

text \<open>
  What an action has to satisfy at the moment it is admitted: the role policy
  (\<open>storage/action_policy.py\<close>), the inputs that have to be current (\<open>storage/current_inputs.py\<close>),
  the ownership of a hypothesis (\<open>storage/action_context.py\<close>) and the stage an action belongs to
  (\<open>storage/stage_policy.py\<close>).  None of them writes.
\<close>

section \<open>Roles\<close>

definition WORK_CONTROL :: "requester_role set" where
  "WORK_CONTROL =
     {RQ_ORCHESTRATION, RQ_VERIFICATION, RQ_PRIMITIVE_ADMISSION_RUNTIME,
      RQ_REPRODUCTION_SESSION_MANAGER, RQ_RECOVERY}"

fun ACTION_ROLES :: "action_type \<Rightarrow> requester_role set" where
  "ACTION_ROLES REGISTER_WORK = WORK_CONTROL - {RQ_REPRODUCTION_SESSION_MANAGER}"
| "ACTION_ROLES CHANGE_WORK_STATE = WORK_CONTROL"
| "ACTION_ROLES START_ATTEMPT = WORK_CONTROL"
| "ACTION_ROLES CANCEL_WORK = WORK_CONTROL"
| "ACTION_ROLES RESTART_VERIFICATION_GENERATION = {RQ_VERIFICATION}"
| "ACTION_ROLES READ_CODE =
     {RQ_HYPOTHESIS, RQ_PRO, RQ_CON, RQ_VERIFICATION, RQ_CWE_LABELING, RQ_TECHNICAL_GATE}"
| "ACTION_ROLES RUN_TOOL = {RQ_REPOSITORY_LOADER, RQ_STATIC_ANALYSIS, RQ_POLICY_COLLECTOR}"
| "ACTION_ROLES CALL_LLM =
     {RQ_HYPOTHESIS, RQ_PRO, RQ_CON, RQ_VERIFICATION, RQ_CWE_LABELING, RQ_CHAINING,
      RQ_POLICY_PARSER, RQ_DYNAMIC_REPRODUCTION}"
| "ACTION_ROLES FETCH_POLICY = {RQ_POLICY_COLLECTOR}"
| "ACTION_ROLES REQUEST_DYNAMIC_REPRO = {RQ_VERIFICATION}"
| "ACTION_ROLES RUN_SANDBOX = {RQ_REPRODUCTION_SETUP_AUTOMATION}"
| "ACTION_ROLES SAVE_RESULT = UNIV"
| "ACTION_ROLES CALL_TECHNICAL_GATE = {RQ_VERIFICATION}"
| "ACTION_ROLES CALL_RULE_SCOPE_GATE = {RQ_VERIFICATION}"
| "ACTION_ROLES CREATE_REPORT_DRAFT = {RQ_VERIFICATION}"

text \<open>The owner of every kind of result, \<open>RESULT_REGISTRY[kind].owner\<close>.\<close>

definition RESULT_OWNERS :: "(string \<times> requester_role) list" where
  "RESULT_OWNERS =
     [(''analysis_run_input'', RQ_ORCHESTRATION),
      (''analysis_run_state'', RQ_ORCHESTRATION),
      (''hypothesis_process_state'', RQ_ORCHESTRATION),
      (''verification_assignment'', RQ_ORCHESTRATION),
      (''code_workspace'', RQ_REPOSITORY_LOADER),
      (''repository_profile'', RQ_STATIC_ANALYSIS),
      (''repository_execution_selection'', RQ_STATIC_ANALYSIS),
      (''code_context_response'', RQ_CONTEXT_RETRIEVAL_SERVICE),
      (''tool_run_result'', RQ_STATIC_ANALYSIS),
      (''static_fact_bundle'', RQ_STATIC_ANALYSIS),
      (''rule_execution_record'', RQ_STATIC_ANALYSIS),
      (''hypothesis_proposal'', RQ_ORCHESTRATION),
      (''proposal_process_state'', RQ_ORCHESTRATION),
      (''hypothesis_duplicate_review'', RQ_HYPOTHESIS), (''pro_evidence_result'', RQ_PRO),
      (''con_evidence_result'', RQ_CON), (''verification_result'', RQ_VERIFICATION),
      (''verification_initial_assessment'', RQ_VERIFICATION),
      (''dynamic_reproduction_tool_request'', RQ_DYNAMIC_REPRODUCTION),
      (''primitive_admission_decision'', RQ_PRIMITIVE_ADMISSION_RUNTIME),
      (''primitive'', RQ_PRIMITIVE_ADMISSION_RUNTIME), (''chaining_result'', RQ_CHAINING),
      (''dynamic_reproduction_request'', RQ_VERIFICATION),
      (''environment_requirements'', RQ_DYNAMIC_REPRODUCTION),
      (''reproduction_plan'', RQ_DYNAMIC_REPRODUCTION),
      (''environment_recipe'', RQ_REPRODUCTION_SETUP_AUTOMATION),
      (''sandbox_environment'', RQ_REPRODUCTION_SETUP_AUTOMATION),
      (''cleanup_result'', RQ_REPRODUCTION_SETUP_AUTOMATION),
      (''sandbox_policy_decision'', RQ_SANDBOX_CONTROLLER),
      (''sandbox_command_record'', RQ_REPRODUCTION_SESSION_MANAGER),
      (''poc_candidate'', RQ_DYNAMIC_REPRODUCTION),
      (''dynamic_reproduction_conclusion'', RQ_DYNAMIC_REPRODUCTION),
      (''agent_log'', RQ_REPRODUCTION_SESSION_MANAGER),
      (''poc_bundle'', RQ_REPRODUCTION_SESSION_MANAGER),
      (''dynamic_reproduction_result'', RQ_REPRODUCTION_SESSION_MANAGER),
      (''cwe_label'', RQ_CWE_LABELING), (''run_policy_state'', RQ_POLICY_COLLECTOR),
      (''policy_cache_record'', RQ_POLICY_COLLECTOR),
      (''policy_parser_result'', RQ_POLICY_PARSER),
      (''policy_collection_result'', RQ_POLICY_COLLECTOR),
      (''program_policy_record'', RQ_POLICY_COLLECTOR),
      (''technical_evidence_review'', RQ_TECHNICAL_GATE),
      (''rule_scope_impact_review'', RQ_RULE_SCOPE_GATE), (''finding'', RQ_VERIFICATION),
      (''report_draft'', RQ_REPORTER), (''budget_reservation'', RQ_BUDGET_RUNTIME),
      (''budget_ledger_entry'', RQ_BUDGET_RUNTIME),
      (''evaluation_run_result'', RQ_R8_EVALUATION_RUNTIME),
      (''evaluation_recommendation'', RQ_R8_EVALUATION_RUNTIME),
      (''analysis_run_result'', RQ_ORCHESTRATION)]"

lemma RESULT_OWNERS_kinds: "map fst RESULT_OWNERS = RESULT_REGISTRY"
  by (simp add: RESULT_OWNERS_def RESULT_REGISTRY_def)

definition check_role :: "action_request \<Rightarrow> requester_role option \<Rightarrow> unit res" where
  "check_role a role =
     seqR
       [raise_if (role \<noteq> Some (ar_requested_by a) \<or> ar_requested_by a \<notin> ACTION_ROLES (ar_action_type a))
          (ValueError ''AUTHORITY_DENIED''),
        raise_if (ar_action_type a = SAVE_RESULT
                  \<and> map_of RESULT_OWNERS (str_default (ar_result_kind a) []) \<noteq> role)
          (ValueError ''AUTHORITY_DENIED'')]"

section \<open>Current inputs\<close>

definition CURRENT_STATE_KINDS :: "string set" where
  "CURRENT_STATE_KINDS =
     {''code_workspace'', ''analysis_run_state'', ''work_execution_state'',
      ''hypothesis_process_state'', ''verification_assignment'', ''finding_index_state''}"

text \<open>The only two sets of statuses the source passes have one member: that member.\<close>

definition allowed_workspace_status :: "action_request \<Rightarrow> work \<Rightarrow> workspace_status" where
  "allowed_workspace_status a w =
     (if ar_action_type a = RUN_TOOL \<and> ar_requested_by a = RQ_REPOSITORY_LOADER
         \<and> wk_work_type w = WT_WORKSPACE_PREP
      then WS_PREPARING else WS_READY)"

definition check_current_input :: "sdb \<Rightarrow> record_ref \<Rightarrow> bool \<Rightarrow> workspace_status \<Rightarrow> unit res" where
  "check_current_input d ref force status =
     (if \<not> force \<and> ref_data_kind ref \<notin> CURRENT_STATE_KINDS then Inr ()
      else
        bindR (resolve False d ref) (\<lambda>r.
          if \<not> is_current d r ref
          then Inl (ValueError ''STALE_RESULT: current-sensitive input superseded'')
          else case r of
              CodeWorkspace x \<Rightarrow>
                raise_if (ws_status x \<noteq> status)
                  (ValueError (''STALE_RESULT: workspace is not '' @ workspace_status_text status))
            | _ \<Rightarrow> Inr ()))"

section \<open>Ownership of a hypothesis\<close>

text \<open>The comparison of the four scope attributes, where a missing attribute counts as \<open>None\<close>.\<close>

definition same_subject :: "record_metadata \<Rightarrow> record_metadata \<Rightarrow> bool" where
  "same_subject m n \<longleftrightarrow>
     meta_analysis m = meta_analysis n \<and> meta_workspace m = meta_workspace n
     \<and> meta_commit m = meta_commit n \<and> meta_hypothesis m = meta_hypothesis n"

definition current_process :: "sdb \<Rightarrow> work \<Rightarrow> process res" where
  "current_process d w =
     bindR (mapR (\<lambda>ref. bindR (resolve False d ref) (\<lambda>r.
                case r of HypothesisProcessState p \<Rightarrow> Inr p | _ \<Rightarrow> Inl (AssertionError [])))
              (current_refs d ''hypothesis_process_state'')) (\<lambda>processes.
       case filter (\<lambda>p. same_subject (hs_meta p) (wk_meta w)) processes of
         [p] \<Rightarrow> Inr p
       | _ \<Rightarrow> Inl (ValueError ''AUTHORITY_DENIED: exact current hypothesis process required''))"

definition check_owner :: "sdb \<Rightarrow> action_request \<Rightarrow> work \<Rightarrow> unit res" where
  "check_owner d a w =
     (if ar_requested_by a \<noteq> RQ_VERIFICATION \<or> meta_hypothesis (wk_meta w) = None then Inr ()
      else
        bindR (current_process d w) (\<lambda>p.
          case hs_verification_assignment_ref p of
            None \<Rightarrow> Inl (ValueError ''AUTHORITY_DENIED: no active assignment'')
          | Some ref \<Rightarrow>
              bindR (check_current_input d (StoredDataRef ref) False WS_READY) (\<lambda>_.
              bindR (resolve False d (StoredDataRef ref)) (\<lambda>r.
                raise_if
                  (case r of
                     VerificationAssignment x \<Rightarrow>
                       as_status x \<noteq> ASG_ACTIVE
                       \<or> StoredDataRef (as_owner_identity_ref x) \<noteq> ar_requester_identity_ref a
                       \<or> hs_verification_generation p \<noteq> wk_work_generation w
                       \<or> (ar_expected_verification_generation a \<noteq> None
                          \<and> ar_expected_verification_generation a \<noteq> Some (hs_verification_generation p))
                       \<or> \<not> same_subject (as_meta x) (wk_meta w)
                   | _ \<Rightarrow> True)
                  (ValueError ''AUTHORITY_DENIED: active owner/current generation mismatch'')))))"

section \<open>Fields of other models\<close>

text \<open>
  The attribute of a record whose model this development keeps by its value, and the reference that
  an attribute of type \<open>StoredDataRef\<close> holds.
\<close>

definition record_field :: "contract_record \<Rightarrow> string \<Rightarrow> pyval option" where
  "record_field r name =
     (case record_value r of VModel _ _ _ members \<Rightarrow> map_of members name | _ \<Rightarrow> None)"

fun field_text :: "pyval option \<Rightarrow> string option" where
  "field_text (Some (VStr s)) = Some s"
| "field_text (Some (VOpaque _ (VStr s))) = Some s"
| "field_text _ = None"

fun member_of :: "pyval \<Rightarrow> string \<Rightarrow> pyval option" where
  "member_of (VModel _ _ _ members) name = map_of members name"
| "member_of _ _ = None"

definition value_ref :: "pyval option \<Rightarrow> record_ref option" where
  "value_ref v =
     (case v of
        Some (VModel _ _ _ ms) \<Rightarrow>
          (case (field_text (map_of ms ''stored_data_id''), field_text (map_of ms ''data_kind''),
                 field_text (map_of ms ''content_hash''), field_text (map_of ms ''workspace_id''),
                 field_text (map_of ms ''commit_id'')) of
             (Some i, Some k, Some h, Some w, Some c) \<Rightarrow>
               Some (StoredDataRef \<lparr>sr_id = i, sr_kind = k, sr_hash = h, sr_workspace = w,
                  sr_commit = c, sr_record = field_text (map_of ms ''record_id'')\<rparr>)
           | _ \<Rightarrow> None)
      | _ \<Rightarrow> None)"

lemma value_ref_stored [simp]: "value_ref (Some (stored_ref_value x)) = Some (StoredDataRef x)"
  by (cases "sr_record x") (simp_all add: value_ref_def stored_ref_value_def opaque_def)

definition record_field_ref :: "contract_record \<Rightarrow> string \<Rightarrow> record_ref option" where
  "record_field_ref r name = value_ref (record_field r name)"

text \<open>
  The items of an attribute that is a tuple, and the references among some values.  The attribute of a
  validated record whose type is \<open>StoredDataRef\<close> always parses.
\<close>

definition field_items :: "contract_record \<Rightarrow> string \<Rightarrow> pyval list" where
  "field_items r name = (case record_field r name of Some (VSeq items) \<Rightarrow> items | _ \<Rightarrow> [])"

definition refs_in :: "pyval option list \<Rightarrow> record_ref list" where
  "refs_in vs = concat (map (\<lambda>v. case value_ref v of None \<Rightarrow> [] | Some ref \<Rightarrow> [ref]) vs)"

definition field_refs :: "contract_record \<Rightarrow> string \<Rightarrow> record_ref list" where
  "field_refs r name = refs_in (map Some (field_items r name))"

lemma field_refs_value:
  assumes "record_field r name = Some (v_seq stored_ref_value xs)"
  shows "field_refs r name = map StoredDataRef xs"
proof -
  have "concat (map (\<lambda>v. case value_ref v of None \<Rightarrow> [] | Some ref \<Rightarrow> [ref])
          (map Some (map stored_ref_value ys))) = map StoredDataRef ys" for ys
    by (induction ys) simp_all
  then show ?thesis using assms by (simp add: field_refs_def refs_in_def field_items_def v_seq_def)
qed

definition resolve_field :: "sdb \<Rightarrow> contract_record \<Rightarrow> string \<Rightarrow> contract_record res" where
  "resolve_field d r name =
     (case record_field_ref r name of
        None \<Rightarrow> Inl (AssertionError [])
      | Some ref \<Rightarrow> resolve False d ref)"

text \<open>\<open>isinstance(value, model)\<close>: a kind names one model.\<close>

definition is_kind :: "contract_record \<Rightarrow> string \<Rightarrow> bool" where
  "is_kind r kind \<longleftrightarrow> meta_record_type (record_meta r) = kind"

definition resolved :: "sdb \<Rightarrow> record_ref option \<Rightarrow> string \<Rightarrow> contract_record res" where
  "resolved d ref kind =
     (case ref of
        None \<Rightarrow> Inl (ValueError ''STALE_RESULT: required exact input missing'')
      | Some ref \<Rightarrow>
          bindR (resolve False d ref) (\<lambda>r.
            if is_kind r kind then Inr r
            else Inl (ValueError ''STALE_RESULT: exact input kind mismatch'')))"

definition stage_current :: "sdb \<Rightarrow> record_ref \<Rightarrow> unit res" where
  "stage_current d ref =
     bindR (resolve False d ref) (\<lambda>r.
       raise_if (\<not> is_current d r ref) (ValueError ''STALE_RESULT: current stage input superseded''))"

end
