(* ===== verification/Final_Policy.thy ===== *)
theory Final_Policy
  imports Action_Policy
begin

text \<open>
  The evidence that the final stages need (\<open>check_final_inputs\<close> of \<open>storage/stage_policy.py\<close>, with
  \<open>report_ready\<close> and \<open>validate_true_dynamic\<close> of \<open>contracts/gates.py\<close>), and what a restart of a generation
  has to name (\<open>storage/restart_policy.py\<close>).  They only read and may refuse.
\<close>

section \<open>Fields\<close>

definition has_field :: "contract_record \<Rightarrow> string \<Rightarrow> pyval \<Rightarrow> bool" where
  "has_field r name v \<longleftrightarrow> record_field r name = Some v"

abbreviation has_text :: "contract_record \<Rightarrow> string \<Rightarrow> string \<Rightarrow> bool" where
  "has_text r name text \<equiv> has_field r name (VStr text)"

abbreviation points_to :: "contract_record \<Rightarrow> string \<Rightarrow> record_ref \<Rightarrow> bool" where
  "points_to r name ref \<equiv> has_field r name (ref_value ref)"

definition item_fields :: "contract_record \<Rightarrow> string \<Rightarrow> string \<Rightarrow> pyval option list" where
  "item_fields r name member = map (\<lambda>item. member_of item member) (field_items r name)"

text \<open>\<open>exact\<close> of \<open>contracts/_domain.py\<close>: the ref names this revision of this record.\<close>

definition exact_record :: "record_ref \<Rightarrow> contract_record \<Rightarrow> record_metadata \<Rightarrow> unit res" where
  "exact_record ref target consumer =
     bindR (record_hash target) (\<lambda>h. validate_exact_ref ref (record_meta target) h (meta_analysis consumer))"

section \<open>The final stages\<close>

definition report_ready :: "contract_record \<Rightarrow> bool" where
  "report_ready r \<longleftrightarrow>
     has_text r ''review_status'' ''PASS'' \<and> has_text r ''rule_compliance'' ''PASS''
     \<and> has_text r ''scope_compliance'' ''PASS'' \<and> has_text r ''testing_restriction_compliance'' ''PASS''
     \<and> has_text r ''security_impact'' ''SUFFICIENT'' \<and> has_text r ''report_permission'' ''ALLOW''
     \<and> Some (VBool True) \<notin> set (item_fields r ''missing_information'' ''blocks_allow'')"

definition validate_true_dynamic :: "contract_record \<Rightarrow> contract_record \<Rightarrow> contract_record \<Rightarrow> unit res" where
  "validate_true_dynamic v dyn poc =
     seq2
       (raise_if (\<not> (has_text v ''verdict'' ''TRUE'' \<and> has_text v ''verification_mode'' ''ALWAYS_DEBATE''
                    \<and> has_text dyn ''status'' ''SUCCEEDED'' \<and> has_text dyn ''hypothesis_outcome'' ''SUPPORTED''))
          (ValueError ''TECHNICAL_TRUE_REQUIRED''))
       (case (record_field_ref v ''dynamic_result_ref'', record_field_ref v ''poc_ref'') of
          (Some dynamic_ref, Some poc_ref) \<Rightarrow>
            seqR
              [exact_record dynamic_ref dyn (record_meta v), exact_record poc_ref poc (record_meta v),
               raise_if (\<not> same_subject (record_meta v) (record_meta dyn)) (ValueError ''RECORD_SCOPE_MISMATCH''),
               raise_if (\<not> (same_subject (record_meta dyn) (record_meta poc)
                            \<and> meta_attempt (record_meta dyn) = meta_attempt (record_meta poc)))
                 (ValueError ''RECORD_SCOPE_MISMATCH''),
               raise_if (record_field v ''dynamic_request_ref'' \<noteq> record_field dyn ''request_ref''
                         \<or> record_field v ''poc_ref'' \<noteq> record_field dyn ''poc_ref''
                         \<or> record_field poc ''request_ref'' \<noteq> record_field dyn ''request_ref'')
                 (ValueError ''DYNAMIC_VERIFICATION_CLOSURE_MISMATCH'')]
        | _ \<Rightarrow> Inl (ValueError ''VALIDATED_POC_REQUIRED''))"

text \<open>The outputs of the committed transitions.\<close>

definition committed_outputs :: "wdb \<Rightarrow> record_ref set" where
  "committed_outputs s =
     (\<Union>row \<in> set (wd_journal s). if jr_state row = CS_COMMITTED then set (tc_output_refs (jr_payload row)) else {})"

text \<open>The inner function \<open>one\<close>: the only input of a kind, which is current.\<close>

definition one_input :: "sdb \<Rightarrow> action_request \<Rightarrow> string \<Rightarrow> contract_record res" where
  "one_input d a kind =
     (case of_kind kind (ar_input_refs a) of
        [ref] \<Rightarrow> bindR (stage_current d ref) (\<lambda>_. resolved d (Some ref) kind)
      | _ \<Rightarrow> Inl (ValueError ''STALE_RESULT: stage input closure missing''))"

text \<open>The closure of a TRUE verdict: the refs of the verification and of its label.\<close>

definition final_evidence ::
  "wdb \<Rightarrow> action_request \<Rightarrow> process \<Rightarrow> contract_record \<Rightarrow> (record_ref \<times> record_ref) res" where
  "final_evidence s a p v =
     (let d = wd_store s in
      bindR (resolved d (record_field_ref v ''dynamic_result_ref'') ''dynamic_reproduction_result'') (\<lambda>dyn.
      bindR (resolved d (record_field_ref v ''poc_ref'') ''poc_bundle'') (\<lambda>poc.
      bindR (validate_true_dynamic v dyn poc) (\<lambda>_.
      bindR (one_input d a ''cwe_label'') (\<lambda>label.
      bindR (raise_if (\<not> has_field label ''verification_result_ref''
                          (v_opt stored_ref_value (hs_verification_result_ref p))
                       \<or> \<not> has_field label ''verification_generation'' (v_nat (hs_verification_generation p)))
               (ValueError ''STALE_RESULT: current CWE/Verification pair required'')) (\<lambda>_.
      bindR (mapR record_reference [v, dyn, poc, label]) (\<lambda>required.
        if \<not> set required \<subseteq> committed_outputs s
        then Inl (ValueError ''GATE_ORDER: uncommitted evidence closure'')
        else Inr (required ! 0, required ! 3))))))))"

definition technical_accept ::
  "wdb \<Rightarrow> action_request \<Rightarrow> record_ref \<Rightarrow> record_ref \<Rightarrow> record_ref res" where
  "technical_accept s a verification_ref label_ref =
     bindR (one_input (wd_store s) a ''technical_evidence_review'') (\<lambda>technical.
     bindR (record_reference technical) (\<lambda>ref.
       if \<not> (has_text technical ''status'' ''ACCEPT''
             \<and> points_to technical ''verification_result_ref'' verification_ref
             \<and> points_to technical ''cwe_label_ref'' label_ref \<and> ref \<in> committed_outputs s)
       then Inl (ValueError ''GATE_ORDER: exact Technical ACCEPT required'')
       else Inr ref))"

definition frozen_policy :: "sdb \<Rightarrow> action_request \<Rightarrow> work \<Rightarrow> record_ref res" where
  "frozen_policy d a w =
     bindR (one_input d a ''run_policy_state'') (\<lambda>policy.
     bindR (get_run d (work_analysis w)) (\<lambda>run.
     bindR (record_reference policy) (\<lambda>ref.
       if map_option StoredDataRef (rs_run_policy_state_ref run) = Some ref
          \<and> (has_text policy ''status'' ''CURRENT'' \<or> has_text policy ''status'' ''ABSENT''
              \<or> has_text policy ''status'' ''UNVERIFIED'')
          \<and> (case record_field_ref policy ''collection_result_ref'' of
                None \<Rightarrow> False | Some r \<Rightarrow> r \<in> set (ar_input_refs a))
       then Inr ref
       else Inl (ValueError ''STALE_RESULT: frozen run policy required''))))"

definition report_closure ::
  "wdb \<Rightarrow> action_request \<Rightarrow> record_ref \<Rightarrow> record_ref \<Rightarrow> record_ref \<Rightarrow> record_ref \<Rightarrow> unit res" where
  "report_closure s a verification_ref label_ref technical_ref policy_ref =
     bindR (one_input (wd_store s) a ''rule_scope_impact_review'') (\<lambda>review.
     bindR (one_input (wd_store s) a ''finding'') (\<lambda>finding.
     bindR (record_reference review) (\<lambda>review_ref.
     bindR (record_reference finding) (\<lambda>finding_ref.
       raise_if
         (\<not> (report_ready review
             \<and> points_to review ''verification_result_ref'' verification_ref
             \<and> points_to review ''technical_review_ref'' technical_ref
             \<and> points_to review ''cwe_label_ref'' label_ref
             \<and> points_to review ''run_policy_state_ref'' policy_ref
             \<and> points_to finding ''rule_scope_impact_review_ref'' review_ref
             \<and> points_to finding ''verification_result_ref'' verification_ref
             \<and> points_to finding ''cwe_label_ref'' label_ref
             \<and> review_ref \<in> committed_outputs s \<and> finding_ref \<in> committed_outputs s))
         (ValueError ''REPORT_NOT_READY: exact six-axis closure required'')))))"

text \<open>The gates behind the label, in their order.\<close>

definition final_gates :: "wdb \<Rightarrow> action_request \<Rightarrow> work \<Rightarrow> process \<Rightarrow> contract_record \<Rightarrow> unit res" where
  "final_gates s a w p v =
     bindR (final_evidence s a p v) (\<lambda>(verification_ref, label_ref).
       if ar_action_type a = CALL_TECHNICAL_GATE then Inr ()
       else
         bindR (technical_accept s a verification_ref label_ref) (\<lambda>technical_ref.
         bindR (frozen_policy (wd_store s) a w) (\<lambda>policy_ref.
           if ar_action_type a = CREATE_REPORT_DRAFT
           then report_closure s a verification_ref label_ref technical_ref policy_ref
           else Inr ())))"

definition check_final_inputs :: "wdb \<Rightarrow> action_request \<Rightarrow> work \<Rightarrow> unit res" where
  "check_final_inputs s a w =
     (let d = wd_store s in
      bindR (current_process d w) (\<lambda>p.
      bindR (resolved d (map_option StoredDataRef (hs_verification_result_ref p)) ''verification_result'') (\<lambda>v.
        if map_option StoredDataRef (hs_verification_result_ref p) \<notin> Some ` set (ar_input_refs a)
           \<or> \<not> has_text v ''verdict'' ''TRUE''
        then Inl (ValueError ''STALE_RESULT: current final TRUE required'')
        else if ar_requested_by a = RQ_CWE_LABELING
        then raise_if (wk_work_type w \<noteq> WT_CWE_LABEL \<or> wk_status w \<noteq> W_RUNNING \<or> wk_active_attempt_id w = None)
               (ValueError ''ATTEMPT_NOT_ACTIVE'')
        else final_gates s a w p v)))"

section \<open>Restart of a generation\<close>

text \<open>\<open>active\<close>: the work is current, runs, and so does its attempt.\<close>

definition active_work :: "wdb \<Rightarrow> work \<Rightarrow> unit res" where
  "active_work s w =
     (let d = wd_store s; stale = ValueError ''STALE_RESULT: current running work required'' in
      bindR (record_reference (WorkExecutionState w)) (\<lambda>ref.
      bindR (check_current_input d ref False WS_READY) (\<lambda>_.
        case tbl_lookup wr_work_id (wd_works s) (wk_work_id w) of
          None \<Rightarrow> Inl stale
        | Some row \<Rightarrow>
            if wr_payload row \<noteq> w \<or> wr_state_version row \<noteq> wk_state_version w
               \<or> wr_active_attempt_id row \<noteq> wk_active_attempt_id w
               \<or> wr_status row \<noteq> W_RUNNING \<or> wk_status w \<noteq> W_RUNNING
            then Inl stale
            else case Option.bind (wk_active_attempt_id w) (tbl_lookup aw_attempt_id (sd_attempts d)) of
                None \<Rightarrow> Inl stale
              | Some found \<Rightarrow>
                  let x = aw_payload found in
                  if wa_status x \<noteq> A_RUNNING \<or> wa_work_id x \<noteq> wk_work_id w
                     \<or> wa_input_hash x \<noteq> wk_input_hash w
                  then Inl (ValueError ''ATTEMPT_NOT_ACTIVE'')
                  else
                    bindR (record_reference (WorkAttempt x)) (\<lambda>attempt_ref.
                    bindR (resolve False d attempt_ref) (\<lambda>_. validate_attempt_context x w None)))))"

text \<open>The one dynamic reproduction of the generation, which runs under the verification.\<close>

definition dynamic_works :: "wdb \<Rightarrow> work \<Rightarrow> process \<Rightarrow> work list" where
  "dynamic_works s w p =
     filter (\<lambda>c. wk_work_type c = WT_DYNAMIC_REPRO \<and> wk_work_generation c = hs_verification_generation p
               \<and> meta_hypothesis (wk_meta c) = meta_hypothesis (hs_meta p))
       (map wr_payload (filter (\<lambda>row. wr_analysis_id row = work_analysis w) (wd_works s)))"

definition dynamic_child :: "wdb \<Rightarrow> work \<Rightarrow> process \<Rightarrow> record_ref \<Rightarrow> work res" where
  "dynamic_child s w p work_ref =
     (case dynamic_works s w p of
        [child] \<Rightarrow>
          bindR (active_work s child) (\<lambda>_.
            if wk_parent_work_ref child \<noteq> Some work_ref
            then Inl (ValueError ''STALE_RESULT: dynamic parent mismatch'')
            else Inr child)
      | _ \<Rightarrow> Inl (ValueError ''STALE_RESULT: unique current dynamic work required''))"

text \<open>Its fixed request, and the sandbox profile of that request.\<close>

definition fixed_request :: "sdb \<Rightarrow> work \<Rightarrow> process \<Rightarrow> (stored_ref \<times> record_ref) res" where
  "fixed_request d child p =
     (case of_kind ''dynamic_reproduction_request'' (wk_input_refs child) of
        [StoredDataRef ref] \<Rightarrow>
          bindR (resolve False d (StoredDataRef ref)) (\<lambda>request.
            if \<not> (is_kind request ''dynamic_reproduction_request''
                  \<and> has_field request ''verification_generation'' (v_nat (hs_verification_generation p))
                  \<and> has_field request ''verification_assignment_ref''
                      (v_opt stored_ref_value (hs_verification_assignment_ref p)))
            then Inl (ValueError ''STALE_RESULT: request generation/assignment mismatch'')
            else case record_field_ref request ''sandbox_profile_ref'' of
                None \<Rightarrow> Inl (ValueError ''STALE_RESULT: old sandbox profile required'')
              | Some profile_ref \<Rightarrow>
                  bindR (resolve False d profile_ref) (\<lambda>profile.
                    if is_kind profile ''sandbox_profile'' then Inr (ref, profile_ref)
                    else Inl (ValueError ''STALE_RESULT: old sandbox profile required'')))
      | _ \<Rightarrow> Inl (ValueError ''STALE_RESULT: fixed dynamic request required''))"

text \<open>
  The change is approved by the host and what proves it is stored.  The proof is a set: in which order
  its members are looked up is open, so only the first failure of this order is reported.
\<close>

definition new_profile :: "sdb \<Rightarrow> action_request \<Rightarrow> record_ref option res" where
  "new_profile d a =
     (if ar_generation_restart_reason a \<noteq> Some SANDBOX_PROFILE_REVISION_CHANGED then Inr None
      else case ar_sandbox_profile_ref a of
          None \<Rightarrow> Inl (ValueError ''AUTHORITY_DENIED: approved new profile required'')
        | Some ref \<Rightarrow>
            bindR (resolve False d ref) (\<lambda>r.
              if is_kind r ''sandbox_profile'' then Inr (Some ref)
              else Inl (ValueError ''AUTHORITY_DENIED: approved new profile required'')))"

definition restart_approved ::
  "sdb \<Rightarrow> record_ref list option \<Rightarrow> action_request \<Rightarrow> stored_ref \<Rightarrow> record_ref \<Rightarrow> unit res" where
  "restart_approved d approved a request_ref profile_ref =
     bindR (new_profile d a) (\<lambda>new.
       let proof_refs = remdups (ar_generation_restart_basis_refs a @ (case new of None \<Rightarrow> [] | Some r \<Rightarrow> [r])) in
       case approved of
         None \<Rightarrow> Inl (ValueError ''AUTHORITY_DENIED: restart change approval unproven'')
       | Some refs \<Rightarrow>
           if \<not> set proof_refs \<subseteq> set refs
           then Inl (ValueError ''AUTHORITY_DENIED: restart change approval unproven'')
           else
             bindR (mapR (resolve False d) proof_refs) (\<lambda>_.
               validate_generation_restart_context a request_ref profile_ref new))"

text \<open>The playbook of a generation: the current policy and a current playbook that it names.\<close>

definition playbook_input :: "sdb \<Rightarrow> action_request \<Rightarrow> string \<Rightarrow> unit res" where
  "playbook_input d a kind =
     (case of_kind kind (ar_input_refs a) of
        [ref] \<Rightarrow>
          bindR (resolve False d ref) (\<lambda>r.
            seqR
              [raise_if (\<not> is_kind r kind \<or> \<not> is_current d r ref)
                 (ValueError ''STALE_RESULT: current playbook closure required''),
               raise_if (is_kind r ''playbook_policy''
                         \<and> (\<forall>input \<in> set (ar_input_refs a).
                              \<not> points_to r ''common_playbook_ref'' input
                              \<and> Some (ref_value input) \<notin> set (item_fields r ''type_playbooks'' ''playbook_ref'')))
                 (ValueError ''STALE_RESULT: policy/playbook pair mismatch'')])
      | _ \<Rightarrow> Inl (ValueError ''STALE_RESULT: current playbook closure required''))"

text \<open>No published request is ahead of the generation that is to be restarted.\<close>

definition premature_request :: "process \<Rightarrow> work \<Rightarrow> contract_record \<Rightarrow> bool" where
  "premature_request p w other \<longleftrightarrow>
     meta_analysis (record_meta other) = meta_analysis (wk_meta w)
     \<and> meta_hypothesis (record_meta other) = meta_hypothesis (hs_meta p)
     \<and> (case record_field other ''verification_generation'' of
          Some (VInt n) \<Rightarrow> n > int (hs_verification_generation p) | _ \<Rightarrow> False)"

definition no_premature :: "sdb \<Rightarrow> process \<Rightarrow> work \<Rightarrow> unit res" where
  "no_premature d p w =
     seqR (map (\<lambda>row.
         bindR (resolve False d (ro_ref row)) (\<lambda>other.
           if \<not> is_kind other ''dynamic_reproduction_request'' then Inl (AssertionError [])
           else raise_if (premature_request p w other)
                  (ValueError ''STALE_RESULT: premature new generation request'')))
       (filter (\<lambda>row. ro_kind row = ''dynamic_reproduction_request''
                     \<and> tbl_lookup rv_record_id (sd_revisions d) (ro_record_id row) \<noteq> None)
          (sd_records d)))"

definition check_restart :: "record_ref list option \<Rightarrow> wdb \<Rightarrow> action_request \<Rightarrow> work \<Rightarrow> unit res" where
  "check_restart approved s a w =
     (let d = wd_store s in
      bindR (current_process d w) (\<lambda>p.
      bindR (record_reference (WorkExecutionState w)) (\<lambda>work_ref.
      bindR (raise_if (hs_status p \<noteq> HP_VERIFYING
                       \<or> map_option StoredDataRef (hs_verification_work_ref p) \<noteq> Some work_ref
                       \<or> wk_work_type w \<noteq> WT_VERIFICATION)
               (ValueError ''STALE_RESULT: current VERIFYING parent required'')) (\<lambda>_.
      bindR (active_work s w) (\<lambda>_.
      bindR (raise_if (meta_attempt (ar_meta a) \<noteq> wk_active_attempt_id w) (ValueError ''ATTEMPT_NOT_ACTIVE'')) (\<lambda>_.
        case hs_verification_assignment_ref p of
          None \<Rightarrow> Inl (AssertionError [])
        | Some assignment_ref \<Rightarrow>
            bindR (record_reference (HypothesisProcessState p)) (\<lambda>process_ref.
            bindR (dynamic_child s w p work_ref) (\<lambda>child.
            bindR (fixed_request d child p) (\<lambda>(request_ref, profile_ref).
            bindR (record_reference (WorkExecutionState child)) (\<lambda>child_ref.
            bindR (restart_approved d approved a request_ref profile_ref) (\<lambda>_.
            bindR (playbook_input d a ''playbook_policy'') (\<lambda>_.
            bindR (playbook_input d a ''verification_playbook'') (\<lambda>_.
            bindR (raise_if (\<not> {process_ref, StoredDataRef assignment_ref, work_ref, child_ref,
                               StoredDataRef request_ref, profile_ref} \<subseteq> set (ar_input_refs a))
                     (ValueError ''STALE_RESULT: restart inputs differ from current closure'')) (\<lambda>_.
              no_premature d p w))))))))))))))"

end
