(* ===== verification/Context_Policy.thy ===== *)
theory Context_Policy
  imports Action_Policy
begin

text \<open>
  The provenance of code context (\<open>storage/context_policy.py\<close>): which request a reading of code
  answers, the ledger of the requests of a hypothesis, and which reading a response comes from.  The
  decoding of the ceiling artifact is not modelled.
\<close>

definition artifact_ref :: "record_ref \<Rightarrow> bool" where
  "artifact_ref ref \<longleftrightarrow>
     (case ref of StoredDataRef x \<Rightarrow> sr_kind x = ''artifact'' \<and> sr_record x = None | _ \<Rightarrow> False)"

section \<open>Requests\<close>

text \<open>The paths a request names, by its entities and by its locations.\<close>

definition requested_paths :: "contract_record \<Rightarrow> string option set" where
  "requested_paths r =
     set (map (\<lambda>item. field_text (Option.bind (member_of item ''location'') (\<lambda>l. member_of l ''file_path'')))
           (field_items r ''requested_entities''))
     \<union> set (map (\<lambda>item. field_text (member_of item ''file_path'')) (field_items r ''requested_locations''))"

definition context_plan :: "action_request \<Rightarrow> work \<Rightarrow> contract_record \<Rightarrow> bool" where
  "context_plan a w request \<longleftrightarrow>
     field_text (record_field request ''reason'') = Some (ar_reason a)
     \<and> Some ` set (ar_file_paths a) = requested_paths request \<and> distinct (ar_file_paths a)
     \<and> (case filter (\<lambda>ref. ref \<notin> set (wk_input_refs w)) (ar_input_refs a) of
          [plan] \<Rightarrow> artifact_ref plan | _ \<Rightarrow> False)
     \<and> (case filter artifact_ref (wk_input_refs w) of
          [profile] \<Rightarrow> count_list (ar_input_refs a) profile = 1 | _ \<Rightarrow> False)"

text \<open>\<open>require_exact_context_inputs\<close>: the closure of inputs and paths of a reading, before it is authorized.\<close>

definition require_exact_context_inputs ::
  "action_request \<Rightarrow> work \<Rightarrow> record_ref \<Rightarrow> record_ref \<Rightarrow> record_ref list \<Rightarrow> string list \<Rightarrow> unit res" where
  "require_exact_context_inputs a w profile plan refs paths =
     raise_if (ar_action_type a \<noteq> READ_CODE \<or> profile \<notin> set (wk_input_refs w)
               \<or> (\<exists>ref \<in> set (profile # plan # refs). count_list (ar_input_refs a) ref \<noteq> 1)
               \<or> set (ar_file_paths a) \<noteq> set paths \<or> \<not> distinct (ar_file_paths a))
       (ValueError ''CONTEXT_PLAN_CHANGED'')"

text \<open>The decision under which a request was made, when it was used.\<close>

definition request_origin :: "sdb \<Rightarrow> contract_record \<Rightarrow> py_error \<Rightarrow> action_decision res" where
  "request_origin d request e =
     (case record_field_ref request ''action_decision_ref'' of
        None \<Rightarrow> Inl e
      | Some ref \<Rightarrow>
          bindR (resolve False d ref) (\<lambda>r.
            case r of
              ActionDecision origin \<Rightarrow> if ad_use_status origin = USED then Inr origin else Inl e
            | _ \<Rightarrow> Inl e))"

definition require_context_request :: "wdb \<Rightarrow> action_request \<Rightarrow> work \<Rightarrow> unit res" where
  "require_context_request s a w =
     (let missing = ValueError ''CONTEXT_REQUEST_REQUIRED'' in
      case tbl_lookup dr_action_id (wd_decisions s) (ar_action_id a) of
        None \<Rightarrow> Inl missing
      | Some row \<Rightarrow>
          (case of_kind ''code_context_request'' (ad_outcome_refs (dr_payload row)) of
             [ref] \<Rightarrow>
               bindR (resolve False (wd_store s) ref) (\<lambda>request.
               bindR (raise_if (\<not> is_kind request ''code_context_request''
                                \<or> meta_attempt (record_meta request) \<noteq> wk_active_attempt_id w)
                        missing) (\<lambda>_.
               bindR (raise_if (\<not> context_plan a w request) (ValueError ''CONTEXT_PLAN_CHANGED'')) (\<lambda>_.
               bindR (request_origin (wd_store s) request missing) (\<lambda>origin.
               bindR (record_reference (ActionRequest a)) (\<lambda>action_ref.
                 raise_if (ad_action_ref origin \<noteq> action_ref
                           \<or> ad_decision_id origin \<noteq> ad_decision_id (dr_payload row))
                   missing)))))
           | _ \<Rightarrow> Inl missing))"

section \<open>The ledger of requests\<close>

text \<open>
  \<open>derived_context_requests\<close>: the requests of a hypothesis across its generations, one for each of
  their identifiers, from the readings that were sent.
\<close>

definition sent_reading :: "wdb \<Rightarrow> string \<Rightarrow> string \<Rightarrow> action_decision \<Rightarrow> bool res" where
  "sent_reading s analysis hypothesis taken =
     (if ad_decision taken \<noteq> ALLOW \<or> ad_use_status taken \<noteq> USED then Inr False
      else
        bindR (resolve False (wd_store s) (ad_action_ref taken)) (\<lambda>r.
          Inr (case r of
                 ActionRequest a \<Rightarrow>
                   ar_action_type a = READ_CODE \<and> is_record_meta (ar_meta a)
                   \<and> id_text (meta_analysis (ar_meta a)) = analysis
                   \<and> id_text (meta_hypothesis (ar_meta a)) = hypothesis
                   \<and> tbl_lookup di_action_id (wd_dispatches s) (ar_action_id a) \<noteq> None
               | _ \<Rightarrow> False)))"

definition request_key :: "contract_record \<Rightarrow> string" where
  "request_key request = str_default (field_text (record_field request ''code_request_id'')) []"

definition add_request ::
  "(string \<times> contract_record) list \<Rightarrow> contract_record \<Rightarrow> (string \<times> contract_record) list res" where
  "add_request found request =
     (let key = request_key request in
      case map_of found key of
        None \<Rightarrow> Inr (found @ [(key, request)])
      | Some previous \<Rightarrow>
          if previous \<noteq> request then Inl (ValueError ''CONTEXT_REQUEST_LEDGER_CONFLICT'') else Inr found)"

definition add_outcome ::
  "sdb \<Rightarrow> (string \<times> contract_record) list \<Rightarrow> record_ref \<Rightarrow> (string \<times> contract_record) list res" where
  "add_outcome d found ref =
     (if ref_data_kind ref \<noteq> ''code_context_request'' then Inr found
      else
        bindR (resolve False d ref) (\<lambda>request.
          if \<not> is_kind request ''code_context_request'' then Inl (ValueError ''CONTEXT_REQUEST_REQUIRED'')
          else add_request found request))"

definition derived_context_requests :: "wdb \<Rightarrow> string \<Rightarrow> string \<Rightarrow> contract_record list res" where
  "derived_context_requests s analysis hypothesis =
     bindR (foldR (\<lambda>found taken.
              bindR (sent_reading s analysis hypothesis taken) (\<lambda>sent.
                if sent then foldR (add_outcome (wd_store s)) found (ad_outcome_refs taken) else Inr found))
              [] (map dr_payload (wd_decisions s))) (\<lambda>found.
       Inr (map snd (sort_key fst found)))"

definition keyed_requests :: "(string \<times> contract_record) list \<Rightarrow> bool" where
  "keyed_requests found \<longleftrightarrow> distinct (map fst found) \<and> (\<forall>(key, r) \<in> set found. key = request_key r)"

lemma add_request_keyed:
  assumes "keyed_requests found" "add_request found request = Inr found'"
  shows "keyed_requests found'"
proof (cases "map_of found (request_key request)")
  case None
  then have "request_key request \<notin> set (map fst found)" by (simp add: map_of_eq_None_iff)
  then show ?thesis using None assms by (auto simp: add_request_def keyed_requests_def request_key_def Let_def)
next
  case (Some previous)
  then show ?thesis using assms by (auto simp: add_request_def request_key_def Let_def split: if_splits)
qed

lemma add_outcome_keyed: "keyed_requests found \<Longrightarrow> add_outcome d found ref = Inr found' \<Longrightarrow> keyed_requests found'"
  by (auto simp: add_outcome_def intro: add_request_keyed split: if_splits)

text \<open>The ledger has one request for each identifier, in the order of the identifiers.\<close>

lemma context_requests_unique:
  assumes "derived_context_requests s analysis hypothesis = Inr rs"
  shows "distinct (map request_key rs) \<and> sorted (map request_key rs)"
proof -
  obtain found where f: "foldR (\<lambda>found taken. bindR (sent_reading s analysis hypothesis taken) (\<lambda>sent.
      if sent then foldR (add_outcome (wd_store s)) found (ad_outcome_refs taken) else Inr found))
      [] (map dr_payload (wd_decisions s)) = Inr found" and rs: "rs = map snd (sort_key fst found)"
    using assms by (auto simp: derived_context_requests_def)
  have more: "keyed_requests t" if "keyed_requests u" "foldR (add_outcome (wd_store s)) u refs = Inr t" for u t refs
    by (rule foldR_invariant [where P = keyed_requests, OF _ that(2,1)]) (rule add_outcome_keyed)
  have "keyed_requests found"
    by (rule foldR_invariant [where P = keyed_requests, OF _ f]) (auto intro: more split: if_splits simp: keyed_requests_def [of "[]"])
  then have "map request_key rs = map fst (sort_key fst found)"
    by (auto simp: rs keyed_requests_def intro!: map_cong)
  moreover have "distinct (map fst (sort_key fst found))"
    using \<open>keyed_requests found\<close> distinct_fst_sort [of fst found] by (simp add: keyed_requests_def)
  ultimately show ?thesis by simp
qed

text \<open>\<open>context_dispatch_state\<close>: how far the dispatch of a reading went.\<close>

datatype dispatch_phase = PHASE_PREPARED | PHASE_DISPATCHED | PHASE_RETURNED

definition context_dispatch_state :: "wdb \<Rightarrow> string \<Rightarrow> string \<Rightarrow> string \<Rightarrow> dispatch_phase res" where
  "context_dispatch_state s action work attempt =
     (case find (\<lambda>row. di_action_id row = action \<and> di_work_id row = work \<and> di_attempt_id row = attempt)
             (wd_dispatches s) of
        None \<Rightarrow> Inl (ValueError ''CONTEXT_RECOVERY_INVALID'')
      | Some row \<Rightarrow>
          Inr (if di_returned_at row \<noteq> None then PHASE_RETURNED
               else if di_dispatched_at row \<noteq> None then PHASE_DISPATCHED
               else PHASE_PREPARED))"

section \<open>Responses\<close>

text \<open>The reading of code that was sent for this attempt and came back.\<close>

definition returned_reading :: "wdb \<Rightarrow> work \<Rightarrow> action_decision \<Rightarrow> action_request option res" where
  "returned_reading s w taken =
     (if ad_use_status taken \<noteq> USED \<or> ad_decision taken \<noteq> ALLOW then Inr None
      else
        bindR (resolve False (wd_store s) (ad_action_ref taken)) (\<lambda>r.
          case r of
            ActionRequest a \<Rightarrow>
              if ar_action_type a \<noteq> READ_CODE then Inr None
              else
                bindR (record_reference (WorkExecutionState w)) (\<lambda>work_ref.
                  Inr (if ar_work_ref a = Some work_ref \<and> meta_attempt (ar_meta a) = wk_active_attempt_id w
                          \<and> (case tbl_lookup di_action_id (wd_dispatches s) (ar_action_id a) of
                               None \<Rightarrow> False | Some row \<Rightarrow> di_returned_at row \<noteq> None)
                       then Some a else None))
          | _ \<Rightarrow> Inr None))"

text \<open>One outcome of the reading, when it is the request that the response answers.\<close>

definition answered_request ::
  "sdb \<Rightarrow> work \<Rightarrow> contract_record \<Rightarrow> action_decision \<Rightarrow> record_ref \<Rightarrow> bool res" where
  "answered_request d w response taken ref =
     (let mismatch = ValueError ''CONTEXT_RESPONSE_REQUEST_MISMATCH'' in
      if ref_data_kind ref \<noteq> ''code_context_request'' then Inr False
      else
        bindR (resolve False d ref) (\<lambda>request.
          if \<not> is_kind request ''code_context_request''
             \<or> record_field request ''code_request_id'' \<noteq> record_field response ''code_request_id''
          then Inr False
          else
            bindR (request_origin d request mismatch) (\<lambda>origin.
              if ad_action_ref origin \<noteq> ad_action_ref taken \<or> ad_decision_id origin \<noteq> ad_decision_id taken
                 \<or> meta_attempt (record_meta request) \<noteq> wk_active_attempt_id w
                 \<or> \<not> same_subject (record_meta request) (record_meta response)
              then Inl mismatch
              else case ref of StoredDataRef _ \<Rightarrow> Inr True | _ \<Rightarrow> Inl mismatch)))"

type_synonym reading = "record_ref \<times> action_request \<times> action_decision"

definition readings_of :: "wdb \<Rightarrow> work \<Rightarrow> contract_record \<Rightarrow> action_decision \<Rightarrow> reading list res" where
  "readings_of s w response taken =
     bindR (returned_reading s w taken) (\<lambda>found.
       case found of
         None \<Rightarrow> Inr []
       | Some a \<Rightarrow>
           bindR (mapR (\<lambda>ref. bindR (answered_request (wd_store s) w response taken ref) (\<lambda>ok.
                     Inr (if ok then [(ref, a, taken)] else [])))
                   (ad_outcome_refs taken)) (\<lambda>parts. Inr (concat parts)))"

text \<open>The authorizations to save exactly this response.\<close>

definition save_actions :: "sdb \<Rightarrow> record_ref \<Rightarrow> record_ref \<Rightarrow> action_request list res" where
  "save_actions d work_ref response_ref =
     bindR (mapR (\<lambda>row. resolve True d (ro_ref row))
              (filter (\<lambda>row. ro_kind row = ''action_request'') (sd_records d))) (\<lambda>rs.
       Inr (concat (map (\<lambda>r. case r of
           ActionRequest a \<Rightarrow>
             if ar_action_type a = SAVE_RESULT \<and> ar_requested_by a = RQ_CONTEXT_RETRIEVAL_SERVICE
                \<and> ar_work_ref a = Some work_ref \<and> ar_candidate_result_ref a = Some response_ref
             then [a] else []
         | _ \<Rightarrow> []) rs)))"

definition receipt_inputs :: "action_request \<Rightarrow> record_ref set \<Rightarrow> bool" where
  "receipt_inputs save closure \<longleftrightarrow>
     distinct (ar_input_refs save) \<and> closure \<subseteq> set (ar_input_refs save)
     \<and> (case filter (\<lambda>ref. ref \<notin> closure) (ar_input_refs save) of
          [extra] \<Rightarrow> artifact_ref extra | _ \<Rightarrow> False)"

definition check_context_response :: "wdb \<Rightarrow> work \<Rightarrow> contract_record \<Rightarrow> unit res" where
  "check_context_response s w response =
     (let d = wd_store s in
      bindR (raise_if (wk_work_type w \<noteq> WT_CONTEXT_RETRIEVAL \<or> wk_status w \<noteq> W_RUNNING
                       \<or> wk_active_attempt_id w = None
                       \<or> meta_attempt (record_meta response) \<noteq> wk_active_attempt_id w
                       \<or> \<not> same_subject (record_meta response) (wk_meta w))
               (ValueError ''CONTEXT_RESPONSE_SCOPE_MISMATCH'')) (\<lambda>_.
      bindR (mapR (readings_of s w response) (map dr_payload (wd_decisions s))) (\<lambda>readings.
        case concat readings of
          [(request_ref, read, taken)] \<Rightarrow>
            (case filter (\<lambda>ref. ref \<notin> set (wk_input_refs w)) (ar_input_refs read) of
               [StoredDataRef plan] \<Rightarrow>
                 bindR (record_reference (ActionDecision taken)) (\<lambda>decision_ref.
                 bindR (record_reference (WorkExecutionState w)) (\<lambda>work_ref.
                 bindR (record_reference response) (\<lambda>response_ref.
                 bindR (save_actions d work_ref response_ref) (\<lambda>saves.
                   case saves of
                     [save] \<Rightarrow>
                       raise_if (\<not> receipt_inputs save
                                   (set (wk_input_refs w) \<union> {decision_ref, request_ref, StoredDataRef plan}
                                    \<union> set (field_refs response ''code_fragment_refs'')))
                         (ValueError ''CONTEXT_RESPONSE_RECEIPT_MISMATCH'')
                   | _ \<Rightarrow> Inl (ValueError ''CONTEXT_RESPONSE_RECEIPT_MISMATCH'')))))
             | _ \<Rightarrow> Inl (ValueError ''CONTEXT_PLAN_CHANGED''))
        | _ \<Rightarrow> Inl (ValueError ''CONTEXT_RESPONSE_REQUEST_MISMATCH: exact returned request required''))))"

end
