(* ===== verification/Llm_Context.thy ===== *)
theory Llm_Context
  imports Action_Policy
begin

text \<open>
  The admission of a model call (\<open>storage/llm_context.py\<close>, \<open>contracts/llm_closure.py\<close>): the call is made for
  this attempt by the right role with the current configuration, and every record it shows the model
  belongs to the work.  What the configuration registry and the host answer is an argument.
\<close>

text \<open>
  \<open>lc_active_entry\<close> reads the table \<open>prompt_active_entries\<close> at the scope, the role, the task and the purpose
  of an entry: its logical record and its record.
\<close>

record llm_configuration =
  lc_active_entry :: "contract_record \<Rightarrow> (string \<times> string) option"
  lc_sandbox_approved :: "contract_record \<Rightarrow> bool"

definition llm_mismatch :: py_error where
  "llm_mismatch = ValueError ''LLM_CONTEXT_WORK_MISMATCH''"

definition pinned_artifact :: "record_ref \<Rightarrow> work \<Rightarrow> bool" where
  "pinned_artifact ref w \<longleftrightarrow>
     (case ref of
        StoredDataRef x \<Rightarrow>
          sr_kind x = ''artifact'' \<and> sr_record x = None \<and> sr_id x = sr_hash x
          \<and> Some (sr_workspace x) = meta_workspace (wk_meta w) \<and> Some (sr_commit x) = meta_commit (wk_meta w)
      | _ \<Rightarrow> False)"

abbreviation field_is :: "contract_record \<Rightarrow> string \<Rightarrow> string \<Rightarrow> bool" where
  "field_is r name text \<equiv> field_text (record_field r name) = Some text"

section \<open>The inputs of a call\<close>

definition binding_refs :: "contract_record \<Rightarrow> string \<Rightarrow> record_ref list" where
  "binding_refs payload name =
     refs_in (map (\<lambda>item. member_of item name) (field_items payload ''context_bindings''))"

definition llm_action_input_refs ::
  "record_ref \<Rightarrow> contract_record \<Rightarrow> contract_record \<Rightarrow> record_ref list res" where
  "llm_action_input_refs spec_ref call payload =
     (let e = ValueError ''LLM_ACTION_INPUT_MISMATCH'';
          refs = spec_ref
            # refs_in (map (record_field call)
                [''prompt_registry_entry_ref'', ''prompt_template_ref'', ''prompt_payload_ref'',
                 ''provider_profile_ref'', ''execution_limits_ref'', ''retry_policy_ref'', ''tool_policy_ref'',
                 ''redaction_policy_ref'', ''output_schema_ref'', ''semantic_validator_ref''])
            @ refs_in [record_field payload ''rendered_prompt_ref'']
            @ binding_refs payload ''source_ref'' @ binding_refs payload ''projected_data_ref'' in
      if binding_refs payload ''source_ref'' \<noteq> field_refs call ''context_refs'' then Inl e
      else if \<not> distinct refs then Inl e
      else Inr refs)"

section \<open>Prepared inputs\<close>

text \<open>\<open>_chaining_prepared_input_refs\<close>: the one input that the runtime built for a chaining call.\<close>

definition prepared_binding :: "pyval \<Rightarrow> work \<Rightarrow> bool" where
  "prepared_binding item w \<longleftrightarrow>
     field_text (member_of item ''data_kind'') = Some ''artifact''
     \<and> field_text (member_of item ''trust_class'') = Some ''UNTRUSTED_DATA''
     \<and> (case (field_text (member_of item ''slot''), member_of item ''field_paths'') of
          (Some slot, Some (VSeq [VStr path])) \<Rightarrow>
            slot = ''prepared_input'' \<and> path = ''/redacted_body''
            \<or> take 8 slot = ''context-'' \<and> path = ''$''
        | _ \<Rightarrow> False)
     \<and> (case (value_ref (member_of item ''source_ref''), value_ref (member_of item ''projected_data_ref'')) of
          (Some source, Some projected) \<Rightarrow> pinned_artifact source w \<and> pinned_artifact projected w
        | _ \<Rightarrow> False)"

definition chaining_prepared_input_refs ::
  "contract_record \<Rightarrow> contract_record \<Rightarrow> work \<Rightarrow> record_ref list res" where
  "chaining_prepared_input_refs payload call w =
     (let e = ValueError ''LLM_CONTEXT_WORK_MISMATCH: chaining prepared_input'';
          refs = field_refs call ''context_refs'' in
      if \<not> (wk_work_type w = WT_CHAINING \<and> field_is call ''agent_role'' ''CHAINING''
            \<and> field_is call ''task_kind'' ''MATCH_PRIMITIVES'')
      then Inr []
      else if \<not> is_record_meta (wk_meta w) \<or> refs = [] \<or> butlast refs \<noteq> wk_input_refs w then Inl e
      else
        case filter (\<lambda>item. value_ref (member_of item ''source_ref'') = Some (last refs))
               (field_items payload ''context_bindings'') of
          [item] \<Rightarrow> if prepared_binding item w then Inr [last refs] else Inl e
        | _ \<Rightarrow> Inl e)"

text \<open>\<open>_dynamic_poc_context_refs\<close>: the code that the request of a reproduction pins, and nothing else.\<close>

definition poc_response :: "sdb \<Rightarrow> work \<Rightarrow> record_ref \<Rightarrow> record_ref list res" where
  "poc_response d w ref =
     (let e = ValueError ''LLM_CONTEXT_WORK_MISMATCH: dynamic PoC context'' in
      bindR (resolve False d ref) (\<lambda>response.
      bindR (record_reference response) (\<lambda>response_ref.
        let fragments = field_refs response ''code_fragment_refs'' in
        if ref_data_kind ref \<noteq> ''code_context_response'' \<or> \<not> is_kind response ''code_context_response''
           \<or> response_ref \<noteq> ref \<or> \<not> same_subject (record_meta response) (wk_meta w)
           \<or> fragments = [] \<or> (\<exists>x \<in> set fragments. \<not> pinned_artifact x w)
        then Inl e
        else Inr fragments)))"

definition poc_request :: "sdb \<Rightarrow> work \<Rightarrow> record_ref \<Rightarrow> record_ref list res" where
  "poc_request d w ref =
     bindR (resolve False d ref) (\<lambda>request.
     bindR (record_reference request) (\<lambda>request_ref.
       let codes = field_refs request ''code_refs'' in
       if \<not> is_kind request ''dynamic_reproduction_request'' \<or> request_ref \<noteq> ref
          \<or> record_field request ''verification_generation'' \<noteq> Some (v_nat (wk_work_generation w))
          \<or> \<not> same_subject (record_meta request) (wk_meta w) \<or> codes = [] \<or> \<not> distinct codes
       then Inl (ValueError ''LLM_CONTEXT_WORK_MISMATCH: dynamic PoC context'')
       else Inr codes))"

definition dynamic_poc_context_refs :: "sdb \<Rightarrow> contract_record \<Rightarrow> work \<Rightarrow> record_ref list res" where
  "dynamic_poc_context_refs d call w =
     (let e = ValueError ''LLM_CONTEXT_WORK_MISMATCH: dynamic PoC context'';
          refs = field_refs call ''context_refs'' in
      if \<not> (wk_work_type w = WT_DYNAMIC_REPRO \<and> field_is call ''agent_role'' ''DYNAMIC_REPRODUCTION''
            \<and> field_is call ''task_kind'' ''CREATE_POC_CANDIDATE'')
      then Inr []
      else case wk_input_refs w of
          [request_ref] \<Rightarrow>
            if \<not> is_record_meta (wk_meta w) \<or> ref_data_kind request_ref \<noteq> ''dynamic_reproduction_request''
               \<or> length refs < 5
               \<or> map ref_data_kind (take 3 refs)
                   \<noteq> [''dynamic_reproduction_request'', ''reproduction_plan'', ''sandbox_environment'']
               \<or> hd refs \<noteq> request_ref
            then Inl e
            else
              bindR (poc_request d w request_ref) (\<lambda>codes.
              bindR (mapR (poc_response d w) codes) (\<lambda>fragments.
                if \<not> distinct (concat fragments) \<or> drop 3 refs \<noteq> codes @ concat fragments then Inl e
                else Inr (drop 3 refs)))
        | _ \<Rightarrow> Inl e)"

section \<open>The call\<close>

definition same_attempt_scope :: "contract_record \<Rightarrow> work \<Rightarrow> bool" where
  "same_attempt_scope r w \<longleftrightarrow>
     same_subject (record_meta r) (wk_meta w) \<and> meta_attempt (record_meta r) = wk_active_attempt_id w"

text \<open>\<open>ConfigurationRegistry.require_current_selection\<close>.\<close>

definition require_current_selection ::
  "llm_configuration \<Rightarrow> sdb \<Rightarrow> contract_record \<Rightarrow> contract_record \<Rightarrow> unit res" where
  "require_current_selection lc d entry provider =
     (let current = (\<lambda>r. map_option cu_record_id (tbl_lookup cu_logical_record_id (sd_current d)
                            (rm_logical_record_id (revision_of (record_meta r))))
                         = Some (rm_record_id (revision_of (record_meta r))));
          m = revision_of (record_meta entry) in
      raise_if (\<not> (field_is entry ''status'' ''ACTIVE'' \<and> field_is provider ''support_status'' ''SUPPORTED''
                   \<and> lc_active_entry lc entry = Some (rm_logical_record_id m, rm_record_id m)
                   \<and> current entry \<and> current provider))
        (ValueError ''LLM_CONTEXT_CONFIGURATION_NOT_CURRENT''))"

fun expected_role :: "action_type \<Rightarrow> requester_role \<Rightarrow> string" where
  "expected_role CALL_TECHNICAL_GATE _ = ''TECHNICAL_GATE''"
| "expected_role CALL_RULE_SCOPE_GATE _ = ''RULE_SCOPE_GATE''"
| "expected_role CREATE_REPORT_DRAFT _ = ''REPORTER''"
| "expected_role _ who = requester_role_text who"

definition expected_work :: "(string \<times> work_type) list" where
  "expected_work =
     [(''HYPOTHESIS'', WT_HYPOTHESIS_PROPOSAL), (''PRO'', WT_PRO_EVIDENCE), (''CON'', WT_CON_EVIDENCE),
      (''VERIFICATION'', WT_VERIFICATION), (''DYNAMIC_REPRODUCTION'', WT_DYNAMIC_REPRO),
      (''POLICY_PARSER'', WT_POLICY_FETCH), (''CWE_LABELING'', WT_CWE_LABEL), (''CHAINING'', WT_CHAINING),
      (''TECHNICAL_GATE'', WT_TECHNICAL_GATE), (''RULE_SCOPE_GATE'', WT_RULE_SCOPE_GATE),
      (''REPORTER'', WT_REPORT_DRAFT)]"

text \<open>The call specification, its payload and its selection, for the action and the attempt.\<close>

definition call_binding ::
  "llm_configuration \<Rightarrow> sdb \<Rightarrow> action_request \<Rightarrow> work \<Rightarrow> record_ref \<Rightarrow> (contract_record \<times> contract_record) res" where
  "call_binding lc d a w spec_ref =
     bindR (resolve False d spec_ref) (\<lambda>call.
     bindR (raise_if (\<not> is_kind call ''llm_call_spec''
                      \<or> ar_provider_profile_ref a \<noteq> record_field_ref call ''provider_profile_ref''
                      \<or> map_option session_mode_text (ar_session_mode a)
                          \<noteq> field_text (record_field call ''session_policy''))
              llm_mismatch) (\<lambda>_.
     bindR (resolve_field d call ''prompt_payload_ref'') (\<lambda>payload.
     bindR (raise_if (\<not> is_kind payload ''prompt_payload'') llm_mismatch) (\<lambda>_.
     bindR (llm_action_input_refs spec_ref call payload) (\<lambda>refs.
     bindR (raise_if (ar_input_refs a \<noteq> refs \<or> \<not> same_attempt_scope call w \<or> \<not> same_attempt_scope payload w)
              llm_mismatch) (\<lambda>_.
     bindR (resolve_field d call ''prompt_registry_entry_ref'') (\<lambda>entry.
     bindR (resolve_field d call ''provider_profile_ref'') (\<lambda>provider.
     bindR (raise_if (\<not> is_kind entry ''prompt_registry_entry'' \<or> \<not> is_kind provider ''provider_profile'')
              (ValueError ''LLM_CONTEXT_CONFIGURATION_NOT_CURRENT'')) (\<lambda>_.
     bindR (require_current_selection lc d entry provider) (\<lambda>_.
     bindR (raise_if (\<not> field_is call ''agent_role'' (expected_role (ar_action_type a) (ar_requested_by a))
                      \<or> map_of expected_work (str_default (field_text (record_field call ''agent_role'')) [])
                          \<noteq> Some (wk_work_type w))
              llm_mismatch) (\<lambda>_. Inr (call, payload))))))))))))"

text \<open>A call specification belongs to one action.\<close>

definition producer_of :: "sdb \<Rightarrow> action_decision \<Rightarrow> action_request option res" where
  "producer_of d decision =
     bindR (resolve False d (ad_action_ref decision)) (\<lambda>r.
       Inr (case r of ActionRequest a \<Rightarrow> Some a | _ \<Rightarrow> None))"

definition unbound_spec :: "wdb \<Rightarrow> action_request \<Rightarrow> unit res" where
  "unbound_spec s a =
     seqR (map (\<lambda>row.
         bindR (producer_of (wd_store s) (dr_payload row)) (\<lambda>found.
           raise_if (case found of
                       None \<Rightarrow> False
                     | Some x \<Rightarrow> ar_llm_call_spec_ref x = ar_llm_call_spec_ref a \<and> ar_action_id x \<noteq> ar_action_id a)
             (ValueError ''LLM_CONTEXT_WORK_MISMATCH: call spec already bound'')))
       (wd_decisions s))"

section \<open>What the model may see\<close>

definition assignment_refs_of :: "sdb \<Rightarrow> work \<Rightarrow> record_ref list res" where
  "assignment_refs_of d w =
     (if wk_work_type w \<noteq> WT_VERIFICATION then Inr []
      else
        bindR (current_process d w) (\<lambda>p.
        bindR (record_reference (WorkExecutionState w)) (\<lambda>work_ref.
          if hs_verification_generation p \<noteq> wk_work_generation w
             \<or> map_option StoredDataRef (hs_verification_work_ref p) \<noteq> Some work_ref
          then Inl (ValueError ''LLM_CONTEXT_GENERATION_MISMATCH'')
          else Inr (case hs_verification_assignment_ref p of None \<Rightarrow> [] | Some ref \<Rightarrow> [StoredDataRef ref]))))"

text \<open>The results of the finished children of the work, and of context retrievals for its hypothesis.\<close>

definition supplies :: "work \<Rightarrow> record_ref \<Rightarrow> work \<Rightarrow> bool" where
  "supplies w work_ref child \<longleftrightarrow>
     (wk_parent_work_ref child = Some work_ref
      \<or> wk_work_type child = WT_CONTEXT_RETRIEVAL \<and> wk_work_type w = WT_VERIFICATION
        \<and> (\<exists>ref \<in> set (wk_input_refs child).
             ref_data_kind ref = ''vulnerability_hypothesis'' \<and> ref \<in> set (wk_input_refs w)))
     \<and> wk_work_generation child = wk_work_generation w \<and> wk_status child = W_SUCCEEDED
     \<and> meta_hypothesis (wk_meta child) = meta_hypothesis (wk_meta w)
     \<and> wk_work_type child \<in> {WT_PRO_EVIDENCE, WT_CON_EVIDENCE, WT_CONTEXT_RETRIEVAL, WT_DYNAMIC_REPRO}"

definition child_refs :: "wdb \<Rightarrow> work \<Rightarrow> record_ref \<Rightarrow> record_ref list" where
  "child_refs s w work_ref =
     concat (map (\<lambda>child. wk_output_refs child
               @ (if wk_work_type child = WT_CONTEXT_RETRIEVAL then wk_input_refs child else []))
       (filter (supplies w work_ref)
         (map wr_payload (filter (\<lambda>row. wr_analysis_id row = work_analysis w) (wd_works s)))))"

text \<open>The results that the work itself saved, and for the policy parser what was fetched.\<close>

definition saved_refs :: "sdb \<Rightarrow> contract_record \<Rightarrow> record_ref \<Rightarrow> action_decision \<Rightarrow> record_ref list res" where
  "saved_refs d call work_ref decision =
     (if ad_use_status decision \<noteq> USED then Inr []
      else
        bindR (producer_of d decision) (\<lambda>found.
          Inr (case found of
                 None \<Rightarrow> []
               | Some x \<Rightarrow>
                   if ar_work_ref x \<noteq> Some work_ref then []
                   else if ar_action_type x = SAVE_RESULT then ad_outcome_refs decision
                   else if ar_action_type x = FETCH_POLICY \<and> field_is call ''agent_role'' ''POLICY_PARSER''
                   then ar_input_refs x
                   else [])))"

definition allowed_refs ::
  "wdb \<Rightarrow> contract_record \<Rightarrow> contract_record \<Rightarrow> work \<Rightarrow> record_ref list res" where
  "allowed_refs s call payload w =
     (let d = wd_store s in
      bindR (chaining_prepared_input_refs payload call w) (\<lambda>prepared.
      bindR (dynamic_poc_context_refs d call w) (\<lambda>poc.
      bindR (assignment_refs_of d w) (\<lambda>assignments.
      bindR (record_reference (WorkExecutionState w)) (\<lambda>work_ref.
      bindR (mapR (\<lambda>row. saved_refs d call work_ref (dr_payload row)) (wd_decisions s)) (\<lambda>saved.
        Inr (wk_input_refs w @ prepared @ poc @ assignments @ child_refs s w work_ref @ concat saved)))))))"

text \<open>One record of the context: allowed, in the scope of the work, of its generation.\<close>

definition scope_of_context :: "record_metadata \<Rightarrow> work \<Rightarrow> bool" where
  "scope_of_context m w \<longleftrightarrow>
     list_all (\<lambda>f. f m = None \<or> f m = f (wk_meta w))
       ([meta_analysis, meta_workspace, meta_commit]
        @ (if wk_work_type w = WT_CHAINING then [] else [meta_hypothesis]))"

definition approved_profile ::
  "llm_configuration \<Rightarrow> sdb \<Rightarrow> contract_record \<Rightarrow> record_ref \<Rightarrow> bool res" where
  "approved_profile lc d call ref =
     (if ref_data_kind ref = ''sandbox_profile'' \<and> field_is call ''task_kind'' ''CREATE_DYNAMIC_REQUEST''
      then bindR (resolve False d ref) (\<lambda>r. Inr (is_kind r ''sandbox_profile'' \<and> lc_sandbox_approved lc r))
      else Inr False)"

definition context_ref_check ::
  "llm_configuration \<Rightarrow> sdb \<Rightarrow> contract_record \<Rightarrow> work \<Rightarrow> record_ref list \<Rightarrow> record_ref \<Rightarrow> unit res" where
  "context_ref_check lc d call w allowed ref =
     bindR (approved_profile lc d call ref) (\<lambda>approved.
       if \<not> approved \<and> ref \<notin> set allowed
       then Inl (ValueError (''LLM_CONTEXT_WORK_MISMATCH: '' @ ref_data_kind ref))
       else if ref_record_id ref = None then Inr ()
       else
         bindR (resolve False d ref) (\<lambda>r.
           if \<not> scope_of_context (record_meta r) w then Inl llm_mismatch
           else raise_if (record_field r ''verification_generation'' \<noteq> None
                          \<and> record_field r ''verification_generation'' \<noteq> Some (v_nat (wk_work_generation w)))
                  (ValueError ''LLM_CONTEXT_GENERATION_MISMATCH'')))"

definition verification_context :: "contract_record \<Rightarrow> work \<Rightarrow> unit res" where
  "verification_context call w =
     (let refs = field_refs call ''context_refs'';
          kinds = [''vulnerability_hypothesis'', ''playbook_policy'', ''verification_playbook'',
                   ''playbook_application''] in
      if wk_work_type w \<noteq> WT_VERIFICATION \<or> \<not> field_is call ''agent_role'' ''VERIFICATION'' then Inr ()
      else if \<not> set (filter (\<lambda>ref. ref_data_kind ref \<in> set kinds) (wk_input_refs w)) \<subseteq> set refs
      then Inl llm_mismatch
      else raise_if ((field_is call ''task_kind'' ''CREATE_DYNAMIC_REQUEST''
                      \<or> field_is call ''task_kind'' ''FINAL_VERDICT'')
                     \<and> of_kind ''verification_initial_assessment'' refs = [])
             (ValueError ''LLM_CONTEXT_ASSESSMENT_REQUIRED''))"

definition check_llm_context :: "llm_configuration \<Rightarrow> wdb \<Rightarrow> action_request \<Rightarrow> work \<Rightarrow> unit res" where
  "check_llm_context lc s a w =
     (case ar_llm_call_spec_ref a of
        None \<Rightarrow> Inr ()
      | Some spec_ref \<Rightarrow>
          bindR (call_binding lc (wd_store s) a w (StoredDataRef spec_ref)) (\<lambda>(call, payload).
          bindR (unbound_spec s a) (\<lambda>_.
          bindR (allowed_refs s call payload w) (\<lambda>allowed.
          bindR (seqR (map (context_ref_check lc (wd_store s) call w allowed) (field_refs call ''context_refs'')))
            (\<lambda>_. verification_context call w)))))"

lemma no_call_spec [simp]: "ar_llm_call_spec_ref a = None \<Longrightarrow> check_llm_context lc s a w = Inr ()"
  by (simp add: check_llm_context_def)

text \<open>A call that is admitted shows the model nothing but what belongs to its work.\<close>

lemma llm_context_owned:
  assumes "check_llm_context lc s a w = Inr ()" "ar_llm_call_spec_ref a = Some spec_ref"
  obtains call payload allowed where "call_binding lc (wd_store s) a w (StoredDataRef spec_ref) = Inr (call, payload)"
    "allowed_refs s call payload w = Inr allowed"
    "\<And>ref. ref \<in> set (field_refs call ''context_refs'') \<Longrightarrow>
       ref \<in> set allowed \<or> approved_profile lc (wd_store s) call ref = Inr True"
    "\<And>ref r. ref \<in> set (field_refs call ''context_refs'') \<Longrightarrow> ref_record_id ref \<noteq> None \<Longrightarrow>
       resolve False (wd_store s) ref = Inr r \<Longrightarrow> scope_of_context (record_meta r) w"
proof -
  obtain call payload allowed where c: "call_binding lc (wd_store s) a w (StoredDataRef spec_ref) = Inr (call, payload)"
    "allowed_refs s call payload w = Inr allowed"
    "seqR (map (context_ref_check lc (wd_store s) call w allowed) (field_refs call ''context_refs'')) = Inr ()"
    using assms by (auto simp: check_llm_context_def)
  then have each: "context_ref_check lc (wd_store s) call w allowed ref = Inr ()"
    if "ref \<in> set (field_refs call ''context_refs'')" for ref
    using that by (simp add: list_all_iff)
  show ?thesis
  proof (rule that [OF c(1,2)])
    fix ref assume r: "ref \<in> set (field_refs call ''context_refs'')"
    then show "ref \<in> set allowed \<or> approved_profile lc (wd_store s) call ref = Inr True"
      using each [OF r] by (auto simp: context_ref_check_def split: if_splits)
    show "scope_of_context (record_meta x) w"
      if "ref_record_id ref \<noteq> None" "resolve False (wd_store s) ref = Inr x" for x
      using each [OF r] that by (auto simp: context_ref_check_def split: if_splits)
  qed
qed

end
