(* ===== verification/Stage_Policy.thy ===== *)
theory Stage_Policy
  imports Final_Policy Context_Policy Llm_Context
begin

text \<open>
  \<open>check_stage\<close> of \<open>storage/stage_policy.py\<close>: which work, generation and inputs an action of a
  stage needs.
\<close>

section \<open>The host and the rest of the policy\<close>

text \<open>
  \<open>TrustedEvidencePort\<close> and \<open>ProductionCapabilityResolverPort\<close> of \<open>ports/\<close>, and the checks of other
  modules, each on the database it is asked about.
\<close>

record authority =
  au_evidence :: evidence
  au_identity_role :: "record_ref \<Rightarrow> requester_role option"
  au_action_evidence :: "action_request \<Rightarrow> check_type \<Rightarrow> record_ref list option"
  au_capability :: "(host_ref \<Rightarrow> contract_record res) option"
  au_llm_configuration :: llm_configuration
  au_restart_evidence :: "action_request \<Rightarrow> record_ref list option"
  au_authorized_outputs :: "action_request \<Rightarrow> record_ref list option"
  au_finding_service :: "stored_ref option"
  au_artifact_json :: "(stored_ref \<Rightarrow> unit res) option"

definition require_current_capability_ref :: "authority \<Rightarrow> host_ref \<Rightarrow> unit res" where
  "require_current_capability_ref au ref =
     (case au_capability au of
        None \<Rightarrow> Inl (ValueError ''CAPABILITY_RESOLVER_REQUIRED'')
      | Some resolver \<Rightarrow>
          bindR (resolver ref) (\<lambda>profile.
          bindR (record_reference profile) (\<lambda>r.
            raise_if (r \<noteq> HostConfigurationRef ref)
              (ValueError ''CAPABILITY_PROFILE_REFERENCE_MISMATCH''))))"

section \<open>Stages\<close>

definition R7_ROLES :: "requester_role set" where
  "R7_ROLES =
     {RQ_DYNAMIC_REPRODUCTION, RQ_REPRODUCTION_SETUP_AUTOMATION, RQ_SANDBOX_CONTROLLER,
      RQ_REPRODUCTION_SESSION_MANAGER}"

fun STAGE_WORKS :: "action_type \<Rightarrow> work_type option" where
  "STAGE_WORKS REQUEST_DYNAMIC_REPRO = Some WT_VERIFICATION"
| "STAGE_WORKS CALL_TECHNICAL_GATE = Some WT_TECHNICAL_GATE"
| "STAGE_WORKS CALL_RULE_SCOPE_GATE = Some WT_RULE_SCOPE_GATE"
| "STAGE_WORKS CREATE_REPORT_DRAFT = Some WT_REPORT_DRAFT"
| "STAGE_WORKS _ = None"

abbreviation work_hypothesis :: "work \<Rightarrow> string option" where
  "work_hypothesis w \<equiv> meta_hypothesis (wk_meta w)"

definition needs_terminal_process :: "action_request \<Rightarrow> bool" where
  "needs_terminal_process a \<longleftrightarrow>
     ar_requested_by a = RQ_CWE_LABELING
     \<or> ar_action_type a \<in> {CALL_TECHNICAL_GATE, CALL_RULE_SCOPE_GATE, CREATE_REPORT_DRAFT}
     \<or> ar_result_kind a \<in> {Some ''cwe_label'', Some ''technical_evidence_review'',
          Some ''rule_scope_impact_review'', Some ''finding'', Some ''report_draft''}"

definition same_attempt_input :: "sdb \<Rightarrow> action_request \<Rightarrow> work \<Rightarrow> record_ref \<Rightarrow> contract_record \<Rightarrow> unit res" where
  "same_attempt_input d a w request v =
     bindR (record_reference v) (\<lambda>ref.
     bindR (stage_current d ref) (\<lambda>_.
       raise_if (ref \<notin> set (ar_input_refs a)
                 \<or> record_field v ''request_ref'' \<noteq> Some (ref_value request)
                 \<or> meta_attempt (record_meta v) \<noteq> wk_active_attempt_id w
                 \<or> meta_hypothesis (record_meta v) \<noteq> work_hypothesis w)
         (ValueError ''STALE_RESULT: sandbox same-attempt input mismatch'')))"

text \<open>The run phase: the recipe of this attempt built the image that is to run.\<close>

definition sandbox_recipe :: "sdb \<Rightarrow> action_request \<Rightarrow> work \<Rightarrow> record_ref \<Rightarrow> contract_record \<Rightarrow> unit res" where
  "sandbox_recipe d a w request requirements =
     (case ar_image_digest a of
        None \<Rightarrow> Inr ()
      | Some digest \<Rightarrow>
          bindR (resolved d (case of_kind ''environment_recipe'' (ar_input_refs a) of [r] \<Rightarrow> Some r | _ \<Rightarrow> None)
                   ''environment_recipe'') (\<lambda>recipe.
          bindR (record_reference requirements) (\<lambda>requirements_ref.
            raise_if (record_field recipe ''request_ref'' \<noteq> Some (ref_value request)
                      \<or> record_field recipe ''environment_requirements_ref'' \<noteq> Some (ref_value requirements_ref)
                      \<or> meta_attempt (record_meta recipe) \<noteq> wk_active_attempt_id w
                      \<or> meta_hypothesis (record_meta recipe) \<noteq> work_hypothesis w
                      \<or> record_field recipe ''built_image_digest'' \<noteq> Some (VStr digest))
              (ValueError ''STALE_RESULT: sandbox image/recipe binding mismatch''))))"

definition sandbox_stage :: "sdb \<Rightarrow> action_request \<Rightarrow> work \<Rightarrow> record_ref \<Rightarrow> contract_record \<Rightarrow> unit res" where
  "sandbox_stage d a w request_ref request =
     (if map_option StoredDataRef (ar_dynamic_request_ref a) \<noteq> Some request_ref
      then Inl (ValueError ''STALE_RESULT: sandbox request mismatch'')
      else
        bindR (resolved d (map_option StoredDataRef (ar_reproduction_plan_ref a)) ''reproduction_plan'') (\<lambda>plan.
        bindR (resolved d (record_field_ref plan ''environment_requirements_ref'') ''environment_requirements'')
          (\<lambda>requirements.
        bindR (same_attempt_input d a w request_ref plan) (\<lambda>_.
        bindR (same_attempt_input d a w request_ref requirements) (\<lambda>_.
        bindR (raise_if
                 (record_field plan ''purpose'' \<noteq> record_field request ''purpose''
                  \<or> record_field plan ''hypothesis_ref'' \<noteq> record_field request ''hypothesis_ref''
                  \<or> record_field plan ''sandbox_profile_ref'' \<noteq> record_field request ''sandbox_profile_ref''
                  \<or> map_option ref_value (ar_sandbox_profile_ref a) \<noteq> record_field request ''sandbox_profile_ref'')
                 (ValueError ''STALE_RESULT: sandbox request/plan/profile mismatch'')) (\<lambda>_.
        bindR (resolved d (ar_sandbox_profile_ref a) ''sandbox_profile'') (\<lambda>_.
        bindR (get_run d (work_analysis w)) (\<lambda>run.
        bindR (resolved d (map_option StoredDataRef (rs_budget_binding_ref run)) ''budget_profile_binding'')
          (\<lambda>binding.
           case binding of
             BudgetProfileBinding b \<Rightarrow>
               if bb_status b \<noteq> ACTIVE
                  \<or> ar_resource_profile_ref a \<noteq> Some (bb_dynamic_lifecycle_profile_ref b)
               then Inl (ValueError ''STALE_RESULT: current run lifecycle required'')
               else
                 bindR (resolve False d (StoredDataRef (bb_dynamic_lifecycle_profile_ref b))) (\<lambda>_.
                   sandbox_recipe d a w request_ref requirements)
           | _ \<Rightarrow> Inl (ValueError ''STALE_RESULT: exact input kind mismatch''))))))))))"

definition reproduction_stage :: "sdb \<Rightarrow> action_request \<Rightarrow> work \<Rightarrow> unit res" where
  "reproduction_stage d a w =
     (if ar_requested_by a \<notin> R7_ROLES then Inr ()
      else if wk_work_type w \<noteq> WT_DYNAMIC_REPRO \<or> work_hypothesis w = None
      then Inl (ValueError ''AUTHORITY_DENIED: exact R7 work required'')
      else
        bindR (current_process d w) (\<lambda>p.
          case of_kind ''dynamic_reproduction_request'' (wk_input_refs w) of
            [request_ref] \<Rightarrow>
              bindR (resolved d (Some request_ref) ''dynamic_reproduction_request'') (\<lambda>request.
                if record_field request ''verification_generation'' \<noteq> Some (v_nat (hs_verification_generation p))
                   \<or> record_field request ''verification_assignment_ref''
                        \<noteq> Some (v_opt stored_ref_value (hs_verification_assignment_ref p))
                   \<or> wk_work_generation w \<noteq> hs_verification_generation p
                then Inl (ValueError ''STALE_RESULT: R7 current generation/request mismatch'')
                else if ar_action_type a \<notin> {START_ATTEMPT, CHANGE_WORK_STATE, CANCEL_WORK}
                        \<and> (wk_status w \<noteq> W_RUNNING \<or> wk_active_attempt_id w = None)
                then Inl (ValueError ''ATTEMPT_NOT_ACTIVE'')
                else if ar_action_type a = RUN_SANDBOX then sandbox_stage d a w request_ref request
                else Inr ())
          | _ \<Rightarrow> Inl (ValueError ''STALE_RESULT: R7 fixed request required'')))"

text \<open>Works of the same hypothesis and generation with another dynamic request.\<close>

definition rival_request :: "wdb \<Rightarrow> action_request \<Rightarrow> work \<Rightarrow> process \<Rightarrow> bool" where
  "rival_request s a w p \<longleftrightarrow>
     (\<exists>row \<in> set (wd_works s). wr_analysis_id row = work_analysis w
        \<and> wk_work_type (wr_payload row) = WT_DYNAMIC_REPRO
        \<and> work_hypothesis (wr_payload row) = work_hypothesis w
        \<and> wk_work_generation (wr_payload row) = hs_verification_generation p
        \<and> (\<forall>ref \<in> set (wk_input_refs (wr_payload row)).
             map_option StoredDataRef (ar_dynamic_request_ref a) \<noteq> Some ref))"

definition request_stage :: "wdb \<Rightarrow> action_request \<Rightarrow> work \<Rightarrow> unit res" where
  "request_stage s a w =
     (if ar_action_type a \<noteq> REQUEST_DYNAMIC_REPRO then Inr ()
      else
        let d = wd_store s in
        bindR (current_process d w) (\<lambda>p.
        bindR (resolved d (map_option StoredDataRef (ar_dynamic_request_ref a)) ''dynamic_reproduction_request'')
          (\<lambda>request.
        bindR (record_reference (WorkExecutionState w)) (\<lambda>ref.
          if hs_status p \<noteq> HP_VERIFYING
             \<or> map_option StoredDataRef (hs_verification_work_ref p) \<noteq> Some ref
             \<or> record_field request ''verification_generation'' \<noteq> Some (v_nat (hs_verification_generation p))
             \<or> record_field request ''verification_assignment_ref''
                  \<noteq> Some (v_opt stored_ref_value (hs_verification_assignment_ref p))
             \<or> meta_hypothesis (record_meta request) \<noteq> work_hypothesis w
          then Inl (ValueError ''STALE_RESULT: current R6 request required'')
          else raise_if (rival_request s a w p)
                 (ValueError ''AUTHORITY_DENIED: one dynamic request per generation'')))))"

definition check_stage :: "authority \<Rightarrow> wdb \<Rightarrow> action_request \<Rightarrow> work \<Rightarrow> unit res" where
  "check_stage au s a w =
     bindR (check_llm_context (au_llm_configuration au) s a w) (\<lambda>_.
     bindR (if needs_terminal_process a
            then bindR (current_process (wd_store s) w) (\<lambda>p.
                   raise_if (hs_status p \<noteq> HP_TERMINAL)
                     (ValueError ''STALE_RESULT: final admission requires TERMINAL process''))
            else Inr ()) (\<lambda>_.
     bindR (if ar_action_type a = RESTART_VERIFICATION_GENERATION then check_restart (au_restart_evidence au a) s a w else Inr ()) (\<lambda>_.
     bindR (raise_if (STAGE_WORKS (ar_action_type a) \<noteq> None
                      \<and> (Some (wk_work_type w) \<noteq> STAGE_WORKS (ar_action_type a)
                         \<or> wk_status w \<noteq> W_RUNNING \<or> wk_active_attempt_id w = None
                         \<or> work_hypothesis w = None))
              (ValueError ''AUTHORITY_DENIED: active hypothesis stage required'')) (\<lambda>_.
     bindR (reproduction_stage (wd_store s) a w) (\<lambda>_.
     bindR (request_stage s a w) (\<lambda>_.
       if ar_action_type a \<in> {CALL_TECHNICAL_GATE, CALL_RULE_SCOPE_GATE, CREATE_REPORT_DRAFT}
          \<or> ar_requested_by a = RQ_CWE_LABELING
       then check_final_inputs s a w
       else Inr ()))))))"

end
