(* ===== verification/Intermediate_Policy.thy ===== *)
theory Intermediate_Policy
  imports Stage_Policy
begin

text \<open>
  The outputs of an action: the receipt of what an authorization covers (\<open>storage/output_receipts.py\<close>),
  the records a running attempt may publish before its work commits
  (\<open>storage/intermediate_policy.py\<close>), the owner of a result (\<open>contracts/result_registry.py\<close>), and the
  outputs a candidate stands for (\<open>storage/output_closures.py\<close>).
\<close>

section \<open>Receipts\<close>

definition receipt_value :: "record_ref \<Rightarrow> record_ref \<Rightarrow> record_ref list \<Rightarrow> pyval" where
  "receipt_value request_ref decision_ref outputs =
     VSeq [ref_value request_ref, ref_value decision_ref, v_seq ref_value outputs]"

text \<open>\<open>read_outputs\<close>: the receipt of an authorization, with its hash recomputed.\<close>

definition read_outputs :: "wdb \<Rightarrow> action_request \<Rightarrow> record_ref \<Rightarrow> record_ref list res" where
  "read_outputs s a decision_ref =
     (case tbl_lookup oc_action_id (wd_closures s) (ar_action_id a) of
        None \<Rightarrow> Inl (ValueError ''OUTPUT_BINDING_MISMATCH: authorization closure missing'')
      | Some row \<Rightarrow>
          if oc_decision_ref row \<noteq> decision_ref
          then Inl (ValueError ''OUTPUT_BINDING_MISMATCH: authorization closure missing'')
          else
            bindR (record_reference (ActionRequest a)) (\<lambda>request_ref.
            bindR (content_hash Map.empty (receipt_value request_ref decision_ref (oc_output_refs row))) (\<lambda>digest.
              if oc_content_hash row \<noteq> digest
              then Inl (ValueError ''OUTPUT_BINDING_MISMATCH: authorization closure hash'')
              else Inr (oc_output_refs row))))"

section \<open>Owners of results\<close>

definition validate_result_owner :: "string \<Rightarrow> contract_record \<Rightarrow> requester_role \<Rightarrow> unit res" where
  "validate_result_owner kind r role =
     seqR
       [raise_if (map_of RESULT_OWNERS kind \<noteq> Some role) (ValueError ''RESULT_OWNER_MISMATCH''),
        decode_check r,
        raise_if (meta_record_type (record_meta r) \<noteq> kind) (ValueError ''RECORD_KIND_MISMATCH'')]"

definition finding_error :: py_error where
  "finding_error = ValueError ''FINDING_NORMALIZER_AUTHORITY_REQUIRED''"

text \<open>
  The owner of a finding: the finding service, under the active assignment of the hypothesis and by the
  owner of that assignment.  \<open>exact\<close> and \<open>same_scope\<close> are those of \<open>contracts/_domain.py\<close>.
\<close>

definition validate_finding_owner ::
  "string \<Rightarrow> contract_record \<Rightarrow> action_request \<Rightarrow> stored_ref option \<Rightarrow> stored_ref \<Rightarrow> assignment \<Rightarrow> unit res" where
  "validate_finding_owner kind r a service assignment_ref x =
     seqR
       [validate_result_owner kind r (ar_requested_by a),
        raise_if (service = None \<or> Some (ar_requester_identity_ref a) \<noteq> map_option StoredDataRef service
                  \<or> as_status x \<noteq> ASG_ACTIVE) finding_error,
        exact_record (StoredDataRef assignment_ref) (VerificationAssignment x) (record_meta r),
        raise_if (\<not> same_subject (record_meta r) (as_meta x)) (ValueError ''RECORD_SCOPE_MISMATCH'')]"

definition check_result_owner ::
  "authority \<Rightarrow> sdb \<Rightarrow> string \<Rightarrow> contract_record \<Rightarrow> action_request \<Rightarrow> work option \<Rightarrow> unit res" where
  "check_result_owner au d kind r a work =
     (case (kind = ''finding'', work) of
        (True, Some w) \<Rightarrow>
          bindR (current_process d w) (\<lambda>p.
            case hs_verification_assignment_ref p of
              None \<Rightarrow> Inl finding_error
            | Some ref \<Rightarrow>
                bindR (resolve False d (StoredDataRef ref)) (\<lambda>x.
                  case (ar_requester_identity_ref a, x) of
                    (StoredDataRef _, VerificationAssignment y) \<Rightarrow>
                      validate_finding_owner kind r a (au_finding_service au) ref y
                  | _ \<Rightarrow> Inl finding_error))
      | _ \<Rightarrow> validate_result_owner kind r (ar_requested_by a))"

section \<open>Intermediate records\<close>

definition INTERMEDIATE_KINDS :: "(work_type \<times> string \<times> requester_role) list" where
  "INTERMEDIATE_KINDS =
     [(WT_WORKSPACE_PREP, ''code_workspace'', RQ_REPOSITORY_LOADER),
      (WT_POLICY_FETCH, ''policy_parser_result'', RQ_POLICY_PARSER),
      (WT_VERIFICATION, ''verification_initial_assessment'', RQ_VERIFICATION),
      (WT_VERIFICATION, ''dynamic_reproduction_request'', RQ_VERIFICATION),
      (WT_DYNAMIC_REPRO, ''environment_requirements'', RQ_DYNAMIC_REPRODUCTION),
      (WT_DYNAMIC_REPRO, ''reproduction_plan'', RQ_DYNAMIC_REPRODUCTION),
      (WT_DYNAMIC_REPRO, ''environment_recipe'', RQ_REPRODUCTION_SETUP_AUTOMATION),
      (WT_DYNAMIC_REPRO, ''sandbox_environment'', RQ_REPRODUCTION_SETUP_AUTOMATION),
      (WT_DYNAMIC_REPRO, ''cleanup_result'', RQ_REPRODUCTION_SETUP_AUTOMATION),
      (WT_DYNAMIC_REPRO, ''sandbox_policy_decision'', RQ_SANDBOX_CONTROLLER),
      (WT_DYNAMIC_REPRO, ''sandbox_command_record'', RQ_REPRODUCTION_SESSION_MANAGER),
      (WT_DYNAMIC_REPRO, ''poc_candidate'', RQ_DYNAMIC_REPRODUCTION),
      (WT_DYNAMIC_REPRO, ''dynamic_reproduction_conclusion'', RQ_DYNAMIC_REPRODUCTION),
      (WT_DYNAMIC_REPRO, ''agent_log'', RQ_REPRODUCTION_SESSION_MANAGER),
      (WT_DYNAMIC_REPRO, ''poc_bundle'', RQ_REPRODUCTION_SESSION_MANAGER),
      (WT_DYNAMIC_REPRO, ''dynamic_reproduction_tool_request'', RQ_DYNAMIC_REPRODUCTION)]"

definition intermediate_allowed :: "work \<Rightarrow> string \<Rightarrow> action_request \<Rightarrow> bool" where
  "intermediate_allowed w kind a \<longleftrightarrow> (wk_work_type w, kind, ar_requested_by a) \<in> set INTERMEDIATE_KINDS"

definition preparing_workspace :: "contract_record \<Rightarrow> work \<Rightarrow> unit res" where
  "preparing_workspace r w =
     (case r of
        CodeWorkspace x \<Rightarrow>
          raise_if (wk_work_type w \<noteq> WT_WORKSPACE_PREP \<or> ws_status x \<noteq> WS_PREPARING \<or> ws_commit_id x \<noteq> None
                    \<or> meta_revision (ws_meta x) \<noteq> 1 \<or> Some (ws_analysis_id x) \<noteq> meta_analysis (wk_meta w))
            (ValueError ''WORKSPACE_LIFECYCLE_INVALID'')
      | _ \<Rightarrow> Inr ())"

definition current_assessment :: "contract_record \<Rightarrow> work \<Rightarrow> unit res" where
  "current_assessment r w =
     (if \<not> is_kind r ''verification_initial_assessment'' then Inr ()
      else
        seq2 (decode_check r)
          (raise_if (field_text (record_field r ''verification_work_id'') \<noteq> Some (wk_work_id w)
                     \<or> record_field r ''verification_generation'' \<noteq> Some (v_nat (wk_work_generation w)))
             (ValueError ''STALE_RESULT: initial assessment work/generation'')))"

definition validate_intermediate_owner :: "contract_record \<Rightarrow> action_request \<Rightarrow> work \<Rightarrow> unit res" where
  "validate_intermediate_owner r a w =
     (let kind = meta_record_type (record_meta r) in
      seqR
        [raise_if (\<not> intermediate_allowed w kind a) (ValueError ''INTERMEDIATE_PUBLICATION_DENIED''),
         preparing_workspace r w, current_assessment r w,
         validate_result_owner kind r (ar_requested_by a)])"

text \<open>
  The action under which a used decision published the record, when its receipt covers the record and
  the decision that was issued is the one that was used.
\<close>

definition issued_covers :: "wdb \<Rightarrow> record_ref \<Rightarrow> action_decision \<Rightarrow> action_request \<Rightarrow> bool res" where
  "issued_covers s ref taken a =
     (case tbl_lookup rq_action_id (wd_actions s) (ar_action_id a) of
        None \<Rightarrow> Inr False
      | Some row \<Rightarrow>
          bindR (resolve False (wd_store s) (rq_decision_ref row)) (\<lambda>r.
            case r of
              ActionDecision issued \<Rightarrow>
                if ad_decision issued \<noteq> ALLOW \<or> ad_use_status issued \<noteq> UNUSED
                   \<or> ad_action_ref issued \<noteq> ad_action_ref taken
                   \<or> ad_decision_id issued \<noteq> ad_decision_id taken
                   \<or> rm_logical_record_id (revision_of (ad_meta issued))
                       \<noteq> rm_logical_record_id (revision_of (ad_meta taken))
                then Inr False
                else bindR (read_outputs s a (rq_decision_ref row)) (\<lambda>outputs. Inr (ref \<in> set outputs))
            | _ \<Rightarrow> Inr False))"

definition covering_action :: "wdb \<Rightarrow> record_ref \<Rightarrow> work \<Rightarrow> action_decision \<Rightarrow> action_request option res" where
  "covering_action s ref w taken =
     (if ad_decision taken \<noteq> ALLOW \<or> ad_use_status taken \<noteq> USED \<or> ref \<notin> set (ad_outcome_refs taken)
      then Inr None
      else
        bindR (resolve False (wd_store s) (ad_action_ref taken)) (\<lambda>r.
          case r of
            ActionRequest a \<Rightarrow>
              bindR (record_reference (WorkExecutionState w)) (\<lambda>work_ref.
                if ar_action_type a \<noteq> SAVE_RESULT \<or> ar_work_ref a \<noteq> Some work_ref
                   \<or> meta_attempt (ar_meta a) \<noteq> wk_active_attempt_id w
                   \<or> \<not> intermediate_allowed w (ref_data_kind ref) a
                then Inr None
                else bindR (issued_covers s ref taken a) (\<lambda>ok. Inr (if ok then Some a else None)))
          | _ \<Rightarrow> Inr None))"

fun covering_receipt :: "wdb \<Rightarrow> record_ref \<Rightarrow> work \<Rightarrow> action_decision list \<Rightarrow> action_request res" where
  "covering_receipt s ref w [] =
     Inl (ValueError ''INTERMEDIATE_RECEIPT_REQUIRED: exact owner decision/outcome'')"
| "covering_receipt s ref w (taken # rest) =
     bindR (covering_action s ref w taken) (\<lambda>found.
       case found of Some a \<Rightarrow> Inr a | None \<Rightarrow> covering_receipt s ref w rest)"

definition attempt_scope :: "contract_record \<Rightarrow> work \<Rightarrow> bool" where
  "attempt_scope r w \<longleftrightarrow>
     wk_status w = W_RUNNING \<and> wk_active_attempt_id w \<noteq> None
     \<and> ((case r of CodeWorkspace x \<Rightarrow> wk_work_type w = WT_WORKSPACE_PREP \<and> ws_status x = WS_PREPARING
          | _ \<Rightarrow> False)
        \<or> meta_attempt (record_meta r) = wk_active_attempt_id w)
     \<and> same_subject (record_meta r) (wk_meta w)"

text \<open>\<open>prepublished_output\<close>: an unpublished record is not; a published one must have its receipt.\<close>

definition prepublished_output :: "wdb \<Rightarrow> record_ref \<Rightarrow> work \<Rightarrow> bool res" where
  "prepublished_output s ref w =
     (case resolve False (wd_store s) ref of
        Inl (LookupError _) \<Rightarrow> Inr False
      | Inl e \<Rightarrow> Inl e
      | Inr r \<Rightarrow>
          if \<not> attempt_scope r w then Inl (ValueError ''INTERMEDIATE_RECEIPT_REQUIRED: work/attempt scope'')
          else if \<not> is_current (wd_store s) r ref
          then Inl (ValueError ''STALE_RESULT: prepublished intermediate is not current'')
          else
            bindR (covering_receipt s ref w (map dr_payload (wd_decisions s))) (\<lambda>a.
            bindR (validate_intermediate_owner r a w) (\<lambda>_. Inr True)))"

section \<open>The outputs of a candidate\<close>

definition work_behind :: "sdb \<Rightarrow> action_request \<Rightarrow> work option res" where
  "work_behind d a =
     (case ar_work_ref a of
        None \<Rightarrow> Inr None
      | Some ref \<Rightarrow>
          bindR (resolve False d ref) (\<lambda>r. Inr (case r of WorkExecutionState w \<Rightarrow> Some w | _ \<Rightarrow> None)))"

definition check_context :: "wdb \<Rightarrow> contract_record \<Rightarrow> work option \<Rightarrow> unit res" where
  "check_context s r work =
     (if \<not> is_kind r ''code_context_response'' then Inr ()
      else case work of
          None \<Rightarrow> Inl (ValueError ''CONTEXT_RESPONSE_SCOPE_MISMATCH'')
        | Some w \<Rightarrow> check_context_response s w r)"

definition derived_output :: "authority \<Rightarrow> wdb \<Rightarrow> action_request \<Rightarrow> record_ref \<Rightarrow> unit res" where
  "derived_output au s a ref =
     bindR (resolve True (wd_store s) ref) (\<lambda>r.
     bindR (work_behind (wd_store s) a) (\<lambda>work.
     bindR (check_context s r work) (\<lambda>_.
     bindR (case work of Some w \<Rightarrow> prepublished_output s ref w | None \<Rightarrow> Inr False) (\<lambda>before.
       if before then Inr ()
       else case work of
           Some w \<Rightarrow>
             if ref_data_kind ref = ''verification_initial_assessment'' then validate_intermediate_owner r a w
             else check_result_owner au (wd_store s) (ref_data_kind ref) r a work
         | None \<Rightarrow> check_result_owner au (wd_store s) (ref_data_kind ref) r a None))))"

definition derive_outputs :: "authority \<Rightarrow> wdb \<Rightarrow> action_request \<Rightarrow> record_ref list res" where
  "derive_outputs au s a =
     (case ar_candidate_result_ref a of
        None \<Rightarrow> Inr []
      | Some primary \<Rightarrow>
          let outputs = (case au_authorized_outputs au a of None \<Rightarrow> [primary] | Some outputs \<Rightarrow> outputs) in
          if primary \<notin> set outputs \<or> \<not> distinct outputs then Inl (ValueError ''OUTPUT_BINDING_MISMATCH'')
          else bindR (seqR (map (derived_output au s a) outputs)) (\<lambda>_. Inr outputs))"

end
