(* ===== verification/Action_Validator.thy ===== *)
theory Action_Validator
  imports Intermediate_Policy
begin

text \<open>
  \<open>storage/authorization.py\<close>, \<open>storage/action_validator.py\<close> and \<open>storage/dispatches.py\<close>: the
  decision on an action with its checks, the single use of a decision, and the boundary to side effects.
\<close>

section \<open>The decision\<close>

definition CHECK_ORDER :: "check_type list" where
  "CHECK_ORDER =
     [CHK_AUTHORITY, CHK_BUDGET, CHK_FILE_PATH, CHK_GATE_ORDER, CHK_IDENTITY, CHK_PROVIDER, CHK_REDACTION,
      CHK_REPORT_READY, CHK_REVISION, CHK_SCHEMA, CHK_SESSION, CHK_STATE, CHK_TOOL]"

text \<open>\<open>sorted(REQUIRED_CHECKS[action_type], key=lambda value: value.value)\<close>.\<close>

definition sorted_checks :: "action_type \<Rightarrow> check_type list" where
  "sorted_checks t = filter (\<lambda>k. k \<in> REQUIRED_CHECKS t) CHECK_ORDER"

lemma CHECK_ORDER_mem: "k \<in> set CHECK_ORDER"
  by (cases k) (simp_all add: CHECK_ORDER_def)

lemma CHECK_ORDER_distinct: "distinct CHECK_ORDER"
  by (simp add: CHECK_ORDER_def)

lemma sorted_checks_set [simp]: "set (sorted_checks t) = REQUIRED_CHECKS t"
  unfolding sorted_checks_def set_filter using CHECK_ORDER_mem by blast

lemma sorted_checks_distinct [simp]: "distinct (sorted_checks t)"
  unfolding sorted_checks_def by (rule distinct_filter [OF CHECK_ORDER_distinct])

text \<open>
  What the checks leave behind, also when one of them raises half-way: the configurations they relied
  on and the outputs they derived.
\<close>

record trail =
  tl_config_refs :: "record_ref list"
  tl_outputs :: "record_ref list"

definition liftE :: "'a res \<Rightarrow> (trail, 'a) eff" where
  "liftE r = (\<lambda>t. (r, t))"

definition relied_on :: "record_ref list \<Rightarrow> (trail, unit) eff" where
  "relied_on refs = (\<lambda>t. (Inr (), t\<lparr>tl_config_refs := tl_config_refs t @ refs\<rparr>))"

fun forE :: "('a \<Rightarrow> (trail, unit) eff) \<Rightarrow> 'a list \<Rightarrow> (trail, unit) eff" where
  "forE f [] = retE ()"
| "forE f (x # xs) = bindE (f x) (\<lambda>_. forE f xs)"

definition run_finalization :: "action_request \<Rightarrow> bool" where
  "run_finalization a \<longleftrightarrow>
     ar_action_type a = SAVE_RESULT \<and> ar_result_kind a = Some ''analysis_run_result''
     \<and> ar_work_ref a = None \<and> is_run_meta (ar_meta a)"

definition input_check :: "authority \<Rightarrow> wdb \<Rightarrow> action_request \<Rightarrow> work \<Rightarrow> record_ref \<Rightarrow> (trail, unit) eff" where
  "input_check au s a w ref =
     (case ref of
        HostConfigurationRef r \<Rightarrow>
          bindE (liftE (require_current_capability_ref au r)) (\<lambda>_. relied_on [ref])
      | _ \<Rightarrow> liftE (check_current_input (wd_store s) ref False (allowed_workspace_status a w)))"

definition state_version_check :: "wdb \<Rightarrow> action_request \<Rightarrow> work \<Rightarrow> unit res" where
  "state_version_check s a w =
     (if ar_work_ref a \<noteq> None then
        bindR (record_reference (WorkExecutionState w)) (\<lambda>ref.
          raise_if (map_option wr_payload (tbl_lookup wr_work_id (wd_works s) (wk_work_id w)) \<noteq> Some w
                    \<or> ar_work_ref a \<noteq> Some ref \<or> ar_expected_state_version a \<noteq> Some (wk_state_version w))
            (ValueError ''STATE_VERSION_CONFLICT''))
      else
        raise_if (ar_action_type a \<noteq> REGISTER_WORK \<or> wk_status w \<noteq> W_PENDING)
          (ValueError ''STATE_VERSION_CONFLICT''))"

definition state_check :: "authority \<Rightarrow> wdb \<Rightarrow> action_request \<Rightarrow> work option \<Rightarrow> (trail, unit) eff" where
  "state_check au s a work =
     (if run_finalization a then
        liftE (bindR (get_run (wd_store s) (id_text (meta_analysis (ar_meta a)))) (\<lambda>run.
          raise_if (rs_status run \<noteq> RUN_RUNNING) (ValueError ''ANALYSIS_ALREADY_TERMINAL'')))
      else case work of
        None \<Rightarrow> raiseE (ValueError ''IDENTITY_MISMATCH'')
      | Some w \<Rightarrow>
          if meta_analysis (ar_meta a) \<noteq> meta_analysis (wk_meta w)
          then raiseE (ValueError ''IDENTITY_MISMATCH'')
          else
            bindE (liftE (check_owner (wd_store s) a w)) (\<lambda>_.
            bindE (liftE (check_stage au s a w)) (\<lambda>_.
            bindE (if ar_action_type a \<noteq> RUN_SANDBOX then retE ()
                   else case (ar_sandbox_profile_ref a, ar_resource_profile_ref a) of
                       (Some p, Some r) \<Rightarrow> relied_on [p, StoredDataRef r]
                     | _ \<Rightarrow> raiseE (AssertionError [])) (\<lambda>_.
            bindE (liftE (state_version_check s a w)) (\<lambda>_.
              forE (input_check au s a w) (wk_input_refs w @ ar_input_refs a))))))"

definition budget_check ::
  "authority \<Rightarrow> wdb \<Rightarrow> action_request \<Rightarrow> work option \<Rightarrow> record_ref option \<Rightarrow> (trail, unit) eff" where
  "budget_check au s a work reservation =
     (case work of
        None \<Rightarrow> raiseE (ValueError ''BUDGET_UNAVAILABLE'')
      | Some w \<Rightarrow>
          bindE (liftE (check_reservation (au_evidence au) (wd_store s) reservation a w False)) (\<lambda>r.
          bindE (relied_on [br_budget_binding_ref r]) (\<lambda>_.
          bindE (liftE (resolve False (wd_store s) (br_budget_binding_ref r))) (\<lambda>scope.
            case scope of
              BudgetProfileBinding b \<Rightarrow>
                relied_on (map StoredDataRef [bb_work_budget_profile_ref b,
                  bb_verification_budget_profile_ref b, bb_dynamic_lifecycle_profile_ref b])
            | _ \<Rightarrow> retE ()))))"

definition evidence_check :: "authority \<Rightarrow> wdb \<Rightarrow> action_request \<Rightarrow> check_type \<Rightarrow> (trail, unit) eff" where
  "evidence_check au s a kind =
     (case au_action_evidence au a kind of
        None \<Rightarrow> raiseE (ValueError (check_type_text kind @ ''_UNPROVEN''))
      | Some refs \<Rightarrow>
          bindE (liftE (mapR (resolve False (wd_store s)) refs)) (\<lambda>_. relied_on refs))"

definition run_check ::
  "authority \<Rightarrow> wdb \<Rightarrow> action_request \<Rightarrow> work option \<Rightarrow> record_ref option \<Rightarrow> check_type \<Rightarrow> (trail, unit) eff"
  where
  "run_check au s a work reservation kind =
     (if wd_recovery_failed s then raiseE (ValueError ''RECOVERY_FAILED'')
      else case kind of
        CHK_AUTHORITY \<Rightarrow> liftE (check_role a (au_identity_role au (ar_requester_identity_ref a)))
      | CHK_IDENTITY \<Rightarrow> state_check au s a work
      | CHK_STATE \<Rightarrow> state_check au s a work
      | CHK_REVISION \<Rightarrow> state_check au s a work
      | CHK_BUDGET \<Rightarrow> budget_check au s a work reservation
      | CHK_SCHEMA \<Rightarrow>
          bindE (liftE (derive_outputs au s a)) (\<lambda>outputs t. (Inr (), t\<lparr>tl_outputs := outputs\<rparr>))
      | _ \<Rightarrow> evidence_check au s a kind)"

text \<open>\<open>except (ValueError, LookupError) as error\<close>, and \<open>str(error)\<close>.\<close>

fun caught_text :: "py_error \<Rightarrow> string option" where
  "caught_text (ValueError m) = Some m"
| "caught_text (LookupError m) = Some m"
| "caught_text _ = None"

definition passed_check :: "check_type \<Rightarrow> action_check" where
  "passed_check kind = \<lparr>ac_check_type = kind, ac_result = PASS, ac_reason_code = ''OK'',
     ac_safe_message = ''Trusted runtime check passed.''\<rparr>"

definition failed_check :: "check_type \<Rightarrow> string \<Rightarrow> action_check" where
  "failed_check kind reason = \<lparr>ac_check_type = kind, ac_result = FAIL, ac_reason_code = reason,
     ac_safe_message = ''Trusted runtime check failed.''\<rparr>"

fun run_checks ::
  "authority \<Rightarrow> wdb \<Rightarrow> action_request \<Rightarrow> work option \<Rightarrow> record_ref option \<Rightarrow> check_type list
     \<Rightarrow> (trail, action_check list) eff" where
  "run_checks au s a work reservation [] = retE []"
| "run_checks au s a work reservation (kind # kinds) =
     bindE (tryE (bindE (run_check au s a work reservation kind) (\<lambda>_. retE (passed_check kind)))
              (\<lambda>e. map_option (\<lambda>m. bindE (liftE (check_fields (action_check_ok (failed_check kind m)))) (\<lambda>_. retE (failed_check kind m)))
                     (caught_text e))) (\<lambda>check.
     bindE (run_checks au s a work reservation kinds) (\<lambda>checks. retE (check # checks)))"

definition denied :: "action_check list \<Rightarrow> bool" where
  "denied checks \<longleftrightarrow> (\<exists>c \<in> set checks. ac_result c = FAIL)"

text \<open>The decision itself; times and identifiers are drawn in the order of its fields.\<close>

definition issue_decision ::
  "host \<Rightarrow> action_request \<Rightarrow> work option \<Rightarrow> record_ref \<Rightarrow> trail \<Rightarrow> action_check list \<Rightarrow> action_decision wtx"
  where
  "issue_decision h a work request_ref t checks =
     bindT (newT h) (\<lambda>record_id.
     bindT (nowT h) (\<lambda>created.
     bindT (newT h) (\<lambda>decision_id.
     bindT (if denied checks then retT None else bindT (nowT h) (\<lambda>now. retT (Some (now + 60000000)))) (\<lambda>valid.
     bindT (if denied checks then bindT (newT h) (\<lambda>e. retT [e]) else retT []) (\<lambda>errors.
     bindT (nowT h) (\<lambda>decided.
       let d = \<lparr>ad_meta = with_revision ((revision_of (ar_meta a))\<lparr>rm_record_id := record_id,
                   rm_logical_record_id := record_id, rm_record_type := ''action_decision'',
                   rm_revision_number := 1, rm_previous_record_id := None, rm_created_at := created\<rparr>)
                   (ar_meta a),
                ad_decision_id = decision_id, ad_action_ref = request_ref,
                ad_decision = (if denied checks then DENY else ALLOW),
                ad_required_checks = map ac_check_type checks, ad_check_results = checks,
                ad_checked_state_version = map_option wk_state_version work,
                ad_checked_config_refs = fromkeys (tl_config_refs t), ad_valid_until = valid,
                ad_error_ids = errors, ad_use_status = (if denied checks then NOT_USED else UNUSED),
                ad_used_at = None, ad_expired_at = None, ad_expire_reason = None, ad_outcome_refs = [],
                ad_decided_at = decided\<rparr>
       in bindT (checkT (validate_decision d)) (\<lambda>_. retT d)))))))"

definition record_decision ::
  "action_request \<Rightarrow> record_ref \<Rightarrow> record_ref \<Rightarrow> trail \<Rightarrow> action_check list \<Rightarrow> unit wtx" where
  "record_decision a request_ref decision_ref t checks =
     bindT (insertT wd_actions (\<lambda>f s. s\<lparr>wd_actions := f (wd_actions s)\<rparr>) rq_action_id
              ''UNIQUE constraint failed: action_requests.action_id''
              \<lparr>rq_action_id = ar_action_id a, rq_request_ref = request_ref, rq_decision_ref = decision_ref\<rparr>) (\<lambda>_.
     bindT (checkT (content_hash Map.empty (receipt_value request_ref decision_ref (tl_outputs t)))) (\<lambda>digest.
     bindT (insertT wd_closures (\<lambda>f s. s\<lparr>wd_closures := f (wd_closures s)\<rparr>) oc_action_id
              ''UNIQUE constraint failed: action_output_closures.action_id''
              \<lparr>oc_action_id = ar_action_id a, oc_decision_ref = decision_ref,
               oc_output_refs = tl_outputs t, oc_content_hash = digest\<rparr>) (\<lambda>_.
       forT (\<lambda>c. insertT wd_checks (\<lambda>f s. s\<lparr>wd_checks := f (wd_checks s)\<rparr>)
                    (\<lambda>row. (kr_action_id row, kr_check_type row))
                    ''UNIQUE constraint failed: action_checks.action_id, action_checks.check_type''
                    \<lparr>kr_action_id = ar_action_id a, kr_check_type = ac_check_type c, kr_payload = c\<rparr>)
         checks)))"

definition work_of_action :: "action_request \<Rightarrow> work option \<Rightarrow> sdb \<Rightarrow> work option res" where
  "work_of_action a work d =
     (case (work, ar_work_ref a) of
        (None, Some ref) \<Rightarrow>
          bindR (resolve False d ref) (\<lambda>r. Inr (case r of WorkExecutionState w \<Rightarrow> Some w | _ \<Rightarrow> None))
      | _ \<Rightarrow> Inr work)"

definition authorize ::
  "authority \<Rightarrow> host \<Rightarrow> action_request \<Rightarrow> work option \<Rightarrow> record_ref option \<Rightarrow> action_decision wtx" where
  "authorize au h a given reservation =
     bindT (checkT (validate_action a)) (\<lambda>_.
     bindT (askT Inr) (\<lambda>s.
       case tbl_lookup rq_action_id (wd_actions s) (ar_action_id a) of
         Some row \<Rightarrow>
           bindT (checkT (record_reference (ActionRequest a))) (\<lambda>ref.
           bindT (checkT (raise_if (rq_request_ref row \<noteq> ref) (ValueError ''ACTION_IMMUTABLE''))) (\<lambda>_.
           bindT (readT (\<lambda>d. resolve False d (rq_decision_ref row))) (\<lambda>old.
             case old of ActionDecision d \<Rightarrow> retT d | _ \<Rightarrow> checkT (Inl (AssertionError [])))))
       | None \<Rightarrow>
           bindT (keepT (ActionRequest a)) (\<lambda>request_ref.
           bindT (readT (work_of_action a given)) (\<lambda>work.
           bindT (askT Inr) (\<lambda>s.
             case run_checks au s a work reservation (sorted_checks (ar_action_type a))
                    \<lparr>tl_config_refs = [], tl_outputs = []\<rparr> of
               (Inl e, _) \<Rightarrow> checkT (Inl e)
             | (Inr checks, t) \<Rightarrow>
                 bindT (issue_decision h a work request_ref t checks) (\<lambda>d.
                 bindT (keepT (ActionDecision d)) (\<lambda>decision_ref.
                 bindT (record_decision a request_ref decision_ref t checks) (\<lambda>_. retT d))))))))"

section \<open>Using a decision\<close>

definition decision_and_action :: "sdb \<Rightarrow> record_ref \<Rightarrow> action_type \<Rightarrow> (action_decision \<times> action_request) res" where
  "decision_and_action d decision_ref kind =
     bindR (resolve False d decision_ref) (\<lambda>r.
       case r of
         ActionDecision decision \<Rightarrow>
           bindR (resolve False d (ad_action_ref decision)) (\<lambda>q.
             case q of
               ActionRequest a \<Rightarrow>
                 if ar_action_type a \<noteq> kind then Inl (ValueError ''ACTION_TYPE_MISMATCH'')
                 else Inr (decision, a)
             | _ \<Rightarrow> Inl (ValueError ''ACTION_TYPE_MISMATCH''))
       | _ \<Rightarrow> Inl (ValueError ''ACTION_INVALID''))"

definition issued_check :: "wdb \<Rightarrow> action_decision \<Rightarrow> action_request \<Rightarrow> record_ref \<Rightarrow> unit res" where
  "issued_check s decision a decision_ref =
     seqR
       [raise_if (map_option rq_decision_ref (tbl_lookup rq_action_id (wd_actions s) (ar_action_id a))
                    \<noteq> Some decision_ref)
          (ValueError ''AUTHORITY_DENIED: decision was not issued by validator''),
        validate_decision_for_action decision (ar_action_type a),
        raise_if (ad_decision decision \<noteq> ALLOW \<or> ad_use_status decision \<noteq> UNUSED
                  \<or> ad_valid_until decision = None)
          (ValueError ''ACTION_EXPIRED_OR_DENIED'')]"

definition valid_at :: "action_decision \<Rightarrow> int \<Rightarrow> bool" where
  "valid_at decision now \<longleftrightarrow>
     ad_decided_at decision \<le> now
     \<and> (case ad_valid_until decision of None \<Rightarrow> False | Some v \<Rightarrow> now \<le> v)"

definition input_admitted :: "authority \<Rightarrow> sdb \<Rightarrow> action_decision \<Rightarrow> action_request \<Rightarrow> work \<Rightarrow> record_ref \<Rightarrow> unit res" where
  "input_admitted au d decision a w ref =
     (case ref of
        HostConfigurationRef r \<Rightarrow>
          seq2 (require_current_capability_ref au r)
            (raise_if (ref \<notin> set (ad_checked_config_refs decision))
               (ValueError ''CAPABILITY_PROFILE_NOT_AUTHORIZED''))
      | _ \<Rightarrow> check_current_input d ref False (allowed_workspace_status a w))"

text \<open>An input without a stored record has to be an artifact of the run or of the code.\<close>

definition input_scope :: "sdb \<Rightarrow> work \<Rightarrow> record_ref \<Rightarrow> unit res" where
  "input_scope d w ref =
     (case resolve False d ref of
        Inr r \<Rightarrow>
          raise_if (meta_analysis (record_meta r) \<noteq> None
                    \<and> meta_analysis (record_meta r) \<noteq> meta_analysis (wk_meta w))
            (ValueError ''ACTION_INPUT_SCOPE_MISMATCH'')
      | Inl (LookupError m) \<Rightarrow>
          (case ref of
             RunStoredDataRef r \<Rightarrow>
               if rr_record r \<noteq> None then Inl (LookupError m)
               else raise_if (rr_kind r \<noteq> ''artifact'' \<or> Some (rr_analysis r) \<noteq> meta_analysis (wk_meta w)
                              \<or> rr_id r \<noteq> rr_hash r)
                      (ValueError ''ACTION_RUN_ARTIFACT_INVALID'')
           | StoredDataRef r \<Rightarrow> raise_if (sr_record r \<noteq> None) (LookupError m)
           | _ \<Rightarrow> Inl (LookupError m))
      | Inl e \<Rightarrow> Inl e)"

definition use_input :: "authority \<Rightarrow> sdb \<Rightarrow> action_decision \<Rightarrow> action_request \<Rightarrow> work \<Rightarrow> record_ref \<Rightarrow> unit res" where
  "use_input au d decision a w ref =
     seq2 (input_admitted au d decision a w ref)
       (case ref of HostConfigurationRef _ \<Rightarrow> Inr () | _ \<Rightarrow> input_scope d w ref)"

definition use_scope :: "wdb \<Rightarrow> action_decision \<Rightarrow> action_request \<Rightarrow> work \<Rightarrow> unit res" where
  "use_scope s decision a w =
     bindR (raise_if (tbl_lookup dr_action_id (wd_decisions s) (ar_action_id a) \<noteq> None)
              (ValueError ''ACTION_ALREADY_USED'')) (\<lambda>_.
     bindR (raise_if (meta_analysis (ad_meta decision) \<noteq> meta_analysis (wk_meta w)
                      \<or> meta_analysis (ar_meta a) \<noteq> meta_analysis (wk_meta w))
              (ValueError ''ACTION_ANALYSIS_MISMATCH'')) (\<lambda>_.
     if ar_work_ref a = None then Inr ()
     else
       bindR (record_reference (WorkExecutionState w)) (\<lambda>ref.
         raise_if (ar_work_ref a \<noteq> Some ref \<or> ar_expected_state_version a \<noteq> Some (wk_state_version w)
                   \<or> ad_checked_state_version decision \<noteq> Some (wk_state_version w))
           (ValueError ''STATE_VERSION_CONFLICT''))))"

definition use_budget ::
  "authority \<Rightarrow> sdb \<Rightarrow> action_decision \<Rightarrow> action_request \<Rightarrow> work \<Rightarrow> record_ref option \<Rightarrow> unit res" where
  "use_budget au d decision a w reservation =
     bindR (check_reservation (au_evidence au) d reservation a w False) (\<lambda>r.
     bindR (resolve False d (br_budget_binding_ref r)) (\<lambda>scope.
       case scope of
         BudgetProfileBinding b \<Rightarrow>
           raise_if (\<not> {br_budget_binding_ref r, StoredDataRef (bb_work_budget_profile_ref b)}
                        \<subseteq> set (ad_checked_config_refs decision))
             (ValueError ''BUDGET checked binding/work profile references are required'')
       | _ \<Rightarrow> Inr ()))"

text \<open>\<open>RuntimeValidator.check\<close>.\<close>

definition check_use ::
  "authority \<Rightarrow> host \<Rightarrow> record_ref \<Rightarrow> action_type \<Rightarrow> work \<Rightarrow> record_ref option \<Rightarrow> bool
     \<Rightarrow> (action_decision \<times> action_request) wtx" where
  "check_use au h decision_ref kind w reservation needs_budget =
     bindT (askT (\<lambda>s.
       bindR (raise_if (wd_recovery_failed s) (ValueError ''RECOVERY_FAILED'')) (\<lambda>_.
       bindR (decision_and_action (wd_store s) decision_ref kind) (\<lambda>(decision, a).
       bindR (check_role a (au_identity_role au (ar_requester_identity_ref a))) (\<lambda>_.
       bindR (check_owner (wd_store s) a w) (\<lambda>_.
       bindR (check_stage au s a w) (\<lambda>_.
       bindR (issued_check s decision a decision_ref) (\<lambda>_. Inr (decision, a))))))))) (\<lambda>(decision, a).
     bindT (nowT h) (\<lambda>now.
     bindT (checkT (raise_if (\<not> valid_at decision now) (ValueError ''ACTION_EXPIRED_OR_DENIED''))) (\<lambda>_.
     bindT (askT (\<lambda>s. use_scope s decision a w)) (\<lambda>_.
     bindT (readT (\<lambda>d. seqR (map (use_input au d decision a w) (wk_input_refs w @ ar_input_refs a)))) (\<lambda>_.
     bindT (readT (\<lambda>d. if needs_budget then use_budget au d decision a w reservation else Inr ())) (\<lambda>_.
       retT (decision, a)))))))"

definition claim ::
  "authority \<Rightarrow> host \<Rightarrow> record_ref \<Rightarrow> action_type \<Rightarrow> work \<Rightarrow> record_ref option \<Rightarrow> bool
     \<Rightarrow> action_decision wtx" where
  "claim au h decision_ref kind w reservation needs_budget =
     bindT (check_use au h decision_ref kind w reservation needs_budget) (\<lambda>(decision, a).
     bindT (next_metaT h (ad_meta decision)) (\<lambda>meta.
     bindT (nowT h) (\<lambda>now.
       let taken = decision\<lparr>ad_meta := meta, ad_use_status := USED, ad_used_at := Some now\<rparr> in
     bindT (checkT (validate_decision taken)) (\<lambda>_.
     bindT (keepT (ActionDecision taken)) (\<lambda>_.
     bindT (insertT wd_decisions (\<lambda>f s. s\<lparr>wd_decisions := f (wd_decisions s)\<rparr>) dr_decision_id
              ''UNIQUE constraint failed: action_decisions.decision_id''
              \<lparr>dr_decision_id = ad_decision_id taken, dr_action_id = ar_action_id a, dr_payload = taken\<rparr>) (\<lambda>_.
     bindT (if needs_budget then storeT (claim_reservation (au_evidence au) reservation a w) else retT ()) (\<lambda>_.
       retT taken)))))))"

definition record_outcome :: "host \<Rightarrow> action_decision \<Rightarrow> record_ref list \<Rightarrow> action_decision wtx" where
  "record_outcome h claimed outputs =
     bindT (next_metaT h (ad_meta claimed)) (\<lambda>meta.
       let completed = claimed\<lparr>ad_meta := meta, ad_outcome_refs := ad_outcome_refs claimed @ outputs\<rparr> in
     bindT (checkT (seq2 (validate_decision completed) (validate_decision_revision claimed completed))) (\<lambda>_.
     bindT (keepT (ActionDecision completed)) (\<lambda>_.
     bindT (modifyT (\<lambda>s. s\<lparr>wd_decisions := update_rows (\<lambda>row. dr_decision_id row = ad_decision_id completed)
              (\<lambda>row. row\<lparr>dr_payload := completed\<rparr>) (wd_decisions s)\<rparr>)) (\<lambda>_.
       retT completed))))"

section \<open>Side effects\<close>

text \<open>The time is read only when the decision has a validity.\<close>

definition unexpiredT :: "host \<Rightarrow> action_decision \<Rightarrow> unit wtx" where
  "unexpiredT h decision =
     (case ad_valid_until decision of
        None \<Rightarrow> checkT (Inl (ValueError ''ACTION_EXPIRED_OR_DENIED''))
      | Some v \<Rightarrow>
          bindT (nowT h) (\<lambda>now. checkT (raise_if (v < now) (ValueError ''ACTION_EXPIRED_OR_DENIED''))))"

definition resume_dispatch ::
  "authority \<Rightarrow> host \<Rightarrow> dispatch_row \<Rightarrow> action_decision \<Rightarrow> contract_record \<Rightarrow> work \<Rightarrow> record_ref option
     \<Rightarrow> record_ref wtx" where
  "resume_dispatch au h row decision action w reservation =
     bindT (unexpiredT h decision) (\<lambda>_.
       if di_dispatched_at row = None \<and> di_reservation_ref row = reservation
          \<and> di_attempt_id row = id_text (wk_active_attempt_id w)
       then case action of
           ActionRequest a \<Rightarrow>
             bindT (readT (\<lambda>d. check_reservation (au_evidence au) d reservation a w True)) (\<lambda>_.
               askT (\<lambda>s. case tbl_lookup dr_action_id (wd_decisions s) (ar_action_id a) of
                   None \<Rightarrow> Inl (SqliteError ''No row was found when one was required'')
                 | Some taken \<Rightarrow> record_reference (ActionDecision (dr_payload taken))))
         | _ \<Rightarrow> checkT (Inl (ValueError ''ACTION_INVALID''))
       else checkT (Inl (ValueError ''ACTION_ALREADY_USED'')))"

definition prepare_dispatch ::
  "authority \<Rightarrow> host \<Rightarrow> string \<Rightarrow> record_ref \<Rightarrow> contract_record \<Rightarrow> work \<Rightarrow> record_ref option \<Rightarrow> record_ref wtx"
  where
  "prepare_dispatch au h work_id decision_ref action w reservation =
     (case action of
        ActionRequest a \<Rightarrow>
          if ar_action_type a \<notin> EXTERNAL_ACTIONS then checkT (Inl (ValueError ''ACTION_TYPE_MISMATCH''))
          else
            bindT (claim au h decision_ref (ar_action_type a) w reservation True) (\<lambda>claimed.
            bindT (nowT h) (\<lambda>now.
            bindT (insertT wd_dispatches (\<lambda>f s. s\<lparr>wd_dispatches := f (wd_dispatches s)\<rparr>) di_action_id
                     ''UNIQUE constraint failed: external_dispatches.action_id''
                     \<lparr>di_action_id = ar_action_id a, di_work_id = work_id,
                      di_attempt_id = id_text (wk_active_attempt_id w), di_decision_ref = decision_ref,
                      di_reservation_ref = reservation, di_prepared_at = now, di_dispatched_at = None,
                      di_returned_at = None, di_provider_request_id = None, di_idempotency_key = None,
                      di_reconciled_at = None\<rparr>) (\<lambda>_.
              checkT (record_reference (ActionDecision claimed)))))
      | _ \<Rightarrow> checkT (Inl (ValueError ''ACTION_TYPE_MISMATCH'')))"

definition claim_external ::
  "authority \<Rightarrow> host \<Rightarrow> string \<Rightarrow> record_ref \<Rightarrow> record_ref option \<Rightarrow> record_ref wtx" where
  "claim_external au h work_id decision_ref reservation =
     bindT (askT (\<lambda>s.
       bindR (raise_if (wd_recovery_failed s) (ValueError ''RECOVERY_FAILED'')) (\<lambda>_.
       bindR (get_work s work_id) (\<lambda>w.
       bindR (reject_uncertain work_id s) (\<lambda>_.
       bindR (raise_if (wk_status w \<noteq> W_RUNNING) (ValueError ''ATTEMPT_NOT_ACTIVE'')) (\<lambda>_.
       bindR (resolve False (wd_store s) decision_ref) (\<lambda>r.
         case r of
           ActionDecision decision \<Rightarrow>
             bindR (resolve False (wd_store s) (ad_action_ref decision)) (\<lambda>action.
               Inr (w, decision, action, tbl_lookup di_decision_ref (wd_dispatches s) decision_ref))
         | _ \<Rightarrow> Inl (ValueError ''ACTION_INVALID'')))))))) (\<lambda>(w, decision, action, existing).
       case existing of
         Some row \<Rightarrow> resume_dispatch au h row decision action w reservation
       | None \<Rightarrow> prepare_dispatch au h work_id decision_ref action w reservation)"

text \<open>\<open>mark_dispatched\<close> of \<open>storage/dispatches.py\<close>, on the row the validator has found.\<close>

definition send_dispatch :: "host \<Rightarrow> dispatch_row \<Rightarrow> string option \<Rightarrow> string option \<Rightarrow> unit wtx" where
  "send_dispatch h row provider_request_id idempotency_key =
     bindT (askT (reject_uncertain (di_work_id row))) (\<lambda>_.
     bindT (askT (\<lambda>s. raise_if (running_attempt_of s (di_work_id row) \<noteq> Some (di_attempt_id row))
                        (ValueError ''ATTEMPT_NOT_ACTIVE''))) (\<lambda>_.
     bindT (nowT h) (\<lambda>now.
     bindT (checkT (raise_if (di_dispatched_at row \<noteq> None) (ValueError ''ACTION_ALREADY_USED''))) (\<lambda>_.
       modifyT (\<lambda>s. s\<lparr>wd_dispatches :=
         update_rows (\<lambda>q. di_action_id q = di_action_id row \<and> di_dispatched_at q = None)
           (\<lambda>q. q\<lparr>di_dispatched_at := Some now, di_provider_request_id := provider_request_id,
                    di_idempotency_key := idempotency_key\<rparr>) (wd_dispatches s)\<rparr>)))))"

definition dispatch_row_of :: "record_ref \<Rightarrow> wdb \<Rightarrow> dispatch_row res" where
  "dispatch_row_of decision_ref s =
     (case filter (\<lambda>row. di_decision_ref row = decision_ref) (wd_dispatches s) of
        [row] \<Rightarrow> Inr row
      | _ \<Rightarrow> Inl (SqliteError ''exactly one row was required''))"

definition asserted_action :: "contract_record \<Rightarrow> action_request res" where
  "asserted_action r = (case r of ActionRequest a \<Rightarrow> Inr a | _ \<Rightarrow> Inl (AssertionError []))"

definition expected_decision :: "contract_record \<Rightarrow> action_decision res" where
  "expected_decision r =
     (case r of ActionDecision d \<Rightarrow> Inr d | _ \<Rightarrow> Inl (ValueError ''ACTION_EXPIRED_OR_DENIED''))"

definition dispatch_admitted ::
  "authority \<Rightarrow> dispatch_row \<Rightarrow> action_decision \<Rightarrow> wdb \<Rightarrow> reservation res" where
  "dispatch_admitted au row decision s =
     bindR (resolve False (wd_store s) (ad_action_ref decision)) (\<lambda>q.
     bindR (asserted_action q) (\<lambda>a.
     bindR (get_work s (di_work_id row)) (\<lambda>w.
     bindR (if ar_action_type a = READ_CODE \<and> wk_work_type w = WT_CONTEXT_RETRIEVAL
            then require_context_request s a w else Inr ()) (\<lambda>_.
     bindR (check_role a (au_identity_role au (ar_requester_identity_ref a))) (\<lambda>_.
     bindR (check_owner (wd_store s) a w) (\<lambda>_.
     bindR (check_stage au s a w) (\<lambda>_.
     bindR (seqR (map (input_admitted au (wd_store s) decision a w) (wk_input_refs w @ ar_input_refs a))) (\<lambda>_.
       check_reservation (au_evidence au) (wd_store s) (di_reservation_ref row) a w True))))))))"

definition mark_dispatched ::
  "authority \<Rightarrow> host \<Rightarrow> record_ref \<Rightarrow> string option \<Rightarrow> string option \<Rightarrow> unit wtx" where
  "mark_dispatched au h decision_ref provider_request_id idempotency_key =
     bindT (askT (dispatch_row_of decision_ref)) (\<lambda>row.
     bindT (readT (\<lambda>d. bindR (resolve False d decision_ref) expected_decision)) (\<lambda>decision.
     bindT (unexpiredT h decision) (\<lambda>_.
     bindT (askT (dispatch_admitted au row decision)) (\<lambda>_.
       send_dispatch h row provider_request_id idempotency_key))))"

definition mark_returned :: "host \<Rightarrow> record_ref \<Rightarrow> unit wtx" where
  "mark_returned h decision_ref =
     bindT (nowT h) (\<lambda>now.
     bindT (askT Inr) (\<lambda>s.
       let sent = (\<lambda>q. di_decision_ref q = decision_ref \<and> di_dispatched_at q \<noteq> None \<and> di_returned_at q = None)
       in if length (filter sent (wd_dispatches s)) \<noteq> 1
          then checkT (Inl (ValueError ''EXTERNAL_DISPATCH_MISMATCH''))
          else modifyT (\<lambda>s. s\<lparr>wd_dispatches :=
                 update_rows sent (\<lambda>q. q\<lparr>di_returned_at := Some now\<rparr>) (wd_dispatches s)\<rparr>)))"

definition require_unresolved_dispatch :: "string \<Rightarrow> string \<Rightarrow> record_ref \<Rightarrow> string \<Rightarrow> wdb \<Rightarrow> unit res" where
  "require_unresolved_dispatch work_id attempt_id decision_ref action_id s =
     raise_if
       (case tbl_lookup di_decision_ref (wd_dispatches s) decision_ref of
          None \<Rightarrow> True
        | Some row \<Rightarrow>
            di_work_id row \<noteq> work_id \<or> di_attempt_id row \<noteq> attempt_id \<or> di_action_id row \<noteq> action_id
            \<or> \<not> unresolved row \<or> running_attempt_of s work_id \<noteq> Some attempt_id)
       (ValueError ''EXTERNAL_DISPATCH_MISMATCH'')"

end
