(* ===== verification/Work_Service.thy ===== *)
theory Work_Service
  imports Action_Validator
begin

text \<open>
  \<open>storage/work_service.py\<close>, \<open>storage/attempt_service.py\<close>, \<open>storage/lease_recovery.py\<close> and the
  projections that move with a work (\<open>storage/verification_state.py\<close>, \<open>storage/dynamic_state.py\<close>):
  registration, the compare-and-swap of a work, making it ready and starting an attempt.
\<close>

section \<open>Queries\<close>

definition query_check :: "bool \<Rightarrow> unit res" where
  "query_check ok = raise_if (\<not> ok) (ValueError ''SCHEDULER_QUERY_INVALID'')"

definition works_of :: "wdb \<Rightarrow> string \<Rightarrow> (work_row \<Rightarrow> bool) \<Rightarrow> work list" where
  "works_of s analysis P =
     map wr_payload (sort_key wr_work_id (filter (\<lambda>row. wr_analysis_id row = analysis \<and> P row) (wd_works s)))"

definition ready_work :: "wdb \<Rightarrow> string \<Rightarrow> int \<Rightarrow> work list res" where
  "ready_work s analysis limit =
     bindR (query_check (analysis \<noteq> [] \<and> limit \<ge> 0)) (\<lambda>_.
       Inr (take (nat limit) (works_of s analysis (\<lambda>row. wr_status row = W_READY))))"

definition work_for_run :: "wdb \<Rightarrow> string \<Rightarrow> work list res" where
  "work_for_run s analysis =
     bindR (query_check (analysis \<noteq> [])) (\<lambda>_. Inr (works_of s analysis (\<lambda>_. True)))"

definition attempts_of :: "sdb \<Rightarrow> string \<Rightarrow> attempt list" where
  "attempts_of d work_id =
     sort_key wa_attempt_number (filter (\<lambda>a. wa_work_id a = work_id) (map aw_payload (sd_attempts d)))"

definition attempts_for_work :: "wdb \<Rightarrow> string \<Rightarrow> attempt list res" where
  "attempts_for_work s work_id =
     bindR (query_check (work_id \<noteq> [])) (\<lambda>_. Inr (attempts_of (wd_store s) work_id))"

text \<open>Whether a reservation paid for the registration of the work, and if so its scope.\<close>

definition paid_registration :: "sdb \<Rightarrow> work \<Rightarrow> reservation \<Rightarrow> record_ref list res" where
  "paid_registration d w r =
     bindR (resolve False d (br_work_ref r)) (\<lambda>candidate.
     bindR (resolve False d (br_action_ref r)) (\<lambda>action.
       let direct = (case (candidate, action) of
             (WorkExecutionState c, ActionRequest a) \<Rightarrow>
               wk_work_id c = wk_work_id w \<and> ar_action_type a = REGISTER_WORK
           | _ \<Rightarrow> False);
           handoff = (case (candidate, action) of
             (WorkExecutionState c, ActionRequest a) \<Rightarrow>
               wk_work_type w = WT_DYNAMIC_REPRO \<and> wk_parent_work_ref w = Some (br_work_ref r)
               \<and> ar_action_type a = REQUEST_DYNAMIC_REPRO \<and> ar_work_ref a = Some (br_work_ref r)
               \<and> ar_dynamic_request_ref a \<noteq> None
               \<and> wk_input_refs w = option_refs StoredDataRef (ar_dynamic_request_ref a)
               \<and> bu_work_count (br_requested_units r) = 1
           | _ \<Rightarrow> False)
       in Inr (if direct \<or> handoff then [br_budget_binding_ref r] else [])))"

definition registration_scope :: "wdb \<Rightarrow> string \<Rightarrow> record_ref res" where
  "registration_scope s work_id =
     bindR (get_work s work_id) (\<lambda>w.
     bindR (mapR (\<lambda>row. paid_registration (wd_store s) w (rw_payload row))
              (filter (\<lambda>row. rw_analysis_id row = work_analysis w) (sd_reservations (wd_store s)))) (\<lambda>scopes.
       case concat scopes of
         [scope] \<Rightarrow> Inr scope
       | _ \<Rightarrow> Inl (ValueError ''WORK_REGISTRATION_SCOPE_MISSING'')))"

section \<open>Projections of a work\<close>

definition as_stored :: "record_ref \<Rightarrow> stored_ref res" where
  "as_stored ref = (case ref of StoredDataRef r \<Rightarrow> Inr r | _ \<Rightarrow> Inl field_error)"

definition subject_processes :: "work \<Rightarrow> sdb \<Rightarrow> process list res" where
  "subject_processes w d =
     bindR (mapR (resolve False d) (current_refs d ''hypothesis_process_state'')) (\<lambda>rs.
       Inr (concat (map (\<lambda>r. case r of
              HypothesisProcessState p \<Rightarrow> if same_subject (hs_meta p) (wk_meta w) then [p] else []
            | _ \<Rightarrow> []) rs)))"

text \<open>The process that follows the work, with what \<open>advance_verification_work\<close> refuses.\<close>

definition verifying_process :: "work \<Rightarrow> work \<Rightarrow> sdb \<Rightarrow> process option res" where
  "verifying_process previous w d =
     bindR (subject_processes w d) (\<lambda>ps.
       case ps of
         [] \<Rightarrow> Inr None
       | [p] \<Rightarrow>
           if hs_status p \<noteq> HP_VERIFYING then Inr None
           else
             bindR (record_reference (WorkExecutionState previous)) (\<lambda>ref.
               if map_option StoredDataRef (hs_verification_work_ref p) \<noteq> Some ref
                  \<or> hs_verification_generation p \<noteq> wk_work_generation w
               then Inl (ValueError ''VERIFICATION_PROCESS_CONFLICT'')
               else if wk_status w = W_SUCCEEDED
               then Inl (ValueError ''VERIFICATION_FINAL_RESULT_REQUIRED'')
               else Inr (Some p))
       | _ \<Rightarrow> Inl (ValueError ''VERIFICATION_PROCESS_CONFLICT''))"

definition advance_verification_work :: "host \<Rightarrow> work \<Rightarrow> work \<Rightarrow> unit wtx" where
  "advance_verification_work h previous w =
     (if wk_work_type w \<noteq> WT_VERIFICATION then retT ()
      else
        bindT (readT (verifying_process previous w)) (\<lambda>found.
          case found of
            None \<Rightarrow> retT ()
          | Some p \<Rightarrow>
              bindT (checkT (bindR (record_reference (WorkExecutionState w)) as_stored)) (\<lambda>ref.
              bindT (if wk_status w \<in> {W_FAILED, W_CANCELLED}
                     then bindT (nowT h) (\<lambda>now. retT (p\<lparr>hs_verification_work_ref := Some ref,
                            hs_status := (if wk_status w = W_FAILED then HP_FAILED else HP_CANCELLED),
                            hs_finished_at := Some now\<rparr>))
                     else retT (p\<lparr>hs_verification_work_ref := Some ref\<rparr>)) (\<lambda>changed.
              bindT (next_metaT h (hs_meta p)) (\<lambda>meta.
                let updated = changed\<lparr>hs_meta := meta\<rparr> in
              bindT (checkT (validate_process updated)) (\<lambda>_.
              bindT (keepT (HypothesisProcessState updated)) (\<lambda>_.
                storeT (swap_pointer (hs_meta p) meta ''VERIFICATION_PROCESS_CONFLICT'')))))))) "

definition current_dynamic :: "work \<Rightarrow> sdb \<Rightarrow> dynamic_state res" where
  "current_dynamic w d =
     bindR (mapR (resolve False d) (current_refs d ''dynamic_reproduction_state'')) (\<lambda>rs.
       case concat (map (\<lambda>r. case r of
              DynamicReproductionState x \<Rightarrow> if same_subject (dy_meta x) (wk_meta w) then [x] else []
            | _ \<Rightarrow> []) rs) of
         [x] \<Rightarrow>
           if dy_verification_generation x \<noteq> wk_work_generation w
           then Inl (ValueError ''DYNAMIC_STATE_REQUIRED'') else Inr x
       | _ \<Rightarrow> Inl (ValueError ''DYNAMIC_STATE_REQUIRED''))"

definition recovery_block :: "work \<Rightarrow> dynamic_state \<Rightarrow> bool" where
  "recovery_block w x \<longleftrightarrow>
     wk_status w = W_BLOCKED \<and> dy_status x \<in> {DY_RUNNING, DY_FAILED} \<and> wk_output_refs w = []
     \<and> wk_stop_reason w \<in> {Some ''LEASE_EXPIRED'', Some ''RECOVERY_FAILED'', Some ''WORK_HANDLER_FAILED''}"

definition local_failed_repair :: "work \<Rightarrow> work \<Rightarrow> dynamic_state \<Rightarrow> bool" where
  "local_failed_repair previous w x \<longleftrightarrow>
     wk_status previous = W_FAILED \<and> wk_status w = W_READY \<and> dy_status x = DY_FAILED
     \<and> (case dy_dynamic_result_ref x of
          None \<Rightarrow> False | Some r \<Rightarrow> StoredDataRef r \<in> set (wk_output_refs previous))
     \<and> wk_output_refs w = []"

text \<open>A returned result must have been projected by the owning terminal commit.\<close>

definition projected_result :: "work \<Rightarrow> dynamic_state \<Rightarrow> bool" where
  "projected_result w x \<longleftrightarrow>
     dynamic_status_text (dy_status x) = work_status_text (wk_status w)
     \<and> (case dy_dynamic_result_ref x of
          None \<Rightarrow> False | Some r \<Rightarrow> StoredDataRef r \<in> set (wk_output_refs w))"

definition dynamic_after :: "work \<Rightarrow> work \<Rightarrow> dynamic_state \<Rightarrow> dynamic_state res" where
  "dynamic_after previous w x =
     bindR (record_reference (WorkExecutionState previous)) (\<lambda>before.
       if map_option StoredDataRef (dy_dynamic_work_ref x) \<noteq> Some before
       then Inl (ValueError ''DYNAMIC_STATE_WORK_CONFLICT'')
       else if wk_status w \<notin> {W_READY, W_RUNNING} \<and> \<not> recovery_block w x \<and> \<not> projected_result w x
       then Inl (ValueError ''DYNAMIC_RESULT_PROJECTION_REQUIRED'')
       else
         bindR (bindR (record_reference (WorkExecutionState w)) as_stored) (\<lambda>ref.
           let x = x\<lparr>dy_dynamic_work_ref := Some ref\<rparr>;
               reset = (\<lambda>status. x\<lparr>dy_status := status, dy_dynamic_result_ref := None,
                                    dy_finished_at := None\<rparr>) in
           Inr (if recovery_block w x \<or> local_failed_repair previous w x then reset DY_BLOCKED
                else if wk_status w = W_RUNNING \<and> dy_status x = DY_BLOCKED then reset DY_RUNNING
                else x)))"

definition advance_dynamic_work :: "host \<Rightarrow> work \<Rightarrow> work \<Rightarrow> unit wtx" where
  "advance_dynamic_work h previous w =
     (if wk_work_type w \<noteq> WT_DYNAMIC_REPRO then retT ()
      else
        bindT (readT (current_dynamic w)) (\<lambda>x.
        bindT (checkT (dynamic_after previous w x)) (\<lambda>changed.
        bindT (next_metaT h (dy_meta x)) (\<lambda>meta.
          let updated = changed\<lparr>dy_meta := meta\<rparr> in
        bindT (checkT (validate_dynamic_state updated)) (\<lambda>_.
        bindT (keepT (DynamicReproductionState updated)) (\<lambda>_.
          storeT (swap_pointer (dy_meta x) meta ''DYNAMIC_STATE_WORK_CONFLICT'')))))))"

section \<open>Saving a work\<close>

definition same_version :: "work \<Rightarrow> work \<Rightarrow> work_row \<Rightarrow> bool" where
  "same_version previous w row \<longleftrightarrow>
     wr_work_id row = wk_work_id w \<and> wr_state_version row = wk_state_version previous"

definition set_work :: "work \<Rightarrow> work_row \<Rightarrow> work_row" where
  "set_work w row =
     row\<lparr>wr_status := wk_status w, wr_state_version := wk_state_version w,
         wr_active_attempt_id := wk_active_attempt_id w, wr_payload := w\<rparr>"

definition swap_work :: "work \<Rightarrow> work \<Rightarrow> unit wtx" where
  "swap_work previous w =
     (\<lambda>s. if length (filter (same_version previous w) (wd_works s)) \<noteq> 1
          then Inl (ValueError ''STATE_VERSION_CONFLICT'')
          else Inr ((), s\<lparr>wd_works := update_rows (same_version previous w) (set_work w) (wd_works s)\<rparr>))"

definition save :: "host \<Rightarrow> work \<Rightarrow> work \<Rightarrow> unit wtx" where
  "save h previous w =
     bindT (keepT (WorkExecutionState w)) (\<lambda>_.
     bindT (swap_work previous w) (\<lambda>_.
     bindT (storeT (point w)) (\<lambda>_.
     bindT (advance_verification_work h previous w) (\<lambda>_.
       advance_dynamic_work h previous w))))"

section \<open>Registration\<close>

definition registration_key :: "work \<Rightarrow> string res" where
  "registration_key w =
     content_hash Map.empty
       (VSeq [v_opt opaque (meta_analysis (wk_meta w)), v_enum work_type_text (wk_work_type w),
              opaque (wk_subject_id w), v_nat (wk_work_generation w), VStr (wk_dedupe_key w)])"

definition parent_check :: "work \<Rightarrow> sdb \<Rightarrow> unit res" where
  "parent_check w d =
     (case wk_parent_work_ref w of
        None \<Rightarrow> Inr ()
      | Some ref \<Rightarrow>
          bindR (resolve False d ref) (\<lambda>r.
            case r of
              WorkExecutionState p \<Rightarrow> validate_parent_work w p
            | _ \<Rightarrow> Inl (ValueError ''Invalid parent work'')))"

definition chaining_inputs_current :: "work \<Rightarrow> sdb \<Rightarrow> unit res" where
  "chaining_inputs_current w d =
     (if wk_work_type w \<noteq> WT_CHAINING then Inr ()
      else seqR (map (\<lambda>ref. check_current_input d ref True WS_READY)
                   (of_kind ''primitive_index_state'' (wk_input_refs w))))"

definition work_row_of :: "work \<Rightarrow> string \<Rightarrow> work_row" where
  "work_row_of w key =
     \<lparr>wr_work_id = wk_work_id w, wr_analysis_id = work_analysis w, wr_registration_key = key,
      wr_status = wk_status w, wr_state_version = wk_state_version w, wr_active_attempt_id = None,
      wr_payload = w, wr_worker_id = None, wr_lease_expires_at = None\<rparr>"

definition insert_work :: "work_row \<Rightarrow> unit wtx" where
  "insert_work row s =
     (if tbl_lookup wr_work_id (wd_works s) (wr_work_id row) \<noteq> None
      then Inl (SqliteError ''UNIQUE constraint failed: work_states.work_id'')
      else if tbl_lookup wr_registration_key (wd_works s) (wr_registration_key row) \<noteq> None
      then Inl (SqliteError ''UNIQUE constraint failed: work_states.registration_key'')
      else Inr ((), s\<lparr>wd_works := wd_works s @ [row]\<rparr>))"

definition register_new ::
  "authority \<Rightarrow> host \<Rightarrow> work \<Rightarrow> string \<Rightarrow> record_ref \<Rightarrow> record_ref option \<Rightarrow> work wtx" where
  "register_new au h w key decision_ref reservation =
     bindT (checkT (raise_if (wk_status w \<noteq> W_PENDING) (ValueError ''New work must be PENDING''))) (\<lambda>_.
     bindT (readT (parent_check w)) (\<lambda>_.
     bindT (readT (chaining_inputs_current w)) (\<lambda>_.
     bindT (claim au h decision_ref REGISTER_WORK w reservation True) (\<lambda>_.
     bindT (keepT (WorkExecutionState w)) (\<lambda>_.
     bindT (insert_work (work_row_of w key)) (\<lambda>_.
     bindT (storeT (point w)) (\<lambda>_. retT w)))))))"

definition register ::
  "authority \<Rightarrow> host \<Rightarrow> work \<Rightarrow> record_ref \<Rightarrow> record_ref option \<Rightarrow> work wtx" where
  "register au h w decision_ref reservation =
     bindT (checkT (validate_work w)) (\<lambda>_.
     bindT (checkT (registration_key w)) (\<lambda>key.
     bindT (askT (reject_cancelled (work_analysis w))) (\<lambda>_.
     bindT (askT Inr) (\<lambda>s.
       case tbl_lookup wr_registration_key (wd_works s) key of
         Some row \<Rightarrow> retT (wr_payload row)
       | None \<Rightarrow> register_new au h w key decision_ref reservation))))"

section \<open>Making a work ready\<close>

definition make_ready :: "authority \<Rightarrow> host \<Rightarrow> transition \<Rightarrow> work wtx" where
  "make_ready au h t =
     bindT (askT (\<lambda>s. get_work s (tr_work_id t))) (\<lambda>previous.
     bindT (askT (reject_cancelled (work_analysis previous))) (\<lambda>_.
     bindT (checkT (validate_transition_context t previous None)) (\<lambda>_.
     bindT (checkT (raise_if (tr_to_status t \<noteq> T_READY \<or> wk_status previous \<notin> {W_PENDING, W_BLOCKED})
                     (ValueError ''STATE_TRANSITION_INVALID''))) (\<lambda>_.
     bindT (claim au h (tr_action_decision_ref t) CHANGE_WORK_STATE previous None False) (\<lambda>_.
     bindT (keepT (StateTransition t)) (\<lambda>ref.
     bindT (next_metaT h (wk_meta previous)) (\<lambda>meta.
       let w = previous\<lparr>wk_meta := meta, wk_status := W_READY,
                 wk_state_version := tr_new_state_version t, wk_last_transition_ref := Some ref,
                 wk_output_refs := [], wk_waiting_for := [], wk_stop_reason := None\<rparr> in
     bindT (checkT (validate_work w)) (\<lambda>_.
     bindT (save h previous w) (\<lambda>_. retT w)))))))))"

section \<open>Starting an attempt\<close>

definition fresh_attempt :: "attempt \<Rightarrow> unit res" where
  "fresh_attempt a =
     raise_if (wa_status a \<noteq> A_RUNNING \<or> wa_finished_at a \<noteq> None \<or> wa_output_refs a \<noteq> []
               \<or> wa_error_ids a \<noteq> [] \<or> wa_gap_ids a \<noteq> [])
       (ValueError ''ATTEMPT_NOT_ACTIVE: start requires a fresh RUNNING attempt'')"

definition running_works :: "wdb \<Rightarrow> string \<Rightarrow> work_row list" where
  "running_works s analysis =
     filter (\<lambda>row. wr_analysis_id row = analysis \<and> wr_status row = W_RUNNING) (wd_works s)"

definition prior_attempt :: "sdb \<Rightarrow> string \<Rightarrow> attempt option" where
  "prior_attempt d work_id = (case attempts_of d work_id of [] \<Rightarrow> None | as \<Rightarrow> Some (last as))"

definition insert_work_attempt :: "attempt \<Rightarrow> unit stx" where
  "insert_work_attempt a d =
     (if tbl_lookup aw_attempt_id (sd_attempts d) (wa_attempt_id a) \<noteq> None
      then Inl (SqliteError ''UNIQUE constraint failed: work_attempts.attempt_id'')
      else if \<exists>row \<in> set (sd_attempts d). wa_work_id (aw_payload row) = wa_work_id a
                \<and> wa_attempt_number (aw_payload row) = wa_attempt_number a
      then Inl (SqliteError ''UNIQUE constraint failed: work_attempts.work_id, work_attempts.attempt_number'')
      else Inr ((), d\<lparr>sd_attempts := sd_attempts d @
             [\<lparr>aw_attempt_id = wa_attempt_id a, aw_payload = a\<rparr>]\<rparr>))"

definition set_lease :: "string \<Rightarrow> string option \<Rightarrow> int option \<Rightarrow> unit wtx" where
  "set_lease work_id worker_id lease =
     modifyT (\<lambda>s. s\<lparr>wd_works := update_rows (\<lambda>row. wr_work_id row = work_id)
       (\<lambda>row. row\<lparr>wr_worker_id := worker_id, wr_lease_expires_at := lease\<rparr>) (wd_works s)\<rparr>)"

definition start_admitted ::
  "authority \<Rightarrow> wdb \<Rightarrow> attempt \<Rightarrow> action_request \<Rightarrow> work \<Rightarrow> record_ref \<Rightarrow> attempt option res" where
  "start_admitted au s attempt a previous reservation =
     bindR (check_reservation (au_evidence au) (wd_store s) (Some reservation) a previous False) (\<lambda>r.
     bindR (execution (wd_store s) (br_budget_binding_ref r) (work_analysis previous)) (\<lambda>profile.
     bindR (raise_if (length (running_works s (work_analysis previous)) \<ge> ep_max_parallel_work profile)
              (ValueError ''BUDGET_EXCEEDED: parallel work'')) (\<lambda>_.
       case prior_attempt (wd_store s) (wk_work_id previous) of
         None \<Rightarrow>
           if wa_attempt_number attempt \<noteq> 1 then Inl (ValueError ''Initial attempt must have number one'')
           else Inr None
       | Some prior \<Rightarrow>
           if bu_retry_count (br_requested_units r) < 1
           then Inl (ValueError ''BUDGET requires a reserved retry unit'')
           else Inr (Some prior))))"

definition start_attempt ::
  "authority \<Rightarrow> host \<Rightarrow> transition \<Rightarrow> attempt \<Rightarrow> record_ref \<Rightarrow> string \<Rightarrow> int \<Rightarrow> work wtx" where
  "start_attempt au h t attempt reservation worker_id lease_expires_at =
     bindT (checkT (fresh_attempt attempt)) (\<lambda>_.
     bindT (if worker_id = [] then checkT (Inl (ValueError ''Invalid worker lease''))
            else bindT (nowT h) (\<lambda>now.
                   checkT (raise_if (lease_expires_at \<le> now) (ValueError ''Invalid worker lease'')))) (\<lambda>_.
     bindT (askT (\<lambda>s. get_work s (tr_work_id t))) (\<lambda>previous.
     bindT (askT (reject_cancelled (work_analysis previous))) (\<lambda>_.
     bindT (askT (reject_uncertain (wk_work_id previous))) (\<lambda>_.
     bindT (checkT (validate_transition_context t previous None)) (\<lambda>_.
     bindT (checkT (raise_if (wk_status previous \<noteq> W_READY \<or> tr_to_status t \<noteq> T_RUNNING
                              \<or> tr_attempt_id t \<noteq> Some (wa_attempt_id attempt))
                     (ValueError ''ATTEMPT_NOT_ACTIVE''))) (\<lambda>_.
     bindT (check_use au h (tr_action_decision_ref t) START_ATTEMPT previous (Some reservation) True)
       (\<lambda>(decision, a).
     bindT (askT (\<lambda>s. start_admitted au s attempt a previous reservation)) (\<lambda>prior.
     bindT (keepT (StateTransition t)) (\<lambda>ref.
     bindT (next_metaT h (wk_meta previous)) (\<lambda>meta.
       let w = previous\<lparr>wk_meta := meta, wk_status := W_RUNNING,
                 wk_state_version := tr_new_state_version t,
                 wk_active_attempt_id := Some (wa_attempt_id attempt), wk_last_transition_ref := Some ref,
                 wk_started_at := opt_or (wk_started_at previous) (Some (wa_started_at attempt))\<rparr> in
     bindT (checkT (seq2 (validate_work w) (validate_attempt_context attempt w prior))) (\<lambda>_.
     bindT (claim au h (tr_action_decision_ref t) START_ATTEMPT previous (Some reservation) True) (\<lambda>_.
     bindT (keepT (WorkAttempt attempt)) (\<lambda>_.
     bindT (save h previous w) (\<lambda>_.
     bindT (storeT (insert_work_attempt attempt)) (\<lambda>_.
     bindT (set_lease (wk_work_id w) (Some worker_id) (Some lease_expires_at)) (\<lambda>_.
       retT w)))))))))))))))))"

section \<open>Effects that were never performed\<close>

text \<open>
  \<open>retire_undispatched\<close>: the reservations of a work for side effects that were never sent are
  released, and a prepared dispatch is reconciled.
\<close>

definition unclaim :: "string \<Rightarrow> sdb \<Rightarrow> sdb" where
  "unclaim i d =
     d\<lparr>sd_reservations := update_rows (\<lambda>row. rw_reservation_id row = i)
         (\<lambda>row. row\<lparr>rw_claimed := False\<rparr>) (sd_reservations d)\<rparr>"

definition retire_reservation :: "host \<Rightarrow> reservation \<Rightarrow> unit wtx" where
  "retire_reservation h r =
     bindT (next_metaT h (br_meta r)) (\<lambda>meta.
     bindT (nowT h) (\<lambda>now.
       let released = r\<lparr>br_meta := meta, br_status := RELEASED, br_finalized_at := Some now\<rparr> in
     bindT (checkT (validate_reservation released)) (\<lambda>_.
       storeT (\<lambda>d. bindR (finalize r released d) (\<lambda>(_, d1). Inr ((), unclaim (br_reservation_id r) d1))))))"

definition retire_row :: "host \<Rightarrow> work \<Rightarrow> reservation_row \<Rightarrow> unit wtx" where
  "retire_row h w row =
     (let r = rw_payload row in
      bindT (checkT (record_reference (WorkExecutionState w))) (\<lambda>ref.
      if br_work_ref r \<noteq> ref then retT ()
      else
        bindT (readT (\<lambda>d. resolve False d (br_action_ref r))) (\<lambda>action.
          case action of
            ActionRequest a \<Rightarrow>
              if ar_action_type a \<notin> EXTERNAL_ACTIONS then retT ()
              else
                bindT (askT (\<lambda>s. Inr (tbl_lookup di_action_id (wd_dispatches s) (ar_action_id a)))) (\<lambda>dispatch.
                  case dispatch of
                    None \<Rightarrow> retire_reservation h r
                  | Some q \<Rightarrow>
                      if di_dispatched_at q \<noteq> None \<or> di_attempt_id q \<noteq> id_text (wk_active_attempt_id w)
                      then retT ()
                      else
                        bindT (retire_reservation h r) (\<lambda>_.
                        bindT (nowT h) (\<lambda>now.
                          modifyT (\<lambda>s. s\<lparr>wd_dispatches :=
                            update_rows (\<lambda>q. di_action_id q = ar_action_id a)
                              (\<lambda>q. q\<lparr>di_reconciled_at := Some now\<rparr>) (wd_dispatches s)\<rparr>))))
          | _ \<Rightarrow> retT ())))"

definition retire_undispatched :: "host \<Rightarrow> work \<Rightarrow> unit wtx" where
  "retire_undispatched h w =
     bindT (askT (\<lambda>s. Inr (filter (\<lambda>row. rw_analysis_id row = work_analysis w \<and> rw_status row = RESERVED)
                             (sd_reservations (wd_store s))))) (\<lambda>rows.
       forT (retire_row h w) rows)"

end
