(* ===== verification/Transition_Service.thy ===== *)
theory Transition_Service
  imports Work_Service
begin

text \<open>
  \<open>storage/transition_service.py\<close>: the journal of a transition that ends an attempt, its commit with
  the outputs, the abort, the replay after a crash, and the cancellation of a work.

  The outputs are of kinds that carry no projection of their own: the branches of \<open>check\<close> and
  \<open>finish\<close> for the kinds of \<open>PROJECTED_KINDS\<close>, and for the report draft of a hypothesis, are left
  out.  The files of the artifact store are not modelled.
\<close>

definition PROJECTED_KINDS :: "string set" where
  "PROJECTED_KINDS =
     {''repository_profile'', ''repository_execution_selection'',
      ''run_policy_state'', ''policy_cache_record'', ''hypothesis_proposal'', ''verification_result'',
      ''dynamic_reproduction_result'', ''finding'', ''primitive'', ''primitive_admission_decision'',
      ''chaining_result'', ''report_draft''}"

record commit_request =
  cq_transition :: transition
  cq_commit :: transition_commit
  cq_records :: "contract_record list"

text \<open>The requests that the model covers.\<close>

definition plain_request :: "commit_request \<Rightarrow> work \<Rightarrow> bool" where
  "plain_request q w \<longleftrightarrow>
     (\<forall>r \<in> set (cq_records q). meta_record_type (record_meta r) \<notin> PROJECTED_KINDS)
     \<and> \<not> (wk_work_type w = WT_REPORT_DRAFT \<and> wk_subject_type w = S_HYPOTHESIS
          \<and> tc_target_status (cq_commit q) \<in> {C_SUCCEEDED, C_FAILED})"

section \<open>Checking a request\<close>

definition output_binding :: "commit_request \<Rightarrow> record_ref list res" where
  "output_binding q =
     bindR (mapR record_reference (cq_records q)) (\<lambda>refs.
       if \<not> distinct refs \<or> set refs \<noteq> set (tc_output_refs (cq_commit q))
       then Inl (ValueError ''OUTPUT_BINDING_MISMATCH'') else Inr refs)"

definition saved_action :: "commit_request \<Rightarrow> action_type" where
  "saved_action q = (if tc_output_refs (cq_commit q) \<noteq> [] then SAVE_RESULT else CHANGE_WORK_STATE)"

definition columns_agree :: "wdb \<Rightarrow> work \<Rightarrow> bool" where
  "columns_agree s w \<longleftrightarrow>
     (case tbl_lookup wr_work_id (wd_works s) (wk_work_id w) of
        None \<Rightarrow> False
      | Some row \<Rightarrow> wr_state_version row = wk_state_version w \<and> wr_active_attempt_id row = wk_active_attempt_id w)"

definition lifecycle_error :: py_error where
  "lifecycle_error = ValueError ''WORKSPACE_LIFECYCLE_INVALID''"

definition validate_terminal_workspace :: "sdb \<Rightarrow> work \<Rightarrow> workspace \<Rightarrow> nat \<Rightarrow> unit res" where
  "validate_terminal_workspace d w x count =
     (if wk_work_type w \<noteq> WT_WORKSPACE_PREP \<or> count \<noteq> 1 \<or> ws_status x \<notin> {WS_READY, WS_FAILED}
         \<or> meta_revision (ws_meta x) \<noteq> 2 \<or> rm_previous_record_id (revision_of (ws_meta x)) = None
         \<or> Some (ws_analysis_id x) \<noteq> meta_analysis (wk_meta w)
         \<or> (ws_status x = WS_READY \<and> ws_commit_id x = None)
      then Inl lifecycle_error
      else
        case tbl_lookup ro_record_id (sd_records d) (id_text (rm_previous_record_id (revision_of (ws_meta x)))) of
          None \<Rightarrow> Inl lifecycle_error
        | Some row \<Rightarrow>
            (case ro_record row of
               CodeWorkspace p \<Rightarrow>
                 if ws_status p \<noteq> WS_PREPARING then Inl lifecycle_error
                 else
                   bindR (validate_revision (ws_meta p) (ws_meta x)) (\<lambda>_.
                   bindR (raise_if (ws_workspace_id p \<noteq> ws_workspace_id x \<or> ws_analysis_id p \<noteq> ws_analysis_id x
                                    \<or> ws_repository_url p \<noteq> ws_repository_url x) lifecycle_error) (\<lambda>_.
                   bindR (get_run d (ws_analysis_id x)) (\<lambda>run.
                   bindR (record_reference (CodeWorkspace p)) (\<lambda>ref.
                     raise_if
                       (map_option cu_record_id (tbl_lookup cu_logical_record_id (sd_current d)
                            (rm_logical_record_id (revision_of (ws_meta x)))) \<noteq> Some (meta_record_id (ws_meta p))
                        \<or> map_option RunStoredDataRef (rs_workspace_ref run) \<noteq> Some ref)
                       lifecycle_error))))
             | _ \<Rightarrow> Inl lifecycle_error))"

definition check_output ::
  "authority \<Rightarrow> wdb \<Rightarrow> work \<Rightarrow> action_request \<Rightarrow> nat \<Rightarrow> contract_record \<Rightarrow> unit res" where
  "check_output au s w a count r =
     bindR (case r of CodeWorkspace x \<Rightarrow> validate_terminal_workspace (wd_store s) w x count | _ \<Rightarrow> Inr ()) (\<lambda>_.
     bindR (check_context s r (Some w)) (\<lambda>_.
     bindR (record_reference r) (\<lambda>ref.
     bindR (prepublished_output s ref w) (\<lambda>before.
     bindR (if before then Inr ()
            else check_result_owner au (wd_store s) (meta_record_type (record_meta r)) r a (Some w)) (\<lambda>_.
     bindR (raise_if (meta_analysis (record_meta r) \<noteq> None
                      \<and> meta_analysis (record_meta r) \<noteq> meta_analysis (wk_meta w))
              (ValueError ''OUTPUT_ANALYSIS_MISMATCH'')) (\<lambda>_.
       raise_if (meta_attempt (record_meta r) \<noteq> None
                 \<and> meta_attempt (record_meta r) \<noteq> wk_active_attempt_id w)
         (ValueError ''ATTEMPT_NOT_ACTIVE'')))))))"

definition receipt_matches :: "wdb \<Rightarrow> commit_request \<Rightarrow> action_request \<Rightarrow> record_ref list \<Rightarrow> unit res" where
  "receipt_matches s q a refs =
     (if refs = [] then Inr ()
      else bindR (read_outputs s a (tr_action_decision_ref (cq_transition q))) (\<lambda>outputs.
             raise_if (set refs \<noteq> set outputs) (ValueError ''OUTPUT_BINDING_MISMATCH'')))"

definition check_request ::
  "authority \<Rightarrow> host \<Rightarrow> commit_request \<Rightarrow> work wtx" where
  "check_request au h q =
     bindT (checkT (output_binding q)) (\<lambda>refs.
     bindT (askT (\<lambda>s. get_work s (tc_work_id (cq_commit q)))) (\<lambda>w.
     bindT (askT (\<lambda>s. raise_if (\<not> columns_agree s w) (ValueError ''STATE_VERSION_CONFLICT''))) (\<lambda>_.
     bindT (checkT (validate_transition_context (cq_transition q) w None)) (\<lambda>_.
     bindT (check_use au h (tr_action_decision_ref (cq_transition q)) (saved_action q) w None False)
       (\<lambda>(decision, a).
     bindT (readT (\<lambda>d. seqR (map (\<lambda>ref. check_current_input d ref False WS_READY) (wk_input_refs w)))) (\<lambda>_.
     bindT (askT (\<lambda>s. receipt_matches s q a refs)) (\<lambda>_.
     bindT (askT (\<lambda>s. seqR (map (check_output au s w a (length (cq_records q))) (cq_records q)))) (\<lambda>_.
       retT w))))))))"

section \<open>The journal\<close>

definition request_value :: "transition \<Rightarrow> transition_commit \<Rightarrow> record_ref list \<Rightarrow> pyval" where
  "request_value t c refs = VSeq [transition_value t, transition_commit_value c, v_seq ref_value refs]"

definition journal_row_of ::
  "transition_commit \<Rightarrow> string \<Rightarrow> record_ref \<times> record_ref \<times> record_ref list \<Rightarrow> journal_row" where
  "journal_row_of c binding request =
     \<lparr>jr_transition_commit_id = tc_transition_commit_id c, jr_work_id = tc_work_id c,
      jr_expected_state_version = tc_expected_state_version c, jr_candidate_binding = binding,
      jr_state = CS_PREPARED, jr_payload = c, jr_request = request\<rparr>"

definition insert_journal :: "journal_row \<Rightarrow> unit wtx" where
  "insert_journal row s =
     (if tbl_lookup jr_transition_commit_id (wd_journal s) (jr_transition_commit_id row) \<noteq> None
      then Inl (SqliteError ''UNIQUE constraint failed: transition_commits.transition_commit_id'')
      else if (jr_work_id row, jr_expected_state_version row, jr_candidate_binding row)
                \<in> (\<lambda>q. (jr_work_id q, jr_expected_state_version q, jr_candidate_binding q)) ` set (wd_journal s)
      then Inl (SqliteError ''UNIQUE constraint failed: transition_commits.work_id, transition_commits.expected_state_version, transition_commits.candidate_binding'')
      else Inr ((), s\<lparr>wd_journal := wd_journal s @ [row]\<rparr>))"

definition set_journal :: "bool \<Rightarrow> transition_commit \<Rightarrow> unit wtx" where
  "set_journal prepared_only c =
     modifyT (\<lambda>s. s\<lparr>wd_journal :=
       update_rows (\<lambda>q. jr_transition_commit_id q = tc_transition_commit_id c
                        \<and> (prepared_only \<longrightarrow> jr_state q = CS_PREPARED))
         (\<lambda>q. q\<lparr>jr_state := tc_state c, jr_payload := c\<rparr>) (wd_journal s)\<rparr>)"

definition prepare ::
  "authority \<Rightarrow> host \<Rightarrow> commit_request \<Rightarrow> string \<Rightarrow> record_ref list \<Rightarrow> unit wtx" where
  "prepare au h q binding refs =
     bindT (check_request au h q) (\<lambda>_.
     bindT (keepT (StateTransition (cq_transition q))) (\<lambda>transition_ref.
     bindT (keepT (TransitionCommit (cq_commit q))) (\<lambda>commit_ref.
       insert_journal (journal_row_of (cq_commit q) binding (transition_ref, commit_ref, refs)))))"

section \<open>Committing\<close>

fun attempt_status_of :: "work_status \<Rightarrow> attempt_status" where
  "attempt_status_of W_SUCCEEDED = A_SUCCEEDED"
| "attempt_status_of W_PARTIAL = A_PARTIAL"
| "attempt_status_of W_FAILED = A_FAILED"
| "attempt_status_of _ = A_CANCELLED"

fun work_status_of_commit :: "commit_target \<Rightarrow> work_status" where
  "work_status_of_commit C_BLOCKED = W_BLOCKED"
| "work_status_of_commit C_SUCCEEDED = W_SUCCEEDED"
| "work_status_of_commit C_PARTIAL = W_PARTIAL"
| "work_status_of_commit C_FAILED = W_FAILED"
| "work_status_of_commit C_CANCELLED = W_CANCELLED"

text \<open>\<open>_reject_latched_result\<close>.\<close>

definition reject_latched_result :: "commit_request \<Rightarrow> work \<Rightarrow> wdb \<Rightarrow> unit res" where
  "reject_latched_result q w s =
     raise_if (cancel_latched s (work_analysis w) \<and> tc_target_status (cq_commit q) \<noteq> C_CANCELLED)
       (ValueError ''RUN_CANCELLED'')"

definition as_run_ref :: "record_ref \<Rightarrow> run_ref res" where
  "as_run_ref ref = (case ref of RunStoredDataRef r \<Rightarrow> Inr r | _ \<Rightarrow> Inl field_error)"

text \<open>A terminal workspace becomes the workspace of the run.\<close>

definition save_workspace :: "host \<Rightarrow> contract_record \<Rightarrow> unit wtx" where
  "save_workspace h r =
     (case r of
        CodeWorkspace x \<Rightarrow>
          bindT (readT (\<lambda>d. get_run d (ws_analysis_id x))) (\<lambda>run.
          bindT (next_metaT h (rs_meta run)) (\<lambda>meta.
          bindT (checkT (bindR (record_reference r) as_run_ref)) (\<lambda>ref.
            let updated = run\<lparr>rs_meta := meta, rs_workspace_ref := Some ref,
                  rs_workspace_id := Some (ws_workspace_id x), rs_commit_id := ws_commit_id x\<rparr> in
          bindT (checkT (validate_run_state updated)) (\<lambda>_.
            storeT (save_run updated (Some run))))))
      | _ \<Rightarrow> retT ())"

definition publish_output :: "host \<Rightarrow> work \<Rightarrow> contract_record \<Rightarrow> unit wtx" where
  "publish_output h w r =
     bindT (checkT (record_reference r)) (\<lambda>ref.
     bindT (askT (\<lambda>s. prepublished_output s ref w)) (\<lambda>before.
       if before then retT ()
       else
         bindT (storeT (publish ref)) (\<lambda>_.
         bindT (storeT (publish_pointer ref)) (\<lambda>_. save_workspace h r))))"

definition update_attempt :: "(attempt_row \<Rightarrow> bool) \<Rightarrow> attempt \<Rightarrow> unit wtx" where
  "update_attempt P a =
     modifyT (\<lambda>s. s\<lparr>wd_store := (wd_store s)\<lparr>sd_attempts :=
       update_rows (\<lambda>row. aw_attempt_id row = wa_attempt_id a \<and> P row) (\<lambda>row. row\<lparr>aw_payload := a\<rparr>)
         (sd_attempts (wd_store s))\<rparr>\<rparr>)"

definition end_attempt :: "host \<Rightarrow> work \<Rightarrow> work \<Rightarrow> bool \<Rightarrow> unit wtx" where
  "end_attempt h previous w terminal =
     (case wk_active_attempt_id previous of
        None \<Rightarrow> retT ()
      | Some i \<Rightarrow>
          bindT (readT (\<lambda>d. case tbl_lookup aw_attempt_id (sd_attempts d) i of
                     None \<Rightarrow> Inl (SqliteError ''No row was found when one was required'')
                   | Some row \<Rightarrow> Inr (aw_payload row))) (\<lambda>prior.
          bindT (next_metaT h (wa_meta prior)) (\<lambda>meta.
          bindT (nowT h) (\<lambda>now.
            let ended = prior\<lparr>wa_meta := meta,
                  wa_status := (if terminal then attempt_status_of (wk_status w) else A_CANCELLED),
                  wa_finished_at := Some now, wa_output_refs := wk_output_refs w,
                  wa_gap_ids := wk_gap_ids w, wa_error_ids := wk_error_ids w\<rparr> in
          bindT (checkT (validate_attempt ended)) (\<lambda>_.
          bindT (keepT (WorkAttempt ended)) (\<lambda>_. update_attempt (\<lambda>_. True) ended))))))"

text \<open>The reservations of effects that were not performed; then what a blocked work waits for.\<close>

definition settle_effects :: "host \<Rightarrow> work \<Rightarrow> action_decision \<Rightarrow> bool \<Rightarrow> waiting_for wtx" where
  "settle_effects h previous claimed terminal =
     bindT (readT (\<lambda>d. resolve False d (ad_action_ref claimed))) (\<lambda>action.
     bindT (askT (\<lambda>s. Inr (\<not> uncertain s (wk_work_id previous)))) (\<lambda>clear.
       let recovery = (case action of ActionRequest a \<Rightarrow> ar_requested_by a = RQ_RECOVERY | _ \<Rightarrow> False) in
     bindT (if clear \<and> (terminal \<or> recovery) then retire_undispatched h previous else retT ()) (\<lambda>_.
       retT (if recovery \<and> clear then WAIT_RETRY else WAIT_INPUT))))"

definition committed_record :: "commit_request \<Rightarrow> record_metadata \<Rightarrow> int \<Rightarrow> transition_commit" where
  "committed_record q meta now =
     (cq_commit q)\<lparr>tc_meta := meta, tc_state := CS_COMMITTED, tc_committed_at := Some now\<rparr>"

definition ends_work :: "transition_commit \<Rightarrow> bool" where
  "ends_work c \<longleftrightarrow> tc_target_status c \<noteq> C_BLOCKED"

definition finish_time :: "host \<Rightarrow> transition_commit \<Rightarrow> int option wtx" where
  "finish_time h c = (if ends_work c then bindT (nowT h) (\<lambda>now. retT (Some now)) else retT None)"

definition finished_work ::
  "work \<Rightarrow> commit_request \<Rightarrow> transition_commit \<Rightarrow> record_ref \<Rightarrow> record_metadata \<Rightarrow> waiting_for
     \<Rightarrow> int option \<Rightarrow> work" where
  "finished_work previous q committed commit_ref meta waiting finished_at =
     previous\<lparr>wk_meta := meta, wk_state_version := tc_target_state_version committed,
       wk_status := work_status_of_commit (tc_target_status committed), wk_active_attempt_id := None,
       wk_last_transition_ref := Some (tc_transition_ref committed),
       wk_last_transition_commit_ref := Some commit_ref, wk_output_refs := tc_output_refs committed,
       wk_gap_ids := tc_gap_ids committed, wk_error_ids := tc_error_ids committed,
       wk_finished_at := finished_at, wk_stop_reason := Some (tr_cause (cq_transition q)),
       wk_waiting_for := (if ends_work committed then [] else [waiting])\<rparr>"

text \<open>The second transaction of \<open>finish\<close>.\<close>

definition finish ::
  "authority \<Rightarrow> host \<Rightarrow> commit_request \<Rightarrow> transition_commit wtx" where
  "finish au h q =
     bindT (check_request au h q) (\<lambda>previous.
     bindT (askT (reject_latched_result q previous)) (\<lambda>_.
     bindT (claim au h (tr_action_decision_ref (cq_transition q)) (saved_action q) previous None False) (\<lambda>claimed.
     bindT (next_metaT h (tc_meta (cq_commit q))) (\<lambda>commit_meta.
     bindT (nowT h) (\<lambda>committed_at.
       let committed = committed_record q commit_meta committed_at in
     bindT (checkT (validate_commit committed)) (\<lambda>_.
     bindT (keepT (TransitionCommit committed)) (\<lambda>commit_ref.
     bindT (forT (publish_output h previous) (cq_records q)) (\<lambda>_.
     bindT (record_outcome h claimed (tc_output_refs committed)) (\<lambda>_.
     bindT (settle_effects h previous claimed (ends_work committed)) (\<lambda>waiting.
     bindT (next_metaT h (wk_meta previous)) (\<lambda>meta.
     bindT (finish_time h committed) (\<lambda>finished_at.
       let w = finished_work previous q committed commit_ref meta waiting finished_at in
     bindT (checkT (validate_work w)) (\<lambda>_.
     bindT (end_attempt h previous w (ends_work committed)) (\<lambda>_.
     bindT (save h previous w) (\<lambda>_.
     bindT (set_lease (wk_work_id w) None None) (\<lambda>_.
     bindT (set_journal True committed) (\<lambda>_. retT committed)))))))))))))))))"

definition abort :: "host \<Rightarrow> transition_commit \<Rightarrow> string \<Rightarrow> unit wtx" where
  "abort h prepared reason =
     bindT (askT (\<lambda>s. case tbl_lookup jr_transition_commit_id (wd_journal s) (tc_transition_commit_id prepared) of
                 None \<Rightarrow> Inl (SqliteError ''No row was found when one was required'')
               | Some row \<Rightarrow> Inr (jr_state row))) (\<lambda>state.
       if state \<noteq> CS_PREPARED then retT ()
       else
         bindT (next_metaT h (tc_meta prepared)) (\<lambda>meta.
           let aborted = prepared\<lparr>tc_meta := meta, tc_state := CS_ABORTED, tc_abort_reason := Some reason\<rparr> in
         bindT (checkT (validate_commit aborted)) (\<lambda>_.
         bindT (keepT (TransitionCommit aborted)) (\<lambda>_. set_journal False aborted))))"

section \<open>Several transactions\<close>

text \<open>
  A write transaction by itself: it commits or, when its body raises, leaves the database as it was.
\<close>

definition runT :: "'a wtx \<Rightarrow> (wdb, 'a) eff" where
  "runT m = (\<lambda>s. case m s of Inl e \<Rightarrow> (Inl e, s) | Inr (x, t) \<Rightarrow> (Inr x, t))"

definition checkE :: "'a res \<Rightarrow> (wdb, 'a) eff" where
  "checkE r = (\<lambda>s. (r, s))"

fun eachE :: "('a \<Rightarrow> (wdb, unit) eff) \<Rightarrow> 'a list \<Rightarrow> (wdb, unit) eff" where
  "eachE f [] = retE ()"
| "eachE f (x # xs) = bindE (f x) (\<lambda>_. eachE f xs)"

definition finish_request ::
  "authority \<Rightarrow> host \<Rightarrow> commit_request \<Rightarrow> (wdb, transition_commit) eff" where
  "finish_request au h q =
     bindE (runT (check_request au h q)) (\<lambda>_. runT (finish au h q))"

text \<open>\<open>except (ValueError, LookupError) as error: self.abort(commit, str(error))\<close>, and what follows.\<close>

definition or_abort ::
  "host \<Rightarrow> transition_commit \<Rightarrow> (wdb, 'a) eff \<Rightarrow> (py_error \<Rightarrow> (wdb, 'a) eff) \<Rightarrow> (wdb, 'a) eff" where
  "or_abort h c m after =
     tryE m (\<lambda>e. map_option (\<lambda>reason. bindE (runT (abort h c reason)) (\<lambda>_. after e)) (caught_text e))"

definition commit_new_request ::
  "authority \<Rightarrow> host \<Rightarrow> commit_request \<Rightarrow> string \<Rightarrow> record_ref list
     \<Rightarrow> (wdb, transition_commit) eff" where
  "commit_new_request au h q binding refs =
     bindE (eachE (\<lambda>r. bindE (runT (storeT (stage_record r))) (\<lambda>_. retE ())) (cq_records q)) (\<lambda>_.
     bindE (runT (prepare au h q binding refs)) (\<lambda>_.
       or_abort h (cq_commit q) (finish_request au h q) raiseE))"

definition commit_transition ::
  "authority \<Rightarrow> host \<Rightarrow> commit_request \<Rightarrow> (wdb, transition_commit) eff" where
  "commit_transition au h q =
     bindE (checkE (validate_commit_transition (cq_commit q) (cq_transition q))) (\<lambda>_.
     bindE (checkE (raise_if (tc_state (cq_commit q) \<noteq> CS_PREPARED)
                     (ValueError ''Initial journal must be PREPARED''))) (\<lambda>_.
     bindE (checkE (output_binding q)) (\<lambda>refs.
     bindE (checkE (content_hash Map.empty (request_value (cq_transition q) (cq_commit q) refs))) (\<lambda>binding s.
       case tbl_lookup jr_transition_commit_id (wd_journal s) (tc_transition_commit_id (cq_commit q)) of
         None \<Rightarrow> commit_new_request au h q binding refs s
       | Some old \<Rightarrow>
           if jr_candidate_binding old \<noteq> binding
           then raiseE (ValueError ''TRANSITION_BINDING_MISMATCH'') s
           else (case tc_state (jr_payload old) of
               CS_COMMITTED \<Rightarrow> retE (jr_payload old) s
             | CS_ABORTED \<Rightarrow>
                 raiseE (ValueError (''Transition already ABORTED: '' @ id_text (tc_abort_reason (jr_payload old)))) s
             | CS_PREPARED \<Rightarrow> finish_request au h q s)))))"

text \<open>\<open>recover_prepared\<close>: every transition that was prepared before a crash is finished or aborted.\<close>

definition asserted_request :: "sdb \<Rightarrow> record_ref \<times> record_ref \<times> record_ref list \<Rightarrow> commit_request res" where
  "asserted_request d request =
     (case request of (t_ref, c_ref, refs) \<Rightarrow>
        bindR (resolve False d t_ref) (\<lambda>t.
        bindR (resolve False d c_ref) (\<lambda>c.
        bindR (mapR (resolve True d) refs) (\<lambda>rs.
          case (t, c) of
            (StateTransition x, TransitionCommit y) \<Rightarrow>
              Inr \<lparr>cq_transition = x, cq_commit = y, cq_records = rs\<rparr>
          | _ \<Rightarrow> Inl (AssertionError [])))))"

definition recover_one ::
  "authority \<Rightarrow> host \<Rightarrow> record_ref \<times> record_ref \<times> record_ref list \<Rightarrow> (wdb, unit) eff" where
  "recover_one au h request =
     (\<lambda>s. bindE (checkE (asserted_request (wd_store s) request)) (\<lambda>q.
        or_abort h (cq_commit q) (bindE (finish_request au h q) (\<lambda>_. retE ())) (\<lambda>_. retE ())) s)"

definition recover_prepared :: "authority \<Rightarrow> host \<Rightarrow> (wdb, unit) eff" where
  "recover_prepared au h =
     (\<lambda>s. eachE (recover_one au h)
            (map jr_request (filter (\<lambda>row. jr_state row = CS_PREPARED) (wd_journal s))) s)"

section \<open>Cancelling a work\<close>

fun with_attempt :: "string option \<Rightarrow> record_metadata \<Rightarrow> record_metadata" where
  "with_attempt t (RecordMeta r a w c h _) = RecordMeta r a w c h t"
| "with_attempt t m = m"

definition attempt_metaT :: "host \<Rightarrow> work \<Rightarrow> string \<Rightarrow> record_metadata wtx" where
  "attempt_metaT h w kind = fresh_metaT h (with_attempt (wk_active_attempt_id w) (wk_meta w)) kind"

definition cancel_action :: "work \<Rightarrow> record_ref \<Rightarrow> record_ref \<Rightarrow> record_metadata \<Rightarrow> string \<Rightarrow> int \<Rightarrow> action_request" where
  "cancel_action w work_ref identity meta action_id now =
     \<lparr>ar_meta = meta, ar_action_id = action_id, ar_requested_by = RQ_ORCHESTRATION,
      ar_requester_identity_ref = identity, ar_action_type = CANCEL_WORK, ar_work_ref = Some work_ref,
      ar_expected_state_version = Some (wk_state_version w), ar_expected_verification_generation = None,
      ar_generation_restart_reason = None, ar_generation_restart_basis_refs = [],
      ar_input_refs = wk_input_refs w, ar_dynamic_request_ref = None, ar_reproduction_plan_ref = None,
      ar_result_kind = None, ar_candidate_result_ref = None, ar_llm_call_spec_ref = None,
      ar_tool_name = None, ar_file_paths = [], ar_provider_profile_ref = None, ar_session_mode = None,
      ar_sandbox_profile_ref = None, ar_resource_profile_ref = None, ar_run_policy_state_ref = None,
      ar_image_digest = None, ar_network_targets = [], ar_resource_limits = None,
      ar_reason = ''CANCELLATION_REQUESTED'', ar_requested_at = now\<rparr>"

definition cancel_transition_record ::
  "work \<Rightarrow> record_ref \<Rightarrow> record_metadata \<Rightarrow> string \<Rightarrow> string \<Rightarrow> int \<Rightarrow> transition" where
  "cancel_transition_record w decision_ref meta transition_id dedupe_key now =
     \<lparr>tr_meta = meta, tr_transition_id = transition_id, tr_work_id = wk_work_id w,
      tr_action_decision_ref = decision_ref, tr_from_status = wk_status w, tr_to_status = T_CANCELLED,
      tr_expected_state_version = wk_state_version w, tr_new_state_version = wk_state_version w + 1,
      tr_attempt_id = wk_active_attempt_id w, tr_cause = ''CANCELLATION_REQUESTED'',
      tr_output_refs = wk_output_refs w, tr_gap_ids = wk_gap_ids w, tr_error_ids = wk_error_ids w,
      tr_dedupe_key = dedupe_key, tr_created_at = now\<rparr>"

definition cancel_commit_record ::
  "work \<Rightarrow> record_ref \<Rightarrow> record_metadata \<Rightarrow> string \<Rightarrow> int \<Rightarrow> transition_commit" where
  "cancel_commit_record w transition_ref meta commit_id now =
     \<lparr>tc_meta = meta, tc_transition_commit_id = commit_id, tc_work_id = wk_work_id w,
      tc_transition_ref = transition_ref, tc_expected_state_version = wk_state_version w,
      tc_target_state_version = wk_state_version w + 1, tc_attempt_id = wk_active_attempt_id w,
      tc_target_status = C_CANCELLED, tc_output_refs = wk_output_refs w, tc_gap_ids = wk_gap_ids w,
      tc_error_ids = wk_error_ids w, tc_state = CS_PREPARED, tc_prepared_at = now,
      tc_committed_at = None, tc_abort_reason = None\<rparr>"

text \<open>The transition, once the decision allows it.\<close>

definition cancel_transition :: "host \<Rightarrow> work \<Rightarrow> record_ref \<Rightarrow> int \<Rightarrow> (transition \<times> record_ref) wtx" where
  "cancel_transition h w decision_ref now =
     bindT (attempt_metaT h w ''state_transition'') (\<lambda>meta.
     bindT (newT h) (\<lambda>transition_id.
     bindT (checkT (content_hash Map.empty
              (VSeq [opaque (wk_work_id w), v_nat (wk_state_version w), VStr ''CANCELLED'']))) (\<lambda>key.
       let t = cancel_transition_record w decision_ref meta transition_id key now in
     bindT (checkT (seq2 (validate_transition t) (validate_transition_context t w None))) (\<lambda>_.
     bindT (keepT (StateTransition t)) (\<lambda>ref. retT (t, ref))))))"

definition cancel_journal :: "host \<Rightarrow> work \<Rightarrow> transition \<Rightarrow> record_ref \<Rightarrow> int \<Rightarrow> transition_commit wtx" where
  "cancel_journal h w t transition_ref now =
     bindT (attempt_metaT h w ''transition_commit'') (\<lambda>meta.
     bindT (newT h) (\<lambda>commit_id.
       let c = cancel_commit_record w transition_ref meta commit_id now in
     bindT (checkT (seq2 (validate_commit c) (validate_commit_transition c t))) (\<lambda>_.
     bindT (keepT (TransitionCommit c)) (\<lambda>commit_ref.
     bindT (checkT (content_hash Map.empty (request_value t c []))) (\<lambda>binding.
     bindT (insert_journal (journal_row_of c binding (transition_ref, commit_ref, []))) (\<lambda>_. retT c))))))"

definition swap_journal :: "transition_commit \<Rightarrow> unit wtx" where
  "swap_journal c =
     bindT (askT (\<lambda>s. raise_if
        (length (filter (\<lambda>q. jr_transition_commit_id q = tc_transition_commit_id c \<and> jr_state q = CS_PREPARED)
                   (wd_journal s)) \<noteq> 1)
        (ValueError ''CANCELLATION_TRANSITION_CAS_FAILED''))) (\<lambda>_. set_journal True c)"

definition cancel_attempt :: "host \<Rightarrow> work \<Rightarrow> int \<Rightarrow> unit wtx" where
  "cancel_attempt h w now =
     (case wk_active_attempt_id w of
        None \<Rightarrow> retT ()
      | Some i \<Rightarrow>
          bindT (readT (\<lambda>d. case tbl_lookup aw_attempt_id (sd_attempts d) i of
                     None \<Rightarrow> Inl (SqliteError ''No row was found when one was required'')
                   | Some row \<Rightarrow>
                       if wa_status (aw_payload row) = A_RUNNING then Inr (aw_payload row)
                       else Inl (SqliteError ''No row was found when one was required''))) (\<lambda>prior.
          bindT (next_metaT h (wa_meta prior)) (\<lambda>meta.
            let ended = prior\<lparr>wa_meta := meta, wa_status := A_CANCELLED, wa_finished_at := Some now\<rparr> in
          bindT (checkT (validate_attempt ended)) (\<lambda>_.
          bindT (keepT (WorkAttempt ended)) (\<lambda>_.
            update_attempt (\<lambda>row. aw_payload row = prior) ended)))))"

definition cancelled_work :: "work \<Rightarrow> record_metadata \<Rightarrow> record_ref \<Rightarrow> record_ref \<Rightarrow> int \<Rightarrow> work" where
  "cancelled_work w meta transition_ref commit_ref now =
     w\<lparr>wk_meta := meta, wk_status := W_CANCELLED, wk_state_version := wk_state_version w + 1,
       wk_active_attempt_id := None, wk_last_transition_ref := Some transition_ref,
       wk_last_transition_commit_ref := Some commit_ref, wk_waiting_for := [],
       wk_stop_reason := Some ''CANCELLATION_REQUESTED'', wk_finished_at := Some now\<rparr>"

definition cancel_open_work :: "authority \<Rightarrow> host \<Rightarrow> work \<Rightarrow> record_ref \<Rightarrow> work wtx" where
  "cancel_open_work au h w identity =
     bindT (nowT h) (\<lambda>now.
     bindT (attempt_metaT h w ''action_request'') (\<lambda>action_meta.
     bindT (newT h) (\<lambda>action_id.
     bindT (checkT (record_reference (WorkExecutionState w))) (\<lambda>work_ref.
     bindT (authorize au h (cancel_action w work_ref identity action_meta action_id now) (Some w) None) (\<lambda>decision.
     bindT (checkT (raise_if (ad_decision decision \<noteq> ALLOW) (ValueError ''CANCELLATION_AUTHORITY_DENIED''))) (\<lambda>_.
     bindT (checkT (record_reference (ActionDecision decision))) (\<lambda>decision_ref.
     bindT (cancel_transition h w decision_ref now) (\<lambda>(t, transition_ref).
     bindT (cancel_journal h w t transition_ref now) (\<lambda>prepared.
     bindT (claim au h decision_ref CANCEL_WORK w None False) (\<lambda>_.
     bindT (next_metaT h (tc_meta prepared)) (\<lambda>commit_meta.
       let committed = prepared\<lparr>tc_meta := commit_meta, tc_state := CS_COMMITTED,
                         tc_committed_at := Some now\<rparr> in
     bindT (checkT (validate_commit committed)) (\<lambda>_.
     bindT (keepT (TransitionCommit committed)) (\<lambda>commit_ref.
     bindT (swap_journal committed) (\<lambda>_.
     bindT (next_metaT h (wk_meta w)) (\<lambda>meta.
       let cancelled = cancelled_work w meta transition_ref commit_ref now in
     bindT (checkT (validate_work cancelled)) (\<lambda>_.
     bindT (cancel_attempt h w now) (\<lambda>_.
     bindT (save h w cancelled) (\<lambda>_.
     bindT (set_lease (wk_work_id w) None None) (\<lambda>_.
       retT cancelled)))))))))))))))))))"

definition cancel_in_transaction :: "authority \<Rightarrow> host \<Rightarrow> work \<Rightarrow> record_ref \<Rightarrow> work wtx" where
  "cancel_in_transaction au h w identity =
     (if wk_status w \<in> TERMINAL_WORK_STATUSES then retT w else cancel_open_work au h w identity)"

end
