(* ===== verification/Intermediate_Publication.thy ===== *)
theory Intermediate_Publication
  imports Transition_Service
begin

text \<open>
  \<open>storage/intermediate_publication.py\<close>: a running attempt publishes records before its work commits.
  The records are staged one by one; one transaction then checks the attempt, the decision, its receipt
  and the records, uses the decision, publishes, and notes the outcome that
  \<open>prepublished_output\<close> asks for later.  The files of the artifact store are not modelled.
\<close>

definition active_attempt :: "wdb \<Rightarrow> work \<Rightarrow> unit res" where
  "active_attempt s w =
     raise_if (wk_status w \<noteq> W_RUNNING
               \<or> (case Option.bind (wk_active_attempt_id w) (tbl_lookup aw_attempt_id (sd_attempts (wd_store s))) of
                    None \<Rightarrow> True
                  | Some row \<Rightarrow> wa_status (aw_payload row) \<noteq> A_RUNNING \<or> wa_work_id (aw_payload row) \<noteq> wk_work_id w))
       (ValueError ''ATTEMPT_NOT_ACTIVE'')"

definition receipt_covers :: "wdb \<Rightarrow> action_request \<Rightarrow> record_ref \<Rightarrow> record_ref list \<Rightarrow> unit res" where
  "receipt_covers s a decision_ref refs =
     (if \<not> distinct refs then Inl (ValueError ''OUTPUT_BINDING_MISMATCH'')
      else bindR (read_outputs s a decision_ref) (\<lambda>outputs.
             raise_if (set refs \<noteq> set outputs) (ValueError ''OUTPUT_BINDING_MISMATCH'')))"

text \<open>One record: of an admitted kind, of this attempt, and the successor of what is current.\<close>

definition intermediate_output :: "sdb \<Rightarrow> work \<Rightarrow> action_request \<Rightarrow> contract_record \<Rightarrow> unit res" where
  "intermediate_output d w a r =
     seqR
       [validate_intermediate_owner r a w,
        raise_if (\<not> same_subject (record_meta r) (wk_meta w)) (ValueError ''OUTPUT_SCOPE_MISMATCH''),
        raise_if ((case r of CodeWorkspace _ \<Rightarrow> False | _ \<Rightarrow> True)
                  \<and> meta_attempt (record_meta r) \<noteq> wk_active_attempt_id w) (ValueError ''ATTEMPT_NOT_ACTIVE''),
        raise_if (map_option cu_record_id (tbl_lookup cu_logical_record_id (sd_current d)
                      (rm_logical_record_id (revision_of (record_meta r))))
                    \<noteq> rm_previous_record_id (revision_of (record_meta r)))
          (ValueError ''STALE_RESULT: intermediate predecessor changed'')]"

text \<open>A workspace that is being prepared becomes the workspace of the run, which has none yet.\<close>

definition bind_workspace :: "host \<Rightarrow> contract_record \<Rightarrow> unit wtx" where
  "bind_workspace h r =
     (case r of
        CodeWorkspace x \<Rightarrow>
          bindT (checkT (raise_if (ws_status x \<noteq> WS_PREPARING) (ValueError ''WORKSPACE_LIFECYCLE_INVALID''))) (\<lambda>_.
          bindT (readT (\<lambda>d. get_run d (ws_analysis_id x))) (\<lambda>run.
          bindT (checkT (raise_if (rs_workspace_ref run \<noteq> None \<or> rs_commit_id run \<noteq> None)
                           (ValueError ''WORKSPACE_LIFECYCLE_INVALID''))) (\<lambda>_.
          bindT (next_metaT h (rs_meta run)) (\<lambda>meta.
          bindT (checkT (bindR (record_reference r) as_run_ref)) (\<lambda>ref.
            let updated = run\<lparr>rs_meta := meta, rs_workspace_ref := Some ref,
                  rs_workspace_id := Some (ws_workspace_id x), rs_commit_id := None\<rparr> in
          bindT (checkT (validate_run_state updated)) (\<lambda>_.
            storeT (save_run updated (Some run))))))))
      | _ \<Rightarrow> retT ())"

definition publish_claimed ::
  "authority \<Rightarrow> host \<Rightarrow> string \<Rightarrow> record_ref \<Rightarrow> contract_record list \<Rightarrow> record_ref list \<Rightarrow> unit wtx" where
  "publish_claimed au h work_id decision_ref outputs refs =
     bindT (askT (\<lambda>s. get_work s work_id)) (\<lambda>w.
     bindT (askT (\<lambda>s. active_attempt s w)) (\<lambda>_.
     bindT (check_use au h decision_ref SAVE_RESULT w None False) (\<lambda>(_, a).
     bindT (askT (\<lambda>s. receipt_covers s a decision_ref refs)) (\<lambda>_.
     bindT (readT (\<lambda>d. seqR (map (intermediate_output d w a) outputs))) (\<lambda>_.
     bindT (claim au h decision_ref SAVE_RESULT w None False) (\<lambda>claimed.
     bindT (forT (\<lambda>ref. bindT (storeT (publish ref)) (\<lambda>_. storeT (publish_pointer ref))) refs) (\<lambda>_.
     bindT (forT (bind_workspace h) outputs) (\<lambda>_.
     bindT (record_outcome h claimed refs) (\<lambda>_. retT ())))))))))"

fun stage_all :: "contract_record list \<Rightarrow> (wdb, record_ref list) eff" where
  "stage_all [] = retE []"
| "stage_all (r # rs) =
     bindE (runT (storeT (stage_record r))) (\<lambda>ref. bindE (stage_all rs) (\<lambda>refs. retE (ref # refs)))"

definition publish_intermediates ::
  "authority \<Rightarrow> host \<Rightarrow> string \<Rightarrow> record_ref \<Rightarrow> contract_record list \<Rightarrow> (wdb, record_ref list) eff" where
  "publish_intermediates au h work_id decision_ref outputs =
     bindE (checkE (raise_if (outputs = []) (ValueError ''OUTPUT_BINDING_MISMATCH''))) (\<lambda>_.
     bindE (stage_all outputs) (\<lambda>refs.
     bindE (runT (publish_claimed au h work_id decision_ref outputs refs)) (\<lambda>_. retE refs)))"

end
