(* ===== verification/Llm_Invocation.thy ===== *)
theory Llm_Invocation
  imports Action_Validator
begin

text \<open>
  \<open>RuntimeValidator.record_invocation\<close> of \<open>storage/action_validator.py\<close>: the request, the result and the log of
  a model call become records, bound to the decision under which it was made.  The three are of the
  models \<open>LLMInvocationRequest\<close>, \<open>LLMInvocationResult\<close> and \<open>LLMInvocationLog\<close>.
\<close>

definition invocation_error :: "string \<Rightarrow> py_error" where
  "invocation_error what = ValueError (''INVOCATION_'' @ what)"

abbreviation no_value :: "contract_record \<Rightarrow> string \<Rightarrow> bool" where
  "no_value r name \<equiv> has_field r name VNone"

abbreviation agree :: "contract_record \<Rightarrow> contract_record \<Rightarrow> string list \<Rightarrow> bool" where
  "agree r r' names \<equiv> list_all (\<lambda>name. record_field r name = record_field r' name) names"

abbreviation output_of :: "contract_record \<Rightarrow> record_ref option" where
  "output_of result \<equiv> record_field_ref result ''parsed_output_ref''"

abbreviation succeeded :: "contract_record \<Rightarrow> bool" where
  "succeeded result \<equiv> field_is result ''status'' ''SUCCEEDED''"

section \<open>Artifacts\<close>

text \<open>\<open>_verify_invocation_artifact\<close>: reading the file and comparing it is the artifact store's.\<close>

definition verify_invocation_artifact :: "authority \<Rightarrow> record_ref \<Rightarrow> record_metadata \<Rightarrow> unit res" where
  "verify_invocation_artifact au ref m =
     (case (au_artifact_json au, ref) of
        (Some read, StoredDataRef x) \<Rightarrow>
          if sr_record x \<noteq> None \<or> sr_kind x \<noteq> ''artifact'' \<or> sr_id x \<noteq> sr_hash x
             \<or> Some (sr_workspace x) \<noteq> meta_workspace m \<or> Some (sr_commit x) \<noteq> meta_commit m
          then Inl (invocation_error ''OUTPUT_MISMATCH'')
          else read x
      | _ \<Rightarrow> Inl (invocation_error ''OUTPUT_MISMATCH''))"

definition provider_output_authority :: "contract_record \<Rightarrow> unit res" where
  "provider_output_authority result =
     raise_if (succeeded result \<and> (case output_of result of None \<Rightarrow> False | Some ref \<Rightarrow> ref_record_id ref \<noteq> None))
       (invocation_error ''OUTPUT_MISMATCH'')"

section \<open>A call recorded before\<close>

definition replay_refs :: "record_ref list \<Rightarrow> contract_record \<Rightarrow> record_ref list" where
  "replay_refs exact result =
     exact @ (if succeeded result then (case output_of result of None \<Rightarrow> [] | Some ref \<Rightarrow> [ref]) else [])"

definition replayed_output :: "authority \<Rightarrow> sdb \<Rightarrow> contract_record \<Rightarrow> contract_record \<Rightarrow> unit res" where
  "replayed_output au d request result =
     (if \<not> succeeded result then Inr ()
      else case output_of result of
          None \<Rightarrow> Inl (AssertionError [])
        | Some ref \<Rightarrow>
            if ref_record_id ref = None then verify_invocation_artifact au ref (record_meta request)
            else bindR (resolve True d ref) (\<lambda>_. Inr ()))"

definition replayed_call ::
  "authority \<Rightarrow> sdb \<Rightarrow> action_decision \<Rightarrow> contract_record \<Rightarrow> contract_record \<Rightarrow> contract_record
     \<Rightarrow> record_ref list \<Rightarrow> record_ref res" where
  "replayed_call au d claimed request result log exact =
     (if take 1 (ad_outcome_refs claimed) \<noteq> take 1 exact then Inl (invocation_error ''ACTION_MISMATCH'')
      else if ad_outcome_refs claimed \<noteq> replay_refs exact result then Inl (invocation_error ''REPLAY_MISMATCH'')
      else
        bindR (seqR (map (\<lambda>(r, ref). bindR (resolve False d ref) (\<lambda>r'.
                 raise_if (r' \<noteq> r) (invocation_error ''ACTION_MISMATCH'')))
                 (zip [request, result, log] exact))) (\<lambda>_.
        bindR (replayed_output au d request result) (\<lambda>_.
        bindR (record_reference log) (\<lambda>ref.
          case ref of StoredDataRef _ \<Rightarrow> Inr ref | _ \<Rightarrow> Inl (AssertionError [])))))"

section \<open>A new call\<close>

definition request_fields :: "string list" where
  "request_fields =
     [''llm_call_id'', ''agent_role'', ''task_kind'', ''purpose'', ''provider_profile_ref'', ''model'', ''session_policy'',
      ''parent_session_ref'', ''context_refs'', ''prompt_registry_entry_ref'', ''prompt_key'', ''prompt_template_ref'',
      ''prompt_template_version'', ''prompt_payload_ref'', ''execution_limits_ref'', ''retry_policy_ref'',
      ''tool_policy_ref'', ''redaction_policy_ref'', ''semantic_validator_ref'', ''output_schema_ref'',
      ''output_schema'', ''token_budget'', ''timeout_ms'']"

definition log_fields :: "string list" where
  "log_fields = filter (\<lambda>name. name \<notin> {''output_schema'', ''token_budget'', ''timeout_ms''}) request_fields"

text \<open>The action, the call and its payload, which belong together.\<close>

definition invocation_call ::
  "sdb \<Rightarrow> action_decision \<Rightarrow> contract_record \<Rightarrow> contract_record \<Rightarrow> contract_record
     \<Rightarrow> (action_request \<times> contract_record \<times> contract_record \<times> contract_record) res" where
  "invocation_call d claimed request result log =
     (let e = invocation_error ''ACTION_MISMATCH'' in
      bindR (record_reference (ActionDecision claimed)) (\<lambda>claimed_ref.
      bindR (resolve False d (ad_action_ref claimed)) (\<lambda>action.
      bindR (resolve_field d request ''call_spec_ref'') (\<lambda>call.
        if \<not> is_kind call ''llm_call_spec'' then Inl e
        else
          bindR (resolve_field d call ''provider_profile_ref'') (\<lambda>profile.
          bindR (resolve_field d call ''prompt_payload_ref'') (\<lambda>payload.
          bindR (case record_field_ref request ''call_spec_ref'' of
                   Some spec_ref \<Rightarrow>
                     if is_kind payload ''prompt_payload'' then llm_action_input_refs spec_ref call payload else Inr []
                 | None \<Rightarrow> Inr []) (\<lambda>inputs.
            case action of
              ActionRequest a \<Rightarrow>
                if ar_action_type a \<in> LLM_ACTIONS
                   \<and> map_option StoredDataRef (ar_llm_call_spec_ref a) = record_field_ref request ''call_spec_ref''
                   \<and> ar_provider_profile_ref a = record_field_ref request ''provider_profile_ref''
                   \<and> is_kind profile ''provider_profile''
                   \<and> points_to request ''action_decision_ref'' claimed_ref
                   \<and> points_to log ''action_decision_ref'' claimed_ref
                   \<and> agree log request [''call_spec_ref''] \<and> agree log result [''parsed_output_ref'']
                   \<and> ar_input_refs a = inputs
                then Inr (a, call, profile, payload)
                else Inl e
            | _ \<Rightarrow> Inl e)))))))"

definition invocation_result ::
  "contract_record \<Rightarrow> contract_record \<Rightarrow> contract_record \<Rightarrow> contract_record \<Rightarrow> contract_record \<Rightarrow> unit res" where
  "invocation_result call profile request result log =
     seqR
       [raise_if (\<not> agree request call request_fields \<or> \<not> agree log call log_fields)
          (invocation_error ''CONFIGURATION_MISMATCH''),
        raise_if (\<not> agree result call [''llm_call_id'', ''purpose'', ''model''] \<or> \<not> agree result profile [''provider'']
                  \<or> \<not> agree log profile [''provider'']
                  \<or> \<not> agree log result [''session_ref'', ''status'', ''usage'', ''safe_error'']
                  \<or> record_field log ''exposed_response_ref'' \<noteq> record_field result ''response_ref'')
          (invocation_error ''RESULT_MISMATCH'')]"

text \<open>The output of the call, and the candidate it is when it is a record.\<close>

definition invocation_output ::
  "authority \<Rightarrow> sdb \<Rightarrow> contract_record \<Rightarrow> contract_record \<Rightarrow> contract_record \<Rightarrow> contract_record
     \<Rightarrow> (contract_record option \<times> record_ref option) res" where
  "invocation_output au d call request result log =
     (let e = invocation_error ''RESULT_MISMATCH''; out = invocation_error ''OUTPUT_MISMATCH'' in
      if succeeded result then
        (case output_of result of
           None \<Rightarrow> Inl e
         | Some ref \<Rightarrow>
             if \<not> no_value result ''safe_error'' \<or> field_items log ''validation_errors'' \<noteq> [] then Inl e
             else
               bindR (resolve_field d call ''output_schema_ref'') (\<lambda>schema.
                 if \<not> is_kind schema ''output_schema_spec'' then Inl out
                 else if ref_record_id ref = None then
                   (if \<not> points_to result ''response_ref'' ref then Inl e
                    else bindR (verify_invocation_artifact au ref (record_meta request)) (\<lambda>_. Inr (None, Some ref)))
                 else
                   bindR (resolve True d ref) (\<lambda>candidate.
                     if field_text (record_field schema ''result_kind'') \<noteq> Some (meta_record_type (record_meta candidate))
                     then Inl out
                     else Inr (Some candidate, Some ref))))
      else if no_value result ''parsed_output_ref'' \<and> no_value log ''parsed_output_ref''
              \<and> \<not> no_value result ''safe_error'' \<and> \<not> no_value log ''safe_error''
      then Inr (None, None)
      else Inl e)"

definition invocation_work :: "wdb \<Rightarrow> action_decision \<Rightarrow> action_request \<Rightarrow> work res" where
  "invocation_work s claimed a =
     (case ar_work_ref a of
        None \<Rightarrow> Inl (invocation_error ''ACTION_MISMATCH'')
      | Some ref \<Rightarrow>
          bindR (resolve False (wd_store s) ref) (\<lambda>r.
            case r of
              WorkExecutionState w \<Rightarrow>
                if map_option wr_payload (tbl_lookup wr_work_id (wd_works s) (wk_work_id w)) = Some w
                   \<and> wk_status w = W_RUNNING \<and> ad_use_status claimed = USED
                then Inr w
                else Inl (invocation_error ''SCOPE_MISMATCH'')
            | _ \<Rightarrow> Inl (invocation_error ''SCOPE_MISMATCH'')))"

text \<open>The result of a policy parser names its one source and its call.\<close>

definition parser_source :: "contract_record \<Rightarrow> contract_record \<Rightarrow> contract_record \<Rightarrow> unit res" where
  "parser_source call request candidate =
     (if \<not> is_kind candidate ''policy_parser_result'' then Inr ()
      else
        bindR (record_reference request) (\<lambda>ref.
          raise_if (\<not> field_is call ''agent_role'' ''POLICY_PARSER''
                    \<or> map Some (field_refs call ''context_refs'') \<noteq> [record_field_ref candidate ''source_ref'']
                    \<or> \<not> points_to candidate ''llm_invocation_ref'' ref)
            (invocation_error ''POLICY_SOURCE_MISMATCH'')))"

definition invocation_admitted ::
  "authority \<Rightarrow> wdb \<Rightarrow> action_decision \<Rightarrow> contract_record \<Rightarrow> contract_record \<Rightarrow> contract_record
     \<Rightarrow> record_ref option res" where
  "invocation_admitted au s claimed request result log =
     (let d = wd_store s in
      bindR (invocation_call d claimed request result log) (\<lambda>(a, call, profile, payload).
      bindR (invocation_result call profile request result log) (\<lambda>_.
      bindR (invocation_output au d call request result log) (\<lambda>(candidate, output).
      bindR (invocation_work s claimed a) (\<lambda>w.
      bindR (raise_if (\<not> list_all (\<lambda>r. same_attempt_scope r w)
                           ([request, result, log] @ (case candidate of None \<Rightarrow> [] | Some r \<Rightarrow> [r]) @ [call, payload])
                       \<or> \<not> is_kind payload ''prompt_payload'')
               (invocation_error ''SCOPE_MISMATCH'')) (\<lambda>_.
      bindR (check_stage au s a w) (\<lambda>_.
      bindR (case candidate of None \<Rightarrow> Inr () | Some r \<Rightarrow> parser_source call request r) (\<lambda>_.
        Inr output))))))))"

text \<open>
  The branch for an output that is a record is never taken: \<open>provider_output_authority\<close> refuses such a
  result before.
\<close>

lemma no_record_output:
  assumes "provider_output_authority result = Inr ()"
    and "invocation_output au d call request result log = Inr (candidate, output)"
  shows "candidate = None"
  using assms by (auto simp: provider_output_authority_def invocation_output_def Let_def split: if_splits option.splits)

section \<open>Recording\<close>

definition file_invocation :: "contract_record \<Rightarrow> record_ref wtx" where
  "file_invocation r =
     bindT (storeT (stage_record r)) (\<lambda>ref.
     bindT (checkT (case ref of StoredDataRef _ \<Rightarrow> Inr () | _ \<Rightarrow> Inl (invocation_error ''SCOPE_MISMATCH''))) (\<lambda>_.
     bindT (storeT (publish ref)) (\<lambda>_. retT ref)))"

definition point_log :: "contract_record \<Rightarrow> unit stx" where
  "point_log log d =
     (let m = revision_of (record_meta log) in
      Inr ((), if tbl_lookup cu_logical_record_id (sd_current d) (rm_logical_record_id m) \<noteq> None then d
               else d\<lparr>sd_current := sd_current d @ [\<lparr>cu_logical_record_id = rm_logical_record_id m,
                      cu_record_id = rm_record_id m, cu_state_version = 1\<rparr>]\<rparr>))"

definition claimed_call :: "contract_record \<Rightarrow> wdb \<Rightarrow> action_decision res" where
  "claimed_call request s =
     bindR (resolve_field (wd_store s) request ''action_decision_ref'') (\<lambda>r.
       case r of
         ActionDecision initial \<Rightarrow>
           (case tbl_lookup dr_decision_id (wd_decisions s) (ad_decision_id initial) of
              None \<Rightarrow> Inl (invocation_error ''ACTION_NOT_USED'')
            | Some row \<Rightarrow> Inr (dr_payload row))
       | _ \<Rightarrow> Inl (invocation_error ''ACTION_MISMATCH''))"

definition record_invocation ::
  "authority \<Rightarrow> host \<Rightarrow> contract_record \<Rightarrow> contract_record \<Rightarrow> contract_record \<Rightarrow> record_ref wtx" where
  "record_invocation au h request result log =
     bindT (askT (claimed_call request)) (\<lambda>claimed.
     bindT (checkT (mapR record_reference [request, result, log])) (\<lambda>exact.
     bindT (checkT (provider_output_authority result)) (\<lambda>_.
       if ad_outcome_refs claimed \<noteq> []
       then readT (\<lambda>d. replayed_call au d claimed request result log exact)
       else
         bindT (askT (\<lambda>s. invocation_admitted au s claimed request result log)) (\<lambda>output.
         bindT (file_invocation request) (\<lambda>request_ref.
         bindT (file_invocation result) (\<lambda>result_ref.
         bindT (file_invocation log) (\<lambda>log_ref.
         bindT (storeT (point_log log)) (\<lambda>_.
         bindT (record_outcome h claimed
                  ([request_ref, result_ref, log_ref] @ (case output of None \<Rightarrow> [] | Some ref \<Rightarrow> [ref]))) (\<lambda>_.
           retT log_ref)))))))))"

end
