(* ===== verification/Work_Frames.thy ===== *)
theory Work_Frames
  imports Intermediate_Publication Llm_Invocation
begin

text \<open>
  What the services change.  A relation between the database before and after that the basic writes
  respect is respected by every operation built from them.  The interface \<open>quiet_frame\<close> names the basic
  writes; \<open>using_frame\<close> adds the use of a decision, \<open>effect_frame\<close> the works, the attempts and the
  release of effects that were never performed, and \<open>dispatch_frame\<close> the side effects and the
  new rows of the journal.
\<close>

section \<open>The interfaces\<close>

lemma framed_record_cases:
  assumes "\<And>x. framed R (f1 x)" "\<And>x. framed R (f2 x)" "\<And>x. framed R (f3 x)" "\<And>x. framed R (f4 x)"
    "\<And>x. framed R (f5 x)" "\<And>x. framed R (f6 x)" "\<And>x. framed R (f7 x)" "\<And>x. framed R (f8 x)"
    "\<And>x. framed R (f9 x)" "\<And>x. framed R (f10 x)" "\<And>x. framed R (f11 x)" "\<And>x. framed R (f12 x)"
    "\<And>x. framed R (f13 x)" "\<And>x. framed R (f14 x)" "\<And>x. framed R (f15 x)" "\<And>x. framed R (f16 x)"
    "\<And>x. framed R (f17 x)" "\<And>x. framed R (f18 x)" "\<And>x. framed R (f19 x)"
  shows "framed R (case_contract_record f1 f2 f3 f4 f5 f6 f7 f8 f9 f10 f11 f12 f13 f14 f15 f16 f17 f18 f19 r)"
  using assms by (cases r) simp_all

lemma framed_sum_case:
  "(\<And>e. framed R (f e)) \<Longrightarrow> (\<And>x. framed R (g x)) \<Longrightarrow> framed R (case y of Inl e \<Rightarrow> f e | Inr x \<Rightarrow> g x)"
  by (cases y) simp_all

locale quiet_frame = transaction_frame R for R :: "wdb \<Rightarrow> wdb \<Rightarrow> bool" +
  assumes ticks: "R s (s\<lparr>wd_ticks := n\<rparr>)"
    and receipts: "R s (s\<lparr>wd_actions := x\<rparr>)" "R s (s\<lparr>wd_closures := y\<rparr>)" "R s (s\<lparr>wd_checks := z\<rparr>)"
    and journal_state: "tc_state k \<noteq> CS_PREPARED \<Longrightarrow> framed R (set_journal prepared_only k)"
    and stored: "framed R (storeT (stage_record r))" "framed R (storeT (publish ref))"
    and pointers: "R s (s\<lparr>wd_store := (wd_store s)\<lparr>sd_current := c\<rparr>\<rparr>)"
    and saved_run: "framed R (storeT (save_run state previous))"
begin

lemma framed_now: "framed R (nowT h)"
  by (rule framedI) (auto intro: ticks)

lemma framed_new: "framed R (newT h)"
  by (rule framedI) (auto intro: ticks)

lemma framed_read: "framed R (readT q)"
  by (rule framedI) (auto intro: frame_refl)

lemma framed_keep: "framed R (keepT r)"
proof (rule framedI)
  fix s x t assume "keepT r s = Inr (x, t)"
  then obtain d where d: "stage_publish r (wd_store s) = Inr (x, d)" "t = s\<lparr>wd_store := d\<rparr>"
    by (auto simp: keepT_def storeT_eq)
  then obtain d1 u where "stage_record r (wd_store s) = Inr (x, d1)" "publish x d1 = Inr (u, d)"
    by (auto simp: stage_publish_def)
  then have "R s (s\<lparr>wd_store := d1\<rparr>)" "R (s\<lparr>wd_store := d1\<rparr>) t"
    using framedD [OF stored(1), of r s x "s\<lparr>wd_store := d1\<rparr>"]
      framedD [OF stored(2), of x "s\<lparr>wd_store := d1\<rparr>" u t] d(2)
    by (auto simp: storeT_eq)
  then show "R s t" by (rule frame_trans)
qed

lemma framed_pointer: "(\<And>d u d'. m d = Inr (u, d') \<Longrightarrow> \<exists>c. d' = d\<lparr>sd_current := c\<rparr>) \<Longrightarrow> framed R (storeT m)"
  by (rule framedI) (auto simp: storeT_eq dest!: intro: pointers)

lemma framed_point: "framed R (storeT (point w))"
  by (rule framed_pointer) (auto simp: point_def Let_def split: option.splits if_splits)

lemma framed_swap: "framed R (storeT (swap_pointer p u c))"
  by (rule framed_pointer) (auto simp: swap_pointer_def Let_def split: if_splits)

lemma framed_publish_pointer: "framed R (storeT (publish_pointer ref))"
  by (rule framed_pointer) (auto simp: publish_pointer_def Let_def split: option.splits if_splits)

lemma framed_insert:
  "(\<And>s f. R s (upd f s)) \<Longrightarrow> framed R (insertT get upd key message r)"
  by (rule framedI) auto

lemma framed_receipts:
  "framed R (insertT wd_actions (\<lambda>f s. s\<lparr>wd_actions := f (wd_actions s)\<rparr>) ka ma ra)"
  "framed R (insertT wd_closures (\<lambda>f s. s\<lparr>wd_closures := f (wd_closures s)\<rparr>) kc mc rc)"
  "framed R (insertT wd_checks (\<lambda>f s. s\<lparr>wd_checks := f (wd_checks s)\<rparr>) kk mk rk)"
  by (rule framed_insert, rule receipts)+

lemmas quiet_rules = framed_rules framed_now framed_new framed_read framed_keep framed_point framed_swap
  framed_publish_pointer framed_receipts journal_state framed_record_cases framed_sum_case saved_run stored

lemma framed_next_meta: "framed R (next_metaT h m)"
  unfolding next_metaT_def by (intro quiet_rules)

lemma framed_attempt_meta: "framed R (attempt_metaT h w kind)"
  unfolding attempt_metaT_def fresh_metaT_def by (intro quiet_rules)

lemma framed_check_use: "framed R (check_use au h ref kind w reservation b)"
  unfolding check_use_def by (intro quiet_rules)

lemma framed_issue: "framed R (issue_decision h a work ref t checks)"
  unfolding issue_decision_def Let_def by (intro quiet_rules)

lemma framed_record_decision: "framed R (record_decision a request_ref decision_ref t checks)"
  unfolding record_decision_def by (intro quiet_rules)

lemma framed_authorize: "framed R (authorize au h a given reservation)"
  unfolding authorize_def by (intro quiet_rules framed_issue framed_record_decision)

lemma framed_check_request: "framed R (check_request au h q)"
  unfolding check_request_def by (intro quiet_rules framed_check_use)

lemma framed_advance_verification: "framed R (advance_verification_work h previous w)"
  unfolding advance_verification_work_def Let_def by (intro quiet_rules framed_next_meta)

lemma framed_advance_dynamic: "framed R (advance_dynamic_work h previous w)"
  unfolding advance_dynamic_work_def Let_def by (intro quiet_rules framed_next_meta)

lemma framed_save_workspace: "framed R (save_workspace h r)"
  unfolding save_workspace_def Let_def by (intro quiet_rules framed_next_meta)

lemma framed_bind_workspace: "framed R (bind_workspace h r)"
  unfolding bind_workspace_def Let_def by (intro quiet_rules framed_next_meta)

lemma framed_publish_output: "framed R (publish_output h w r)"
  unfolding publish_output_def by (intro quiet_rules framed_save_workspace)

lemma framed_cancel_transition: "framed R (cancel_transition h w ref now)"
  unfolding cancel_transition_def Let_def by (intro quiet_rules framed_attempt_meta)

lemma framed_swap_journal: "tc_state c \<noteq> CS_PREPARED \<Longrightarrow> framed R (swap_journal c)"
  unfolding swap_journal_def by (intro quiet_rules)

lemma framed_abort: "framed R (abort h c reason)"
  unfolding abort_def Let_def by (intro quiet_rules framed_next_meta) simp

text \<open>A relation that ignores the table of used decisions.\<close>

lemma claim_framed:
  assumes "\<And>s d. R s (s\<lparr>wd_decisions := d\<rparr>)"
    and "\<And>ev a. framed R (storeT (claim_reservation ev reservation a w))"
  shows "framed R (claim au h ref kind w reservation b)"
proof -
  have i: "framed R (insertT wd_decisions (\<lambda>f s. s\<lparr>wd_decisions := f (wd_decisions s)\<rparr>) k m r)" for k :: "decision_row \<Rightarrow> 'k" and m r
    by (rule framed_insert) (rule assms(1))
  show ?thesis
    unfolding claim_def Let_def by (intro quiet_rules framed_check_use framed_next_meta i assms(2))
qed

lemma outcome_framed:
  assumes "\<And>s d. R s (s\<lparr>wd_decisions := d\<rparr>)"
  shows "framed R (record_outcome h c outputs)"
  unfolding record_outcome_def Let_def
  by (intro quiet_rules framed_next_meta framedI) (auto intro: assms)

text \<open>A relation that new rows of the journal respect.\<close>

lemma prepare_framed:
  assumes "\<And>row. framed R (insert_journal row)"
  shows "framed R (prepare au h q binding refs)"
  unfolding prepare_def by (intro quiet_rules framed_check_request assms)

lemma cancel_journal_framed:
  assumes "\<And>row. framed R (insert_journal row)"
  shows "framed R (cancel_journal h w t ref now)"
  unfolding cancel_journal_def Let_def by (intro quiet_rules framed_attempt_meta assms)

text \<open>Effects that were never performed: a relation that ignores the dispatches.\<close>

lemma retired_framed:
  assumes "\<And>r c i. framed R (storeT (\<lambda>d. bindR (finalize r c d) (\<lambda>(_, d1). Inr ((), unclaim i d1))))"
    and "\<And>P now. framed R (modifyT (\<lambda>s. s\<lparr>wd_dispatches :=
           update_rows P (\<lambda>q. q\<lparr>di_reconciled_at := Some now\<rparr>) (wd_dispatches s)\<rparr>))"
  shows "framed R (retire_undispatched h w)"
proof -
  have "framed R (retire_reservation h r)" for r
    unfolding retire_reservation_def Let_def by (intro quiet_rules framed_next_meta assms(1))
  then have "framed R (retire_row h w row)" for row
    unfolding retire_row_def Let_def by (intro quiet_rules assms(2))
  then show ?thesis unfolding retire_undispatched_def by (intro quiet_rules)
qed

end

locale using_frame = quiet_frame +
  assumes framed_claim: "framed R (claim au h ref kind w reservation b)"
    and framed_record_outcome: "framed R (record_outcome h c outputs)"
begin

lemma framed_point_log: "framed R (storeT (point_log log))"
proof (rule framed_pointer)
  fix d u d' assume "point_log log d = Inr (u, d')"
  then show "\<exists>c. d' = d\<lparr>sd_current := c\<rparr>"
    by (cases "d' = d") (auto simp: point_log_def Let_def intro: exI [of _ "sd_current d"] split: if_splits)
qed

lemma framed_record_invocation: "framed R (record_invocation au h request result log)"
  unfolding record_invocation_def file_invocation_def
  by (intro quiet_rules framed_point_log framed_record_outcome)

lemma framed_publish_claimed: "framed R (publish_claimed au h i ref outputs refs)"
  unfolding publish_claimed_def
  by (intro quiet_rules framed_check_use framed_claim framed_bind_workspace framed_record_outcome)

end

locale effect_frame = using_frame +
  assumes works: "R s (s\<lparr>wd_works := x\<rparr>)"
    and controls: "R s (s\<lparr>wd_controls := z\<rparr>)"
    and attempts: "R s (s\<lparr>wd_store := (wd_store s)\<lparr>sd_attempts := v\<rparr>\<rparr>)"
    and retired: "framed R (retire_undispatched h w)"
begin

lemma framed_swap_work: "framed R (swap_work previous w)"
  by (rule framedI) (auto simp: swap_work_def intro: works split: if_splits)

lemma framed_insert_work: "framed R (insert_work row)"
  by (rule framedI) (auto simp: insert_work_def intro: works split: if_splits)

lemma framed_lease: "framed R (set_lease i worker lease)"
  unfolding set_lease_def by (rule framedI) (auto intro: works)

lemma framed_insert_work_attempt: "framed R (storeT (insert_work_attempt a))"
  by (rule framedI) (auto simp: storeT_eq insert_work_attempt_def intro: attempts split: if_splits)

lemma framed_update_attempt: "framed R (update_attempt P a)"
  unfolding update_attempt_def by (rule framedI) (auto intro: attempts)

lemma framed_save: "framed R (save h previous w)"
  unfolding save_def
  by (intro quiet_rules framed_swap_work framed_advance_verification framed_advance_dynamic)

lemma framed_register: "framed R (register au h w ref reservation)"
  unfolding register_def register_new_def by (intro quiet_rules framed_claim framed_insert_work)

lemma framed_ready: "framed R (make_ready au h tr)"
  unfolding make_ready_def Let_def by (intro quiet_rules framed_claim framed_next_meta framed_save)

lemma framed_start: "framed R (start_attempt au h tr a reservation worker lease)"
  unfolding start_attempt_def Let_def
  by (intro quiet_rules framed_claim framed_check_use framed_next_meta framed_save framed_insert_work_attempt framed_lease)

lemma framed_end_attempt: "framed R (end_attempt h p w terminal)"
  unfolding end_attempt_def Let_def by (intro quiet_rules framed_next_meta framed_update_attempt)

lemma framed_finish: "framed R (finish au h q)"
  unfolding finish_def Let_def reject_latched_result_def settle_effects_def finish_time_def
  by (intro quiet_rules framed_check_request framed_claim framed_next_meta framed_publish_output
      framed_record_outcome framed_end_attempt framed_save framed_lease retired)
    (simp_all add: committed_record_def)

lemma framed_cancel_attempt: "framed R (cancel_attempt h w now)"
  unfolding cancel_attempt_def Let_def by (intro quiet_rules framed_next_meta framed_update_attempt)

lemma cancel_framed:
  assumes "\<And>w t ref now. framed R (cancel_journal h w t ref now)"
  shows "framed R (cancel_in_transaction au h w identity)"
  unfolding cancel_in_transaction_def cancel_open_work_def Let_def
  by (intro quiet_rules framed_attempt_meta framed_authorize framed_cancel_transition assms
      framed_claim framed_next_meta framed_swap_journal framed_cancel_attempt framed_save framed_lease) simp

lemma framed_request_cancel: "framed R (request_cancel h a reason)"
  unfolding request_cancel_def by (intro quiet_rules framedI) (auto intro: controls)

text \<open>A relation that ignores the table of dispatches.\<close>

lemma dispatch_framed:
  assumes "\<And>s y. R s (s\<lparr>wd_dispatches := y\<rparr>)"
  shows "framed R (claim_external au h i ref reservation)"
    "framed R (mark_dispatched au h ref provider key)" "framed R (mark_returned h ref)"
proof -
  have i: "framed R (insertT wd_dispatches (\<lambda>f s. s\<lparr>wd_dispatches := f (wd_dispatches s)\<rparr>) k m r)"
    for k :: "dispatch_row \<Rightarrow> 'k" and m r
    by (rule framed_insert) (rule assms)
  have m: "(\<And>s. \<exists>y. f s = s\<lparr>wd_dispatches := y\<rparr>) \<Longrightarrow> framed R (modifyT f)" for f
    by (rule framedI) (metis assms modifyT_eq)
  show "framed R (claim_external au h i ref reservation)"
    unfolding claim_external_def resume_dispatch_def prepare_dispatch_def unexpiredT_def
    by (intro quiet_rules framed_claim i)
  show "framed R (mark_dispatched au h ref provider key)"
    unfolding mark_dispatched_def send_dispatch_def unexpiredT_def by (intro quiet_rules m) auto
  show "framed R (mark_returned h ref)"
    unfolding mark_returned_def Let_def by (intro quiet_rules m) auto
qed

end

locale dispatch_frame = effect_frame +
  assumes framed_external: "framed R (claim_external au h i ref reservation)"
    and framed_dispatched: "framed R (mark_dispatched au h ref provider key)"
    and framed_returned: "framed R (mark_returned h ref)"
    and framed_prepare: "framed R (prepare au h q binding refs)"
    and framed_cancel: "framed R (cancel_in_transaction au h w identity)"

end
