(* ===== verification/Work_Effects.thy ===== *)
theory Work_Effects
  imports Work_Frames
begin

text \<open>
  What each service does to the works and their attempts when it succeeds.
\<close>

section \<open>What stays\<close>

definition kept :: "wdb \<Rightarrow> wdb \<Rightarrow> bool" where
  "kept s t \<longleftrightarrow>
     wd_works t = wd_works s \<and> sd_attempts (wd_store t) = sd_attempts (wd_store s)
     \<and> wd_controls t = wd_controls s"

definition same_dispatches :: "wdb \<Rightarrow> wdb \<Rightarrow> bool" where
  "same_dispatches s t \<longleftrightarrow> wd_dispatches t = wd_dispatches s"

lemma save_run_attempts:
  assumes "save_run state previous d = Inr (u, d')"
  shows "sd_attempts d' = sd_attempts d"
proof -
  obtain ref d1 where d1: "stage_publish (AnalysisRunState state) d = Inr (ref, d1)"
    and d': "(case previous of None \<Rightarrow> insert_run state d1 | Some p \<Rightarrow> swap_run p state d1) = Inr (u, d')"
    using assms by (auto simp: save_run_def)
  have "sd_attempts d' = sd_attempts d1"
    using d' by (cases previous; auto simp: insert_run_def swap_run_def Let_def split: if_splits)
  then show ?thesis using stage_publish_grows(2) [OF d1] by (simp add: same_tables_def)
qed

lemma storeT_framed:
  "(\<And>d x d'. m d = Inr (x, d') \<Longrightarrow> sd_attempts d' = sd_attempts d) \<Longrightarrow> framed kept (storeT m)"
  by (rule framedI) (auto simp: storeT_eq kept_def)

lemma finalize_attempts: "finalize p c d = Inr (u, d') \<Longrightarrow> sd_attempts d' = sd_attempts d"
  by (auto simp: finalize_def same_tables_def dest: stage_publish_grows(2))

lemma kept_journal: "framed kept (insert_journal row)" "framed kept (set_journal b c)"
  by (rule framedI, auto simp: insert_journal_def set_journal_def kept_def split: if_splits)+

interpretation kept: quiet_frame kept
proof unfold_locales
  show "framed kept (storeT (stage_record r))" for r
    by (rule storeT_framed) (auto dest: stage_grows(2) simp: same_tables_def)
  show "framed kept (storeT (publish ref))" for ref
    by (rule storeT_framed) (auto dest: publish_grows(2) simp: same_tables_def)
  show "framed kept (storeT (save_run state previous))" for state previous
    by (rule storeT_framed) (rule save_run_attempts)
qed (auto simp: kept_def kept_journal)

lemma kept_claim: "framed kept (storeT (claim_reservation ev reservation a w))"
  by (rule storeT_framed) (auto simp: claim_reservation_def)

lemmas kept_prepare = kept.prepare_framed [OF kept_journal(1)]
lemmas kept_cancel_journal = kept.cancel_journal_framed [OF kept_journal(1)]

lemma kept_swap: "framed kept (swap_journal c)"
  unfolding swap_journal_def by (intro kept.framed_bind kept.framed_ask kept_journal)

interpretation kept: using_frame kept
  by unfold_locales (auto simp: kept_def intro!: kept.claim_framed kept.outcome_framed kept_claim)

lemma storeT_same_dispatches: "framed same_dispatches (storeT m)"
  by (rule framedI) (auto simp: storeT_eq same_dispatches_def)

lemma same_dispatches_journal: "framed same_dispatches (insert_journal row)" "framed same_dispatches (set_journal b c)"
  by (rule framedI, auto simp: insert_journal_def set_journal_def same_dispatches_def split: if_splits)+

interpretation dispatches: quiet_frame same_dispatches
  by unfold_locales (auto simp: same_dispatches_def same_dispatches_journal intro: storeT_same_dispatches)

lemmas same_dispatches_prepare = dispatches.prepare_framed [OF same_dispatches_journal(1)]
lemmas same_dispatches_cancel = dispatches.cancel_journal_framed [OF same_dispatches_journal(1)]

lemma same_dispatches_swap: "framed same_dispatches (swap_journal c)"
  unfolding swap_journal_def by (intro dispatches.framed_bind dispatches.framed_ask same_dispatches_journal)

interpretation dispatches: using_frame same_dispatches
  by unfold_locales
    (auto simp: same_dispatches_def intro!: dispatches.claim_framed dispatches.outcome_framed storeT_same_dispatches)

lemma kept_modify: "(\<And>s. kept s (f s)) \<Longrightarrow> framed kept (modifyT f)"
  by (rule framedI) simp

lemma kept_retire_undispatched: "framed kept (retire_undispatched h w)"
proof (rule kept.retired_framed)
  show "framed kept (storeT (\<lambda>d. bindR (finalize r c d) (\<lambda>(_, d1). Inr ((), unclaim i d1))))" for r c i
    by (rule storeT_framed) (auto simp: unclaim_def dest: finalize_attempts)
qed (rule kept_modify, simp add: kept_def)

lemma kept_settle: "framed kept (settle_effects h previous c terminal)"
  unfolding settle_effects_def Let_def by (intro kept.quiet_rules kept_retire_undispatched)

section \<open>Works\<close>

definition row_typed :: "work_row \<Rightarrow> bool" where
  "row_typed row \<longleftrightarrow>
     wr_work_id row = wk_work_id (wr_payload row)
     \<and> wr_analysis_id row = work_analysis (wr_payload row)
     \<and> wr_status row = wk_status (wr_payload row)
     \<and> wr_state_version row = wk_state_version (wr_payload row)
     \<and> wr_active_attempt_id row = wk_active_attempt_id (wr_payload row)
     \<and> validate_work (wr_payload row) = Inr ()"

definition typed :: "wdb \<Rightarrow> bool" where
  "typed s \<longleftrightarrow>
     tbl_ok wr_work_id (wd_works s) \<and> tbl_ok wr_registration_key (wd_works s)
     \<and> list_all row_typed (wd_works s)"

definition works :: "wdb \<Rightarrow> work list" where
  "works s = map wr_payload (wd_works s)"

definition replace_work :: "work \<Rightarrow> work list \<Rightarrow> work list" where
  "replace_work w = update_rows (\<lambda>x. wk_work_id x = wk_work_id w) (\<lambda>_. w)"

lemma typed_ids: "typed s \<Longrightarrow> map wr_work_id (wd_works s) = map wk_work_id (works s)"
  by (simp add: typed_def works_def row_typed_def list_all_iff)

lemma typed_distinct: "typed s \<Longrightarrow> tbl_ok wk_work_id (works s)"
  using typed_ids [of s] by (simp add: typed_def tbl_ok_def)

lemma tbl_ok_inj: "tbl_ok key t \<Longrightarrow> x \<in> set t \<Longrightarrow> y \<in> set t \<Longrightarrow> key x = key y \<Longrightarrow> x = y"
  by (auto simp: tbl_ok_def distinct_map dest: inj_onD)

lemma typed_work: "typed s \<Longrightarrow> w \<in> set (works s) \<Longrightarrow> validate_work w = Inr ()"
  by (auto simp: typed_def works_def row_typed_def list_all_iff)

lemma get_work_mem: "get_work s i = Inr w \<Longrightarrow> w \<in> set (works s)"
  by (auto simp: get_work_def works_def dest: tbl_lookup_Some split: option.splits)

lemma get_work_id: "typed s \<Longrightarrow> get_work s i = Inr w \<Longrightarrow> wk_work_id w = i"
  by (auto simp: get_work_def typed_def row_typed_def list_all_iff dest: tbl_lookup_Some split: option.splits)

lemma get_work_iff:
  assumes "typed s"
  shows "get_work s i = Inr w \<longleftrightarrow> w \<in> set (works s) \<and> wk_work_id w = i"
proof
  assume "w \<in> set (works s) \<and> wk_work_id w = i"
  then obtain row where row: "row \<in> set (wd_works s)" "wr_payload row = w" "wk_work_id w = i"
    by (auto simp: works_def)
  have "row_typed row" using assms row(1) by (simp add: typed_def list_all_iff)
  then have id: "wr_work_id row = i" using row(2,3) by (simp add: row_typed_def)
  have "tbl_ok wr_work_id (wd_works s)" using assms by (simp add: typed_def)
  then have "tbl_lookup wr_work_id (wd_works s) i = Some row"
    using tbl_lookup_mem [of wr_work_id "wd_works s" row] row(1) id by simp
  then show "get_work s i = Inr w" using row(2) by (simp add: get_work_def)
qed (use get_work_mem get_work_id [OF assms] in blast)

lemma swap_effect:
  assumes typed: "typed s" and previous: "previous \<in> set (works s)"
    and w: "wk_work_id w = wk_work_id previous" "work_analysis w = work_analysis previous"
      "validate_work w = Inr ()"
    and h: "swap_work previous w s = Inr (u, t)"
  shows "typed t" "works t = replace_work w (works s)" "wd_works t = update_rows (same_version previous w) (set_work w) (wd_works s)"
    "wd_store t = wd_store s" "wd_controls t = wd_controls s" "wd_dispatches t = wd_dispatches s"
proof -
  show t: "wd_works t = update_rows (same_version previous w) (set_work w) (wd_works s)"
    "wd_store t = wd_store s" "wd_controls t = wd_controls s" "wd_dispatches t = wd_dispatches s"
    using h by (auto simp: swap_work_def split: if_splits)
  have ids: "tbl_ok wk_work_id (works s)" by (rule typed_distinct [OF typed])
  have rows: "row_typed row" if "row \<in> set (wd_works s)" for row
    using typed that by (auto simp: typed_def list_all_iff)
  have same: "same_version previous w row \<longleftrightarrow> wk_work_id (wr_payload row) = wk_work_id w"
    if row: "row \<in> set (wd_works s)" for row
  proof -
    have "wr_payload row = previous" if "wk_work_id (wr_payload row) = wk_work_id w"
      by (rule tbl_ok_inj [OF ids _ previous]) (use row that w(1) in \<open>simp_all add: works_def\<close>)
    then show ?thesis using rows [OF row] by (auto simp: same_version_def row_typed_def)
  qed
  show "works t = replace_work w (works s)"
    unfolding works_def t(1) replace_work_def update_rows_def
    by (simp add: same set_work_def)
  have "row_typed (set_work w row)" if "row \<in> set (wd_works s)" "same_version previous w row" for row
  proof -
    have "wr_payload row = previous"
      by (rule tbl_ok_inj [OF ids _ previous]) (use that same [OF that(1)] w(1) in \<open>simp_all add: works_def\<close>)
    then show ?thesis using rows [OF that(1)] w by (simp add: row_typed_def set_work_def)
  qed
  then have "list_all row_typed (wd_works t)" using rows by (auto simp: t(1) update_rows_def list_all_iff)
  moreover have "map wr_work_id (wd_works t) = map wr_work_id (wd_works s)"
    "map wr_registration_key (wd_works t) = map wr_registration_key (wd_works s)"
    by (simp_all add: t(1) update_rows_def set_work_def)
  ultimately show "typed t" using typed by (simp add: typed_def tbl_ok_def)
qed

lemma set_lease_effect:
  assumes "set_lease i worker lease s = Inr (u, t)" "typed s"
  shows "typed t" "works t = works s" "wd_store t = wd_store s" "wd_controls t = wd_controls s"
    "wd_dispatches t = wd_dispatches s"
proof -
  let ?f = "\<lambda>row :: work_row. row\<lparr>wr_worker_id := worker, wr_lease_expires_at := lease\<rparr>"
  have t: "t = s\<lparr>wd_works := update_rows (\<lambda>row. wr_work_id row = i) ?f (wd_works s)\<rparr>"
    using assms(1) by (simp add: set_lease_def)
  have rows: "row_typed row" if "row \<in> set (wd_works s)" for row
    using assms(2) that by (auto simp: typed_def list_all_iff)
  have "map wr_work_id (wd_works t) = map wr_work_id (wd_works s)"
    "map wr_registration_key (wd_works t) = map wr_registration_key (wd_works s)"
    by (simp_all add: t update_rows_def)
  moreover have "row_typed row \<Longrightarrow> row_typed (?f row)" for row
    by (simp add: row_typed_def)
  then have "list_all row_typed (wd_works t)"
    using rows by (auto simp: t update_rows_def list_all_iff)
  ultimately show "typed t" using assms(2) by (simp add: typed_def tbl_ok_def)
  show "works t = works s" by (simp add: works_def t update_rows_def)
qed (use assms(1) in \<open>simp_all add: set_lease_def\<close>)

lemma kept_typed: "kept s t \<Longrightarrow> typed t = typed s" "kept s t \<Longrightarrow> works t = works s"
  "kept s t \<Longrightarrow> cancel_latched t a = cancel_latched s a"
  by (simp_all add: kept_def typed_def works_def cancel_latched_def)

lemma save_effect:
  assumes typed: "typed s" and previous: "previous \<in> set (works s)"
    and w: "wk_work_id w = wk_work_id previous" "work_analysis w = work_analysis previous"
      "validate_work w = Inr ()"
    and h: "save h previous w s = Inr (u, t)"
  shows "typed t" "works t = replace_work w (works s)"
    "sd_attempts (wd_store t) = sd_attempts (wd_store s)" "wd_controls t = wd_controls s"
    "wd_dispatches t = wd_dispatches s"
proof -
  obtain ref u1 u2 u3 s1 s2 s3 s4 where
    1: "keepT (WorkExecutionState w) s = Inr (ref, s1)" and
    2: "swap_work previous w s1 = Inr (u1, s2)" and
    3: "storeT (point w) s2 = Inr (u2, s3)" and
    4: "advance_verification_work h previous w s3 = Inr (u3, s4)" and
    5: "advance_dynamic_work h previous w s4 = Inr (u, t)"
    using h unfolding save_def by auto
  have k1: "kept s s1" by (rule framedD [OF kept.framed_keep 1])
  have k3: "kept s2 s3" by (rule framedD [OF kept.framed_point 3])
  have k4: "kept s3 s4" by (rule framedD [OF kept.framed_advance_verification 4])
  have k5: "kept s4 t" by (rule framedD [OF kept.framed_advance_dynamic 5])
  have k: "kept s2 t" by (rule kept.frame_trans [OF k3 kept.frame_trans [OF k4 k5]])
  have d: "same_dispatches s2 t"
    by (rule dispatches.frame_trans [OF framedD [OF dispatches.framed_point 3]
        dispatches.frame_trans [OF framedD [OF dispatches.framed_advance_verification 4]
          framedD [OF dispatches.framed_advance_dynamic 5]]])
  have d1: "same_dispatches s s1" by (rule framedD [OF dispatches.framed_keep 1])
  have s1: "typed s1" "previous \<in> set (works s1)" using typed previous kept_typed(1,2) [OF k1] by simp_all
  note S = swap_effect [OF s1 w 2]
  show "typed t" "works t = replace_work w (works s)"
    "sd_attempts (wd_store t) = sd_attempts (wd_store s)" "wd_controls t = wd_controls s"
    "wd_dispatches t = wd_dispatches s"
    using S kept_typed(1,2) [OF k] kept_typed(2) [OF k1] k k1 d d1
    by (simp_all add: kept_def same_dispatches_def)
qed

end
