(* ===== verification/Work_Operations.thy ===== *)
theory Work_Operations
  imports Work_Effects
begin

text \<open>
  The effect of registering a work, making it ready, starting and ending an attempt, and cancelling.
\<close>

section \<open>Moves\<close>

text \<open>One work moves along an allowed transition to its next version; the others stay.\<close>

definition moved :: "wdb \<Rightarrow> wdb \<Rightarrow> work \<Rightarrow> work \<Rightarrow> bool" where
  "moved s t p w \<longleftrightarrow>
     typed t \<and> p \<in> set (works s) \<and> works t = replace_work w (works s)
     \<and> wk_work_id w = wk_work_id p \<and> work_analysis w = work_analysis p
     \<and> wk_status w \<in> ALLOWED_TRANSITIONS (wk_status p) \<and> wk_state_version w = wk_state_version p + 1
     \<and> validate_work w = Inr () \<and> wd_controls t = wd_controls s"

lemma next_meta_analysis: "next_meta m i now = Inr m' \<Longrightarrow> meta_analysis m' = meta_analysis m"
  by (auto simp: next_meta_def Let_def)

lemma next_metaT_analysis: "next_metaT h m s = Inr (m', t) \<Longrightarrow> meta_analysis m' = meta_analysis m"
  by (auto simp: next_metaT_def intro: next_meta_analysis)

lemma moved_intro:
  assumes typed: "typed s" and s1: "kept s s1" and p: "p \<in> set (works s)"
    and w: "wk_work_id w = wk_work_id p" "work_analysis w = work_analysis p" "validate_work w = Inr ()"
      "wk_status w \<in> ALLOWED_TRANSITIONS (wk_status p)" "wk_state_version w = wk_state_version p + 1"
    and h: "save h p w s1 = Inr (u, t)"
  shows "moved s t p w" "sd_attempts (wd_store t) = sd_attempts (wd_store s1)" "wd_dispatches t = wd_dispatches s1"
proof -
  have "typed s1" "p \<in> set (works s1)" using typed p kept_typed(1,2) [OF s1] by simp_all
  note S = save_effect [OF this w(1-3) h]
  show "moved s t p w"
    using S w p s1 kept_typed(2) [OF s1] by (simp add: moved_def kept_def)
  show "sd_attempts (wd_store t) = sd_attempts (wd_store s1)" "wd_dispatches t = wd_dispatches s1"
    using S by simp_all
qed

lemma keepT_valid: "keepT r s = Inr (ref, t) \<Longrightarrow> validate_record r = Inr ()"
  by (auto simp: keepT_def storeT_eq stage_publish_def stage_record_def encode_record_def decode_check_def
      Let_def split: if_splits)

lemma validate_transition_allowed:
  assumes "validate_transition t = Inr ()"
  shows "work_status_of (tr_to_status t) \<in> ALLOWED_TRANSITIONS (tr_from_status t)"
    "tr_new_state_version t = tr_expected_state_version t + 1"
  using assms by (auto simp: validate_transition_def transition_shape_def)

lemma transition_contextD:
  assumes "validate_transition_context t p trigger = Inr ()"
  shows "tr_work_id t = wk_work_id p" "tr_expected_state_version t = wk_state_version p"
    "tr_from_status t = wk_status p"
  using assms by (auto simp: validate_transition_context_def)

section \<open>Registration\<close>

lemma register_cases:
  assumes "register au h w ref reservation s = Inr (x, t)" "typed s"
  obtains (again) row key where "t = s" "x = wr_payload row" "registration_key w = Inr key"
      "tbl_lookup wr_registration_key (wd_works s) key = Some row" "\<not> cancel_latched s (work_analysis w)"
  | (new) key s1 s2 where "x = w" "validate_work w = Inr ()" "wk_status w = W_PENDING"
      "registration_key w = Inr key" "\<not> cancel_latched s (work_analysis w)"
      "claim au h ref REGISTER_WORK w reservation True s = Inr (s1, s2)"
      "typed t" "works t = works s @ [w]" "wk_work_id w \<notin> wk_work_id ` set (works s)"
      "sd_attempts (wd_store t) = sd_attempts (wd_store s)" "wd_controls t = wd_controls s"
      "wd_dispatches t = wd_dispatches s"
proof -
  obtain key where v: "validate_work w = Inr ()" "registration_key w = Inr key"
    "\<not> cancel_latched s (work_analysis w)"
    and rest: "(case tbl_lookup wr_registration_key (wd_works s) key of
         Some row \<Rightarrow> retT (wr_payload row)
       | None \<Rightarrow> register_new au h w key ref reservation) s = Inr (x, t)"
    using assms(1) unfolding register_def by (auto simp: reject_cancelled_def)
  show ?thesis
  proof (cases "tbl_lookup wr_registration_key (wd_works s) key")
    case (Some row)
    then show ?thesis using again [OF _ _ v(2) Some v(3)] rest by simp
  next
    case None
    then obtain d s1 s2 s3 ref' u u' where p: "wk_status w = W_PENDING" and
      1: "claim au h ref REGISTER_WORK w reservation True s = Inr (d, s1)" and
      2: "keepT (WorkExecutionState w) s1 = Inr (ref', s2)" and
      3: "insert_work (work_row_of w key) s2 = Inr (u, s3)" and
      4: "storeT (point w) s3 = Inr (u', t)" and x: "x = w"
      using rest unfolding register_new_def by auto
    have k12: "kept s s2"
      by (rule kept.frame_trans [OF framedD [OF kept.framed_claim 1] framedD [OF kept.framed_keep 2]])
    have d12: "same_dispatches s s2"
      by (rule dispatches.frame_trans [OF framedD [OF dispatches.framed_claim 1] framedD [OF dispatches.framed_keep 2]])
    have k4: "kept s3 t" by (rule framedD [OF kept.framed_point 4])
    have d4: "same_dispatches s3 t" by (rule framedD [OF dispatches.framed_point 4])
    have s3: "s3 = s2\<lparr>wd_works := wd_works s2 @ [work_row_of w key]\<rparr>"
      and new_id: "wk_work_id w \<notin> wr_work_id ` set (wd_works s2)"
      and new_key: "key \<notin> wr_registration_key ` set (wd_works s2)"
      using 3 by (auto simp: insert_work_def work_row_of_def tbl_lookup_None split: if_splits)
    have "wk_active_attempt_id w = None"
      using v(1) p by (auto simp: validate_work_def work_shape_def Let_def)
    then have row: "row_typed (work_row_of w key)"
      using v(1) by (simp add: row_typed_def work_row_of_def)
    have works: "wd_works t = wd_works s @ [work_row_of w key]"
      using k12 k4 s3 by (simp add: kept_def)
    have "typed t"
      using assms(2) works new_id new_key row k12
      by (auto simp: typed_def work_row_of_def kept_def intro!: tbl_ok_snoc)
    moreover have "works t = works s @ [w]" by (simp add: works_def works work_row_of_def)
    moreover have "wk_work_id w \<notin> wk_work_id ` set (works s)"
    proof -
      have "wr_work_id ` set (wd_works s) = wk_work_id ` set (works s)"
        using arg_cong [OF typed_ids [OF assms(2)], of set] by simp
      then show ?thesis using new_id k12 by (simp add: kept_def)
    qed
    ultimately show ?thesis
      using new [OF x v(1) p v(2,3) 1] k12 d12 k4 d4 s3 by (simp add: kept_def same_dispatches_def)
  qed
qed

section \<open>Readiness\<close>

lemma make_ready_effect:
  assumes "make_ready au h tr s = Inr (w, t)" "typed s"
  obtains p where "moved s t p w" "\<not> cancel_latched s (work_analysis p)"
    "wk_status p \<in> {W_PENDING, W_BLOCKED}" "wk_status w = W_READY"
    "sd_attempts (wd_store t) = sd_attempts (wd_store s)" "wd_dispatches t = wd_dispatches s"
proof -
  obtain p d ref meta s1 s2 s3 where
    p: "get_work s (tr_work_id tr) = Inr p" and nc: "\<not> cancel_latched s (work_analysis p)" and
    ctx: "validate_transition_context tr p None = Inr ()" and
    st: "tr_to_status tr = T_READY" "wk_status p \<in> {W_PENDING, W_BLOCKED}" and
    1: "claim au h (tr_action_decision_ref tr) CHANGE_WORK_STATE p None False s = Inr (d, s1)" and
    2: "keepT (StateTransition tr) s1 = Inr (ref, s2)" and
    3: "next_metaT h (wk_meta p) s2 = Inr (meta, s3)" and
    w: "w = p\<lparr>wk_meta := meta, wk_status := W_READY, wk_state_version := tr_new_state_version tr,
           wk_last_transition_ref := Some ref, wk_output_refs := [], wk_waiting_for := [],
           wk_stop_reason := None\<rparr>" and
    v: "validate_work w = Inr ()" and 4: "save h p w s3 = Inr ((), t)"
    using assms(1) unfolding make_ready_def Let_def by (auto simp: reject_cancelled_def)
  have k: "kept s s3"
    by (rule kept.frame_trans [OF framedD [OF kept.framed_claim 1]
        kept.frame_trans [OF framedD [OF kept.framed_keep 2] framedD [OF kept.framed_next_meta 3]]])
  have dis: "same_dispatches s s3"
    by (rule dispatches.frame_trans [OF framedD [OF dispatches.framed_claim 1]
        dispatches.frame_trans [OF framedD [OF dispatches.framed_keep 2] framedD [OF dispatches.framed_next_meta 3]]])
  have tr: "validate_transition tr = Inr ()" using keepT_valid [OF 2] by simp
  note T = validate_transition_allowed [OF tr] and C = transition_contextD [OF ctx]
  note M = moved_intro [OF assms(2) k get_work_mem [OF p] _ _ v _ _ 4]
  have "wk_work_id w = wk_work_id p" "work_analysis w = work_analysis p"
    "wk_status w \<in> ALLOWED_TRANSITIONS (wk_status p)" "wk_state_version w = wk_state_version p + 1"
    using w T C st next_metaT_analysis [OF 3] by auto
  from M [OF this] that show ?thesis
    using nc st(2) w k dis by (simp add: kept_def same_dispatches_def)
qed

section \<open>Attempts\<close>

definition attempts :: "wdb \<Rightarrow> attempt list" where
  "attempts s = map aw_payload (sd_attempts (wd_store s))"

definition attempts_typed :: "wdb \<Rightarrow> bool" where
  "attempts_typed s \<longleftrightarrow>
     tbl_ok aw_attempt_id (sd_attempts (wd_store s))
     \<and> list_all (\<lambda>row. aw_attempt_id row = wa_attempt_id (aw_payload row)) (sd_attempts (wd_store s))"

definition attempts_on :: "wdb \<Rightarrow> string \<Rightarrow> attempt list" where
  "attempts_on s i = filter (\<lambda>a. wa_work_id a = i) (attempts s)"

definition replace_attempt :: "attempt \<Rightarrow> attempt list \<Rightarrow> attempt list" where
  "replace_attempt a = update_rows (\<lambda>x. wa_attempt_id x = wa_attempt_id a) (\<lambda>_. a)"

lemma attempts_distinct: "attempts_typed s \<Longrightarrow> tbl_ok wa_attempt_id (attempts s)"
proof -
  assume ok: "attempts_typed s"
  then have "map aw_attempt_id (sd_attempts (wd_store s)) = map wa_attempt_id (attempts s)"
    by (simp add: attempts_typed_def attempts_def list_all_iff)
  then show ?thesis using ok by (simp add: attempts_typed_def tbl_ok_def)
qed

lemma attempts_of_on: "attempts_of (wd_store s) i = sort_key wa_attempt_number (attempts_on s i)"
  by (simp add: attempts_of_def attempts_on_def attempts_def)

lemma insert_work_attempt_effect:
  assumes "storeT (insert_work_attempt a) s = Inr (u, t)" "attempts_typed s"
  shows "attempts t = attempts s @ [a]" "attempts_typed t" "wa_attempt_id a \<notin> wa_attempt_id ` set (attempts s)"
    "wd_works t = wd_works s" "wd_controls t = wd_controls s" "wd_dispatches t = wd_dispatches s"
proof -
  have fresh: "wa_attempt_id a \<notin> aw_attempt_id ` set (sd_attempts (wd_store s))"
    and t: "t = s\<lparr>wd_store := (wd_store s)\<lparr>sd_attempts := sd_attempts (wd_store s) @
              [\<lparr>aw_attempt_id = wa_attempt_id a, aw_payload = a\<rparr>]\<rparr>\<rparr>"
    using assms(1) by (auto simp: storeT_eq insert_work_attempt_def tbl_lookup_None split: if_splits)
  show "attempts t = attempts s @ [a]" "wd_works t = wd_works s" "wd_controls t = wd_controls s"
    "wd_dispatches t = wd_dispatches s"
    by (simp_all add: t attempts_def)
  show "attempts_typed t"
    using assms(2) fresh by (auto simp: t attempts_typed_def intro!: tbl_ok_snoc)
  show "wa_attempt_id a \<notin> wa_attempt_id ` set (attempts s)"
    using assms(2) fresh by (force simp: attempts_typed_def attempts_def list_all_iff)
qed

lemma update_attempt_effect:
  assumes "update_attempt P a s = Inr (u, t)" "attempts_typed s"
    and row: "tbl_lookup aw_attempt_id (sd_attempts (wd_store s)) (wa_attempt_id a) = Some row" "P row"
  shows "attempts t = replace_attempt a (attempts s)" "attempts_typed t"
    "wd_works t = wd_works s" "wd_controls t = wd_controls s" "wd_dispatches t = wd_dispatches s"
proof -
  let ?rows = "sd_attempts (wd_store s)"
  have t: "t = s\<lparr>wd_store := (wd_store s)\<lparr>sd_attempts :=
       update_rows (\<lambda>row. aw_attempt_id row = wa_attempt_id a \<and> P row) (\<lambda>row. row\<lparr>aw_payload := a\<rparr>) ?rows\<rparr>\<rparr>"
    using assms(1) by (simp add: update_attempt_def)
  have mem: "row \<in> set ?rows" "aw_attempt_id row = wa_attempt_id a" using tbl_lookup_Some [OF row(1)] by auto
  have ok: "tbl_ok aw_attempt_id ?rows" using assms(2) by (simp add: attempts_typed_def)
  have here: "aw_attempt_id r = wa_attempt_id a \<and> P r \<longleftrightarrow> wa_attempt_id (aw_payload r) = wa_attempt_id a"
    if r: "r \<in> set ?rows" for r
  proof -
    have e: "aw_attempt_id r = wa_attempt_id (aw_payload r)"
      using assms(2) r by (simp add: attempts_typed_def list_all_iff)
    have "r = row" if "aw_attempt_id r = wa_attempt_id a"
      using tbl_ok_inj [OF ok r mem(1)] mem(2) that by simp
    then show ?thesis using e row(2) by auto
  qed
  show "attempts t = replace_attempt a (attempts s)"
    by (simp add: t attempts_def replace_attempt_def update_rows_def here)
  have "map aw_attempt_id (sd_attempts (wd_store t)) = map aw_attempt_id ?rows"
    by (simp add: t update_rows_def)
  moreover have "list_all (\<lambda>row. aw_attempt_id row = wa_attempt_id (aw_payload row)) (sd_attempts (wd_store t))"
    using assms(2) by (auto simp: t attempts_typed_def update_rows_def list_all_iff)
  ultimately show "attempts_typed t" using ok by (simp add: attempts_typed_def tbl_ok_def)
qed (use assms(1) in \<open>simp_all add: update_attempt_def\<close>)

lemma kept_attempts: "kept s t \<Longrightarrow> attempts t = attempts s" "kept s t \<Longrightarrow> attempts_typed t = attempts_typed s"
  by (simp_all add: kept_def attempts_def attempts_typed_def)

lemma check_use_state:
  "check_use au h ref kind w reservation b s = Inr (x, t) \<Longrightarrow> t = s\<lparr>wd_ticks := Suc (wd_ticks s)\<rparr>"
  unfolding check_use_def by auto

section \<open>Starting\<close>

lemma start_effect:
  assumes h: "start_attempt au h tr a reservation worker lease s = Inr (w, t)"
    and ok: "typed s" "attempts_typed s"
  obtains p d act n where "moved s t p w" "\<not> cancel_latched s (work_analysis p)"
    "\<not> uncertain s (wk_work_id p)"
    "wk_status p = W_READY" "wk_status w = W_RUNNING" "wk_active_attempt_id w = Some (wa_attempt_id a)"
    "check_use au h (tr_action_decision_ref tr) START_ATTEMPT p (Some reservation) True (s\<lparr>wd_ticks := n\<rparr>)
       = Inr ((d, act), s\<lparr>wd_ticks := Suc n\<rparr>)"
    "\<exists>prior. start_admitted au (s\<lparr>wd_ticks := Suc n\<rparr>) a act p reservation = Inr prior
       \<and> validate_attempt_context a w prior = Inr ()"
    "fresh_attempt a = Inr ()" "attempts t = attempts s @ [a]" "attempts_typed t"
    "wa_attempt_id a \<notin> wa_attempt_id ` set (attempts s)" "wd_dispatches t = wd_dispatches s"
proof -
  obtain p d act prior ref meta s0 s1 s2 s3 s4 s5 s6 s7 u4 u5 u6 where
    fr: "fresh_attempt a = Inr ()" and
    0: "s0 = s\<lparr>wd_ticks := Suc (wd_ticks s)\<rparr>" and
    p: "get_work s0 (tr_work_id tr) = Inr p" and nc: "\<not> cancel_latched s0 (work_analysis p)" and
    nu: "\<not> uncertain s0 (wk_work_id p)" and
    ctx: "validate_transition_context tr p None = Inr ()" and
    st: "wk_status p = W_READY" "tr_to_status tr = T_RUNNING" "tr_attempt_id tr = Some (wa_attempt_id a)" and
    1: "check_use au h (tr_action_decision_ref tr) START_ATTEMPT p (Some reservation) True s0 = Inr ((d, act), s1)" and
    ad: "start_admitted au s1 a act p reservation = Inr prior" and
    2: "keepT (StateTransition tr) s1 = Inr (ref, s2)" and
    3: "next_metaT h (wk_meta p) s2 = Inr (meta, s3)" and
    w: "w = p\<lparr>wk_meta := meta, wk_status := W_RUNNING, wk_state_version := tr_new_state_version tr,
           wk_active_attempt_id := Some (wa_attempt_id a), wk_last_transition_ref := Some ref,
           wk_started_at := opt_or (wk_started_at p) (Some (wa_started_at a))\<rparr>" and
    v: "validate_work w = Inr ()" "validate_attempt_context a w prior = Inr ()" and
    4: "claim au h (tr_action_decision_ref tr) START_ATTEMPT p (Some reservation) True s3 = Inr (u4, s4)" and
    5: "keepT (WorkAttempt a) s4 = Inr (u5, s5)" and
    6: "save h p w s5 = Inr ((), s6)" and
    7: "storeT (insert_work_attempt a) s6 = Inr ((), s7)" and
    8: "set_lease (wk_work_id w) (Some worker) (Some lease) s7 = Inr ((), t)"
    using h unfolding start_attempt_def Let_def
    by (cases "worker = []") (auto simp: reject_cancelled_def reject_uncertain_def)
  have s1: "s1 = s0\<lparr>wd_ticks := Suc (wd_ticks s0)\<rparr>" by (rule check_use_state [OF 1])
  have k01: "kept s s1" by (simp add: 0 s1 kept_def)
  have k: "kept s s5"
    by (rule kept.frame_trans [OF k01 kept.frame_trans [OF framedD [OF kept.framed_keep 2]
        kept.frame_trans [OF framedD [OF kept.framed_next_meta 3] kept.frame_trans [OF framedD [OF kept.framed_claim 4]
          framedD [OF kept.framed_keep 5]]]]])
  have d01: "same_dispatches s s1" by (simp add: 0 s1 same_dispatches_def)
  have dis: "same_dispatches s s5"
    by (rule dispatches.frame_trans [OF d01 dispatches.frame_trans [OF framedD [OF dispatches.framed_keep 2]
        dispatches.frame_trans [OF framedD [OF dispatches.framed_next_meta 3] dispatches.frame_trans [OF framedD [OF dispatches.framed_claim 4]
          framedD [OF dispatches.framed_keep 5]]]]])
  have tr: "validate_transition tr = Inr ()" using keepT_valid [OF 2] by simp
  note T = validate_transition_allowed [OF tr] and C = transition_contextD [OF ctx]
  have ps: "p \<in> set (works s)" using get_work_mem [OF p] by (simp add: 0 works_def)
  have eqs: "wk_work_id w = wk_work_id p" "work_analysis w = work_analysis p"
    "wk_status w \<in> ALLOWED_TRANSITIONS (wk_status p)" "wk_state_version w = wk_state_version p + 1"
    using w T C st next_metaT_analysis [OF 3] by auto
  note M = moved_intro [OF ok(1) k ps eqs(1,2) v(1) eqs(3,4) 6]
  have at6: "attempts_typed s6" "attempts s6 = attempts s"
    using M(2) k ok(2) by (simp_all add: kept_def attempts_def attempts_typed_def)
  note I = insert_work_attempt_effect [OF 7 at6(1)]
  have typed7: "typed s7" using M(1) I(4) by (simp add: moved_def typed_def)
  note L = set_lease_effect [OF 8 typed7]
  have "moved s t p w"
    using M(1) I L by (simp add: moved_def works_def)
  then show ?thesis
  proof (rule that)
    show "check_use au h (tr_action_decision_ref tr) START_ATTEMPT p (Some reservation) True
        (s\<lparr>wd_ticks := wd_ticks s0\<rparr>) = Inr ((d, act), s\<lparr>wd_ticks := Suc (wd_ticks s0)\<rparr>)"
      using 1 s1 0 by simp
    show "\<exists>prior. start_admitted au (s\<lparr>wd_ticks := Suc (wd_ticks s0)\<rparr>) a act p reservation = Inr prior
       \<and> validate_attempt_context a w prior = Inr ()"
      using ad s1 0 v(2) by auto
    show "\<not> cancel_latched s (work_analysis p)" "\<not> uncertain s (wk_work_id p)"
      using nc nu 0 by (simp_all add: cancel_latched_def uncertain_def)
    show "attempts t = attempts s @ [a]" "attempts_typed t"
      using I(1,2) L(3) at6(2) by (simp_all add: attempts_def attempts_typed_def)
    show "wa_attempt_id a \<notin> wa_attempt_id ` set (attempts s)" using I(3) at6(2) by simp
    show "wd_dispatches t = wd_dispatches s" using I L M(3) dis by (simp add: same_dispatches_def)
  qed (use st w fr in auto)
qed

section \<open>Ending\<close>

text \<open>
  The attempt that was active ends: it is replaced by a version that no longer runs.
\<close>

definition ended :: "wdb \<Rightarrow> wdb \<Rightarrow> work \<Rightarrow> bool" where
  "ended s t p \<longleftrightarrow>
     attempts_typed t
     \<and> (case wk_active_attempt_id p of
          None \<Rightarrow> attempts t = attempts s
        | Some i \<Rightarrow> \<exists>a \<in> set (attempts s). \<exists>b. wa_attempt_id a = i \<and> attempts t = replace_attempt b (attempts s)
             \<and> wa_attempt_id b = i \<and> wa_work_id b = wa_work_id a
             \<and> wa_attempt_number b = wa_attempt_number a \<and> wa_status b \<noteq> A_RUNNING)"

lemma ended_cong: "ended s t p \<Longrightarrow> sd_attempts (wd_store t') = sd_attempts (wd_store t) \<Longrightarrow> ended s t' p"
  by (auto simp: ended_def attempts_def attempts_typed_def split: option.splits)

lemma ended_start: "ended s' t p \<Longrightarrow> sd_attempts (wd_store s) = sd_attempts (wd_store s') \<Longrightarrow> ended s t p"
  by (auto simp: ended_def attempts_def attempts_typed_def split: option.splits)

lemma attempt_lookup:
  assumes "attempts_typed s" "tbl_lookup aw_attempt_id (sd_attempts (wd_store s)) i = Some row"
  shows "aw_payload row \<in> set (attempts s)" "wa_attempt_id (aw_payload row) = i"
  using tbl_lookup_Some [OF assms(2)] assms(1) by (auto simp: attempts_def attempts_typed_def list_all_iff)

lemma end_attempt_effect:
  assumes "end_attempt h p w terminal s = Inr (u, t)" "attempts_typed s"
    and "terminal \<longrightarrow> wk_status w \<in> TERMINAL_WORK_STATUSES"
  shows "ended s t p" "wd_works t = wd_works s" "wd_controls t = wd_controls s" "wd_dispatches t = wd_dispatches s"
proof -
  have "ended s t p \<and> wd_works t = wd_works s \<and> wd_controls t = wd_controls s \<and> wd_dispatches t = wd_dispatches s"
  proof (cases "wk_active_attempt_id p")
    case None
    then show ?thesis using assms(1,2) by (simp add: end_attempt_def ended_def)
  next
    case (Some i)
    obtain row meta s1 s2 ref s3 b where
      row: "tbl_lookup aw_attempt_id (sd_attempts (wd_store s)) i = Some row" and
      1: "next_metaT h (wa_meta (aw_payload row)) s = Inr (meta, s1)" and
      2: "s2 = s1\<lparr>wd_ticks := Suc (wd_ticks s1)\<rparr>" and
      b: "b = (aw_payload row)\<lparr>wa_meta := meta,
            wa_status := (if terminal then attempt_status_of (wk_status w) else A_CANCELLED),
            wa_finished_at := Some (ho_now h (wd_ticks s1)), wa_output_refs := wk_output_refs w,
            wa_gap_ids := wk_gap_ids w, wa_error_ids := wk_error_ids w\<rparr>" and
      3: "keepT (WorkAttempt b) s2 = Inr (ref, s3)" and
      4: "update_attempt (\<lambda>_. True) b s3 = Inr (u, t)"
      using assms(1) Some unfolding end_attempt_def Let_def
      by (auto split: option.splits)
    have "kept s1 s2" by (simp add: 2 kept_def)
    then have k: "kept s s3"
      by (intro kept.frame_trans [OF framedD [OF kept.framed_next_meta 1]
          kept.frame_trans [OF _ framedD [OF kept.framed_keep 3]]])
    have "same_dispatches s1 s2" by (simp add: 2 same_dispatches_def)
    then have d: "same_dispatches s s3"
      by (intro dispatches.frame_trans [OF framedD [OF dispatches.framed_next_meta 1]
          dispatches.frame_trans [OF _ framedD [OF dispatches.framed_keep 3]]])
    have at3: "attempts_typed s3" "attempts s3 = attempts s"
      using kept_attempts [OF k] assms(2) by simp_all
    note R = attempt_lookup [OF assms(2) row]
    have "tbl_lookup aw_attempt_id (sd_attempts (wd_store s3)) (wa_attempt_id b) = Some row"
      using row k R(2) b by (simp add: kept_def)
    note U = update_attempt_effect [OF 4 at3(1) this TrueI]
    have "wa_status b \<noteq> A_RUNNING"
      using b assms(3) by (cases "wk_status w") (auto simp: TERMINAL_WORK_STATUSES_def)
    then have "ended s t p"
      using U(1,2) at3(2) R Some b unfolding ended_def by (auto intro!: bexI [of _ "aw_payload row"])
    then show ?thesis using U(3-5) k d by (simp add: kept_def same_dispatches_def)
  qed
  then show "ended s t p" "wd_works t = wd_works s" "wd_controls t = wd_controls s"
    "wd_dispatches t = wd_dispatches s"
    by simp_all
qed

lemma cancel_attempt_effect:
  assumes "cancel_attempt h p now s = Inr (u, t)" "attempts_typed s"
  shows "ended s t p" "wd_works t = wd_works s" "wd_controls t = wd_controls s" "wd_dispatches t = wd_dispatches s"
proof -
  have "ended s t p \<and> wd_works t = wd_works s \<and> wd_controls t = wd_controls s \<and> wd_dispatches t = wd_dispatches s"
  proof (cases "wk_active_attempt_id p")
    case None
    then show ?thesis using assms by (simp add: cancel_attempt_def ended_def)
  next
    case (Some i)
    obtain row meta s1 ref s3 b where
      row: "tbl_lookup aw_attempt_id (sd_attempts (wd_store s)) i = Some row" and
      1: "next_metaT h (wa_meta (aw_payload row)) s = Inr (meta, s1)" and
      b: "b = (aw_payload row)\<lparr>wa_meta := meta, wa_status := A_CANCELLED, wa_finished_at := Some now\<rparr>" and
      3: "keepT (WorkAttempt b) s1 = Inr (ref, s3)" and
      4: "update_attempt (\<lambda>r. aw_payload r = aw_payload row) b s3 = Inr (u, t)"
      using assms(1) Some unfolding cancel_attempt_def Let_def
      by (auto split: option.splits if_splits)
    have k: "kept s s3"
      by (rule kept.frame_trans [OF framedD [OF kept.framed_next_meta 1] framedD [OF kept.framed_keep 3]])
    have d: "same_dispatches s s3"
      by (rule dispatches.frame_trans [OF framedD [OF dispatches.framed_next_meta 1]
          framedD [OF dispatches.framed_keep 3]])
    have at3: "attempts_typed s3" "attempts s3 = attempts s"
      using kept_attempts [OF k] assms(2) by simp_all
    note R = attempt_lookup [OF assms(2) row]
    have "tbl_lookup aw_attempt_id (sd_attempts (wd_store s3)) (wa_attempt_id b) = Some row"
      using row k R(2) b by (simp add: kept_def)
    note U = update_attempt_effect [OF 4 at3(1) this refl]
    have "ended s t p"
      using U(1,2) at3(2) R Some b unfolding ended_def by (auto intro!: bexI [of _ "aw_payload row"])
    then show ?thesis using U(3-5) k d by (simp add: kept_def same_dispatches_def)
  qed
  then show "ended s t p" "wd_works t = wd_works s" "wd_controls t = wd_controls s"
    "wd_dispatches t = wd_dispatches s"
    by simp_all
qed

section \<open>Committing and cancelling\<close>

text \<open>
  What the type of a request guarantees and the first check of \<open>commit\<close>: a validated transition
  that the commit repeats.
\<close>

definition request_ok :: "commit_request \<Rightarrow> bool" where
  "request_ok q \<longleftrightarrow>
     validate_transition (cq_transition q) = Inr ()
     \<and> validate_commit_transition (cq_commit q) (cq_transition q) = Inr ()"

lemma request_okD:
  assumes "request_ok q" "validate_transition_context (cq_transition q) p None = Inr ()"
  shows "work_status_of_commit (tc_target_status (cq_commit q)) \<in> ALLOWED_TRANSITIONS (wk_status p)"
    "tc_target_state_version (cq_commit q) = wk_state_version p + 1"
proof -
  note T = validate_transition_allowed [of "cq_transition q"] and C = transition_contextD [OF assms(2)]
  have v: "tc_target_state_version (cq_commit q) = tr_new_state_version (cq_transition q)"
    "commit_target_text (tc_target_status (cq_commit q)) = target_status_text (tr_to_status (cq_transition q))"
    using assms(1) by (auto simp: request_ok_def validate_commit_transition_def)
  have "work_status_of_commit (tc_target_status (cq_commit q)) = work_status_of (tr_to_status (cq_transition q))"
    using v(2) by (cases "tc_target_status (cq_commit q)"; cases "tr_to_status (cq_transition q)") simp_all
  then show "work_status_of_commit (tc_target_status (cq_commit q)) \<in> ALLOWED_TRANSITIONS (wk_status p)"
    "tc_target_state_version (cq_commit q) = wk_state_version p + 1"
    using T C v(1) assms(1) by (simp_all add: request_ok_def)
qed

lemma check_request_state:
  assumes "check_request au h q s = Inr (p, t)"
  shows "t = s\<lparr>wd_ticks := Suc (wd_ticks s)\<rparr>" "get_work s (tc_work_id (cq_commit q)) = Inr p"
    "validate_transition_context (cq_transition q) p None = Inr ()"
  using assms unfolding check_request_def by (auto dest: check_use_state)

lemma ended_work_effect:
  assumes ok: "typed s" "attempts_typed s" and p: "p \<in> set (works s)"
    and w: "wk_work_id w = wk_work_id p" "work_analysis w = work_analysis p" "validate_work w = Inr ()"
      "wk_status w \<in> ALLOWED_TRANSITIONS (wk_status p)" "wk_state_version w = wk_state_version p + 1"
    and s1: "kept s s1" and ended: "ended s1 s2 p" "wd_works s2 = wd_works s1" "wd_controls s2 = wd_controls s1"
    and save: "save h p w s2 = Inr (u, s3)" and lease: "set_lease i a b s3 = Inr (u', t)"
  shows "moved s t p w" "ended s t p" "wd_dispatches t = wd_dispatches s2"
proof -
  have "typed s2" "p \<in> set (works s2)"
    using ok(1) p kept_typed(1,2) [OF s1] ended(2) by (simp_all add: typed_def works_def)
  note S = save_effect [OF this w(1-3) save]
  note L = set_lease_effect [OF lease S(1)]
  have "works s2 = works s" using kept_typed(2) [OF s1] ended(2) by (simp add: works_def)
  then show "moved s t p w"
    using S L w p s1 ended(3) by (simp add: moved_def kept_def)
  have "ended s s2 p" by (rule ended_start [OF ended(1)]) (use s1 in \<open>simp add: kept_def\<close>)
  then show "ended s t p" by (rule ended_cong) (simp add: L S)
  show "wd_dispatches t = wd_dispatches s2" by (simp add: L S)
qed

lemma finish_effect:
  assumes h: "finish au h q s = Inr (c, t)" and ok: "typed s" "attempts_typed s" and q: "request_ok q"
  obtains p w where "moved s t p w" "ended s t p"
    "wk_status w = work_status_of_commit (tc_target_status (cq_commit q))"
    "cancel_latched s (work_analysis p) \<longrightarrow> wk_status w = W_CANCELLED"
proof -
  obtain p meta cmeta s0 s1 s2 s3 s4 s5 s6 s7 s8 s9 s10 s11 s12 d out fin waiting w cref now where
    0: "check_request au h q s = Inr (p, s0)" and
    lat: "\<not> (cancel_latched s0 (work_analysis p) \<and> tc_target_status (cq_commit q) \<noteq> C_CANCELLED)" and
    1: "claim au h (tr_action_decision_ref (cq_transition q)) (saved_action q) p None False s0 = Inr (d, s1)" and
    2: "next_metaT h (tc_meta (cq_commit q)) s1 = Inr (cmeta, s2)" and
    3: "nowT h s2 = Inr (now, s3)" and
    4: "keepT (TransitionCommit (committed_record q cmeta now)) s3 = Inr (cref, s4)" and
    5: "forT (publish_output h p) (cq_records q) s4 = Inr ((), s5)" and
    6: "record_outcome h d (tc_output_refs (committed_record q cmeta now)) s5 = Inr (out, s6)" and
    7: "settle_effects h p d (ends_work (committed_record q cmeta now)) s6 = Inr (waiting, s7)" and
    8: "next_metaT h (wk_meta p) s7 = Inr (meta, s8)" and
    9: "finish_time h (committed_record q cmeta now) s8 = Inr (fin, s9)" and
    w: "w = finished_work p q (committed_record q cmeta now) cref meta waiting fin" and
    v: "validate_work w = Inr ()" and
    10: "end_attempt h p w (ends_work (committed_record q cmeta now)) s9 = Inr ((), s10)" and
    11: "save h p w s10 = Inr ((), s11)" and
    12: "set_lease (wk_work_id w) None None s11 = Inr ((), s12)" and
    13: "set_journal True (committed_record q cmeta now) s12 = Inr ((), t)"
    using h unfolding finish_def Let_def reject_latched_result_def
    by (auto simp del: nowT_eq)
  note R = check_request_state [OF 0] and Q = request_okD [OF q check_request_state(3) [OF 0]]
  have k0: "kept s s0" by (simp add: R(1) kept_def)
  have "framed kept (finish_time h (committed_record q cmeta now))"
    unfolding finish_time_def by (intro kept.quiet_rules)
  note k9 = framedD [OF this 9]
  have "framed kept (forT (publish_output h p) (cq_records q))"
    by (intro kept.framed_rules kept.framed_publish_output)
  note k5 = framedD [OF this 5]
  have k: "kept s s9"
    by (rule kept.frame_trans [OF k0 kept.frame_trans [OF framedD [OF kept.framed_claim 1]
        kept.frame_trans [OF framedD [OF kept.framed_next_meta 2] kept.frame_trans [OF framedD [OF kept.framed_now 3]
        kept.frame_trans [OF framedD [OF kept.framed_keep 4] kept.frame_trans [OF k5
        kept.frame_trans [OF framedD [OF kept.framed_record_outcome 6] kept.frame_trans [OF framedD [OF kept_settle 7]
        kept.frame_trans [OF framedD [OF kept.framed_next_meta 8] k9]]]]]]]]])
  have a9: "attempts_typed s9" using kept_attempts(2) [OF k] ok(2) by simp
  have cm: "tc_target_status (committed_record q cmeta now) = tc_target_status (cq_commit q)"
    "tc_target_state_version (committed_record q cmeta now) = tc_target_state_version (cq_commit q)"
    by (simp_all add: committed_record_def)
  have "ends_work (committed_record q cmeta now) \<longrightarrow> wk_status w \<in> TERMINAL_WORK_STATUSES"
    using w cm by (cases "tc_target_status (cq_commit q)")
      (simp_all add: TERMINAL_WORK_STATUSES_def ends_work_def finished_work_def)
  note E = end_attempt_effect [OF 10 a9 this]
  have ps: "p \<in> set (works s)" by (rule get_work_mem [OF R(2)])
  have eqs: "wk_work_id w = wk_work_id p" "work_analysis w = work_analysis p"
    "wk_status w \<in> ALLOWED_TRANSITIONS (wk_status p)" "wk_state_version w = wk_state_version p + 1"
    using w cm Q next_metaT_analysis [OF 8] by (auto simp: finished_work_def)
  note F = ended_work_effect [OF ok ps eqs(1,2) v eqs(3,4) k E(1-3) 11 12]
  have k13: "kept s12 t" by (rule framedD [OF kept_journal(2) 13])
  have "moved s t p w"
    using F(1) k13 kept_typed(1,2) [OF k13] by (simp add: moved_def kept_def)
  moreover have "ended s t p" by (rule ended_cong [OF F(2)]) (use k13 in \<open>simp add: kept_def\<close>)
  moreover have "wk_status w = work_status_of_commit (tc_target_status (cq_commit q))" using w cm by (simp add: finished_work_def)
  moreover have "wk_status w = W_CANCELLED" if "cancel_latched s (work_analysis p)"
    using lat that kept_typed(3) [OF k0] w cm by (simp add: finished_work_def)
  ultimately show ?thesis using that by blast
qed

lemma cancel_effect:
  assumes h: "cancel_open_work au h p identity s = Inr (w, t)" and ok: "typed s" "attempts_typed s"
    and p: "p \<in> set (works s)"
  shows "moved s t p w" "ended s t p" "wk_status w = W_CANCELLED" "wd_dispatches t = wd_dispatches s"
proof -
  obtain ameta i dec tr wref dref tref prep cmeta meta committed cref s0 s1 s2 s3 s4 s5 s6 s7 s8 s9 s10 s11 s12 d now where
    0: "s0 = s\<lparr>wd_ticks := Suc (wd_ticks s)\<rparr>" and
    1: "attempt_metaT h p ''action_request'' s0 = Inr (ameta, s1)" and
    2: "s2 = s1\<lparr>wd_ticks := Suc (wd_ticks s1)\<rparr>" and
    3: "authorize au h (cancel_action p wref identity ameta i now) (Some p) None s2 = Inr (dec, s3)" and
    4: "cancel_transition h p dref now s3 = Inr ((tr, tref), s4)" and
    5: "cancel_journal h p tr tref now s4 = Inr (prep, s5)" and
    6: "claim au h dref CANCEL_WORK p None False s5 = Inr (d, s6)" and
    7: "next_metaT h (tc_meta prep) s6 = Inr (cmeta, s7)" and
    8: "keepT (TransitionCommit committed) s7 = Inr (cref, s8)" and
    9: "swap_journal committed s8 = Inr ((), s9)" and
    10: "next_metaT h (wk_meta p) s9 = Inr (meta, s10)" and
    w: "w = cancelled_work p meta tref cref now" and
    v: "validate_work w = Inr ()" and
    11: "cancel_attempt h p now s10 = Inr ((), s11)" and
    12: "save h p w s11 = Inr ((), s12)" and
    13: "set_lease (wk_work_id p) None None s12 = Inr ((), t)"
    using h unfolding cancel_open_work_def Let_def by auto
  have k0: "kept s s0" and k2: "kept s1 s2" by (simp_all add: 0 2 kept_def)
  have k: "kept s s10"
    by (rule kept.frame_trans [OF k0 kept.frame_trans [OF framedD [OF kept.framed_attempt_meta 1]
        kept.frame_trans [OF k2 kept.frame_trans [OF framedD [OF kept.framed_authorize 3]
        kept.frame_trans [OF framedD [OF kept.framed_cancel_transition 4]
        kept.frame_trans [OF framedD [OF kept_cancel_journal 5]
        kept.frame_trans [OF framedD [OF kept.framed_claim 6] kept.frame_trans [OF framedD [OF kept.framed_next_meta 7]
        kept.frame_trans [OF framedD [OF kept.framed_keep 8] kept.frame_trans [OF framedD [OF kept_swap 9]
        framedD [OF kept.framed_next_meta 10]]]]]]]]]]])
  have d0: "same_dispatches s s0" and d2: "same_dispatches s1 s2" by (simp_all add: 0 2 same_dispatches_def)
  have dis: "same_dispatches s s10"
    by (rule dispatches.frame_trans [OF d0 dispatches.frame_trans [OF framedD [OF dispatches.framed_attempt_meta 1]
        dispatches.frame_trans [OF d2 dispatches.frame_trans [OF framedD [OF dispatches.framed_authorize 3]
        dispatches.frame_trans [OF framedD [OF dispatches.framed_cancel_transition 4]
        dispatches.frame_trans [OF framedD [OF same_dispatches_cancel 5]
        dispatches.frame_trans [OF framedD [OF dispatches.framed_claim 6] dispatches.frame_trans [OF framedD [OF dispatches.framed_next_meta 7]
        dispatches.frame_trans [OF framedD [OF dispatches.framed_keep 8] dispatches.frame_trans [OF framedD [OF same_dispatches_swap 9]
        framedD [OF dispatches.framed_next_meta 10]]]]]]]]]]])
  obtain key tmeta ti s31 s32 where tr: "tr = cancel_transition_record p dref tmeta ti key now"
    and vt: "validate_transition tr = Inr ()"
    using 4 unfolding cancel_transition_def Let_def by auto
  have "W_CANCELLED \<in> ALLOWED_TRANSITIONS (wk_status p)"
    using validate_transition_allowed(1) [OF vt] by (simp add: tr cancel_transition_record_def)
  moreover have a10: "attempts_typed s10" using kept_attempts(2) [OF k] ok(2) by simp
  note E = cancel_attempt_effect [OF 11 a10]
  ultimately have eqs: "wk_work_id w = wk_work_id p" "work_analysis w = work_analysis p"
    "wk_status w \<in> ALLOWED_TRANSITIONS (wk_status p)" "wk_state_version w = wk_state_version p + 1"
    using w next_metaT_analysis [OF 10] by (auto simp: cancelled_work_def)
  note F = ended_work_effect [OF ok p eqs(1,2) v eqs(3,4) k E(1-3) 12 13]
  show "moved s t p w" "ended s t p" by (rule F(1), rule F(2))
  show "wk_status w = W_CANCELLED" by (simp add: w cancelled_work_def)
  show "wd_dispatches t = wd_dispatches s" using F(3) E(4) dis by (simp add: same_dispatches_def)
qed

end
