(* ===== verification/Work_Steps.thy ===== *)
theory Work_Steps
  imports Work_Operations
begin

text \<open>
  The transactions of the work services as a step relation, and the five ways a step can touch the
  works and the attempts.
\<close>

section \<open>Steps\<close>

text \<open>
  One committed write transaction of a service, of any host and with any evidence.  A work is
  cancelled under the latch of its run (\<open>reconcile_cancellation\<close>).  The record store and the budget
  ledger move by their own steps, which leave the attempts alone.
\<close>

inductive work_step :: "wdb \<Rightarrow> wdb \<Rightarrow> bool" where
  registered: "register au h w ref reservation s = Inr (x, t) \<Longrightarrow> work_step s t"
| readied: "make_ready au h tr s = Inr (w, t) \<Longrightarrow> work_step s t"
| started: "start_attempt au h tr a reservation worker lease s = Inr (w, t) \<Longrightarrow> work_step s t"
| authorized: "authorize au h act given reservation s = Inr (d, t) \<Longrightarrow> work_step s t"
| external: "claim_external au h i ref reservation s = Inr (x, t) \<Longrightarrow> work_step s t"
| dispatched: "mark_dispatched au h ref provider key s = Inr (u, t) \<Longrightarrow> work_step s t"
| returned: "mark_returned h ref s = Inr (u, t) \<Longrightarrow> work_step s t"
| prepared: "prepare au h q binding refs s = Inr (u, t) \<Longrightarrow> request_ok q \<Longrightarrow> work_step s t"
| finished: "finish au h q s = Inr (c, t) \<Longrightarrow> request_ok q
    \<Longrightarrow> get_work s (tc_work_id (cq_commit q)) = Inr w \<Longrightarrow> plain_request q w \<Longrightarrow> work_step s t"
| published: "publish_claimed au h i ref outputs refs s = Inr (u, t) \<Longrightarrow> work_step s t"
| invoked: "record_invocation au h request result log s = Inr (ref, t) \<Longrightarrow> work_step s t"
| aborted: "abort h c reason s = Inr (u, t) \<Longrightarrow> work_step s t"
| cancel_requested: "request_cancel h analysis reason s = Inr (u, t) \<Longrightarrow> work_step s t"
| cancelled: "cancel_latched s (work_analysis p) \<Longrightarrow> get_work s i = Inr p
    \<Longrightarrow> cancel_in_transaction au h p identity s = Inr (w, t) \<Longrightarrow> work_step s t"
| ledger: "budget_step ev (wd_store s) d \<Longrightarrow> sd_attempts d = sd_attempts (wd_store s)
    \<Longrightarrow> work_step s (s\<lparr>wd_store := d\<rparr>)"
| flagged: "work_step s (s\<lparr>wd_recovery_failed := b, wd_ticks := n\<rparr>)"

inductive_cases work_stepE: "work_step s t"

text \<open>Every step is one of the operations.\<close>

context dispatch_frame begin

lemma step_framed:
  assumes "work_step s t" and ledger: "\<And>ev d. budget_step ev (wd_store s) d \<Longrightarrow> R s (s\<lparr>wd_store := d\<rparr>)"
    and flags: "\<And>b n. R s (s\<lparr>wd_recovery_failed := b, wd_ticks := n\<rparr>)"
  shows "R s t"
  using assms(1)
  by (cases rule: work_step.cases)
     (auto intro: framedD [OF framed_register] framedD [OF framed_ready] framedD [OF framed_start]
       framedD [OF framed_authorize] framedD [OF framed_external] framedD [OF framed_dispatched]
       framedD [OF framed_returned] framedD [OF framed_prepare] framedD [OF framed_finish]
       framedD [OF framed_publish_claimed] framedD [OF framed_record_invocation] framedD [OF framed_abort] framedD [OF framed_request_cancel] framedD [OF framed_cancel] ledger flags)

end

definition empty_wdb :: wdb where
  "empty_wdb = \<lparr>wd_store = empty_sdb, wd_works = [], wd_actions = [], wd_checks = [], wd_closures = [],
     wd_decisions = [], wd_dispatches = [], wd_controls = [], wd_journal = [],
     wd_recovery_failed = False, wd_ticks = 0\<rparr>"

section \<open>What a step touches\<close>

definition work_frame :: "wdb \<Rightarrow> wdb \<Rightarrow> bool" where
  "work_frame s t \<longleftrightarrow>
     wd_works t = wd_works s \<and> sd_attempts (wd_store t) = sd_attempts (wd_store s)
     \<and> (\<exists>new. wd_controls t = wd_controls s @ new)"

lemma kept_work_frame: "kept s t \<Longrightarrow> work_frame s t"
  by (simp add: kept_def work_frame_def)

lemma work_frameD:
  assumes "work_frame s t"
  shows "works t = works s" "attempts t = attempts s" "typed t = typed s" "attempts_typed t = attempts_typed s"
    "cancel_latched s a \<Longrightarrow> cancel_latched t a"
  using assms
  by (auto simp: work_frame_def works_def attempts_def typed_def attempts_typed_def cancel_latched_def
      tbl_lookup_append split: option.splits)

lemma external_frame:
  assumes "claim_external au h i ref reservation s = Inr (x, t)"
  shows "kept s t"
proof -
  have d: "framed kept (insertT wd_dispatches (\<lambda>f s. s\<lparr>wd_dispatches := f (wd_dispatches s)\<rparr>) k m r)" for k m r
    by (rule kept.framed_insert) (simp add: kept_def)
  have "framed kept (claim_external au h i ref reservation)"
    unfolding claim_external_def resume_dispatch_def prepare_dispatch_def unexpiredT_def
    by (intro kept.quiet_rules kept.framed_claim d)
  then show ?thesis by (rule framedD) (rule assms)
qed

lemma dispatched_frame:
  assumes "mark_dispatched au h ref provider key s = Inr (u, t)"
  shows "kept s t"
proof -
  have "framed kept (mark_dispatched au h ref provider key)"
    unfolding mark_dispatched_def send_dispatch_def unexpiredT_def
    by (intro kept.quiet_rules kept_modify) (simp add: kept_def)
  then show ?thesis by (rule framedD) (rule assms)
qed

lemma returned_frame:
  assumes "mark_returned h ref s = Inr (u, t)"
  shows "kept s t"
proof -
  have "framed kept (mark_returned h ref)"
    unfolding mark_returned_def Let_def by (intro kept.quiet_rules kept_modify) (simp add: kept_def)
  then show ?thesis by (rule framedD) (rule assms)
qed

lemma cancel_requested_frame:
  assumes "request_cancel h analysis reason s = Inr (u, t)"
  shows "work_frame s t"
  using assms unfolding request_cancel_def work_frame_def by (auto split: if_splits)

lemma step_cases:
  assumes step: "work_step s t" and ok: "typed s" "attempts_typed s"
  obtains (quiet) "work_frame s t"
  | (added) w where "typed t" "works t = works s @ [w]" "wk_status w = W_PENDING" "validate_work w = Inr ()"
      "wk_work_id w \<notin> wk_work_id ` set (works s)" "\<not> cancel_latched s (work_analysis w)"
      "sd_attempts (wd_store t) = sd_attempts (wd_store s)" "wd_controls t = wd_controls s"
  | (ready) p w where "moved s t p w" "\<not> cancel_latched s (work_analysis p)"
      "wk_status p \<in> {W_PENDING, W_BLOCKED}" "wk_status w = W_READY"
      "sd_attempts (wd_store t) = sd_attempts (wd_store s)"
  | (start) p w a act au n reservation where "moved s t p w" "\<not> cancel_latched s (work_analysis p)"
      "\<not> uncertain s (wk_work_id p)"
      "wk_status p = W_READY" "wk_status w = W_RUNNING" "wk_active_attempt_id w = Some (wa_attempt_id a)"
      "\<exists>prior. start_admitted au (s\<lparr>wd_ticks := n\<rparr>) a act p reservation = Inr prior
         \<and> validate_attempt_context a w prior = Inr ()"
      "wa_status a = A_RUNNING" "attempts t = attempts s @ [a]" "attempts_typed t"
      "wa_attempt_id a \<notin> wa_attempt_id ` set (attempts s)"
  | (ended) p w where "moved s t p w" "ended s t p"
      "wk_status w \<notin> {W_PENDING, W_READY, W_RUNNING}"
      "cancel_latched s (work_analysis p) \<Longrightarrow> wk_status w = W_CANCELLED"
  using step
proof (cases rule: work_step.cases)
  case (registered au h w ref reservation x)
  from registered(1) ok(1) show ?thesis
  proof (cases rule: register_cases)
    case again
    then show ?thesis using quiet by (simp add: work_frame_def)
  next
    case (new key s1 s2)
    then show ?thesis using added by blast
  qed
next
  case (readied au h tr w)
  from readied(1) ok(1) obtain p where "moved s t p w" "\<not> cancel_latched s (work_analysis p)"
    "wk_status p \<in> {W_PENDING, W_BLOCKED}" "wk_status w = W_READY"
    "sd_attempts (wd_store t) = sd_attempts (wd_store s)"
    by (rule make_ready_effect)
  then show ?thesis by (rule ready)
next
  case (started au h tr a reservation worker lease w)
  from started(1) ok obtain p d act n where *: "moved s t p w" "\<not> cancel_latched s (work_analysis p)"
    "\<not> uncertain s (wk_work_id p)"
    "wk_status p = W_READY" "wk_status w = W_RUNNING" "wk_active_attempt_id w = Some (wa_attempt_id a)"
    "check_use au h (tr_action_decision_ref tr) START_ATTEMPT p (Some reservation) True (s\<lparr>wd_ticks := n\<rparr>)
       = Inr ((d, act), s\<lparr>wd_ticks := Suc n\<rparr>)"
    "\<exists>prior. start_admitted au (s\<lparr>wd_ticks := Suc n\<rparr>) a act p reservation = Inr prior
       \<and> validate_attempt_context a w prior = Inr ()"
    "fresh_attempt a = Inr ()" "attempts t = attempts s @ [a]" "attempts_typed t"
    "wa_attempt_id a \<notin> wa_attempt_id ` set (attempts s)" "wd_dispatches t = wd_dispatches s"
    by (rule start_effect)
  have "wa_status a = A_RUNNING" using *(9) by (simp add: fresh_attempt_def)
  from start [OF *(1-6,8) this *(10-12)] show ?thesis .
next
  case (finished au h q c w)
  from finished(1) ok finished(2) obtain p w where *: "moved s t p w" "ended s t p"
    "wk_status w = work_status_of_commit (tc_target_status (cq_commit q))"
    "cancel_latched s (work_analysis p) \<longrightarrow> wk_status w = W_CANCELLED"
    by (rule finish_effect)
  have "wk_status w \<notin> {W_PENDING, W_READY, W_RUNNING}"
    using *(3) by (cases "tc_target_status (cq_commit q)") simp_all
  from ended [OF *(1,2) this *(4) [rule_format]] show ?thesis .
next
  case (cancelled p i au h identity w)
  show ?thesis
  proof (cases "wk_status p \<in> TERMINAL_WORK_STATUSES")
    case True
    then show ?thesis using cancelled(3) quiet by (simp add: cancel_in_transaction_def work_frame_def)
  next
    case False
    then have "cancel_open_work au h p identity s = Inr (w, t)"
      using cancelled(3) by (simp add: cancel_in_transaction_def)
    note C = cancel_effect [OF this ok get_work_mem [OF cancelled(2)]]
    show ?thesis by (rule ended [OF C(1,2)]) (simp_all add: C(3))
  qed
next
  case (authorized au h act given reservation d)
  show ?thesis
    by (rule quiet, rule kept_work_frame, rule framedD [OF kept.framed_authorize authorized(1)])
next
  case (prepared au h q binding refs u)
  show ?thesis
    by (rule quiet, rule kept_work_frame, rule framedD [OF kept_prepare prepared(1)])
next
  case (published au h i ref outputs refs u)
  show ?thesis
    by (rule quiet, rule kept_work_frame, rule framedD [OF kept.framed_publish_claimed published(1)])
next
  case (invoked au h request result log ref)
  show ?thesis
    by (rule quiet, rule kept_work_frame, rule framedD [OF kept.framed_record_invocation invoked(1)])
next
  case (aborted h c reason u)
  show ?thesis
    by (rule quiet, rule kept_work_frame, rule framedD [OF kept.framed_abort aborted(1)])
next
  case (external au h i ref reservation x)
  show ?thesis by (rule quiet, rule kept_work_frame, rule external_frame [OF external(1)])
next
  case (dispatched au h ref provider key u)
  show ?thesis by (rule quiet, rule kept_work_frame, rule dispatched_frame [OF dispatched(1)])
next
  case (returned h ref u)
  show ?thesis by (rule quiet, rule kept_work_frame, rule returned_frame [OF returned(1)])
next
  case (cancel_requested h analysis reason u)
  show ?thesis by (rule quiet, rule cancel_requested_frame [OF cancel_requested(1)])
qed (auto intro!: quiet simp: work_frame_def)

end
