(* ===== verification/Work_Invariant.thy ===== *)
theory Work_Invariant
  imports Work_Steps
begin

text \<open>
  What every state of the work services satisfies: the rows of the works agree with their validated
  payloads, the attempts of a work are numbered from one without gaps, and exactly the active attempt
  of a running work runs.
\<close>

section \<open>The invariant\<close>

definition numbered :: "wdb \<Rightarrow> bool" where
  "numbered s \<longleftrightarrow> (\<forall>i. map wa_attempt_number (attempts_on s i) = [1..<Suc (length (attempts_on s i))])"

definition active_on :: "work list \<Rightarrow> attempt \<Rightarrow> bool" where
  "active_on ws a \<longleftrightarrow>
     (\<exists>w \<in> set ws. wk_work_id w = wa_work_id a \<and> wk_active_attempt_id w = Some (wa_attempt_id a))"

definition attempts_active :: "wdb \<Rightarrow> bool" where
  "attempts_active s \<longleftrightarrow>
     (\<forall>a \<in> set (attempts s). wa_status a = A_RUNNING \<longleftrightarrow> active_on (works s) a)
     \<and> (\<forall>w \<in> set (works s). \<forall>i. wk_active_attempt_id w = Some i \<longrightarrow>
          (\<exists>a \<in> set (attempts s). wa_attempt_id a = i \<and> wa_work_id a = wk_work_id w))"

definition work_inv :: "wdb \<Rightarrow> bool" where
  "work_inv s \<longleftrightarrow> typed s \<and> attempts_typed s \<and> numbered s \<and> attempts_active s"

lemma empty_work_inv: "work_inv empty_wdb"
  by (simp add: work_inv_def typed_def attempts_typed_def numbered_def attempts_active_def attempts_on_def
      attempts_def works_def empty_wdb_def empty_sdb_def tbl_ok_def)

section \<open>Replacing a work or an attempt\<close>

lemma only_running_active:
  "validate_work w = Inr () \<Longrightarrow> wk_status w \<noteq> W_RUNNING \<Longrightarrow> wk_active_attempt_id w = None"
  by (auto simp: validate_work_def work_shape_def Let_def)

lemma set_replace_work:
  assumes "tbl_ok wk_work_id ws" "p \<in> set ws" "wk_work_id w = wk_work_id p"
  shows "set (replace_work w ws) = insert w (set ws - {p})"
  using assms tbl_ok_inj [OF assms(1)]
  by (fastforce simp: replace_work_def update_rows_def)

lemma set_replace_attempt:
  assumes "tbl_ok wa_attempt_id as" "a \<in> set as" "wa_attempt_id b = wa_attempt_id a"
  shows "set (replace_attempt b as) = insert b (set as - {a})"
  using assms tbl_ok_inj [OF assms(1)]
  by (fastforce simp: replace_attempt_def update_rows_def)

lemma replace_attempt_numbers:
  assumes "tbl_ok wa_attempt_id as" "a \<in> set as" "wa_attempt_id b = wa_attempt_id a"
    "wa_work_id b = wa_work_id a" "wa_attempt_number b = wa_attempt_number a"
  shows "map wa_attempt_number (filter (\<lambda>x. wa_work_id x = i) (replace_attempt b as))
       = map wa_attempt_number (filter (\<lambda>x. wa_work_id x = i) as)"
proof -
  let ?f = "\<lambda>x. if wa_attempt_id x = wa_attempt_id b then b else x"
  have "x = a" if "x \<in> set as" "wa_attempt_id x = wa_attempt_id a" for x
    using tbl_ok_inj [OF assms(1)] assms(2) that by blast
  then have same: "wa_work_id (?f x) = wa_work_id x \<and> wa_attempt_number (?f x) = wa_attempt_number x"
    if "x \<in> set as" for x
    using that assms(3-5) by auto
  then have "filter (\<lambda>x. wa_work_id x = i) (map ?f as) = map ?f (filter (\<lambda>x. wa_work_id x = i) as)"
    by (induction as) auto
  then show ?thesis
    using same by (simp add: replace_attempt_def update_rows_def)
qed

lemma movedD:
  assumes "moved s t p w" "typed s"
  shows "typed t" "set (works t) = insert w (set (works s) - {p})" "p \<in> set (works s)"
    "wk_work_id w = wk_work_id p" "validate_work w = Inr ()"
  using assms set_replace_work [OF typed_distinct [OF assms(2)], of p w] by (auto simp: moved_def)

lemma same_work: "typed s \<Longrightarrow> v \<in> set (works s) \<Longrightarrow> p \<in> set (works s) \<Longrightarrow> wk_work_id v = wk_work_id p \<Longrightarrow> v = p"
  by (rule tbl_ok_inj [OF typed_distinct])

section \<open>Preservation\<close>

lemma numbered_same: "numbered s \<Longrightarrow> sd_attempts (wd_store t) = sd_attempts (wd_store s) \<Longrightarrow> numbered t"
  by (simp add: numbered_def attempts_on_def attempts_def)

lemma numbered_sorted: "numbered s \<Longrightarrow> attempts_of (wd_store s) i = attempts_on s i"
  by (simp add: attempts_of_on numbered_def sort_key_id_if_sorted del: upt_Suc)

lemma numbered_start:
  assumes "numbered s" "attempts t = attempts s @ [a]"
    and next_number: "case attempts_on s (wa_work_id a) of [] \<Rightarrow> wa_attempt_number a = 1
      | as \<Rightarrow> wa_attempt_number a = wa_attempt_number (last as) + 1"
  shows "numbered t"
  unfolding numbered_def
proof
  fix i
  let ?as = "attempts_on s i"
  have as: "map wa_attempt_number ?as = [1..<Suc (length ?as)]" using assms(1) by (simp add: numbered_def)
  have on: "attempts_on t i = (if wa_work_id a = i then ?as @ [a] else ?as)"
    by (simp add: attempts_on_def assms(2))
  have "wa_attempt_number a = Suc (length ?as)" if i: "wa_work_id a = i"
  proof (cases "?as = []")
    case True
    then show ?thesis using next_number i by simp
  next
    case False
    then have "last (map wa_attempt_number ?as) = length ?as"
      unfolding as using False by (simp add: Suc_le_eq)
    then show ?thesis using next_number i False by (cases ?as) (auto simp: last_map)
  qed
  then show "map wa_attempt_number (attempts_on t i) = [1..<Suc (length (attempts_on t i))]"
    using as by (auto simp: on Suc_le_eq)
qed

lemma start_number:
  assumes "numbered s" "start_admitted au s a act p reservation = Inr prior"
    "validate_attempt_context a w prior = Inr ()" "wk_work_id w = wk_work_id p"
  shows "wa_work_id a = wk_work_id p"
    "case attempts_on s (wa_work_id a) of [] \<Rightarrow> wa_attempt_number a = 1
      | as \<Rightarrow> wa_attempt_number a = wa_attempt_number (last as) + 1"
proof -
  show work: "wa_work_id a = wk_work_id p"
    using assms(3,4) by (auto simp: validate_attempt_context_def)
  have "prior = prior_attempt (wd_store s) (wk_work_id p)" "prior = None \<longrightarrow> wa_attempt_number a = 1"
    using assms(2) by (auto simp: start_admitted_def split: option.splits if_splits)
  then show "case attempts_on s (wa_work_id a) of [] \<Rightarrow> wa_attempt_number a = 1
      | as \<Rightarrow> wa_attempt_number a = wa_attempt_number (last as) + 1"
    using assms(3) work by (auto simp: prior_attempt_def numbered_sorted [OF assms(1)] validate_attempt_context_def
        split: list.splits)
qed

lemma numbered_ended:
  assumes "numbered s" "attempts_typed s" "ended s t p"
  shows "numbered t"
proof (cases "wk_active_attempt_id p")
  case None
  then show ?thesis using assms by (simp add: ended_def numbered_def attempts_on_def)
next
  case (Some i)
  then obtain a b where ab: "a \<in> set (attempts s)" "attempts t = replace_attempt b (attempts s)"
    "wa_attempt_id b = wa_attempt_id a" "wa_work_id b = wa_work_id a" "wa_attempt_number b = wa_attempt_number a"
    using assms(3) by (auto simp: ended_def)
  have N: "map wa_attempt_number (attempts_on t j) = map wa_attempt_number (attempts_on s j)" for j
    using replace_attempt_numbers [OF attempts_distinct [OF assms(2)] ab(1,3-5)]
    by (simp add: attempts_on_def ab(2))
  then have "length (attempts_on t j) = length (attempts_on s j)" for j
    by (metis length_map)
  then show ?thesis using assms(1) N by (simp add: numbered_def)
qed

lemma active_ended:
  assumes inv: "typed s" "attempts_typed s" "attempts_active s"
    and m: "moved s t p w" and e: "ended s t p" and idle: "wk_active_attempt_id w = None"
  shows "attempts_active t"
proof -
  note M = movedD [OF m inv(1)]
  have same: "v = p" if "v \<in> set (works s)" "wk_work_id v = wk_work_id p" for v
    by (rule same_work [OF inv(1) that(1) M(3) that(2)])
  show ?thesis
  proof (cases "wk_active_attempt_id p")
    case None
    then have "attempts t = attempts s" using e by (simp add: ended_def)
    then show ?thesis using inv(3) M None idle by (fastforce simp: attempts_active_def active_on_def)
  next
    case (Some i)
    then obtain a b where a: "a \<in> set (attempts s)" "wa_attempt_id a = i"
      and t: "attempts t = replace_attempt b (attempts s)"
      and b: "wa_attempt_id b = i" "wa_work_id b = wa_work_id a" "wa_status b \<noteq> A_RUNNING"
      using e by (auto simp: ended_def)
    have same_attempt: "x = a" if "x \<in> set (attempts s)" "wa_attempt_id x = i" for x
      by (rule tbl_ok_inj [OF attempts_distinct [OF inv(2)] that(1) a(1)]) (simp add: that(2) a(2))
    then have work: "wa_work_id a = wk_work_id p"
      using inv(3) M(3) Some unfolding attempts_active_def by blast
    have set: "set (attempts t) = insert b (set (attempts s) - {a})"
      unfolding t by (rule set_replace_attempt [OF attempts_distinct [OF inv(2)] a(1)]) (simp add: a b)
    have others: "active_on (works t) x = active_on (works s) x" if "x \<in> set (attempts s)" "x \<noteq> a" for x
    proof -
      have "wa_attempt_id x \<noteq> i" using same_attempt that by blast
      then show ?thesis using M(2,3) Some idle by (auto simp: active_on_def)
    qed
    have off: "\<not> active_on (works t) b"
      using M(2,4) idle same b(2) work by (auto simp: active_on_def)
    have "wa_status x = A_RUNNING \<longleftrightarrow> active_on (works t) x" if "x \<in> set (attempts t)" for x
      using that set off b(3) others inv(3) by (auto simp: attempts_active_def)
    moreover have "\<exists>x \<in> set (attempts t). wa_attempt_id x = j \<and> wa_work_id x = wk_work_id v"
      if v: "v \<in> set (works t)" "wk_active_attempt_id v = Some j" for v j
    proof -
      have v': "v \<in> set (works s)" "v \<noteq> p" using v M(2) idle by auto
      then obtain x where x: "x \<in> set (attempts s)" "wa_attempt_id x = j" "wa_work_id x = wk_work_id v"
        using inv(3) v(2) unfolding attempts_active_def by blast
      then have "x \<noteq> a" using work same v' by auto
      then show ?thesis using x set by blast
    qed
    ultimately show ?thesis by (simp add: attempts_active_def)
  qed
qed

lemma active_moved:
  assumes inv: "typed s" "attempts_active s" and m: "moved s t p w" and "attempts t = attempts s"
    and "wk_active_attempt_id p = None" "wk_active_attempt_id w = None"
  shows "attempts_active t"
  using assms movedD(2,3) [OF m inv(1)] by (fastforce simp: attempts_active_def active_on_def)

lemma active_started:
  assumes inv: "typed s" "attempts_active s" and m: "moved s t p w" and t: "attempts t = attempts s @ [a]"
    and a: "wa_status a = A_RUNNING" "wa_attempt_id a \<notin> wa_attempt_id ` set (attempts s)" "wa_work_id a = wk_work_id p"
    and w: "wk_active_attempt_id p = None" "wk_active_attempt_id w = Some (wa_attempt_id a)"
  shows "attempts_active t"
proof -
  note M = movedD [OF m inv(1)]
  have "active_on (works t) x = active_on (works s) x" if "x \<in> set (attempts s)" for x
    using that M(2,3) a(2) w by (auto simp: active_on_def)
  moreover have "active_on (works t) a" using M(2,4) a(3) w(2) by (auto simp: active_on_def)
  ultimately show ?thesis
    using inv(2) M(2,4) t a(1,3) w(2) by (fastforce simp: attempts_active_def)
qed

lemma work_inv_step:
  assumes inv: "work_inv s" and step: "work_step s t"
  shows "work_inv t"
proof -
  have ok: "typed s" "attempts_typed s" "numbered s" "attempts_active s" using inv by (simp_all add: work_inv_def)
  from step ok(1,2) show ?thesis
  proof (cases rule: step_cases)
    case quiet
    then have "attempts t = attempts s" "works t = works s" by (simp_all add: work_frameD)
    then show ?thesis
      using ok numbered_same [OF ok(3), of t] quiet work_frameD(3,4) [OF quiet]
      by (simp add: work_inv_def attempts_active_def work_frame_def)
  next
    case (added w)
    have as: "attempts t = attempts s" "attempts_typed t = attempts_typed s"
      using added(7) by (simp_all add: attempts_def attempts_typed_def)
    have "wk_active_attempt_id w = None" by (rule only_running_active) (simp_all add: added(3,4))
    then have "attempts_active t"
      using ok(4) added(2) as(1) by (auto simp: attempts_active_def active_on_def)
    then show ?thesis using ok added(1) as(2) numbered_same [OF ok(3) added(7)] by (simp add: work_inv_def)
  next
    case (ready p w)
    have as: "attempts t = attempts s" "attempts_typed t = attempts_typed s"
      using ready(5) by (simp_all add: attempts_def attempts_typed_def)
    note M = movedD [OF ready(1) ok(1)]
    have "wk_active_attempt_id p = None" "wk_active_attempt_id w = None"
      using ready(3,4) only_running_active [OF M(5)] only_running_active [OF typed_work [OF ok(1) M(3)]] by auto
    then have "attempts_active t" by (rule active_moved [OF ok(1,4) ready(1) as(1)])
    then show ?thesis using ok M(1) as(2) numbered_same [OF ok(3) ready(5)] by (simp add: work_inv_def)
  next
    case (start p w a act au n reservation)
    note M = movedD [OF start(1) ok(1)]
    obtain prior where prior: "start_admitted au (s\<lparr>wd_ticks := n\<rparr>) a act p reservation = Inr prior"
      "validate_attempt_context a w prior = Inr ()"
      using start(7) by blast
    have ticks: "attempts_on (s\<lparr>wd_ticks := n\<rparr>) = attempts_on s" "numbered (s\<lparr>wd_ticks := n\<rparr>)"
      using ok(3) by (simp_all add: fun_eq_iff numbered_def attempts_on_def attempts_def)
    note N = start_number [OF ticks(2) prior M(4), unfolded ticks(1)]
    have "wk_active_attempt_id p = None"
      using start(4) only_running_active [OF typed_work [OF ok(1) M(3)]] by simp
    then have "attempts_active t"
      using active_started [OF ok(1,4) start(1,9,8,11) N(1) _ start(6)] by simp
    then show ?thesis using M(1) start(10) numbered_start [OF ok(3) start(9) N(2)] by (simp add: work_inv_def)
  next
    case (ended p w)
    note M = movedD [OF ended(1) ok(1)]
    have "wk_active_attempt_id w = None" using ended(3) only_running_active [OF M(5)] by auto
    then have "attempts_active t" by (rule active_ended [OF ok(1,2,4) ended(1,2)])
    moreover have "attempts_typed t" using ended(2) by (simp add: ended_def)
    ultimately show ?thesis using M(1) numbered_ended [OF ok(3,2) ended(2)] by (simp add: work_inv_def)
  qed
qed

interpretation works: invariant_system work_step work_inv
  by unfold_locales (rule work_inv_step)

end
