(* ===== verification/Work_Properties.thy ===== *)
theory Work_Properties
  imports Work_Invariant
begin

text \<open>
  What the work services guarantee of the works of a run and of their attempts, whatever the order of
  their transactions.
\<close>

section \<open>Types\<close>

text \<open>
  C30. The rows of the work table are typed: in every state the services reach, the indexed columns of
  each row (id, run, status, version, active attempt) are those of its payload, the payload
  satisfies the validators of \<open>WorkExecutionState\<close>, and no two rows have the same id or the same
  registration key.
\<close>

theorem works_well_typed:
  assumes "reaches work_step empty_wdb s" and "row \<in> set (wd_works s)"
  shows "wr_work_id row = wk_work_id (wr_payload row) \<and> wr_analysis_id row = work_analysis (wr_payload row)
    \<and> wr_status row = wk_status (wr_payload row) \<and> wr_state_version row = wk_state_version (wr_payload row)
    \<and> wr_active_attempt_id row = wk_active_attempt_id (wr_payload row)
    \<and> validate_work (wr_payload row) = Inr ()
    \<and> (\<forall>other \<in> set (wd_works s). wr_work_id other = wr_work_id row
          \<or> wr_registration_key other = wr_registration_key row \<longrightarrow> other = row)"
proof -
  have t: "typed s" using works.reaches_inv [OF assms(1) empty_work_inv] by (simp add: work_inv_def)
  then have "row_typed row" "tbl_ok wr_work_id (wd_works s)" "tbl_ok wr_registration_key (wd_works s)"
    using assms(2) by (simp_all add: typed_def list_all_iff)
  then show ?thesis
    using assms(2) tbl_ok_inj [of wr_work_id "wd_works s" _ row] tbl_ok_inj [of wr_registration_key "wd_works s" _ row]
    by (auto simp: row_typed_def)
qed

section \<open>Attempts\<close>

text \<open>
  C31. The attempts of a work are numbered one, two, three and so on, in the order they were started,
  and at most one of them runs: an attempt is \<open>RUNNING\<close> exactly when some work in the status
  \<open>RUNNING\<close> names it as its active attempt, and every running work has such an attempt.
\<close>

theorem attempts_consecutive_and_active:
  assumes "reaches work_step empty_wdb s"
  shows "(\<forall>i. map wa_attempt_number (attempts_on s i) = [1..<Suc (length (attempts_on s i))])
    \<and> (\<forall>a \<in> set (attempts s). wa_status a = A_RUNNING
         \<longleftrightarrow> (\<exists>w \<in> set (works s). wk_work_id w = wa_work_id a \<and> wk_status w = W_RUNNING
               \<and> wk_active_attempt_id w = Some (wa_attempt_id a)))
    \<and> (\<forall>w \<in> set (works s). wk_status w = W_RUNNING
         \<longrightarrow> (\<exists>a \<in> set (attempts_on s (wk_work_id w)). wk_active_attempt_id w = Some (wa_attempt_id a)))"
proof -
  have inv: "typed s" "numbered s" "attempts_active s"
    using works.reaches_inv [OF assms empty_work_inv] by (simp_all add: work_inv_def)
  have run: "wk_status w = W_RUNNING \<longleftrightarrow> wk_active_attempt_id w \<noteq> None" if "w \<in> set (works s)" for w
    using typed_work [OF inv(1) that] by (auto simp: validate_work_def work_shape_def Let_def)
  have "\<exists>a \<in> set (attempts_on s (wk_work_id w)). wk_active_attempt_id w = Some (wa_attempt_id a)"
    if w: "w \<in> set (works s)" "wk_status w = W_RUNNING" for w
  proof -
    obtain i where "wk_active_attempt_id w = Some i" using run [OF w(1)] w(2) by auto
    then show ?thesis using inv(3) w(1) by (fastforce simp: attempts_active_def attempts_on_def)
  qed
  moreover have "wa_status a = A_RUNNING
         \<longleftrightarrow> (\<exists>w \<in> set (works s). wk_work_id w = wa_work_id a \<and> wk_status w = W_RUNNING
               \<and> wk_active_attempt_id w = Some (wa_attempt_id a))" if "a \<in> set (attempts s)" for a
    using inv(3) that run by (fastforce simp: attempts_active_def active_on_def)
  ultimately show ?thesis using inv(2) unfolding numbered_def by blast
qed

section \<open>The life of a work\<close>

text \<open>
  The abstract life cycle: a work appears once, pending and at version one, and afterwards each
  change is one of the allowed transitions and advances the version by one.
\<close>

fun life_step :: "(work_status \<times> nat) option \<Rightarrow> (work_status \<times> nat) option \<Rightarrow> bool" where
  "life_step None None = True"
| "life_step None (Some (status, version)) = (status = W_PENDING \<and> version = 1)"
| "life_step (Some _) None = False"
| "life_step (Some (status, version)) (Some (status', version')) =
     (status' = status \<and> version' = version
      \<or> status' \<in> ALLOWED_TRANSITIONS status \<and> version' = version + 1)"

definition life :: "wdb \<Rightarrow> string \<Rightarrow> (work_status \<times> nat) option" where
  "life s i = (case get_work s i of Inl _ \<Rightarrow> None | Inr w \<Rightarrow> Some (wk_status w, wk_state_version w))"

lemma life_refl: "life_step x x"
  by (cases x) auto

lemma life_Some: "typed s \<Longrightarrow> w \<in> set (works s) \<Longrightarrow> life s (wk_work_id w) = Some (wk_status w, wk_state_version w)"
  using get_work_iff [of s "wk_work_id w" w] by (simp add: life_def)

lemma life_None: "typed s \<Longrightarrow> i \<notin> wk_work_id ` set (works s) \<Longrightarrow> life s i = None"
  using get_work_iff [of s i] by (auto simp: life_def split: sum.splits)

lemma life_same:
  assumes "typed s" "typed t" "\<And>w. wk_work_id w = i \<Longrightarrow> w \<in> set (works t) \<longleftrightarrow> w \<in> set (works s)"
  shows "life t i = life s i"
  using get_work_iff [OF assms(1), of i] get_work_iff [OF assms(2), of i] assms(3)
  by (cases "get_work s i"; cases "get_work t i") (force simp: life_def)+

lemma moved_life:
  assumes m: "moved s t p w" and s: "typed s"
  shows "life_step (life s i) (life t i)"
proof (cases "i = wk_work_id p")
  case True
  note M = movedD [OF m s]
  have "life t i = Some (wk_status w, wk_state_version w)"
    using life_Some [OF M(1)] M(2,4) True by force
  moreover have "life s i = Some (wk_status p, wk_state_version p)"
    using life_Some [OF s M(3)] True by simp
  ultimately show ?thesis using m by (simp add: moved_def)
next
  case False
  note M = movedD [OF m s]
  have "life t i = life s i"
    by (rule life_same [OF s M(1)]) (use M(2,4) False in auto)
  then show ?thesis by (simp add: life_refl)
qed

lemma work_step_life:
  assumes inv: "work_inv s" and step: "work_step s t"
  shows "life_step (life s i) (life t i)"
proof -
  have ok: "typed s" "attempts_typed s" using inv by (simp_all add: work_inv_def)
  from step ok show ?thesis
  proof (cases rule: step_cases)
    case quiet
    then have "life t i = life s i"
      using ok(1) by (intro life_same) (simp_all add: work_frameD)
    then show ?thesis by (simp add: life_refl)
  next
    case (added w)
    show ?thesis
    proof (cases "i = wk_work_id w")
      case True
      have "wk_state_version w = 1"
        using added(3,4) by (auto simp: validate_work_def work_shape_def Let_def)
      moreover have "life t i = Some (wk_status w, wk_state_version w)"
        using life_Some [OF added(1)] added(2) True by force
      moreover have "life s i = None" using life_None [OF ok(1)] added(5) True by simp
      ultimately show ?thesis by (simp add: added(3))
    next
      case False
      have "life t i = life s i"
        by (rule life_same [OF ok(1) added(1)]) (use added(2) False in auto)
      then show ?thesis by (simp add: life_refl)
    qed
  qed (simp_all add: moved_life [OF _ ok(1)])
qed

text \<open>
  C32. Every transaction of the services implements the life cycle of a work: registered once as
  \<open>PENDING\<close> at version one, moved only along \<open>ALLOWED_TRANSITIONS\<close> and by one version at a time, and
  never removed.
\<close>

theorem works_follow_lifecycle:
  assumes "reaches work_step empty_wdb s" and "work_step s t"
  shows "life_step (life s i) (life t i)"
  by (rule work_step_life [OF works.reaches_inv [OF assms(1) empty_work_inv] assms(2)])

section \<open>Cancellation\<close>







end
