(* ===== verification/Work_Soundness.thy ===== *)
theory Work_Soundness
  imports Work_Properties
begin

text \<open>
  The work services keep the invariant of the record store and of the budget ledger, and the number
  of works that run at the same time stays within the pinned profile.
\<close>

section \<open>Released reservations\<close>

lemma keeps_pins_trans: "keeps_pins d e \<Longrightarrow> keeps_pins e f \<Longrightarrow> keeps_pins d f"
  by (auto simp: keeps_pins_def intro: grows_trans)

lemma keeps_pins_refl: "keeps_pins d d"
  by (simp add: keeps_pins_def)

lemma published_row_reservations [simp]: "published_row (d\<lparr>sd_reservations := x\<rparr>) i = published_row d i"
  unfolding published_row_def by (cases "tbl_lookup rv_record_id (sd_revisions d) i") simp_all

lemma resolve_reservations [simp]: "resolve c (d\<lparr>sd_reservations := x\<rparr>) ref = resolve c d ref"
  by (cases c) (simp_all add: resolve_def)

lemma publish_reservations:
  assumes "publish ref d = Inr (u, d')"
  shows "publish ref (d\<lparr>sd_reservations := x\<rparr>) = Inr (u, d'\<lparr>sd_reservations := x\<rparr>)"
proof -
  obtain r where r: "resolve True d ref = Inr r" using assms by (auto simp: publish_def)
  show ?thesis
    using assms unfolding publish_def Let_def published_row_reservations resolve_reservations r bindR_simps
    by (cases "tbl_lookup rv_record_id (sd_revisions d) (record_id r)") (auto split: if_splits)
qed

lemma stage_publish_reservations:
  assumes "stage_publish r d = Inr (ref, d')"
  shows "stage_publish r (d\<lparr>sd_reservations := x\<rparr>) = Inr (ref, d'\<lparr>sd_reservations := x\<rparr>)"
proof -
  obtain d1 where 1: "stage_record r d = Inr (ref, d1)" "publish ref d1 = Inr ((), d')"
    using assms by (auto simp: stage_publish_def)
  have "stage_record r (d\<lparr>sd_reservations := x\<rparr>) = Inr (ref, d1\<lparr>sd_reservations := x\<rparr>)"
    using 1(1) by (auto simp: stage_record_def split: option.splits if_splits)
  then show ?thesis using publish_reservations [OF 1(2), of x] by (simp add: stage_publish_def)
qed

lemma finalize_unclaimed:
  assumes "finalize r c d = Inr (u, d2)"
  shows "finalize r c (unclaim i d) = Inr (u, unclaim i d2)"
proof -
  obtain ref d1 where v: "validate_reservation_revision r c = Inr ()"
    and p: "stage_publish (BudgetReservation c) d = Inr (ref, d1)"
    and d2: "d2 = d1\<lparr>sd_reservations := update_rows (\<lambda>row. rw_reservation_id row = br_reservation_id c)
              (\<lambda>row. row\<lparr>rw_status := br_status c, rw_payload := c\<rparr>) (sd_reservations d1)\<rparr>"
    using assms by (rule finalize_cases)
  have "sd_reservations d1 = sd_reservations d" using stage_publish_grows(2) [OF p] by (simp add: same_tables_def)
  then show ?thesis
    using v stage_publish_reservations [OF p]
    by (auto simp: finalize_def unclaim_def d2 update_rows_def)
qed

lemma unclaim_ok: "budget_ok d \<Longrightarrow> budget_ok (unclaim i d)"
  by (rule set_claimed_ok [where b = False and i = i]) (simp_all add: unclaim_def)

lemma unclaim_pins: "keeps_pins d (unclaim i d)"
  by (simp add: keeps_pins_def grows_def unclaim_def)

lemma retire_ok:
  assumes ok: "budget_ok d" and row: "row \<in> set (sd_reservations d)" "rw_status row = RESERVED"
    and c: "br_reservation_id c = br_reservation_id (rw_payload row)" "br_status c = RELEASED"
      "validate_reservation c = Inr ()"
    and h: "finalize (rw_payload row) c d = Inr (u, d2)"
  defines "i \<equiv> br_reservation_id (rw_payload row)"
  shows "budget_ok (unclaim i d2)" "keeps_pins d (unclaim i d2)"
    "\<And>q. q \<in> set (sd_reservations d) \<Longrightarrow> rw_reservation_id q \<noteq> rw_reservation_id row
       \<Longrightarrow> q \<in> set (sd_reservations (unclaim i d2))"
proof -
  have T: "tbl_ok rw_reservation_id (sd_reservations d)" "reservation_row_ok row"
    using ok row(1) by (auto simp: budget_ok_def list_all_iff)
  have id: "rw_reservation_id row = i" and st: "br_status (rw_payload row) = RESERVED"
    using T(2) row(2) by (simp_all add: reservation_row_ok_def i_def)
  have "tbl_lookup rw_reservation_id (sd_reservations d) i = Some row"
    using tbl_lookup_mem [OF T(1) row(1)] id by simp
  then have look: "tbl_lookup rw_reservation_id (sd_reservations (unclaim i d)) i = Some (row\<lparr>rw_claimed := False\<rparr>)"
    by (simp add: unclaim_def update_rows_lookup)
  have "release c (unclaim i d) = Inr (c, unclaim i d2)"
    using finalize_unclaimed [OF h, of i] look st c by (simp add: release_def i_def)
  then have step: "budget_step ev (unclaim i d) (unclaim i d2)" for ev by (rule budget_step.released)
  show "budget_ok (unclaim i d2)" by (rule budget_step_ok [OF unclaim_ok [OF ok] step])
  show "keeps_pins d (unclaim i d2)"
    by (rule keeps_pins_trans [OF unclaim_pins budget_step_pins [OF unclaim_ok [OF ok] step]])
  show "q \<in> set (sd_reservations (unclaim i d2))"
    if "q \<in> set (sd_reservations d)" "rw_reservation_id q \<noteq> rw_reservation_id row" for q
    using h
  proof (cases rule: finalize_cases)
    case (1 ref d1)
    have "sd_reservations d1 = sd_reservations d" using stage_publish_grows(2) [OF 1(2)] by (simp add: same_tables_def)
    then show ?thesis using that id c(1) by (force simp: 1(3) unclaim_def update_rows_def i_def)
  qed
qed

section \<open>The invariant of the ledger\<close>

definition sound :: "wdb \<Rightarrow> wdb \<Rightarrow> bool" where
  "sound s t \<longleftrightarrow>
     (budget_ok (wd_store s) \<longrightarrow> budget_ok (wd_store t) \<and> keeps_pins (wd_store s) (wd_store t))"

lemma sound_trans: "sound s t \<Longrightarrow> sound t u \<Longrightarrow> sound s u"
  by (auto simp: sound_def intro: keeps_pins_trans)

lemma sound_same: "wd_store t = wd_store s \<Longrightarrow> sound s t"
  by (simp add: sound_def keeps_pins_refl)

lemma sound_step: "budget_step ev (wd_store s) d \<Longrightarrow> sound s (s\<lparr>wd_store := d\<rparr>)"
  by (auto simp: sound_def intro: budget_step_ok budget_step_pins)

lemma sound_store: "(\<And>d x d'. m d = Inr (x, d') \<Longrightarrow> budget_step ev d d') \<Longrightarrow> framed sound (storeT m)"
  by (rule framedI) (auto simp: storeT_eq intro: sound_step)

lemma sound_journal: "framed sound (insert_journal row)" "framed sound (set_journal b c)"
  by (rule framedI, auto simp: insert_journal_def set_journal_def intro: sound_same split: if_splits)+

interpretation sound: quiet_frame sound
proof unfold_locales
  fix s :: wdb and c
  show "sound s (s\<lparr>wd_store := (wd_store s)\<lparr>sd_current := c\<rparr>\<rparr>)"
  proof -
    have "store_ok ((wd_store s)\<lparr>sd_current := c\<rparr>) = store_ok (wd_store s)"
      by (rule store_ok_cong) simp_all
    then show ?thesis
      using budget_ok_frame [of "wd_store s" "(wd_store s)\<lparr>sd_current := c\<rparr>"]
      by (auto simp: sound_def keeps_pins_def grows_def budget_ok_def)
  qed
next
  show "framed sound (storeT (stage_record r))" for r by (rule sound_store) (rule budget_step.staged)
  show "framed sound (storeT (publish ref))" for ref by (rule sound_store) (rule budget_step.published)
  show "framed sound (storeT (save_run state previous))" for state previous
    by (rule sound_store) (rule budget_step.saved)
qed (auto simp: sound_same sound_journal intro: sound_trans)

lemma sound_claim: "framed sound (storeT (claim_reservation ev reservation a w))"
  by (rule sound_store) (rule budget_step.claimed)

interpretation sound: using_frame sound
  by unfold_locales (auto simp: sound_same intro!: sound.claim_framed sound.outcome_framed sound_claim)

lemma retire_reservation_effect:
  assumes "retire_reservation h (rw_payload row) s = Inr (u, t)"
    and "budget_ok (wd_store s)" "row \<in> set (sd_reservations (wd_store s))" "rw_status row = RESERVED"
  shows "budget_ok (wd_store t)" "keeps_pins (wd_store s) (wd_store t)"
    "\<And>q. q \<in> set (sd_reservations (wd_store s)) \<Longrightarrow> rw_reservation_id q \<noteq> rw_reservation_id row
       \<Longrightarrow> q \<in> set (sd_reservations (wd_store t))"
proof -
  let ?r = "rw_payload row"
  obtain meta now n d2 where
    v: "validate_reservation (?r\<lparr>br_meta := meta, br_status := RELEASED, br_finalized_at := Some now\<rparr>) = Inr ()" and
    f: "finalize ?r (?r\<lparr>br_meta := meta, br_status := RELEASED, br_finalized_at := Some now\<rparr>) (wd_store s) = Inr ((), d2)" and
    t: "wd_store t = unclaim (br_reservation_id ?r) d2"
    using assms(1) unfolding retire_reservation_def next_metaT_def Let_def by (auto simp: storeT_eq)
  note R = retire_ok [OF assms(2-4) _ _ v f]
  show "budget_ok (wd_store t)" "keeps_pins (wd_store s) (wd_store t)" using R(1,2) by (simp_all add: t)
  show "q \<in> set (sd_reservations (wd_store t))"
    if "q \<in> set (sd_reservations (wd_store s))" "rw_reservation_id q \<noteq> rw_reservation_id row" for q
    using R(3) [OF _ _ that] by (simp add: t)
qed

lemma action_case:
  "(case r of ActionRequest a \<Rightarrow> f a | _ \<Rightarrow> retT ()) s = Inr (u, t) \<Longrightarrow> t = s \<or> (\<exists>a. f a s = Inr (u, t))"
  by (cases r) auto

lemma if_store: "(if b then retT () else m) s = Inr (u, t) \<Longrightarrow> t = s \<or> m s = Inr (u, t)"
  by (auto split: if_splits)

lemma retire_row_effect:
  assumes h: "retire_row h w row s = Inr (u, t)"
    and ok: "budget_ok (wd_store s)" "row \<in> set (sd_reservations (wd_store s))" "rw_status row = RESERVED"
  shows "budget_ok (wd_store t)" "keeps_pins (wd_store s) (wd_store t)"
    "\<And>q. q \<in> set (sd_reservations (wd_store s)) \<Longrightarrow> rw_reservation_id q \<noteq> rw_reservation_id row
       \<Longrightarrow> q \<in> set (sd_reservations (wd_store t))"
proof -
  consider "wd_store t = wd_store s"
    | s1 u1 s2 where "wd_store s1 = wd_store s" "retire_reservation h (rw_payload row) s1 = Inr (u1, s2)"
        "wd_store t = wd_store s2"
    using h unfolding retire_row_def Let_def
    by (fastforce dest!: action_case if_store split: option.splits)
  then have "budget_ok (wd_store t) \<and> keeps_pins (wd_store s) (wd_store t)
    \<and> (\<forall>q \<in> set (sd_reservations (wd_store s)). rw_reservation_id q \<noteq> rw_reservation_id row
         \<longrightarrow> q \<in> set (sd_reservations (wd_store t)))"
  proof cases
    case 1
    then show ?thesis using ok by (simp add: keeps_pins_refl)
  next
    case 2
    then show ?thesis using retire_reservation_effect [OF 2(2)] ok by simp
  qed
  then show "budget_ok (wd_store t)" "keeps_pins (wd_store s) (wd_store t)"
    "\<And>q. q \<in> set (sd_reservations (wd_store s)) \<Longrightarrow> rw_reservation_id q \<noteq> rw_reservation_id row
       \<Longrightarrow> q \<in> set (sd_reservations (wd_store t))" by blast+
qed

lemma retire_rows_effect:
  assumes "forT (retire_row h w) rows s = Inr (u, t)" "budget_ok (wd_store s)"
    and "tbl_ok rw_reservation_id rows" "set rows \<subseteq> set (sd_reservations (wd_store s))"
    and "list_all (\<lambda>row. rw_status row = RESERVED) rows"
  shows "budget_ok (wd_store t) \<and> keeps_pins (wd_store s) (wd_store t)"
  using assms
proof (induction rows arbitrary: s)
  case (Cons row rows)
  obtain v s1 where 1: "retire_row h w row s = Inr (v, s1)" "forT (retire_row h w) rows s1 = Inr (u, t)"
    using Cons.prems(1) by auto
  note R = retire_row_effect [OF 1(1) Cons.prems(2)]
  have row: "row \<in> set (sd_reservations (wd_store s))" "rw_status row = RESERVED"
    using Cons.prems(4,5) by simp_all
  have "q \<in> set (sd_reservations (wd_store s1))" if q: "q \<in> set rows" for q
  proof (rule R(3) [OF row])
    show "q \<in> set (sd_reservations (wd_store s))" using q Cons.prems(4) by auto
    show "rw_reservation_id q \<noteq> rw_reservation_id row" using q Cons.prems(3) by (force simp: tbl_ok_def image_iff)
  qed
  then have "set rows \<subseteq> set (sd_reservations (wd_store s1))" by blast
  then have "budget_ok (wd_store t) \<and> keeps_pins (wd_store s1) (wd_store t)"
    using Cons.IH [OF 1(2) R(1) [OF row]] Cons.prems(3,5) by (simp add: tbl_ok_def)
  then show ?case using R(2) [OF row] by (auto intro: keeps_pins_trans)
qed (simp add: keeps_pins_refl)

lemma tbl_ok_filter: "tbl_ok key t \<Longrightarrow> tbl_ok key (filter P t)"
  by (auto simp: tbl_ok_def intro: distinct_map_filter)

lemma sound_retire: "framed sound (retire_undispatched h w)"
proof (rule framedI)
  fix s u t assume h: "retire_undispatched h w s = Inr (u, t)"
  let ?rows = "filter (\<lambda>row. rw_analysis_id row = work_analysis w \<and> rw_status row = RESERVED)
                 (sd_reservations (wd_store s))"
  have "forT (retire_row h w) ?rows s = Inr (u, t)" using h by (auto simp: retire_undispatched_def)
  moreover have "tbl_ok rw_reservation_id ?rows" if "budget_ok (wd_store s)"
    by (rule tbl_ok_filter) (use that in \<open>simp add: budget_ok_def\<close>)
  moreover have "set ?rows \<subseteq> set (sd_reservations (wd_store s))" "list_all (\<lambda>row. rw_status row = RESERVED) ?rows"
    by (auto simp: list_all_iff)
  ultimately show "sound s t"
    unfolding sound_def using retire_rows_effect [of h w ?rows s u t] by (intro impI) simp
qed

interpretation sound: effect_frame sound
proof unfold_locales
  fix s :: wdb and v
  show "sound s (s\<lparr>wd_store := (wd_store s)\<lparr>sd_attempts := v\<rparr>\<rparr>)"
    by (rule sound_step) (rule budget_step.attempts)
qed (auto simp: sound_same sound_retire)

interpretation sound: dispatch_frame sound
  by unfold_locales
    (simp_all add: sound.dispatch_framed sound_same sound.prepare_framed sound_journal
      sound.cancel_framed sound.cancel_journal_framed)

lemma work_step_sound: "work_step s t \<Longrightarrow> sound s t"
  by (erule sound.step_framed) (auto intro: sound_step sound_same)

section \<open>Parallel works\<close>

definition running_in :: "string \<Rightarrow> work \<Rightarrow> bool" where
  "running_in a w \<longleftrightarrow> work_analysis w = a \<and> wk_status w = W_RUNNING"

lemma running_works_eq: "typed s \<Longrightarrow> length (running_works s a) = length (filter (running_in a) (works s))"
  by (auto simp: running_works_def works_def filter_map typed_def list_all_iff row_typed_def running_in_def
      intro!: arg_cong [where f = length] filter_cong)

lemma filter_map_fewer:
  "(\<And>x. x \<in> set xs \<Longrightarrow> P (f x) \<Longrightarrow> P x) \<Longrightarrow> length (filter P (map f xs)) \<le> length (filter P xs)"
  by (induction xs) (auto simp: le_SucI)

lemma replace_fewer:
  assumes "p \<in> set ws" "tbl_ok wk_work_id ws" "wk_work_id w = wk_work_id p" "running_in a w \<longrightarrow> running_in a p"
  shows "length (filter (running_in a) (replace_work w ws)) \<le> length (filter (running_in a) ws)"
proof -
  have "running_in a x" if "x \<in> set ws" "running_in a (if wk_work_id x = wk_work_id w then w else x)" for x
    using that assms(3,4) tbl_ok_inj [OF assms(2) that(1) assms(1)] by (auto split: if_splits)
  then show ?thesis
    unfolding replace_work_def update_rows_def by (rule filter_map_fewer)
qed

lemma replace_one_more:
  assumes "tbl_ok wk_work_id ws"
  shows "length (filter (running_in a) (replace_work w ws)) \<le> Suc (length (filter (running_in a) ws))"
  using assms
proof (induction ws)
  case (Cons x ws)
  show ?case
  proof (cases "wk_work_id x = wk_work_id w")
    case True
    then have "replace_work w ws = ws"
      using Cons.prems unfolding replace_work_def update_rows_def tbl_ok_def
      by (intro map_idI) (force simp: image_iff)
    then show ?thesis using True by (simp add: replace_work_def update_rows_def)
  next
    case False
    then show ?thesis using Cons by (simp add: replace_work_def update_rows_def tbl_ok_def)
  qed
qed (simp add: replace_work_def update_rows_def)

definition parallel_ok :: "wdb \<Rightarrow> bool" where
  "parallel_ok s \<longleftrightarrow> (\<forall>a. running_works s a = []
     \<or> (\<exists>p. pinned_execution (wd_store s) a p \<and> length (running_works s a) \<le> ep_max_parallel_work p))"

lemma parallel_fewer:
  assumes "parallel_ok s" "keeps_pins (wd_store s) (wd_store t)"
    and "\<And>a. length (running_works t a) \<le> length (running_works s a)"
  shows "parallel_ok t"
  unfolding parallel_ok_def
proof
  fix a
  show "running_works t a = []
     \<or> (\<exists>p. pinned_execution (wd_store t) a p \<and> length (running_works t a) \<le> ep_max_parallel_work p)"
    using assms(1) assms(3) [of a] pinned_execution_mono [OF assms(2)] le_trans unfolding parallel_ok_def
    by (metis le_zero_eq length_0_conv)
qed

lemma parallel_started:
  assumes inv: "typed s" "budget_ok (wd_store s)" "parallel_ok s" and pins: "keeps_pins (wd_store s) (wd_store t)"
    and m: "moved s t p w" and ad: "start_admitted au (s\<lparr>wd_ticks := n\<rparr>) b act p reservation = Inr prior"
  shows "parallel_ok t"
  unfolding parallel_ok_def
proof
  fix a
  note M = movedD [OF m inv(1)]
  have works_t: "works t = replace_work w (works s)" and wa: "work_analysis w = work_analysis p"
    using m by (simp_all add: moved_def)
  note ids = typed_distinct [OF inv(1)]
  show "running_works t a = []
     \<or> (\<exists>q. pinned_execution (wd_store t) a q \<and> length (running_works t a) \<le> ep_max_parallel_work q)"
  proof (cases "a = work_analysis p")
    case True
    have ticks: "running_works (s\<lparr>wd_ticks := n\<rparr>) a = running_works s a" by (simp add: running_works_def)
    obtain r :: reservation and q where "execution (wd_store s) (br_budget_binding_ref r) (work_analysis p) = Inr q"
      "length (running_works s (work_analysis p)) < ep_max_parallel_work q"
      using ad ticks unfolding True by (auto simp: start_admitted_def not_le intro!: that)
    then have q: "execution (wd_store s) (br_budget_binding_ref r) a = Inr q"
      "length (running_works s a) < ep_max_parallel_work q" by (simp_all add: True)
    have "pinned_execution (wd_store t) a q"
      using execution_pinned [OF _ q(1)] pinned_execution_mono [OF pins] inv(2) by (simp add: budget_ok_def)
    moreover have "length (running_works t a) \<le> Suc (length (running_works s a))"
      using replace_one_more [OF ids, of a w] by (simp add: running_works_eq inv(1) M(1) works_t)
    ultimately show ?thesis using q(2) by auto
  next
    case False
    have "length (running_works t a) \<le> length (running_works s a)"
      using replace_fewer [OF M(3) ids M(4), of a] False wa
      by (simp add: running_works_eq inv(1) M(1) works_t running_in_def)
    then show ?thesis
      using inv(3) pinned_execution_mono [OF pins] unfolding parallel_ok_def
      by (metis le_trans le_zero_eq length_0_conv)
  qed
qed

definition system_ok :: "wdb \<Rightarrow> bool" where
  "system_ok s \<longleftrightarrow> work_inv s \<and> budget_ok (wd_store s) \<and> parallel_ok s"

lemma empty_system_ok: "system_ok empty_wdb"
  using empty_budget_ok by (simp add: system_ok_def empty_work_inv parallel_ok_def running_works_def) (simp add: empty_wdb_def)

lemma moved_fewer:
  assumes "typed s" "moved s t p w" "wk_status w \<noteq> W_RUNNING"
  shows "length (running_works t a) \<le> length (running_works s a)"
proof -
  note M = movedD [OF assms(2,1)]
  have "works t = replace_work w (works s)" using assms(2) by (simp add: moved_def)
  then show ?thesis
    using replace_fewer [OF M(3) typed_distinct [OF assms(1)] M(4), of a] assms(3)
    by (simp add: running_works_eq assms(1) M(1) running_in_def)
qed

lemma system_ok_step:
  assumes inv: "system_ok s" and step: "work_step s t"
  shows "system_ok t"
proof -
  have ok: "typed s" "attempts_typed s" "budget_ok (wd_store s)" "parallel_ok s"
    using inv by (simp_all add: system_ok_def work_inv_def)
  have store: "budget_ok (wd_store t)" "keeps_pins (wd_store s) (wd_store t)"
    using work_step_sound [OF step] ok(3) by (simp_all add: sound_def)
  from step ok(1,2) have "parallel_ok t"
  proof (cases rule: step_cases)
    case quiet
    then have "running_works t a = running_works s a" for a by (simp add: running_works_def work_frame_def)
    then show ?thesis by (intro parallel_fewer [OF ok(4) store(2)]) simp
  next
    case (added w)
    then have "length (running_works t a) = length (running_works s a)" for a
      by (simp add: running_works_eq ok(1) running_in_def)
    then show ?thesis by (intro parallel_fewer [OF ok(4) store(2)]) simp
  next
    case (ready p w)
    show ?thesis by (rule parallel_fewer [OF ok(4) store(2) moved_fewer [OF ok(1) ready(1)]]) (simp add: ready(4))
  next
    case (start p w a act au n reservation)
    then obtain prior where "start_admitted au (s\<lparr>wd_ticks := n\<rparr>) a act p reservation = Inr prior" by blast
    then show ?thesis by (rule parallel_started [OF ok(1,3,4) store(2) start(1)])
  next
    case (ended p w)
    show ?thesis by (rule parallel_fewer [OF ok(4) store(2) moved_fewer [OF ok(1) ended(1)]]) (use ended(3) in auto)
  qed
  moreover have "work_inv t" using inv work_inv_step [OF _ step] by (simp add: system_ok_def)
  ultimately show ?thesis using store(1) by (simp add: system_ok_def)
qed

interpretation system: invariant_system work_step system_ok
  by unfold_locales (rule system_ok_step)

text \<open>
  C34. The limit on parallel works holds: in every state the services reach, the works of a run in the
  status \<open>RUNNING\<close> are at most \<open>max_parallel_work\<close> of the execution profile that any of its budget
  bindings leads to.
\<close>

theorem parallel_works_bounded:
  assumes "reaches work_step empty_wdb s" and "execution (wd_store s) ref a = Inr profile"
  shows "length (running_works s a) \<le> ep_max_parallel_work profile"
proof -
  have ok: "system_ok s" by (rule system.reaches_inv [OF assms(1) empty_system_ok])
  then have "pinned_execution (wd_store s) a profile"
    using execution_pinned [OF _ assms(2)] by (simp add: system_ok_def budget_ok_def)
  moreover have "running_works s a = []
     \<or> (\<exists>p. pinned_execution (wd_store s) a p \<and> length (running_works s a) \<le> ep_max_parallel_work p)"
    using ok by (simp add: system_ok_def parallel_ok_def)
  ultimately show ?thesis by (auto dest: pinned_execution_unique)
qed

end
