(* ===== verification/Work_Safety.thy ===== *)
theory Work_Safety
  imports Work_Soundness
begin

text \<open>
  Single use of decisions, the boundary to side effects, and the recovery of prepared transitions.
\<close>

section \<open>Decisions\<close>

definition used_ids :: "wdb \<Rightarrow> string list" where
  "used_ids s = map dr_action_id (wd_decisions s)"

definition once :: "wdb \<Rightarrow> wdb \<Rightarrow> bool" where
  "once s t \<longleftrightarrow> (distinct (used_ids s) \<longrightarrow> distinct (used_ids t)) \<and> set (used_ids s) \<subseteq> set (used_ids t)"

definition same_decisions :: "wdb \<Rightarrow> wdb \<Rightarrow> bool" where
  "same_decisions s t \<longleftrightarrow> wd_decisions t = wd_decisions s"

lemma store_same_decisions: "framed same_decisions (storeT m)"
  by (rule framedI) (auto simp: storeT_eq same_decisions_def)

lemma journal_same_decisions: "framed same_decisions (insert_journal row)" "framed same_decisions (set_journal b c)"
  by (rule framedI, auto simp: insert_journal_def set_journal_def same_decisions_def split: if_splits)+

interpretation decided: quiet_frame same_decisions
  by unfold_locales (auto simp: same_decisions_def journal_same_decisions store_same_decisions)

lemma decided_once: "framed same_decisions m \<Longrightarrow> framed once m"
  by (erule framed_mono) (auto simp: same_decisions_def once_def used_ids_def)

lemma claim_uses:
  assumes "claim au h ref kind w reservation b s = Inr (x, t)"
  obtains decision a where "decision_and_action (wd_store s) ref kind = Inr (decision, a)"
    "ar_action_id a \<notin> set (used_ids s)" "used_ids t = used_ids s @ [ar_action_id a]"
proof -
  obtain decision a meta taken i s1 s2 s3 s4 s5 u1 u2 where
    1: "check_use au h ref kind w reservation b s = Inr ((decision, a), s1)" and
    2: "next_metaT h (ad_meta decision) s1 = Inr (meta, s2)" and
    3: "s3 = s2\<lparr>wd_ticks := Suc (wd_ticks s2)\<rparr>" and
    4: "keepT (ActionDecision taken) s3 = Inr (u1, s4)" and
    5: "s5 = s4\<lparr>wd_decisions := wd_decisions s4 @ [\<lparr>dr_decision_id = i,
            dr_action_id = ar_action_id a, dr_payload = taken\<rparr>]\<rparr>" and
    6: "(if b then storeT (claim_reservation (au_evidence au) reservation a w) else retT ()) s5 = Inr (u2, t)"
    using assms unfolding claim_def Let_def by auto
  have "framed same_decisions (if b then storeT (claim_reservation (au_evidence au) reservation a w) else retT ())"
    by (intro decided.framed_if decided.framed_ret store_same_decisions)
  then have "wd_decisions t = wd_decisions s5" using 6 by (auto simp: same_decisions_def dest: framedD)
  moreover have "wd_decisions s4 = wd_decisions s"
    using framedD [OF decided.framed_check_use 1] framedD [OF decided.framed_next_meta 2]
      framedD [OF decided.framed_keep 4] by (simp add: same_decisions_def 3)
  moreover have "decision_and_action (wd_store s) ref kind = Inr (decision, a)"
    "tbl_lookup dr_action_id (wd_decisions s) (ar_action_id a) = None"
    using 1 unfolding check_use_def by (auto simp: use_scope_def)
  ultimately show ?thesis
    using that 5 by (simp add: used_ids_def tbl_lookup_None)
qed

interpretation once: using_frame once
proof unfold_locales
  show "framed once (claim au h ref kind w reservation b)" for au h ref kind w reservation b
    by (rule framedI) (auto elim!: claim_uses simp: once_def)
  show "framed once (record_outcome h c outputs)" for h c outputs
  proof (rule framedI)
    fix s x t assume r: "record_outcome h c outputs s = Inr (x, t)"
    then obtain meta completed u s1 s2 where
      1: "next_metaT h (ad_meta c) s = Inr (meta, s1)" and
      2: "keepT (ActionDecision completed) s1 = Inr (u, s2)" and
      3: "t = s2\<lparr>wd_decisions := update_rows (\<lambda>row. dr_decision_id row = ad_decision_id completed)
                   (\<lambda>row. row\<lparr>dr_payload := completed\<rparr>) (wd_decisions s2)\<rparr>"
      unfolding record_outcome_def Let_def by auto
    have "wd_decisions s2 = wd_decisions s"
      using framedD [OF decided.framed_next_meta 1] framedD [OF decided.framed_keep 2]
      by (simp add: same_decisions_def)
    then have "used_ids t = used_ids s" by (simp add: 3 used_ids_def update_rows_def)
    then show "once s t" by (simp add: once_def)
  qed
qed (auto simp: once_def used_ids_def decided_once journal_same_decisions store_same_decisions)

lemma decided_retire: "framed same_decisions (retire_undispatched h w)"
  by (rule decided.retired_framed) (auto simp: same_decisions_def intro: store_same_decisions framedI)

interpretation once: effect_frame once
  by unfold_locales (auto simp: once_def used_ids_def decided_once decided_retire)

interpretation once: dispatch_frame once
proof unfold_locales
  have j: "framed once (insert_journal row)" for row by (rule decided_once) (rule journal_same_decisions)
  show "framed once (prepare au h q binding refs)" for au h q binding refs
    by (rule once.prepare_framed) (rule j)
  show "framed once (cancel_in_transaction au h w identity)" for au h w identity
    by (rule once.cancel_framed, rule once.cancel_journal_framed) (rule j)
qed (rule once.dispatch_framed, simp add: once_def used_ids_def)+

lemma work_step_once: "work_step s t \<Longrightarrow> once s t"
  by (erule once.step_framed) (simp_all add: once_def used_ids_def)

definition advances :: "wdb \<Rightarrow> wdb \<Rightarrow> bool" where
  "advances s t \<longleftrightarrow> keeps_pins (wd_store s) (wd_store t) \<and> once s t"

interpretation system: monotone_system work_step system_ok advances
proof unfold_locales
  show "advances s s" for s by (simp add: advances_def keeps_pins_refl once_def)
  show "advances s u" if "advances s t" "advances t u" for s t u
    using that by (auto simp: advances_def once_def intro: keeps_pins_trans)
  show "advances s t" if "system_ok s" "work_step s t" for s t
    using work_step_sound [OF that(2)] work_step_once [OF that(2)] that(1)
    by (simp add: advances_def sound_def system_ok_def)
qed

lemma decision_case [simp]:
  "(case r of ActionDecision d \<Rightarrow> F d | _ \<Rightarrow> Inl e) = (Inr y :: 'a res) \<longleftrightarrow> (\<exists>d. r = ActionDecision d \<and> F d = Inr y)"
  by (cases r) simp_all

lemma decision_and_action_keeps:
  assumes "keeps_pins d d'" "decision_and_action d ref kind = Inr (decision, a)"
  shows "decision_and_action d' ref kind' = Inr (decision', a') \<Longrightarrow> decision' = decision \<and> a' = a"
proof -
  have g: "grows d d'" using assms(1) by (simp add: keeps_pins_def)
  have r: "resolve False d ref = Inr (ActionDecision decision)"
    "resolve False d (ad_action_ref decision) = Inr (ActionRequest a)"
    using assms(2) by (auto simp: decision_and_action_def)
  show "decision_and_action d' ref kind' = Inr (decision', a') \<Longrightarrow> decision' = decision \<and> a' = a"
    using grows_resolve [OF g r(1)] grows_resolve [OF g r(2)]
    by (auto simp: decision_and_action_def split: if_splits)
qed

lemma reaches_once: "reaches work_step s t \<Longrightarrow> once s t"
proof (induction rule: reaches.induct)
  case (step s t u)
  then show ?case using once.frame_trans work_step_once by blast
qed (rule once.frame_refl)

text \<open>
  C36. A decision is used at most once: in every reachable state the used decisions belong to
  different actions, and once the decision on an action was claimed, every later claim of it raises,
  whatever the operation, the work or the reservation.
\<close>

theorem decision_used_once:
  assumes "reaches work_step empty_wdb s" and "reaches work_step s t"
    and "decision_and_action (wd_store s) ref kind = Inr (decision, a)"
    and "ar_action_id a \<in> set (map dr_action_id (wd_decisions s))"
  shows "distinct (map dr_action_id (wd_decisions t)) \<and> (\<exists>e. claim au h ref kind' w reservation b t = Inl e)"
proof
  have ok: "system_ok s" by (rule system.reaches_inv [OF assms(1) empty_system_ok])
  have adv: "advances s t" by (rule system.reaches_ext [OF assms(2) ok])
  have "once empty_wdb t" by (rule reaches_once [OF reaches_trans [OF assms(1,2)]])
  then show "distinct (map dr_action_id (wd_decisions t))"
    by (simp add: once_def used_ids_def empty_wdb_def)
  show "\<exists>e. claim au h ref kind' w reservation b t = Inl e"
  proof (cases "claim au h ref kind' w reservation b t")
    case (Inr r)
    then obtain x u where c: "claim au h ref kind' w reservation b t = Inr (x, u)" by (cases r) simp
    then obtain decision' a' where
      d: "decision_and_action (wd_store t) ref kind' = Inr (decision', a')" "ar_action_id a' \<notin> set (used_ids t)"
      by (rule claim_uses)
    have "a' = a" using decision_and_action_keeps [OF _ assms(3) d(1)] adv by (simp add: advances_def)
    then show ?thesis using d(2) adv assms(4) by (auto simp: advances_def once_def used_ids_def)
  qed simp
qed

section \<open>Side effects\<close>

definition dispatch_ok :: "wdb \<Rightarrow> bool" where
  "dispatch_ok s \<longleftrightarrow>
     tbl_ok di_action_id (wd_dispatches s)
     \<and> (\<forall>q \<in> set (wd_dispatches s). \<forall>r \<in> set (wd_dispatches s).
          unresolved q \<and> unresolved r \<and> di_work_id q = di_work_id r \<longrightarrow> q = r)"

definition dispatched :: "wdb \<Rightarrow> wdb \<Rightarrow> bool" where
  "dispatched s t \<longleftrightarrow> (dispatch_ok s \<longrightarrow> dispatch_ok t)"

lemma dispatched_same: "same_dispatches s t \<Longrightarrow> dispatched s t"
  by (simp add: dispatched_def dispatch_ok_def same_dispatches_def)

lemma framed_dispatched: "framed same_dispatches m \<Longrightarrow> framed dispatched m"
  by (erule framed_mono) (rule dispatched_same)

lemma dispatch_update:
  assumes "dispatch_ok s"
    and f: "\<And>q. di_action_id (f q) = di_action_id q" "\<And>q. di_work_id (f q) = di_work_id q"
      "\<And>q. unresolved (f q) \<Longrightarrow> unresolved q"
  shows "dispatch_ok (s\<lparr>wd_dispatches := update_rows P f (wd_dispatches s)\<rparr>)"
proof -
  let ?t = "s\<lparr>wd_dispatches := update_rows P f (wd_dispatches s)\<rparr>"
  have "q = r" if q: "q \<in> set (wd_dispatches ?t)" "r \<in> set (wd_dispatches ?t)" "unresolved q" "unresolved r"
    "di_work_id q = di_work_id r" for q r
  proof -
    obtain x y where x: "x \<in> set (wd_dispatches s)" "q = (if P x then f x else x)"
      and y: "y \<in> set (wd_dispatches s)" "r = (if P y then f y else y)"
      using q(1,2) by (auto simp: update_rows_def)
    have "unresolved x" "unresolved y" "di_work_id x = di_work_id y"
      using q(3-5) x(2) y(2) f(2,3) by (auto split: if_splits)
    then have "x = y" using assms(1) x(1) y(1) by (simp add: dispatch_ok_def)
    then show ?thesis using x(2) y(2) by simp
  qed
  then show ?thesis
    using assms(1) update_rows_key(2) [of di_action_id f P "wd_dispatches s", OF f(1)]
    by (simp add: dispatch_ok_def)
qed

lemma sent_ok:
  assumes "dispatch_ok s" "row \<in> set (wd_dispatches s)" "\<not> uncertain s (di_work_id row)"
    and f: "\<And>q. di_action_id (f q) = di_action_id q" "\<And>q. di_work_id (f q) = di_work_id q"
  shows "dispatch_ok (s\<lparr>wd_dispatches :=
    update_rows (\<lambda>q. di_action_id q = di_action_id row \<and> P q) f (wd_dispatches s)\<rparr>)" (is "dispatch_ok ?t")
proof -
  have k: "tbl_ok di_action_id (wd_dispatches s)" using assms(1) by (simp add: dispatch_ok_def)
  have only: "x = row" if "x \<in> set (wd_dispatches s)" "di_action_id x = di_action_id row" for x
    by (rule tbl_ok_inj [OF k that(1) assms(2) that(2)])
  have "q = r" if q: "q \<in> set (wd_dispatches ?t)" "r \<in> set (wd_dispatches ?t)" "unresolved q" "unresolved r"
    "di_work_id q = di_work_id r" for q r
  proof -
    let ?g = "\<lambda>x. if di_action_id x = di_action_id row \<and> P x then f x else x"
    obtain x y where x: "x \<in> set (wd_dispatches s)" "q = ?g x" and y: "y \<in> set (wd_dispatches s)" "r = ?g y"
      using q(1,2) by (auto simp: update_rows_def)
    have w: "di_work_id x = di_work_id y" using q(5) x(2) y(2) f(2) by (auto split: if_splits)
    have free: "\<not> unresolved z" if "z \<in> set (wd_dispatches s)" "di_work_id z = di_work_id row" for z
      using assms(3) that by (auto simp: uncertain_def)
    have "x = y"
    proof (cases "?g x = x \<and> ?g y = y")
      case True
      then show ?thesis using assms(1) q(3-5) x y by (simp add: dispatch_ok_def)
    next
      case False
      then have "di_work_id x = di_work_id row" using only [OF x(1)] only [OF y(1)] w by (auto split: if_splits)
      then have "\<not> unresolved x" "\<not> unresolved y" using free x(1) y(1) w by simp_all
      then have "di_action_id x = di_action_id row" "di_action_id y = di_action_id row"
        using q(3,4) x(2) y(2) by (auto split: if_splits)
      then show ?thesis using only [OF x(1)] only [OF y(1)] by simp
    qed
    then show ?thesis using x(2) y(2) by simp
  qed
  then show ?thesis
    using k update_rows_key(2) [of di_action_id f _ "wd_dispatches s", OF f(1)]
    by (simp add: dispatch_ok_def)
qed

interpretation sends: quiet_frame dispatched
  by unfold_locales (auto simp: dispatched_same same_dispatches_def dispatched_def dispatch_ok_def
    intro!: framed_dispatched storeT_same_dispatches same_dispatches_journal)

interpretation sends: using_frame dispatched
  by unfold_locales (simp_all add: framed_dispatched dispatches.framed_claim dispatches.framed_record_outcome)

interpretation sends: effect_frame dispatched
proof unfold_locales
  show "framed dispatched (retire_undispatched h w)" for h w
  proof (rule sends.retired_framed)
    show "framed dispatched (modifyT (\<lambda>s. s\<lparr>wd_dispatches :=
           update_rows P (\<lambda>q. q\<lparr>di_reconciled_at := Some now\<rparr>) (wd_dispatches s)\<rparr>))" for P now
      by (rule framedI) (auto simp: dispatched_def unresolved_def intro!: dispatch_update)
  qed (rule framed_dispatched, rule storeT_same_dispatches)
qed (auto simp: dispatched_def dispatch_ok_def)

lemma prepared_dispatched: "framed dispatched (claim_external au h i ref reservation)"
proof -
  have i: "framed dispatched (insertT wd_dispatches (\<lambda>f s. s\<lparr>wd_dispatches := f (wd_dispatches s)\<rparr>) di_action_id m
      \<lparr>di_action_id = x, di_work_id = w, di_attempt_id = a, di_decision_ref = ref, di_reservation_ref = res,
       di_prepared_at = now, di_dispatched_at = None, di_returned_at = None, di_provider_request_id = None,
       di_idempotency_key = None, di_reconciled_at = None\<rparr>)" for m x w a ref res now
    by (rule framedI) (auto simp: dispatched_def dispatch_ok_def unresolved_def intro!: tbl_ok_snoc)
  show ?thesis
    unfolding claim_external_def resume_dispatch_def prepare_dispatch_def unexpiredT_def
    by (intro sends.quiet_rules sends.framed_claim i)
qed

lemma dispatch_row_member: "dispatch_row_of ref s = Inr row \<Longrightarrow> row \<in> set (wd_dispatches s)"
proof -
  assume h: "dispatch_row_of ref s = Inr row"
  then have "filter (\<lambda>row. di_decision_ref row = ref) (wd_dispatches s) = [row]"
    by (auto simp: dispatch_row_of_def split: list.splits)
  then have "row \<in> set (filter (\<lambda>row. di_decision_ref row = ref) (wd_dispatches s))" by simp
  then show ?thesis by simp
qed

lemma sent_dispatched: "framed dispatched (mark_dispatched au h ref provider key)"
proof (rule framedI)
  fix s u t assume h: "mark_dispatched au h ref provider key s = Inr (u, t)"
  obtain row decision s1 where
    row: "dispatch_row_of ref s = Inr row" and
    1: "unexpiredT h decision s = Inr ((), s1)" and
    2: "send_dispatch h row provider key s1 = Inr (u, t)"
    using h unfolding mark_dispatched_def by auto
  have "framed same_dispatches (unexpiredT h decision)"
    unfolding unexpiredT_def by (intro dispatches.quiet_rules)
  then have same: "wd_dispatches s1 = wd_dispatches s" using 1 by (auto simp: same_dispatches_def dest: framedD)
  have mem: "row \<in> set (wd_dispatches s1)" using dispatch_row_member [OF row] same by simp
  obtain now where nu: "\<not> uncertain s1 (di_work_id row)" and
    t: "t = s1\<lparr>wd_ticks := Suc (wd_ticks s1), wd_dispatches :=
         update_rows (\<lambda>q. di_action_id q = di_action_id row \<and> di_dispatched_at q = None)
           (\<lambda>q. q\<lparr>di_dispatched_at := Some now, di_provider_request_id := provider,
                    di_idempotency_key := key\<rparr>) (wd_dispatches s1)\<rparr>"
    using 2 unfolding send_dispatch_def by (auto simp: reject_uncertain_def)
  have "dispatch_ok (s1\<lparr>wd_dispatches :=
         update_rows (\<lambda>q. di_action_id q = di_action_id row \<and> di_dispatched_at q = None)
           (\<lambda>q. q\<lparr>di_dispatched_at := Some now, di_provider_request_id := provider,
                    di_idempotency_key := key\<rparr>) (wd_dispatches s1)\<rparr>)" if "dispatch_ok s1"
    by (rule sent_ok [OF that mem nu]) simp_all
  then show "dispatched s t"
    using same by (simp add: dispatched_def dispatch_ok_def t)
qed

lemma returned_dispatched: "framed dispatched (mark_returned h ref)"
proof -
  have "framed dispatched (modifyT (\<lambda>s. s\<lparr>wd_dispatches :=
          update_rows P (\<lambda>q. q\<lparr>di_returned_at := Some now\<rparr>) (wd_dispatches s)\<rparr>))" for P now
    by (rule framedI) (auto simp: dispatched_def unresolved_def intro!: dispatch_update)
  then show ?thesis unfolding mark_returned_def Let_def by (intro sends.quiet_rules)
qed

interpretation sends: dispatch_frame dispatched
proof unfold_locales
  have j: "framed dispatched (insert_journal row)" for row by (rule framed_dispatched) (rule same_dispatches_journal)
  show "framed dispatched (prepare au h q binding refs)" for au h q binding refs
    by (rule sends.prepare_framed) (rule j)
  show "framed dispatched (cancel_in_transaction au h w identity)" for au h w identity
    by (rule sends.cancel_framed, rule sends.cancel_journal_framed) (rule j)
qed (rule prepared_dispatched, rule sent_dispatched, rule returned_dispatched)

lemma work_step_dispatched: "work_step s t \<Longrightarrow> dispatched s t"
  by (erule sends.step_framed) (simp_all add: dispatched_def dispatch_ok_def)

lemma reaches_dispatched: "reaches work_step s t \<Longrightarrow> dispatched s t"
  by (induction rule: reaches.induct) (auto dest: work_step_dispatched simp: dispatched_def)

lemma empty_dispatch_ok: "dispatch_ok empty_wdb"
  by (simp add: dispatch_ok_def empty_wdb_def tbl_ok_def)

text \<open>
  C37. Side effects of one work are never in doubt twice.  The invariants named here hold of the empty
  database and are kept by every step; in every state reached from a state with them, when a dispatch of
  a work was sent and its outcome is not known, it is the only one of that work, no further effect
  of the work can be claimed, no dispatch of it can be sent and no attempt of it can start.
\<close>

theorem one_unresolved_dispatch:
  assumes "work_inv s" "dispatch_ok s" "reaches work_step s t"
    and doubt: "uncertain t i"
    and row: "dispatch_row_of ref t = Inr row" "di_work_id row = i" and tr: "tr_work_id tr = i"
  shows "(\<exists>!q. q \<in> set (wd_dispatches t) \<and> di_work_id q = i \<and> unresolved q)
    \<and> (\<exists>e. claim_external au h i ref' reservation t = Inl e)
    \<and> (\<exists>e. mark_dispatched au h ref provider key t = Inl e)
    \<and> (\<exists>e. start_attempt au h tr a r worker lease t = Inl e)"
proof (intro conjI)
  have "dispatch_ok t" using reaches_dispatched [OF assms(3)] assms(2) by (simp add: dispatched_def)
  then show "\<exists>!q. q \<in> set (wd_dispatches t) \<and> di_work_id q = i \<and> unresolved q"
    using doubt by (auto simp: dispatch_ok_def uncertain_def)
  have inv: "typed t" using works.reaches_inv [OF assms(3,1)] by (simp add: work_inv_def)
  have fails: "\<exists>e. m = Inl e" if "\<And>x y. m = Inr (x, y) \<Longrightarrow> False" for m :: "('a \<times> wdb) res"
    using that by (cases m) auto
  show "\<exists>e. claim_external au h i ref' reservation t = Inl e"
    by (rule fails) (use doubt in \<open>auto simp: claim_external_def reject_uncertain_def\<close>)
  show "\<exists>e. mark_dispatched au h ref provider key t = Inl e"
  proof (rule fails)
    fix x u assume "mark_dispatched au h ref provider key t = Inr (x, u)"
    then obtain found decision s1 where "dispatch_row_of ref t = Inr found" "unexpiredT h decision t = Inr ((), s1)"
      "send_dispatch h found provider key s1 = Inr (x, u)"
      unfolding mark_dispatched_def by auto
    then have 1: "unexpiredT h decision t = Inr ((), s1)" "send_dispatch h row provider key s1 = Inr (x, u)"
      using row(1) by simp_all
    have "framed same_dispatches (unexpiredT h decision)"
      unfolding unexpiredT_def by (intro dispatches.quiet_rules)
    then have "wd_dispatches s1 = wd_dispatches t" using 1(1) by (auto simp: same_dispatches_def dest: framedD)
    then show False using 1(2) doubt row(2) by (auto simp: send_dispatch_def reject_uncertain_def uncertain_def)
  qed
  show "\<exists>e. start_attempt au h tr a r worker lease t = Inl e"
  proof (rule fails)
    fix w u assume h: "start_attempt au h tr a r worker lease t = Inr (w, u)"
    have "\<exists>p. get_work t (tr_work_id tr) = Inr p \<and> \<not> uncertain t (wk_work_id p)"
      using h unfolding start_attempt_def
      by (cases "worker = []") (auto simp: reject_uncertain_def get_work_def uncertain_def)
    then show False using get_work_id [OF inv] doubt tr by auto
  qed
qed

end
