(* ===== verification/Work_Recovery.thy ===== *)
theory Work_Recovery
  imports Work_Safety
begin

text \<open>
  The journal of transitions and its recovery: a transition that was prepared when the process died is
  finished or aborted.
\<close>

section \<open>The journal\<close>

text \<open>Rows stay, keep their id and request, and are never prepared again.\<close>

definition follows :: "journal_row \<Rightarrow> journal_row \<Rightarrow> bool" where
  "follows r q \<longleftrightarrow>
     jr_transition_commit_id q = jr_transition_commit_id r \<and> jr_request q = jr_request r
     \<and> (jr_state r \<noteq> CS_PREPARED \<longrightarrow> jr_state q \<noteq> CS_PREPARED)"

definition journal_on :: "wdb \<Rightarrow> wdb \<Rightarrow> bool" where
  "journal_on s t \<longleftrightarrow> list_all2 follows (wd_journal s) (wd_journal t)"

lemma journal_on_same: "wd_journal t = wd_journal s \<Longrightarrow> journal_on s t"
  by (simp add: journal_on_def follows_def list_all2_same)

lemma journal_on_trans: "journal_on s t \<Longrightarrow> journal_on t u \<Longrightarrow> journal_on s u"
  unfolding journal_on_def by (erule (1) list_all2_trans [rotated]) (simp add: follows_def)

lemma journal_on_store: "framed journal_on (storeT m)"
  by (rule framedI) (auto simp: storeT_eq intro: journal_on_same)

lemma set_journal_on:
  assumes "tc_state c \<noteq> CS_PREPARED"
  shows "framed journal_on (set_journal b c)"
  using assms
  by (intro framedI) (auto simp: set_journal_def journal_on_def follows_def update_rows_def list_all2_map2
      intro!: list_all2_same [THEN iffD2])

interpretation journal: quiet_frame journal_on
  by unfold_locales (auto simp: journal_on_same journal_on_store set_journal_on intro: journal_on_trans)

interpretation journal: using_frame journal_on
  by unfold_locales
    (auto intro!: journal.claim_framed journal.outcome_framed journal_on_same journal_on_store)

interpretation journal: effect_frame journal_on
proof unfold_locales
  show "framed journal_on (retire_undispatched h w)" for h w
    by (rule journal.retired_framed) (auto intro!: journal_on_store framedI journal_on_same)
qed (auto simp: journal_on_same)

lemma journal_ids:
  "journal_on s t \<Longrightarrow> map jr_transition_commit_id (wd_journal t) = map jr_transition_commit_id (wd_journal s)"
  unfolding journal_on_def by (induction rule: list_all2_induct) (simp_all add: follows_def)

text \<open>The ids of the journal stay different.\<close>

definition unique_ids :: "wdb \<Rightarrow> wdb \<Rightarrow> bool" where
  "unique_ids s t \<longleftrightarrow>
     (tbl_ok jr_transition_commit_id (wd_journal s) \<longrightarrow> tbl_ok jr_transition_commit_id (wd_journal t))"

lemma unique_ids_framed: "framed journal_on m \<Longrightarrow> framed unique_ids m"
  by (erule framed_mono) (auto simp: unique_ids_def tbl_ok_def dest: journal_ids)

lemma insert_unique: "framed unique_ids (insert_journal row)"
  by (rule framedI) (auto simp: insert_journal_def unique_ids_def tbl_lookup_None intro!: tbl_ok_snoc split: if_splits)

interpretation rows: quiet_frame unique_ids
  by unfold_locales (auto simp: unique_ids_def unique_ids_framed journal_on_store set_journal_on)

interpretation rows: using_frame unique_ids
  by unfold_locales (simp_all add: unique_ids_framed journal.framed_claim journal.framed_record_outcome)

interpretation rows: effect_frame unique_ids
  by unfold_locales (simp_all add: unique_ids_framed journal.retired, simp_all add: unique_ids_def)

interpretation rows: dispatch_frame unique_ids
proof unfold_locales
  show "framed unique_ids (prepare au h q binding refs)" for au h q binding refs
    by (rule rows.prepare_framed) (rule insert_unique)
  show "framed unique_ids (cancel_in_transaction au h w identity)" for au h w identity
    by (rule rows.cancel_framed, rule rows.cancel_journal_framed) (rule insert_unique)
qed (rule rows.dispatch_framed, simp add: unique_ids_def)+

lemma reaches_unique:
  assumes "reaches work_step s t"
  shows "unique_ids s t"
  using assms
proof (induction rule: reaches.induct)
  case (step s t u)
  have "unique_ids t u" by (rule rows.step_framed [OF step(2)]) (simp_all add: unique_ids_def)
  then show ?case using step(3) rows.frame_trans by blast
qed (rule rows.frame_refl)

section \<open>Recovery\<close>

text \<open>The commit record that a row of the journal names is its own.\<close>

definition names_request :: "sdb \<Rightarrow> journal_row \<Rightarrow> bool" where
  "names_request d r \<longleftrightarrow>
     (\<exists>c. resolve False d (fst (snd (jr_request r))) = Inr (TransitionCommit c)
        \<and> tc_transition_commit_id c = jr_transition_commit_id r)"

definition journal_settled :: "string \<Rightarrow> wdb \<Rightarrow> bool" where
  "journal_settled i s \<longleftrightarrow> (\<forall>q \<in> set (wd_journal s). jr_transition_commit_id q = i \<longrightarrow> jr_state q \<noteq> CS_PREPARED)"

definition recovers :: "wdb \<Rightarrow> wdb \<Rightarrow> bool" where
  "recovers s t \<longleftrightarrow> sound s t \<and> journal_on s t"

lemma recovers_refl: "recovers s s"
  by (simp add: recovers_def sound_same journal_on_same)

lemma recovers_trans: "recovers s t \<Longrightarrow> recovers t u \<Longrightarrow> recovers s u"
  by (auto simp: recovers_def intro: sound_trans journal_on_trans)

lemma recovers_ok:
  assumes "recovers s t" "budget_ok (wd_store s)"
  shows "budget_ok (wd_store t)" "keeps_pins (wd_store s) (wd_store t)"
    "tbl_ok jr_transition_commit_id (wd_journal s) \<Longrightarrow> tbl_ok jr_transition_commit_id (wd_journal t)"
  using assms journal_ids [of s t] by (auto simp: recovers_def sound_def tbl_ok_def)

lemma list_all2_back: "list_all2 P xs ys \<Longrightarrow> y \<in> set ys \<Longrightarrow> \<exists>x \<in> set xs. P x y"
  by (induction rule: list_all2_induct) auto

lemma settled_stays:
  assumes "journal_settled i s" "recovers s t"
  shows "journal_settled i t"
  unfolding journal_settled_def
proof (intro ballI impI)
  fix q assume q: "q \<in> set (wd_journal t)" "jr_transition_commit_id q = i"
  have "list_all2 follows (wd_journal s) (wd_journal t)" using assms(2) by (simp add: recovers_def journal_on_def)
  from list_all2_back [OF this q(1)] obtain r where "r \<in> set (wd_journal s)" "follows r q" by (rule bexE)
  then show "jr_state q \<noteq> CS_PREPARED" using assms(1) q(2) by (auto simp: journal_settled_def follows_def)
qed

lemma set_journal_settles:
  "set_journal b c s = Inr (u, t) \<Longrightarrow> tc_state c \<noteq> CS_PREPARED \<Longrightarrow> journal_settled (tc_transition_commit_id c) t"
  by (auto simp: set_journal_def journal_settled_def update_rows_def)

lemma finish_settles:
  assumes "finish au h q s = Inr (c, t)"
  shows "journal_settled (tc_transition_commit_id (cq_commit q)) t"
proof -
  obtain cmeta now s1 u where "set_journal True (committed_record q cmeta now) s1 = Inr (u, t)"
    using assms unfolding finish_def Let_def by (auto simp del: nowT_eq)
  from set_journal_settles [OF this] show ?thesis by (simp add: committed_record_def)
qed

lemma abort_settles:
  assumes "abort h c reason s = Inr (u, t)" "tbl_ok jr_transition_commit_id (wd_journal s)"
  shows "journal_settled (tc_transition_commit_id c) t"
proof -
  obtain row where row: "tbl_lookup jr_transition_commit_id (wd_journal s) (tc_transition_commit_id c) = Some row"
    using assms(1) unfolding abort_def by (auto split: option.splits)
  show ?thesis
  proof (cases "jr_state row = CS_PREPARED")
    case True
    then obtain c' s1 v where "set_journal False c' s1 = Inr (v, t)" "tc_state c' = CS_ABORTED"
      "tc_transition_commit_id c' = tc_transition_commit_id c"
      using assms(1) row unfolding abort_def Let_def by force
    then show ?thesis using set_journal_settles [of False c' s1 v t] by simp
  next
    case False
    then have "t = s" using assms(1) row unfolding abort_def by auto
    moreover have "q = row" if "q \<in> set (wd_journal s)" "jr_transition_commit_id q = tc_transition_commit_id c" for q
      using tbl_lookup_mem [OF assms(2) that(1)] that(2) row by simp
    ultimately show ?thesis using False by (auto simp: journal_settled_def)
  qed
qed

lemma finish_request_recovers:
  assumes "finish_request au h q s = (r, t)"
  shows "recovers s t" "r = Inr c \<Longrightarrow> journal_settled (tc_transition_commit_id (cq_commit q)) t"
proof -
  have k: "recovers s t" if "check_request au h q s = Inr (w, t)" for s w t
    using framedD [OF sound.framed_check_request that] framedD [OF journal.framed_check_request that]
    by (simp add: recovers_def)
  have f: "recovers s t" if "finish au h q s = Inr (c, t)" for s c t
    using framedD [OF sound.framed_finish that] framedD [OF journal.framed_finish that]
    by (simp add: recovers_def)
  show "recovers s t"
    using assms k f unfolding finish_request_def bindE_def runT_def
    by (auto simp: recovers_refl split: sum.splits prod.splits dest!: k f intro: recovers_trans)
  show "r = Inr c \<Longrightarrow> journal_settled (tc_transition_commit_id (cq_commit q)) t"
    using assms finish_settles unfolding finish_request_def bindE_def runT_def
    by (fastforce split: sum.splits prod.splits)
qed

lemma asserted_commit:
  assumes "asserted_request d request = Inr q"
  shows "resolve False d (fst (snd request)) = Inr (TransitionCommit (cq_commit q))"
proof -
  obtain t_ref c_ref refs where r: "request = (t_ref, c_ref, refs)" by (cases request)
  then obtain t c rs where c: "resolve False d c_ref = Inr c"
    and q: "(case (t, c) of (StateTransition x, TransitionCommit y) \<Rightarrow>
              Inr \<lparr>cq_transition = x, cq_commit = y, cq_records = rs\<rparr>
          | _ \<Rightarrow> Inl (AssertionError [])) = Inr q"
    using assms by (auto simp: asserted_request_def)
  obtain x where t: "t = StateTransition x" using q by (cases t) simp_all
  show ?thesis using q r c by (cases c) (auto simp: t)
qed

lemma recover_one_settles:
  assumes ok: "budget_ok (wd_store s)" "tbl_ok jr_transition_commit_id (wd_journal s)"
    and row: "names_request (wd_store s) row"
    and h: "recover_one au h (jr_request row) s = (Inr (), t)"
  shows "recovers s t" "journal_settled (jr_transition_commit_id row) t"
proof -
  obtain q where q: "asserted_request (wd_store s) (jr_request row) = Inr q"
    and h1: "or_abort h (cq_commit q) (bindE (finish_request au h q) (\<lambda>_. retE ())) (\<lambda>_. retE ()) s = (Inr (), t)"
    using h unfolding recover_one_def checkE_def bindE_def
    by (cases "asserted_request (wd_store s) (jr_request row)") auto
  have id: "tc_transition_commit_id (cq_commit q) = jr_transition_commit_id row"
    using asserted_commit [OF q] row by (auto simp: names_request_def)
  obtain r u where f: "finish_request au h q s = (r, u)" by (cases "finish_request au h q s") simp
  note F = finish_request_recovers [OF f]
  have "recovers s t \<and> journal_settled (tc_transition_commit_id (cq_commit q)) t"
  proof (cases r)
    case (Inr c)
    then have "t = u" using h1 f by (simp add: or_abort_def tryE_def bindE_def)
    then show ?thesis using F Inr by blast
  next
    case (Inl e)
    then obtain reason v where a: "abort h (cq_commit q) reason u = Inr (v, t)"
      using h1 f unfolding or_abort_def tryE_def bindE_def runT_def
      by (auto split: option.splits sum.splits prod.splits)
    have "recovers u t"
      using framedD [OF sound.framed_abort a] framedD [OF journal.framed_abort a] by (simp add: recovers_def)
    then show ?thesis
      using F(1) abort_settles [OF a recovers_ok(3) [OF F(1) ok]] recovers_trans by blast
  qed
  then show "recovers s t" "journal_settled (jr_transition_commit_id row) t" using id by simp_all
qed

lemma names_request_mono: "keeps_pins d d' \<Longrightarrow> names_request d r \<Longrightarrow> names_request d' r"
  unfolding names_request_def keeps_pins_def by (blast intro: grows_resolve)

lemma recover_each_settles:
  assumes "eachE (recover_one au h) (map jr_request rows) s = (Inr (), t)"
    and "budget_ok (wd_store s)" "tbl_ok jr_transition_commit_id (wd_journal s)"
    and "\<forall>row \<in> set rows. names_request (wd_store s) row"
  shows "recovers s t \<and> (\<forall>row \<in> set rows. journal_settled (jr_transition_commit_id row) t)"
  using assms
proof (induction rows arbitrary: s)
  case (Cons row rows)
  obtain u where u: "recover_one au h (jr_request row) s = (Inr (), u)"
    "eachE (recover_one au h) (map jr_request rows) u = (Inr (), t)"
    using Cons.prems(1) by (auto simp: bindE_def split: prod.splits sum.splits)
  have row: "names_request (wd_store s) row" using Cons.prems(4) by simp
  note R = recover_one_settles [OF Cons.prems(2,3) row u(1)]
  note O = recovers_ok [OF R(1) Cons.prems(2)]
  have "recovers u t \<and> (\<forall>row \<in> set rows. journal_settled (jr_transition_commit_id row) t)"
    using Cons.IH [OF u(2) O(1) O(3) [OF Cons.prems(3)]] Cons.prems(4) names_request_mono [OF O(2)] by simp
  then show ?case using R settled_stays recovers_trans by (auto intro: settled_stays)
qed (simp add: recovers_refl)

text \<open>
  What recovery relies on: the invariant of the store, different ids, and that the stored request of a
  prepared transition is its own.
\<close>

definition journal_ok :: "wdb \<Rightarrow> bool" where
  "journal_ok s \<longleftrightarrow>
     budget_ok (wd_store s) \<and> tbl_ok jr_transition_commit_id (wd_journal s)
     \<and> (\<forall>row \<in> set (wd_journal s). jr_state row = CS_PREPARED \<longrightarrow> names_request (wd_store s) row)"

lemma reaches_journal_ok:
  assumes "reaches work_step empty_wdb s"
    and "\<And>row. row \<in> set (wd_journal s) \<Longrightarrow> jr_state row = CS_PREPARED \<Longrightarrow> names_request (wd_store s) row"
  shows "journal_ok s"
proof -
  have "budget_ok (wd_store s)"
    using system.reaches_inv [OF assms(1) empty_system_ok] by (simp add: system_ok_def)
  moreover have "tbl_ok jr_transition_commit_id (wd_journal s)"
    using reaches_unique [OF assms(1)] by (simp add: unique_ids_def) (simp add: empty_wdb_def tbl_ok_def)
  ultimately show ?thesis using assms(2) by (simp add: journal_ok_def)
qed

text \<open>
  When \<open>recover_prepared\<close> returns, no transition of the journal is prepared any more; every transition
  that was is committed or aborted, and no row was added or lost.
\<close>

lemma recovery_settles_all:
  assumes "journal_ok s" and "recover_prepared au h s = (Inr (), t)"
  shows "(\<forall>q \<in> set (wd_journal t). jr_state q \<noteq> CS_PREPARED)
    \<and> map jr_transition_commit_id (wd_journal t) = map jr_transition_commit_id (wd_journal s)"
proof -
  have ok: "budget_ok (wd_store s)" and ids: "tbl_ok jr_transition_commit_id (wd_journal s)"
    using assms(1) by (simp_all add: journal_ok_def)
  let ?rows = "filter (\<lambda>row. jr_state row = CS_PREPARED) (wd_journal s)"
  have "recovers s t \<and> (\<forall>row \<in> set ?rows. journal_settled (jr_transition_commit_id row) t)"
    by (rule recover_each_settles [OF _ ok ids]) (use assms in \<open>auto simp: recover_prepared_def journal_ok_def\<close>)
  then have rec: "recovers s t" and all_done: "\<And>row. row \<in> set ?rows \<Longrightarrow> journal_settled (jr_transition_commit_id row) t"
    by blast+
  have l: "list_all2 follows (wd_journal s) (wd_journal t)" using rec by (simp add: recovers_def journal_on_def)
  have "jr_state q \<noteq> CS_PREPARED" if q: "q \<in> set (wd_journal t)" for q
  proof -
    obtain r where r: "r \<in> set (wd_journal s)" "follows r q"
      using list_all2_back [OF l q] by blast
    then show ?thesis using all_done [of r] q by (cases "jr_state r = CS_PREPARED") (auto simp: journal_settled_def follows_def)
  qed
  then show ?thesis using journal_ids [of s t] rec by (simp add: recovers_def)
qed

end
