(* ===== verification/Recovery_Service.thy ===== *)
theory Recovery_Service
  imports Transition_Service
begin

text \<open>
  The start of the runtime (\<open>storage/recovery_service.py\<close>): the check of the stored data, the replay of
  prepared transitions, and the closing of leases that ran out.  The check of the files and the schema
  (\<open>integrity.verify\<close>, \<open>check_ready\<close>) is an argument.
\<close>

section \<open>Closing a lease\<close>

text \<open>The inner function \<open>meta\<close>: two identifiers, the time of the operation, the active attempt.\<close>

definition recovery_meta :: "work \<Rightarrow> string \<Rightarrow> string \<Rightarrow> string \<Rightarrow> int \<Rightarrow> record_metadata" where
  "recovery_meta w kind i l now =
     with_attempt (wk_active_attempt_id w)
       (with_revision ((revision_of (wk_meta w))\<lparr>rm_record_id := i, rm_logical_record_id := l,
          rm_record_type := kind, rm_revision_number := 1, rm_previous_record_id := None,
          rm_created_at := now\<rparr>) (wk_meta w))"

definition recovery_metaT :: "host \<Rightarrow> work \<Rightarrow> string \<Rightarrow> int \<Rightarrow> record_metadata wtx" where
  "recovery_metaT h w kind now =
     bindT (newT h) (\<lambda>i. bindT (newT h) (\<lambda>l.
       retT (recovery_meta w kind i l now)))"

definition lease_action ::
  "work \<Rightarrow> record_ref \<Rightarrow> record_ref \<Rightarrow> record_metadata \<Rightarrow> string \<Rightarrow> string \<Rightarrow> int \<Rightarrow> action_request" where
  "lease_action w work_ref identity meta action_id cause now =
     \<lparr>ar_meta = meta, ar_action_id = action_id, ar_requested_by = RQ_RECOVERY,
      ar_requester_identity_ref = identity, ar_action_type = CHANGE_WORK_STATE, ar_work_ref = Some work_ref,
      ar_expected_state_version = Some (wk_state_version w), ar_expected_verification_generation = None,
      ar_generation_restart_reason = None, ar_generation_restart_basis_refs = [],
      ar_input_refs = [], ar_dynamic_request_ref = None, ar_reproduction_plan_ref = None,
      ar_result_kind = None, ar_candidate_result_ref = None, ar_llm_call_spec_ref = None,
      ar_tool_name = None, ar_file_paths = [], ar_provider_profile_ref = None, ar_session_mode = None,
      ar_sandbox_profile_ref = None, ar_resource_profile_ref = None, ar_run_policy_state_ref = None,
      ar_image_digest = None, ar_network_targets = [], ar_resource_limits = None,
      ar_reason = cause, ar_requested_at = now\<rparr>"

definition recovery_transition ::
  "work \<Rightarrow> record_ref \<Rightarrow> record_metadata \<Rightarrow> string \<Rightarrow> string \<Rightarrow> int \<Rightarrow> transition" where
  "recovery_transition w decision_ref meta transition_id cause now =
     \<lparr>tr_meta = meta, tr_transition_id = transition_id, tr_work_id = wk_work_id w,
      tr_action_decision_ref = decision_ref, tr_from_status = wk_status w, tr_to_status = T_BLOCKED,
      tr_expected_state_version = wk_state_version w, tr_new_state_version = wk_state_version w + 1,
      tr_attempt_id = wk_active_attempt_id w, tr_cause = cause, tr_output_refs = [], tr_gap_ids = [],
      tr_error_ids = [], tr_dedupe_key = wk_dedupe_key w, tr_created_at = now\<rparr>"

definition recovery_commit ::
  "work \<Rightarrow> record_ref \<Rightarrow> record_metadata \<Rightarrow> string \<Rightarrow> int \<Rightarrow> transition_commit" where
  "recovery_commit w transition_ref meta commit_id now =
     \<lparr>tc_meta = meta, tc_transition_commit_id = commit_id, tc_work_id = wk_work_id w,
      tc_transition_ref = transition_ref, tc_expected_state_version = wk_state_version w,
      tc_target_state_version = wk_state_version w + 1, tc_attempt_id = wk_active_attempt_id w,
      tc_target_status = C_BLOCKED, tc_output_refs = [], tc_gap_ids = [], tc_error_ids = [],
      tc_state = CS_PREPARED, tc_prepared_at = now, tc_committed_at = None, tc_abort_reason = None\<rparr>"

definition recovery_request :: "host \<Rightarrow> work \<Rightarrow> record_ref \<Rightarrow> string \<Rightarrow> int \<Rightarrow> (wdb, commit_request) eff" where
  "recovery_request h w decision_ref cause now =
     bindE (runT (bindT (recovery_metaT h w ''state_transition'' now) (\<lambda>meta.
                  bindT (newT h) (\<lambda>i. retT (recovery_transition w decision_ref meta i cause now))))) (\<lambda>t.
     bindE (checkE (validate_transition t)) (\<lambda>_.
     bindE (runT (bindT (recovery_metaT h w ''transition_commit'' now) (\<lambda>meta.
                  bindT (newT h) (\<lambda>i.
                  bindT (checkT (record_reference (StateTransition t))) (\<lambda>ref.
                    retT (recovery_commit w ref meta i now)))))) (\<lambda>c.
     bindE (checkE (validate_commit c)) (\<lambda>_.
       retE \<lparr>cq_transition = t, cq_commit = c, cq_records = []\<rparr>))))"

definition lease_cause :: "wdb \<Rightarrow> work \<Rightarrow> string" where
  "lease_cause s w = (if uncertain s (wk_work_id w) then ''RECOVERY_FAILED'' else ''LEASE_EXPIRED'')"

definition block_uncertain ::
  "authority \<Rightarrow> host \<Rightarrow> record_ref option \<Rightarrow> work \<Rightarrow> (wdb, unit) eff" where
  "block_uncertain au h identity w =
     (case identity of
        None \<Rightarrow> raiseE (ValueError ''Recovery identity is required to close an expired lease'')
      | Some who \<Rightarrow>
          bindE (runT (nowT h)) (\<lambda>now.
          bindE (\<lambda>s. (Inr (lease_cause s w), s)) (\<lambda>cause.
          bindE (runT (recovery_metaT h w ''action_request'' now)) (\<lambda>meta.
          bindE (runT (newT h)) (\<lambda>action_id.
          bindE (checkE (record_reference (WorkExecutionState w))) (\<lambda>work_ref.
          bindE (runT (authorize au h (lease_action w work_ref who meta action_id cause now) (Some w) None)) (\<lambda>d.
          bindE (checkE (raise_if (ad_decision d \<noteq> ALLOW)
                          (ValueError ''Recovery identity authorization denied''))) (\<lambda>_.
          bindE (checkE (record_reference (ActionDecision d))) (\<lambda>decision_ref.
          bindE (recovery_request h w decision_ref cause now) (\<lambda>q.
          bindE (commit_transition au h q) (\<lambda>_. retE ())))))))))))"

section \<open>Expired leases\<close>

definition lease_over :: "host \<Rightarrow> work_row \<Rightarrow> (wdb, bool) eff" where
  "lease_over h row =
     (\<lambda>s. if uncertain s (wk_work_id (wr_payload row)) then (Inr True, s)
        else case wr_lease_expires_at row of
            None \<Rightarrow> (Inr False, s)
          | Some expires \<Rightarrow> runT (bindT (nowT h) (\<lambda>now. retT (expires \<le> now))) s)"

fun expired_works :: "host \<Rightarrow> work_row list \<Rightarrow> (wdb, work list) eff" where
  "expired_works h [] = retE []"
| "expired_works h (row # rows) =
     bindE (lease_over h row) (\<lambda>over.
     bindE (expired_works h rows) (\<lambda>ws. retE (if over then wr_payload row # ws else ws)))"

text \<open>A cancellation that wins after the list was read is not an error.\<close>

definition close_lease ::
  "authority \<Rightarrow> host \<Rightarrow> record_ref option \<Rightarrow> work \<Rightarrow> (wdb, nat) eff" where
  "close_lease au h identity w =
     (\<lambda>s. if cancel_latched s (work_analysis w) then (Inr 0, s)
        else tryE (bindE (block_uncertain au h identity w) (\<lambda>_. retE 1))
               (\<lambda>e. if e = ValueError ''RUN_CANCELLED''
                    then Some (\<lambda>t. if cancel_latched t (work_analysis w) then (Inr 0, t) else raiseE e t)
                    else None) s)"

fun close_leases ::
  "authority \<Rightarrow> host \<Rightarrow> record_ref option \<Rightarrow> work list \<Rightarrow> (wdb, nat) eff" where
  "close_leases au h identity [] = retE 0"
| "close_leases au h identity (w # ws) =
     bindE (close_lease au h identity w) (\<lambda>n.
     bindE (close_leases au h identity ws) (\<lambda>m. retE (n + m)))"

definition expired_leases :: "authority \<Rightarrow> host \<Rightarrow> record_ref option \<Rightarrow> (wdb, nat) eff" where
  "expired_leases au h identity =
     (\<lambda>s. bindE (expired_works h (filter (\<lambda>row. wr_status row = W_RUNNING) (wd_works s)))
        (close_leases au h identity) s)"

section \<open>Recovery\<close>

text \<open>
  What recovery is given: the refs to protect and the readiness of the file, the three verifications in
  their order (\<open>checked_artifacts\<close>, \<open>quarantined_artifacts\<close>), the recovery identity, and whether leases are
  closed.
\<close>

record recovery =
  rc_ready :: "unit res"
  rc_verify :: "nat \<Rightarrow> wdb \<Rightarrow> (nat \<times> nat) res"
  rc_identity :: "record_ref option"
  rc_leases :: bool

definition set_failed :: "bool \<Rightarrow> (wdb, unit) eff" where
  "set_failed b = (\<lambda>s. (Inr (), s\<lparr>wd_recovery_failed := b\<rparr>))"

definition verifyE :: "recovery \<Rightarrow> nat \<Rightarrow> (wdb, nat \<times> nat) eff" where
  "verifyE rc n = (\<lambda>s. (rc_verify rc n s, s))"

text \<open>\<open>except (ValueError, OSError, LookupError, SQLAlchemyError) as error\<close>, with \<open>str(error)\<close>.\<close>

fun recovery_error :: "py_error \<Rightarrow> string option" where
  "recovery_error (ValueError m) = Some m"
| "recovery_error (OSError m) = Some m"
| "recovery_error (LookupError m) = Some m"
| "recovery_error (SqliteError m) = Some m"
| "recovery_error _ = None"

definition recover_steps :: "authority \<Rightarrow> host \<Rightarrow> recovery \<Rightarrow> (wdb, nat \<times> nat \<times> nat) eff" where
  "recover_steps au h rc =
     bindE (checkE (rc_ready rc)) (\<lambda>_.
     bindE (verifyE rc 0) (\<lambda>_.
     bindE (set_failed False) (\<lambda>_.
     bindE (recover_prepared au h) (\<lambda>_.
     bindE (verifyE rc 1) (\<lambda>(checked, quarantined).
     bindE (if rc_leases rc then expired_leases au h (rc_identity rc) else retE 0) (\<lambda>blocked.
     bindE (verifyE rc 2) (\<lambda>_.
     bindE (set_failed False) (\<lambda>_. retE (checked, quarantined, blocked)))))))))"

definition recover :: "authority \<Rightarrow> host \<Rightarrow> recovery \<Rightarrow> (wdb, nat \<times> nat \<times> nat) eff" where
  "recover au h rc =
     tryE (recover_steps au h rc)
       (\<lambda>e. map_option (\<lambda>m. bindE (set_failed True) (\<lambda>_. raiseE (ValueError (''RECOVERY_FAILED: '' @ m))))
              (recovery_error e))"

end
