(* ===== verification/Work_Restart.thy ===== *)
theory Work_Restart
  imports Work_Liveness Recovery_Service
begin

text \<open>
  The services over several transactions.  A commit, the closing of an expired lease and the whole of a
  recovery are sequences of steps, also when they raise, so that what holds in every reachable state
  holds after them; a recovery that failed locks every service out.
\<close>

section \<open>Sequences of transactions\<close>

definition runs :: "(wdb, 'a) eff \<Rightarrow> bool" where
  "runs m \<longleftrightarrow> (\<forall>s r t. m s = (r, t) \<longrightarrow> reaches work_step s t)"

lemma runsI: "(\<And>s r t. m s = (r, t) \<Longrightarrow> reaches work_step s t) \<Longrightarrow> runs m"
  by (simp add: runs_def)

lemma runsD: "runs m \<Longrightarrow> m s = (r, t) \<Longrightarrow> reaches work_step s t"
  by (simp add: runs_def)

lemma runs_ask: "(\<And>s. snd (m s) = s) \<Longrightarrow> runs m"
  by (rule runsI) (metis reaches.start snd_conv)

lemma runs_ret: "runs (retE x)" and runs_raise: "runs (raiseE e)" and runs_check: "runs (checkE c)"
  by (rule runs_ask, simp add: checkE_def)+

lemma runs_bind:
  assumes "runs m" "\<And>x. runs (f x)"
  shows "runs (bindE m f)"
proof (rule runsI)
  fix s r t assume b: "bindE m f s = (r, t)"
  obtain q u where m: "m s = (q, u)" by (cases "m s") simp
  have "reaches work_step s u" by (rule runsD [OF assms(1) m])
  moreover have "reaches work_step u t"
    using b m runsD [OF assms(2)] reaches.start by (cases q) (auto simp: bindE_def)
  ultimately show "reaches work_step s t" by (rule reaches_trans)
qed

lemma runs_try:
  assumes "runs m" "\<And>e k. h e = Some k \<Longrightarrow> runs k"
  shows "runs (tryE m h)"
proof (rule runsI)
  fix s r t assume b: "tryE m h s = (r, t)"
  obtain q u where m: "m s = (q, u)" by (cases "m s") simp
  have "reaches work_step s u" by (rule runsD [OF assms(1) m])
  moreover have "reaches work_step u t"
    using b m runsD [OF assms(2)] reaches.start by (cases q) (auto simp: tryE_def split: option.splits)
  ultimately show "reaches work_step s t" by (rule reaches_trans)
qed

lemma runs_if: "runs m \<Longrightarrow> runs n \<Longrightarrow> runs (if b then m else n)"
  by simp

lemma runs_option: "runs m \<Longrightarrow> (\<And>y. runs (f y)) \<Longrightarrow> runs (case x of None \<Rightarrow> m | Some y \<Rightarrow> f y)"
  by (cases x) simp_all

lemma runs_prod: "(\<And>a b. runs (f a b)) \<Longrightarrow> runs (case x of (a, b) \<Rightarrow> f a b)"
  by (cases x) simp

lemma runs_tx:
  assumes "\<And>s x t. m s = Inr (x, t) \<Longrightarrow> reaches work_step s t"
  shows "runs (runT m)"
  by (rule runsI) (auto simp: runT_def intro: assms reaches.start split: sum.splits)

lemma runs_step: "(\<And>s x t. m s = Inr (x, t) \<Longrightarrow> work_step s t) \<Longrightarrow> runs (runT m)"
  by (rule runs_tx) (rule reaches.step [OF reaches.start])



lemma runs_each: "(\<And>x. runs (f x)) \<Longrightarrow> runs (eachE f xs)"
  by (induction xs) (simp_all add: runs_ret runs_bind)

lemmas runs_rules = runs_ret runs_raise runs_check runs_bind runs_try runs_if runs_option runs_prod runs_each

section \<open>A commit\<close>


lemma stage_attempts: "stage_record r d = Inr (ref, d') \<Longrightarrow> sd_attempts d' = sd_attempts d"
  by (erule stage_cases) simp_all

lemma runs_stage: "runs (runT (storeT (stage_record r)))"
proof (rule runs_step)
  fix s x t assume "storeT (stage_record r) s = Inr (x, t)"
  then show "work_step s t"
    using work_step.ledger [OF budget_step.staged] stage_attempts by (auto simp: storeT_eq)
qed






section \<open>Intermediate records\<close>

lemma runs_stage_all: "runs (stage_all rs)"
  by (induction rs; simp only: stage_all.simps) (intro runs_rules runs_stage; assumption)+

text \<open>Publishing before the commit moves by steps, and a failure leaves what was staged.\<close>

lemma runs_publish_intermediates: "runs (publish_intermediates au h i ref outputs)"
  unfolding publish_intermediates_def
  by (intro runs_rules runs_stage_all; rule runs_step) (rule work_step.published)

section \<open>Closing leases\<close>










section \<open>Recovery as a whole\<close>














section \<open>After a failed recovery\<close>













end
