(* ===== verification/Work_Admission.thy ===== *)
theory Work_Admission
  imports Work_Soundness
begin

text \<open>
  What an authorization proves.  An action that is allowed was admitted: by its role, on the current
  version of its work, while the runtime is not locked out; and a report is only drafted behind the gates.
\<close>

section \<open>The records stay\<close>

definition grown :: "wdb \<Rightarrow> wdb \<Rightarrow> bool" where
  "grown s t \<longleftrightarrow> grows (wd_store s) (wd_store t)"

interpretation grown: quiet_frame grown
proof unfold_locales
  fix r
  show "framed grown (storeT (stage_record r))"
    by (rule framedI) (auto simp: storeT_eq grown_def dest: stage_grows(1))
next
  fix ref
  show "framed grown (storeT (publish ref))"
    by (rule framedI) (auto simp: storeT_eq grown_def dest: publish_grows(1))
next
  fix state previous
  show "framed grown (storeT (save_run state previous))"
    by (rule framedI) (auto simp: storeT_eq grown_def grows_def save_run_def insert_run_def swap_run_def Let_def
        dest!: stage_publish_grows(1) split: option.splits if_splits)
next
  fix k b
  show "framed grown (set_journal b k)"
    by (rule framedI) (auto simp: set_journal_def grown_def Let_def split: if_splits)
qed (auto simp: grown_def grows_def intro: grows_trans)

section \<open>The checks of a decision\<close>

lemma run_checks_pass:
  assumes "run_checks au s a work reservation kinds tr = (Inr checks, tr')" "\<not> denied checks" "kind \<in> set kinds"
  shows "\<exists>t t'. run_check au s a work reservation kind t = (Inr (), t')"
  using assms
proof (induction kinds arbitrary: tr checks)
  case (Cons k kinds)
  obtain x u where x: "run_check au s a work reservation k tr = (x, u)"
    by (cases "run_check au s a work reservation k tr") simp
  have "x = Inr ()"
    using Cons.prems(1,2) x
    by (cases x) (auto simp: tryE_def bindE_def retE_def liftE_def denied_def failed_check_def
        split: option.splits sum.splits prod.splits)
  moreover obtain rest where "run_checks au s a work reservation kinds u = (Inr rest, tr')" "\<not> denied rest"
    using Cons.prems(1,2) x \<open>x = Inr ()\<close>
    by (auto simp: tryE_def bindE_def retE_def denied_def split: sum.splits prod.splits)
  ultimately show ?case using Cons.IH Cons.prems(3) x by auto
qed simp

lemma authorize_checks:
  assumes "authorize au h a given reservation s = Inr (d, t)" "ad_decision d = ALLOW"
    and "tbl_lookup rq_action_id (wd_actions s) (ar_action_id a) = None"
  obtains d1 ref work checks tr where "stage_publish (ActionRequest a) (wd_store s) = Inr (ref, d1)"
    "run_checks au (s\<lparr>wd_store := d1\<rparr>) a work reservation (sorted_checks (ar_action_type a))
       \<lparr>tl_config_refs = [], tl_outputs = []\<rparr> = (Inr checks, tr)" "\<not> denied checks"
    "grows d1 (wd_store t)"
proof -
  obtain d1 ref work where d1: "stage_publish (ActionRequest a) (wd_store s) = Inr (ref, d1)"
    and k: "(case run_checks au (s\<lparr>wd_store := d1\<rparr>) a work reservation (sorted_checks (ar_action_type a))
          \<lparr>tl_config_refs = [], tl_outputs = []\<rparr> of
        (Inl e, _) \<Rightarrow> checkT (Inl e)
      | (Inr checks, tr) \<Rightarrow>
          bindT (issue_decision h a work ref tr checks) (\<lambda>d.
          bindT (keepT (ActionDecision d)) (\<lambda>decision_ref.
          bindT (record_decision a ref decision_ref tr checks) (\<lambda>_. retT d))))
      (s\<lparr>wd_store := d1\<rparr>) = Inr (d, t)"
    using assms(1,3) by (auto simp: authorize_def keepT_def storeT_eq)
  obtain x tr where x: "run_checks au (s\<lparr>wd_store := d1\<rparr>) a work reservation (sorted_checks (ar_action_type a))
      \<lparr>tl_config_refs = [], tl_outputs = []\<rparr> = (x, tr)"
    by fastforce
  let ?rest = "\<lambda>checks. bindT (issue_decision h a work ref tr checks) (\<lambda>d.
      bindT (keepT (ActionDecision d)) (\<lambda>decision_ref.
      bindT (record_decision a ref decision_ref tr checks) (\<lambda>_. retT d)))"
  from x obtain checks u where c: "x = Inr checks" "?rest checks (s\<lparr>wd_store := d1\<rparr>) = Inr (d, t)"
    "issue_decision h a work ref tr checks (s\<lparr>wd_store := d1\<rparr>) = Inr (d, u)"
    using k by (cases x) auto
  have "framed grown (?rest checks)"
    by (intro grown.quiet_rules grown.framed_issue grown.framed_record_decision)
  from framedD [OF this c(2)] have "grows d1 (wd_store t)" by (simp add: grown_def)
  moreover have "\<not> denied checks" using c(3) assms(2) by (auto simp: issue_decision_def Let_def)
  ultimately show ?thesis using that d1 x c(1) by blast
qed

lemma some_state_check: "REQUIRED_CHECKS k \<inter> {CHK_IDENTITY, CHK_STATE, CHK_REVISION} \<noteq> {}"
  and authority_required: "CHK_AUTHORITY \<in> REQUIRED_CHECKS k"
  by (cases k; simp)+

lemma state_check_passes:
  assumes "state_check au s a work t = (Inr (), t')" "\<not> run_finalization a"
  obtains w where "work = Some w" "meta_analysis (ar_meta a) = meta_analysis (wk_meta w)"
    "check_stage au s a w = Inr ()" "state_version_check s a w = Inr ()"
proof (cases work)
  case None
  then show ?thesis using assms by (simp add: state_check_def raiseE_def)
next
  case (Some w)
  have "meta_analysis (ar_meta a) = meta_analysis (wk_meta w)" "check_stage au s a w = Inr ()"
    "state_version_check s a w = Inr ()"
    using assms Some
    by (auto simp: state_check_def bindE_def liftE_def raiseE_def split: if_splits sum.splits prod.splits)
  then show ?thesis using that Some by blast
qed

section \<open>The gates\<close>

text \<open>Among the inputs of an action.\<close>

definition given_input :: "sdb \<Rightarrow> action_request \<Rightarrow> contract_record \<Rightarrow> bool" where
  "given_input d a r \<longleftrightarrow> (\<exists>ref \<in> set (ar_input_refs a). resolve False d ref = Inr r)"

lemma given_input_grows: "given_input d a r \<Longrightarrow> grows d d' \<Longrightarrow> given_input d' a r"
  by (auto simp: given_input_def dest: grows_resolve)

text \<open>
  The evidence behind a report: a TRUE verdict and its label, a technical review that accepts exactly
  them, a review of rules and scope that is ready and rests on that, and the finding of that review;
  all are inputs and all were committed.
\<close>

definition gates_passed :: "sdb \<Rightarrow> action_request \<Rightarrow> record_ref set \<Rightarrow> bool" where
  "gates_passed d a committed \<longleftrightarrow>
     (\<exists>v label technical review finding vref lref tref rref fref.
        list_all (given_input d a) [v, label, technical, review, finding]
        \<and> mapR record_reference [v, label, technical, review, finding] = Inr [vref, lref, tref, rref, fref]
        \<and> {vref, lref, tref, rref, fref} \<subseteq> committed
        \<and> has_text v ''verdict'' ''TRUE'' \<and> has_text technical ''status'' ''ACCEPT'' \<and> report_ready review
        \<and> points_to technical ''verification_result_ref'' vref \<and> points_to technical ''cwe_label_ref'' lref
        \<and> points_to review ''technical_review_ref'' tref \<and> points_to review ''verification_result_ref'' vref
        \<and> points_to finding ''rule_scope_impact_review_ref'' rref)"

lemma gates_passed_grows: "gates_passed d a committed \<Longrightarrow> grows d d' \<Longrightarrow> gates_passed d' a committed"
proof -
  assume g: "grows d d'"
  have "list_all (given_input d a) rs \<Longrightarrow> list_all (given_input d' a) rs" for rs
    using g by (auto simp: list_all_iff intro: given_input_grows)
  moreover assume "gates_passed d a committed"
  ultimately show ?thesis unfolding gates_passed_def by meson
qed

lemma one_input_given: "one_input d a kind = Inr r \<Longrightarrow> given_input d a r"
  by (fastforce simp: one_input_def resolved_def of_kind_def given_input_def split: list.splits if_splits
      dest: arg_cong [where f = set])

lemma report_behind_gates:
  assumes "check_final_inputs s a w = Inr ()" "ar_action_type a = CREATE_REPORT_DRAFT" "ar_requested_by a \<noteq> RQ_CWE_LABELING"
  shows "gates_passed (wd_store s) a (committed_outputs s)"
proof -
  let ?d = "wd_store s" and ?C = "committed_outputs s"
  obtain p v where v: "resolved ?d (map_option StoredDataRef (hs_verification_result_ref p)) ''verification_result'' = Inr v"
    "map_option StoredDataRef (hs_verification_result_ref p) \<in> Some ` set (ar_input_refs a)" "has_text v ''verdict'' ''TRUE''"
    "final_gates s a w p v = Inr ()"
    using assms by (auto simp: check_final_inputs_def Let_def split: if_splits)
  then obtain vref lref tref pref where g: "final_evidence s a p v = Inr (vref, lref)"
    "technical_accept s a vref lref = Inr tref" "report_closure s a vref lref tref pref = Inr ()"
    using assms(2) by (auto simp: final_gates_def split: prod.splits if_splits)
  have "given_input ?d a v"
    using v(1,2) by (auto simp: resolved_def given_input_def split: option.splits if_splits)
  moreover obtain label where "given_input ?d a label" "record_reference v = Inr vref" "record_reference label = Inr lref"
    "vref \<in> ?C" "lref \<in> ?C"
    using g(1) by (auto simp: final_evidence_def Let_def split: if_splits dest!: one_input_given)
  moreover obtain technical where "given_input ?d a technical" "record_reference technical = Inr tref" "tref \<in> ?C"
    "has_text technical ''status'' ''ACCEPT''" "points_to technical ''verification_result_ref'' vref"
    "points_to technical ''cwe_label_ref'' lref"
    using g(2) by (auto simp: technical_accept_def split: if_splits dest!: one_input_given)
  moreover obtain review finding rref fref where "given_input ?d a review" "given_input ?d a finding"
    "record_reference review = Inr rref" "record_reference finding = Inr fref" "rref \<in> ?C" "fref \<in> ?C"
    "report_ready review" "points_to review ''technical_review_ref'' tref" "points_to review ''verification_result_ref'' vref"
    "points_to finding ''rule_scope_impact_review_ref'' rref"
    using g(3) by (auto simp: report_closure_def dest!: one_input_given)
  ultimately show ?thesis
    unfolding gates_passed_def
    by (rule_tac x = v in exI, rule_tac x = label in exI, rule_tac x = technical in exI, rule_tac x = review in exI,
        rule_tac x = finding in exI, rule_tac x = vref in exI, rule_tac x = lref in exI, rule_tac x = tref in exI,
        rule_tac x = rref in exI, rule_tac x = fref in exI) (simp add: v(3))
qed

section \<open>Admission\<close>

lemma state_version_current:
  assumes "state_version_check s a w = Inr ()" "ar_work_ref a \<noteq> None"
  shows "w \<in> wr_payload ` set (wd_works s) \<and> ar_expected_state_version a = Some (wk_state_version w)
    \<and> (\<exists>ref. record_reference (WorkExecutionState w) = Inr ref \<and> ar_work_ref a = Some ref)"
proof -
  have "map_option wr_payload (tbl_lookup wr_work_id (wd_works s) (wk_work_id w)) = Some w"
    using assms by (auto simp: state_version_check_def)
  then have "w \<in> wr_payload ` set (wd_works s)" using tbl_lookup_Some by fastforce
  then show ?thesis using assms by (auto simp: state_version_check_def)
qed

lemma authorize_admits:
  assumes a: "authorize au h a given reservation s = Inr (d, t)" and allow: "ad_decision d = ALLOW"
    and new: "tbl_lookup rq_action_id (wd_actions s) (ar_action_id a) = None"
  obtains d1 work u u' where "grows d1 (wd_store t)" "\<not> wd_recovery_failed s"
    "check_role a (au_identity_role au (ar_requester_identity_ref a)) = Inr ()"
    "state_check au (s\<lparr>wd_store := d1\<rparr>) a work u = (Inr (), u')"
proof -
  obtain d1 ref work checks tr where
    run: "run_checks au (s\<lparr>wd_store := d1\<rparr>) a work reservation (sorted_checks (ar_action_type a))
       \<lparr>tl_config_refs = [], tl_outputs = []\<rparr> = (Inr checks, tr)" "\<not> denied checks"
    and more: "grows d1 (wd_store t)"
    by (rule authorize_checks [OF a allow new])
  let ?s = "s\<lparr>wd_store := d1\<rparr>"
  obtain u u' where "run_check au ?s a work reservation CHK_AUTHORITY u = (Inr (), u')"
    using run_checks_pass [OF run, of CHK_AUTHORITY] authority_required by auto
  then have role: "\<not> wd_recovery_failed s"
    "check_role a (au_identity_role au (ar_requester_identity_ref a)) = Inr ()"
    by (auto simp: run_check_def liftE_def raiseE_def split: if_splits)
  obtain k where "k \<in> REQUIRED_CHECKS (ar_action_type a)" "k \<in> {CHK_IDENTITY, CHK_STATE, CHK_REVISION}"
    using some_state_check by blast
  then obtain v v' where "state_check au ?s a work v = (Inr (), v')"
    using run_checks_pass [OF run, of k] role(1) by (auto simp: run_check_def)
  with more role show ?thesis by (rule that)
qed

text \<open>
  C35. An action that is allowed was admitted: the runtime was not locked out, the host knows the requester
  in the role it claims and that role may ask for this, the action names the current version of a
  work, and a report draft stands behind a TRUE verdict, its label, an accepting technical review, a
  ready review of rules and scope and its finding, all committed.
\<close>

theorem allowed_action_admitted:
  assumes a: "authorize au h a given reservation s = Inr (d, t)" and allow: "ad_decision d = ALLOW"
    and new: "tbl_lookup rq_action_id (wd_actions s) (ar_action_id a) = None"
  shows "\<not> wd_recovery_failed s
    \<and> au_identity_role au (ar_requester_identity_ref a) = Some (ar_requested_by a)
    \<and> ar_requested_by a \<in> ACTION_ROLES (ar_action_type a)
    \<and> (ar_work_ref a \<noteq> None \<longrightarrow>
         (\<exists>w ref. w \<in> wr_payload ` set (wd_works s) \<and> record_reference (WorkExecutionState w) = Inr ref
            \<and> ar_work_ref a = Some ref \<and> ar_expected_state_version a = Some (wk_state_version w)))
    \<and> (ar_action_type a = CREATE_REPORT_DRAFT \<longrightarrow> gates_passed (wd_store t) a (committed_outputs s))"
proof (rule authorize_admits [OF a allow new])
  fix d1 work u u'
  assume more: "grows d1 (wd_store t)" and free: "\<not> wd_recovery_failed s"
    and "check_role a (au_identity_role au (ar_requester_identity_ref a)) = Inr ()"
    and st: "state_check au (s\<lparr>wd_store := d1\<rparr>) a work u = (Inr (), u')"
  let ?s = "s\<lparr>wd_store := d1\<rparr>"
  from \<open>check_role a _ = Inr ()\<close> have role:
    "au_identity_role au (ar_requester_identity_ref a) = Some (ar_requested_by a)"
    "ar_requested_by a \<in> ACTION_ROLES (ar_action_type a)"
    by (auto simp: check_role_def)
  have final: "ar_work_ref a = None \<and> ar_action_type a \<noteq> CREATE_REPORT_DRAFT" if "run_finalization a"
    using that by (simp add: run_finalization_def)
  have current: "\<exists>w ref. w \<in> wr_payload ` set (wd_works s) \<and> record_reference (WorkExecutionState w) = Inr ref
      \<and> ar_work_ref a = Some ref \<and> ar_expected_state_version a = Some (wk_state_version w)"
    if set: "ar_work_ref a \<noteq> None"
  proof (rule state_check_passes [OF st])
    show "\<not> run_finalization a" using final set by blast
    fix w assume "state_version_check ?s a w = Inr ()"
    from state_version_current [OF this set] show ?thesis by auto
  qed
  have gates: "gates_passed (wd_store t) a (committed_outputs s)" if r: "ar_action_type a = CREATE_REPORT_DRAFT"
  proof (rule state_check_passes [OF st])
    show "\<not> run_finalization a" using final r by blast
    fix w assume "check_stage au ?s a w = Inr ()"
    then have "check_final_inputs ?s a w = Inr ()" using r by (auto simp: check_stage_def)
    then have "gates_passed d1 a (committed_outputs ?s)"
      using report_behind_gates [of ?s a w] r role(2) by auto
    moreover have "committed_outputs ?s = committed_outputs s" by (simp add: committed_outputs_def)
    ultimately show ?thesis using gates_passed_grows [OF _ more] by simp
  qed
  show ?thesis by (intro conjI impI free role current gates; assumption)
qed

end
