(* ===== verification/Work_Examples.thy ===== *)
theory Work_Examples
  imports Work_Restart Work_Admission
begin

text \<open>
  A concrete run of the work services: the run of the budget ledger goes on with the authorization and
  the registration of its first work.  The instances of the properties are taken on it.
\<close>

section \<open>The host and the authority\<close>

definition ex_host :: host where
  "ex_host = \<lparr>ho_now = (\<lambda>_. 0), ho_new = (\<lambda>n. CHR ''n'' # replicate n CHR ''z'')\<rparr>"

definition ex_au :: authority where
  "ex_au = \<lparr>au_evidence = ex_ev, au_identity_role = (\<lambda>_. Some RQ_ORCHESTRATION),
     au_action_evidence = (\<lambda>_ _. None), au_capability = None, au_llm_configuration = \<lparr>lc_active_entry = (\<lambda>_. None), lc_sandbox_approved = (\<lambda>_. False)\<rparr>,
     au_restart_evidence = (\<lambda>_. None),
     au_authorized_outputs = (\<lambda>_. None),
     au_finding_service = None,
     au_artifact_json = None\<rparr>"

lemma ex_host [simp]: "ho_now ex_host n = 0" "ho_new ex_host n = CHR ''n'' # replicate n CHR ''z''"
  by (simp_all add: ex_host_def)

lemma ex_au [simp]: "au_evidence ex_au = ex_ev" "au_identity_role ex_au ref = Some RQ_ORCHESTRATION"
  by (simp_all add: ex_au_def)

section \<open>The ledger as a part of the system\<close>

definition with_store :: "sdb \<Rightarrow> wdb" where
  "with_store d = empty_wdb\<lparr>wd_store := d\<rparr>"

lemma with_store [simp]:
  "wd_store (with_store d) = d" "wd_works (with_store d) = []" "wd_actions (with_store d) = []"
  "wd_checks (with_store d) = []" "wd_closures (with_store d) = []" "wd_decisions (with_store d) = []"
  "wd_dispatches (with_store d) = []" "wd_controls (with_store d) = []" "wd_journal (with_store d) = []"
  "wd_recovery_failed (with_store d) = False" "wd_ticks (with_store d) = 0"
  by (simp_all add: with_store_def empty_wdb_def)

lemma store_step:
  assumes "reaches work_step s (with_store d)" "budget_step ev d d'" "sd_attempts d' = sd_attempts d"
  shows "reaches work_step s (with_store d')"
proof -
  have "work_step (with_store d) ((with_store d)\<lparr>wd_store := d'\<rparr>)"
    by (rule work_step.ledger) (use assms in simp_all)
  then show ?thesis using assms(1) reaches.step by (fastforce simp: with_store_def)
qed

lemma put_store_step:
  assumes "fresh_record r d" "reaches work_step s (with_store d)"
  shows "reaches work_step s (with_store (put r d))"
proof -
  obtain d1 where 1: "stage_record r d = Inr (RunStoredDataRef (run_ref_of r), d1)"
    "publish (RunStoredDataRef (run_ref_of r)) d1 = Inr ((), put r d)"
    using stage_publish_fresh [OF assms(1)] by (auto simp: stage_publish_def)
  have "sd_attempts d1 = sd_attempts d" "sd_attempts (put r d) = sd_attempts d1"
    using stage_grows(2) [OF 1(1)] by (simp_all add: same_tables_def)
  then show ?thesis
    using store_step [OF store_step [OF assms(2) budget_step.staged [OF 1(1)]] budget_step.published [OF 1(2)]]
    by blast
qed

lemma reaches_w3: "reaches work_step empty_wdb (with_store ex_d3)"
proof -
  have "empty_wdb = with_store empty_sdb" by (simp add: with_store_def empty_wdb_def)
  then have "reaches work_step empty_wdb (with_store empty_sdb)" by (simp add: reaches.start)
  then have "reaches work_step empty_wdb (with_store (put ex_profile_record empty_sdb))"
    by (rule put_store_step [OF fresh_profile])
  then have "reaches work_step empty_wdb (with_store ex_d1)"
    by (rule store_step [OF _ budget_step.pinned [OF ex_pin]]) (simp add: ex_d1_def)
  then have "reaches work_step empty_wdb (with_store ex_d2)"
    by (rule store_step [OF _ budget_step.saved [OF ex_save]]) (simp add: ex_d2_def)
  then show ?thesis unfolding ex_d3_def by (intro put_store_step fresh_action fresh_work)
qed

lemma reaches_w4: "reaches work_step empty_wdb (with_store ex_d4)"
  by (rule store_step [OF reaches_w3 budget_step.reserved [OF ex_reserve]]) (simp add: ex_d4_def)

section \<open>The decision\<close>

definition ex_checks :: "action_check list" where
  "ex_checks = map passed_check (sorted_checks REGISTER_WORK)"

definition ex_decision :: action_decision where
  "ex_decision =
     \<lparr>ad_meta = ex_meta ''n'' ''action_decision'', ad_decision_id = ''nzz'',
      ad_action_ref = RunStoredDataRef (run_ref_of (ActionRequest ex_action)), ad_decision = ALLOW,
      ad_required_checks = sorted_checks REGISTER_WORK, ad_check_results = ex_checks,
      ad_checked_state_version = Some 1, ad_checked_config_refs = [RunStoredDataRef ex_profile_ref],
      ad_valid_until = Some 60000000, ad_error_ids = [], ad_use_status = UNUSED, ad_used_at = None,
      ad_expired_at = None, ad_expire_reason = None, ad_outcome_refs = [], ad_decided_at = 0\<rparr>"

lemma register_checks: "sorted_checks REGISTER_WORK = [CHK_AUTHORITY, CHK_BUDGET, CHK_IDENTITY, CHK_REVISION, CHK_SCHEMA, CHK_STATE]"
  by (simp add: sorted_checks_def CHECK_ORDER_def)

lemma ex_decision_valid: "validate_decision ex_decision = Inr ()"
  by (simp add: validate_decision_def ex_decision_def ex_checks_def register_checks action_decision_ok_def
      action_decision_refs_def decision_shape_def action_check_ok_def passed_check_def Let_def ex_valid_defs ex_text)

lemma filed_again:
  assumes "filed rs d" "r \<in> set rs" "modelled r" "is_run_meta (record_meta r)" "decode_check r = Inr ()"
  shows "stage_publish r d = Inr (RunStoredDataRef (run_ref_of r), d)"
  using filed_published(1) [OF assms(1,2)] filed_publish [OF assms(1,2)] text_of [OF assms(3,5)]
    run_reference [OF assms(3,4)]
  by (simp add: stage_publish_def stage_record_def)

text \<open>The databases in which the reservation is still free.\<close>

definition ex_free :: "contract_record list \<Rightarrow> sdb \<Rightarrow> bool" where
  "ex_free rs d \<longleftrightarrow>
     filed rs d \<and> set (ex_bootstrap @ [BudgetReservation ex_reservation]) \<subseteq> set rs
     \<and> sd_runs d = sd_runs ex_d3 \<and> sd_profiles d = sd_profiles ex_d3 \<and> sd_ledger d = []
     \<and> sd_reservations d = [new_row ex_ev ex_reservation ex_work ex_action ex_reservation_ref]"

lemma ex_free_d4: "ex_free (ex_bootstrap @ [BudgetReservation ex_reservation]) ex_d4"
  using filed_d4 by (simp add: ex_free_def) (simp add: ex_d4_def)

lemma ex_free_put: "ex_free rs d \<Longrightarrow> fresh_record r d \<Longrightarrow> ex_free (rs @ [r]) (put r d)"
  using filed_put by (auto simp: ex_free_def)

lemma ex_free_operation:
  assumes "ex_free rs d"
  shows "validate_operation ex_ev d ex_reservation ex_work ex_action = Inr ()"
proof -
  have f: "filed rs d" "ex_profile_record \<in> set rs" "sd_runs d = sd_runs ex_d3" "sd_profiles d = sd_profiles ex_d3"
    "sd_ledger d = []" "sd_reservations d = [new_row ex_ev ex_reservation ex_work ex_action ex_reservation_ref]"
    using assms by (simp_all add: ex_free_def)
  have "reserved_rows d ''A'' = [new_row ex_ev ex_reservation ex_work ex_action ex_reservation_ref]"
    by (simp add: reserved_rows_def f(6)) (simp add: new_row_def ex_reservation_def ex_ids id_text_def)
  then have "used_units d ''A'' (Some ''Y'') = []"
    by (simp add: used_units_def ledger_entries_def f(5)) (simp add: new_row_def ex_reservation_def)
  then show ?thesis
    using filed_resolve [OF f(1,2), of False]
    by (simp add: validate_operation_def capacity_check_def external_check_def ex_reservation_def ex_work_def
      ex_action_def EXTERNAL_ACTIONS_def ex_available [OF f(1-4)] ex_ids id_text_def Let_def total_def
      exceeds_def UNIT_FIELDS_def ex_units_def raise_if_def)
qed

lemma ex_free_check:
  assumes "ex_free rs d"
  shows "check_reservation ex_ev d (Some ex_reservation_ref) ex_action ex_work False = Inr ex_reservation"
proof -
  have f: "filed rs d" "ex_profile_record \<in> set rs" "sd_runs d = sd_runs ex_d3" "sd_profiles d = sd_profiles ex_d3"
    "BudgetReservation ex_reservation \<in> set rs"
    "sd_reservations d = [new_row ex_ev ex_reservation ex_work ex_action ex_reservation_ref]"
    using assms by (simp_all add: ex_free_def)
  have row: "tbl_lookup rw_reservation_id (sd_reservations d) (br_reservation_id ex_reservation)
      = Some (new_row ex_ev ex_reservation ex_work ex_action ex_reservation_ref)"
    by (simp add: f(6) tbl_lookup_def new_row_def)
  have refs: "br_action_ref ex_reservation = RunStoredDataRef (run_ref_of (ActionRequest ex_action))"
    "br_work_ref ex_reservation = RunStoredDataRef (run_ref_of (WorkExecutionState ex_work))"
    "br_budget_binding_ref ex_reservation = RunStoredDataRef ex_profile_ref"
    "bu_work_count (br_requested_units ex_reservation) = 1" "ar_action_type ex_action = REGISTER_WORK"
    "br_status ex_reservation = RESERVED"
    by (simp_all add: ex_reservation_def ex_units_def ex_action_def)
  have st: "rw_status (new_row ex_ev ex_reservation ex_work ex_action ex_reservation_ref) = RESERVED"
    "\<not> rw_claimed (new_row ex_ev ex_reservation ex_work ex_action ex_reservation_ref)"
    by (simp_all add: new_row_def ex_reservation_def)
  show ?thesis
    using filed_resolve [OF f(1,5), of False] ex_execution [OF f(1-4)] ex_free_operation [OF assms]
    by (simp add: check_reservation_def row refs st run_reference ex_ids id_text_def)
qed

section \<open>Authorization\<close>

abbreviation "ex_action_ref \<equiv> RunStoredDataRef (run_ref_of (ActionRequest ex_action))"

lemma ex_run_checks:
  assumes "ex_free rs (wd_store s)" "\<not> wd_recovery_failed s"
  shows "run_checks ex_au s ex_action (Some ex_work) (Some ex_reservation_ref) (sorted_checks REGISTER_WORK)
      \<lparr>tl_config_refs = [], tl_outputs = []\<rparr>
    = (Inr ex_checks, \<lparr>tl_config_refs = [RunStoredDataRef ex_profile_ref], tl_outputs = []\<rparr>)"
proof -
  have fields: "ar_action_type ex_action = REGISTER_WORK" "ar_requested_by ex_action = RQ_ORCHESTRATION"
    "ar_work_ref ex_action = None" "ar_input_refs ex_action = []" "ar_candidate_result_ref ex_action = None"
    "ar_llm_call_spec_ref ex_action = None" "ar_result_kind ex_action = None"
    "wk_input_refs ex_work = []" "wk_status ex_work = W_PENDING"
    "br_budget_binding_ref ex_reservation = RunStoredDataRef ex_profile_ref"
    by (simp_all add: ex_action_def ex_work_def ex_reservation_def)
  have role: "check_role ex_action (Some RQ_ORCHESTRATION) = Inr ()"
    by (simp add: check_role_def fields WORK_CONTROL_def)
  have owner: "check_owner d ex_action ex_work = Inr ()" for d
    by (simp add: check_owner_def fields)
  have stage: "check_stage ex_au s ex_action ex_work = Inr ()"
    by (simp add: check_stage_def fields needs_terminal_process_def reproduction_stage_def request_stage_def R7_ROLES_def)
  have state: "state_check ex_au s ex_action (Some ex_work) t = (Inr (), t)" for t
    by (simp add: state_check_def run_finalization_def fields owner stage liftE_def bindE_def retE_def
        state_version_check_def ex_ids)
  have prof: "resolve False (wd_store s) (RunStoredDataRef ex_profile_ref) = Inr ex_profile_record"
    by (rule filed_resolve [of rs]) (use assms(1) in \<open>simp_all add: ex_free_def\<close>)
  have budget: "budget_check ex_au s ex_action (Some ex_work) (Some ex_reservation_ref) t
      = (Inr (), t\<lparr>tl_config_refs := tl_config_refs t @ [RunStoredDataRef ex_profile_ref]\<rparr>)" for t
    using ex_free_check [OF assms(1)]
    by (simp add: budget_check_def liftE_def bindE_def relied_on_def fields prof retE_def)
  show ?thesis
    by (simp add: register_checks ex_checks_def run_check_def assms(2) bindE_def tryE_def liftE_def retE_def role
        state budget derive_outputs_def fields)
qed

lemma ex_issue:
  "wd_ticks s = 0 \<Longrightarrow> issue_decision ex_host ex_action (Some ex_work) ex_action_ref
      \<lparr>tl_config_refs = [RunStoredDataRef ex_profile_ref], tl_outputs = []\<rparr> ex_checks s
    = Inr (ex_decision, s\<lparr>wd_ticks := 5\<rparr>)"
proof -
  assume t: "wd_ticks s = 0"
  have d: "\<not> denied ex_checks" by (simp add: denied_def ex_checks_def passed_check_def)
  have v: "wk_state_version ex_work = 1" by (simp add: ex_work_def)
  show ?thesis
    using ex_decision_valid
    by (simp add: issue_decision_def d newT_def nowT_def retT_def bindT_def t Let_def checkT_def ex_ids v)
       (simp add: ex_decision_def ex_checks_def passed_check_def comp_def ex_ids)
qed

abbreviation "ex_decision_ref \<equiv> RunStoredDataRef (run_ref_of (ActionDecision ex_decision))"

definition hash_value :: "pyval \<Rightarrow> string" where
  "hash_value v = (case content_hash Map.empty v of Inr h \<Rightarrow> h | Inl _ \<Rightarrow> [])"

lemma hash_value: "plain v \<Longrightarrow> no_self_hash v \<Longrightarrow> content_hash Map.empty v = Inr (hash_value v)"
  using normalize_plain [of v "[]" True] by (auto simp: hash_value_def content_hash_def)

definition ex_d6 :: sdb where
  "ex_d6 = put (ActionDecision ex_decision) ex_d4"

abbreviation "ex_files \<equiv> ex_bootstrap @ [BudgetReservation ex_reservation, ActionDecision ex_decision]"

lemma ex_decision_fields [simp]:
  "ad_meta ex_decision = ex_meta ''n'' ''action_decision''" "ad_decision_id ex_decision = ''nzz''"
  "ad_action_ref ex_decision = ex_action_ref" "ad_decision ex_decision = ALLOW"
  "ad_use_status ex_decision = UNUSED" "ad_valid_until ex_decision = Some 60000000"
  "ad_decided_at ex_decision = 0" "ad_required_checks ex_decision = sorted_checks REGISTER_WORK"
  by (simp_all add: ex_decision_def)

lemma ex_action_fields:
  "ar_action_type ex_action = REGISTER_WORK" "ar_action_id ex_action = ''M''" "ar_work_ref ex_action = None"
  "ar_requested_by ex_action = RQ_ORCHESTRATION" "ar_input_refs ex_action = []"
  "ar_llm_call_spec_ref ex_action = None" "ar_result_kind ex_action = None"
  by (simp_all add: ex_action_def)

lemma fresh_decision: "fresh_record (ActionDecision ex_decision) ex_d4"
  by (rule filed_fresh [OF filed_d4, where i = "''n''"])
    (simp_all add: decode_check_def ex_decision_valid MODEL_KINDS_def CORE_SCHEMAS_def modelled_def ex_ids)

lemma ex_free_d6: "ex_free ex_files ex_d6"
  using ex_free_put [OF ex_free_d4 fresh_decision] by (simp add: ex_d6_def)

definition ex_s1 :: wdb where
  "ex_s1 = (with_store ex_d6)
     \<lparr>wd_actions := [\<lparr>rq_action_id = ''M'', rq_request_ref = ex_action_ref, rq_decision_ref = ex_decision_ref\<rparr>],
      wd_closures := [\<lparr>oc_action_id = ''M'', oc_decision_ref = ex_decision_ref, oc_output_refs = [],
        oc_content_hash = hash_value (receipt_value ex_action_ref ex_decision_ref [])\<rparr>],
      wd_checks := map (\<lambda>c. \<lparr>kr_action_id = ''M'', kr_check_type = ac_check_type c, kr_payload = c\<rparr>) ex_checks,
      wd_ticks := 5\<rparr>"

lemma ex_authorize:
  "authorize ex_au ex_host ex_action (Some ex_work) (Some ex_reservation_ref) (with_store ex_d4)
     = Inr (ex_decision, ex_s1)"
proof -
  have v: "validate_action ex_action = Inr ()"
    using ex_action_ok by (simp add: decode_check_def Let_def split: if_splits)
  have act: "stage_publish (ActionRequest ex_action) ex_d4 = Inr (ex_action_ref, ex_d4)"
    by (rule filed_again [OF filed_d4]) (simp_all add: ex_action_ok ex_ids)
  have dec: "stage_publish (ActionDecision ex_decision) ex_d4 = Inr (ex_decision_ref, ex_d6)"
    unfolding ex_d6_def by (rule stage_publish_fresh [OF fresh_decision])
  have same: "(with_store ex_d4)\<lparr>wd_store := ex_d4\<rparr> = with_store ex_d4" by (simp add: with_store_def)
  have checks: "run_checks ex_au (with_store ex_d4) ex_action (Some ex_work) (Some ex_reservation_ref)
      (sorted_checks REGISTER_WORK) \<lparr>tl_config_refs = [], tl_outputs = []\<rparr>
    = (Inr ex_checks, \<lparr>tl_config_refs = [RunStoredDataRef ex_profile_ref], tl_outputs = []\<rparr>)"
    by (rule ex_run_checks [where rs = "ex_bootstrap @ [BudgetReservation ex_reservation]"])
      (use ex_free_d4 in simp_all)
  have digest: "content_hash Map.empty (receipt_value ex_action_ref ex_decision_ref [])
      = Inr (hash_value (receipt_value ex_action_ref ex_decision_ref []))"
    by (rule hash_value) (simp_all add: receipt_value_def)
  have recorded: "record_decision ex_action ex_action_ref ex_decision_ref
      \<lparr>tl_config_refs = [RunStoredDataRef ex_profile_ref], tl_outputs = []\<rparr> ex_checks
      ((with_store ex_d4)\<lparr>wd_ticks := 5, wd_store := ex_d6\<rparr>) = Inr ((), ex_s1)"
    by (simp add: record_decision_def ex_action_fields digest ex_checks_def register_checks passed_check_def)
      (simp add: ex_s1_def with_store_def empty_wdb_def ex_checks_def register_checks passed_check_def)
  show ?thesis
    using ex_issue [of "with_store ex_d4"]
    by (simp add: authorize_def v tbl_lookup_def keepT_def storeT_eq act same readT_def work_of_action_def
        ex_action_fields checks dec recorded)
qed

lemma allowed_action_admitted_witness:
  "authorize ex_au ex_host ex_action (Some ex_work) (Some ex_reservation_ref) (with_store ex_d4) = Inr (ex_decision, ex_s1)
   \<and> \<not> wd_recovery_failed (with_store ex_d4)
   \<and> au_identity_role ex_au (ar_requester_identity_ref ex_action) = Some RQ_ORCHESTRATION
   \<and> RQ_ORCHESTRATION \<in> ACTION_ROLES REGISTER_WORK"
  using allowed_action_admitted [OF ex_authorize] ex_authorize
  by (simp add: ex_action_fields with_store_def empty_wdb_def tbl_lookup_def)

section \<open>Registration\<close>

definition ex_taken :: action_decision where
  "ex_taken = ex_decision
     \<lparr>ad_meta := RunMeta ((ex_rev ''n'' ''action_decision'')\<lparr>rm_record_id := ''nzzzzzz'',
        rm_revision_number := 2, rm_previous_record_id := Some ''n'', rm_created_at := 0\<rparr>) ''A'',
      ad_use_status := USED, ad_used_at := Some 0\<rparr>"

definition ex_key :: string where
  "ex_key = hash_value (VSeq [v_opt opaque (Some ''A''), v_enum work_type_text WT_WORKSPACE_PREP,
     opaque ''A'', v_nat 1, VStr (sha256_hex [])])"

definition ex_d7 :: sdb where
  "ex_d7 = (put (ActionDecision ex_taken) ex_d6)
     \<lparr>sd_reservations := [(new_row ex_ev ex_reservation ex_work ex_action ex_reservation_ref)\<lparr>rw_claimed := True\<rparr>]\<rparr>"

definition ex_d8 :: sdb where
  "ex_d8 = ex_d7\<lparr>sd_current := sd_current ex_d7 @
     [\<lparr>cu_logical_record_id = ''W'', cu_record_id = ''W'', cu_state_version = 1\<rparr>]\<rparr>"

definition ex_s2 :: wdb where
  "ex_s2 = ex_s1
     \<lparr>wd_store := ex_d8, wd_works := [work_row_of ex_work ex_key],
      wd_decisions := [\<lparr>dr_decision_id = ''nzz'', dr_action_id = ''M'', dr_payload = ex_taken\<rparr>],
      wd_ticks := 9\<rparr>"

lemma ex_taken_valid: "validate_decision ex_taken = Inr ()"
  by (simp add: validate_decision_def ex_taken_def ex_decision_def ex_checks_def register_checks action_decision_ok_def
      action_decision_refs_def decision_shape_def action_check_ok_def passed_check_def Let_def ex_valid_defs ex_text)

lemma fresh_taken: "fresh_record (ActionDecision ex_taken) ex_d6"
proof -
  have f: "filed ex_files ex_d6" using ex_free_d6 by (simp add: ex_free_def)
  have m: "ad_meta ex_taken = RunMeta ((ex_rev ''n'' ''action_decision'')\<lparr>rm_record_id := ''nzzzzzz'',
        rm_revision_number := 2, rm_previous_record_id := Some ''n'', rm_created_at := 0\<rparr>) ''A''"
    by (simp add: ex_taken_def)
  have "published_row ex_d6 ''n'' = Some (stored_row (ActionDecision ex_decision)
      (text_of (ActionDecision ex_decision)) ex_decision_ref)"
    using filed_published(2) [OF f, of "ActionDecision ex_decision"] by (simp add: ex_ids)
  moreover have "validate_revision (ad_meta ex_decision) (ad_meta ex_taken) = Inr ()"
    by (simp add: validate_revision_ok immutable_attributes_def m ex_ids)
  moreover have "decode_check (ActionDecision ex_taken) = Inr ()"
    using ex_taken_valid by (simp add: decode_check_def MODEL_KINDS_def CORE_SCHEMAS_def m ex_ids)
  ultimately show ?thesis
    using f by (auto simp: fresh_record_def filed_def modelled_def ex_ids m revision_key_def image_image)
qed

lemma ex_check_use:
  "check_use ex_au ex_host ex_decision_ref REGISTER_WORK ex_work (Some ex_reservation_ref) True ex_s1
     = Inr ((ex_decision, ex_action), ex_s1\<lparr>wd_ticks := 6\<rparr>)"
proof -
  have f: "filed ex_files ex_d6" using ex_free_d6 by (simp add: ex_free_def)
  have res: "resolve False ex_d6 ex_decision_ref = Inr (ActionDecision ex_decision)"
    "resolve False ex_d6 ex_action_ref = Inr (ActionRequest ex_action)"
    "resolve False ex_d6 (RunStoredDataRef ex_profile_ref) = Inr ex_profile_record"
    by (rule filed_resolve [OF f]; simp)+
  have s1: "wd_store ex_s1 = ex_d6" "wd_recovery_failed ex_s1 = False" "wd_ticks ex_s1 = 5" "wd_decisions ex_s1 = []"
    "wd_actions ex_s1 = [\<lparr>rq_action_id = ''M'', rq_request_ref = ex_action_ref, rq_decision_ref = ex_decision_ref\<rparr>]"
    by (simp_all add: ex_s1_def)
  have d: "decision_and_action ex_d6 ex_decision_ref REGISTER_WORK = Inr (ex_decision, ex_action)"
    by (simp add: decision_and_action_def res ex_action_fields)
  have pol: "check_role ex_action (Some RQ_ORCHESTRATION) = Inr ()" "check_owner ex_d6 ex_action ex_work = Inr ()"
    "check_stage ex_au ex_s1 ex_action ex_work = Inr ()"
    by (simp_all add: check_role_def check_owner_def check_stage_def ex_action_fields WORK_CONTROL_def
        needs_terminal_process_def reproduction_stage_def request_stage_def R7_ROLES_def)
  have issued: "issued_check ex_s1 ex_decision ex_action ex_decision_ref = Inr ()"
    by (simp add: issued_check_def s1 tbl_lookup_def ex_action_fields validate_decision_for_action_def)
  have scope: "use_scope (ex_s1\<lparr>wd_ticks := 6\<rparr>) ex_decision ex_action ex_work = Inr ()"
    by (simp add: use_scope_def s1 tbl_lookup_def ex_action_fields ex_ids)
  have "br_budget_binding_ref ex_reservation = RunStoredDataRef ex_profile_ref" by (simp add: ex_reservation_def)
  then have budget: "use_budget ex_au ex_d6 ex_decision ex_action ex_work (Some ex_reservation_ref) = Inr ()"
    using ex_free_check [OF ex_free_d6] by (simp add: use_budget_def res)
  have "wk_input_refs ex_work = []" by (simp add: ex_work_def)
  then show ?thesis
    by (simp add: check_use_def s1 d pol issued scope budget nowT_def readT_def valid_at_def ex_action_fields bindT_def askT_def checkT_def retT_def)
qed

lemma ex_claim:
  "claim ex_au ex_host ex_decision_ref REGISTER_WORK ex_work (Some ex_reservation_ref) True ex_s1
     = Inr (ex_taken, ex_s1\<lparr>wd_ticks := 9, wd_store := ex_d7,
         wd_decisions := [\<lparr>dr_decision_id = ''nzz'', dr_action_id = ''M'', dr_payload = ex_taken\<rparr>]\<rparr>)"
proof -
  have s1: "wd_store ex_s1 = ex_d6" "wd_decisions ex_s1 = []" by (simp_all add: ex_s1_def)
  have z: "replicate 6 CHR ''z'' = ''zzzzzz''" by (simp add: numeral_eq_Suc)
  have meta: "next_metaT ex_host (ad_meta ex_decision) (ex_s1\<lparr>wd_ticks := 6\<rparr>)
      = Inr (ad_meta ex_taken, ex_s1\<lparr>wd_ticks := 8\<rparr>)"
    by (simp add: next_metaT_def newT_def next_meta_def ex_ids Let_def validate_meta_def revision_fields_ok_def
        revision_shape_def ex_version ex_text seq2_def check_fields_def bindT_def checkT_def ex_taken_def nowT_def z)
  have taken: "ex_decision\<lparr>ad_meta := ad_meta ex_taken, ad_use_status := USED, ad_used_at := Some 0\<rparr> = ex_taken"
    by (simp add: ex_taken_def)
  have st: "stage_publish (ActionDecision ex_taken) ex_d6
      = Inr (RunStoredDataRef (run_ref_of (ActionDecision ex_taken)), put (ActionDecision ex_taken) ex_d6)"
    by (rule stage_publish_fresh [OF fresh_taken])
  have free: "ex_free (ex_files @ [ActionDecision ex_taken]) (put (ActionDecision ex_taken) ex_d6)"
    using ex_free_put [OF ex_free_d6 fresh_taken] by simp
  have tab: "sd_reservations ex_d6 = [new_row ex_ev ex_reservation ex_work ex_action ex_reservation_ref]"
    using ex_free_d6 by (simp add: ex_free_def)
  have res: "claim_reservation ex_ev (Some ex_reservation_ref) ex_action ex_work (put (ActionDecision ex_taken) ex_d6)
      = Inr ((), ex_d7)"
    using ex_free_check [OF free] by (simp add: claim_reservation_def update_rows_def tab ex_d7_def new_row_def)
  have id: "ad_decision_id ex_taken = ''nzz''" by (simp add: ex_taken_def)
  show ?thesis
    using ex_check_use meta
    by (simp add: claim_def Let_def taken ex_taken_valid keepT_def storeT_eq st res s1 id ex_action_fields)
qed

lemma ex_register:
  "register ex_au ex_host ex_work ex_decision_ref (Some ex_reservation_ref) ex_s1 = Inr (ex_work, ex_s2)"
proof -
  have v: "validate_work ex_work = Inr ()"
    using ex_work_ok by (simp add: decode_check_def Let_def split: if_splits)
  have key: "registration_key ex_work = Inr ex_key"
    using hash_value by (simp add: registration_key_def ex_key_def ex_work_def ex_ids)
  have f: "filed (ex_files @ [ActionDecision ex_taken]) ex_d7"
    using ex_free_put [OF ex_free_d6 fresh_taken] by (simp add: ex_free_def ex_d7_def filed_frame)
  have w: "stage_publish (WorkExecutionState ex_work) ex_d7
      = Inr (RunStoredDataRef (run_ref_of (WorkExecutionState ex_work)), ex_d7)"
    by (rule filed_again [OF f]) (simp_all add: ex_work_ok ex_ids)
  have cur: "sd_current ex_d7 = [\<lparr>cu_logical_record_id = ''S'', cu_record_id = ''S'', cu_state_version = 1\<rparr>]"
    by (simp add: ex_d7_def ex_d6_def ex_d4_def ex_d3_def ex_d2_def)
  have point: "point ex_work ex_d7 = Inr ((), ex_d8)"
    by (simp add: point_def Let_def ex_d8_def cur tbl_lookup_def ex_ids) (simp add: ex_work_def)
  have fields: "wk_status ex_work = W_PENDING" "wk_parent_work_ref ex_work = None" "wk_work_type ex_work = WT_WORKSPACE_PREP"
    by (simp_all add: ex_work_def)
  have s1: "wd_works ex_s1 = []" "wd_controls ex_s1 = []" by (simp_all add: ex_s1_def)
  show ?thesis
    using ex_claim
    by (simp add: register_def register_new_def v key reject_cancelled_def cancel_latched_def s1 tbl_lookup_def
        fields readT_def parent_check_def chaining_inputs_current_def keepT_def storeT_eq w point insert_work_def)
      (simp add: ex_s2_def)
qed

lemma reaches_s1: "reaches work_step empty_wdb ex_s1"
  by (rule reaches.step [OF reaches_w4 work_step.authorized [OF ex_authorize]])

lemma reaches_s2: "reaches work_step empty_wdb ex_s2"
  by (rule reaches.step [OF reaches_s1 work_step.registered [OF ex_register]])

section \<open>A run with a prepared transition\<close>

definition ex_transition :: transition where
  "ex_transition =
     \<lparr>tr_meta = ex_meta ''T'' ''state_transition'', tr_transition_id = ''T'', tr_work_id = ''X'',
      tr_action_decision_ref = ex_decision_ref, tr_from_status = W_PENDING, tr_to_status = T_CANCELLED,
      tr_expected_state_version = 1, tr_new_state_version = 2, tr_attempt_id = None, tr_cause = ''C'',
      tr_output_refs = [], tr_gap_ids = [], tr_error_ids = [], tr_dedupe_key = sha256_hex [],
      tr_created_at = 0\<rparr>"

abbreviation "ex_transition_ref \<equiv> RunStoredDataRef (run_ref_of (StateTransition ex_transition))"

text \<open>The commit lists an output that the request does not carry.\<close>

definition ex_commit :: transition_commit where
  "ex_commit =
     \<lparr>tc_meta = ex_meta ''J'' ''transition_commit'', tc_transition_commit_id = ''J'', tc_work_id = ''X'',
      tc_transition_ref = ex_transition_ref, tc_expected_state_version = 1, tc_target_state_version = 2,
      tc_attempt_id = None, tc_target_status = C_CANCELLED, tc_output_refs = [ex_action_ref],
      tc_gap_ids = [], tc_error_ids = [], tc_state = CS_PREPARED, tc_prepared_at = 0,
      tc_committed_at = None, tc_abort_reason = None\<rparr>"

abbreviation "ex_commit_ref \<equiv> RunStoredDataRef (run_ref_of (TransitionCommit ex_commit))"

definition ex_aborted :: transition_commit where
  "ex_aborted = ex_commit
     \<lparr>tc_meta := RunMeta ((ex_rev ''J'' ''transition_commit'')\<lparr>rm_record_id := ''n'',
        rm_revision_number := 2, rm_previous_record_id := Some ''J'', rm_created_at := 0\<rparr>) ''A'',
      tc_state := CS_ABORTED, tc_abort_reason := Some ''OUTPUT_BINDING_MISMATCH''\<rparr>"

definition ex_prepared_store :: sdb where
  "ex_prepared_store = put (TransitionCommit ex_commit) (put (StateTransition ex_transition) ex_d4)"

definition ex_row :: journal_row where
  "ex_row = journal_row_of ex_commit ''B'' (ex_transition_ref, ex_commit_ref, [])"

definition ex_crashed :: wdb where
  "ex_crashed = (with_store ex_prepared_store)\<lparr>wd_journal := [ex_row]\<rparr>"

definition ex_recovered :: wdb where
  "ex_recovered = ex_crashed
     \<lparr>wd_store := put (TransitionCommit ex_aborted) ex_prepared_store,
      wd_journal := [ex_row\<lparr>jr_state := CS_ABORTED, jr_payload := ex_aborted\<rparr>], wd_ticks := 2\<rparr>"

lemma ex_journal_metas [simp]:
  "tr_meta ex_transition = ex_meta ''T'' ''state_transition''"
  "tc_meta ex_commit = ex_meta ''J'' ''transition_commit''"
  "tc_transition_commit_id ex_commit = ''J''"
  by (simp_all add: ex_transition_def ex_commit_def)

lemmas ex_journal_defs = validate_transition_def transition_ok_def transition_refs_def transition_shape_def
  attempt_meta_def validate_commit_def transition_commit_ok_def transition_commit_refs_def commit_shape_def

lemma ex_transition_ok: "decode_check (StateTransition ex_transition) = Inr ()"
  by (simp add: ex_journal_defs ex_valid_defs ex_text)
    (simp add: ex_transition_def ex_journal_defs ex_valid_defs ex_text modelled_def)

lemma ex_commit_ok: "decode_check (TransitionCommit ex_commit) = Inr ()"
  by (simp add: ex_journal_defs ex_valid_defs ex_text)
    (simp add: ex_commit_def ex_journal_defs ex_valid_defs ex_text modelled_def)

lemma ex_aborted_valid: "validate_commit ex_aborted = Inr ()"
  by (simp add: ex_aborted_def ex_commit_def ex_journal_defs ex_valid_defs ex_text modelled_def)

lemma fresh_transition: "fresh_record (StateTransition ex_transition) ex_d4"
  by (rule filed_fresh [OF filed_d4, where i = "''T''"]) (simp_all add: ex_transition_ok modelled_def ex_ids)

lemma fresh_commit: "fresh_record (TransitionCommit ex_commit) (put (StateTransition ex_transition) ex_d4)"
  by (rule filed_fresh [OF filed_put [OF filed_d4 fresh_transition], where i = "''J''"])
    (simp_all add: ex_commit_ok modelled_def ex_ids)

abbreviation "ex_journal_files \<equiv> ex_bootstrap @ [BudgetReservation ex_reservation,
  StateTransition ex_transition, TransitionCommit ex_commit]"

lemma filed_prepared: "filed ex_journal_files ex_prepared_store"
  using filed_put [OF filed_put [OF filed_d4 fresh_transition] fresh_commit] by (simp add: ex_prepared_store_def)

lemma fresh_aborted: "fresh_record (TransitionCommit ex_aborted) ex_prepared_store"
proof -
  have m: "tc_meta ex_aborted = RunMeta ((ex_rev ''J'' ''transition_commit'')\<lparr>rm_record_id := ''n'',
        rm_revision_number := 2, rm_previous_record_id := Some ''J'', rm_created_at := 0\<rparr>) ''A''"
    by (simp add: ex_aborted_def)
  have "published_row ex_prepared_store ''J'' = Some (stored_row (TransitionCommit ex_commit)
      (text_of (TransitionCommit ex_commit)) ex_commit_ref)"
    using filed_published(2) [OF filed_prepared, of "TransitionCommit ex_commit"] by (simp add: ex_ids)
  moreover have "validate_revision (tc_meta ex_commit) (tc_meta ex_aborted) = Inr ()"
    by (simp add: validate_revision_ok immutable_attributes_def m ex_ids)
  moreover have "decode_check (TransitionCommit ex_aborted) = Inr ()"
    using ex_aborted_valid by (simp add: decode_check_def MODEL_KINDS_def CORE_SCHEMAS_def m ex_ids)
  ultimately show ?thesis
    using filed_prepared by (auto simp: fresh_record_def filed_def modelled_def ex_ids m revision_key_def image_image)
qed

lemma ex_abort: "abort ex_host ex_commit ''OUTPUT_BINDING_MISMATCH'' ex_crashed = Inr ((), ex_recovered)"
proof -
  have c: "wd_journal ex_crashed = [ex_row]" "wd_ticks ex_crashed = 0" "wd_store ex_crashed = ex_prepared_store"
    by (simp_all add: ex_crashed_def)
  have row: "jr_transition_commit_id ex_row = ''J''" "jr_state ex_row = CS_PREPARED"
    by (simp_all add: ex_row_def journal_row_of_def)
  have meta: "next_metaT ex_host (tc_meta ex_commit) ex_crashed
      = Inr (tc_meta ex_aborted, ex_crashed\<lparr>wd_ticks := 2\<rparr>)"
    by (simp add: next_metaT_def newT_def nowT_def next_meta_def ex_ids Let_def validate_meta_def
        revision_fields_ok_def revision_shape_def ex_version ex_text seq2_def check_fields_def bindT_def checkT_def
        ex_aborted_def c numeral_2_eq_2)
  have ab: "ex_commit\<lparr>tc_meta := tc_meta ex_aborted, tc_state := CS_ABORTED,
      tc_abort_reason := Some ''OUTPUT_BINDING_MISMATCH''\<rparr> = ex_aborted"
    by (simp add: ex_aborted_def)
  have st: "stage_publish (TransitionCommit ex_aborted) ex_prepared_store
      = Inr (RunStoredDataRef (run_ref_of (TransitionCommit ex_aborted)), put (TransitionCommit ex_aborted) ex_prepared_store)"
    by (rule stage_publish_fresh [OF fresh_aborted])
  have a: "tc_transition_commit_id ex_aborted = ''J''" "tc_state ex_aborted = CS_ABORTED"
    by (simp_all add: ex_aborted_def)
  show ?thesis
    using meta
    by (simp add: abort_def c tbl_lookup_def row Let_def ab ex_aborted_valid keepT_def storeT_eq st set_journal_def
        a update_rows_def del: ex_journal_metas(2))
      (simp add: ex_recovered_def)
qed

abbreviation "ex_request \<equiv> \<lparr>cq_transition = ex_transition, cq_commit = ex_commit, cq_records = []\<rparr>"




section \<open>The properties at the run\<close>

theorem works_well_typed_witness:
  "validate_work ex_work = Inr () \<and> wr_status (work_row_of ex_work ex_key) = W_PENDING"
  using works_well_typed [OF reaches_s2, of "work_row_of ex_work ex_key"]
  by (simp add: ex_s2_def work_row_of_def) (simp add: ex_work_def)

theorem attempts_consecutive_and_active_witness:
  "map wa_attempt_number (attempts_on ex_s2 ''X'') = [1..<Suc (length (attempts_on ex_s2 ''X''))]"
  using attempts_consecutive_and_active [OF reaches_s2] by blast

theorem works_follow_lifecycle_witness: "life_step (life ex_s1 ''X'') (life ex_s2 ''X'')"
  by (rule works_follow_lifecycle [OF reaches_s1 work_step.registered [OF ex_register]])


lemma ex_s2_tables:
  "sd_runs (wd_store ex_s2) = sd_runs ex_d3" "sd_profiles (wd_store ex_s2) = sd_profiles ex_d3"
  "wd_controls ex_s2 = []" "wd_ticks ex_s2 = 9"
  by (simp_all add: ex_s2_def ex_d8_def ex_d7_def ex_d6_def ex_d4_def ex_s1_def)



lemma filed_s2: "filed (ex_files @ [ActionDecision ex_taken]) (wd_store ex_s2)"
  using ex_free_put [OF ex_free_d6 fresh_taken]
  by (simp add: ex_free_def ex_s2_def ex_d8_def ex_d7_def filed_frame)

theorem parallel_works_bounded_witness: "length (running_works ex_s2 ''A'') \<le> ep_max_parallel_work ex_profile"
  by (rule parallel_works_bounded [OF reaches_s2 ex_execution [OF filed_s2]]) (simp_all add: ex_s2_tables)

theorem decision_used_once_witness:
  "\<exists>e. claim ex_au ex_host ex_decision_ref REGISTER_WORK ex_work (Some ex_reservation_ref) True ex_s2 = Inl e"
proof -
  have "decision_and_action (wd_store ex_s2) ex_decision_ref REGISTER_WORK = Inr (ex_decision, ex_action)"
    using filed_resolve [OF filed_s2, of "ActionDecision ex_decision"] filed_resolve [OF filed_s2, of "ActionRequest ex_action"]
    by (simp add: decision_and_action_def ex_action_fields)
  moreover have "ar_action_id ex_action \<in> set (map dr_action_id (wd_decisions ex_s2))"
    by (simp add: ex_s2_def ex_action_fields)
  ultimately show ?thesis using decision_used_once [OF reaches_s2 reaches.start] by blast
qed

definition ex_sent :: dispatch_row where
  "ex_sent = \<lparr>di_action_id = ''M'', di_work_id = ''X'', di_attempt_id = ''U'', di_decision_ref = ex_decision_ref,
     di_reservation_ref = None, di_prepared_at = 0, di_dispatched_at = Some 1, di_returned_at = None,
     di_provider_request_id = None, di_idempotency_key = None, di_reconciled_at = None\<rparr>"

definition ex_doubtful :: wdb where
  "ex_doubtful = empty_wdb\<lparr>wd_dispatches := [ex_sent]\<rparr>"

theorem one_unresolved_dispatch_witness:
  "(\<exists>e. claim_external ex_au ex_host ''X'' ex_decision_ref None ex_doubtful = Inl e)
    \<and> (\<exists>e. mark_dispatched ex_au ex_host ex_decision_ref None None ex_doubtful = Inl e)"
proof -
  have inv: "work_inv ex_doubtful"
    using empty_work_inv
    by (simp add: ex_doubtful_def work_inv_def typed_def attempts_typed_def numbered_def attempts_active_def
        attempts_on_def attempts_def works_def del: upt_Suc)
  have ok: "dispatch_ok ex_doubtful" by (simp add: ex_doubtful_def dispatch_ok_def tbl_ok_def)
  have doubt: "uncertain ex_doubtful ''X''" by (simp add: ex_doubtful_def uncertain_def unresolved_def ex_sent_def)
  have row: "dispatch_row_of ex_decision_ref ex_doubtful = Inr ex_sent" "di_work_id ex_sent = ''X''"
    by (simp_all add: ex_doubtful_def dispatch_row_of_def ex_sent_def)
  have tr: "tr_work_id ex_transition = ''X''" by (simp add: ex_transition_def)
  show ?thesis
    using one_unresolved_dispatch [OF inv ok reaches.start doubt row tr] by blast
qed


section \<open>A recovery\<close>





end
