(* ===== verification/Spec2Isabelle.thy ===== *)
theory Spec2Isabelle
  imports Runner_Examples Work_Examples
begin

text \<open>
  A verification development of SASTSIMI, a Python program that lets LLM agents look for
  vulnerabilities in a repository and reproduces them in containers.  Three parts carry the state
  that must not go wrong, and they are modelled here: the \<^emph>\<open>simple runtime\<close>, which drives one
  hypothesis through its stages and survives crashes; the \<^emph>\<open>record store\<close> with the budget ledger over
  it; and the \<^emph>\<open>work services\<close>, which authorise actions, start attempts, send effects outside and commit
  the result of a work through a journal.  Paths below are relative to \<open>src/src/sastsimi/\<close>.

  \<^bold>\<open>Conventions.\<close>  A Python exception is a value of \<open>py_error\<close>; a fallible function returns
  \<open>py_error + 'a\<close> (\<open>'a res\<close>, \<open>bindR\<close>); code that writes before it raises returns the state beside
  the outcome (\<open>bindE\<close>).  A SQLite table is a list of rows with a key column (\<open>Tables\<close>), a
  transaction a function from one database to the next, which is dropped when it raises.
  Python's integers are \<open>int\<close> or, where a field constraint excludes negative ones, \<open>nat\<close>; text is
  the list of its UTF-8 bytes; a time is a count of microseconds.  Clocks, fresh identifiers,
  handlers, coordinators, artifact reads and trusted host evidence are arguments of the definitions.
  The work services run in transactions of \<open>Transactions\<close> (\<open>bindT\<close>: state and error at once); there the
  clock and the identifiers are a \<open>host\<close>, two sequences read at a counter that each call advances.

  \<^bold>\<open>Canonical values.\<close>  \<open>Canonical_Json\<close>, \<open>Sha256\<close>, \<open>Wire\<close>: \<open>contracts/canonical_json.py\<close> with its
  rejections and its text, the hash of the standard library, and the strict reading back.
  \<open>Contract_Refs\<close>, \<open>Contract_Values\<close>: \<open>contracts/records.py\<close>, \<open>contracts/refs.py\<close>, \<open>contracts/base.py\<close>
  and \<open>storage/records.py\<close>, that is record metadata, the revision rule, the four kinds of reference
  with their scopes, field constraints, and the metadata of a next revision.

  \<^bold>\<open>Simple runtime.\<close>  \<open>Stage_Models\<close> is \<open>simple_runtime/models.py\<close>; \<open>Activity\<close> and \<open>Lifecycle\<close> the
  append-only history (\<open>storage/agent_activity.py\<close>); \<open>Checkpoint_Store\<close> and \<open>Recovery_Store\<close> the
  operations of \<open>simple_runtime/store.py\<close> on checkpoints, recovery and gate revisions;
  \<open>Recovery_Policy\<close> the decision types of \<open>simple_runtime/recovery.py\<close>; \<open>Codex_Ledger\<close> the ledger of
  model calls of the same store; \<open>Runner\<close> the whole of \<open>simple_runtime/runner.py\<close>.
  \<open>Store_Invariant\<close>, \<open>Store_Steps\<close> and \<open>Store_Properties\<close> show what each store operation keeps and
  promises, over every reachable database; \<open>Ledger_Properties\<close> does so for the call ledger;
  \<open>Runner_Invariant\<close>, \<open>Runner_Rows\<close>, \<open>Runner_Stage\<close> follow a run through the store, and
  \<open>Runner_Progress\<close> and \<open>Runner_Properties\<close> conclude: a run ends, leaves the store well formed,
  reports completion only for a complete hypothesis and stops asking at the attempt limit.
  \<open>Store_Examples\<close> and \<open>Runner_Examples\<close> evaluate the model and instantiate every property.

  \<^bold>\<open>Contracts.\<close>  \<open>Work_Contracts\<close> (\<open>contracts/work.py\<close>), \<open>Action_Contracts\<close> (\<open>contracts/actions.py\<close>) and
  \<open>Budget_Contracts\<close> (\<open>contracts/budget.py\<close>, and the run state of \<open>contracts/analysis.py\<close>) hold every
  enumeration with its text, every model as a record with its serialised value (\<open>_value\<close>), its field
  constraints (\<open>_ok\<close>), the references whose scope is checked (\<open>_refs\<close>) and its validators in their
  order, and the checks between records.

  \<^bold>\<open>Record store and budget.\<close>  \<open>Record_Store\<close> is \<open>storage/codec.py\<close>, \<open>storage/repositories.py\<close> and
  \<open>storage/run_states.py\<close> over the tables of \<open>storage/models.py\<close>.  \<open>Record_Invariant\<close> and
  \<open>Record_Properties\<close> show that rows are immutable, that what is staged resolves, and that published
  revisions form one chain, which \<open>is_revision_descendant\<close> decides; \<open>Record_Encoding\<close> that every
  modelled record can be encoded.  \<open>Budget_Registry\<close> is \<open>storage/budget_registry.py\<close>,
  \<open>storage/budget_limits.py\<close> and the ancestor search of \<open>storage/budget_hierarchy.py\<close>;
  \<open>Budget_Service\<close> the caps of that file, \<open>storage/budget_service.py\<close> and the reservation part of
  \<open>storage/action_validator.py\<close>.  \<open>Budget_Invariant\<close>, \<open>Budget_Steps\<close> and \<open>Budget_Preservation\<close> carry
  the invariant through each operation; \<open>Budget_Properties\<close> states what holds in every reachable
  database: usage stays within the pinned profile up to what committed usage exceeded its own
  reservation by, the ledger is numbered without gaps, a reservation is settled once, replays change
  nothing.  \<open>Budget_Book\<close> is the abstract specification, a book of grants, and the refinement.
  \<open>Budget_Examples\<close> runs the ledger from the empty database and instantiates the properties; content
  hashes stay symbolic there, because only their existence matters.

  \<^bold>\<open>Work services.\<close>  \<open>Process_Contracts\<close> holds the assignment and the process of a hypothesis
  (\<open>contracts/hypothesis.py\<close>), the state of a dynamic reproduction (\<open>contracts/dynamic.py\<close>) and the code
  workspace (\<open>contracts/static.py\<close>).  \<open>Work_Store\<close>: the tables of works, decisions, dispatches, run
  controls and journals, the cancellation latch of \<open>storage/run_control.py\<close> and the current pointers.
  \<open>Action_Policy\<close>: \<open>storage/action_policy.py\<close>, \<open>storage/current_inputs.py\<close>, \<open>storage/action_context.py\<close>.
  \<open>Final_Policy\<close>: the evidence behind the final stages (\<open>storage/stage_policy.py\<close>, \<open>contracts/gates.py\<close>)
  and the restart of a generation (\<open>storage/restart_policy.py\<close>).  \<open>Context_Policy\<close>:
  \<open>storage/context_policy.py\<close>.  \<open>Llm_Context\<close>: \<open>storage/llm_context.py\<close> and \<open>contracts/llm_closure.py\<close>, what
  a model call may be shown.  \<open>Stage_Policy\<close>: \<open>storage/stage_policy.py\<close>.  \<open>Intermediate_Policy\<close>: the receipt of what an
  authorization covers (\<open>storage/output_receipts.py\<close>), the records a running attempt may publish early
  (\<open>storage/intermediate_policy.py\<close>), the outputs a candidate stands for (\<open>storage/output_closures.py\<close>)
  and their owners (\<open>contracts/result_registry.py\<close>).  \<open>Action_Validator\<close>: \<open>storage/authorization.py\<close>,
  \<open>storage/dispatches.py\<close> and \<open>storage/action_validator.py\<close>, whose \<open>record_invocation\<close> is \<open>Llm_Invocation\<close>.
  \<open>Work_Service\<close>: \<open>storage/work_service.py\<close>, \<open>storage/attempt_service.py\<close>, \<open>storage/lease_recovery.py\<close>
  and the projections \<open>storage/verification_state.py\<close>, \<open>storage/dynamic_state.py\<close>.  \<open>Transition_Service\<close>:
  \<open>storage/transition_service.py\<close>, that is commit with check, journal, finish and abort, recovery of
  prepared journals, and cancellation.  \<open>Intermediate_Publication\<close>:
  \<open>storage/intermediate_publication.py\<close>, what an attempt publishes before its commit.  \<open>Recovery_Service\<close>: \<open>storage/recovery_service.py\<close>, the start of the
  runtime with the closing of leases that ran out.
  \<open>Work_Frames\<close> states once what every operation leaves alone, as four locales that extend each other
  and are interpreted for each relation of the proofs; \<open>Work_Effects\<close> and \<open>Work_Operations\<close> say what each
  operation changes; \<open>Work_Steps\<close> is the step relation of the services and \<open>Work_Invariant\<close> its
  invariant.  \<open>Work_Properties\<close>: the work table is typed, attempts are numbered and one at a time, works
  follow their life cycle, the latch only lets works be cancelled.  \<open>Work_Soundness\<close>: the services keep
  the invariants of the record store and the ledger, and the parallel limit.  \<open>Work_Safety\<close>: a decision is
  used once, an unknown effect excludes every other one of its work.  \<open>Work_Admission\<close>: an allowed action
  was admitted by its role on the current version of its work, and a report draft only behind the gates.
  \<open>Work_Recovery\<close> and
  \<open>Work_Liveness\<close>: recovery settles the prepared journals, and returns.  \<open>Work_Restart\<close>: the operations
  that take several transactions are runs of the step relation also when they raise, so a recovery
  keeps every invariant, and a recovery that failed locks the services out.  \<open>Work_Examples\<close> authorises and
  registers a work from the empty database, crashes with a prepared transition and recovers it.

  \<^bold>\<open>Fuel and termination.\<close>  The stage loop \<open>resume_loop\<close> counts rounds; \<open>resume_terminates\<close> shows that
  some number of rounds is enough for every store and every environment that leaves the checkpoint
  rows alone, so a statement about a run is a statement about the loop of the source.  The searches
  along record chains (\<open>revision_walk\<close>, \<open>verification_root\<close>) are total: the identifiers they have
  visited, a subset of the stored ones, bound them.  All other recursion is structural.

  \<^bold>\<open>Not modelled.\<close>  Stage handlers, prompts, providers, Docker and process control are input and
  output with the outside; so are the artifact files, whose staging and promotion \<open>commit\<close> and \<open>finish\<close>
  call between their transactions.  The application service and the dashboard orchestrate processes and
  views.  The facts and surfaces of the scanned repository are analyses of Python syntax trees.
  In \<open>simple_runtime/store.py\<close>, the repairs of exhausted PoC stages and the tables of the static,
  candidate and surface subsystems, and the cleanup confirmations that inspect operating-system
  processes.  In the work services, the outputs that have a projection of their own (\<open>PROJECTED_KINDS\<close>:
  policy, hypothesis, verification and dynamic results, findings, primitives, chaining, report drafts,
  repository profiles), so a commit request of the model is a \<open>plain_request\<close>; the decoding of the
  context ceiling from its file;
  \<open>integrity.verify\<close> and \<open>check_ready\<close>, which read files and the schema and are arguments of \<open>recover\<close>;
  the reading of the artifact of a model call, a field of \<open>authority\<close>;
  \<open>reconcile_cancellation\<close> and \<open>mark_quiescent\<close>, which compare inventories of operating-system
  resources; the pinning of budgets with host approvals and the configuration registry.
\<close>

end
